(* ===== verification/Prelude.thy ===== *)
theory Prelude
  imports Main "HOL-Library.Word"
begin

text \<open>
  Shared vocabulary of the development: how Go results, errors and panics are values of
  the model, and the generic facts on lists that several components use.

  A Go function that returns \<open>(T, error)\<close> and may also panic is a function into
  \<open>'a outcome\<close>: \<open>OK\<close> is the value with a nil error, \<open>ERR\<close> a
  non-nil error, \<open>PANIC\<close> an unrecovered panic. A method that mutates its receiver
  and can still fail returns the receiver beside the outcome, since in Go the mutations made
  before the error stay.
\<close>

section \<open>Go errors and outcomes\<close>

text \<open>The sentinel errors the program compares against with \<open>errors.Is\<close>.\<close>

datatype sentinel = ErrFatal | ErrTransient | ErrNotFound | ErrNoRows

text \<open>An error: its message, and the sentinels it wraps (\<open>fmt.Errorf\<close> with \<open>%w\<close>).\<close>

datatype goerror = Errorf (err_msg: string) (err_wraps: "sentinel list")

definition errors_Is :: "goerror \<Rightarrow> sentinel \<Rightarrow> bool" where
  "errors_Is e s = (s \<in> set (err_wraps e))"

definition wrapf :: "string \<Rightarrow> goerror \<Rightarrow> goerror" where
  "wrapf msg e = Errorf msg (err_wraps e)"

datatype 'a outcome = OK 'a | ERR goerror | PANIC string

fun is_OK :: "'a outcome \<Rightarrow> bool" where
  "is_OK (OK _) = True"
| "is_OK _ = False"

fun is_PANIC :: "'a outcome \<Rightarrow> bool" where
  "is_PANIC (PANIC _) = True"
| "is_PANIC _ = False"

text \<open>Sequencing: stop at the first error or panic.\<close>

fun obind :: "'a outcome \<Rightarrow> ('a \<Rightarrow> 'b outcome) \<Rightarrow> 'b outcome" where
  "obind (OK x) k = k x"
| "obind (ERR e) k = ERR e"
| "obind (PANIC p) k = PANIC p"

text \<open>An optional parse result as an outcome with the given message.\<close>

fun of_option :: "string \<Rightarrow> 'a option \<Rightarrow> 'a outcome" where
  "of_option msg None = ERR (Errorf msg [])"
| "of_option msg (Some x) = OK x"

named_theorems outcome_simps \<open>rewriting of outcomes to disjunctions over their cases\<close>

lemma is_OK_iff [outcome_simps]: "is_OK r \<longleftrightarrow> (\<exists>x. r = OK x)"
  by (cases r) auto

lemma is_PANIC_iff [outcome_simps]: "is_PANIC r \<longleftrightarrow> (\<exists>p. r = PANIC p)"
  by (cases r) auto

lemma obind_OK_iff [outcome_simps]: "obind r k = OK y \<longleftrightarrow> (\<exists>x. r = OK x \<and> k x = OK y)"
  by (cases r) auto

lemma obind_ERR_iff [outcome_simps]:
  "obind r k = ERR e \<longleftrightarrow> r = ERR e \<or> (\<exists>x. r = OK x \<and> k x = ERR e)"
  by (cases r) auto

lemma obind_PANIC_iff [outcome_simps]:
  "obind r k = PANIC p \<longleftrightarrow> r = PANIC p \<or> (\<exists>x. r = OK x \<and> k x = PANIC p)"
  by (cases r) auto

lemma of_option_OK_iff [outcome_simps, simp]: "of_option msg o' = OK x \<longleftrightarrow> o' = Some x"
  by (cases o') auto

lemma of_option_not_PANIC [simp]: "of_option msg o' \<noteq> PANIC p"
  by (cases o') auto

lemma obind_assoc: "obind (obind r f) g = obind r (\<lambda>x. obind (f x) g)"
  by (cases r) auto

lemma obind_OK_right [simp]: "obind r OK = r"
  by (cases r) auto

lemma obind_cong [fundef_cong]:
  "r = r' \<Longrightarrow> (\<And>x. r' = OK x \<Longrightarrow> k x = k' x) \<Longrightarrow> obind r k = obind r' k'"
  by (cases r) auto

text \<open>Applying a fallible function to every element, in order, stopping at the first failure.\<close>

fun omap :: "('a \<Rightarrow> 'b outcome) \<Rightarrow> 'a list \<Rightarrow> 'b list outcome" where
  "omap f [] = OK []"
| "omap f (x # xs) = obind (f x) (\<lambda>y. obind (omap f xs) (\<lambda>ys. OK (y # ys)))"

lemma omap_OK_iff: "omap f xs = OK ys \<longleftrightarrow> list_all2 (\<lambda>x y. f x = OK y) xs ys"
proof (induction xs arbitrary: ys)
  case (Cons x xs)
  then show ?case
    by (cases ys) (auto simp: outcome_simps list_all2_Cons1)
qed auto

lemma omap_OK_length: "omap f xs = OK ys \<Longrightarrow> length ys = length xs"
  by (auto simp: omap_OK_iff dest: list_all2_lengthD)

section \<open>Rows of a table\<close>

text \<open>
  A table is a list of rows in insertion order. The SQL statements the storage backend
  writes are a selection, an update of the selected rows and an insertion.
\<close>

definition update_where :: "('r \<Rightarrow> bool) \<Rightarrow> ('r \<Rightarrow> 'r) \<Rightarrow> 'r list \<Rightarrow> 'r list" where
  "update_where p f rs = map (\<lambda>r. if p r then f r else r) rs"

lemma update_where_Nil [simp]: "update_where p f [] = []"
  by (simp add: update_where_def)

lemma update_where_Cons [simp]:
  "update_where p f (r # rs) = (if p r then f r else r) # update_where p f rs"
  by (simp add: update_where_def)

lemma update_where_none: "(\<And>r. r \<in> set rs \<Longrightarrow> \<not> p r) \<Longrightarrow> update_where p f rs = rs"
  by (induction rs) auto

lemma update_where_id: "(\<And>r. r \<in> set rs \<Longrightarrow> p r \<Longrightarrow> f r = r) \<Longrightarrow> update_where p f rs = rs"
  by (induction rs) auto

lemma length_update_where [simp]: "length (update_where p f rs) = length rs"
  by (simp add: update_where_def)

lemma map_update_where:
  "(\<And>r. g (f r) = g r) \<Longrightarrow> map g (update_where p f rs) = map g rs"
  by (simp add: update_where_def)

lemma set_update_where:
  "set (update_where p f rs) = f ` {r \<in> set rs. p r} \<union> {r \<in> set rs. \<not> p r}"
  by (auto simp: update_where_def)

lemma update_where_twice:
  "(\<And>x. p (f x) = p x) \<Longrightarrow> update_where p g (update_where p f rs) = update_where p (\<lambda>x. g (f x)) rs"
  by (simp add: update_where_def)

lemma filter_eq_singleton_mem: "filter p xs = [x] \<Longrightarrow> x \<in> set xs \<and> p x"
  by (metis Cons_eq_filterD in_set_conv_decomp)

text \<open>Two keyed lookups of one list agree when the key is unique.\<close>

lemma distinct_map_eq: "distinct (map f xs) \<Longrightarrow> x \<in> set xs \<Longrightarrow> y \<in> set xs \<Longrightarrow> f x = f y \<Longrightarrow> x = y"
  by (auto simp: distinct_map dest: inj_onD)

lemma distinct_key_filter:
  "distinct (map f xs) \<Longrightarrow> x \<in> set xs \<Longrightarrow> filter (\<lambda>y. f y = f x) xs = [x]"
proof (induction xs)
  case (Cons a xs)
  show ?case
  proof (cases "x = a")
    case True
    with Cons.prems have "filter (\<lambda>y. f y = f x) xs = []"
      by (auto simp: filter_empty_conv) (metis imageI)
    with True show ?thesis by simp
  next
    case False
    with Cons.prems have "x \<in> set xs" and "f a \<noteq> f x" by force+
    with Cons show ?thesis by simp
  qed
qed simp

end
