(* ===== verification/Go_Std.thy ===== *)
theory Go_Std
  imports Prelude
begin

text \<open>
  The functions of Go's standard library that the program uses on strings, numbers and
  slash-separated paths: packages \<open>strings\<close>, \<open>strconv\<close>, \<open>path\<close> and
  \<open>slices\<close>. A string is its list of bytes. \<open>strings.ToLower\<close> is given on the ASCII
  letters and leaves other bytes alone; every string the program compares after lowering is a
  URN, a UUID or an OID, which are ASCII.
\<close>

section \<open>strings\<close>

definition lower_char :: "char \<Rightarrow> char" where
  "lower_char c = (let n = (of_char c :: nat) in if 65 \<le> n \<and> n \<le> 90 then char_of (n + 32) else c)"

definition ToLower :: "string \<Rightarrow> string" where
  "ToLower s = map lower_char s"

definition HasPrefix :: "string \<Rightarrow> string \<Rightarrow> bool" where
  "HasPrefix s p = (take (length p) s = p)"

definition TrimPrefix :: "string \<Rightarrow> string \<Rightarrow> string" where
  "TrimPrefix s p = (if HasPrefix s p then drop (length p) s else s)"

text \<open>\<open>strings.SplitN\<close> for a separator of one byte.\<close>

fun SplitN :: "char \<Rightarrow> nat \<Rightarrow> string \<Rightarrow> string list" where
  "SplitN c 0 s = []"
| "SplitN c (Suc 0) s = [s]"
| "SplitN c (Suc (Suc n)) s =
     (if c \<in> set s
      then takeWhile (\<lambda>x. x \<noteq> c) s # SplitN c (Suc n) (tl (dropWhile (\<lambda>x. x \<noteq> c) s))
      else [s])"

text \<open>\<open>strings.Split\<close> for a separator of one byte, and \<open>strings.Join\<close>.\<close>

fun Split :: "char \<Rightarrow> string \<Rightarrow> string list" where
  "Split c [] = [[]]"
| "Split c (x # xs) =
     (if x = c then [] # Split c xs
      else case Split c xs of [] \<Rightarrow> [[x]] | w # ws \<Rightarrow> (x # w) # ws)"

fun Join :: "char \<Rightarrow> string list \<Rightarrow> string" where
  "Join c [] = []"
| "Join c [w] = w"
| "Join c (w # v # ws) = w @ c # Join c (v # ws)"

lemma of_char_less_256 [simp]: "(of_char c :: nat) < 256"
  by (metis nat_of_char_less_256)

lemma lower_char_idem [simp]: "lower_char (lower_char c) = lower_char c"
  by (auto simp: lower_char_def Let_def)

lemma ToLower_idem [simp]: "ToLower (ToLower s) = ToLower s"
  by (simp add: ToLower_def)

lemma ToLower_append [simp]: "ToLower (s @ t) = ToLower s @ ToLower t"
  by (simp add: ToLower_def)

lemma HasPrefix_append [simp]: "HasPrefix (p @ s) p"
  by (simp add: HasPrefix_def)

lemma TrimPrefix_append [simp]: "TrimPrefix (p @ s) p = s"
  by (simp add: TrimPrefix_def)

lemma HasPrefixD: "HasPrefix s p \<Longrightarrow> \<exists>t. s = p @ t"
  by (metis HasPrefix_def append_take_drop_id)

lemma takeWhile_sep: "c \<notin> set w \<Longrightarrow> takeWhile (\<lambda>x. x \<noteq> c) (w @ c # t) = w"
  by (induction w) auto

lemma dropWhile_sep: "c \<notin> set w \<Longrightarrow> dropWhile (\<lambda>x. x \<noteq> c) (w @ c # t) = c # t"
  by (induction w) auto

lemma Split_nonempty [simp]: "Split c s \<noteq> []"
  by (induction s) (auto split: list.splits)

lemma Split_no_sep: "c \<notin> set s \<Longrightarrow> Split c s = [s]"
  by (induction s) auto

lemma Split_cons_sep: "c \<notin> set w \<Longrightarrow> Split c (w @ c # t) = w # Split c t"
  by (induction w) auto

lemma Split_Join:
  "ws \<noteq> [] \<Longrightarrow> (\<And>w. w \<in> set ws \<Longrightarrow> c \<notin> set w) \<Longrightarrow> Split c (Join c ws) = ws"
proof (induction c ws rule: Join.induct)
  case (2 c w)
  then show ?case by (simp add: Split_no_sep)
next
  case (3 c w v ws)
  then show ?case by (simp add: Split_cons_sep)
qed simp

lemma Join_Split: "Join c (Split c s) = s"
proof (induction s)
  case (Cons x xs)
  show ?case
  proof (cases "Split c xs")
    case Nil
    then show ?thesis by simp
  next
    case (Cons w ws)
    with Cons.IH show ?thesis by (cases ws) auto
  qed
qed simp

lemma Split_parts_no_sep: "w \<in> set (Split c s) \<Longrightarrow> c \<notin> set w"
proof (induction s arbitrary: w)
  case (Cons x xs)
  then show ?case by (cases "Split c xs") (auto split: if_splits)
qed simp

lemma Split_subset: "w \<in> set (Split c s) \<Longrightarrow> set w \<subseteq> set s"
proof (induction s arbitrary: w)
  case (Cons x xs)
  then show ?case
    by (cases "Split c xs") (auto split: if_splits, blast+)
qed simp

lemma set_Join: "set (Join c ws) \<subseteq> insert c (\<Union> (set ` set ws))"
  by (induction c ws rule: Join.induct) auto

section \<open>strconv\<close>

definition digit_char :: "nat \<Rightarrow> char" where
  "digit_char d = char_of (48 + d)"

definition is_digit :: "char \<Rightarrow> bool" where
  "is_digit c = (let n = (of_char c :: nat) in 48 \<le> n \<and> n \<le> 57)"

definition digit_val :: "char \<Rightarrow> nat" where
  "digit_val c = of_char c - 48"

fun show_nat :: "nat \<Rightarrow> string" where
  "show_nat n = (if n < 10 then [digit_char n] else show_nat (n div 10) @ [digit_char (n mod 10)])"

declare show_nat.simps [simp del]

definition read_nat :: "string \<Rightarrow> nat" where
  "read_nat s = foldl (\<lambda>acc c. 10 * acc + digit_val c) 0 s"

text \<open>\<open>strconv.FormatInt(i, 10)\<close>.\<close>

definition FormatInt :: "int \<Rightarrow> string" where
  "FormatInt i = (if i < 0 then CHR ''-'' # show_nat (nat (- i)) else show_nat (nat i))"

text \<open>\<open>strconv.ParseInt(s, 10, 64)\<close>: an optional sign, at least one digit, the int64 range.\<close>

definition ParseInt64 :: "string \<Rightarrow> int outcome" where
  "ParseInt64 s =
     (let neg = HasPrefix s ''-'';
          body = (if neg \<or> HasPrefix s ''+'' then tl s else s);
          v = (if neg then - int (read_nat body) else int (read_nat body))
      in if body = [] \<or> \<not> list_all is_digit body then ERR (Errorf ''invalid syntax'' [])
         else if v < - (2 ^ 63) \<or> 2 ^ 63 \<le> v then ERR (Errorf ''value out of range'' [])
         else OK v)"

lemma of_char_digit_char: "d < 10 \<Longrightarrow> (of_char (digit_char d) :: nat) = 48 + d"
  by (simp add: digit_char_def of_char_of take_bit_nat_eq_self_iff)

lemma digit_val_digit_char: "d < 10 \<Longrightarrow> digit_val (digit_char d) = d"
  by (simp add: digit_val_def of_char_digit_char)

lemma is_digit_digit_char: "d < 10 \<Longrightarrow> is_digit (digit_char d)"
  by (simp add: is_digit_def of_char_digit_char Let_def)

lemma show_nat_nonempty [simp]: "show_nat n \<noteq> []"
  by (subst show_nat.simps) simp

lemma show_nat_digits: "list_all is_digit (show_nat n)"
proof (induction n rule: show_nat.induct)
  case (1 n)
  then show ?case
    by (subst show_nat.simps) (auto simp: is_digit_digit_char)
qed

lemma read_nat_snoc: "read_nat (s @ [c]) = 10 * read_nat s + digit_val c"
  by (simp add: read_nat_def)

lemma read_show_nat [simp]: "read_nat (show_nat n) = n"
proof (induction n rule: show_nat.induct)
  case (1 n)
  show ?case
  proof (cases "n < 10")
    case True
    then show ?thesis
      by (subst show_nat.simps) (simp add: read_nat_def digit_val_digit_char)
  next
    case False
    with 1 show ?thesis
      by (subst show_nat.simps) (simp add: read_nat_snoc digit_val_digit_char)
  qed
qed

lemma show_nat_inj: "show_nat m = show_nat n \<Longrightarrow> m = n"
  by (metis read_show_nat)

lemma is_digit_not_sign: "is_digit c \<Longrightarrow> c \<noteq> CHR ''-'' \<and> c \<noteq> CHR ''+'' \<and> c \<noteq> CHR ''.''"
  by (auto simp: is_digit_def)

lemma show_nat_no_sign: "\<not> HasPrefix (show_nat n) ''-''" "\<not> HasPrefix (show_nat n) ''+''"
proof -
  obtain c cs where cs: "show_nat n = c # cs"
    by (metis show_nat_nonempty neq_Nil_conv)
  with show_nat_digits[of n] have "is_digit c" by simp
  then show "\<not> HasPrefix (show_nat n) ''-''" "\<not> HasPrefix (show_nat n) ''+''"
    using is_digit_not_sign cs by (auto simp: HasPrefix_def)
qed

lemma ParseInt64_FormatInt_nonneg:
  "0 \<le> i \<Longrightarrow> i < 2 ^ 63 \<Longrightarrow> ParseInt64 (FormatInt i) = OK i"
  by (simp add: ParseInt64_def FormatInt_def show_nat_no_sign show_nat_digits)

lemma ParseInt64_OK_bounds: "ParseInt64 s = OK v \<Longrightarrow> - (2 ^ 63) \<le> v \<and> v < 2 ^ 63"
  by (auto simp: ParseInt64_def Let_def split: if_splits)

lemma ParseInt64_digits:
  "list_all is_digit s \<Longrightarrow> ParseInt64 s = OK v \<Longrightarrow> v = int (read_nat s) \<and> s \<noteq> []"
  by (cases s) (auto simp: ParseInt64_def HasPrefix_def Let_def split: if_splits dest: is_digit_not_sign)

section \<open>path\<close>

text \<open>
  \<open>path.Clean\<close>: the elements between slashes, with \<open>.\<close> and empty elements dropped
  and \<open>..\<close> removing the element before it; \<open>stack\<close> holds the kept elements, last first.
\<close>

fun clean_segs :: "bool \<Rightarrow> string list \<Rightarrow> string list \<Rightarrow> string list" where
  "clean_segs rooted stack [] = rev stack"
| "clean_segs rooted stack (w # ws) =
     (if w = [] \<or> w = ''.'' then clean_segs rooted stack ws
      else if w = ''..'' then
        (case stack of
           [] \<Rightarrow> clean_segs rooted (if rooted then [] else [w]) ws
         | v # vs \<Rightarrow> clean_segs rooted (if v = ''..'' then w # stack else vs) ws)
      else clean_segs rooted (w # stack) ws)"

definition path_Clean :: "string \<Rightarrow> string" where
  "path_Clean s =
     (let rooted = HasPrefix s ''/'';
          out = Join CHR ''/'' (clean_segs rooted [] (Split CHR ''/'' s))
      in if rooted then CHR ''/'' # out else if out = [] then ''.'' else out)"

definition path_Join :: "string list \<Rightarrow> string" where
  "path_Join ws =
     (let ne = filter (\<lambda>w. w \<noteq> []) ws in if ne = [] then [] else path_Clean (Join CHR ''/'' ne))"

text \<open>An element that \<open>path.Clean\<close> keeps as it is.\<close>

definition plain_seg :: "string \<Rightarrow> bool" where
  "plain_seg w \<longleftrightarrow> w \<noteq> [] \<and> w \<noteq> ''.'' \<and> w \<noteq> ''..'' \<and> CHR ''/'' \<notin> set w"

lemma clean_segs_plain:
  "list_all plain_seg ws \<Longrightarrow> clean_segs rooted stack ws = rev stack @ ws"
  by (induction ws arbitrary: stack) (auto simp: plain_seg_def)

lemma Split_Join_plain:
  "ws \<noteq> [] \<Longrightarrow> list_all plain_seg ws \<Longrightarrow> Split CHR ''/'' (Join CHR ''/'' ws) = ws"
  by (simp add: Split_Join plain_seg_def list_all_iff)

lemma path_Clean_rooted_plain:
  assumes "list_all plain_seg ws"
  shows "path_Clean (CHR ''/'' # Join CHR ''/'' ws) = CHR ''/'' # Join CHR ''/'' ws"
proof (cases "ws = []")
  case True
  then show ?thesis by (simp add: path_Clean_def HasPrefix_def)
next
  case False
  with assms show ?thesis
    by (simp add: path_Clean_def HasPrefix_def Split_Join_plain clean_segs_plain)
qed

lemma Join_append:
  "us \<noteq> [] \<Longrightarrow> ws \<noteq> [] \<Longrightarrow> Join c (us @ ws) = Join c us @ c # Join c ws"
proof (induction c us rule: Join.induct)
  case (2 c w)
  then show ?case by (cases ws) auto
qed auto

text \<open>Joining plain elements to a rooted plain path appends them.\<close>

lemma path_Join_rooted_plain:
  assumes "us \<noteq> []" "list_all plain_seg us" "ws \<noteq> []" "list_all plain_seg ws"
  shows "path_Join ((CHR ''/'' # Join CHR ''/'' us) # ws) = CHR ''/'' # Join CHR ''/'' (us @ ws)"
proof -
  have ne: "filter (\<lambda>w. w \<noteq> []) ws = ws"
    using assms(4) by (auto simp: plain_seg_def list_all_iff intro!: filter_True)
  obtain w ws' where ws: "ws = w # ws'" using assms(3) by (cases ws) auto
  have "Join CHR ''/'' ((CHR ''/'' # Join CHR ''/'' us) # ws)
      = CHR ''/'' # Join CHR ''/'' (us @ ws)"
    using assms(1) ws by (simp add: Join_append)
  moreover have "list_all plain_seg (us @ ws)" using assms by simp
  ultimately show ?thesis
    using ne by (simp add: path_Join_def path_Clean_rooted_plain)
qed

end
