(* ===== verification/Jsonld.thy ===== *)
theory Jsonld
  imports Go_Std
begin

text \<open>
  JSON values and the JSON-LD contexts of \<open>jsonld/context.go\<close>. JSON text itself is not
  modelled: a document is its value, an object the list of its members in textual order.
  Decoding into a Go struct takes, for each field, the last member whose key equals the field's
  name up to case, and \<open>null\<close> leaves the field alone, as \<open>encoding/json\<close> documents.
\<close>

datatype json =
    JNull | JBool bool | JNum string | JString string | JList "json list"
  | JObject "(string \<times> json) list"

section \<open>Decoding into Go values\<close>

definition bad_json :: "string \<Rightarrow> 'a outcome" where
  "bad_json what = ERR (Errorf what [])"

text \<open>\<open>json.Unmarshal\<close> into a string that holds \<open>old\<close>.\<close>

fun Unmarshal_string :: "string \<Rightarrow> json \<Rightarrow> string outcome" where
  "Unmarshal_string old (JString s) = OK s"
| "Unmarshal_string old JNull = OK old"
| "Unmarshal_string old _ = bad_json ''cannot unmarshal into string''"

fun Unmarshal_strings :: "json \<Rightarrow> string list outcome" where
  "Unmarshal_strings (JList js) = omap (Unmarshal_string []) js"
| "Unmarshal_strings JNull = OK []"
| "Unmarshal_strings _ = bad_json ''cannot unmarshal into []string''"

section \<open>Context entries\<close>

record ContextEntry =
  ce_ID :: string
  ce_Type :: string

text \<open>The members of an object, one by one, stored into the two fields.\<close>

fun entry_fields :: "ContextEntry \<Rightarrow> (string \<times> json) list \<Rightarrow> ContextEntry outcome" where
  "entry_fields e [] = OK e"
| "entry_fields e ((k, v) # ms) =
     (if ToLower k = ''@id'' then
        obind (Unmarshal_string (ce_ID e) v) (\<lambda>s. entry_fields (e\<lparr>ce_ID := s\<rparr>) ms)
      else if ToLower k = ''@type'' then
        obind (Unmarshal_string (ce_Type e) v) (\<lambda>s. entry_fields (e\<lparr>ce_Type := s\<rparr>) ms)
      else entry_fields e ms)"

definition zero_entry :: ContextEntry where
  "zero_entry = \<lparr>ce_ID = [], ce_Type = []\<rparr>"

fun Unmarshal_entry_struct :: "json \<Rightarrow> ContextEntry outcome" where
  "Unmarshal_entry_struct (JObject ms) = entry_fields zero_entry ms"
| "Unmarshal_entry_struct JNull = OK zero_entry"
| "Unmarshal_entry_struct _ = bad_json ''cannot unmarshal into struct''"

definition ContextEntry_UnmarshalJSON :: "json \<Rightarrow> ContextEntry outcome" where
  "ContextEntry_UnmarshalJSON data =
     (case Unmarshal_entry_struct data of
        OK entry \<Rightarrow> OK entry
      | _ \<Rightarrow> (case Unmarshal_string [] data of
                OK s \<Rightarrow> OK \<lparr>ce_ID = s, ce_Type = []\<rparr>
              | _ \<Rightarrow> bad_json ''couldn't unmarshal ContextEntry''))"

text \<open>\<open>omitempty\<close> leaves an empty \<open>@id\<close> out of the object form.\<close>

definition ContextEntry_MarshalJSON :: "ContextEntry \<Rightarrow> json" where
  "ContextEntry_MarshalJSON ce =
     (if ce_Type ce \<noteq> [] then
        JObject ((if ce_ID ce = [] then [] else [(''@id'', JString (ce_ID ce))])
                 @ [(''@type'', JString (ce_Type ce))])
      else JString (ce_ID ce))"

section \<open>Contexts\<close>

text \<open>A Go map of entries is an association list with distinct keys.\<close>

record Context =
  rootContexts :: "ContextEntry list"
  namedContexts :: "(string \<times> ContextEntry) list"

fun map_put :: "'k \<Rightarrow> 'v \<Rightarrow> ('k \<times> 'v) list \<Rightarrow> ('k \<times> 'v) list" where
  "map_put k v [] = [(k, v)]"
| "map_put k v ((k', v') # m) = (if k = k' then (k, v) # m else (k', v') # map_put k v m)"

fun Unmarshal_entries :: "(string \<times> ContextEntry) list \<Rightarrow> (string \<times> json) list
    \<Rightarrow> (string \<times> ContextEntry) list outcome" where
  "Unmarshal_entries m [] = OK m"
| "Unmarshal_entries m ((k, v) # ms) =
     obind (ContextEntry_UnmarshalJSON v) (\<lambda>e. Unmarshal_entries (map_put k e m) ms)"

fun Unmarshal_entry_map :: "json \<Rightarrow> (string \<times> ContextEntry) list outcome" where
  "Unmarshal_entry_map (JObject ms) = Unmarshal_entries [] ms"
| "Unmarshal_entry_map JNull = OK []"
| "Unmarshal_entry_map _ = bad_json ''cannot unmarshal into map''"

text \<open>A map first, then a list of strings, then a single string; the receiver is fresh.\<close>

definition Context_UnmarshalJSON :: "json \<Rightarrow> Context outcome" where
  "Context_UnmarshalJSON data =
     (case Unmarshal_entry_map data of
        OK nc \<Rightarrow> OK \<lparr>rootContexts = [], namedContexts = nc\<rparr>
      | _ \<Rightarrow> (case Unmarshal_strings data of
                OK lc \<Rightarrow> OK \<lparr>rootContexts = map (\<lambda>i. \<lparr>ce_ID = i, ce_Type = []\<rparr>) lc,
                              namedContexts = []\<rparr>
              | _ \<Rightarrow> (case Unmarshal_string [] data of
                        OK sc \<Rightarrow> OK \<lparr>rootContexts = [\<lparr>ce_ID = sc, ce_Type = []\<rparr>],
                                      namedContexts = []\<rparr>
                      | _ \<Rightarrow> bad_json ''couldn't unmarshal Context'')))"

definition Context_MarshalJSON :: "Context \<Rightarrow> json" where
  "Context_MarshalJSON c =
     (if namedContexts c \<noteq> [] then
        JObject (map (\<lambda>(k, e). (k, ContextEntry_MarshalJSON e)) (namedContexts c))
      else (case rootContexts c of
              [e] \<Rightarrow> ContextEntry_MarshalJSON e
            | es \<Rightarrow> JList (map ContextEntry_MarshalJSON es)))"

definition GetContextsFor :: "Context \<Rightarrow> string \<Rightarrow> ContextEntry list" where
  "GetContextsFor c ns =
     (case map_of (namedContexts c) ns of Some e \<Rightarrow> [e] | None \<Rightarrow> rootContexts c)"

definition GetRootContexts :: "Context \<Rightarrow> ContextEntry list" where
  "GetRootContexts c = rootContexts c"

definition NewRootContext :: "ContextEntry list \<Rightarrow> Context" where
  "NewRootContext es = \<lparr>rootContexts = es, namedContexts = []\<rparr>"

definition NewNamedContext :: "(string \<times> ContextEntry) list \<Rightarrow> Context" where
  "NewNamedContext m = \<lparr>rootContexts = [], namedContexts = m\<rparr>"

section \<open>Round trips\<close>

lemma lower_keys: "ToLower ''@id'' = ''@id''" "ToLower ''@type'' = ''@type''"
  by (code_simp)+

lemma entry_roundtrip: "ContextEntry_UnmarshalJSON (ContextEntry_MarshalJSON e) = OK e"
  by (cases e)
     (simp add: ContextEntry_UnmarshalJSON_def ContextEntry_MarshalJSON_def lower_keys zero_entry_def
        bad_json_def)

lemma map_put_new: "k \<notin> fst ` set m \<Longrightarrow> map_put k v m = m @ [(k, v)]"
  by (induction m) auto

lemma entries_roundtrip:
  "distinct (map fst (acc @ m)) \<Longrightarrow>
   Unmarshal_entries acc (map (\<lambda>(k, e). (k, ContextEntry_MarshalJSON e)) m) = OK (acc @ m)"
proof (induction m arbitrary: acc)
  case (Cons a m)
  obtain k e where a: "a = (k, e)" by force
  with Cons.prems have "k \<notin> fst ` set acc" by auto
  then have "map_put k e acc = acc @ [a]" by (simp add: map_put_new a)
  then show ?case using Cons by (simp add: a entry_roundtrip)
qed simp

lemma strings_roundtrip:
  "\<forall>e \<in> set es. ce_Type e = [] \<Longrightarrow>
   omap (Unmarshal_string []) (map ContextEntry_MarshalJSON es) = OK (map ce_ID es)"
  by (induction es) (auto simp: ContextEntry_MarshalJSON_def)

lemma untyped_entries: "\<forall>e \<in> set es. ce_Type e = [] \<Longrightarrow>
    map (\<lambda>i. \<lparr>ce_ID = i, ce_Type = []\<rparr>) (map ce_ID es) = es"
  by (induction es) auto

text \<open>What the constructors can build from untyped entries, and what parsing can return.\<close>

definition wf_Context :: "Context \<Rightarrow> bool" where
  "wf_Context c = (distinct (map fst (namedContexts c)) \<and> (namedContexts c = [] \<or> rootContexts c = [])
     \<and> (\<forall>e \<in> set (rootContexts c). ce_Type e = []))"

lemma context_roundtrip_aux:
  "wf_Context c \<Longrightarrow> Context_UnmarshalJSON (Context_MarshalJSON c) = OK c"
proof (cases "namedContexts c = []")
  case True
  assume wf: "wf_Context c"
  show ?thesis
  proof (cases "\<exists>e. rootContexts c = [e]")
    case True
    then obtain e where "rootContexts c = [e]" ..
    with wf \<open>namedContexts c = []\<close> show ?thesis
      by (cases c; cases e)
         (simp add: wf_Context_def Context_MarshalJSON_def ContextEntry_MarshalJSON_def
            Context_UnmarshalJSON_def bad_json_def)
  next
    case False
    then have "Context_MarshalJSON c = JList (map ContextEntry_MarshalJSON (rootContexts c))"
      using \<open>namedContexts c = []\<close> by (simp add: Context_MarshalJSON_def split: list.split)
    with wf \<open>namedContexts c = []\<close> show ?thesis
      using strings_roundtrip[of "rootContexts c"] untyped_entries[of "rootContexts c"]
      by (cases c) (simp add: wf_Context_def Context_UnmarshalJSON_def bad_json_def)
  qed
next
  case False
  assume "wf_Context c"
  with False show ?thesis
    using entries_roundtrip[of "[]" "namedContexts c"]
    by (cases c) (simp add: wf_Context_def Context_MarshalJSON_def Context_UnmarshalJSON_def)
qed

lemma map_put_keys: "fst ` set (map_put k v m) = insert k (fst ` set m)"
  by (induction m) (simp_all add: insert_commute split: prod.splits, force)

lemma map_put_distinct: "distinct (map fst m) \<Longrightarrow> distinct (map fst (map_put k v m))"
  by (induction m) (auto simp: map_put_keys split: prod.splits)

lemma Unmarshal_entries_distinct:
  "Unmarshal_entries m ms = OK m' \<Longrightarrow> distinct (map fst m) \<Longrightarrow> distinct (map fst m')"
  by (induction m ms rule: Unmarshal_entries.induct) (auto simp: outcome_simps map_put_distinct)

lemma Unmarshal_wf: "Context_UnmarshalJSON data = OK c \<Longrightarrow> wf_Context c"
proof -
  assume c: "Context_UnmarshalJSON data = OK c"
  have "Unmarshal_entry_map data = OK nc \<Longrightarrow> distinct (map fst nc)" for nc
    by (cases data) (auto simp: bad_json_def dest: Unmarshal_entries_distinct)
  with c show ?thesis
    by (auto simp: Context_UnmarshalJSON_def wf_Context_def bad_json_def split: outcome.splits)
qed

text \<open>A JSON-LD context that was read from a document is written back as a document that is
  read as the same context, and so is every context built from entries without a type.\<close>

theorem context_roundtrip:
  "(\<forall>data. Context_UnmarshalJSON data = OK c \<longrightarrow> Context_UnmarshalJSON (Context_MarshalJSON c) = OK c)
   \<and> Context_UnmarshalJSON (Context_MarshalJSON (NewRootContext (map (\<lambda>i. \<lparr>ce_ID = i, ce_Type = []\<rparr>) ids)))
       = OK (NewRootContext (map (\<lambda>i. \<lparr>ce_ID = i, ce_Type = []\<rparr>) ids))"
  using context_roundtrip_aux[of c] Unmarshal_wf[of _ c]
    context_roundtrip_aux[of "NewRootContext (map (\<lambda>i. \<lparr>ce_ID = i, ce_Type = []\<rparr>) ids)"]
  by (auto simp: NewRootContext_def wf_Context_def)

lemma context_roundtrip_witness:
  "Context_UnmarshalJSON (JObject [(''dct'', JString ''http://purl.org/dc/terms/'')])
     = OK (NewNamedContext [(''dct'', \<lparr>ce_ID = ''http://purl.org/dc/terms/'', ce_Type = []\<rparr>)]) \<and>
   Context_UnmarshalJSON (Context_MarshalJSON
       (NewNamedContext [(''dct'', \<lparr>ce_ID = ''http://purl.org/dc/terms/'', ce_Type = []\<rparr>)]))
     = OK (NewNamedContext [(''dct'', \<lparr>ce_ID = ''http://purl.org/dc/terms/'', ce_Type = []\<rparr>)])"
proof -
  let ?c = "NewNamedContext [(''dct'', \<lparr>ce_ID = ''http://purl.org/dc/terms/'', ce_Type = []\<rparr>)]"
  have "Context_UnmarshalJSON (JObject [(''dct'', JString ''http://purl.org/dc/terms/'')]) = OK ?c"
    by (simp add: Context_UnmarshalJSON_def ContextEntry_UnmarshalJSON_def bad_json_def NewNamedContext_def)
  then show ?thesis
    using context_roundtrip[of ?c "[]"] by blast
qed

text \<open>A single root entry with a type is written as an object, and read back as two named
  contexts: the type and the identifier swap levels.\<close>

lemma typed_root_not_roundtrip:
  "Context_UnmarshalJSON (Context_MarshalJSON (NewRootContext [\<lparr>ce_ID = ''a'', ce_Type = ''b''\<rparr>]))
     = OK (NewNamedContext [(''@id'', \<lparr>ce_ID = ''a'', ce_Type = []\<rparr>), (''@type'', \<lparr>ce_ID = ''b'', ce_Type = []\<rparr>)])"
  by (simp add: Context_UnmarshalJSON_def Context_MarshalJSON_def ContextEntry_MarshalJSON_def
      ContextEntry_UnmarshalJSON_def NewRootContext_def NewNamedContext_def bad_json_def)

end
