(* ===== verification/Odrl.thy ===== *)
theory Odrl
  imports Jsonld
begin

text \<open>
  The ODRL policies of \<open>odrl/types.go\<close> and the validation their struct tags ask for, with the
  three custom validators of \<open>odrl/validators.go\<close>. An embedded struct is a field. The
  \<open>validator\<close> package visits nested structs, and the elements of a slice tagged \<open>dive\<close>.
\<close>

record AbstractPolicyRule =
  Assigner :: string
  Assignee :: string

record Reference =
  ref_ID :: string

record Constraint =
  RightOperand :: string
  RightOperandReference :: Reference
  LeftOperand :: string
  con_Operator :: string

record Duty =
  duty_rule :: AbstractPolicyRule
  duty_ID :: string
  duty_Action :: string
  duty_Constraint :: "Constraint list"

record Permission =
  perm_rule :: AbstractPolicyRule
  perm_Action :: string
  perm_Constraint :: "Constraint list"
  perm_Duty :: Duty

record PolicyClass =
  pol_rule :: AbstractPolicyRule
  pol_ID :: string
  ProviderID :: string
  pol_Profile :: "Reference list"
  pol_Permission :: "Permission list"
  Obligation :: "Duty list"
  Prohibition :: "json list"

record MessageOffer =
  mo_policy :: PolicyClass
  mo_Type :: string
  mo_Target :: string

record Offer =
  offer_message :: MessageOffer

record Agreement =
  ag_policy :: PolicyClass
  ag_Type :: string
  ag_ID :: string
  ag_Target :: string
  ag_Timestamp :: int

section \<open>Custom validators\<close>

definition valid_action :: "string \<Rightarrow> bool" where
  "valid_action s = (s \<in> set
    ['''', ''odrl:delete'', ''odrl:execute'', ''cc:SourceCode'', ''odrl:anonymize'', ''odrl:extract'',
     ''odrl:read'', ''odrl:index'', ''odrl:compensate'', ''odrl:sell'', ''odrl:derive'',
     ''odrl:ensureExclusivity'', ''odrl:annotate'', ''cc:Reproduction'', ''odrl:translate'',
     ''odrl:include'', ''cc:DerivativeWorks'', ''cc:Distribution'', ''odrl:textToSpeech'',
     ''odrl:inform'', ''odrl:grantUse'', ''odrl:archive'', ''odrl:modify'', ''odrl:aggregate'',
     ''odrl:attribute'', ''odrl:nextPolicy'', ''odrl:digitize'', ''cc:Attribution'',
     ''odrl:install'', ''odrl:concurrentUse'', ''odrl:distribute'', ''odrl:synchronize'',
     ''odrl:move'', ''odrl:obtainConsent'', ''odrl:print'', ''cc:Notice'', ''odrl:give'',
     ''odrl:uninstall'', ''cc:Sharing'', ''odrl:reviewPolicy'', ''odrl:watermark'', ''odrl:play'',
     ''odrl:reproduce'', ''odrl:transform'', ''odrl:display'', ''odrl:stream'', ''cc:ShareAlike'',
     ''odrl:acceptTracking'', ''cc:CommericalUse'', ''odrl:present'', ''odrl:use'', ''odrl:copy''])"

definition valid_leftOperand :: "string \<Rightarrow> bool" where
  "valid_leftOperand s = (s \<in> set
    [''odrl:absolutePosition'', ''odrl:absoluteSize'', ''odrl:absoluteSpatialPosition'',
     ''odrl:absoluteTemporalPosition'', ''odrl:count'', ''odrl:dateTime'', ''odrl:delayPeriod'',
     ''odrl:deliveryChannel'', ''odrl:device'', ''odrl:elapsedTime'', ''odrl:event'',
     ''odrl:fileFormat'', ''odrl:industry'', ''odrl:language'', ''odrl:media'',
     ''odrl:meteredTime'', ''odrl:payAmount'', ''odrl:percentage'', ''odrl:product'',
     ''odrl:purpose'', ''odrl:recipient'', ''odrl:relativePosition'', ''odrl:relativeSize'',
     ''odrl:relativeSpatialPosition'', ''odrl:relativeTemporalPosition'', ''odrl:resolution'',
     ''odrl:spatial'', ''odrl:spatialCoordinates'', ''odrl:system'', ''odrl:systemDevice'',
     ''odrl:timeInterval'', ''odrl:unitOfCount'', ''odrl:version'', ''odrl:virtualLocation''])"

definition valid_operator :: "string \<Rightarrow> bool" where
  "valid_operator s = (s \<in> set
    [''odrl:eq'', ''odrl:gt'', ''odrl:gteq'', ''odrl:hasPart'', ''odrl:isA'', ''odrl:isAllOf'',
     ''odrl:isAnyOf'', ''odrl:isNoneOf'', ''odrl:isPartOf'', ''odrl:lt'', ''odrl:term-lteq'',
     ''odrl:neq''])"

section \<open>Validation of the structs\<close>

text \<open>The tag \<open>required\<close> on a string, and on a struct: not the zero value.\<close>

definition required :: "string \<Rightarrow> bool" where
  "required s = (s \<noteq> [])"

definition zero_rule :: AbstractPolicyRule where
  "zero_rule = \<lparr>Assigner = [], Assignee = []\<rparr>"

definition zero_policy :: PolicyClass where
  "zero_policy = \<lparr>pol_rule = zero_rule, pol_ID = [], ProviderID = [], pol_Profile = [],
     pol_Permission = [], Obligation = [], Prohibition = []\<rparr>"

definition zero_duty :: Duty where
  "zero_duty = \<lparr>duty_rule = zero_rule, duty_ID = [], duty_Action = [], duty_Constraint = []\<rparr>"

definition valid_Reference :: "Reference \<Rightarrow> bool" where
  "valid_Reference r = required (ref_ID r)"

definition valid_Constraint :: "Constraint \<Rightarrow> bool" where
  "valid_Constraint c =
     (valid_Reference (RightOperandReference c) \<and> valid_leftOperand (LeftOperand c)
      \<and> valid_operator (con_Operator c))"

definition valid_Duty :: "Duty \<Rightarrow> bool" where
  "valid_Duty d = (valid_action (duty_Action d) \<and> list_all valid_Constraint (duty_Constraint d))"

definition valid_Permission :: "Permission \<Rightarrow> bool" where
  "valid_Permission p =
     (valid_action (perm_Action p) \<and> list_all valid_Constraint (perm_Constraint p)
      \<and> valid_Duty (perm_Duty p))"

definition valid_PolicyClass :: "PolicyClass \<Rightarrow> bool" where
  "valid_PolicyClass p =
     (list_all valid_Reference (pol_Profile p) \<and> list_all valid_Permission (pol_Permission p)
      \<and> list_all valid_Duty (Obligation p))"

definition valid_MessageOffer :: "MessageOffer \<Rightarrow> bool" where
  "valid_MessageOffer m =
     (valid_PolicyClass (mo_policy m) \<and> mo_Type m = ''odrl:Offer'' \<and> required (mo_Target m))"

definition valid_Offer :: "Offer \<Rightarrow> bool" where
  "valid_Offer off = valid_MessageOffer (offer_message off)"

definition valid_Agreement :: "Agreement \<Rightarrow> bool" where
  "valid_Agreement a =
     (valid_PolicyClass (ag_policy a) \<and> ag_Type a = ''odrl:Agreement'' \<and> required (ag_ID a)
      \<and> required (ag_Target a))"

text \<open>The validation of a struct that passed it: what the rest of the program may rely on.\<close>

lemma valid_MessageOfferD: "valid_MessageOffer m \<Longrightarrow> mo_Type m = ''odrl:Offer'' \<and> mo_Target m \<noteq> []"
  by (simp add: valid_MessageOffer_def required_def)

lemma valid_AgreementD: "valid_Agreement a \<Longrightarrow> ag_ID a \<noteq> [] \<and> ag_Target a \<noteq> []"
  by (simp add: valid_Agreement_def required_def)

lemma valid_zero_duty: "valid_Duty zero_duty"
  by (simp add: valid_Duty_def zero_duty_def valid_action_def)

lemma valid_zero_policy: "valid_PolicyClass zero_policy"
  by (simp add: valid_PolicyClass_def zero_policy_def)

text \<open>A policy that states a constraint by its value is refused, since the validator visits the
  reference beside it and asks for an identifier there: any offer whose permissions have such a
  constraint is invalid, whatever else it holds.\<close>

theorem constraint_needs_reference:
  "p \<in> set (pol_Permission (mo_policy m)) \<and> c \<in> set (perm_Constraint p)
     \<and> ref_ID (RightOperandReference c) = [] \<Longrightarrow> \<not> valid_MessageOffer m \<and> \<not> valid_Offer \<lparr>offer_message = m\<rparr>"
  by (auto simp: valid_MessageOffer_def valid_Offer_def valid_PolicyClass_def valid_Permission_def
      valid_Constraint_def valid_Reference_def required_def list_all_iff)

definition count_constraint :: Constraint where
  "count_constraint = \<lparr>RightOperand = ''10'', RightOperandReference = \<lparr>ref_ID = []\<rparr>,
     LeftOperand = ''odrl:count'', con_Operator = ''odrl:lt''\<rparr>"

definition count_permission :: Permission where
  "count_permission = \<lparr>perm_rule = zero_rule, perm_Action = ''odrl:use'',
     perm_Constraint = [count_constraint], perm_Duty = zero_duty\<rparr>"

definition use_offer :: "Permission list \<Rightarrow> MessageOffer" where
  "use_offer ps = \<lparr>mo_policy = zero_policy\<lparr>pol_Permission := ps\<rparr>, mo_Type = ''odrl:Offer'',
     mo_Target = ''urn:uuid:1''\<rparr>"

lemma constraint_needs_reference_witness: "\<not> valid_MessageOffer (use_offer [count_permission])"
  using constraint_needs_reference[of count_permission "use_offer [count_permission]" count_constraint]
  by (simp add: use_offer_def count_permission_def count_constraint_def)

lemma use_offer_valid: "valid_MessageOffer (use_offer [count_permission\<lparr>perm_Constraint := []\<rparr>])"
  by (simp add: use_offer_def count_permission_def valid_MessageOffer_def valid_PolicyClass_def
      zero_policy_def valid_Permission_def valid_action_def required_def valid_zero_duty)

end
