(* ===== verification/Identifiers.thy ===== *)
theory Identifiers
  imports Go_Std
begin

text \<open>
  Roles and identifiers: \<open>dsp/constants/roles.go\<close>, package \<open>oid\<close> and
  \<open>dsp/shared/id_helpers.go\<close>. The UUID package is third-party code: a UUID is its
  sixteen bytes, so the zero value \<open>uuid.UUID{}\<close> is \<open>0\<close>, and the functions of the
  package are the fields of a record that every definition using them takes.
\<close>

section \<open>UUIDs\<close>

type_synonym uuid = "128 word"

abbreviation emptyUUID :: uuid where
  "emptyUUID \<equiv> 0"

record uuid_pkg =
  uuid_Parse :: "string \<Rightarrow> uuid option"
  uuid_URN :: "uuid \<Rightarrow> string"
  uuid_String :: "uuid \<Rightarrow> string"

text \<open>
  What the package documents of these functions: both renderings parse back, the URN is the
  canonical string behind the RFC 2141 prefix, and the canonical string is lower-case
  hexadecimal with dashes, so it can be one element of a URL path.
\<close>

definition uuid_laws :: "'a uuid_pkg_scheme \<Rightarrow> bool" where
  "uuid_laws P \<longleftrightarrow>
     (\<forall>u. uuid_Parse P (uuid_String P u) = Some u) \<and>
     (\<forall>u. uuid_Parse P (uuid_URN P u) = Some u) \<and>
     (\<forall>u. uuid_URN P u = ''urn:uuid:'' @ uuid_String P u) \<and>
     (\<forall>u. ToLower (uuid_String P u) = uuid_String P u) \<and>
     (\<forall>u. plain_seg (uuid_String P u))"

lemma uuid_lawsD:
  assumes "uuid_laws P"
  shows "uuid_Parse P (uuid_String P u) = Some u"
    and "uuid_Parse P (uuid_URN P u) = Some u"
    and "uuid_URN P u = ''urn:uuid:'' @ uuid_String P u"
    and "ToLower (uuid_String P u) = uuid_String P u"
    and "plain_seg (uuid_String P u)"
  using assms by (auto simp: uuid_laws_def)

lemma uuid_URN_inj: "uuid_laws P \<Longrightarrow> uuid_URN P u = uuid_URN P v \<longleftrightarrow> u = v"
  by (metis option.inject uuid_lawsD(2))

lemma uuid_String_inj: "uuid_laws P \<Longrightarrow> uuid_String P u = uuid_String P v \<longleftrightarrow> u = v"
  by (metis option.inject uuid_lawsD(1))

lemma uuid_URN_lower: "uuid_laws P \<Longrightarrow> ToLower (uuid_URN P u) = uuid_URN P u"
  using uuid_lawsD(4)[of P u] by (simp add: uuid_lawsD(3) ToLower_def) (simp add: lower_char_def)

lemma uuid_URN_nonempty: "uuid_laws P \<Longrightarrow> uuid_URN P u \<noteq> []"
  by (simp add: uuid_lawsD(3))

section \<open>Roles\<close>

text \<open>\<open>DataspaceRole\<close> is a \<open>uint8\<close> with two named values; \<open>RoleInvalid\<close> is any other.\<close>

datatype role = DataspaceConsumer | DataspaceProvider | RoleInvalid

fun ParseRole :: "string \<Rightarrow> role outcome" where
  "ParseRole s =
     (if s = ''Consumer'' then OK DataspaceConsumer
      else if s = ''Provider'' then OK DataspaceProvider
      else ERR (Errorf ''not a valid role'' []))"

fun Role_String :: "role \<Rightarrow> string outcome" where
  "Role_String DataspaceConsumer = OK ''Consumer''"
| "Role_String DataspaceProvider = OK ''Provider''"
| "Role_String RoleInvalid = PANIC ''unexpected constants.DataspaceRole''"

lemma ParseRole_Role_String: "Role_String r = OK s \<Longrightarrow> ParseRole s = OK r"
  by (cases r) auto

lemma ParseRole_OK: "ParseRole s = OK r \<Longrightarrow> r \<noteq> RoleInvalid \<and> Role_String r = OK s"
  by (auto split: if_splits)

lemma Role_String_inj: "Role_String r = OK s \<Longrightarrow> Role_String r' = OK s \<Longrightarrow> r = r'"
  by (cases r; cases r') auto

declare ParseRole.simps [simp del]

section \<open>Object identifiers\<close>

type_synonym OID = "int list"

definition urnPrefix :: string where
  "urnPrefix = ''urn:oid:''"

text \<open>The regular expression \<open>^\d[\d\.]+\d$\<close>: a digit, one or more digits or dots, a digit.\<close>

definition validOID :: "string \<Rightarrow> bool" where
  "validOID s \<longleftrightarrow>
     3 \<le> length s \<and> is_digit (hd s) \<and> is_digit (last s) \<and>
     list_all (\<lambda>c. is_digit c \<or> c = CHR ''.'') (butlast (tl s))"

definition OID_Parse :: "string \<Rightarrow> OID outcome" where
  "OID_Parse s =
     (if length s = 0 then ERR (Errorf ''can't parse empty string'' [])
      else
        let l = ToLower s;
            t = (if HasPrefix l urnPrefix then drop (length urnPrefix) l else l)
        in if \<not> validOID t then ERR (Errorf ''invalid OID'' [])
           else omap ParseInt64 (Split CHR ''.'' t))"

definition OID_String :: "OID \<Rightarrow> string" where
  "OID_String o' = Join CHR ''.'' (map FormatInt o')"

definition OID_URN :: "OID \<Rightarrow> string" where
  "OID_URN o' = urnPrefix @ OID_String o'"

section \<open>Identifiers and URNs\<close>

definition IDToURN :: "'a uuid_pkg_scheme \<Rightarrow> string \<Rightarrow> string" where
  "IDToURN P s =
     (if HasPrefix (ToLower s) ''urn:'' then s
      else case uuid_Parse P s of
             Some u \<Rightarrow> uuid_URN P u
           | None \<Rightarrow>
               (case OID_Parse s of
                  OK o' \<Rightarrow> OID_URN o'
                | _ \<Rightarrow> ''urn:unknown:'' @ s))"

definition URNtoRawID :: "string \<Rightarrow> string outcome" where
  "URNtoRawID s =
     (if \<not> HasPrefix (ToLower s) ''urn:'' then OK s
      else let parts = SplitN CHR '':'' 3 s
           in if length parts \<noteq> 3 then ERR (Errorf ''malformed URN'' [])
              else OK (parts ! 2))"

subsection \<open>Parsing and printing OIDs\<close>

text \<open>The characters of an OID string: digits and dots. Lowering leaves them alone.\<close>

lemma lower_char_oid: "is_digit c \<or> c = CHR ''.'' \<Longrightarrow> lower_char c = c"
  by (auto simp: lower_char_def is_digit_def Let_def)

lemma ToLower_oid: "list_all (\<lambda>c. is_digit c \<or> c = CHR ''.'') s \<Longrightarrow> ToLower s = s"
  by (induction s) (auto simp: ToLower_def lower_char_oid)

lemma FormatInt_nonneg: "0 \<le> i \<Longrightarrow> FormatInt i = show_nat (nat i)"
  by (simp add: FormatInt_def)

lemma OID_String_chars:
  "list_all (\<lambda>i. 0 \<le> i) o' \<Longrightarrow> list_all (\<lambda>c. is_digit c \<or> c = CHR ''.'') (OID_String o')"
proof -
  assume "list_all (\<lambda>i. 0 \<le> i) o'"
  then have "list_all (list_all is_digit) (map FormatInt o')"
    by (induction o') (auto simp: FormatInt_nonneg show_nat_digits)
  then show ?thesis
    using set_Join[of "CHR ''.''" "map FormatInt o'"]
    by (auto simp: OID_String_def list_all_iff)
qed

lemma Join_hd: "ws \<noteq> [] \<Longrightarrow> hd ws \<noteq> [] \<Longrightarrow> hd (Join c ws) = hd (hd ws)"
  by (induction c ws rule: Join.induct) auto

lemma Join_last: "ws \<noteq> [] \<Longrightarrow> last ws \<noteq> [] \<Longrightarrow> last (Join c ws) = last (last ws) \<and> Join c ws \<noteq> []"
  by (induction c ws rule: Join.induct) auto

lemma digit_hd_last: "list_all is_digit s \<Longrightarrow> s \<noteq> [] \<Longrightarrow> is_digit (hd s) \<and> is_digit (last s)"
  by (auto simp: list_all_iff)

lemma validOID_OID_String:
  assumes "o' \<noteq> []" "list_all (\<lambda>i. 0 \<le> i) o'" "3 \<le> length (OID_String o')"
  shows "validOID (OID_String o')"
proof -
  let ?ws = "map FormatInt o'"
  have ends: "is_digit (hd (hd ?ws)) \<and> is_digit (last (last ?ws))" "hd ?ws \<noteq> []" "last ?ws \<noteq> []"
    using assms(1,2) digit_hd_last[OF show_nat_digits]
    by (auto simp: hd_map last_map FormatInt_nonneg list_all_iff)
  have mid: "list_all (\<lambda>c. is_digit c \<or> c = CHR ''.'') (butlast (tl (OID_String o')))"
    using OID_String_chars[OF assms(2)]
    by (auto simp: list_all_iff dest!: in_set_butlastD intro: list.set_sel(2)[rotated])
       (metis list.set_sel(2) tl_Nil list.set(1) empty_iff)
  show ?thesis
    using ends mid assms(1,3) Join_hd[of ?ws] Join_last[of ?ws]
    by (simp add: validOID_def OID_String_def)
qed

lemma OID_String_no_prefix:
  assumes "o' \<noteq> []" "list_all (\<lambda>i. 0 \<le> i) o'"
  shows "\<not> HasPrefix (OID_String o') urnPrefix"
proof
  assume "HasPrefix (OID_String o') urnPrefix"
  then obtain t where "OID_String o' = urnPrefix @ t" by (auto dest: HasPrefixD)
  then have "CHR ''u'' \<in> set (OID_String o')" by (simp add: urnPrefix_def)
  with OID_String_chars[OF assms(2)] show False
    by (auto simp: list_all_iff is_digit_def)
qed

lemma omap_ParseInt64_FormatInt:
  "list_all (\<lambda>i. 0 \<le> i \<and> i < 2 ^ 63) o' \<Longrightarrow> omap ParseInt64 (map FormatInt o') = OK o'"
  by (induction o') (auto simp: ParseInt64_FormatInt_nonneg)

lemma Split_OID_String:
  assumes "o' \<noteq> []" "list_all (\<lambda>i. 0 \<le> i) o'"
  shows "Split CHR ''.'' (OID_String o') = map FormatInt o'"
  unfolding OID_String_def
proof (rule Split_Join)
  fix w assume "w \<in> set (map FormatInt o')"
  then obtain i where "w = FormatInt i" "0 \<le> i" using assms(2) by (auto simp: list_all_iff)
  then show "CHR ''.'' \<notin> set w"
    using show_nat_digits[of "nat i"] by (auto simp: FormatInt_nonneg list_all_iff is_digit_def)
qed (use assms in simp)

lemma OID_Parse_valid:
  assumes "validOID t" "ToLower t = t" "\<not> HasPrefix t urnPrefix"
  shows "OID_Parse t = omap ParseInt64 (Split CHR ''.'' t)"
    and "OID_Parse (urnPrefix @ t) = omap ParseInt64 (Split CHR ''.'' t)"
proof -
  have "ToLower urnPrefix = urnPrefix" by (simp add: urnPrefix_def ToLower_def lower_char_def)
  then have "ToLower (urnPrefix @ t) = urnPrefix @ t" using assms(2) by simp
  moreover have "t \<noteq> []" using assms(1) by (auto simp: validOID_def)
  ultimately show "OID_Parse t = omap ParseInt64 (Split CHR ''.'' t)"
    and "OID_Parse (urnPrefix @ t) = omap ParseInt64 (Split CHR ''.'' t)"
    using assms by (simp_all add: OID_Parse_def Let_def)
qed

text \<open>Every int64 sequence with a printable form parses back from it and from its URN.\<close>

lemma OID_Parse_OID_String:
  assumes "o' \<noteq> []" "list_all (\<lambda>i. 0 \<le> i \<and> i < 2 ^ 63) o'" "3 \<le> length (OID_String o')"
  shows "OID_Parse (OID_String o') = OK o'" and "OID_Parse (OID_URN o') = OK o'"
proof -
  have nn: "list_all (\<lambda>i. 0 \<le> i) o'" using assms(2) by (auto simp: list_all_iff)
  have "ToLower (OID_String o') = OID_String o'"
    by (rule ToLower_oid[OF OID_String_chars[OF nn]])
  note * = OID_Parse_valid[OF validOID_OID_String[OF assms(1) nn assms(3)] this
      OID_String_no_prefix[OF assms(1) nn]]
  show "OID_Parse (OID_String o') = OK o'" "OID_Parse (OID_URN o') = OK o'"
    using omap_ParseInt64_FormatInt[OF assms(2)]
    by (simp_all add: * OID_URN_def Split_OID_String[OF assms(1) nn])
qed

lemma validOID_chars: "validOID t \<Longrightarrow> list_all (\<lambda>c. is_digit c \<or> c = CHR ''.'') t"
proof -
  assume v: "validOID t"
  then obtain c u where t: "t = c # u" "u \<noteq> []"
    by (cases t; cases "tl t") (auto simp: validOID_def)
  with v have "is_digit c" "list_all (\<lambda>c. is_digit c \<or> c = CHR ''.'') (butlast u)" "is_digit (last u)"
    by (auto simp: validOID_def)
  moreover have "set u \<subseteq> set (butlast u) \<union> {last u}"
    using t(2) by (metis append_butlast_last_id list.set(2) set_append sup.orderI sup_bot_right
        list.simps(15) insert_is_Un order_refl empty_set)
  ultimately show ?thesis using t by (auto simp: list_all_iff)
qed

lemma ParseInt64_part:
  "list_all (\<lambda>c. is_digit c \<or> c = CHR ''.'') t \<Longrightarrow> w \<in> set (Split CHR ''.'' t) \<Longrightarrow> list_all is_digit w"
  using Split_subset[of w "CHR ''.''" t] Split_parts_no_sep[of w "CHR ''.''" t]
  by (auto simp: list_all_iff)

lemma OID_Parse_OK_bounds:
  assumes "OID_Parse s = OK o'"
  shows "o' \<noteq> [] \<and> list_all (\<lambda>i. 0 \<le> i \<and> i < 2 ^ 63) o'"
proof -
  obtain t where t: "validOID t" "omap ParseInt64 (Split CHR ''.'' t) = OK o'"
    using assms by (auto simp: OID_Parse_def Let_def split: if_splits)
  have "list_all2 (\<lambda>w i. ParseInt64 w = OK i) (Split CHR ''.'' t) o'"
    using t(2) by (simp add: omap_OK_iff)
  then have "\<forall>i \<in> set o'. \<exists>w \<in> set (Split CHR ''.'' t). ParseInt64 w = OK i"
    by (induction rule: list_all2_induct) auto
  moreover have "o' \<noteq> []"
    using omap_OK_length[OF t(2)] Split_nonempty by (metis length_0_conv)
  ultimately show ?thesis
    using ParseInt64_part[OF validOID_chars[OF t(1)]] ParseInt64_digits ParseInt64_OK_bounds
    by (fastforce simp: list_all_iff)
qed

subsection \<open>URNs\<close>

lemma HasPrefix_lower_urn: "HasPrefix (ToLower (''urn:'' @ s)) ''urn:''"
  by (simp add: ToLower_def lower_char_def HasPrefix_def)

lemma IDToURN_cases:
  assumes "uuid_laws P"
  obtains (urn) "HasPrefix (ToLower s) ''urn:''" "IDToURN P s = s"
    | (uuid) u where "\<not> HasPrefix (ToLower s) ''urn:''" "uuid_Parse P s = Some u"
        "IDToURN P s = ''urn:uuid:'' @ uuid_String P u"
    | (oid) o' where "\<not> HasPrefix (ToLower s) ''urn:''" "OID_Parse s = OK o'"
        "IDToURN P s = ''urn:oid:'' @ OID_String o'"
    | (unknown) "\<not> HasPrefix (ToLower s) ''urn:''" "IDToURN P s = ''urn:unknown:'' @ s"
  using assms
  by (cases "HasPrefix (ToLower s) ''urn:''"; cases "uuid_Parse P s"; cases "OID_Parse s")
     (auto simp: IDToURN_def uuid_lawsD(3) OID_URN_def urnPrefix_def)

lemma IDToURN_is_urn: "uuid_laws P \<Longrightarrow> HasPrefix (ToLower (IDToURN P s)) ''urn:''"
  using HasPrefix_lower_urn[of "''uuid:'' @ t" for t] HasPrefix_lower_urn[of "''oid:'' @ t" for t]
    HasPrefix_lower_urn[of "''unknown:'' @ t" for t]
  by (rule_tac IDToURN_cases[of P s]) (assumption, auto)

lemma URNtoRawID_urn3:
  "CHR '':'' \<notin> set kind \<Longrightarrow> URNtoRawID (''urn:'' @ kind @ '':'' @ rest) = OK rest"
  by (auto simp: URNtoRawID_def HasPrefix_def ToLower_def lower_char_def numeral_3_eq_3
      takeWhile_sep dropWhile_sep)

text \<open>The raw identifier behind the URN of an identifier that is not a URN itself.\<close>

definition raw_id :: "'a uuid_pkg_scheme \<Rightarrow> string \<Rightarrow> string" where
  "raw_id P s =
     (case uuid_Parse P s of
        Some u \<Rightarrow> uuid_String P u
      | None \<Rightarrow> (case OID_Parse s of OK o' \<Rightarrow> OID_String o' | _ \<Rightarrow> s))"

lemma URNtoRawID_IDToURN:
  assumes "uuid_laws P" "\<not> HasPrefix (ToLower s) ''urn:''"
  shows "URNtoRawID (IDToURN P s) = OK (raw_id P s)"
  using assms URNtoRawID_urn3[of "''uuid''"] URNtoRawID_urn3[of "''oid''"]
    URNtoRawID_urn3[of "''unknown''" s]
  by (cases "uuid_Parse P s"; cases "OID_Parse s")
     (simp_all add: IDToURN_def raw_id_def uuid_lawsD(3) OID_URN_def urnPrefix_def)

section \<open>A concrete UUID package\<close>

text \<open>
  For the witnesses: a package that meets the documented laws, printing a UUID as the decimal
  number of its 128 bits. No definition of the model uses it.
\<close>

definition strip_urn :: "string \<Rightarrow> string" where
  "strip_urn s = TrimPrefix s ''urn:uuid:''"

definition decimal_uuid_Parse :: "string \<Rightarrow> uuid option" where
  "decimal_uuid_Parse s =
     (let d = strip_urn s
      in if d \<noteq> [] \<and> list_all is_digit d then Some (word_of_nat (read_nat d)) else None)"

definition decimal_uuid_String :: "uuid \<Rightarrow> string" where
  "decimal_uuid_String u = show_nat (unat u)"

definition decimal_uuid_URN :: "uuid \<Rightarrow> string" where
  "decimal_uuid_URN u = ''urn:uuid:'' @ decimal_uuid_String u"

definition decimal_uuids :: uuid_pkg where
  "decimal_uuids =
     \<lparr>uuid_Parse = decimal_uuid_Parse, uuid_URN = decimal_uuid_URN, uuid_String = decimal_uuid_String\<rparr>"

lemma strip_urn_digits: "list_all is_digit d \<Longrightarrow> strip_urn d = d"
  by (cases d) (auto simp: strip_urn_def TrimPrefix_def HasPrefix_def is_digit_def)

lemma strip_urn_append: "strip_urn (''urn:uuid:'' @ d) = d"
  unfolding strip_urn_def by (rule TrimPrefix_append)

lemma decimal_uuid_laws: "uuid_laws decimal_uuids"
proof -
  have digits: "list_all is_digit (decimal_uuid_String u)" "decimal_uuid_String u \<noteq> []" for u
    by (simp_all add: decimal_uuid_String_def show_nat_digits)
  have parse: "decimal_uuid_Parse (decimal_uuid_String u) = Some u" for u
    using digits[of u] strip_urn_digits[OF digits(1)[of u]]
    by (simp add: decimal_uuid_Parse_def) (simp add: decimal_uuid_String_def)
  moreover have "decimal_uuid_Parse (decimal_uuid_URN u) = Some u" for u
    using parse[of u] strip_urn_digits[OF digits(1)[of u]] strip_urn_append
    by (simp add: decimal_uuid_Parse_def decimal_uuid_URN_def del: append_Cons)
  moreover have "ToLower (decimal_uuid_String u) = decimal_uuid_String u" for u
    using digits(1)[of u] by (intro ToLower_oid) (auto simp: list_all_iff)
  moreover have "plain_seg (decimal_uuid_String u)" for u
    using digits[of u] by (auto simp: plain_seg_def list_all_iff is_digit_def)
  ultimately show ?thesis
    by (simp add: uuid_laws_def decimal_uuids_def decimal_uuid_URN_def)
qed

end
