(* ===== verification/States.thy ===== *)
theory States
  imports Identifiers
begin

text \<open>
  The two state enumerations and their transition tables:
  \<open>dsp/contract/states_enums.go\<close>, \<open>dsp/contract/states_gob.go\<close>, the table
  \<open>validTransitions\<close> of \<open>dsp/contract/negotiation.go\<close>, and the same for transfers
  in \<open>dsp/transfer\<close>. The two packages have the same generated code over different
  constants: what they share is the locale \<open>state_enum\<close>, what their tables share the
  locale \<open>transition_table\<close>, and both locales are interpreted for each package.
\<close>

section \<open>Enumerations\<close>

text \<open>The dynamic types \<open>ParseState\<close> switches over.\<close>

datatype 's state_arg =
    ArgState 's | ArgBytes string | ArgString string | ArgStringer string
  | ArgInt int | ArgInt64 int | ArgInt32 int | ArgOther

text \<open>\<open>bytes.Trim\<close> for a cutset of one byte.\<close>

definition trim_byte :: "char \<Rightarrow> string \<Rightarrow> string" where
  "trim_byte c s = rev (dropWhile (\<lambda>x. x = c) (rev (dropWhile (\<lambda>x. x = c) s)))"

text \<open>
  The generated functions, over the package's own name table, string switch and list of all
  states; \<open>zero\<close> is the zero value \<open>State{}\<close>, which the package calls \<open>invalidState\<close>.
\<close>

definition slice :: "string \<Rightarrow> nat \<Rightarrow> nat \<Rightarrow> string" where
  "slice s i j = take (j - i) (drop i s)"

definition enum_String :: "string \<Rightarrow> nat list \<Rightarrow> int \<Rightarrow> string" where
  "enum_String names idx i =
     (if i < 0 \<or> i \<ge> int (length idx) - 1 then ''states('' @ FormatInt i @ '')''
      else slice names (idx ! nat i) (idx ! (nat i + 1)))"

definition enum_of_int :: "'s \<Rightarrow> 's list \<Rightarrow> int \<Rightarrow> 's" where
  "enum_of_int zero al i = (if i < 0 \<or> i \<ge> int (length al) then zero else al ! nat i)"

fun enum_ParseState :: "(string \<Rightarrow> 's) \<Rightarrow> 's \<Rightarrow> 's list \<Rightarrow> 's state_arg \<Rightarrow> 's outcome" where
  "enum_ParseState of_string zero al (ArgState v) = OK v"
| "enum_ParseState of_string zero al (ArgBytes v) = OK (of_string v)"
| "enum_ParseState of_string zero al (ArgString v) = OK (of_string v)"
| "enum_ParseState of_string zero al (ArgStringer v) = OK (of_string v)"
| "enum_ParseState of_string zero al (ArgInt v) = OK (enum_of_int zero al v)"
| "enum_ParseState of_string zero al (ArgInt64 v) = OK (enum_of_int zero al v)"
| "enum_ParseState of_string zero al (ArgInt32 v) = OK (enum_of_int zero al v)"
| "enum_ParseState of_string zero al ArgOther = OK zero"

definition enum_MarshalJSON :: "('s \<Rightarrow> string) \<Rightarrow> 's \<Rightarrow> string" where
  "enum_MarshalJSON str s = CHR 0x22 # str s @ [CHR 0x22]"

definition enum_UnmarshalJSON :: "('s state_arg \<Rightarrow> 's outcome) \<Rightarrow> string \<Rightarrow> 's outcome" where
  "enum_UnmarshalJSON parse b = parse (ArgBytes (trim_byte CHR '' '' (trim_byte CHR 0x22 b)))"

text \<open>What a client of a state enumeration may rely on.\<close>

locale state_enum =
  fixes str :: "'s \<Rightarrow> string"
    and of_string :: "string \<Rightarrow> 's"
    and zero :: "'s"
    and al :: "'s list"
  assumes of_string_str: "of_string (str s) = s"
    and unknown_string: "t \<notin> str ` set al \<Longrightarrow> of_string t = zero"
    and al_complete: "s \<in> set al"
    and str_ends: "str s \<noteq> []" "hd (str s) \<notin> {CHR 0x22, CHR '' ''}" "last (str s) \<notin> {CHR 0x22, CHR '' ''}"
begin

abbreviation parse :: "'s state_arg \<Rightarrow> 's outcome" where
  "parse \<equiv> enum_ParseState of_string zero al"

lemma parse_total: "\<exists>s. parse a = OK s"
  by (cases a) auto

lemma str_inj: "str s = str t \<longleftrightarrow> s = t"
  by (metis of_string_str)

lemma parse_str: "parse (ArgString (str s)) = OK s" "parse (ArgBytes (str s)) = OK s"
  by (simp_all add: of_string_str)

lemma parse_unknown: "t \<notin> range str \<Longrightarrow> parse (ArgString t) = OK zero"
  using unknown_string[of t] by auto

lemma parse_nonzero: "parse (ArgString t) = OK s \<Longrightarrow> s \<noteq> zero \<Longrightarrow> t = str s"
  using unknown_string[of t] by (cases "t \<in> str ` set al") (auto simp: of_string_str)

lemma no_trim_left: "c \<in> {CHR 0x22, CHR '' ''} \<Longrightarrow> dropWhile (\<lambda>x. x = c) (str s @ t) = str s @ t"
  using str_ends(1)[of s] str_ends(2)[of s] by (cases "str s") auto

lemma no_trim_right: "c \<in> {CHR 0x22, CHR '' ''} \<Longrightarrow> dropWhile (\<lambda>x. x = c) (rev (str s)) = rev (str s)"
  using str_ends(1)[of s] str_ends(3)[of s] by (cases "str s" rule: rev_cases) auto

lemma trim_str: "c \<in> {CHR 0x22, CHR '' ''} \<Longrightarrow> trim_byte c (str s) = str s"
  using no_trim_left[of c s "[]"] no_trim_right[of c s] by (simp add: trim_byte_def)

lemma unmarshal_marshal: "enum_UnmarshalJSON parse (enum_MarshalJSON str s) = OK s"
proof -
  have "trim_byte CHR 0x22 (CHR 0x22 # str s @ [CHR 0x22]) = str s"
    using no_trim_left[of "CHR 0x22" s "[CHR 0x22]"] no_trim_right[of "CHR 0x22" s]
    by (simp add: trim_byte_def)
  then show ?thesis
    by (simp add: enum_UnmarshalJSON_def enum_MarshalJSON_def trim_str of_string_str)
qed

end

section \<open>Transition tables\<close>

text \<open>
  A table gives the states a state may move to. \<open>table_path\<close> is a sequence of moves the
  table allows; the locale's \<open>rank\<close> never falls along one, and a state above every other
  rank it can reach has no moves.
\<close>

fun table_path :: "('s \<Rightarrow> 's list) \<Rightarrow> 's \<Rightarrow> 's list \<Rightarrow> bool" where
  "table_path valid s [] = True"
| "table_path valid s (t # ts) = (t \<in> set (valid s) \<and> table_path valid t ts)"

locale transition_table =
  fixes valid :: "'s \<Rightarrow> 's list"
    and rank :: "'s \<Rightarrow> nat"
    and final :: "'s \<Rightarrow> bool"
    and terminated :: "'s"
    and first_state :: "'s"
  assumes rank_mono: "t \<in> set (valid s) \<Longrightarrow> rank s \<le> rank t"
    and final_stuck: "final s \<Longrightarrow> valid s = []"
    and terminated_final: "final terminated"
    and can_terminate: "\<not> final s \<Longrightarrow> terminated \<in> set (valid s)"
    and first_not_entered: "first_state \<notin> set (valid s)"
begin

lemma path_rank: "table_path valid s ts \<Longrightarrow> t \<in> set ts \<Longrightarrow> rank s \<le> rank t"
proof (induction ts arbitrary: s)
  case (Cons u ts)
  then have "rank s \<le> rank u" using rank_mono by simp
  with Cons show ?case by fastforce
qed simp

lemma path_final: "table_path valid s ts \<Longrightarrow> final s \<Longrightarrow> ts = []"
  by (cases ts) (auto simp: final_stuck)

lemma path_not_first: "table_path valid s ts \<Longrightarrow> first_state \<notin> set ts"
  using first_not_entered by (induction ts arbitrary: s) auto

lemma path_append:
  "table_path valid s (ts @ us) \<longleftrightarrow> table_path valid s ts \<and> table_path valid (last (s # ts)) us"
  by (induction ts arbitrary: s) auto

lemma final_only_last:
  "table_path valid s ts \<Longrightarrow> t \<in> set (butlast (s # ts)) \<Longrightarrow> \<not> final t"
proof (induction ts arbitrary: s)
  case (Cons u ts)
  have "\<not> final s" using Cons.prems(1) final_stuck by auto
  moreover have "t = s \<or> t \<in> set (butlast (u # ts))" using Cons.prems(2) by (auto split: if_splits)
  ultimately show ?case using Cons by auto
qed simp

end

section \<open>Contract states\<close>

datatype cstate =
    C_INITIAL | C_REQUESTED | C_OFFERED | C_AGREED | C_ACCEPTED | C_VERIFIED
  | C_FINALIZED | C_TERMINATED

fun cstate_num :: "cstate \<Rightarrow> int" where
  "cstate_num C_INITIAL = 0"
| "cstate_num C_REQUESTED = 1"
| "cstate_num C_OFFERED = 2"
| "cstate_num C_AGREED = 3"
| "cstate_num C_ACCEPTED = 4"
| "cstate_num C_VERIFIED = 5"
| "cstate_num C_FINALIZED = 6"
| "cstate_num C_TERMINATED = 7"

definition contract_States_All :: "cstate list" where
  "contract_States_All =
     [C_INITIAL, C_REQUESTED, C_OFFERED, C_AGREED, C_ACCEPTED, C_VERIFIED, C_FINALIZED, C_TERMINATED]"

text \<open>\<open>invalidState\<close> is the zero value, which is the state \<open>INITIAL\<close>.\<close>

definition contract_invalidState :: cstate where
  "contract_invalidState = C_INITIAL"

fun contract_stringToState :: "string \<Rightarrow> cstate" where
  "contract_stringToState s =
     (if s = ''INITIAL'' then C_INITIAL
      else if s = ''dspace:REQUESTED'' then C_REQUESTED
      else if s = ''dspace:OFFERED'' then C_OFFERED
      else if s = ''dspace:AGREED'' then C_AGREED
      else if s = ''dspace:ACCEPTED'' then C_ACCEPTED
      else if s = ''dspace:VERIFIED'' then C_VERIFIED
      else if s = ''dspace:FINALIZED'' then C_FINALIZED
      else if s = ''dspace:TERMINATED'' then C_TERMINATED
      else contract_invalidState)"

definition contract_states_name :: string where
  "contract_states_name =
     ''INITIALdspace:REQUESTEDdspace:OFFEREDdspace:AGREEDdspace:ACCEPTEDdspace:VERIFIEDdspace:FINALIZEDdspace:TERMINATED''"

definition contract_states_index :: "nat list" where
  "contract_states_index = [0, 7, 23, 37, 50, 65, 80, 96, 113]"

definition cstate_String :: "cstate \<Rightarrow> string" where
  "cstate_String s = enum_String contract_states_name contract_states_index (cstate_num s)"

definition contract_ParseState :: "cstate state_arg \<Rightarrow> cstate outcome" where
  "contract_ParseState =
     enum_ParseState contract_stringToState contract_invalidState contract_States_All"

definition contract_IsValid :: "cstate \<Rightarrow> bool" where
  "contract_IsValid s = (s \<in> set contract_States_All)"

fun validTransitions :: "cstate \<Rightarrow> cstate list" where
  "validTransitions C_INITIAL = [C_OFFERED, C_REQUESTED, C_TERMINATED]"
| "validTransitions C_REQUESTED = [C_OFFERED, C_AGREED, C_TERMINATED]"
| "validTransitions C_OFFERED = [C_REQUESTED, C_ACCEPTED, C_TERMINATED]"
| "validTransitions C_ACCEPTED = [C_AGREED, C_TERMINATED]"
| "validTransitions C_AGREED = [C_VERIFIED, C_TERMINATED]"
| "validTransitions C_VERIFIED = [C_FINALIZED, C_TERMINATED]"
| "validTransitions C_FINALIZED = []"
| "validTransitions C_TERMINATED = []"

section \<open>Transfer states\<close>

datatype tstate = T_INITIAL | T_REQUESTED | T_STARTED | T_SUSPENDED | T_COMPLETED | T_TERMINATED

fun tstate_num :: "tstate \<Rightarrow> int" where
  "tstate_num T_INITIAL = 0"
| "tstate_num T_REQUESTED = 1"
| "tstate_num T_STARTED = 2"
| "tstate_num T_SUSPENDED = 3"
| "tstate_num T_COMPLETED = 4"
| "tstate_num T_TERMINATED = 5"

definition transfer_States_All :: "tstate list" where
  "transfer_States_All =
     [T_INITIAL, T_REQUESTED, T_STARTED, T_SUSPENDED, T_COMPLETED, T_TERMINATED]"

definition transfer_invalidState :: tstate where
  "transfer_invalidState = T_INITIAL"

fun transfer_stringToState :: "string \<Rightarrow> tstate" where
  "transfer_stringToState s =
     (if s = ''INITIAL'' then T_INITIAL
      else if s = ''dspace:REQUESTED'' then T_REQUESTED
      else if s = ''dspace:STARTED'' then T_STARTED
      else if s = ''dspace:SUSPENDED'' then T_SUSPENDED
      else if s = ''dspace:COMPLETED'' then T_COMPLETED
      else if s = ''dspace:TERMINATED'' then T_TERMINATED
      else transfer_invalidState)"

definition transfer_states_name :: string where
  "transfer_states_name =
     ''INITIALdspace:REQUESTEDdspace:STARTEDdspace:SUSPENDEDdspace:COMPLETEDdspace:TERMINATED''"

definition transfer_states_index :: "nat list" where
  "transfer_states_index = [0, 7, 23, 37, 53, 69, 86]"

definition tstate_String :: "tstate \<Rightarrow> string" where
  "tstate_String s = enum_String transfer_states_name transfer_states_index (tstate_num s)"

definition transfer_ParseState :: "tstate state_arg \<Rightarrow> tstate outcome" where
  "transfer_ParseState =
     enum_ParseState transfer_stringToState transfer_invalidState transfer_States_All"

definition transfer_IsValid :: "tstate \<Rightarrow> bool" where
  "transfer_IsValid s = (s \<in> set transfer_States_All)"

text \<open>The table has no entry for \<open>TERMINATED\<close>: a map lookup there gives the empty slice.\<close>

fun validTransferTransitions :: "tstate \<Rightarrow> tstate list" where
  "validTransferTransitions T_INITIAL = [T_REQUESTED, T_TERMINATED]"
| "validTransferTransitions T_REQUESTED = [T_STARTED, T_TERMINATED]"
| "validTransferTransitions T_STARTED = [T_SUSPENDED, T_COMPLETED, T_TERMINATED]"
| "validTransferTransitions T_SUSPENDED = [T_STARTED, T_TERMINATED]"
| "validTransferTransitions T_COMPLETED = []"
| "validTransferTransitions T_TERMINATED = []"

section \<open>Reading and writing states\<close>

text \<open>The SQL and gob forms of a state are its string, read back by \<open>ParseState\<close>.\<close>

definition contract_Value :: "cstate \<Rightarrow> string outcome" where
  "contract_Value s = OK (cstate_String s)"

definition contract_Scan :: "cstate state_arg \<Rightarrow> cstate outcome" where
  "contract_Scan value = contract_ParseState value"

definition contract_GobEncode :: "cstate \<Rightarrow> string outcome" where
  "contract_GobEncode s = OK (cstate_String s)"

definition contract_GobDecode :: "string \<Rightarrow> cstate outcome" where
  "contract_GobDecode b = contract_ParseState (ArgBytes b)"

definition contract_MarshalJSON :: "cstate \<Rightarrow> string" where
  "contract_MarshalJSON s = enum_MarshalJSON cstate_String s"

definition contract_UnmarshalJSON :: "string \<Rightarrow> cstate outcome" where
  "contract_UnmarshalJSON b = enum_UnmarshalJSON contract_ParseState b"

definition transfer_Value :: "tstate \<Rightarrow> string outcome" where
  "transfer_Value s = OK (tstate_String s)"

definition transfer_Scan :: "tstate state_arg \<Rightarrow> tstate outcome" where
  "transfer_Scan value = transfer_ParseState value"

definition transfer_GobEncode :: "tstate \<Rightarrow> string outcome" where
  "transfer_GobEncode s = OK (tstate_String s)"

definition transfer_GobDecode :: "string \<Rightarrow> tstate outcome" where
  "transfer_GobDecode b = transfer_ParseState (ArgBytes b)"

definition transfer_MarshalJSON :: "tstate \<Rightarrow> string" where
  "transfer_MarshalJSON s = enum_MarshalJSON tstate_String s"

definition transfer_UnmarshalJSON :: "string \<Rightarrow> tstate outcome" where
  "transfer_UnmarshalJSON b = enum_UnmarshalJSON transfer_ParseState b"

section \<open>Both packages provide the interfaces\<close>

text \<open>What slicing the packed name table gives for every state.\<close>

lemma cstate_String_simps [simp]:
  "cstate_String C_INITIAL = ''INITIAL''"
  "cstate_String C_REQUESTED = ''dspace:REQUESTED''"
  "cstate_String C_OFFERED = ''dspace:OFFERED''"
  "cstate_String C_AGREED = ''dspace:AGREED''"
  "cstate_String C_ACCEPTED = ''dspace:ACCEPTED''"
  "cstate_String C_VERIFIED = ''dspace:VERIFIED''"
  "cstate_String C_FINALIZED = ''dspace:FINALIZED''"
  "cstate_String C_TERMINATED = ''dspace:TERMINATED''"
  by (simp_all add: cstate_String_def enum_String_def slice_def contract_states_name_def contract_states_index_def)

lemma tstate_String_simps [simp]:
  "tstate_String T_INITIAL = ''INITIAL''"
  "tstate_String T_REQUESTED = ''dspace:REQUESTED''"
  "tstate_String T_STARTED = ''dspace:STARTED''"
  "tstate_String T_SUSPENDED = ''dspace:SUSPENDED''"
  "tstate_String T_COMPLETED = ''dspace:COMPLETED''"
  "tstate_String T_TERMINATED = ''dspace:TERMINATED''"
  by (simp_all add: tstate_String_def enum_String_def slice_def transfer_states_name_def transfer_states_index_def)

interpretation cs: state_enum cstate_String contract_stringToState C_INITIAL contract_States_All
proof unfold_locales
  show "contract_stringToState (cstate_String s) = s" for s by (cases s) simp_all
  show "t \<notin> cstate_String ` set contract_States_All \<Longrightarrow> contract_stringToState t = C_INITIAL" for t
    by (auto simp: contract_States_All_def contract_invalidState_def)
  show "s \<in> set contract_States_All" for s by (cases s) (simp_all add: contract_States_All_def)
  show "cstate_String s \<noteq> []" for s by (cases s) simp_all
  show "hd (cstate_String s) \<notin> {CHR 0x22, CHR '' ''}" for s by (cases s) simp_all
  show "last (cstate_String s) \<notin> {CHR 0x22, CHR '' ''}" for s by (cases s) simp_all
qed

interpretation ts: state_enum tstate_String transfer_stringToState T_INITIAL transfer_States_All
proof unfold_locales
  show "transfer_stringToState (tstate_String s) = s" for s by (cases s) simp_all
  show "t \<notin> tstate_String ` set transfer_States_All \<Longrightarrow> transfer_stringToState t = T_INITIAL" for t
    by (auto simp: transfer_States_All_def transfer_invalidState_def)
  show "s \<in> set transfer_States_All" for s by (cases s) (simp_all add: transfer_States_All_def)
  show "tstate_String s \<noteq> []" for s by (cases s) simp_all
  show "hd (tstate_String s) \<notin> {CHR 0x22, CHR '' ''}" for s by (cases s) simp_all
  show "last (tstate_String s) \<notin> {CHR 0x22, CHR '' ''}" for s by (cases s) simp_all
qed

declare contract_stringToState.simps [simp del] transfer_stringToState.simps [simp del]

text \<open>How far a negotiation or a transfer has come.\<close>

fun contract_rank :: "cstate \<Rightarrow> nat" where
  "contract_rank C_INITIAL = 0"
| "contract_rank C_REQUESTED = 1"
| "contract_rank C_OFFERED = 1"
| "contract_rank C_ACCEPTED = 2"
| "contract_rank C_AGREED = 3"
| "contract_rank C_VERIFIED = 4"
| "contract_rank C_FINALIZED = 5"
| "contract_rank C_TERMINATED = 6"

fun transfer_rank :: "tstate \<Rightarrow> nat" where
  "transfer_rank T_INITIAL = 0"
| "transfer_rank T_REQUESTED = 1"
| "transfer_rank T_STARTED = 2"
| "transfer_rank T_SUSPENDED = 2"
| "transfer_rank T_COMPLETED = 3"
| "transfer_rank T_TERMINATED = 4"

definition contract_final :: "cstate \<Rightarrow> bool" where
  "contract_final s = (s \<in> {C_FINALIZED, C_TERMINATED})"

definition transfer_final :: "tstate \<Rightarrow> bool" where
  "transfer_final s = (s \<in> {T_COMPLETED, T_TERMINATED})"

interpretation ct: transition_table validTransitions contract_rank contract_final C_TERMINATED C_INITIAL
proof unfold_locales
  show "t \<in> set (validTransitions s) \<Longrightarrow> contract_rank s \<le> contract_rank t" for s t
    by (cases s) auto
  show "contract_final s \<Longrightarrow> validTransitions s = []" for s
    by (cases s) (auto simp: contract_final_def)
  show "contract_final C_TERMINATED" by (simp add: contract_final_def)
  show "\<not> contract_final s \<Longrightarrow> C_TERMINATED \<in> set (validTransitions s)" for s
    by (cases s) (auto simp: contract_final_def)
  show "C_INITIAL \<notin> set (validTransitions s)" for s by (cases s) auto
qed

interpretation tt: transition_table validTransferTransitions transfer_rank transfer_final T_TERMINATED T_INITIAL
proof unfold_locales
  show "t \<in> set (validTransferTransitions s) \<Longrightarrow> transfer_rank s \<le> transfer_rank t" for s t
    by (cases s) auto
  show "transfer_final s \<Longrightarrow> validTransferTransitions s = []" for s
    by (cases s) (auto simp: transfer_final_def)
  show "transfer_final T_TERMINATED" by (simp add: transfer_final_def)
  show "\<not> transfer_final s \<Longrightarrow> T_TERMINATED \<in> set (validTransferTransitions s)" for s
    by (cases s) (auto simp: transfer_final_def)
  show "T_INITIAL \<notin> set (validTransferTransitions s)" for s by (cases s) auto
qed

text \<open>States are ordered by their number, as the generated constants are.\<close>

lemma cstate_num_inj: "cstate_num s = cstate_num t \<Longrightarrow> s = t"
  by (cases s; cases t) simp_all

lemma tstate_num_inj: "tstate_num s = tstate_num t \<Longrightarrow> s = t"
  by (cases s; cases t) simp_all

instantiation cstate :: linorder
begin
definition less_eq_cstate :: "cstate \<Rightarrow> cstate \<Rightarrow> bool" where
  "less_eq_cstate s t = (cstate_num s \<le> cstate_num t)"
definition less_cstate :: "cstate \<Rightarrow> cstate \<Rightarrow> bool" where
  "less_cstate s t = (cstate_num s < cstate_num t)"
instance
  by standard (auto simp: less_eq_cstate_def less_cstate_def intro: cstate_num_inj)
end

instantiation tstate :: linorder
begin
definition less_eq_tstate :: "tstate \<Rightarrow> tstate \<Rightarrow> bool" where
  "less_eq_tstate s t = (tstate_num s \<le> tstate_num t)"
definition less_tstate :: "tstate \<Rightarrow> tstate \<Rightarrow> bool" where
  "less_tstate s t = (tstate_num s < tstate_num t)"
instance
  by standard (auto simp: less_eq_tstate_def less_tstate_def intro: tstate_num_inj)
end

lemma contract_States_All_sorted: "sorted contract_States_All" "sorted transfer_States_All"
  by (simp_all add: contract_States_All_def transfer_States_All_def less_eq_cstate_def less_eq_tstate_def)

lemma ParseState_String [simp]:
  "contract_ParseState (ArgString (cstate_String s)) = OK s"
  "transfer_ParseState (ArgString (tstate_String t)) = OK t"
  using cs.parse_str(1) ts.parse_str(1)
  by (simp_all add: contract_ParseState_def transfer_ParseState_def contract_invalidState_def
      transfer_invalidState_def)

lemma ParseState_named:
  "contract_ParseState (ArgString t) = OK s \<Longrightarrow> s \<noteq> C_INITIAL \<Longrightarrow> t = cstate_String s"
  "transfer_ParseState (ArgString t) = OK u \<Longrightarrow> u \<noteq> T_INITIAL \<Longrightarrow> t = tstate_String u"
  using cs.parse_nonzero[of t s] ts.parse_nonzero[of t u]
  by (simp_all add: contract_ParseState_def transfer_ParseState_def contract_invalidState_def
      transfer_invalidState_def)

lemma ParseState_of_int:
  "contract_ParseState (ArgInt (cstate_num s)) = OK s"
  "transfer_ParseState (ArgInt (tstate_num t)) = OK t"
  by (cases s; simp add: contract_ParseState_def enum_of_int_def contract_States_All_def)
     (cases t; simp add: transfer_ParseState_def enum_of_int_def transfer_States_All_def)

text \<open>Every state survives each of the forms it is written in: the string, the JSON string,
  the gob bytes and the SQL column value are all read back as the same state, for contract
  negotiations and for transfers.\<close>

theorem state_forms_roundtrip:
  "contract_ParseState (ArgString (cstate_String s)) = OK s
   \<and> contract_UnmarshalJSON (contract_MarshalJSON s) = OK s
   \<and> obind (contract_GobEncode s) contract_GobDecode = OK s
   \<and> obind (contract_Value s) (\<lambda>v. contract_Scan (ArgString v)) = OK s
   \<and> transfer_ParseState (ArgString (tstate_String t)) = OK t
   \<and> transfer_UnmarshalJSON (transfer_MarshalJSON t) = OK t
   \<and> obind (transfer_GobEncode t) transfer_GobDecode = OK t
   \<and> obind (transfer_Value t) (\<lambda>v. transfer_Scan (ArgString v)) = OK t"
  using cs.parse_str[of s] ts.parse_str[of t] cs.unmarshal_marshal[of s] ts.unmarshal_marshal[of t]
  by (simp_all add: contract_UnmarshalJSON_def transfer_UnmarshalJSON_def
      contract_MarshalJSON_def transfer_MarshalJSON_def contract_GobEncode_def contract_GobDecode_def
      transfer_GobEncode_def transfer_GobDecode_def contract_Value_def transfer_Value_def
      contract_Scan_def transfer_Scan_def contract_ParseState_def transfer_ParseState_def
      contract_invalidState_def transfer_invalidState_def)

text \<open>\<open>ParseState\<close> never fails, and a string that names no state is silently read as
  \<open>INITIAL\<close>: a caller cannot tell an unknown state from a fresh one.\<close>

theorem ParseState_unknown_is_INITIAL:
  "(\<exists>s. contract_ParseState a = OK s) \<and> (\<exists>s. transfer_ParseState b = OK s)
   \<and> (t \<in> range cstate_String \<or> contract_ParseState (ArgString t) = OK C_INITIAL)
   \<and> (t \<in> range tstate_String \<or> transfer_ParseState (ArgString t) = OK T_INITIAL)"
  using cs.parse_total[of a] ts.parse_total[of b] cs.parse_unknown[of t] ts.parse_unknown[of t]
  by (auto simp: contract_ParseState_def transfer_ParseState_def contract_invalidState_def
      transfer_invalidState_def)

text \<open>Along any sequence of moves the tables allow, a negotiation or a transfer never goes
  back to an earlier phase, never returns to \<open>INITIAL\<close>, and a final state can only be
  the last one.\<close>

theorem tables_progress:
  "(table_path validTransitions s ts \<longrightarrow>
     (\<forall>t \<in> set ts. contract_rank s \<le> contract_rank t \<and> t \<noteq> C_INITIAL) \<and>
     (\<forall>t \<in> set (butlast (s # ts)). t \<noteq> C_FINALIZED \<and> t \<noteq> C_TERMINATED))
   \<and> (table_path validTransferTransitions u us \<longrightarrow>
     (\<forall>t \<in> set us. transfer_rank u \<le> transfer_rank t \<and> t \<noteq> T_INITIAL) \<and>
     (\<forall>t \<in> set (butlast (u # us)). t \<noteq> T_COMPLETED \<and> t \<noteq> T_TERMINATED))"
  using ct.path_rank[of s ts] ct.path_not_first[of s ts] ct.final_only_last[of s ts]
    tt.path_rank[of u us] tt.path_not_first[of u us] tt.final_only_last[of u us]
  unfolding contract_final_def transfer_final_def by blast

lemma tables_progress_witness:
  "contract_rank C_INITIAL \<le> contract_rank C_AGREED \<and> transfer_rank T_INITIAL \<le> transfer_rank T_COMPLETED"
  using tables_progress[of C_INITIAL "[C_REQUESTED, C_OFFERED, C_ACCEPTED, C_AGREED]"
      T_INITIAL "[T_REQUESTED, T_STARTED, T_SUSPENDED, T_STARTED, T_COMPLETED]"]
  by simp

end
