(* ===== verification/Shared.thy ===== *)
theory Shared
  imports Odrl States
begin

text \<open>
  The protocol's messages and the validation their struct tags ask for
  (\<open>dsp/shared/*_types.go\<close>, \<open>dsp/shared/validation_helpers.go\<close>), the requester
  information and the authorisation helpers of \<open>internal/authforwarder\<close>, and the text forms
  the program stores (\<open>lib\<close>), which are third-party code and so parameters.
  A message on the wire is its value: its JSON text is not modelled, and a body that does not
  decode into the expected struct is \<open>None\<close>.
\<close>

section \<open>Requester information\<close>

text \<open>The generated gRPC types the program reads: a status, an identifier and an external id.\<close>

datatype auth_status =
    AUTHENTICATION_STATUS_UNSPECIFIED | AUTHENTICATION_STATUS_UNAUTHENTICATED
  | AUTHENTICATION_STATUS_AUTHENTICATED | AUTHENTICATION_STATUS_CONTINUATION
  | AUTHENTICATION_STATUS_LOCAL_ORIGIN

record RequesterInfo =
  AuthenticationStatus :: auth_status
  ri_Identifier :: string
  ExternalId :: string

text \<open>The two values the program keeps in a Go context.\<close>

record go_context =
  ctx_requester :: "RequesterInfo option"
  ctx_auth :: "string option"

definition background :: go_context where
  "background = \<lparr>ctx_requester = None, ctx_auth = None\<rparr>"

definition ExtractRequesterInfo :: "go_context \<Rightarrow> RequesterInfo outcome" where
  "ExtractRequesterInfo ctx = (case ctx_requester ctx of
     None \<Rightarrow> PANIC ''requesterInfo not set in context'' | Some ri \<Rightarrow> OK ri)"

definition SetRequesterInfo :: "go_context \<Rightarrow> RequesterInfo \<Rightarrow> go_context" where
  "SetRequesterInfo ctx ri = ctx\<lparr>ctx_requester := Some ri\<rparr>"

definition ExtractAuthorization :: "go_context \<Rightarrow> string" where
  "ExtractAuthorization ctx = (case ctx_auth ctx of None \<Rightarrow> [] | Some v \<Rightarrow> v)"

definition InjectAuthorization :: "go_context \<Rightarrow> string \<Rightarrow> go_context" where
  "InjectAuthorization ctx v = ctx\<lparr>ctx_auth := Some v\<rparr>"

text \<open>A nil \<open>stored\<close> is dereferenced.\<close>

definition CheckRequesterInfo :: "go_context \<Rightarrow> RequesterInfo option \<Rightarrow> unit outcome" where
  "CheckRequesterInfo ctx stored = (case stored of
     None \<Rightarrow> PANIC ''nil pointer dereference''
   | Some st \<Rightarrow>
       if AuthenticationStatus st = AUTHENTICATION_STATUS_UNAUTHENTICATED
          \<or> AuthenticationStatus st = AUTHENTICATION_STATUS_LOCAL_ORIGIN then OK ()
       else obind (ExtractRequesterInfo ctx) (\<lambda>ri.
         if AuthenticationStatus ri = AUTHENTICATION_STATUS_LOCAL_ORIGIN
            \<or> AuthenticationStatus ri = AUTHENTICATION_STATUS_CONTINUATION then OK ()
         else if ri_Identifier ri \<noteq> ri_Identifier st
         then ERR (Errorf ''identifier mismatch in RequesterInfo'' [])
         else OK ()))"

text \<open>\<open>GetExternalId\<close> of a generated type answers the empty string on nil.\<close>

definition GetExternalId :: "RequesterInfo option \<Rightarrow> string" where
  "GetExternalId ri = (case ri of None \<Rightarrow> [] | Some r \<Rightarrow> ExternalId r)"

datatype http_answer = HttpError nat | Served go_context

text \<open>
  \<open>HTTPMiddleware\<close> puts the header (empty when absent) in the context, \<open>NewAuthNMiddleware\<close>
  asks the authentication service about it; \<open>None\<close> is no service, and the service's answer
  is its error or the requester it vouches for.
\<close>

definition HTTPMiddleware :: "string option \<Rightarrow> go_context \<Rightarrow> go_context" where
  "HTTPMiddleware header ctx = ctx\<lparr>ctx_auth := Some (case header of None \<Rightarrow> [] | Some h \<Rightarrow> h)\<rparr>"

definition NewAuthNMiddleware ::
  "(string \<Rightarrow> RequesterInfo outcome) option \<Rightarrow> go_context \<Rightarrow> http_answer outcome" where
  "NewAuthNMiddleware service ctx =
     (let unauth = \<lparr>AuthenticationStatus = AUTHENTICATION_STATUS_UNAUTHENTICATED,
                    ri_Identifier = [], ExternalId = []\<rparr>
      in case service of
           None \<Rightarrow> OK (Served (SetRequesterInfo ctx unauth))
         | Some verify \<Rightarrow>
             if ExtractAuthorization ctx = [] then OK (Served (SetRequesterInfo ctx unauth))
             else (case verify (ExtractAuthorization ctx) of
                     OK ri \<Rightarrow> OK (Served (SetRequesterInfo ctx ri))
                   | ERR e \<Rightarrow> OK (HttpError 401)
                   | PANIC p \<Rightarrow> PANIC p))"

lemma ExtractRequesterInfo_Set [simp]: "ExtractRequesterInfo (SetRequesterInfo ctx ri) = OK ri"
  by (simp add: ExtractRequesterInfo_def SetRequesterInfo_def)

text \<open>The check of a stored requester passes a request of another identity only when the stored
  requester was unauthenticated or local, or when the request itself is local or continues one;
  in every other case it passes exactly the requests with the stored identifier.\<close>

theorem CheckRequesterInfo_iff:
  "CheckRequesterInfo (SetRequesterInfo ctx ri) (Some st) = OK ()
     \<longleftrightarrow> AuthenticationStatus st \<in> {AUTHENTICATION_STATUS_UNAUTHENTICATED, AUTHENTICATION_STATUS_LOCAL_ORIGIN}
       \<or> AuthenticationStatus ri \<in> {AUTHENTICATION_STATUS_LOCAL_ORIGIN, AUTHENTICATION_STATUS_CONTINUATION}
       \<or> ri_Identifier ri = ri_Identifier st"
  by (simp add: CheckRequesterInfo_def)

text \<open>Behind the middleware every handler finds requester information in its context, and a
  request without an authorisation header is always served as unauthenticated.\<close>

theorem middleware_sets_requester:
  "(NewAuthNMiddleware service (HTTPMiddleware header ctx) = OK (Served ctx') \<longrightarrow>
      (\<exists>ri. ExtractRequesterInfo ctx' = OK ri \<and>
        (header = None \<longrightarrow> AuthenticationStatus ri = AUTHENTICATION_STATUS_UNAUTHENTICATED)))
   \<and> (header = None \<longrightarrow> (\<exists>c. NewAuthNMiddleware service (HTTPMiddleware header ctx) = OK (Served c)))"
  by (auto simp: NewAuthNMiddleware_def HTTPMiddleware_def ExtractAuthorization_def
      ExtractRequesterInfo_def SetRequesterInfo_def Let_def split: option.splits if_splits outcome.splits)

lemma middleware_sets_requester_witness:
  "\<exists>ri. ExtractRequesterInfo (SetRequesterInfo (HTTPMiddleware None background)
       \<lparr>AuthenticationStatus = AUTHENTICATION_STATUS_UNAUTHENTICATED, ri_Identifier = [], ExternalId = []\<rparr>) = OK ri
     \<and> AuthenticationStatus ri = AUTHENTICATION_STATUS_UNAUTHENTICATED"
proof -
  have "NewAuthNMiddleware None (HTTPMiddleware None background) = OK (Served (SetRequesterInfo
      (HTTPMiddleware None background)
      \<lparr>AuthenticationStatus = AUTHENTICATION_STATUS_UNAUTHENTICATED, ri_Identifier = [], ExternalId = []\<rparr>))"
    by (simp add: NewAuthNMiddleware_def)
  then show ?thesis
    using middleware_sets_requester[of None None background] by blast
qed

end
