(* ===== verification/Messages.thy ===== *)
theory Messages
  imports Shared
begin

text \<open>
  The messages of the dataspace protocol with the validation of their struct tags
  (\<open>dsp/shared\<close>), and \<open>lib\<close>, the text forms the program relies on: URLs and the JSON
  columns of its tables.
\<close>

section \<open>Third-party text forms\<close>

text \<open>A URL: the path, which the program rewrites, and the rest, which it only copies.\<close>

record url =
  uPath :: string
  uRest :: string

text \<open>The generated gRPC type \<open>PublishInfo\<close>.\<close>

datatype auth_type =
    AUTHENTICATION_TYPE_UNSPECIFIED | AUTHENTICATION_TYPE_BASIC | AUTHENTICATION_TYPE_BEARER
  | AUTHENTICATION_TYPE_OTHER nat

record PublishInfo =
  pi_Url :: string
  AuthenticationType :: auth_type
  Username :: string
  Password :: string

record TraceInfo =
  TraceID :: string
  SpanID :: string
  TraceFlags :: "8 word"

definition zero_trace :: TraceInfo where
  "zero_trace = \<lparr>TraceID = [], SpanID = [], TraceFlags = 0\<rparr>"

text \<open>\<open>net/url\<close>, and \<open>encoding/json\<close> at the five column types.\<close>

record lib = uuid_pkg +
  url_Parse :: "string \<Rightarrow> url option"
  url_String :: "url \<Rightarrow> string"
  Marshal_offer :: "Offer \<Rightarrow> string outcome"
  Unmarshal_offer :: "string \<Rightarrow> Offer outcome"
  Marshal_agreement :: "Agreement \<Rightarrow> string outcome"
  Unmarshal_agreement :: "string \<Rightarrow> Agreement outcome"
  Marshal_requester :: "RequesterInfo \<Rightarrow> string outcome"
  Unmarshal_requester :: "string \<Rightarrow> RequesterInfo outcome"
  Marshal_publish :: "PublishInfo \<Rightarrow> string outcome"
  Unmarshal_publish :: "string \<Rightarrow> PublishInfo outcome"
  Marshal_trace :: "TraceInfo \<Rightarrow> string outcome"
  Unmarshal_trace :: "string \<Rightarrow> TraceInfo outcome"

text \<open>\<open>url.Parse\<close> reads back what \<open>String\<close> printed, for URLs that were parsed.\<close>

definition url_ok :: "'a lib_scheme \<Rightarrow> url \<Rightarrow> bool" where
  "url_ok L u = (url_Parse L (url_String L u) = Some u)"

definition cloneURL :: "'a lib_scheme \<Rightarrow> url \<Rightarrow> url outcome" where
  "cloneURL L u = (case url_Parse L (url_String L u) of
     None \<Rightarrow> PANIC ''Couldn't clone url'' | Some nu \<Rightarrow> OK nu)"

definition MustParseURL :: "'a lib_scheme \<Rightarrow> string \<Rightarrow> url outcome" where
  "MustParseURL L u = (case url_Parse L u of None \<Rightarrow> PANIC ''invalid URL'' | Some nu \<Rightarrow> OK nu)"

lemma cloneURL_ok [simp]: "url_ok L u \<Longrightarrow> cloneURL L u = OK u"
  by (simp add: cloneURL_def url_ok_def)

section \<open>Common types\<close>

record Multilanguage =
  ml_Value :: string
  ml_Language :: string

definition valid_Multilanguage :: "Multilanguage \<Rightarrow> bool" where
  "valid_Multilanguage m = (required (ml_Value m) \<and> required (ml_Language m))"

record ProtocolVersion =
  pv_Version :: string
  pv_Path :: string

record VersionResponse =
  vr_Context :: Context
  ProtocolVersions :: "ProtocolVersion list"

definition valid_VersionResponse :: "VersionResponse \<Rightarrow> bool" where
  "valid_VersionResponse v =
     (ProtocolVersions v \<noteq> []
      \<and> list_all (\<lambda>p. required (pv_Version p) \<and> required (pv_Path p)) (ProtocolVersions v))"

record DSPError =
  de_Context :: Context
  de_Type :: string
  de_ProviderPID :: string
  de_ConsumerPID :: string
  de_Code :: string
  de_Reason :: "Multilanguage list"
  de_Description :: "Multilanguage list"

definition DSPContext :: string where
  "DSPContext = ''https://w3id.org/dspace/2024/1/context.json''"

definition GetDSPContext :: Context where
  "GetDSPContext = NewRootContext [\<lparr>ce_ID = DSPContext, ce_Type = []\<rparr>]"

section \<open>Contract messages\<close>

record ContractRequestMessage =
  crm_Context :: Context
  crm_Type :: string
  crm_ProviderPID :: string
  crm_ConsumerPID :: string
  crm_Offer :: MessageOffer
  crm_CallbackAddress :: string

record ContractOfferMessage =
  com_Context :: Context
  com_Type :: string
  com_ProviderPID :: string
  com_ConsumerPID :: string
  com_Offer :: MessageOffer
  com_CallbackAddress :: string

record ContractAgreementMessage =
  cam_Context :: Context
  cam_Type :: string
  cam_ProviderPID :: string
  cam_ConsumerPID :: string
  cam_Agreement :: Agreement
  cam_CallbackAddress :: string

record ContractAgreementVerificationMessage =
  cvm_Context :: Context
  cvm_Type :: string
  cvm_ProviderPID :: string
  cvm_ConsumerPID :: string

record ContractNegotiationEventMessage =
  cem_Context :: Context
  cem_Type :: string
  cem_ProviderPID :: string
  cem_ConsumerPID :: string
  cem_EventType :: string

record ContractNegotiationTerminationMessage =
  ctm_Context :: Context
  ctm_Type :: string
  ctm_ProviderPID :: string
  ctm_ConsumerPID :: string
  ctm_Code :: string
  ctm_Reason :: "Multilanguage list"

record ContractNegotiation =
  cn_Context :: Context
  cn_Type :: string
  cn_ProviderPID :: string
  cn_ConsumerPID :: string
  cn_State :: string

definition valid_ContractRequest :: "ContractRequestMessage \<Rightarrow> bool" where
  "valid_ContractRequest m =
     (crm_Type m = ''dspace:ContractRequestMessage'' \<and> required (crm_ConsumerPID m)
      \<and> valid_MessageOffer (crm_Offer m) \<and> required (crm_CallbackAddress m))"

definition valid_ContractOffer :: "ContractOfferMessage \<Rightarrow> bool" where
  "valid_ContractOffer m =
     (com_Type m = ''dspace:ContractOfferMessage'' \<and> required (com_ProviderPID m)
      \<and> valid_MessageOffer (com_Offer m) \<and> required (com_CallbackAddress m))"

definition valid_ContractAgreement :: "ContractAgreementMessage \<Rightarrow> bool" where
  "valid_ContractAgreement m =
     (cam_Type m = ''dspace:ContractAgreementMessage'' \<and> required (cam_ProviderPID m)
      \<and> valid_Agreement (cam_Agreement m) \<and> required (cam_CallbackAddress m))"

definition valid_ContractVerification :: "ContractAgreementVerificationMessage \<Rightarrow> bool" where
  "valid_ContractVerification m =
     (cvm_Type m = ''dspace:ContractAgreementVerificationMessage''
      \<and> required (cvm_ProviderPID m) \<and> required (cvm_ConsumerPID m))"

definition valid_ContractEvent :: "ContractNegotiationEventMessage \<Rightarrow> bool" where
  "valid_ContractEvent m =
     (cem_Type m = ''dspace:ContractNegotiationEventMessage''
      \<and> required (cem_ProviderPID m) \<and> required (cem_ConsumerPID m)
      \<and> cem_EventType m \<in> {''dspace:ACCEPTED'', ''dspace:FINALIZED''})"

definition valid_ContractTermination :: "ContractNegotiationTerminationMessage \<Rightarrow> bool" where
  "valid_ContractTermination m =
     (ctm_Type m = ''dspace:ContractNegotiationTerminationMessage''
      \<and> required (ctm_ProviderPID m) \<and> required (ctm_ConsumerPID m))"

definition valid_ContractNegotiation :: "ContractNegotiation \<Rightarrow> bool" where
  "valid_ContractNegotiation m =
     (cn_Type m = ''dspace:ContractNegotiation'' \<and> required (cn_ProviderPID m)
      \<and> required (cn_ConsumerPID m) \<and> required (cn_State m))"

section \<open>Transfer messages\<close>

record EndpointProperty =
  ep_Type :: string
  ep_Name :: string
  ep_Value :: string

record DataAddress =
  da_Type :: string
  EndpointType :: string
  Endpoint :: string
  EndpointProperties :: "EndpointProperty list"

record TransferRequestMessage =
  trm_Context :: Context
  trm_Type :: string
  trm_AgreementID :: string
  trm_Format :: string
  trm_DataAddress :: "DataAddress option"
  trm_CallbackAddress :: string
  trm_ConsumerPID :: string

record TransferStartMessage =
  tsm_Context :: Context
  tsm_Type :: string
  tsm_ProviderPID :: string
  tsm_ConsumerPID :: string
  tsm_DataAddress :: "DataAddress option"

record TransferSuspensionMessage =
  tum_Context :: Context
  tum_Type :: string
  tum_ProviderPID :: string
  tum_ConsumerPID :: string
  tum_Code :: string
  tum_Reason :: "json list"

record TransferCompletionMessage =
  tcm_Context :: Context
  tcm_Type :: string
  tcm_ProviderPID :: string
  tcm_ConsumerPID :: string

record TransferTerminationMessage =
  ttm_Context :: Context
  ttm_Type :: string
  ttm_ProviderPID :: string
  ttm_ConsumerPID :: string
  ttm_Code :: string
  ttm_Reason :: "json list"

record TransferProcess =
  tp_Context :: Context
  tp_Type :: string
  tp_ProviderPID :: string
  tp_ConsumerPID :: string
  tp_State :: string

definition valid_EndpointProperty :: "EndpointProperty \<Rightarrow> bool" where
  "valid_EndpointProperty p =
     (ep_Type p = ''dspace:EndpointProperty'' \<and> required (ep_Name p) \<and> required (ep_Value p))"

text \<open>The slice of properties has no \<open>dive\<close> tag: its elements are not visited.\<close>

definition valid_DataAddress :: "DataAddress \<Rightarrow> bool" where
  "valid_DataAddress d =
     (da_Type d = ''dspace:DataAddress'' \<and> required (EndpointType d) \<and> required (Endpoint d))"

definition valid_opt_DataAddress :: "DataAddress option \<Rightarrow> bool" where
  "valid_opt_DataAddress d = (case d of None \<Rightarrow> True | Some a \<Rightarrow> valid_DataAddress a)"

definition valid_TransferRequest :: "TransferRequestMessage \<Rightarrow> bool" where
  "valid_TransferRequest m =
     (trm_Type m = ''dspace:TransferRequestMessage'' \<and> required (trm_AgreementID m)
      \<and> required (trm_Format m) \<and> valid_opt_DataAddress (trm_DataAddress m)
      \<and> required (trm_CallbackAddress m) \<and> required (trm_ConsumerPID m))"

definition valid_TransferStart :: "TransferStartMessage \<Rightarrow> bool" where
  "valid_TransferStart m =
     (tsm_Type m = ''dspace:TransferStartMessage'' \<and> required (tsm_ProviderPID m)
      \<and> required (tsm_ConsumerPID m) \<and> valid_opt_DataAddress (tsm_DataAddress m))"

definition valid_TransferSuspension :: "TransferSuspensionMessage \<Rightarrow> bool" where
  "valid_TransferSuspension m =
     (tum_Type m = ''dspace:TransferSuspensionMessage'' \<and> required (tum_ProviderPID m)
      \<and> required (tum_ConsumerPID m))"

definition valid_TransferCompletion :: "TransferCompletionMessage \<Rightarrow> bool" where
  "valid_TransferCompletion m =
     (tcm_Type m = ''dspace:TransferCompletionMessage'' \<and> required (tcm_ProviderPID m)
      \<and> required (tcm_ConsumerPID m))"

definition valid_TransferTermination :: "TransferTerminationMessage \<Rightarrow> bool" where
  "valid_TransferTermination m =
     (ttm_Type m = ''dspace:TransferTerminationMessage'' \<and> required (ttm_ProviderPID m)
      \<and> required (ttm_ConsumerPID m))"

definition TransferProcessState :: "string \<Rightarrow> bool" where
  "TransferProcessState s = (s \<in> set
     [''INITIAL'', ''dspace:REQUESTED'', ''dspace:STARTED'', ''dspace:TERMINATED'',
      ''dspace:COMPLETED'', ''dspace:SUSPENDED''])"

definition ContractNegotiationState :: "string \<Rightarrow> bool" where
  "ContractNegotiationState s = (s \<in> set
     [''dspace:REQUESTED'', ''dspace:OFFERED'', ''dspace:ACCEPTED'', ''dspace:AGREED'',
      ''dspace:VERIFIED'', ''dspace:FINALIZED'', ''dspace:TERMINATED''])"

definition valid_TransferProcess :: "TransferProcess \<Rightarrow> bool" where
  "valid_TransferProcess m =
     (tp_Type m = ''dspace:TransferProcess'' \<and> required (tp_ProviderPID m)
      \<and> required (tp_ConsumerPID m) \<and> required (tp_State m) \<and> TransferProcessState (tp_State m))"

section \<open>Encoding and decoding\<close>

text \<open>The body of a request is the message it decodes into, \<open>None\<close> when it does not.\<close>

definition DecodeValid :: "('a \<Rightarrow> bool) \<Rightarrow> 'a option \<Rightarrow> 'a outcome" where
  "DecodeValid valid body =
     obind (of_option ''decode json'' body) (\<lambda>v.
       if valid v then OK v else ERR (Errorf ''validation Error'' []))"

definition ValidateAndMarshal :: "('a \<Rightarrow> bool) \<Rightarrow> 'a \<Rightarrow> 'a outcome" where
  "ValidateAndMarshal valid s = (if valid s then OK s else ERR (Errorf ''validation Error'' []))"

text \<open>A response: its status line is written before the body is validated.\<close>

record 'a http_response =
  status_code :: nat
  resp_body :: "'a option"

definition EncodeValid :: "('a \<Rightarrow> bool) \<Rightarrow> nat \<Rightarrow> 'a \<Rightarrow> 'a http_response" where
  "EncodeValid valid code v = \<lparr>status_code = code, resp_body = (if valid v then Some v else None)\<rparr>"

lemma DecodeValid_OK [simp]: "DecodeValid valid body = OK v \<longleftrightarrow> body = Some v \<and> valid v"
  by (auto simp: DecodeValid_def outcome_simps)

lemma DecodeValid_not_PANIC [simp]: "DecodeValid valid body \<noteq> PANIC p"
  by (auto simp: DecodeValid_def outcome_simps)

lemma ValidateAndMarshal_OK [simp]: "ValidateAndMarshal valid s = OK v \<longleftrightarrow> valid s \<and> v = s"
  by (auto simp: ValidateAndMarshal_def)

lemma Decode_Marshal: "ValidateAndMarshal valid s = OK b \<Longrightarrow> DecodeValid valid (Some b) = OK s"
  by simp

text \<open>Every state a transfer can be in passes the validation of the answer that reports it.\<close>

lemma state_is_TransferProcessState: "TransferProcessState (tstate_String s)"
  by (cases s) (simp_all add: TransferProcessState_def)

lemma state_is_ContractNegotiationState: "ContractNegotiationState (cstate_String s) \<longleftrightarrow> s \<noteq> C_INITIAL"
  by (cases s) (simp_all add: ContractNegotiationState_def)

end
