(* ===== verification/Samples.thy ===== *)
theory Samples
  imports Messages
begin

text \<open>
  A concrete instance of the third-party text forms, for the examples at which the theorems are
  applied: the decimal UUIDs of \<open>Identifiers\<close>, URLs that are their path, and column codecs
  that write and read one value of each type.
\<close>

definition sample_message_offer :: MessageOffer where
  "sample_message_offer = use_offer []"

definition sample_offer :: Offer where
  "sample_offer = \<lparr>offer_message = sample_message_offer\<rparr>"

definition sample_agreement :: Agreement where
  "sample_agreement = \<lparr>ag_policy = zero_policy, ag_Type = ''odrl:Agreement'',
     ag_ID = decimal_uuid_URN 7, ag_Target = ''urn:uuid:1'', ag_Timestamp = 0\<rparr>"

definition sample_requester :: RequesterInfo where
  "sample_requester = \<lparr>AuthenticationStatus = AUTHENTICATION_STATUS_UNAUTHENTICATED,
     ri_Identifier = [], ExternalId = []\<rparr>"

definition sample_publish :: PublishInfo where
  "sample_publish = \<lparr>pi_Url = ''https://host/data'',
     AuthenticationType = AUTHENTICATION_TYPE_BEARER, Username = [], Password = ''token''\<rparr>"

definition sample_lib :: lib where
  "sample_lib =
     \<lparr>uuid_Parse = decimal_uuid_Parse, uuid_URN = decimal_uuid_URN, uuid_String = decimal_uuid_String,
      url_Parse = (\<lambda>s. Some \<lparr>uPath = s, uRest = []\<rparr>), url_String = uPath,
      Marshal_offer = (\<lambda>_. OK ''{}''), Unmarshal_offer = (\<lambda>_. OK sample_offer),
      Marshal_agreement = (\<lambda>_. OK ''{}''), Unmarshal_agreement = (\<lambda>_. OK sample_agreement),
      Marshal_requester = (\<lambda>_. OK ''{}''), Unmarshal_requester = (\<lambda>_. OK sample_requester),
      Marshal_publish = (\<lambda>_. OK ''{}''), Unmarshal_publish = (\<lambda>_. OK sample_publish),
      Marshal_trace = (\<lambda>_. OK ''{}''), Unmarshal_trace = (\<lambda>_. OK zero_trace)\<rparr>"

definition root_url :: url where
  "root_url = \<lparr>uPath = ''/dsp'', uRest = []\<rparr>"

lemma sample_lib_laws [simp]: "uuid_laws sample_lib"
  using decimal_uuid_laws unfolding uuid_laws_def decimal_uuids_def sample_lib_def uuid_pkg.select_convs .

lemma sample_lib_simps [simp]:
  "url_Parse sample_lib s = Some \<lparr>uPath = s, uRest = []\<rparr>"
  "url_String sample_lib u = uPath u"
  "Marshal_offer sample_lib off = OK ''{}''" "Unmarshal_offer sample_lib t = OK sample_offer"
  "Marshal_agreement sample_lib ag = OK ''{}''" "Unmarshal_agreement sample_lib t = OK sample_agreement"
  "Marshal_requester sample_lib r = OK ''{}''" "Unmarshal_requester sample_lib t = OK sample_requester"
  "Marshal_publish sample_lib p = OK ''{}''" "Unmarshal_publish sample_lib t = OK sample_publish"
  "Marshal_trace sample_lib tr = OK ''{}''" "Unmarshal_trace sample_lib t = OK zero_trace"
  by (simp_all add: sample_lib_def)

lemma sample_uuid_forms [simp]:
  "uuid_Parse sample_lib (uuid_URN sample_lib u) = Some u"
  "uuid_Parse sample_lib (uuid_String sample_lib u) = Some u"
  "uuid_Parse sample_lib (decimal_uuid_URN u) = Some u"
  "ToLower (uuid_URN sample_lib u) = uuid_URN sample_lib u"
  "uuid_URN sample_lib u \<noteq> []"
  using uuid_lawsD(1,2)[OF sample_lib_laws, of u] uuid_URN_lower[OF sample_lib_laws, of u]
    uuid_URN_nonempty[OF sample_lib_laws, of u]
  by (simp_all add: sample_lib_def)

lemma root_url_ok [simp]: "url_ok sample_lib root_url"
  by (simp add: url_ok_def root_url_def)

lemma sample_offer_valid [simp]: "valid_MessageOffer sample_message_offer"
  by (simp add: sample_message_offer_def use_offer_def valid_MessageOffer_def valid_PolicyClass_def
      zero_policy_def required_def)

lemma sample_agreement_valid [simp]: "valid_Agreement sample_agreement"
proof -
  have "decimal_uuid_URN 7 \<noteq> []"
    using uuid_URN_nonempty[OF sample_lib_laws, of 7] by (simp add: sample_lib_def)
  then show ?thesis
    by (simp add: sample_agreement_def valid_Agreement_def valid_zero_policy required_def)
qed

end
