(* ===== verification/Negotiation.thy ===== *)
theory Negotiation
  imports Samples
begin

text \<open>
  A contract negotiation (\<open>dsp/contract/negotiation.go\<close>) and its row in the table
  (\<open>dsp/persistence/backends/sqlite/models/models.go\<close>). Setters that can panic answer an
  outcome. The callback and self URLs are never nil: every caller of \<open>New\<close> passes parsed URLs.
\<close>

section \<open>Rows\<close>

text \<open>The creation and modification times are left out: nothing reads them.\<close>

record agreement_row =
  a_ID :: string
  a_ODRL :: string

record contract_row =
  c_ID :: int
  c_ProviderPID :: "string option"
  c_ConsumerPID :: "string option"
  c_AgreementID :: "string option"
  c_Agreement :: "agreement_row option"
  c_Offer :: string
  c_State :: string
  c_CallbackURL :: string
  c_SelfURL :: string
  c_Role :: string
  c_AutoAccept :: bool
  c_RequesterInfo :: "string option"
  c_TraceInfo :: string
  c_Locked :: bool

definition FromODRLAgreement :: "'a lib_scheme \<Rightarrow> Agreement \<Rightarrow> agreement_row outcome" where
  "FromODRLAgreement L ag =
     obind (of_option ''invalid UUID'' (uuid_Parse L (ag_ID ag))) (\<lambda>i.
     obind (Marshal_agreement L ag) (\<lambda>text.
     OK \<lparr>a_ID = uuid_URN L i, a_ODRL = text\<rparr>))"

definition ToODRLAgreement :: "'a lib_scheme \<Rightarrow> agreement_row \<Rightarrow> Agreement outcome" where
  "ToODRLAgreement L a = Unmarshal_agreement L (a_ODRL a)"

section \<open>Negotiations\<close>

record negotiation =
  n_providerPID :: uuid
  n_consumerPID :: uuid
  n_state :: cstate
  n_offer :: Offer
  n_agreement :: "Agreement option"
  n_callback :: url
  n_self :: url
  n_role :: role
  n_autoAccept :: bool
  n_initial :: bool
  n_ro :: bool
  n_modified :: bool
  n_newAgreement :: bool
  n_traceInfo :: TraceInfo
  n_requesterInfo :: "RequesterInfo option"
  n_internal_id :: int
  n_locked :: bool

text \<open>The log line of \<open>New\<close> prints the role, which panics on an invalid one.\<close>

definition New_negotiation :: "TraceInfo \<Rightarrow> uuid \<Rightarrow> uuid \<Rightarrow> cstate \<Rightarrow> Offer \<Rightarrow> url \<Rightarrow> url \<Rightarrow> role \<Rightarrow> bool
    \<Rightarrow> RequesterInfo option \<Rightarrow> negotiation outcome" where
  "New_negotiation trace ppid cpid state off callback self rl autoAccept ri =
     obind (Role_String rl) (\<lambda>_. OK
       \<lparr>n_providerPID = ppid, n_consumerPID = cpid, n_state = state, n_offer = off,
        n_agreement = None, n_callback = callback, n_self = self, n_role = rl,
        n_autoAccept = autoAccept, n_initial = False, n_ro = False, n_modified = True,
        n_newAgreement = False, n_traceInfo = trace, n_requesterInfo = ri,
        n_internal_id = 0, n_locked = False\<rparr>)"

fun role_number :: "role \<Rightarrow> string" where
  "role_number DataspaceConsumer = ''0''"
| "role_number DataspaceProvider = ''1''"
| "role_number RoleInvalid = ''255''"

definition GenerateStorageKey :: "'a lib_scheme \<Rightarrow> uuid \<Rightarrow> role \<Rightarrow> string" where
  "GenerateStorageKey L i rl = ''negotiation-'' @ uuid_String L i @ ''-'' @ role_number rl"

definition n_StorageKey :: "'a lib_scheme \<Rightarrow> negotiation \<Rightarrow> string" where
  "n_StorageKey L cn = GenerateStorageKey L
     (if n_role cn = DataspaceProvider then n_providerPID cn else n_consumerPID cn) (n_role cn)"

fun n_GetLocalPID :: "negotiation \<Rightarrow> uuid outcome" where
  "n_GetLocalPID cn = (case n_role cn of
     DataspaceConsumer \<Rightarrow> OK (n_consumerPID cn)
   | DataspaceProvider \<Rightarrow> OK (n_providerPID cn)
   | RoleInvalid \<Rightarrow> PANIC ''not a valid role'')"

fun n_TryLocalPID :: "negotiation \<Rightarrow> uuid \<times> bool" where
  "n_TryLocalPID cn = (case n_role cn of
     DataspaceConsumer \<Rightarrow> (n_consumerPID cn, True)
   | DataspaceProvider \<Rightarrow> (n_providerPID cn, True)
   | RoleInvalid \<Rightarrow> (emptyUUID, False))"

fun n_GetRemotePID :: "negotiation \<Rightarrow> uuid outcome" where
  "n_GetRemotePID cn = (case n_role cn of
     DataspaceConsumer \<Rightarrow> OK (n_providerPID cn)
   | DataspaceProvider \<Rightarrow> OK (n_consumerPID cn)
   | RoleInvalid \<Rightarrow> PANIC ''not a valid role'')"

definition n_GetLogFields :: "'a lib_scheme \<Rightarrow> negotiation \<Rightarrow> string \<Rightarrow> (string \<times> string) list outcome" where
  "n_GetLogFields L cn suffix = obind (Role_String (n_role cn)) (\<lambda>r. OK
     [(''role'' @ suffix, r),
      (''consumerPID'' @ suffix, uuid_String L (n_consumerPID cn)),
      (''providerPID'' @ suffix, uuid_String L (n_providerPID cn)),
      (''state'' @ suffix, cstate_String (n_state cn)),
      (''callBack'' @ suffix, url_String L (n_callback cn)),
      (''selfURL'' @ suffix, url_String L (n_self cn)),
      (''autoAccept'' @ suffix, if n_autoAccept cn then ''true'' else ''false'')])"

section \<open>Setters\<close>

definition n_panicRO :: "negotiation \<Rightarrow> unit outcome" where
  "n_panicRO cn = (if n_ro cn
     then PANIC ''Trying to write to a read-only negotiation, this is certainly a bug.'' else OK ())"

definition n_modify :: "negotiation \<Rightarrow> negotiation" where
  "n_modify cn = cn\<lparr>n_modified := True\<rparr>"

definition n_SetProviderPID :: "uuid \<Rightarrow> negotiation \<Rightarrow> negotiation outcome" where
  "n_SetProviderPID u cn = obind (n_panicRO cn) (\<lambda>_. OK (n_modify (cn\<lparr>n_providerPID := u\<rparr>)))"

definition n_SetConsumerPID :: "uuid \<Rightarrow> negotiation \<Rightarrow> negotiation outcome" where
  "n_SetConsumerPID u cn = obind (n_panicRO cn) (\<lambda>_. OK (n_modify (cn\<lparr>n_consumerPID := u\<rparr>)))"

definition n_SetAgreement :: "Agreement \<Rightarrow> negotiation \<Rightarrow> negotiation outcome" where
  "n_SetAgreement a cn = obind (n_panicRO cn) (\<lambda>_.
     OK (n_modify (cn\<lparr>n_agreement := Some a, n_newAgreement := True\<rparr>)))"

definition n_SetState :: "cstate \<Rightarrow> negotiation \<Rightarrow> negotiation outcome" where
  "n_SetState state cn = obind (n_panicRO cn) (\<lambda>_.
     if state \<notin> set (validTransitions (n_state cn))
     then ERR (Errorf (''can't transition from '' @ cstate_String (n_state cn) @ '' to '' @ cstate_String state) [])
     else OK (n_modify (cn\<lparr>n_state := state\<rparr>)))"

text \<open>These four do not ask \<open>panicRO\<close>.\<close>

definition n_SetCallback :: "'a lib_scheme \<Rightarrow> string \<Rightarrow> negotiation \<Rightarrow> negotiation outcome" where
  "n_SetCallback L u cn = (case url_Parse L u of
     None \<Rightarrow> ERR (Errorf ''invalid URL'' [])
   | Some nu \<Rightarrow> OK (n_modify (cn\<lparr>n_callback := nu\<rparr>)))"

definition n_SetAutoAccept :: "negotiation \<Rightarrow> negotiation" where
  "n_SetAutoAccept cn = cn\<lparr>n_autoAccept := True\<rparr>"

definition n_SetReadOnly :: "negotiation \<Rightarrow> negotiation" where
  "n_SetReadOnly cn = cn\<lparr>n_ro := True\<rparr>"

definition n_SetInitial :: "negotiation \<Rightarrow> negotiation" where
  "n_SetInitial cn = cn\<lparr>n_initial := True\<rparr>"

definition n_UnsetInitial :: "negotiation \<Rightarrow> negotiation" where
  "n_UnsetInitial cn = cn\<lparr>n_initial := False\<rparr>"

definition GetContractNegotiation_message :: "'a lib_scheme \<Rightarrow> negotiation \<Rightarrow> ContractNegotiation" where
  "GetContractNegotiation_message L cn =
     \<lparr>cn_Context = GetDSPContext, cn_Type = ''dspace:ContractNegotiation'',
      cn_ProviderPID = uuid_URN L (n_providerPID cn), cn_ConsumerPID = uuid_URN L (n_consumerPID cn),
      cn_State = cstate_String (n_state cn)\<rparr>"

section \<open>To and from the row\<close>

text \<open>A nullable column of a PID.\<close>

definition parse_pid :: "'a lib_scheme \<Rightarrow> string option \<Rightarrow> uuid outcome" where
  "parse_pid L c = (case c of None \<Rightarrow> OK emptyUUID
     | Some s \<Rightarrow> of_option ''invalid UUID'' (uuid_Parse L s))"

definition pid_column :: "'a lib_scheme \<Rightarrow> uuid \<Rightarrow> string option" where
  "pid_column L u = (if uuid_URN L u \<noteq> uuid_URN L emptyUUID then Some (uuid_URN L u) else None)"

text \<open>A nullable column decoded, a field encoded when it is there.\<close>

definition opt_read :: "('a \<Rightarrow> 'b outcome) \<Rightarrow> 'a option \<Rightarrow> 'b option outcome" where
  "opt_read f c = (case c of None \<Rightarrow> OK None | Some s \<Rightarrow> obind (f s) (\<lambda>v. OK (Some v)))"

definition n_FromModel :: "'a lib_scheme \<Rightarrow> contract_row \<Rightarrow> bool \<Rightarrow> negotiation outcome" where
  "n_FromModel L neg ro =
     obind (parse_pid L (c_ProviderPID neg)) (\<lambda>ppid.
     obind (parse_pid L (c_ConsumerPID neg)) (\<lambda>cpid.
     obind (contract_ParseState (ArgString (c_State neg))) (\<lambda>state.
     obind (Unmarshal_offer L (c_Offer neg)) (\<lambda>off.
     obind (opt_read (ToODRLAgreement L) (c_Agreement neg)) (\<lambda>agreement.
     obind (of_option ''parse callback'' (url_Parse L (c_CallbackURL neg))) (\<lambda>callback.
     obind (of_option ''parse self'' (url_Parse L (c_SelfURL neg))) (\<lambda>self.
     obind (ParseRole (c_Role neg)) (\<lambda>rl.
     obind (if c_TraceInfo neg \<noteq> [] then Unmarshal_trace L (c_TraceInfo neg) else OK zero_trace) (\<lambda>trace.
     obind (opt_read (Unmarshal_requester L) (c_RequesterInfo neg)) (\<lambda>ri.
     OK \<lparr>n_providerPID = ppid, n_consumerPID = cpid, n_state = state, n_offer = off,
         n_agreement = agreement, n_callback = callback, n_self = self, n_role = rl,
         n_autoAccept = c_AutoAccept neg, n_initial = False, n_ro = ro, n_modified = False,
         n_newAgreement = False, n_traceInfo = trace, n_requesterInfo = ri,
         n_internal_id = c_ID neg, n_locked = c_Locked neg\<rparr>))))))))))"

definition n_ToModel :: "'a lib_scheme \<Rightarrow> negotiation \<Rightarrow> contract_row outcome" where
  "n_ToModel L cn =
     obind (Marshal_offer L (n_offer cn)) (\<lambda>off.
     obind (opt_read (Marshal_requester L) (n_requesterInfo cn)) (\<lambda>ri.
     obind (Marshal_trace L (n_traceInfo cn)) (\<lambda>trace.
     obind (Role_String (n_role cn)) (\<lambda>rl.
     OK \<lparr>c_ID = n_internal_id cn,
         c_ProviderPID = pid_column L (n_providerPID cn),
         c_ConsumerPID = pid_column L (n_consumerPID cn),
         c_AgreementID = map_option ag_ID (n_agreement cn), c_Agreement = None,
         c_Offer = off, c_State = cstate_String (n_state cn),
         c_CallbackURL = url_String L (n_callback cn), c_SelfURL = url_String L (n_self cn),
         c_Role = rl, c_AutoAccept = n_autoAccept cn, c_RequesterInfo = ri,
         c_TraceInfo = trace, c_Locked = False\<rparr>))))"

section \<open>Facts on setters\<close>

lemma n_SetState_OK [outcome_simps]:
  "n_SetState st cn = OK cn' \<longleftrightarrow>
     \<not> n_ro cn \<and> st \<in> set (validTransitions (n_state cn)) \<and> cn' = cn\<lparr>n_state := st, n_modified := True\<rparr>"
  by (auto simp: n_SetState_def n_panicRO_def n_modify_def)

lemma n_SetState_ERR [outcome_simps]:
  "n_SetState st cn = ERR e \<longleftrightarrow> \<not> n_ro cn \<and> st \<notin> set (validTransitions (n_state cn)) \<and>
     e = Errorf (''can't transition from '' @ cstate_String (n_state cn) @ '' to '' @ cstate_String st) []"
  by (auto simp: n_SetState_def n_panicRO_def n_modify_def)

lemma n_setters_OK [outcome_simps]:
  "n_SetProviderPID u cn = OK cn' \<longleftrightarrow> \<not> n_ro cn \<and> cn' = cn\<lparr>n_providerPID := u, n_modified := True\<rparr>"
  "n_SetConsumerPID u cn = OK cn' \<longleftrightarrow> \<not> n_ro cn \<and> cn' = cn\<lparr>n_consumerPID := u, n_modified := True\<rparr>"
  "n_SetAgreement a cn = OK cn' \<longleftrightarrow>
     \<not> n_ro cn \<and> cn' = cn\<lparr>n_agreement := Some a, n_newAgreement := True, n_modified := True\<rparr>"
  "n_SetCallback L v cn = OK cn' \<longleftrightarrow>
     (\<exists>nu. url_Parse L v = Some nu \<and> cn' = cn\<lparr>n_callback := nu, n_modified := True\<rparr>)"
  by (auto simp: n_SetProviderPID_def n_SetConsumerPID_def n_SetAgreement_def n_SetCallback_def
      n_panicRO_def n_modify_def split: option.splits)

lemma n_setters_rw:
  "\<not> n_ro cn \<Longrightarrow> n_SetProviderPID u cn = OK (cn\<lparr>n_providerPID := u, n_modified := True\<rparr>)"
  "\<not> n_ro cn \<Longrightarrow> n_SetConsumerPID u cn = OK (cn\<lparr>n_consumerPID := u, n_modified := True\<rparr>)"
  "\<not> n_ro cn \<Longrightarrow> n_SetAgreement a cn =
     OK (cn\<lparr>n_agreement := Some a, n_newAgreement := True, n_modified := True\<rparr>)"
  by (simp_all add: outcome_simps)

lemma n_setters_not_ERR [simp]:
  "n_SetProviderPID u cn \<noteq> ERR e" "n_SetConsumerPID u cn \<noteq> ERR e" "n_SetAgreement a cn \<noteq> ERR e"
  by (simp_all add: n_SetProviderPID_def n_SetConsumerPID_def n_SetAgreement_def n_panicRO_def)

lemma New_negotiation_OK: "New_negotiation tr pp cp st off cb self rl aa ri = OK cn \<Longrightarrow>
    n_state cn = st \<and> n_providerPID cn = pp \<and> n_consumerPID cn = cp \<and> n_role cn = rl \<and> rl \<noteq> RoleInvalid
    \<and> \<not> n_ro cn \<and> n_modified cn \<and> n_internal_id cn = 0 \<and> n_agreement cn = None \<and> n_callback cn = cb \<and> n_offer cn = off
    \<and> n_autoAccept cn = aa \<and> n_requesterInfo cn = ri \<and> n_self cn = self \<and> \<not> n_newAgreement cn"
  by (cases rl) (auto simp: New_negotiation_def)

text \<open>A writable negotiation changes state exactly along the table, changing nothing else but its
  modified mark, and refuses every other target with an error.\<close>

theorem SetState_follows_table:
  "\<not> n_ro cn \<Longrightarrow>
     (st \<in> set (validTransitions (n_state cn)) \<longrightarrow> n_SetState st cn = OK (cn\<lparr>n_state := st, n_modified := True\<rparr>))
     \<and> (st \<notin> set (validTransitions (n_state cn)) \<longrightarrow> (\<exists>e. n_SetState st cn = ERR e))"
  by (auto simp: outcome_simps)

text \<open>On a read-only negotiation the setters of the PIDs, the agreement and the state panic,
  while \<open>SetCallback\<close>, \<open>SetAutoAccept\<close> and \<open>SetInitial\<close> still change it, though
  the comment above the setters says they panic too.\<close>

theorem readonly_setters:
  "n_ro cn \<Longrightarrow>
     is_PANIC (n_SetProviderPID u cn) \<and> is_PANIC (n_SetConsumerPID u cn) \<and> is_PANIC (n_SetAgreement a cn)
     \<and> is_PANIC (n_SetState st cn) \<and> \<not> is_PANIC (n_SetCallback L v cn)
     \<and> n_autoAccept (n_SetAutoAccept cn) \<and> n_initial (n_SetInitial cn)"
  by (simp add: n_SetProviderPID_def n_SetConsumerPID_def n_SetAgreement_def n_SetState_def
      n_SetCallback_def n_panicRO_def n_SetAutoAccept_def n_SetInitial_def split: option.split)

section \<open>The row round trip\<close>

text \<open>The text forms round-trip at the values this negotiation holds.\<close>

definition n_forms_ok :: "'a lib_scheme \<Rightarrow> negotiation \<Rightarrow> bool" where
  "n_forms_ok L cn \<longleftrightarrow>
     url_ok L (n_callback cn) \<and> url_ok L (n_self cn)
     \<and> (\<exists>t. Marshal_offer L (n_offer cn) = OK t \<and> Unmarshal_offer L t = OK (n_offer cn))
     \<and> (\<exists>t. Marshal_trace L (n_traceInfo cn) = OK t \<and> t \<noteq> [] \<and> Unmarshal_trace L t = OK (n_traceInfo cn))
     \<and> (case n_requesterInfo cn of None \<Rightarrow> True | Some r \<Rightarrow>
          (\<exists>t. Marshal_requester L r = OK t \<and> Unmarshal_requester L t = OK r))"

lemma parse_pid_column: "uuid_laws L \<Longrightarrow> parse_pid L (pid_column L u) = OK u"
  by (simp add: parse_pid_def pid_column_def uuid_lawsD(2) uuid_URN_inj)

lemma pid_column_inj: "uuid_laws L \<Longrightarrow> pid_column L u = pid_column L v \<longleftrightarrow> u = v"
  by (auto simp: pid_column_def uuid_URN_inj)

lemma pid_column_Some: "uuid_laws L \<Longrightarrow> pid_column L u = Some s \<longleftrightarrow> u \<noteq> emptyUUID \<and> s = uuid_URN L u"
  by (auto simp: pid_column_def uuid_URN_inj)

lemma n_ToModel_fields:
  "n_ToModel L cn = OK m \<Longrightarrow>
     c_ID m = n_internal_id cn \<and> c_ProviderPID m = pid_column L (n_providerPID cn)
     \<and> c_ConsumerPID m = pid_column L (n_consumerPID cn) \<and> c_State m = cstate_String (n_state cn)
     \<and> c_AgreementID m = map_option ag_ID (n_agreement cn) \<and> c_Agreement m = None \<and> \<not> c_Locked m
     \<and> Role_String (n_role cn) = OK (c_Role m) \<and> c_AutoAccept m = n_autoAccept cn
     \<and> c_CallbackURL m = url_String L (n_callback cn)"
  by (auto simp: n_ToModel_def outcome_simps)

lemma n_ToModel_defined:
  "n_forms_ok L cn \<Longrightarrow> n_role cn \<noteq> RoleInvalid \<Longrightarrow> \<exists>m. n_ToModel L cn = OK m"
  by (cases "n_role cn") (auto simp: n_forms_ok_def n_ToModel_def opt_read_def split: option.splits)

lemma n_FromModel_ToModel:
  assumes laws: "uuid_laws L" and forms: "n_forms_ok L cn" and m: "n_ToModel L cn = OK m"
    and ag: "opt_read (ToODRLAgreement L) joined = OK (n_agreement cn)"
  shows "n_FromModel L (m\<lparr>c_Agreement := joined, c_Locked := l\<rparr>) ro =
    OK (cn\<lparr>n_initial := False, n_ro := ro, n_modified := False, n_newAgreement := False, n_locked := l\<rparr>)"
proof -
  obtain ot tt rl where ot: "Marshal_offer L (n_offer cn) = OK ot" "Unmarshal_offer L ot = OK (n_offer cn)"
    and tt: "Marshal_trace L (n_traceInfo cn) = OK tt" "tt \<noteq> []" "Unmarshal_trace L tt = OK (n_traceInfo cn)"
    and u: "url_Parse L (url_String L (n_callback cn)) = Some (n_callback cn)"
      "url_Parse L (url_String L (n_self cn)) = Some (n_self cn)"
    and rl: "Role_String (n_role cn) = OK rl"
    using forms m by (auto simp: n_forms_ok_def url_ok_def n_ToModel_def outcome_simps)
  obtain ri where ri: "opt_read (Marshal_requester L) (n_requesterInfo cn) = OK ri"
      "opt_read (Unmarshal_requester L) ri = OK (n_requesterInfo cn)"
    using forms by (auto simp: n_forms_ok_def opt_read_def split: option.splits)
  have M: "m = \<lparr>c_ID = n_internal_id cn,
     c_ProviderPID = pid_column L (n_providerPID cn), c_ConsumerPID = pid_column L (n_consumerPID cn),
     c_AgreementID = map_option ag_ID (n_agreement cn), c_Agreement = None, c_Offer = ot,
     c_State = cstate_String (n_state cn), c_CallbackURL = url_String L (n_callback cn),
     c_SelfURL = url_String L (n_self cn), c_Role = rl, c_AutoAccept = n_autoAccept cn,
     c_RequesterInfo = ri, c_TraceInfo = tt, c_Locked = False\<rparr>"
    using m by (simp add: n_ToModel_def ot(1) tt(1) rl ri(1))
  show ?thesis
    by (simp add: M n_FromModel_def ot tt u rl ri ag parse_pid_column[OF laws] ParseRole_Role_String[OF rl])
qed

text \<open>A negotiation that is written to its row and read back is the same negotiation: every field
  survives but the marks of the session (initial, modified, new agreement, read-only, locked).\<close>

theorem negotiation_row_roundtrip:
  assumes "uuid_laws L" and "n_forms_ok L cn" and "n_role cn \<noteq> RoleInvalid"
    and "opt_read (ToODRLAgreement L) joined = OK (n_agreement cn)"
  shows "obind (n_ToModel L cn) (\<lambda>m. n_FromModel L (m\<lparr>c_Agreement := joined\<rparr>) ro) =
    OK (cn\<lparr>n_initial := False, n_ro := ro, n_modified := False, n_newAgreement := False, n_locked := False\<rparr>)"
proof -
  obtain m where m: "n_ToModel L cn = OK m" using n_ToModel_defined assms(2,3) by blast
  then have "\<not> c_Locked m" by (simp add: n_ToModel_fields)
  then have "m\<lparr>c_Agreement := joined\<rparr> = m\<lparr>c_Agreement := joined, c_Locked := False\<rparr>" by simp
  then show ?thesis
    using n_FromModel_ToModel[OF assms(1,2) m assms(4), of False ro] m by simp
qed

definition sample_negotiation :: "role \<Rightarrow> cstate \<Rightarrow> negotiation" where
  "sample_negotiation rl st =
     \<lparr>n_providerPID = 2, n_consumerPID = 3, n_state = st, n_offer = sample_offer, n_agreement = None,
      n_callback = root_url, n_self = root_url, n_role = rl, n_autoAccept = True, n_initial = True,
      n_ro = False, n_modified = True, n_newAgreement = False, n_traceInfo = zero_trace,
      n_requesterInfo = Some sample_requester, n_internal_id = 5, n_locked = True\<rparr>"

lemma sample_negotiation_forms: "n_forms_ok sample_lib (sample_negotiation rl st)"
  by (simp add: n_forms_ok_def sample_negotiation_def)

lemma sample_negotiation_simps [simp]:
  "n_providerPID (sample_negotiation rl st) = 2" "n_consumerPID (sample_negotiation rl st) = 3"
  "n_state (sample_negotiation rl st) = st" "n_role (sample_negotiation rl st) = rl"
  "n_agreement (sample_negotiation rl st) = None" "\<not> n_ro (sample_negotiation rl st)"
  "n_callback (sample_negotiation rl st) = root_url" "n_self (sample_negotiation rl st) = root_url"
  "n_offer (sample_negotiation rl st) = sample_offer" "n_autoAccept (sample_negotiation rl st)"
  "n_requesterInfo (sample_negotiation rl st) = Some sample_requester"
  "n_modified (sample_negotiation rl st)" "n_internal_id (sample_negotiation rl st) = 5"
  "n_initial (sample_negotiation rl st)"
  by (simp_all add: sample_negotiation_def)

lemma SetState_follows_table_witness:
  "n_SetState C_AGREED (sample_negotiation DataspaceProvider C_REQUESTED)
     = OK (sample_negotiation DataspaceProvider C_AGREED)
   \<and> (\<exists>e. n_SetState C_FINALIZED (sample_negotiation DataspaceProvider C_REQUESTED) = ERR e)"
  using SetState_follows_table[of "sample_negotiation DataspaceProvider C_REQUESTED" C_AGREED]
    SetState_follows_table[of "sample_negotiation DataspaceProvider C_REQUESTED" C_FINALIZED]
  by (simp add: sample_negotiation_def)

lemma readonly_setters_witness:
  "is_PANIC (n_SetState C_AGREED (n_SetReadOnly (sample_negotiation DataspaceProvider C_REQUESTED)))"
  using readonly_setters[of "n_SetReadOnly (sample_negotiation DataspaceProvider C_REQUESTED)" _ _ C_AGREED sample_lib]
  by (simp add: n_SetReadOnly_def)

lemma negotiation_row_roundtrip_witness:
  "obind (n_ToModel sample_lib (sample_negotiation DataspaceConsumer C_OFFERED))
     (\<lambda>m. n_FromModel sample_lib (m\<lparr>c_Agreement := None\<rparr>) True) =
   OK (sample_negotiation DataspaceConsumer C_OFFERED
     \<lparr>n_initial := False, n_ro := True, n_modified := False, n_newAgreement := False, n_locked := False\<rparr>)"
  using negotiation_row_roundtrip[of sample_lib "sample_negotiation DataspaceConsumer C_OFFERED" None True]
  by (simp add: sample_negotiation_forms opt_read_def)

end
