(* ===== verification/Transfer_Request.thy ===== *)
theory Transfer_Request
  imports Negotiation
begin

text \<open>
  A transfer request (\<open>dsp/transfer/request.go\<close>) and its row. The callback and self URLs are
  never nil, as in \<open>Negotiation\<close>.
\<close>

datatype direction = DirectionUnknown | DirectionPull | DirectionPush | DirectionInvalid

definition ParseDirection :: "string \<Rightarrow> direction outcome" where
  "ParseDirection s =
     (if s = ''UNKNOWN'' then OK DirectionUnknown
      else if s = ''PULL'' then OK DirectionPull
      else if s = ''PUSH'' then OK DirectionPush
      else ERR (Errorf ''invalid direction'' []))"

fun Direction_String :: "direction \<Rightarrow> string outcome" where
  "Direction_String DirectionUnknown = OK ''UNKNOWN''"
| "Direction_String DirectionPull = OK ''PULL''"
| "Direction_String DirectionPush = OK ''PUSH''"
| "Direction_String DirectionInvalid = PANIC ''unexpected transfer.Direction''"

lemma ParseDirection_String: "Direction_String d = OK s \<Longrightarrow> ParseDirection s = OK d"
  by (cases d) (auto simp: ParseDirection_def)

record transfer_row =
  t_ID :: int
  t_ProviderPID :: "string option"
  t_ConsumerPID :: "string option"
  t_AgreementID :: string
  t_Agreement :: agreement_row
  t_Target :: string
  t_Format :: string
  t_PublishInfo :: "string option"
  t_Direction :: string
  t_State :: string
  t_CallbackURL :: string
  t_SelfURL :: string
  t_Role :: string
  t_RequesterInfo :: "string option"
  t_TraceInfo :: string
  t_Locked :: bool

record transfer_request =
  r_state :: tstate
  r_providerPID :: uuid
  r_consumerPID :: uuid
  r_agreementID :: uuid
  r_target :: string
  r_format :: string
  r_callback :: url
  r_self :: url
  r_role :: role
  r_publishInfo :: "PublishInfo option"
  r_requesterInfo :: "RequesterInfo option"
  r_transferDirection :: direction
  r_ro :: bool
  r_modified :: bool
  r_traceInfo :: TraceInfo
  r_internal_id :: int
  r_locked :: bool

definition New_transfer :: "'a lib_scheme \<Rightarrow> TraceInfo \<Rightarrow> uuid \<Rightarrow> Agreement option \<Rightarrow> string \<Rightarrow> url \<Rightarrow> url
    \<Rightarrow> role \<Rightarrow> tstate \<Rightarrow> PublishInfo option \<Rightarrow> RequesterInfo option \<Rightarrow> transfer_request outcome" where
  "New_transfer L trace cpid agreement fmt callback self rl state pi ri =
     (case agreement of
        None \<Rightarrow> PANIC ''nil pointer dereference''
      | Some ag \<Rightarrow>
          (case URNtoRawID (ag_Target ag) of
             OK targetID \<Rightarrow>
               (case uuid_Parse L (ag_ID ag) of
                  None \<Rightarrow> PANIC ''uuid: Parse''
                | Some agid \<Rightarrow> obind (Role_String rl) (\<lambda>_. OK
                    \<lparr>r_state = state, r_providerPID = emptyUUID, r_consumerPID = cpid,
                     r_agreementID = agid, r_target = targetID, r_format = fmt,
                     r_callback = callback, r_self = self, r_role = rl, r_publishInfo = pi,
                     r_requesterInfo = ri,
                     r_transferDirection = (if pi = None then DirectionPull else DirectionPush),
                     r_ro = False, r_modified = True, r_traceInfo = trace, r_internal_id = 0,
                     r_locked = False\<rparr>))
           | _ \<Rightarrow> PANIC ''Misformed agreement, this means database corruption''))"

definition GenerateKey :: "'a lib_scheme \<Rightarrow> uuid \<Rightarrow> role \<Rightarrow> string" where
  "GenerateKey L i rl = ''transfer-'' @ uuid_String L i @ ''-'' @ role_number rl"

definition r_StorageKey :: "'a lib_scheme \<Rightarrow> transfer_request \<Rightarrow> string" where
  "r_StorageKey L tr = GenerateKey L
     (if r_role tr = DataspaceProvider then r_providerPID tr else r_consumerPID tr) (r_role tr)"

fun r_GetLocalPID :: "transfer_request \<Rightarrow> uuid outcome" where
  "r_GetLocalPID tr = (case r_role tr of
     DataspaceConsumer \<Rightarrow> OK (r_consumerPID tr)
   | DataspaceProvider \<Rightarrow> OK (r_providerPID tr)
   | RoleInvalid \<Rightarrow> PANIC ''not a valid role'')"

definition r_GetLogFields :: "'a lib_scheme \<Rightarrow> transfer_request \<Rightarrow> string \<Rightarrow> (string \<times> string) list outcome" where
  "r_GetLogFields L tr suffix = obind (Role_String (r_role tr)) (\<lambda>r. OK
     [(''role'' @ suffix, r),
      (''consumerPID'' @ suffix, uuid_String L (r_consumerPID tr)),
      (''providerPID'' @ suffix, uuid_String L (r_providerPID tr)),
      (''agreementID'' @ suffix, uuid_String L (r_agreementID tr)),
      (''state'' @ suffix, tstate_String (r_state tr)),
      (''callBack'' @ suffix, url_String L (r_callback tr)),
      (''selfURL'' @ suffix, url_String L (r_self tr))])"

section \<open>Setters\<close>

definition r_panicRO :: "transfer_request \<Rightarrow> unit outcome" where
  "r_panicRO tr = (if r_ro tr
     then PANIC ''Trying to write to a read-only request, this is certainly a bug.'' else OK ())"

definition r_modify :: "transfer_request \<Rightarrow> transfer_request" where
  "r_modify tr = tr\<lparr>r_modified := True\<rparr>"

definition r_SetPublishInfo :: "PublishInfo option \<Rightarrow> transfer_request \<Rightarrow> transfer_request outcome" where
  "r_SetPublishInfo pi tr = obind (r_panicRO tr) (\<lambda>_. OK (r_modify (tr\<lparr>r_publishInfo := pi\<rparr>)))"

definition r_SetProviderPID :: "uuid \<Rightarrow> transfer_request \<Rightarrow> transfer_request outcome" where
  "r_SetProviderPID i tr = obind (r_panicRO tr) (\<lambda>_. OK (r_modify (tr\<lparr>r_providerPID := i\<rparr>)))"

definition r_SetState :: "tstate \<Rightarrow> transfer_request \<Rightarrow> transfer_request outcome" where
  "r_SetState state tr = obind (r_panicRO tr) (\<lambda>_.
     if state \<notin> set (validTransferTransitions (r_state tr))
     then ERR (Errorf (''can't transition from '' @ tstate_String (r_state tr) @ '' to '' @ tstate_String state) [])
     else OK (r_modify (tr\<lparr>r_state := state\<rparr>)))"

definition r_SetReadOnly :: "transfer_request \<Rightarrow> transfer_request" where
  "r_SetReadOnly tr = tr\<lparr>r_ro := True\<rparr>"

definition GetTransferProcess_message :: "'a lib_scheme \<Rightarrow> transfer_request \<Rightarrow> TransferProcess" where
  "GetTransferProcess_message L tr =
     \<lparr>tp_Context = GetDSPContext, tp_Type = ''dspace:TransferProcess'',
      tp_ProviderPID = uuid_URN L (r_providerPID tr), tp_ConsumerPID = uuid_URN L (r_consumerPID tr),
      tp_State = tstate_String (r_state tr)\<rparr>"

section \<open>To and from the row\<close>

definition r_FromModel :: "'a lib_scheme \<Rightarrow> transfer_row \<Rightarrow> bool \<Rightarrow> transfer_request outcome" where
  "r_FromModel L req ro =
     obind (transfer_ParseState (ArgString (t_State req))) (\<lambda>state.
     obind (parse_pid L (t_ProviderPID req)) (\<lambda>ppid.
     obind (parse_pid L (t_ConsumerPID req)) (\<lambda>cpid.
     obind (of_option ''invalid UUID'' (uuid_Parse L (a_ID (t_Agreement req)))) (\<lambda>agid.
     obind (of_option ''parse callback'' (url_Parse L (t_CallbackURL req))) (\<lambda>callback.
     obind (of_option ''parse self'' (url_Parse L (t_SelfURL req))) (\<lambda>self.
     obind (ParseRole (t_Role req)) (\<lambda>rl.
     obind (opt_read (Unmarshal_publish L) (t_PublishInfo req)) (\<lambda>pi.
     obind (Unmarshal_trace L (t_TraceInfo req)) (\<lambda>trace.
     obind (opt_read (Unmarshal_requester L) (t_RequesterInfo req)) (\<lambda>ri.
     obind (ParseDirection (t_Direction req)) (\<lambda>dir.
     OK \<lparr>r_state = state, r_providerPID = ppid, r_consumerPID = cpid, r_agreementID = agid,
         r_target = t_Target req, r_format = t_Format req, r_callback = callback, r_self = self,
         r_role = rl, r_publishInfo = pi, r_requesterInfo = ri, r_transferDirection = dir,
         r_ro = ro, r_modified = False, r_traceInfo = trace, r_internal_id = t_ID req,
         r_locked = t_Locked req\<rparr>)))))))))))"

definition no_agreement_row :: agreement_row where
  "no_agreement_row = \<lparr>a_ID = [], a_ODRL = []\<rparr>"

definition r_ToModel :: "'a lib_scheme \<Rightarrow> transfer_request \<Rightarrow> transfer_row outcome" where
  "r_ToModel L tr =
     obind (opt_read (Marshal_publish L) (r_publishInfo tr)) (\<lambda>pi.
     obind (opt_read (Marshal_requester L) (r_requesterInfo tr)) (\<lambda>ri.
     obind (Marshal_trace L (r_traceInfo tr)) (\<lambda>trace.
     obind (Direction_String (r_transferDirection tr)) (\<lambda>dir.
     obind (Role_String (r_role tr)) (\<lambda>rl.
     OK \<lparr>t_ID = r_internal_id tr,
         t_ProviderPID = pid_column L (r_providerPID tr),
         t_ConsumerPID = pid_column L (r_consumerPID tr),
         t_AgreementID = uuid_URN L (r_agreementID tr), t_Agreement = no_agreement_row,
         t_Target = r_target tr, t_Format = r_format tr, t_PublishInfo = pi, t_Direction = dir,
         t_State = tstate_String (r_state tr), t_CallbackURL = url_String L (r_callback tr),
         t_SelfURL = url_String L (r_self tr), t_Role = rl, t_RequesterInfo = ri,
         t_TraceInfo = trace, t_Locked = False\<rparr>)))))"

section \<open>Facts on setters\<close>

lemma r_SetState_OK [outcome_simps]:
  "r_SetState st tr = OK tr' \<longleftrightarrow>
     \<not> r_ro tr \<and> st \<in> set (validTransferTransitions (r_state tr)) \<and> tr' = tr\<lparr>r_state := st, r_modified := True\<rparr>"
  by (auto simp: r_SetState_def r_panicRO_def r_modify_def)

lemma r_SetState_ERR [outcome_simps]:
  "r_SetState st tr = ERR e \<longleftrightarrow> \<not> r_ro tr \<and> st \<notin> set (validTransferTransitions (r_state tr)) \<and>
     e = Errorf (''can't transition from '' @ tstate_String (r_state tr) @ '' to '' @ tstate_String st) []"
  by (auto simp: r_SetState_def r_panicRO_def r_modify_def)

lemma r_setters_OK [outcome_simps]:
  "r_SetProviderPID u tr = OK tr' \<longleftrightarrow> \<not> r_ro tr \<and> tr' = tr\<lparr>r_providerPID := u, r_modified := True\<rparr>"
  "r_SetPublishInfo pi tr = OK tr' \<longleftrightarrow> \<not> r_ro tr \<and> tr' = tr\<lparr>r_publishInfo := pi, r_modified := True\<rparr>"
  by (auto simp: r_SetProviderPID_def r_SetPublishInfo_def r_panicRO_def r_modify_def)

lemma r_setters_rw:
  "\<not> r_ro tr \<Longrightarrow> r_SetProviderPID u tr = OK (tr\<lparr>r_providerPID := u, r_modified := True\<rparr>)"
  "\<not> r_ro tr \<Longrightarrow> r_SetPublishInfo pi tr = OK (tr\<lparr>r_publishInfo := pi, r_modified := True\<rparr>)"
  by (simp_all add: outcome_simps)

lemma New_transfer_OK: "New_transfer L tr cp (Some ag) fmt cb self rl st pi ri = OK t \<Longrightarrow>
    r_state t = st \<and> r_consumerPID t = cp \<and> r_providerPID t = emptyUUID \<and> r_role t = rl \<and> \<not> r_ro t \<and> r_modified t
    \<and> r_internal_id t = 0 \<and> uuid_Parse L (ag_ID ag) = Some (r_agreementID t)
    \<and> URNtoRawID (ag_Target ag) = OK (r_target t) \<and> r_publishInfo t = pi
    \<and> (r_transferDirection t = DirectionPull \<longleftrightarrow> pi = None)"
  by (cases rl) (auto simp: New_transfer_def split: outcome.splits option.splits if_splits)

section \<open>The row round trip\<close>

definition r_forms_ok :: "'a lib_scheme \<Rightarrow> transfer_request \<Rightarrow> bool" where
  "r_forms_ok L tr \<longleftrightarrow>
     url_ok L (r_callback tr) \<and> url_ok L (r_self tr)
     \<and> (\<exists>t. Marshal_trace L (r_traceInfo tr) = OK t \<and> Unmarshal_trace L t = OK (r_traceInfo tr))
     \<and> (case r_publishInfo tr of None \<Rightarrow> True | Some p \<Rightarrow>
          (\<exists>t. Marshal_publish L p = OK t \<and> Unmarshal_publish L t = OK p))
     \<and> (case r_requesterInfo tr of None \<Rightarrow> True | Some r \<Rightarrow>
          (\<exists>t. Marshal_requester L r = OK t \<and> Unmarshal_requester L t = OK r))"

lemma r_ToModel_fields:
  "r_ToModel L tr = OK m \<Longrightarrow>
     t_ID m = r_internal_id tr \<and> t_ProviderPID m = pid_column L (r_providerPID tr)
     \<and> t_ConsumerPID m = pid_column L (r_consumerPID tr) \<and> t_State m = tstate_String (r_state tr)
     \<and> t_AgreementID m = uuid_URN L (r_agreementID tr) \<and> \<not> t_Locked m
     \<and> Role_String (r_role tr) = OK (t_Role m)"
  by (auto simp: r_ToModel_def outcome_simps)

lemma r_ToModel_defined:
  "r_forms_ok L tr \<Longrightarrow> r_role tr \<noteq> RoleInvalid \<Longrightarrow> r_transferDirection tr \<noteq> DirectionInvalid
     \<Longrightarrow> \<exists>m. r_ToModel L tr = OK m"
  by (cases "r_role tr"; cases "r_transferDirection tr")
     (auto simp: r_forms_ok_def r_ToModel_def opt_read_def split: option.splits)

lemma r_FromModel_ToModel:
  assumes laws: "uuid_laws L" and forms: "r_forms_ok L tr" and m: "r_ToModel L tr = OK m"
    and ag: "a_ID joined = t_AgreementID m"
  shows "r_FromModel L (m\<lparr>t_Agreement := joined, t_Locked := l\<rparr>) ro =
    OK (tr\<lparr>r_ro := ro, r_modified := False, r_locked := l\<rparr>)"
proof -
  obtain tt rl dir where
    tt: "Marshal_trace L (r_traceInfo tr) = OK tt" "Unmarshal_trace L tt = OK (r_traceInfo tr)"
    and u: "url_Parse L (url_String L (r_callback tr)) = Some (r_callback tr)"
      "url_Parse L (url_String L (r_self tr)) = Some (r_self tr)"
    and rl: "Role_String (r_role tr) = OK rl"
    and dir: "Direction_String (r_transferDirection tr) = OK dir"
    using forms m by (auto simp: r_forms_ok_def url_ok_def r_ToModel_def outcome_simps)
  obtain ri where ri: "opt_read (Marshal_requester L) (r_requesterInfo tr) = OK ri"
      "opt_read (Unmarshal_requester L) ri = OK (r_requesterInfo tr)"
    using forms by (auto simp: r_forms_ok_def opt_read_def split: option.splits)
  obtain pi where pi: "opt_read (Marshal_publish L) (r_publishInfo tr) = OK pi"
      "opt_read (Unmarshal_publish L) pi = OK (r_publishInfo tr)"
    using forms by (auto simp: r_forms_ok_def opt_read_def split: option.splits)
  have M: "m = \<lparr>t_ID = r_internal_id tr,
     t_ProviderPID = pid_column L (r_providerPID tr), t_ConsumerPID = pid_column L (r_consumerPID tr),
     t_AgreementID = uuid_URN L (r_agreementID tr), t_Agreement = no_agreement_row,
     t_Target = r_target tr, t_Format = r_format tr, t_PublishInfo = pi, t_Direction = dir,
     t_State = tstate_String (r_state tr), t_CallbackURL = url_String L (r_callback tr),
     t_SelfURL = url_String L (r_self tr), t_Role = rl, t_RequesterInfo = ri,
     t_TraceInfo = tt, t_Locked = False\<rparr>"
    using m by (simp add: r_ToModel_def tt(1) rl ri(1) pi(1) dir)
  have joined: "uuid_Parse L (a_ID joined) = Some (r_agreementID tr)"
    using ag by (simp add: M uuid_lawsD(2)[OF laws])
  show ?thesis
    by (simp add: M r_FromModel_def tt u rl ri pi joined parse_pid_column[OF laws]
        ParseRole_Role_String[OF rl] ParseDirection_String[OF dir])
qed

text \<open>A transfer request that is written to its row and read back, joined with the agreement its
  column names, is the same transfer request but for the read-only, modified and locked marks.\<close>

theorem transfer_row_roundtrip:
  assumes "uuid_laws L" and "r_forms_ok L tr" and "r_role tr \<noteq> RoleInvalid"
    and "r_transferDirection tr \<noteq> DirectionInvalid" and "a_ID joined = uuid_URN L (r_agreementID tr)"
  shows "obind (r_ToModel L tr) (\<lambda>m. r_FromModel L (m\<lparr>t_Agreement := joined\<rparr>) ro) =
    OK (tr\<lparr>r_ro := ro, r_modified := False, r_locked := False\<rparr>)"
proof -
  obtain m where m: "r_ToModel L tr = OK m" using r_ToModel_defined assms(2-4) by blast
  then have l: "\<not> t_Locked m" "a_ID joined = t_AgreementID m" using assms(5) by (simp_all add: r_ToModel_fields)
  then have "m\<lparr>t_Agreement := joined\<rparr> = m\<lparr>t_Agreement := joined, t_Locked := False\<rparr>" by simp
  then show ?thesis
    using r_FromModel_ToModel[OF assms(1,2) m l(2), of False ro] m by simp
qed

definition sample_transfer :: "role \<Rightarrow> tstate \<Rightarrow> direction \<Rightarrow> transfer_request" where
  "sample_transfer rl st dir =
     \<lparr>r_state = st, r_providerPID = 2, r_consumerPID = 3, r_agreementID = 7, r_target = ''1'',
      r_format = ''HTTP_PULL'', r_callback = root_url, r_self = root_url, r_role = rl,
      r_publishInfo = Some sample_publish, r_requesterInfo = Some sample_requester,
      r_transferDirection = dir, r_ro = False, r_modified = True, r_traceInfo = zero_trace,
      r_internal_id = 5, r_locked = True\<rparr>"

lemma sample_transfer_simps [simp]:
  "r_state (sample_transfer rl st dir) = st" "r_providerPID (sample_transfer rl st dir) = 2"
  "r_consumerPID (sample_transfer rl st dir) = 3" "r_agreementID (sample_transfer rl st dir) = 7"
  "r_format (sample_transfer rl st dir) = ''HTTP_PULL''" "r_role (sample_transfer rl st dir) = rl"
  "r_publishInfo (sample_transfer rl st dir) = Some sample_publish"
  "r_requesterInfo (sample_transfer rl st dir) = Some sample_requester"
  "r_transferDirection (sample_transfer rl st dir) = dir" "\<not> r_ro (sample_transfer rl st dir)"
  "r_callback (sample_transfer rl st dir) = root_url" "r_self (sample_transfer rl st dir) = root_url"
  "r_internal_id (sample_transfer rl st dir) = 5" "r_modified (sample_transfer rl st dir)"
  by (simp_all add: sample_transfer_def)

lemma sample_transfer_forms: "r_forms_ok sample_lib (sample_transfer rl st dir)"
  by (simp add: r_forms_ok_def sample_transfer_def)

lemma transfer_row_roundtrip_witness:
  "obind (r_ToModel sample_lib (sample_transfer DataspaceProvider T_STARTED DirectionPull))
     (\<lambda>m. r_FromModel sample_lib (m\<lparr>t_Agreement := \<lparr>a_ID = uuid_URN sample_lib 7, a_ODRL = ''{}''\<rparr>\<rparr>) False) =
   OK (sample_transfer DataspaceProvider T_STARTED DirectionPull
     \<lparr>r_ro := False, r_modified := False, r_locked := False\<rparr>)"
  using transfer_row_roundtrip[of sample_lib "sample_transfer DataspaceProvider T_STARTED DirectionPull"
      "\<lparr>a_ID = uuid_URN sample_lib 7, a_ODRL = ''{}''\<rparr>" False]
  by (simp add: sample_transfer_forms)

end
