(* ===== verification/Contract_Machine.thy ===== *)
theory Contract_Machine
  imports Transfer_Request
begin

text \<open>
  The contract state machine: \<open>dsp/statemachine/contract_transitions.go\<close> and
  \<open>contract_messages.go\<close>. A method that changes the negotiation it is called on answers the
  negotiation beside its outcome, since mutations made before an error stay. A fresh UUID is an
  argument, the clock as well. An \<open>applyFunc\<close> is the data its closure captured; what it reads
  through the pointer when it runs is read from the negotiation at that time.
\<close>

section \<open>Dependencies\<close>

text \<open>The gRPC services are not part of this repository: a call is a function, its error \<open>ERR\<close>.\<close>

record provider_service =
  GetDataset :: "string \<Rightarrow> RequesterInfo \<Rightarrow> unit outcome"
  PublishDataset :: "string \<Rightarrow> string \<Rightarrow> RequesterInfo \<Rightarrow> PublishInfo option outcome"
  ShutdownTransfer :: "string \<Rightarrow> RequesterInfo \<Rightarrow> unit outcome"

datatype contract_service_call =
    OfferReceived string string RequesterInfo
  | RequestReceived string string RequesterInfo
  | AgreementReceived string RequesterInfo
  | AcceptedReceived string RequesterInfo
  | VerificationReceived string RequesterInfo
  | FinalizationReceived string RequesterInfo Offer
  | TerminationReceived string string "string list"

type_synonym contract_service = "contract_service_call \<Rightarrow> unit outcome"

text \<open>\<open>stateMachineDeps\<close>; without a contract service the interface is nil.\<close>

record deps =
  d_p :: provider_service
  d_c :: "contract_service option"

text \<open>The messages \<open>Recv\<close> may be given, and the bodies the reconciler sends.\<close>

datatype message =
    MContractRequest ContractRequestMessage
  | MContractOffer ContractOfferMessage
  | MContractAgreement ContractAgreementMessage
  | MContractVerification ContractAgreementVerificationMessage
  | MContractEvent ContractNegotiationEventMessage
  | MContractTermination ContractNegotiationTerminationMessage
  | MTransferRequest TransferRequestMessage
  | MTransferStart TransferStartMessage
  | MTransferSuspension TransferSuspensionMessage
  | MTransferCompletion TransferCompletionMessage
  | MTransferTermination TransferTerminationMessage

datatype reconciliation_type = ReconciliationUndefined | ReconciliationContract | ReconciliationTransferRequest

record ReconciliationEntry =
  EntityID :: uuid
  re_Type :: reconciliation_type
  re_Role :: role
  TargetState :: string
  Method :: string
  URL :: url
  Body :: message
  re_Context :: go_context
  AuthHeaderValue :: string

datatype apply_func =
    ApNil | ApNoop
  | ApOfferReceived go_context string
  | ApRequestReceived go_context string
  | ApAgreementReceived go_context
  | ApAcceptedReceived go_context
  | ApVerificationReceived go_context
  | ApFinalizationReceived go_context
  | ApTerminationReceived string string
  | ApAdd ReconciliationEntry

section \<open>Methods on a mutable receiver\<close>

fun seq_m :: "'s \<times> 'a outcome \<Rightarrow> ('s \<Rightarrow> 'a \<Rightarrow> 's \<times> 'b outcome) \<Rightarrow> 's \<times> 'b outcome" where
  "seq_m (s, OK x) k = k s x"
| "seq_m (s, ERR e) k = (s, ERR e)"
| "seq_m (s, PANIC p) k = (s, PANIC p)"

text \<open>A setter: on failure the receiver is as it was.\<close>

fun set_m :: "'s \<Rightarrow> 's outcome \<Rightarrow> 's \<times> unit outcome" where
  "set_m s (OK s') = (s', OK ())"
| "set_m s (ERR e) = (s, ERR e)"
| "set_m s (PANIC p) = (s, PANIC p)"

lemma seq_m_OK [outcome_simps]:
  "seq_m r k = (s', OK y) \<longleftrightarrow> (\<exists>s x. r = (s, OK x) \<and> k s x = (s', OK y))"
  by (cases "(r, k)" rule: seq_m.cases) auto

lemma seq_m_ERR [outcome_simps]:
  "seq_m r k = (s', ERR e) \<longleftrightarrow> r = (s', ERR e) \<or> (\<exists>s x. r = (s, OK x) \<and> k s x = (s', ERR e))"
  by (cases "(r, k)" rule: seq_m.cases) auto

lemma set_m_OK [outcome_simps]: "set_m s r = (s', OK x) \<longleftrightarrow> r = OK s'"
  by (cases r) auto

lemma set_m_ERR [outcome_simps]: "set_m s r = (s', ERR e) \<longleftrightarrow> r = ERR e \<and> s' = s"
  by (cases r) auto

lemma seq_m_pair_cong [fundef_cong]:
  "r = r' \<Longrightarrow> (\<And>s x. r' = (s, OK x) \<Longrightarrow> k s x = k' s x) \<Longrightarrow> seq_m r k = seq_m r' k'"
  by (cases "(r', k)" rule: seq_m.cases) auto

section \<open>Outgoing messages\<close>

definition makeRequestFunction :: "go_context \<Rightarrow> url \<Rightarrow> message \<Rightarrow> uuid \<Rightarrow> role \<Rightarrow> string
    \<Rightarrow> reconciliation_type \<Rightarrow> string \<Rightarrow> apply_func" where
  "makeRequestFunction ctx cu reqBody i rl destinationState recType authHeaderValue =
     ApAdd \<lparr>EntityID = i, re_Type = recType, re_Role = rl, TargetState = destinationState,
            Method = ''POST'', URL = cu, Body = reqBody, re_Context = ctx,
            AuthHeaderValue = authHeaderValue\<rparr>"

definition makeContractRequestFunction ::
  "go_context \<Rightarrow> negotiation \<Rightarrow> url \<Rightarrow> message \<Rightarrow> cstate \<Rightarrow> apply_func" where
  "makeContractRequestFunction ctx c cu reqBody destinationState =
     makeRequestFunction ctx cu reqBody
       (if n_role c = DataspaceConsumer then n_consumerPID c else n_providerPID c)
       (n_role c) (cstate_String destinationState) ReconciliationContract
       (GetExternalId (n_requesterInfo c))"

definition with_path :: "url \<Rightarrow> string list \<Rightarrow> url" where
  "with_path u elems = u\<lparr>uPath := path_Join (uPath u # elems)\<rparr>"

definition sendContractRequest :: "'a lib_scheme \<Rightarrow> go_context \<Rightarrow> negotiation \<Rightarrow> apply_func outcome" where
  "sendContractRequest L ctx c =
     (let m = \<lparr>crm_Context = GetDSPContext, crm_Type = ''dspace:ContractRequestMessage'',
               crm_ProviderPID = (if n_providerPID c \<noteq> emptyUUID then uuid_URN L (n_providerPID c) else []),
               crm_ConsumerPID = uuid_URN L (n_consumerPID c),
               crm_Offer = offer_message (n_offer c),
               crm_CallbackAddress = url_String L (n_self c)\<rparr>
      in obind (ValidateAndMarshal valid_ContractRequest m) (\<lambda>reqBody.
         obind (cloneURL L (n_callback c)) (\<lambda>cu.
         OK (makeContractRequestFunction ctx c
               (with_path cu (if n_providerPID c \<noteq> emptyUUID
                  then [''negotiations'', uuid_String L (n_providerPID c), ''request'']
                  else [''negotiations'', ''request'']))
               (MContractRequest reqBody) C_REQUESTED))))"

definition sendContractOffer :: "'a lib_scheme \<Rightarrow> go_context \<Rightarrow> negotiation \<Rightarrow> apply_func outcome" where
  "sendContractOffer L ctx c =
     (let m = \<lparr>com_Context = GetDSPContext, com_Type = ''dspace:ContractOfferMessage'',
               com_ProviderPID = uuid_URN L (n_providerPID c),
               com_ConsumerPID = (if n_consumerPID c \<noteq> emptyUUID then uuid_URN L (n_consumerPID c) else []),
               com_Offer = offer_message (n_offer c),
               com_CallbackAddress = url_String L (n_self c)\<rparr>
      in obind (ValidateAndMarshal valid_ContractOffer m) (\<lambda>reqBody.
         obind (cloneURL L (n_callback c)) (\<lambda>cu.
         OK (makeContractRequestFunction ctx c
               (with_path cu (if n_consumerPID c \<noteq> emptyUUID
                  then [''negotiations'', uuid_String L (n_consumerPID c), ''offers'']
                  else [''negotiations'', ''offers'']))
               (MContractOffer reqBody) C_OFFERED))))"

text \<open>The agreement gets a fresh identifier and the current time, and is set before the message is
  validated.\<close>

definition sendContractAgreement :: "'a lib_scheme \<Rightarrow> go_context \<Rightarrow> uuid \<Rightarrow> int \<Rightarrow> negotiation
    \<Rightarrow> negotiation \<times> apply_func outcome" where
  "sendContractAgreement L ctx fresh now c0 =
     seq_m (set_m c0 (n_SetAgreement
         \<lparr>ag_policy = zero_policy, ag_Type = ''odrl:Agreement'', ag_ID = uuid_URN L fresh,
          ag_Target = mo_Target (offer_message (n_offer c0)), ag_Timestamp = now\<rparr> c0)) (\<lambda>c _.
     (c, obind (ValidateAndMarshal valid_ContractAgreement
           \<lparr>cam_Context = GetDSPContext, cam_Type = ''dspace:ContractAgreementMessage'',
            cam_ProviderPID = uuid_URN L (n_providerPID c), cam_ConsumerPID = uuid_URN L (n_consumerPID c),
            cam_Agreement = the (n_agreement c), cam_CallbackAddress = url_String L (n_self c)\<rparr>) (\<lambda>reqBody.
         obind (cloneURL L (n_callback c)) (\<lambda>cu.
         OK (makeContractRequestFunction ctx c
               (with_path cu [''negotiations'', uuid_String L (n_consumerPID c), ''agreement''])
               (MContractAgreement reqBody) C_AGREED)))))"

definition sendContractEvent :: "'a lib_scheme \<Rightarrow> go_context \<Rightarrow> negotiation \<Rightarrow> uuid \<Rightarrow> cstate
    \<Rightarrow> apply_func outcome" where
  "sendContractEvent L ctx c pid state =
     obind (ValidateAndMarshal valid_ContractEvent
        \<lparr>cem_Context = GetDSPContext, cem_Type = ''dspace:ContractNegotiationEventMessage'',
         cem_ProviderPID = uuid_URN L (n_providerPID c), cem_ConsumerPID = uuid_URN L (n_consumerPID c),
         cem_EventType = cstate_String state\<rparr>) (\<lambda>reqBody.
     obind (cloneURL L (n_callback c)) (\<lambda>cu.
     OK (makeContractRequestFunction ctx c
           (with_path cu [''negotiations'', uuid_String L pid, ''events''])
           (MContractEvent reqBody) state)))"

definition sendContractVerification :: "'a lib_scheme \<Rightarrow> go_context \<Rightarrow> negotiation \<Rightarrow> apply_func outcome" where
  "sendContractVerification L ctx c =
     obind (ValidateAndMarshal valid_ContractVerification
        \<lparr>cvm_Context = GetDSPContext, cvm_Type = ''dspace:ContractAgreementVerificationMessage'',
         cvm_ProviderPID = uuid_URN L (n_providerPID c), cvm_ConsumerPID = uuid_URN L (n_consumerPID c)\<rparr>) (\<lambda>reqBody.
     obind (cloneURL L (n_callback c)) (\<lambda>cu.
     OK (makeContractRequestFunction ctx c
           (with_path cu [''negotiations'', uuid_String L (n_providerPID c), ''agreement'', ''verification''])
           (MContractVerification reqBody) C_VERIFIED)))"

section \<open>Incoming messages\<close>

definition verifyAndTransform :: "'a lib_scheme \<Rightarrow> negotiation \<Rightarrow> string \<Rightarrow> string \<Rightarrow> string \<Rightarrow> cstate
    \<Rightarrow> apply_func \<Rightarrow> negotiation \<times> apply_func outcome" where
  "verifyAndTransform L cn providerPID consumerPID callbackAddress targetState af =
     (if uuid_URN L (n_providerPID cn) \<noteq> ToLower providerPID
      then (cn, ERR (Errorf ''given provider PID didn't match contract provider PID'' []))
      else if uuid_URN L (n_consumerPID cn) \<noteq> ToLower consumerPID
      then (cn, ERR (Errorf ''given consumer PID didn't match contract negotation consumer PID'' []))
      else seq_m (set_m cn (n_SetCallback L callbackAddress cn)) (\<lambda>cn1 _.
           seq_m (set_m cn1 (n_SetState targetState cn1)) (\<lambda>cn2 _.
           (cn2, OK af))))"

definition processTermination :: "'a lib_scheme \<Rightarrow> deps \<Rightarrow> ContractNegotiationTerminationMessage \<Rightarrow> negotiation
    \<Rightarrow> negotiation \<times> apply_func outcome" where
  "processTermination L d t cn =
     (let reason = (if ctm_Reason t \<noteq> [] then ml_Value (hd (ctm_Reason t)) else []);
          af = (if n_autoAccept cn \<or> d_c d = None then ApNoop
                else ApTerminationReceived (ctm_Code t) reason)
      in verifyAndTransform L cn (ctm_ProviderPID t) (ctm_ConsumerPID t)
           (url_String L (n_callback cn)) C_TERMINATED af)"

text \<open>The dataset is looked up unless the first permission is to copy it.\<close>

definition needs_dataset :: "Offer \<Rightarrow> bool" where
  "needs_dataset off =
     (let permissions = pol_Permission (mo_policy (offer_message off))
      in permissions = [] \<or> perm_Action (hd permissions) \<noteq> ''odrl:copy'')"

definition offer_target :: "negotiation \<Rightarrow> string" where
  "offer_target cn = mo_Target (offer_message (n_offer cn))"

definition processContractOffer :: "'a lib_scheme \<Rightarrow> deps \<Rightarrow> go_context \<Rightarrow> uuid \<Rightarrow> negotiation
    \<Rightarrow> negotiation \<times> apply_func outcome" where
  "processContractOffer L d ctx fresh cn =
     seq_m (set_m cn (n_SetState C_OFFERED cn)) (\<lambda>cn1 _.
     seq_m (if n_consumerPID cn1 = emptyUUID then set_m cn1 (n_SetConsumerPID fresh cn1) else (cn1, OK ())) (\<lambda>cn2 _.
     let cn3 = n_SetInitial cn2 in
     (cn3, obind (Marshal_offer L (n_offer cn3)) (\<lambda>off.
        OK (if n_autoAccept cn3 \<or> d_c d = None then ApNoop else ApOfferReceived ctx off)))))"

definition processContractRequest :: "'a lib_scheme \<Rightarrow> deps \<Rightarrow> go_context \<Rightarrow> uuid \<Rightarrow> negotiation
    \<Rightarrow> negotiation \<times> apply_func outcome" where
  "processContractRequest L d ctx fresh cn =
     (case URNtoRawID (offer_target cn) of
        ERR e \<Rightarrow> (cn, ERR e)
      | PANIC p \<Rightarrow> (cn, PANIC p)
      | OK target \<Rightarrow>
         seq_m (cn, if needs_dataset (n_offer cn)
                    then obind (ExtractRequesterInfo ctx) (\<lambda>ri.
                      case GetDataset (d_p d) target ri of
                        OK u \<Rightarrow> OK () | PANIC p \<Rightarrow> PANIC p
                      | ERR e \<Rightarrow> ERR (Errorf ''dataset: not found'' [ErrNotFound]))
                    else OK ()) (\<lambda>cn _.
         seq_m (set_m cn (n_SetState C_REQUESTED cn)) (\<lambda>cn1 _.
         seq_m (set_m cn1 (n_SetProviderPID fresh cn1)) (\<lambda>cn2 _.
         let cn3 = n_SetInitial cn2 in
         (cn3, obind (Marshal_offer L (n_offer cn3)) (\<lambda>off.
            OK (if n_autoAccept cn3 \<or> d_c d = None then ApNoop else ApRequestReceived ctx off)))))))"

fun Initial_Recv :: "'a lib_scheme \<Rightarrow> deps \<Rightarrow> go_context \<Rightarrow> uuid \<Rightarrow> message \<Rightarrow> negotiation
    \<Rightarrow> negotiation \<times> apply_func outcome" where
  "Initial_Recv L d ctx fresh (MContractRequest t) cn = processContractRequest L d ctx fresh cn"
| "Initial_Recv L d ctx fresh (MContractOffer t) cn = processContractOffer L d ctx fresh cn"
| "Initial_Recv L d ctx fresh _ cn = (cn, ERR (Errorf ''message type is not supported at this stage'' []))"

text \<open>A PID that is still unknown is learnt from the message, before the message is verified.\<close>

definition learn_provider :: "'a lib_scheme \<Rightarrow> string \<Rightarrow> negotiation \<Rightarrow> negotiation \<times> unit outcome" where
  "learn_provider L pid cn = (case uuid_Parse L pid of
     Some u \<Rightarrow> if n_providerPID cn = emptyUUID then set_m cn (n_SetProviderPID u cn) else (cn, OK ())
   | None \<Rightarrow> (cn, OK ()))"

definition learn_consumer :: "'a lib_scheme \<Rightarrow> string \<Rightarrow> negotiation \<Rightarrow> negotiation \<times> unit outcome" where
  "learn_consumer L pid cn = (case uuid_Parse L pid of
     Some u \<Rightarrow> if n_consumerPID cn = emptyUUID then set_m cn (n_SetConsumerPID u cn) else (cn, OK ())
   | None \<Rightarrow> (cn, OK ()))"

fun Requested_Recv :: "'a lib_scheme \<Rightarrow> deps \<Rightarrow> go_context \<Rightarrow> message \<Rightarrow> negotiation
    \<Rightarrow> negotiation \<times> apply_func outcome" where
  "Requested_Recv L d ctx (MContractOffer t) cn =
     seq_m (learn_provider L (com_ProviderPID t) cn) (\<lambda>cn1 _.
     seq_m (cn1, Marshal_offer L (n_offer cn1)) (\<lambda>cn1 off.
     verifyAndTransform L cn1 (com_ProviderPID t) (com_ConsumerPID t) (com_CallbackAddress t) C_OFFERED
       (if n_autoAccept cn1 \<or> d_c d = None then ApNoop else ApOfferReceived ctx off)))"
| "Requested_Recv L d ctx (MContractAgreement t) cn =
     seq_m (learn_provider L (cam_ProviderPID t) cn) (\<lambda>cn1 _.
     seq_m (set_m cn1 (n_SetAgreement (cam_Agreement t) cn1)) (\<lambda>cn2 _.
     verifyAndTransform L cn2 (cam_ProviderPID t) (cam_ConsumerPID t) (cam_CallbackAddress t) C_AGREED
       (if n_autoAccept cn2 \<or> d_c d = None then ApNoop else ApAgreementReceived ctx)))"
| "Requested_Recv L d ctx (MContractTermination t) cn = processTermination L d t cn"
| "Requested_Recv L d ctx _ cn = (cn, ERR (Errorf ''unsupported message type'' []))"

text \<open>The offered, accepted, agreed and verified states do not ask whether the service is nil.\<close>

fun Offered_Recv :: "'a lib_scheme \<Rightarrow> deps \<Rightarrow> go_context \<Rightarrow> message \<Rightarrow> negotiation
    \<Rightarrow> negotiation \<times> apply_func outcome" where
  "Offered_Recv L d ctx (MContractRequest t) cn =
     seq_m (learn_consumer L (crm_ConsumerPID t) cn) (\<lambda>cn1 _.
     seq_m (cn1, Marshal_offer L (n_offer cn1)) (\<lambda>cn1 off.
     verifyAndTransform L cn1 (crm_ProviderPID t) (crm_ConsumerPID t) (crm_CallbackAddress t) C_REQUESTED
       (if n_autoAccept cn1 then ApNoop else ApRequestReceived ctx off)))"
| "Offered_Recv L d ctx (MContractEvent t) cn =
     seq_m (cn, contract_ParseState (ArgString (cem_EventType t))) (\<lambda>cn receivedStatus.
     if receivedStatus \<noteq> C_ACCEPTED then (cn, ERR (Errorf ''invalid status'' []))
     else verifyAndTransform L cn (cem_ProviderPID t) (cem_ConsumerPID t) (url_String L (n_callback cn))
       receivedStatus (if n_autoAccept cn then ApNoop else ApAcceptedReceived ctx))"
| "Offered_Recv L d ctx (MContractTermination t) cn = processTermination L d t cn"
| "Offered_Recv L d ctx _ cn = (cn, ERR (Errorf ''unsupported message type'' []))"

fun Accepted_Recv :: "'a lib_scheme \<Rightarrow> deps \<Rightarrow> go_context \<Rightarrow> message \<Rightarrow> negotiation
    \<Rightarrow> negotiation \<times> apply_func outcome" where
  "Accepted_Recv L d ctx (MContractAgreement t) cn =
     seq_m (set_m cn (n_SetAgreement (cam_Agreement t) cn)) (\<lambda>cn1 _.
     verifyAndTransform L cn1 (cam_ProviderPID t) (cam_ConsumerPID t) (cam_CallbackAddress t) C_AGREED
       (if n_autoAccept cn1 then ApNoop else ApAgreementReceived ctx))"
| "Accepted_Recv L d ctx (MContractTermination t) cn = processTermination L d t cn"
| "Accepted_Recv L d ctx _ cn = (cn, ERR (Errorf ''unsupported message type'' []))"

fun Agreed_Recv :: "'a lib_scheme \<Rightarrow> deps \<Rightarrow> go_context \<Rightarrow> message \<Rightarrow> negotiation
    \<Rightarrow> negotiation \<times> apply_func outcome" where
  "Agreed_Recv L d ctx (MContractVerification t) cn =
     verifyAndTransform L cn (cvm_ProviderPID t) (cvm_ConsumerPID t) (url_String L (n_callback cn)) C_VERIFIED
       (if n_autoAccept cn then ApNoop else ApVerificationReceived ctx)"
| "Agreed_Recv L d ctx (MContractTermination t) cn = processTermination L d t cn"
| "Agreed_Recv L d ctx _ cn = (cn, ERR (Errorf ''unsupported message type'' []))"

fun Verified_Recv :: "'a lib_scheme \<Rightarrow> deps \<Rightarrow> go_context \<Rightarrow> message \<Rightarrow> negotiation
    \<Rightarrow> negotiation \<times> apply_func outcome" where
  "Verified_Recv L d ctx (MContractEvent t) cn =
     seq_m (cn, contract_ParseState (ArgString (cem_EventType t))) (\<lambda>cn receivedStatus.
     if receivedStatus \<noteq> C_FINALIZED then (cn, ERR (Errorf ''invalid status received'' []))
     else verifyAndTransform L cn (cem_ProviderPID t) (cem_ConsumerPID t) (url_String L (n_callback cn))
       C_FINALIZED (if n_autoAccept cn then ApNoop else ApFinalizationReceived ctx))"
| "Verified_Recv L d ctx (MContractTermination t) cn = processTermination L d t cn"
| "Verified_Recv L d ctx _ cn = (cn, ERR (Errorf ''unsupported message type'' []))"

text \<open>\<open>GetContractNegotiation\<close> picks the state's type, whose \<open>Recv\<close> is called.\<close>

fun contract_Recv :: "'a lib_scheme \<Rightarrow> deps \<Rightarrow> go_context \<Rightarrow> uuid \<Rightarrow> message \<Rightarrow> negotiation
    \<Rightarrow> negotiation \<times> apply_func outcome" where
  "contract_Recv L d ctx fresh msg cn = (case n_state cn of
     C_INITIAL \<Rightarrow> Initial_Recv L d ctx fresh msg cn
   | C_REQUESTED \<Rightarrow> Requested_Recv L d ctx msg cn
   | C_OFFERED \<Rightarrow> Offered_Recv L d ctx msg cn
   | C_AGREED \<Rightarrow> Agreed_Recv L d ctx msg cn
   | C_ACCEPTED \<Rightarrow> Accepted_Recv L d ctx msg cn
   | C_VERIFIED \<Rightarrow> Verified_Recv L d ctx msg cn
   | C_FINALIZED \<Rightarrow> (cn, ERR (Errorf ''this is a final state'' []))
   | C_TERMINATED \<Rightarrow> (cn, ERR (Errorf ''this is a final state'' [])))"

section \<open>Sending\<close>

definition Initial_Send :: "'a lib_scheme \<Rightarrow> deps \<Rightarrow> go_context \<Rightarrow> negotiation \<Rightarrow> apply_func outcome" where
  "Initial_Send L d ctx cn =
     (if (n_consumerPID cn = emptyUUID \<and> n_providerPID cn = emptyUUID)
         \<or> (n_consumerPID cn \<noteq> emptyUUID \<and> n_providerPID cn \<noteq> emptyUUID)
      then ERR (Errorf ''can't deduce role in contract'' [])
      else if n_consumerPID cn \<noteq> emptyUUID then sendContractRequest L ctx cn
      else if n_providerPID cn \<noteq> emptyUUID
      then obind (URNtoRawID (offer_target cn)) (\<lambda>targetID.
           obind (if needs_dataset (n_offer cn)
                  then obind (ExtractRequesterInfo ctx) (\<lambda>ri.
                    case GetDataset (d_p d) targetID ri of
                      OK u \<Rightarrow> OK () | PANIC p \<Rightarrow> PANIC p
                    | ERR e \<Rightarrow> ERR (Errorf ''Dataset not found'' [ErrNotFound]))
                  else OK ()) (\<lambda>_.
           sendContractOffer L ctx cn))
      else ERR (Errorf ''can't deduce negotiation role'' []))"

definition Requested_Send :: "'a lib_scheme \<Rightarrow> go_context \<Rightarrow> uuid \<Rightarrow> int \<Rightarrow> negotiation
    \<Rightarrow> negotiation \<times> apply_func outcome" where
  "Requested_Send L ctx fresh now cn =
     (if n_initial cn
      then (let cn1 = n_UnsetInitial cn in (cn1, sendContractOffer L ctx cn1))
      else sendContractAgreement L ctx fresh now cn)"

definition Offered_Send :: "'a lib_scheme \<Rightarrow> go_context \<Rightarrow> negotiation \<Rightarrow> negotiation \<times> apply_func outcome" where
  "Offered_Send L ctx cn =
     (if n_initial cn
      then (let cn1 = n_UnsetInitial cn in (cn1, sendContractRequest L ctx cn1))
      else (cn, sendContractEvent L ctx cn (n_providerPID cn) C_ACCEPTED))"

definition Accepted_Send :: "'a lib_scheme \<Rightarrow> go_context \<Rightarrow> uuid \<Rightarrow> int \<Rightarrow> negotiation \<Rightarrow> negotiation \<times> apply_func outcome" where
  "Accepted_Send L ctx fresh now cn = sendContractAgreement L ctx fresh now cn"

definition Agreed_Send :: "'a lib_scheme \<Rightarrow> go_context \<Rightarrow> negotiation \<Rightarrow> apply_func outcome" where
  "Agreed_Send L ctx cn = sendContractVerification L ctx cn"

definition Verified_Send :: "'a lib_scheme \<Rightarrow> go_context \<Rightarrow> negotiation \<Rightarrow> apply_func outcome" where
  "Verified_Send L ctx cn = sendContractEvent L ctx cn (n_consumerPID cn) C_FINALIZED"

declare Accepted_Send_def [simp] Agreed_Send_def [simp] Verified_Send_def [simp]

fun contract_Send :: "'a lib_scheme \<Rightarrow> deps \<Rightarrow> go_context \<Rightarrow> uuid \<Rightarrow> int \<Rightarrow> negotiation
    \<Rightarrow> negotiation \<times> apply_func outcome" where
  "contract_Send L d ctx fresh now cn = (case n_state cn of
     C_INITIAL \<Rightarrow> (cn, Initial_Send L d ctx cn)
   | C_REQUESTED \<Rightarrow> Requested_Send L ctx fresh now cn
   | C_OFFERED \<Rightarrow> Offered_Send L ctx cn
   | C_AGREED \<Rightarrow> (cn, Agreed_Send L ctx cn)
   | C_ACCEPTED \<Rightarrow> Accepted_Send L ctx fresh now cn
   | C_VERIFIED \<Rightarrow> (cn, Verified_Send L ctx cn)
   | C_FINALIZED \<Rightarrow> (cn, OK ApNoop)
   | C_TERMINATED \<Rightarrow> (cn, OK ApNoop))"

section \<open>Running an applyFunc\<close>

text \<open>What running one leaves behind: the calls made to the contract service, and the entries added
  to the reconciler's queue. A call on a nil service or of a nil function panics.\<close>

record effects =
  service_calls :: "contract_service_call list"
  added :: "ReconciliationEntry list"

definition no_effects :: effects where
  "no_effects = \<lparr>service_calls = [], added = []\<rparr>"

definition call_service :: "deps \<Rightarrow> contract_service_call \<Rightarrow> effects \<Rightarrow> effects \<times> unit outcome" where
  "call_service d c e = (case d_c d of
     None \<Rightarrow> (e, PANIC ''nil pointer dereference'')
   | Some cs \<Rightarrow> (e\<lparr>service_calls := service_calls e @ [c]\<rparr>, cs c))"

definition call_with :: "deps \<Rightarrow> go_context \<Rightarrow> (RequesterInfo \<Rightarrow> contract_service_call) \<Rightarrow> effects
    \<Rightarrow> effects \<times> unit outcome" where
  "call_with d ctx f e = (case ExtractRequesterInfo ctx of
     OK ri \<Rightarrow> call_service d (f ri) e | ERR er \<Rightarrow> (e, ERR er) | PANIC p \<Rightarrow> (e, PANIC p))"

fun run_apply :: "'a lib_scheme \<Rightarrow> deps \<Rightarrow> negotiation \<Rightarrow> apply_func \<Rightarrow> effects \<Rightarrow> effects \<times> unit outcome" where
  "run_apply L d cn ApNil e = (e, PANIC ''nil function'')"
| "run_apply L d cn ApNoop e = (e, OK ())"
| "run_apply L d cn (ApOfferReceived ctx off) e =
     call_with d ctx (\<lambda>ri. OfferReceived (uuid_String L (n_consumerPID cn)) off ri) e"
| "run_apply L d cn (ApRequestReceived ctx off) e =
     call_with d ctx (\<lambda>ri. RequestReceived (uuid_String L (n_providerPID cn)) off ri) e"
| "run_apply L d cn (ApAgreementReceived ctx) e =
     call_with d ctx (\<lambda>ri. AgreementReceived (uuid_String L (n_consumerPID cn)) ri) e"
| "run_apply L d cn (ApAcceptedReceived ctx) e =
     call_with d ctx (\<lambda>ri. AcceptedReceived (uuid_String L (n_providerPID cn)) ri) e"
| "run_apply L d cn (ApVerificationReceived ctx) e =
     call_with d ctx (\<lambda>ri. VerificationReceived (uuid_String L (n_providerPID cn)) ri) e"
| "run_apply L d cn (ApFinalizationReceived ctx) e =
     (case ValidateAndMarshal valid_Offer (n_offer cn) of
        ERR er \<Rightarrow> (e, ERR er) | PANIC p \<Rightarrow> (e, PANIC p)
      | OK off \<Rightarrow>
          (case n_GetLocalPID cn of
             OK pid \<Rightarrow> call_with d ctx (\<lambda>ri. FinalizationReceived (uuid_String L pid) ri off) e
           | ERR er \<Rightarrow> (e, ERR er) | PANIC p \<Rightarrow> (e, PANIC p)))"
| "run_apply L d cn (ApTerminationReceived code reason) e =
     call_service d (TerminationReceived
       (uuid_String L (if n_role cn = DataspaceProvider then n_providerPID cn else n_consumerPID cn))
       code [reason]) e"
| "run_apply L d cn (ApAdd entry) e = (case Role_String (re_Role entry) of
     OK s \<Rightarrow> (e\<lparr>added := added e @ [entry]\<rparr>, OK ()) | ERR er \<Rightarrow> (e, ERR er) | PANIC p \<Rightarrow> (e, PANIC p))"

section \<open>What receiving a message does\<close>

lemma verifyAndTransform_OK [outcome_simps]:
  "verifyAndTransform L cn pp cp cb t af = (cn', OK a) \<longleftrightarrow>
     uuid_URN L (n_providerPID cn) = ToLower pp \<and> uuid_URN L (n_consumerPID cn) = ToLower cp
     \<and> a = af \<and> \<not> n_ro cn \<and> t \<in> set (validTransitions (n_state cn))
     \<and> (\<exists>nu. url_Parse L cb = Some nu \<and> cn' = cn\<lparr>n_callback := nu, n_modified := True, n_state := t\<rparr>)"
  by (auto simp: verifyAndTransform_def outcome_simps)

lemma verifyAndTransform_ERR:
  "verifyAndTransform L cn pp cp cb t af = (cn', ERR e) \<Longrightarrow>
     n_state cn' = n_state cn \<and> n_offer cn' = n_offer cn \<and> n_role cn' = n_role cn \<and> n_providerPID cn' = n_providerPID cn
     \<and> n_consumerPID cn' = n_consumerPID cn \<and> n_internal_id cn' = n_internal_id cn"
  by (auto simp: verifyAndTransform_def outcome_simps split: if_splits)

lemma learn_provider_OK:
  "learn_provider L pid cn = (cn', OK u) \<Longrightarrow>
     cn' = cn \<or> n_providerPID cn = emptyUUID \<and> \<not> n_ro cn \<and>
       (\<exists>v. uuid_Parse L pid = Some v \<and> cn' = cn\<lparr>n_providerPID := v, n_modified := True\<rparr>)"
  by (auto simp: learn_provider_def outcome_simps split: option.splits if_splits)

lemma learn_consumer_OK:
  "learn_consumer L pid cn = (cn', OK u) \<Longrightarrow>
     cn' = cn \<or> n_consumerPID cn = emptyUUID \<and> \<not> n_ro cn \<and>
       (\<exists>v. uuid_Parse L pid = Some v \<and> cn' = cn\<lparr>n_consumerPID := v, n_modified := True\<rparr>)"
  by (auto simp: learn_consumer_def outcome_simps split: option.splits if_splits)

lemma learn_known:
  "n_providerPID cn \<noteq> emptyUUID \<Longrightarrow> learn_provider L pid cn = (cn, OK ())"
  "n_consumerPID cn \<noteq> emptyUUID \<Longrightarrow> learn_consumer L pid cn = (cn, OK ())"
  by (auto simp: learn_provider_def learn_consumer_def split: option.splits)

lemma learn_not_ERR [simp]:
  "learn_provider L pid cn \<noteq> (cn', ERR e)" "learn_consumer L pid cn \<noteq> (cn', ERR e)"
  by (auto simp: learn_provider_def learn_consumer_def outcome_simps split: option.splits if_splits)

text \<open>The state a message moves to, if the state machine takes it at all.\<close>

fun recv_target :: "cstate \<Rightarrow> message \<Rightarrow> cstate option" where
  "recv_target C_INITIAL (MContractRequest t) = Some C_REQUESTED"
| "recv_target C_INITIAL (MContractOffer t) = Some C_OFFERED"
| "recv_target C_REQUESTED (MContractOffer t) = Some C_OFFERED"
| "recv_target C_REQUESTED (MContractAgreement t) = Some C_AGREED"
| "recv_target C_OFFERED (MContractRequest t) = Some C_REQUESTED"
| "recv_target C_OFFERED (MContractEvent t) =
     (if cem_EventType t = ''dspace:ACCEPTED'' then Some C_ACCEPTED else None)"
| "recv_target C_ACCEPTED (MContractAgreement t) = Some C_AGREED"
| "recv_target C_AGREED (MContractVerification t) = Some C_VERIFIED"
| "recv_target C_VERIFIED (MContractEvent t) =
     (if cem_EventType t = ''dspace:FINALIZED'' then Some C_FINALIZED else None)"
| "recv_target s (MContractTermination t) =
     (if s \<in> {C_INITIAL, C_FINALIZED, C_TERMINATED} then None else Some C_TERMINATED)"
| "recv_target _ _ = None"

text \<open>The PIDs a contract message names, and the callback it brings (the stored one for messages
  that bring none).\<close>

fun msg_provider :: "message \<Rightarrow> string" where
  "msg_provider (MContractRequest t) = crm_ProviderPID t"
| "msg_provider (MContractOffer t) = com_ProviderPID t"
| "msg_provider (MContractAgreement t) = cam_ProviderPID t"
| "msg_provider (MContractVerification t) = cvm_ProviderPID t"
| "msg_provider (MContractEvent t) = cem_ProviderPID t"
| "msg_provider (MContractTermination t) = ctm_ProviderPID t"
| "msg_provider _ = []"

fun msg_consumer :: "message \<Rightarrow> string" where
  "msg_consumer (MContractRequest t) = crm_ConsumerPID t"
| "msg_consumer (MContractOffer t) = com_ConsumerPID t"
| "msg_consumer (MContractAgreement t) = cam_ConsumerPID t"
| "msg_consumer (MContractVerification t) = cvm_ConsumerPID t"
| "msg_consumer (MContractEvent t) = cem_ConsumerPID t"
| "msg_consumer (MContractTermination t) = ctm_ConsumerPID t"
| "msg_consumer _ = []"

fun msg_callback :: "'a lib_scheme \<Rightarrow> negotiation \<Rightarrow> message \<Rightarrow> string" where
  "msg_callback L cn (MContractRequest t) = crm_CallbackAddress t"
| "msg_callback L cn (MContractOffer t) = com_CallbackAddress t"
| "msg_callback L cn (MContractAgreement t) = cam_CallbackAddress t"
| "msg_callback L cn _ = url_String L (n_callback cn)"

text \<open>How a negotiation may differ after a message was received in a state after \<open>INITIAL\<close>.\<close>

definition recv_step :: "'a lib_scheme \<Rightarrow> message \<Rightarrow> negotiation \<Rightarrow> negotiation \<Rightarrow> bool" where
  "recv_step L msg cn cn' \<longleftrightarrow>
     uuid_URN L (n_providerPID cn') = ToLower (msg_provider msg)
     \<and> uuid_URN L (n_consumerPID cn') = ToLower (msg_consumer msg)
     \<and> (n_providerPID cn \<noteq> emptyUUID \<longrightarrow> n_providerPID cn' = n_providerPID cn)
     \<and> (n_consumerPID cn \<noteq> emptyUUID \<longrightarrow> n_consumerPID cn' = n_consumerPID cn)"

definition recv_frame :: "negotiation \<Rightarrow> negotiation \<Rightarrow> bool" where
  "recv_frame cn cn' \<longleftrightarrow>
     n_offer cn' = n_offer cn \<and> n_role cn' = n_role cn \<and> n_internal_id cn' = n_internal_id cn
     \<and> n_autoAccept cn' = n_autoAccept cn \<and> n_self cn' = n_self cn \<and> n_ro cn' = n_ro cn
     \<and> n_requesterInfo cn' = n_requesterInfo cn \<and> n_traceInfo cn' = n_traceInfo cn"

named_theorems recv_simps \<open>unfolding one reception\<close>

lemmas recv_unfold [recv_simps] = outcome_simps recv_step_def recv_frame_def processTermination_def
  Let_def

lemma Initial_Recv_OK:
  "Initial_Recv L d ctx fresh msg cn = (cn', OK af) \<Longrightarrow> n_state cn = C_INITIAL \<Longrightarrow>
     recv_target C_INITIAL msg = Some (n_state cn') \<and> recv_frame cn cn' \<and> n_initial cn' \<and> n_modified cn'"
  by (cases msg; simp add: processContractRequest_def processContractOffer_def recv_simps
      n_SetInitial_def split: outcome.splits if_splits; force)

lemma Requested_Recv_OK:
  "Requested_Recv L d ctx msg cn = (cn', OK af) \<Longrightarrow> n_state cn = C_REQUESTED \<Longrightarrow>
     recv_target C_REQUESTED msg = Some (n_state cn') \<and> recv_frame cn cn' \<and> recv_step L msg cn cn' \<and> n_modified cn'"
  by (cases msg) (auto simp: recv_simps dest!: learn_provider_OK)

lemma Offered_Recv_OK:
  "Offered_Recv L d ctx msg cn = (cn', OK af) \<Longrightarrow> n_state cn = C_OFFERED \<Longrightarrow>
     recv_target C_OFFERED msg = Some (n_state cn') \<and> recv_frame cn cn' \<and> recv_step L msg cn cn' \<and> n_modified cn'"
  by (cases msg) (auto simp: recv_simps dest!: learn_consumer_OK dest: ParseState_named split: if_splits)

lemma Accepted_Recv_OK:
  "Accepted_Recv L d ctx msg cn = (cn', OK af) \<Longrightarrow> n_state cn = C_ACCEPTED \<Longrightarrow>
     recv_target C_ACCEPTED msg = Some (n_state cn') \<and> recv_frame cn cn' \<and> recv_step L msg cn cn' \<and> n_modified cn'"
  by (cases msg) (auto simp: recv_simps)

lemma Agreed_Recv_OK:
  "Agreed_Recv L d ctx msg cn = (cn', OK af) \<Longrightarrow> n_state cn = C_AGREED \<Longrightarrow>
     recv_target C_AGREED msg = Some (n_state cn') \<and> recv_frame cn cn' \<and> recv_step L msg cn cn' \<and> n_modified cn'"
  by (cases msg) (auto simp: recv_simps)

lemma Verified_Recv_OK:
  "Verified_Recv L d ctx msg cn = (cn', OK af) \<Longrightarrow> n_state cn = C_VERIFIED \<Longrightarrow>
     recv_target C_VERIFIED msg = Some (n_state cn') \<and> recv_frame cn cn' \<and> recv_step L msg cn cn' \<and> n_modified cn'"
  by (cases msg) (auto simp: recv_simps dest: ParseState_named split: if_splits)

lemma contract_Recv_OK:
  assumes "contract_Recv L d ctx fresh msg cn = (cn', OK af)"
  shows "recv_target (n_state cn) msg = Some (n_state cn') \<and> recv_frame cn cn' \<and> n_modified cn'
    \<and> (n_state cn \<noteq> C_INITIAL \<longrightarrow> recv_step L msg cn cn')"
proof (cases "n_state cn")
  case C_INITIAL then show ?thesis using assms Initial_Recv_OK[of L d ctx fresh msg cn cn' af] by simp
next case C_REQUESTED then show ?thesis using assms Requested_Recv_OK[of L d ctx msg cn cn' af] by simp
next case C_OFFERED then show ?thesis using assms Offered_Recv_OK[of L d ctx msg cn cn' af] by simp
next case C_AGREED then show ?thesis using assms Agreed_Recv_OK[of L d ctx msg cn cn' af] by simp
next case C_ACCEPTED then show ?thesis using assms Accepted_Recv_OK[of L d ctx msg cn cn' af] by simp
next case C_VERIFIED then show ?thesis using assms Verified_Recv_OK[of L d ctx msg cn cn' af] by simp
qed (use assms in simp_all)

lemma recv_target_valid: "recv_target s msg = Some t \<Longrightarrow> t \<in> set (validTransitions s)"
  by (cases "(s, msg)" rule: recv_target.cases)
     (auto split: if_splits intro!: ct.can_terminate simp: contract_final_def)

text \<open>Conversely, every message of the table is taken when it names the right PIDs.\<close>

lemma contract_Recv_complete:
  assumes "recv_target (n_state cn) msg = Some st" and "n_state cn \<noteq> C_INITIAL" and "\<not> n_ro cn"
    and "n_providerPID cn \<noteq> emptyUUID" and "n_consumerPID cn \<noteq> emptyUUID"
    and "uuid_URN L (n_providerPID cn) = ToLower (msg_provider msg)"
    and "uuid_URN L (n_consumerPID cn) = ToLower (msg_consumer msg)"
    and "url_Parse L (msg_callback L cn msg) = Some cb" and "Marshal_offer L (n_offer cn) = OK off"
  shows "\<exists>cn' af. contract_Recv L d ctx fresh msg cn = (cn', OK af) \<and> n_state cn' = st \<and> n_callback cn' = cb"
proof -
  have ev: "contract_ParseState (ArgString ''dspace:ACCEPTED'') = OK C_ACCEPTED"
    "contract_ParseState (ArgString ''dspace:FINALIZED'') = OK C_FINALIZED"
    using ParseState_String(1)[of C_ACCEPTED] ParseState_String(1)[of C_FINALIZED] by simp_all
  note [simp] = verifyAndTransform_def processTermination_def n_SetCallback_def n_SetState_def
    n_SetAgreement_def n_panicRO_def n_modify_def learn_known ev Let_def
  show ?thesis
    using assms by (cases "n_state cn"; cases msg) (auto split: if_splits)
qed

section \<open>What sending does\<close>

text \<open>Every entry for the reconciler is made for the negotiation's own local identity.\<close>

definition entry_for :: "'a lib_scheme \<Rightarrow> negotiation \<Rightarrow> cstate \<Rightarrow> ReconciliationEntry \<Rightarrow> bool" where
  "entry_for L cn st e \<longleftrightarrow>
     EntityID e = (if n_role cn = DataspaceConsumer then n_consumerPID cn else n_providerPID cn)
     \<and> re_Type e = ReconciliationContract \<and> re_Role e = n_role cn \<and> TargetState e = cstate_String st
     \<and> Method e = ''POST'' \<and> AuthHeaderValue e = GetExternalId (n_requesterInfo cn)"

definition valid_message :: "message \<Rightarrow> bool" where
  "valid_message m = (case m of
     MContractRequest t \<Rightarrow> valid_ContractRequest t
   | MContractOffer t \<Rightarrow> valid_ContractOffer t
   | MContractAgreement t \<Rightarrow> valid_ContractAgreement t
   | MContractVerification t \<Rightarrow> valid_ContractVerification t
   | MContractEvent t \<Rightarrow> valid_ContractEvent t
   | MContractTermination t \<Rightarrow> valid_ContractTermination t
   | MTransferRequest t \<Rightarrow> valid_TransferRequest t
   | MTransferStart t \<Rightarrow> valid_TransferStart t
   | MTransferSuspension t \<Rightarrow> valid_TransferSuspension t
   | MTransferCompletion t \<Rightarrow> valid_TransferCompletion t
   | MTransferTermination t \<Rightarrow> valid_TransferTermination t)"

named_theorems send_simps \<open>unfolding the functions that send\<close>

lemmas send_unfold [send_simps] = outcome_simps Let_def entry_for_def valid_message_def
  makeContractRequestFunction_def makeRequestFunction_def

lemma sendContractRequest_OK:
  "sendContractRequest L ctx c = OK a \<Longrightarrow> \<exists>e. a = ApAdd e \<and> entry_for L c C_REQUESTED e
     \<and> (\<exists>t. Body e = MContractRequest t) \<and> valid_message (Body e)"
  by (auto simp: sendContractRequest_def send_simps)

lemma sendContractOffer_OK:
  "sendContractOffer L ctx c = OK a \<Longrightarrow> \<exists>e. a = ApAdd e \<and> entry_for L c C_OFFERED e
     \<and> (\<exists>t. Body e = MContractOffer t) \<and> valid_message (Body e)"
  by (auto simp: sendContractOffer_def send_simps)

lemma sendContractEvent_OK:
  "sendContractEvent L ctx c pid st = OK a \<Longrightarrow> \<exists>e. a = ApAdd e \<and> entry_for L c st e
     \<and> (\<exists>t. Body e = MContractEvent t \<and> cem_EventType t = cstate_String st) \<and> valid_message (Body e)"
  by (auto simp: sendContractEvent_def send_simps)

lemma sendContractVerification_OK:
  "sendContractVerification L ctx c = OK a \<Longrightarrow> \<exists>e. a = ApAdd e \<and> entry_for L c C_VERIFIED e
     \<and> (\<exists>t. Body e = MContractVerification t) \<and> valid_message (Body e)"
  by (auto simp: sendContractVerification_def send_simps)

lemma sendContractAgreement_OK:
  "sendContractAgreement L ctx fresh now c = (c', OK a) \<Longrightarrow> \<exists>e. a = ApAdd e \<and> entry_for L c C_AGREED e
     \<and> (\<exists>t. Body e = MContractAgreement t \<and> n_agreement c' = Some (cam_Agreement t)) \<and> valid_message (Body e)
     \<and> c' = c\<lparr>n_agreement := n_agreement c', n_newAgreement := True, n_modified := True\<rparr>"
  by (auto simp: sendContractAgreement_def send_simps)

text \<open>The state the next message of a negotiation leads to.\<close>

fun send_target :: "negotiation \<Rightarrow> cstate option" where
  "send_target cn = (case n_state cn of
     C_INITIAL \<Rightarrow> if n_consumerPID cn \<noteq> emptyUUID then Some C_REQUESTED else Some C_OFFERED
   | C_REQUESTED \<Rightarrow> Some (if n_initial cn then C_OFFERED else C_AGREED)
   | C_OFFERED \<Rightarrow> Some (if n_initial cn then C_REQUESTED else C_ACCEPTED)
   | C_ACCEPTED \<Rightarrow> Some C_AGREED
   | C_AGREED \<Rightarrow> Some C_VERIFIED
   | C_VERIFIED \<Rightarrow> Some C_FINALIZED
   | _ \<Rightarrow> None)"

lemma send_target_valid: "send_target cn = Some st \<Longrightarrow> st \<in> set (validTransitions (n_state cn))"
  by (cases "n_state cn") (auto split: if_splits)

lemma entry_for_flags [simp]:
  "entry_for L (n_UnsetInitial c) st e = entry_for L c st e"
  by (simp add: entry_for_def n_UnsetInitial_def)

lemma Initial_Send_OK:
  "Initial_Send L d ctx cn = OK a \<Longrightarrow> n_state cn = C_INITIAL \<Longrightarrow> \<exists>e st. a = ApAdd e
     \<and> send_target cn = Some st \<and> entry_for L cn st e \<and> recv_target C_INITIAL (Body e) = Some st
     \<and> valid_message (Body e)"
  by (auto simp: Initial_Send_def outcome_simps split: if_splits
      dest!: sendContractRequest_OK sendContractOffer_OK)

definition send_frame :: "negotiation \<Rightarrow> negotiation \<Rightarrow> bool" where
  "send_frame cn cn' \<longleftrightarrow> recv_frame cn cn' \<and> n_state cn' = n_state cn \<and> n_providerPID cn' = n_providerPID cn
     \<and> n_consumerPID cn' = n_consumerPID cn \<and> n_callback cn' = n_callback cn \<and> (n_modified cn \<longrightarrow> n_modified cn')"

lemma send_frame_intros:
  "send_frame cn cn" "send_frame cn (n_UnsetInitial cn)"
  "cn' = cn\<lparr>n_agreement := x, n_newAgreement := y, n_modified := True\<rparr> \<Longrightarrow> send_frame cn cn'"
  by (simp_all add: send_frame_def recv_frame_def n_UnsetInitial_def)

lemma contract_Send_OK:
  assumes "contract_Send L d ctx fresh now cn = (cn', OK a)"
  shows "send_frame cn cn' \<and> (contract_final (n_state cn) \<and> a = ApNoop \<or>
    (\<exists>e st. a = ApAdd e \<and> send_target cn = Some st \<and> entry_for L cn st e
       \<and> recv_target (n_state cn) (Body e) = Some st \<and> valid_message (Body e)))"
proof (cases "n_state cn")
  case C_INITIAL
  then show ?thesis using assms Initial_Send_OK[of L d ctx cn a] by (auto simp: send_frame_intros)
next
  case C_REQUESTED
  then show ?thesis using assms
    by (auto simp: Requested_Send_def Let_def send_frame_intros split: if_splits
        dest!: sendContractOffer_OK sendContractAgreement_OK)
next
  case C_OFFERED
  then show ?thesis using assms
    by (auto simp: Offered_Send_def Let_def send_frame_intros split: if_splits
        dest!: sendContractRequest_OK sendContractEvent_OK)
next
  case C_ACCEPTED
  then show ?thesis using assms by (auto simp: send_frame_intros dest!: sendContractAgreement_OK)
next
  case C_AGREED
  then show ?thesis using assms by (auto simp: send_frame_intros dest!: sendContractVerification_OK)
next
  case C_VERIFIED
  then show ?thesis using assms
    by (auto simp: send_frame_intros dest!: sendContractEvent_OK)
qed (use assms in \<open>simp_all add: send_frame_intros contract_final_def\<close>)

text \<open>The negotiation of a peer that can take a message of \<open>cn\<close>: in the same state and writable, and
  with the same PIDs and a callback address in the message that can be parsed; or, for an opening
  message, one that its handler has just made, and for a request one whose dataset the provider service has.\<close>

definition ready_peer :: "'a lib_scheme \<Rightarrow> deps \<Rightarrow> go_context \<Rightarrow> negotiation \<Rightarrow> message \<Rightarrow> negotiation \<Rightarrow> bool" where
  "ready_peer L d ctx cn msg peer \<longleftrightarrow>
     n_state peer = n_state cn \<and> \<not> n_ro peer \<and> (\<exists>off. Marshal_offer L (n_offer peer) = OK off)
     \<and> (if n_state cn = C_INITIAL
        then \<forall>t. msg = MContractRequest t \<longrightarrow> (\<exists>target ri. URNtoRawID (offer_target peer) = OK target
               \<and> (needs_dataset (n_offer peer) \<longrightarrow> ExtractRequesterInfo ctx = OK ri \<and> GetDataset (d_p d) target ri = OK ()))
        else n_providerPID cn \<noteq> emptyUUID \<and> n_consumerPID cn \<noteq> emptyUUID
          \<and> n_providerPID peer = n_providerPID cn \<and> n_consumerPID peer = n_consumerPID cn
          \<and> (\<exists>cb. url_Parse L (msg_callback L peer msg) = Some cb))"

lemma Send_names:
  assumes "contract_Send L d ctx fresh now cn = (cn', OK (ApAdd e))" and "n_providerPID cn \<noteq> emptyUUID" and "n_consumerPID cn \<noteq> emptyUUID"
  shows "msg_provider (Body e) = uuid_URN L (n_providerPID cn) \<and> msg_consumer (Body e) = uuid_URN L (n_consumerPID cn)"
  using assms by (cases "n_state cn") (auto simp: Initial_Send_def Requested_Send_def Offered_Send_def n_UnsetInitial_def Let_def
      outcome_simps sendContractRequest_def sendContractOffer_def sendContractEvent_def sendContractVerification_def
      sendContractAgreement_def makeContractRequestFunction_def makeRequestFunction_def split: if_splits)

lemma Initial_Recv_complete:
  assumes "recv_target C_INITIAL msg = Some st" and "n_state peer = C_INITIAL" and "\<not> n_ro peer" and "Marshal_offer L (n_offer peer) = OK off"
    and "\<And>t. msg = MContractRequest t \<Longrightarrow> \<exists>target ri. URNtoRawID (offer_target peer) = OK target
       \<and> (needs_dataset (n_offer peer) \<longrightarrow> ExtractRequesterInfo ctx = OK ri \<and> GetDataset (d_p d) target ri = OK ())"
  shows "\<exists>peer' af. contract_Recv L d ctx fresh msg peer = (peer', OK af) \<and> n_state peer' = st"
proof (cases msg)
  case (MContractRequest t)
  then obtain target ri where t: "URNtoRawID (offer_target peer) = OK target"
      "needs_dataset (n_offer peer) \<longrightarrow> ExtractRequesterInfo ctx = OK ri \<and> GetDataset (d_p d) target ri = OK ()"
    using assms(5) by blast
  then show ?thesis using assms(1-4) MContractRequest
    by (cases "needs_dataset (n_offer peer)")
      (auto simp: processContractRequest_def n_SetState_def n_panicRO_def n_modify_def n_setters_rw n_SetInitial_def)
next
  case (MContractOffer t)
  then show ?thesis using assms(1-4)
    by (auto simp: processContractOffer_def n_SetState_def n_panicRO_def n_modify_def n_setters_rw n_SetInitial_def)
qed (use assms(1) in simp_all)

lemma ready_peer_takes:
  assumes "uuid_laws L" and "contract_Send L d ctx fresh now cn = (cn', OK (ApAdd e))" and "recv_target (n_state cn) (Body e) = Some st"
    and "ready_peer L d' ctx' cn (Body e) peer"
  shows "\<exists>peer' af. contract_Recv L d' ctx' fresh' (Body e) peer = (peer', OK af) \<and> n_state peer' = st"
proof (cases "n_state cn = C_INITIAL")
  case True
  then show ?thesis using assms(3,4) Initial_Recv_complete[of "Body e" st peer L _ ctx' d' fresh'] by (auto simp: ready_peer_def)
next
  case False
  then have p: "n_providerPID cn \<noteq> emptyUUID" "n_consumerPID cn \<noteq> emptyUUID" "n_providerPID peer = n_providerPID cn"
      "n_consumerPID peer = n_consumerPID cn" "n_state peer = n_state cn" "\<not> n_ro peer"
    using assms(4) by (simp_all add: ready_peer_def)
  obtain cb off where "url_Parse L (msg_callback L peer (Body e)) = Some cb" "Marshal_offer L (n_offer peer) = OK off"
    using assms(4) False by (auto simp: ready_peer_def)
  then show ?thesis using contract_Recv_complete[of peer "Body e" st L cb off d' ctx' fresh'] Send_names[OF assms(2) p(1,2)]
      p assms(3) False uuid_URN_lower[OF assms(1)] by auto
qed

text \<open>All that a reception may change.\<close>

definition learns :: "negotiation \<Rightarrow> negotiation \<Rightarrow> bool" where
  "learns cn cn' \<longleftrightarrow> cn' = cn\<lparr>n_state := n_state cn', n_providerPID := n_providerPID cn', n_consumerPID := n_consumerPID cn',
     n_callback := n_callback cn', n_agreement := n_agreement cn', n_initial := n_initial cn',
     n_newAgreement := n_newAgreement cn', n_modified := True\<rparr>"

fun brought_agreement :: "message \<Rightarrow> Agreement option" where
  "brought_agreement (MContractAgreement t) = Some (cam_Agreement t)"
| "brought_agreement _ = None"

lemma learns_intro:
  "n_offer cn' = n_offer cn \<Longrightarrow> n_self cn' = n_self cn \<Longrightarrow> n_role cn' = n_role cn \<Longrightarrow> n_autoAccept cn' = n_autoAccept cn \<Longrightarrow>
   n_ro cn' = n_ro cn \<Longrightarrow> n_traceInfo cn' = n_traceInfo cn \<Longrightarrow> n_requesterInfo cn' = n_requesterInfo cn \<Longrightarrow>
   n_internal_id cn' = n_internal_id cn \<Longrightarrow> n_locked cn' = n_locked cn \<Longrightarrow> n_modified cn' \<Longrightarrow> learns cn cn'"
  by (cases cn; cases cn') (simp add: learns_def)

lemma Recv_locked: "contract_Recv L d ctx fresh msg cn = (cn', OK af) \<Longrightarrow> n_locked cn' = n_locked cn"
  by (cases "n_state cn"; cases msg) (auto simp: processContractRequest_def processContractOffer_def recv_simps
      n_SetInitial_def dest!: learn_provider_OK learn_consumer_OK split: outcome.splits if_splits)

lemma Recv_brings:
  "contract_Recv L d ctx fresh msg cn = (cn', OK af) \<Longrightarrow>
     (case brought_agreement msg of Some ag \<Rightarrow> n_agreement cn' = Some ag \<and> n_newAgreement cn'
        | None \<Rightarrow> n_agreement cn' = n_agreement cn \<and> n_newAgreement cn' = n_newAgreement cn)
     \<and> (if n_state cn = C_INITIAL then n_initial cn' \<and> n_callback cn' = n_callback cn
        else n_initial cn' = n_initial cn \<and> url_Parse L (msg_callback L cn msg) = Some (n_callback cn'))"
  by (cases "n_state cn"; cases msg) (auto simp: processContractRequest_def processContractOffer_def recv_simps
      n_SetInitial_def dest!: learn_provider_OK learn_consumer_OK split: outcome.splits if_splits)

lemma Recv_opening:
  assumes "contract_Recv L d ctx fresh msg cn = (cn', OK af)" and "n_state cn = C_INITIAL"
  shows "(\<exists>t. msg = MContractRequest t) \<and> n_providerPID cn' = fresh \<and> n_consumerPID cn' = n_consumerPID cn
    \<or> (\<exists>t. msg = MContractOffer t) \<and> n_providerPID cn' = n_providerPID cn
       \<and> n_consumerPID cn' = (if n_consumerPID cn = emptyUUID then fresh else n_consumerPID cn)"
  using assms by (cases msg) (auto simp: processContractRequest_def processContractOffer_def recv_simps
      n_SetInitial_def split: outcome.splits if_splits)

section \<open>Properties\<close>


text \<open>The state machine takes every message of the protocol's table: a writable negotiation that
  knows both PIDs accepts a message that names them, if the callback it brings parses, and moves
  to the table's state with that callback.\<close>

theorem Recv_complete:
  assumes "recv_target (n_state cn) msg = Some st" and "n_state cn \<noteq> C_INITIAL" and "\<not> n_ro cn"
    and "n_providerPID cn \<noteq> emptyUUID" and "n_consumerPID cn \<noteq> emptyUUID"
    and "uuid_URN L (n_providerPID cn) = ToLower (msg_provider msg)"
    and "uuid_URN L (n_consumerPID cn) = ToLower (msg_consumer msg)"
    and "url_Parse L (msg_callback L cn msg) = Some cb" and "Marshal_offer L (n_offer cn) = OK off"
  shows "\<exists>cn' af. contract_Recv L d ctx fresh msg cn = (cn', OK af) \<and> n_state cn' = st \<and> n_callback cn' = cb"
  by (rule contract_Recv_complete[OF assms])

text \<open>A negotiation never takes over the offer of a message: receiving an offer or a request
  leaves the negotiated offer as it was, so a counter-offer moves the state but its content is
  dropped.\<close>

theorem counter_offer_dropped:
  assumes "contract_Recv L d ctx fresh msg cn = (cn', OK af)"
  shows "n_offer cn' = n_offer cn"
  using contract_Recv_OK[OF assms] by (simp add: recv_frame_def)

text \<open>C9: what a negotiation sends is what its peer takes: the message is valid, and every negotiation of a peer
  that is in the same state and can take a message of it (\<open>ready_peer\<close>) receives it without an error and then is in exactly the state the
  sender will store when it is acknowledged; that move is in the table, and sending changes neither the state nor the PIDs.
  Final states send nothing.\<close>

theorem Send_matches_Recv:
  assumes "contract_Send L d ctx fresh now cn = (cn', OK a)" and "uuid_laws L"
  shows "n_state cn' = n_state cn \<and> n_providerPID cn' = n_providerPID cn \<and> n_consumerPID cn' = n_consumerPID cn
    \<and> (n_state cn \<in> {C_FINALIZED, C_TERMINATED} \<and> a = ApNoop
       \<or> (\<exists>e st. a = ApAdd e \<and> valid_message (Body e) \<and> recv_target (n_state cn) (Body e) = Some st
            \<and> TargetState e = cstate_String st \<and> st \<in> set (validTransitions (n_state cn))
            \<and> re_Role e = n_role cn \<and> re_Type e = ReconciliationContract
            \<and> (\<forall>d' ctx' fresh' peer. ready_peer L d' ctx' cn (Body e) peer \<longrightarrow>
                 (\<exists>peer' af. contract_Recv L d' ctx' fresh' (Body e) peer = (peer', OK af) \<and> n_state peer' = st))))"
proof -
  note ok = contract_Send_OK[OF assms(1)]
  show ?thesis
  proof (cases "contract_final (n_state cn) \<and> a = ApNoop")
    case True
    then show ?thesis using ok by (auto simp: send_frame_def contract_final_def)
  next
    case False
    then obtain e st where e: "a = ApAdd e" "send_target cn = Some st" "entry_for L cn st e" "recv_target (n_state cn) (Body e) = Some st"
        "valid_message (Body e)" using ok by blast
    have "\<forall>d' ctx' fresh' peer. ready_peer L d' ctx' cn (Body e) peer \<longrightarrow>
        (\<exists>peer' af. contract_Recv L d' ctx' fresh' (Body e) peer = (peer', OK af) \<and> n_state peer' = st)"
      using ready_peer_takes[OF assms(2) assms(1)[unfolded e(1)] e(4)] by blast
    with e ok send_target_valid[OF e(2)] show ?thesis unfolding send_frame_def entry_for_def by blast
  qed
qed

section \<open>Examples\<close>

definition sample_deps :: deps where
  "sample_deps = \<lparr>d_p = \<lparr>GetDataset = (\<lambda>_ _. OK ()), PublishDataset = (\<lambda>_ _ _. OK (Some sample_publish)),
     ShutdownTransfer = (\<lambda>_ _. OK ())\<rparr>, d_c = None\<rparr>"

definition sample_ctx :: go_context where
  "sample_ctx = SetRequesterInfo background sample_requester"

definition sample_verification :: message where
  "sample_verification = MContractVerification
     \<lparr>cvm_Context = GetDSPContext, cvm_Type = ''dspace:ContractAgreementVerificationMessage'',
      cvm_ProviderPID = uuid_URN sample_lib 2, cvm_ConsumerPID = uuid_URN sample_lib 3\<rparr>"

definition sample_counter_offer :: message where
  "sample_counter_offer = MContractOffer
     \<lparr>com_Context = GetDSPContext, com_Type = ''dspace:ContractOfferMessage'',
      com_ProviderPID = uuid_URN sample_lib 2, com_ConsumerPID = uuid_URN sample_lib 3,
      com_Offer = sample_message_offer\<lparr>mo_Target := ''urn:uuid:9''\<rparr>, com_CallbackAddress = ''/peer''\<rparr>"

lemma sample_recv_verification:
  "contract_Recv sample_lib sample_deps sample_ctx 0 sample_verification
     (sample_negotiation DataspaceProvider C_AGREED) =
   (sample_negotiation DataspaceProvider C_AGREED
      \<lparr>n_callback := root_url, n_modified := True, n_state := C_VERIFIED\<rparr>, OK ApNoop)"
  by (simp add: sample_verification_def verifyAndTransform_def n_SetCallback_def n_SetState_def
      n_panicRO_def n_modify_def root_url_def)

lemma Recv_complete_witness:
  "\<exists>cn' af. contract_Recv sample_lib sample_deps sample_ctx 0 sample_counter_offer
     (sample_negotiation DataspaceConsumer C_REQUESTED) = (cn', OK af) \<and> n_state cn' = C_OFFERED
     \<and> n_callback cn' = \<lparr>uPath = ''/peer'', uRest = []\<rparr>"
  using Recv_complete[of "sample_negotiation DataspaceConsumer C_REQUESTED" sample_counter_offer C_OFFERED
      sample_lib "\<lparr>uPath = ''/peer'', uRest = []\<rparr>" "''{}''" sample_deps sample_ctx 0]
  by (simp add: sample_counter_offer_def)

lemma counter_offer_dropped_witness:
  "n_offer (fst (contract_Recv sample_lib sample_deps sample_ctx 0 sample_counter_offer
     (sample_negotiation DataspaceConsumer C_REQUESTED))) = sample_offer"
proof -
  obtain cn' af where r: "contract_Recv sample_lib sample_deps sample_ctx 0 sample_counter_offer
     (sample_negotiation DataspaceConsumer C_REQUESTED) = (cn', OK af)"
    using contract_Recv_complete[of "sample_negotiation DataspaceConsumer C_REQUESTED" sample_counter_offer C_OFFERED
      sample_lib "\<lparr>uPath = ''/peer'', uRest = []\<rparr>" "''{}''" sample_deps sample_ctx 0]
    by (auto simp: sample_counter_offer_def)
  show ?thesis using counter_offer_dropped[OF r] by (simp only: r fst_conv sample_negotiation_simps)
qed

lemma sample_send_verification:
  "\<exists>e. contract_Send sample_lib sample_deps sample_ctx 0 0 (sample_negotiation DataspaceConsumer C_AGREED)
     = (sample_negotiation DataspaceConsumer C_AGREED, OK (ApAdd e))"
  by (simp add: sendContractVerification_def ValidateAndMarshal_def valid_ContractVerification_def
      required_def makeContractRequestFunction_def makeRequestFunction_def)

lemma Send_matches_Recv_witness:
  "\<exists>e peer' af. contract_Send sample_lib sample_deps sample_ctx 0 0 (sample_negotiation DataspaceConsumer C_AGREED)
     = (sample_negotiation DataspaceConsumer C_AGREED, OK (ApAdd e)) \<and> valid_message (Body e)
     \<and> contract_Recv sample_lib sample_deps sample_ctx 0 (Body e) (sample_negotiation DataspaceProvider C_AGREED) = (peer', OK af)
     \<and> n_state peer' = C_VERIFIED"
proof -
  obtain e where e: "contract_Send sample_lib sample_deps sample_ctx 0 0 (sample_negotiation DataspaceConsumer C_AGREED)
     = (sample_negotiation DataspaceConsumer C_AGREED, OK (ApAdd e))"
    using sample_send_verification by blast
  obtain st where st: "valid_message (Body e)" "recv_target C_AGREED (Body e) = Some st"
      "\<And>peer. ready_peer sample_lib sample_deps sample_ctx (sample_negotiation DataspaceConsumer C_AGREED) (Body e) peer \<Longrightarrow>
         \<exists>peer' af. contract_Recv sample_lib sample_deps sample_ctx 0 (Body e) peer = (peer', OK af) \<and> n_state peer' = st"
    using Send_matches_Recv[OF e sample_lib_laws] by auto
  have "st = C_VERIFIED" using contract_Send_OK[OF e] st(2) by auto
  moreover have "ready_peer sample_lib sample_deps sample_ctx (sample_negotiation DataspaceConsumer C_AGREED) (Body e)
      (sample_negotiation DataspaceProvider C_AGREED)"
    by (simp add: ready_peer_def)
  ultimately show ?thesis using e st by blast
qed

end
