(* ===== verification/Store.thy ===== *)
theory Store
  imports Contract_Machine
begin

text \<open>
  The storage backend: \<open>dsp/persistence/backends/sqlite/*_saver.go\<close> and the query options of
  \<open>dsp/persistence/options\<close>. The database is the list of rows of its three tables; a
  statement of the query builder is the selection, update or insertion it writes. Statements can
  fail (\<open>fault\<close>), and other connections can run while a caller sleeps (\<open>others\<close>).
  The unique constraints are those of the models' tags, which the initial migration creates.
\<close>

section \<open>The database\<close>

record db =
  contracts :: "contract_row list"
  transfers :: "transfer_row list"
  agreements :: "agreement_row list"
  next_contract :: int
  next_transfer :: int
  clock :: nat

definition empty_db :: db where
  "empty_db = \<lparr>contracts = [], transfers = [], agreements = [], next_contract = 1, next_transfer = 1,
     clock = 0\<rparr>"

text \<open>A \<open>Provider\<close>: how often the lock is tried, which statements fail, what others do.\<close>

record backend =
  lockTimeout :: nat
  fault :: "nat \<Rightarrow> bool"
  others :: "nat \<Rightarrow> db \<Rightarrow> db"

definition New_backend :: backend where
  "New_backend = \<lparr>lockTimeout = 60, fault = (\<lambda>_. False), others = (\<lambda>_ d. d)\<rparr>"

definition SetLockTimeout :: "nat \<Rightarrow> backend \<Rightarrow> backend" where
  "SetLockTimeout secs P = P\<lparr>lockTimeout := secs\<rparr>"

definition driver_error :: goerror where
  "driver_error = Errorf ''driver error'' []"

definition no_rows :: goerror where
  "no_rows = Errorf ''sql: no rows in result set'' [ErrNoRows]"

definition exec :: "backend \<Rightarrow> (db \<Rightarrow> db \<times> 'a outcome) \<Rightarrow> db \<Rightarrow> db \<times> 'a outcome" where
  "exec P stmt d =
     (let d' = d\<lparr>clock := Suc (clock d)\<rparr>
      in if fault P (clock d) then (d', ERR driver_error) else stmt d')"

text \<open>Trying an update that takes the lock, sleeping in between, and finishing with the row it
  returns.\<close>

fun lock_loop :: "backend \<Rightarrow> (db \<Rightarrow> db \<times> 'r outcome) \<Rightarrow> ('r \<Rightarrow> db \<Rightarrow> db \<times> 'x outcome) \<Rightarrow> nat
    \<Rightarrow> db \<Rightarrow> db \<times> 'x outcome" where
  "lock_loop P upd fin 0 d = (d, ERR (Errorf ''could not acquire lock'' []))"
| "lock_loop P upd fin (Suc n) d =
     (case exec P upd d of
        (d1, OK r) \<Rightarrow> fin r d1
      | (d1, ERR e) \<Rightarrow>
          if errors_Is e ErrNoRows then lock_loop P upd fin n (others P (clock d1) d1) else (d1, ERR e)
      | (d1, PANIC p) \<Rightarrow> (d1, PANIC p))"

text \<open>\<open>UPDATE ... SET locked = true WHERE ... RETURNING\<close>: every matching row is updated and the
  first one returned.\<close>

definition first_row :: "'r list \<Rightarrow> 'r outcome" where
  "first_row rs = (case rs of [] \<Rightarrow> ERR no_rows | r # _ \<Rightarrow> OK r)"

definition lock_rows :: "('r \<Rightarrow> bool) \<Rightarrow> ('r \<Rightarrow> 'r) \<Rightarrow> 'r list \<Rightarrow> 'r list \<times> 'r outcome" where
  "lock_rows hit lock rs = (update_where hit lock rs, first_row (map lock (filter hit rs)))"

text \<open>\<open>INSERT ... ON CONFLICT (id) DO UPDATE\<close>: another row with the same value in a unique column
  is an error; a row with the same key takes the \<open>excluded\<close> columns; otherwise the row is
  inserted, a zero key meaning the next one.\<close>

definition upsert_rows :: "('r \<Rightarrow> int) \<Rightarrow> (int \<Rightarrow> 'r \<Rightarrow> 'r) \<Rightarrow> ('r \<Rightarrow> 'r \<Rightarrow> bool) \<Rightarrow> ('r \<Rightarrow> 'r \<Rightarrow> 'r)
    \<Rightarrow> 'r \<Rightarrow> 'r list \<times> int \<Rightarrow> ('r list \<times> int) outcome" where
  "upsert_rows rid set_id conflict excluded m = (\<lambda>(rs, next).
     if \<exists>r \<in> set rs. rid r \<noteq> rid m \<and> conflict m r
     then ERR (Errorf ''UNIQUE constraint failed'' [])
     else if rid m \<noteq> 0 \<and> (\<exists>r \<in> set rs. rid r = rid m)
     then OK (update_where (\<lambda>r. rid r = rid m) (excluded m) rs, next)
     else let i = (if rid m = 0 then next else rid m)
          in OK (rs @ [set_id i m], max next (i + 1)))"

section \<open>Query options\<close>

record negotiationParamBuilder =
  q_consumerPID :: "uuid option"
  q_providerPID :: "uuid option"
  q_agreementID :: "uuid option"
  q_callback :: "url option"
  q_role :: "role option"
  q_state :: "cstate option"
  q_RW :: bool

datatype negotiation_option =
    WithConsumerPID uuid | WithProviderPID uuid | WithAgreementID uuid | WithCallback url
  | WithRole role | WithState cstate | WithRW

fun WithRolePID :: "uuid \<Rightarrow> role \<Rightarrow> negotiation_option outcome" where
  "WithRolePID pid DataspaceConsumer = OK (WithConsumerPID pid)"
| "WithRolePID pid DataspaceProvider = OK (WithProviderPID pid)"
| "WithRolePID pid RoleInvalid = PANIC ''Undefined dataspace role given''"

fun apply_option :: "negotiation_option \<Rightarrow> negotiationParamBuilder \<Rightarrow> negotiationParamBuilder" where
  "apply_option (WithConsumerPID pid) b = b\<lparr>q_consumerPID := Some pid\<rparr>"
| "apply_option (WithProviderPID pid) b = b\<lparr>q_providerPID := Some pid\<rparr>"
| "apply_option (WithAgreementID i) b = b\<lparr>q_agreementID := Some i\<rparr>"
| "apply_option (WithCallback u) b = b\<lparr>q_callback := Some u\<rparr>"
| "apply_option (WithRole r) b = b\<lparr>q_role := Some r\<rparr>"
| "apply_option (WithState s) b = b\<lparr>q_state := Some s\<rparr>"
| "apply_option WithRW b = b\<lparr>q_RW := True\<rparr>"

definition newNegotiationParamBuilder :: "negotiation_option list \<Rightarrow> negotiationParamBuilder" where
  "newNegotiationParamBuilder opts = fold apply_option opts
     \<lparr>q_consumerPID = None, q_providerPID = None, q_agreementID = None, q_callback = None,
      q_role = None, q_state = None, q_RW = False\<rparr>"

text \<open>A condition that is only added when its parameter is set.\<close>

definition when_set :: "'p option \<Rightarrow> ('p \<Rightarrow> bool) \<Rightarrow> bool" where
  "when_set p c = (case p of None \<Rightarrow> True | Some x \<Rightarrow> c x)"

definition contract_where :: "'a lib_scheme \<Rightarrow> negotiationParamBuilder \<Rightarrow> bool option \<Rightarrow> contract_row \<Rightarrow> bool" where
  "contract_where L cb lk r \<longleftrightarrow>
     when_set lk (\<lambda>b. c_Locked r = b)
     \<and> when_set (q_consumerPID cb) (\<lambda>u. c_ConsumerPID r = Some (uuid_URN L u))
     \<and> when_set (q_providerPID cb) (\<lambda>u. c_ProviderPID r = Some (uuid_URN L u))
     \<and> when_set (q_agreementID cb) (\<lambda>u. c_AgreementID r = Some (uuid_URN L u))
     \<and> when_set (q_callback cb) (\<lambda>u. c_CallbackURL r = url_String L u)
     \<and> when_set (q_role cb) (\<lambda>rl. Role_String rl = OK (c_Role r))
     \<and> when_set (q_state cb) (\<lambda>s. c_State r = cstate_String s)"

section \<open>Contract negotiations\<close>

definition find_agreement :: "db \<Rightarrow> string \<Rightarrow> agreement_row option" where
  "find_agreement d i = find (\<lambda>a. a_ID a = i) (agreements d)"

text \<open>The relation of a row, read by the join of a select.\<close>

definition join_agreement :: "db \<Rightarrow> contract_row \<Rightarrow> contract_row" where
  "join_agreement d r = r\<lparr>c_Agreement := Option.bind (c_AgreementID r) (find_agreement d)\<rparr>"

definition lock_contracts :: "'a lib_scheme \<Rightarrow> negotiationParamBuilder \<Rightarrow> db \<Rightarrow> db \<times> contract_row outcome" where
  "lock_contracts L params d =
     (let (rs, r) = lock_rows (contract_where L params (Some False)) (\<lambda>r. r\<lparr>c_Locked := True\<rparr>) (contracts d)
      in (d\<lparr>contracts := rs\<rparr>, r))"

definition finish_contract :: "'a lib_scheme \<Rightarrow> backend \<Rightarrow> contract_row \<Rightarrow> db \<Rightarrow> db \<times> negotiation outcome" where
  "finish_contract L P r d =
     (case c_AgreementID r of
        None \<Rightarrow> (d, n_FromModel L (r\<lparr>c_Agreement := None\<rparr>) False)
      | Some i \<Rightarrow>
          (case exec P (\<lambda>d. (d, case find_agreement d i of None \<Rightarrow> ERR no_rows | Some a \<Rightarrow> OK a)) d of
             (d1, OK a) \<Rightarrow> (d1, n_FromModel L (r\<lparr>c_Agreement := Some a\<rparr>) False)
           | (d1, ERR e) \<Rightarrow> (d1, ERR e)
           | (d1, PANIC p) \<Rightarrow> (d1, PANIC p)))"

definition getContractLocked :: "'a lib_scheme \<Rightarrow> backend \<Rightarrow> negotiationParamBuilder \<Rightarrow> db
    \<Rightarrow> db \<times> negotiation outcome" where
  "getContractLocked L P params d =
     (case exec P (\<lambda>d. (d, OK (length (filter (contract_where L params None) (contracts d))))) d of
        (d1, OK count) \<Rightarrow>
          if count \<noteq> 1 then (d1, ERR (Errorf ''found non-1 amount of instances'' []))
          else lock_loop P (lock_contracts L params) (finish_contract L P) (lockTimeout P) d1
      | (d1, ERR e) \<Rightarrow> (d1, ERR e)
      | (d1, PANIC p) \<Rightarrow> (d1, PANIC p))"

definition GetContract :: "'a lib_scheme \<Rightarrow> backend \<Rightarrow> negotiation_option list \<Rightarrow> db
    \<Rightarrow> db \<times> negotiation outcome" where
  "GetContract L P opts d =
     (let params = newNegotiationParamBuilder opts
      in if q_role params = Some RoleInvalid then (d, PANIC ''unexpected constants.DataspaceRole'')
         else if q_RW params then getContractLocked L P params d
         else exec P (\<lambda>d. (d, obind (first_row (filter (contract_where L params None) (contracts d)))
                (\<lambda>r. n_FromModel L (join_agreement d r) True))) d)"

definition GetContracts :: "'a lib_scheme \<Rightarrow> backend \<Rightarrow> negotiation_option list \<Rightarrow> db
    \<Rightarrow> db \<times> negotiation list outcome" where
  "GetContracts L P opts d =
     (let params = newNegotiationParamBuilder opts
      in if q_RW params then (d, ERR (Errorf ''can't get multiple records in read-write mode'' []))
         else exec P (\<lambda>d. (d, omap (\<lambda>r. n_FromModel L (join_agreement d r) True)
                (filter (contract_where L params None) (contracts d)))) d)"

definition ReleaseContract :: "'a lib_scheme \<Rightarrow> backend \<Rightarrow> negotiation \<Rightarrow> db \<Rightarrow> db \<times> unit outcome" where
  "ReleaseContract L P cn d =
     (case n_ToModel L cn of
        ERR e \<Rightarrow> (d, ERR e) | PANIC p \<Rightarrow> (d, PANIC p)
      | OK m \<Rightarrow> exec P (\<lambda>d. (d\<lparr>contracts := update_where (\<lambda>r. c_ID r = c_ID m)
                                 (\<lambda>r. r\<lparr>c_Locked := False\<rparr>) (contracts d)\<rparr>, OK ())) d)"

text \<open>Another row with the same value in a unique column, nulls apart.\<close>

definition contract_conflict :: "contract_row \<Rightarrow> contract_row \<Rightarrow> bool" where
  "contract_conflict m r \<longleftrightarrow>
     c_ProviderPID m \<noteq> None \<and> c_ProviderPID r = c_ProviderPID m
     \<or> c_ConsumerPID m \<noteq> None \<and> c_ConsumerPID r = c_ConsumerPID m
     \<or> c_AgreementID m \<noteq> None \<and> c_AgreementID r = c_AgreementID m"

text \<open>The columns the upsert writes on a conflict of the key: all but the role.\<close>

definition contract_excluded :: "contract_row \<Rightarrow> contract_row \<Rightarrow> contract_row" where
  "contract_excluded m r = m\<lparr>c_ID := c_ID r, c_Role := c_Role r, c_Agreement := None\<rparr>"

definition upsert_contract :: "contract_row \<Rightarrow> db \<Rightarrow> db \<times> unit outcome" where
  "upsert_contract m d =
     (case upsert_rows c_ID (\<lambda>i r. r\<lparr>c_ID := i\<rparr>) contract_conflict contract_excluded m (contracts d, next_contract d) of
        OK (rs, next) \<Rightarrow> (d\<lparr>contracts := rs, next_contract := next\<rparr>, OK ())
      | ERR e \<Rightarrow> (d, ERR e)
      | PANIC p \<Rightarrow> (d, PANIC p))"

definition PutContract :: "'a lib_scheme \<Rightarrow> backend \<Rightarrow> negotiation \<Rightarrow> db \<Rightarrow> db \<times> unit outcome" where
  "PutContract L P cn d =
     (if n_ro cn then (d, PANIC ''trying to save a read only model, this is certainly a bug'')
      else if \<not> n_modified cn then ReleaseContract L P cn d
      else (case n_ToModel L cn of
              ERR e \<Rightarrow> (d, ERR e) | PANIC p \<Rightarrow> (d, PANIC p)
            | OK m \<Rightarrow> exec P (upsert_contract m) d))"

section \<open>Agreements\<close>

definition GetAgreement :: "'a lib_scheme \<Rightarrow> backend \<Rightarrow> uuid option \<Rightarrow> db \<Rightarrow> db \<times> Agreement outcome" where
  "GetAgreement L P i d =
     (case i of
        None \<Rightarrow> (d, ERR (Errorf ''id is compulsory for agreement queries'' []))
      | Some u \<Rightarrow> exec P (\<lambda>d. (d, case find_agreement d (uuid_URN L u) of
                    None \<Rightarrow> ERR no_rows | Some a \<Rightarrow> ToODRLAgreement L a)) d)"

definition PutAgreement :: "'a lib_scheme \<Rightarrow> backend \<Rightarrow> Agreement \<Rightarrow> db \<Rightarrow> db \<times> unit outcome" where
  "PutAgreement L P ag d =
     (case FromODRLAgreement L ag of
        ERR e \<Rightarrow> (d, ERR e) | PANIC p \<Rightarrow> (d, PANIC p)
      | OK a \<Rightarrow> exec P (\<lambda>d. if \<exists>b \<in> set (agreements d). a_ID b = a_ID a
                   then (d, ERR (Errorf ''UNIQUE constraint failed'' []))
                   else (d\<lparr>agreements := agreements d @ [a]\<rparr>, OK ())) d)"

section \<open>Transfer requests\<close>

record transferParamBuilder =
  tq_consumerPID :: "uuid option"
  tq_providerPID :: "uuid option"
  tq_agreementID :: "uuid option"
  tq_callback :: "url option"
  tq_role :: "role option"
  tq_state :: "tstate option"
  tq_direction :: "direction option"
  tq_RW :: bool

datatype request_option =
    T_WithConsumerPID uuid | T_WithProviderPID uuid | T_WithAgreementID uuid | T_WithCallback url
  | T_WithRole role | T_WithState tstate | T_WithRW

fun T_WithRolePID :: "uuid \<Rightarrow> role \<Rightarrow> request_option outcome" where
  "T_WithRolePID pid DataspaceConsumer = OK (T_WithConsumerPID pid)"
| "T_WithRolePID pid DataspaceProvider = OK (T_WithProviderPID pid)"
| "T_WithRolePID pid RoleInvalid = PANIC ''Undefined dataspace role given''"

fun apply_request_option :: "request_option \<Rightarrow> transferParamBuilder \<Rightarrow> transferParamBuilder" where
  "apply_request_option (T_WithConsumerPID pid) b = b\<lparr>tq_consumerPID := Some pid\<rparr>"
| "apply_request_option (T_WithProviderPID pid) b = b\<lparr>tq_providerPID := Some pid\<rparr>"
| "apply_request_option (T_WithAgreementID i) b = b\<lparr>tq_agreementID := Some i\<rparr>"
| "apply_request_option (T_WithCallback u) b = b\<lparr>tq_callback := Some u\<rparr>"
| "apply_request_option (T_WithRole r) b = b\<lparr>tq_role := Some r\<rparr>"
| "apply_request_option (T_WithState s) b = b\<lparr>tq_state := Some s\<rparr>"
| "apply_request_option T_WithRW b = b\<lparr>tq_RW := True\<rparr>"

definition newTransferParamBuilder :: "request_option list \<Rightarrow> transferParamBuilder" where
  "newTransferParamBuilder opts = fold apply_request_option opts
     \<lparr>tq_consumerPID = None, tq_providerPID = None, tq_agreementID = None, tq_callback = None,
      tq_role = None, tq_state = None, tq_direction = None, tq_RW = False\<rparr>"

definition transfer_where :: "'a lib_scheme \<Rightarrow> transferParamBuilder \<Rightarrow> bool option \<Rightarrow> transfer_row \<Rightarrow> bool" where
  "transfer_where L cb lk r \<longleftrightarrow>
     when_set lk (\<lambda>b. t_Locked r = b)
     \<and> when_set (tq_consumerPID cb) (\<lambda>u. t_ConsumerPID r = Some (uuid_URN L u))
     \<and> when_set (tq_providerPID cb) (\<lambda>u. t_ProviderPID r = Some (uuid_URN L u))
     \<and> when_set (tq_agreementID cb) (\<lambda>u. t_AgreementID r = uuid_URN L u)
     \<and> when_set (tq_callback cb) (\<lambda>u. t_CallbackURL r = url_String L u)
     \<and> when_set (tq_role cb) (\<lambda>rl. Role_String rl = OK (t_Role r))
     \<and> when_set (tq_state cb) (\<lambda>s. t_State r = tstate_String s)
     \<and> when_set (tq_direction cb) (\<lambda>dr. Direction_String dr = OK (t_Direction r))"

text \<open>The relation is not a pointer: without an agreement the join leaves its zero value.\<close>

definition join_transfer :: "db \<Rightarrow> transfer_row \<Rightarrow> transfer_row" where
  "join_transfer d r = r\<lparr>t_Agreement := (case find_agreement d (t_AgreementID r) of
     None \<Rightarrow> no_agreement_row | Some a \<Rightarrow> a)\<rparr>"

definition lock_transfers :: "'a lib_scheme \<Rightarrow> transferParamBuilder \<Rightarrow> db \<Rightarrow> db \<times> transfer_row outcome" where
  "lock_transfers L params d =
     (let (rs, r) = lock_rows (transfer_where L params (Some False)) (\<lambda>r. r\<lparr>t_Locked := True\<rparr>) (transfers d)
      in (d\<lparr>transfers := rs\<rparr>, r))"

definition finish_transfer :: "'a lib_scheme \<Rightarrow> backend \<Rightarrow> transfer_row \<Rightarrow> db \<Rightarrow> db \<times> transfer_request outcome" where
  "finish_transfer L P r d =
     (case exec P (\<lambda>d. (d, case find_agreement d (t_AgreementID r) of None \<Rightarrow> ERR no_rows | Some a \<Rightarrow> OK a)) d of
        (d1, OK a) \<Rightarrow> (d1, r_FromModel L (r\<lparr>t_Agreement := a\<rparr>) False)
      | (d1, ERR e) \<Rightarrow> (d1, ERR e)
      | (d1, PANIC p) \<Rightarrow> (d1, PANIC p))"

definition getTransferLocked :: "'a lib_scheme \<Rightarrow> backend \<Rightarrow> transferParamBuilder \<Rightarrow> db
    \<Rightarrow> db \<times> transfer_request outcome" where
  "getTransferLocked L P params d =
     (case exec P (\<lambda>d. (d, OK (length (filter (transfer_where L params None) (transfers d))))) d of
        (d1, OK count) \<Rightarrow>
          if count \<noteq> 1 then (d1, ERR (Errorf ''found non-1 amount of instances'' []))
          else lock_loop P (lock_transfers L params) (finish_transfer L P) (lockTimeout P) d1
      | (d1, ERR e) \<Rightarrow> (d1, ERR e)
      | (d1, PANIC p) \<Rightarrow> (d1, PANIC p))"

definition GetTransfer :: "'a lib_scheme \<Rightarrow> backend \<Rightarrow> request_option list \<Rightarrow> db
    \<Rightarrow> db \<times> transfer_request outcome" where
  "GetTransfer L P opts d =
     (let params = newTransferParamBuilder opts
      in if tq_role params = Some RoleInvalid then (d, PANIC ''unexpected constants.DataspaceRole'')
         else if tq_RW params then getTransferLocked L P params d
         else exec P (\<lambda>d. (d, obind (first_row (filter (transfer_where L params None) (transfers d)))
                (\<lambda>r. r_FromModel L (join_transfer d r) True))) d)"

definition GetTransfers :: "'a lib_scheme \<Rightarrow> backend \<Rightarrow> request_option list \<Rightarrow> db
    \<Rightarrow> db \<times> transfer_request list outcome" where
  "GetTransfers L P opts d =
     (let params = newTransferParamBuilder opts
      in if tq_RW params then (d, ERR (Errorf ''can't get multiple records in read-write mode'' []))
         else exec P (\<lambda>d. (d, omap (\<lambda>r. r_FromModel L (join_transfer d r) True)
                (filter (transfer_where L params None) (transfers d)))) d)"

definition ReleaseTransfer :: "'a lib_scheme \<Rightarrow> backend \<Rightarrow> transfer_request \<Rightarrow> db \<Rightarrow> db \<times> unit outcome" where
  "ReleaseTransfer L P tr d =
     (case r_ToModel L tr of
        ERR e \<Rightarrow> (d, ERR e) | PANIC p \<Rightarrow> (d, PANIC p)
      | OK m \<Rightarrow> exec P (\<lambda>d. (d\<lparr>transfers := update_where (\<lambda>r. t_ID r = t_ID m)
                                 (\<lambda>r. r\<lparr>t_Locked := False\<rparr>) (transfers d)\<rparr>, OK ())) d)"

definition transfer_conflict :: "transfer_row \<Rightarrow> transfer_row \<Rightarrow> bool" where
  "transfer_conflict m r \<longleftrightarrow>
     t_ProviderPID m \<noteq> None \<and> t_ProviderPID r = t_ProviderPID m
     \<or> t_ConsumerPID m \<noteq> None \<and> t_ConsumerPID r = t_ConsumerPID m"

definition transfer_excluded :: "transfer_row \<Rightarrow> transfer_row \<Rightarrow> transfer_row" where
  "transfer_excluded m r = m\<lparr>t_ID := t_ID r, t_Role := t_Role r, t_Agreement := no_agreement_row\<rparr>"

definition upsert_transfer :: "transfer_row \<Rightarrow> db \<Rightarrow> db \<times> unit outcome" where
  "upsert_transfer m d =
     (case upsert_rows t_ID (\<lambda>i r. r\<lparr>t_ID := i\<rparr>) transfer_conflict transfer_excluded m (transfers d, next_transfer d) of
        OK (rs, next) \<Rightarrow> (d\<lparr>transfers := rs, next_transfer := next\<rparr>, OK ())
      | ERR e \<Rightarrow> (d, ERR e)
      | PANIC p \<Rightarrow> (d, PANIC p))"

definition PutTransfer :: "'a lib_scheme \<Rightarrow> backend \<Rightarrow> transfer_request \<Rightarrow> db \<Rightarrow> db \<times> unit outcome" where
  "PutTransfer L P tr d =
     (if r_ro tr then (d, PANIC ''trying to save a read only model, this is certainly a bug'')
      else if \<not> r_modified tr then ReleaseTransfer L P tr d
      else (case r_ToModel L tr of
              ERR e \<Rightarrow> (d, ERR e) | PANIC p \<Rightarrow> (d, PANIC p)
            | OK m \<Rightarrow> exec P (upsert_transfer m) d))"

end
