(* ===== verification/Store_Facts.thy ===== *)
theory Store_Facts
  imports Store
begin

text \<open>
  What the storage backend promises. The facts on rows that both tables share are proved once, in
  the locale \<open>row_table\<close>, and interpreted for contract negotiations and for transfers; what a
  caller of the savers relies on is the locale \<open>locked_store\<close>, interpreted for the same two.
\<close>

section \<open>Rows with a key, a lock and unique columns\<close>

definition wf_rows :: "('r \<Rightarrow> int) \<Rightarrow> ('r \<Rightarrow> 'r \<Rightarrow> bool) \<Rightarrow> 'r list \<Rightarrow> int \<Rightarrow> bool" where
  "wf_rows rid conflict rs next \<longleftrightarrow>
     distinct (map rid rs) \<and> 0 < next \<and> (\<forall>r \<in> set rs. 0 < rid r \<and> rid r < next)
     \<and> (\<forall>r \<in> set rs. \<forall>r' \<in> set rs. rid r \<noteq> rid r' \<longrightarrow> \<not> conflict r r')"

definition locked_of :: "('r \<Rightarrow> int) \<Rightarrow> ('r \<Rightarrow> bool) \<Rightarrow> 'r list \<Rightarrow> int set" where
  "locked_of rid locked rs = rid ` {r \<in> set rs. locked r}"

locale row_table =
  fixes rid :: "'r \<Rightarrow> int"
    and set_id :: "int \<Rightarrow> 'r \<Rightarrow> 'r"
    and locked :: "'r \<Rightarrow> bool"
    and set_locked :: "bool \<Rightarrow> 'r \<Rightarrow> 'r"
    and conflict :: "'r \<Rightarrow> 'r \<Rightarrow> bool"
    and excluded :: "'r \<Rightarrow> 'r \<Rightarrow> 'r"
  assumes rid_simps: "rid (set_locked b r) = rid r" "rid (excluded m r) = rid r" "rid (set_id i r) = i"
    and locked_simps: "locked (set_locked b r) = b" "locked (excluded m r) = locked m"
      "locked (set_id i r) = locked r"
    and conflict_simps: "conflict (set_locked b r) r' = conflict r r'" "conflict (excluded m r) r' = conflict m r'"
      "conflict (set_id i r) r' = conflict r r'"
    and conflict_sym: "conflict r r' = conflict r' r"
    and set_simps: "set_locked b (set_locked b' r) = set_locked b r" "set_locked (locked r) r = r"
begin

lemma conflict_simps2:
  "conflict r' (set_locked b r) = conflict r' r" "conflict r' (excluded m r) = conflict r' m"
  "conflict r' (set_id i r) = conflict r' r"
  using conflict_simps conflict_sym by metis+

lemmas row_simps = rid_simps locked_simps conflict_simps conflict_simps2

lemma wf_set_locked:
  assumes "wf_rows rid conflict rs next"
  shows "wf_rows rid conflict (update_where p (set_locked b) rs) next"
proof -
  have "map rid (update_where p (set_locked b) rs) = map rid rs"
    by (rule map_update_where) (simp add: row_simps)
  with assms show ?thesis
    unfolding wf_rows_def by (auto simp: set_update_where row_simps)
qed

lemma wf_upsert:
  assumes wf: "wf_rows rid conflict rs next" and up: "upsert_rows rid set_id conflict excluded m (rs, next) = OK (rs', next')"
    and nonneg: "0 \<le> rid m"
  shows "wf_rows rid conflict rs' next'"
proof (cases "rid m \<noteq> 0 \<and> (\<exists>r \<in> set rs. rid r = rid m)")
  case True
  have free: "\<forall>r \<in> set rs. rid r \<noteq> rid m \<longrightarrow> \<not> conflict m r"
    using up by (auto simp: upsert_rows_def split: if_splits)
  have rs': "rs' = update_where (\<lambda>r. rid r = rid m) (excluded m) rs" "next' = next"
    using up True free by (auto simp: upsert_rows_def split: if_splits)
  have "map rid rs' = map rid rs" unfolding rs' by (rule map_update_where) (simp add: row_simps)
  with wf free show ?thesis
    unfolding wf_rows_def rs' by (auto simp: set_update_where row_simps conflict_sym)
next
  case False
  have free: "\<forall>r \<in> set rs. rid r \<noteq> rid m \<longrightarrow> \<not> conflict m r"
    using up by (auto simp: upsert_rows_def split: if_splits)
  let ?i = "if rid m = 0 then next else rid m"
  have rs': "rs' = rs @ [set_id ?i m]" "next' = max next (?i + 1)"
    using up False free by (auto simp: upsert_rows_def Let_def split: if_splits)
  have new: "\<forall>r \<in> set rs. rid r \<noteq> ?i \<and> \<not> conflict m r" "0 < ?i"
    using False free wf nonneg by (auto simp: wf_rows_def)
  show ?thesis
    using wf new unfolding wf_rows_def rs'
    by (auto simp: row_simps conflict_sym)
qed

lemma lock_rows_one:
  assumes "filter hit rs = [r]" and "distinct (map rid rs)"
  shows "lock_rows hit (set_locked True) rs =
    (update_where (\<lambda>x. rid x = rid r) (set_locked True) rs, OK (set_locked True r))"
proof -
  have r: "r \<in> set rs" using assms(1) filter_eq_singleton_mem by fastforce
  have "hit x \<longleftrightarrow> rid x = rid r" if "x \<in> set rs" for x
  proof
    assume "hit x"
    then have "x \<in> set (filter hit rs)" using that by simp
    then show "rid x = rid r" by (simp add: assms(1))
  next
    assume "rid x = rid r"
    then have "x = r" using distinct_map_eq[OF assms(2) that r] by simp
    then show "hit x" using assms(1) filter_eq_singleton_mem by fastforce
  qed
  then have "update_where hit (set_locked True) rs = update_where (\<lambda>x. rid x = rid r) (set_locked True) rs"
    by (simp add: update_where_def)
  then show ?thesis by (simp add: lock_rows_def first_row_def assms(1))
qed

text \<open>Locking a free row and unlocking it again is as if nothing had happened.\<close>

lemma lock_then_unlock:
  assumes "distinct (map rid rs)" and "r \<in> set rs" and "\<not> locked r"
  shows "update_where (\<lambda>x. rid x = rid r) (set_locked False)
    (update_where (\<lambda>x. rid x = rid r) (set_locked True) rs) = rs"
proof -
  have "set_locked False x = x" if "x \<in> set rs" "rid x = rid r" for x
    using distinct_map_eq[OF assms(1) that(1) assms(2) that(2)] assms(3) set_simps(2)[of r] by simp
  then show ?thesis by (subst update_where_twice) (simp_all add: rid_simps set_simps update_where_id)
qed

lemma filter_after_lock:
  assumes "filter hit rs = [r]" and "\<And>b x. hit (set_locked b x) = hit x"
  shows "filter hit (update_where (\<lambda>x. rid x = rid r) (set_locked True) rs) = [set_locked True r]"
proof -
  have "filter hit (update_where p (set_locked True) rs) = update_where p (set_locked True) (filter hit rs)" for p
    using assms(2) by (induction rs) auto
  then show ?thesis by (simp add: assms(1))
qed

lemma locked_of_iff: "i \<in> locked_of rid locked rs \<longleftrightarrow> (\<exists>r \<in> set rs. rid r = i \<and> locked r)"
  by (auto simp: locked_of_def)

lemma locked_of_update:
  "(\<And>x. rid (f x) = rid x) \<Longrightarrow> i \<in> locked_of rid locked (update_where p f rs) \<longleftrightarrow>
     (\<exists>x \<in> set rs. rid x = i \<and> (if p x then locked (f x) else locked x))"
  unfolding locked_of_iff by (induction rs) auto

lemma locked_of_lock:
  "r \<in> set rs \<Longrightarrow> locked_of rid locked (update_where (\<lambda>x. rid x = rid r) (set_locked True) rs)
     = insert (rid r) (locked_of rid locked rs)"
  by (rule set_eqI, subst locked_of_update) (auto simp: row_simps locked_of_def, metis)

lemma locked_of_release:
  "locked_of rid locked (update_where (\<lambda>x. rid x = i) (set_locked False) rs) = locked_of rid locked rs - {i}"
  by (rule set_eqI, subst locked_of_update) (auto simp: row_simps locked_of_def)

lemma locked_of_upsert:
  assumes "upsert_rows rid set_id conflict excluded m (rs, next) = OK (rs', next')" and "\<not> locked m"
    and "wf_rows rid conflict rs next"
  shows "locked_of rid locked rs' = locked_of rid locked rs - {rid m}"
proof (cases "rid m \<noteq> 0 \<and> (\<exists>r \<in> set rs. rid r = rid m)")
  case True
  then have "rs' = update_where (\<lambda>r. rid r = rid m) (excluded m) rs"
    using assms(1) by (auto simp: upsert_rows_def split: if_splits)
  moreover have "locked_of rid locked (update_where (\<lambda>r. rid r = rid m) (excluded m) rs)
      = locked_of rid locked rs - {rid m}"
    using assms(2) by (intro set_eqI, subst locked_of_update) (auto simp: row_simps locked_of_def)
  ultimately show ?thesis by simp
next
  case False
  then have "\<exists>i. rs' = rs @ [set_id i m]"
    using assms(1) by (auto simp: upsert_rows_def Let_def split: if_splits)
  moreover have "rid m \<notin> rid ` set rs"
    using False assms(3) by (auto simp: wf_rows_def image_iff)
  ultimately show ?thesis using assms(2) by (auto simp: locked_of_def row_simps image_iff)
qed

end

interpretation crows: row_table c_ID "\<lambda>i r. r\<lparr>c_ID := i\<rparr>" c_Locked "\<lambda>b r. r\<lparr>c_Locked := b\<rparr>"
  contract_conflict contract_excluded
  by unfold_locales (auto simp: contract_conflict_def contract_excluded_def)

interpretation trows: row_table t_ID "\<lambda>i r. r\<lparr>t_ID := i\<rparr>" t_Locked "\<lambda>b r. r\<lparr>t_Locked := b\<rparr>"
  transfer_conflict transfer_excluded
  by unfold_locales (auto simp: transfer_conflict_def transfer_excluded_def)

section \<open>Well-formed databases\<close>

definition wf_db :: "db \<Rightarrow> bool" where
  "wf_db d \<longleftrightarrow> wf_rows c_ID contract_conflict (contracts d) (next_contract d)
     \<and> wf_rows t_ID transfer_conflict (transfers d) (next_transfer d)
     \<and> distinct (map a_ID (agreements d))"

lemma wf_empty_db: "wf_db empty_db"
  by (simp add: wf_db_def empty_db_def wf_rows_def)

lemma wf_db_clock [simp]: "wf_db (d\<lparr>clock := k\<rparr>) = wf_db d"
  by (simp add: wf_db_def)

text \<open>Other connections keep the database well-formed.\<close>

definition sane :: "backend \<Rightarrow> bool" where
  "sane P \<longleftrightarrow> (\<forall>n d. wf_db d \<longrightarrow> wf_db (others P n d))"

text \<open>A backend nobody else is connected to.\<close>

definition quiet :: "backend \<Rightarrow> backend" where
  "quiet P = P\<lparr>others := (\<lambda>_ d. d)\<rparr>"

lemma quiet_simps [simp]:
  "others (quiet P) n d = d" "fault (quiet P) = fault P" "lockTimeout (quiet P) = lockTimeout P" "sane (quiet P)"
  by (simp_all add: quiet_def sane_def)

lemma exec_inv:
  "I d \<Longrightarrow> (\<And>k. I (d\<lparr>clock := k\<rparr>)) \<Longrightarrow> (\<And>d. I d \<Longrightarrow> I (fst (stmt d))) \<Longrightarrow> I (fst (exec P stmt d))"
  by (simp add: exec_def Let_def)

lemma exec_cases:
  "exec P stmt d = (d', r) \<Longrightarrow>
     (fault P (clock d) \<and> d' = d\<lparr>clock := Suc (clock d)\<rparr> \<and> r = ERR driver_error)
     \<or> (\<not> fault P (clock d) \<and> stmt (d\<lparr>clock := Suc (clock d)\<rparr>) = (d', r))"
  by (auto simp: exec_def Let_def split: if_splits)

lemma exec_OK: "exec P stmt d = (d', OK x) \<longleftrightarrow>
    \<not> fault P (clock d) \<and> stmt (d\<lparr>clock := Suc (clock d)\<rparr>) = (d', OK x)"
  by (simp add: exec_def Let_def)

lemma lock_loop_inv:
  assumes "\<And>d. I d \<Longrightarrow> I (fst (upd d))" and "\<And>r d. I d \<Longrightarrow> I (fst (fin r d))"
    and "\<And>n d. I d \<Longrightarrow> I (others P n d)" and clk: "\<And>d k. I d \<Longrightarrow> I (d\<lparr>clock := k\<rparr>)"
  shows "I d \<Longrightarrow> I (fst (lock_loop P upd fin n d))"
proof (induction n arbitrary: d)
  case (Suc n)
  obtain d1 r where e: "exec P upd d = (d1, r)" by force
  have "I d1" using exec_inv[of I d upd P] Suc.prems assms(1) clk e by simp
  then show ?case using Suc.IH assms(2,3) by (cases r) (auto simp: e)
qed simp

lemma wf_lock_contracts: "wf_db d \<Longrightarrow> wf_db (fst (lock_contracts L q d))"
  using crows.wf_set_locked[of "contracts d" "next_contract d" _ True]
  by (simp add: lock_contracts_def lock_rows_def wf_db_def)

lemma wf_lock_transfers: "wf_db d \<Longrightarrow> wf_db (fst (lock_transfers L q d))"
  using trows.wf_set_locked[of "transfers d" "next_transfer d" _ True]
  by (simp add: lock_transfers_def lock_rows_def wf_db_def)

lemma finish_contract_db: "\<exists>k. fst (finish_contract L P r d) = d\<lparr>clock := k\<rparr>"
proof (cases "c_AgreementID r")
  case None
  then show ?thesis by (auto simp: finish_contract_def intro: exI[of _ "clock d"])
next
  case (Some i)
  show ?thesis
    by (auto simp: finish_contract_def Some exec_def Let_def split: outcome.split)
qed

lemma finish_transfer_db: "\<exists>k. fst (finish_transfer L P r d) = d\<lparr>clock := k\<rparr>"
  by (auto simp: finish_transfer_def exec_def Let_def split: outcome.split)

lemma wf_finish [simp]:
  "wf_db (fst (finish_contract L P r d)) = wf_db d" "wf_db (fst (finish_transfer L P t d)) = wf_db d"
  using finish_contract_db[of L P r d] finish_transfer_db[of L P t d] by (metis wf_db_clock)+

lemma wf_getContractLocked: "sane P \<Longrightarrow> wf_db d \<Longrightarrow> wf_db (fst (getContractLocked L P q d))"
proof -
  assume "sane P" "wf_db d"
  have "wf_db d1 \<Longrightarrow> wf_db (fst (lock_loop P (lock_contracts L q) (finish_contract L P) n d1))" for d1 n
    using \<open>sane P\<close> by (rule_tac lock_loop_inv) (auto simp: wf_lock_contracts sane_def)
  then show ?thesis
    using \<open>wf_db d\<close> by (auto simp: getContractLocked_def exec_def Let_def split: outcome.splits)
qed

lemma wf_getTransferLocked: "sane P \<Longrightarrow> wf_db d \<Longrightarrow> wf_db (fst (getTransferLocked L P q d))"
proof -
  assume "sane P" "wf_db d"
  have "wf_db d1 \<Longrightarrow> wf_db (fst (lock_loop P (lock_transfers L q) (finish_transfer L P) n d1))" for d1 n
    using \<open>sane P\<close> by (rule_tac lock_loop_inv) (auto simp: wf_lock_transfers sane_def)
  then show ?thesis
    using \<open>wf_db d\<close> by (auto simp: getTransferLocked_def exec_def Let_def split: outcome.splits)
qed

lemma wf_GetContract: "sane P \<Longrightarrow> wf_db d \<Longrightarrow> wf_db (fst (GetContract L P opts d))"
  using wf_getContractLocked[of P d L] by (auto simp: GetContract_def exec_def Let_def)

lemma wf_GetTransfer: "sane P \<Longrightarrow> wf_db d \<Longrightarrow> wf_db (fst (GetTransfer L P opts d))"
  using wf_getTransferLocked[of P d L] by (auto simp: GetTransfer_def exec_def Let_def)

lemma wf_ReleaseContract: "wf_db d \<Longrightarrow> wf_db (fst (ReleaseContract L P cn d))"
  using crows.wf_set_locked[of "contracts d" "next_contract d" _ False]
  by (auto simp: ReleaseContract_def exec_def Let_def wf_db_def split: outcome.splits)

lemma wf_ReleaseTransfer: "wf_db d \<Longrightarrow> wf_db (fst (ReleaseTransfer L P tr d))"
  using trows.wf_set_locked[of "transfers d" "next_transfer d" _ False]
  by (auto simp: ReleaseTransfer_def exec_def Let_def wf_db_def split: outcome.splits)

lemma wf_upsert_contract: "wf_db d \<Longrightarrow> 0 \<le> c_ID m \<Longrightarrow> wf_db (fst (upsert_contract m d))"
  using crows.wf_upsert[of "contracts d" "next_contract d" m]
  by (auto simp: upsert_contract_def wf_db_def split: outcome.splits)

lemma wf_upsert_transfer: "wf_db d \<Longrightarrow> 0 \<le> t_ID m \<Longrightarrow> wf_db (fst (upsert_transfer m d))"
  using trows.wf_upsert[of "transfers d" "next_transfer d" m]
  by (auto simp: upsert_transfer_def wf_db_def split: outcome.splits)

lemma wf_PutContract: "wf_db d \<Longrightarrow> 0 \<le> n_internal_id cn \<Longrightarrow> wf_db (fst (PutContract L P cn d))"
  by (auto simp: PutContract_def exec_def Let_def wf_ReleaseContract wf_upsert_contract
      n_ToModel_fields split: outcome.splits)

lemma wf_PutTransfer: "wf_db d \<Longrightarrow> 0 \<le> r_internal_id tr \<Longrightarrow> wf_db (fst (PutTransfer L P tr d))"
  by (auto simp: PutTransfer_def exec_def Let_def wf_ReleaseTransfer wf_upsert_transfer
      r_ToModel_fields split: outcome.splits)

lemma wf_PutAgreement: "wf_db d \<Longrightarrow> wf_db (fst (PutAgreement L P ag d))"
  by (auto simp: PutAgreement_def exec_def Let_def wf_db_def split: outcome.splits)

section \<open>Taking the lock\<close>

lemma contract_where_locked:
  "contract_where L q (Some b) r \<longleftrightarrow> c_Locked r = b \<and> contract_where L q None r"
  by (auto simp: contract_where_def when_set_def)

lemma transfer_where_locked:
  "transfer_where L q (Some b) r \<longleftrightarrow> t_Locked r = b \<and> transfer_where L q None r"
  by (auto simp: transfer_where_def when_set_def)

lemma filter_conj_one:
  assumes "filter p xs = [r]"
  shows "filter (\<lambda>x. q x \<and> p x) xs = (if q r then [r] else [])"
proof -
  have "filter (\<lambda>x. q x \<and> p x) xs = filter q (filter p xs)" by (simp add: conj_commute)
  then show ?thesis by (simp add: assms)
qed

lemma filter_contracts_unlocked:
  "filter (contract_where L q None) cs = [r] \<Longrightarrow>
     filter (contract_where L q (Some False)) cs = (if c_Locked r then [] else [r])"
  using filter_conj_one[of "contract_where L q None" cs r "\<lambda>r. \<not> c_Locked r"]
  by (simp add: contract_where_locked cong: filter_cong)

lemma filter_transfers_unlocked:
  "filter (transfer_where L q None) cs = [r] \<Longrightarrow>
     filter (transfer_where L q (Some False)) cs = (if t_Locked r then [] else [r])"
  using filter_conj_one[of "transfer_where L q None" cs r "\<lambda>r. \<not> t_Locked r"]
  by (simp add: transfer_where_locked cong: filter_cong)

text \<open>The database with one row locked.\<close>

definition lock_contract_row :: "contract_row \<Rightarrow> nat \<Rightarrow> db \<Rightarrow> db" where
  "lock_contract_row r k d =
     d\<lparr>contracts := update_where (\<lambda>x. c_ID x = c_ID r) (\<lambda>x. x\<lparr>c_Locked := True\<rparr>) (contracts d), clock := k\<rparr>"

definition lock_transfer_row :: "transfer_row \<Rightarrow> nat \<Rightarrow> db \<Rightarrow> db" where
  "lock_transfer_row r k d =
     d\<lparr>transfers := update_where (\<lambda>x. t_ID x = t_ID r) (\<lambda>x. x\<lparr>t_Locked := True\<rparr>) (transfers d), clock := k\<rparr>"

lemma lock_contracts_one:
  assumes "filter (contract_where L q None) (contracts d) = [r]" and "wf_db d"
  shows "lock_contracts L q d =
    (if c_Locked r then (d, ERR no_rows)
     else (lock_contract_row r (clock d) d, OK (r\<lparr>c_Locked := True\<rparr>)))"
proof (cases "c_Locked r")
  case True
  then have "filter (contract_where L q (Some False)) (contracts d) = []"
    by (simp add: filter_contracts_unlocked[OF assms(1)])
  then show ?thesis
    using True by (simp add: lock_contracts_def lock_rows_def first_row_def filter_empty_conv update_where_none)
next
  case False
  have "distinct (map c_ID (contracts d))" using assms(2) by (simp add: wf_db_def wf_rows_def)
  then show ?thesis
    using False crows.lock_rows_one[of "contract_where L q (Some False)" "contracts d" r]
    by (simp add: lock_contracts_def lock_contract_row_def filter_contracts_unlocked[OF assms(1)])
qed

lemma lock_transfers_one:
  assumes "filter (transfer_where L q None) (transfers d) = [r]" and "wf_db d"
  shows "lock_transfers L q d =
    (if t_Locked r then (d, ERR no_rows)
     else (lock_transfer_row r (clock d) d, OK (r\<lparr>t_Locked := True\<rparr>)))"
proof (cases "t_Locked r")
  case True
  then have "filter (transfer_where L q (Some False)) (transfers d) = []"
    by (simp add: filter_transfers_unlocked[OF assms(1)])
  then show ?thesis
    using True by (simp add: lock_transfers_def lock_rows_def first_row_def filter_empty_conv update_where_none)
next
  case False
  have "distinct (map t_ID (transfers d))" using assms(2) by (simp add: wf_db_def wf_rows_def)
  then show ?thesis
    using False trows.lock_rows_one[of "transfer_where L q (Some False)" "transfers d" r]
    by (simp add: lock_transfers_def lock_transfer_row_def filter_transfers_unlocked[OF assms(1)])
qed

lemma errors_Is_simps [simp]: "\<not> errors_Is driver_error ErrNoRows" "errors_Is no_rows ErrNoRows"
  by (simp_all add: errors_Is_def driver_error_def no_rows_def)

lemma lock_row_clock [simp]:
  "lock_contract_row r k (d\<lparr>clock := j\<rparr>) = lock_contract_row r k d"
  "lock_transfer_row t k (d\<lparr>clock := j\<rparr>) = lock_transfer_row t k d"
  by (simp_all add: lock_contract_row_def lock_transfer_row_def)

lemma lock_loop_contract_OK:
  "lock_loop (quiet P) (lock_contracts L q) fin n d = (d', OK x) \<Longrightarrow>
   filter (contract_where L q None) (contracts d) = [r] \<Longrightarrow> wf_db d \<Longrightarrow>
   \<not> c_Locked r \<and> (\<exists>k. fin (r\<lparr>c_Locked := True\<rparr>) (lock_contract_row r k d) = (d', OK x))"
proof (induction n arbitrary: d)
  case (Suc n)
  let ?d = "d\<lparr>clock := Suc (clock d)\<rparr>"
  have one: "lock_contracts L q ?d = (if c_Locked r then (?d, ERR no_rows)
      else (lock_contract_row r (clock ?d) ?d, OK (r\<lparr>c_Locked := True\<rparr>)))"
    using Suc.prems by (intro lock_contracts_one) simp_all
  show ?case
  proof (cases "fault P (clock d)")
    case True
    then show ?thesis using Suc.prems(1) by (simp add: exec_def Let_def)
  next
    case False
    then show ?thesis using Suc.prems one Suc.IH[of ?d]
      by (cases "c_Locked r") (auto simp: exec_def Let_def)
  qed
qed simp

lemma lock_loop_transfer_OK:
  "lock_loop (quiet P) (lock_transfers L q) fin n d = (d', OK x) \<Longrightarrow>
   filter (transfer_where L q None) (transfers d) = [r] \<Longrightarrow> wf_db d \<Longrightarrow>
   \<not> t_Locked r \<and> (\<exists>k. fin (r\<lparr>t_Locked := True\<rparr>) (lock_transfer_row r k d) = (d', OK x))"
proof (induction n arbitrary: d)
  case (Suc n)
  let ?d = "d\<lparr>clock := Suc (clock d)\<rparr>"
  have one: "lock_transfers L q ?d = (if t_Locked r then (?d, ERR no_rows)
      else (lock_transfer_row r (clock ?d) ?d, OK (r\<lparr>t_Locked := True\<rparr>)))"
    using Suc.prems by (intro lock_transfers_one) simp_all
  show ?case
  proof (cases "fault P (clock d)")
    case True
    then show ?thesis using Suc.prems(1) by (simp add: exec_def Let_def)
  next
    case False
    then show ?thesis using Suc.prems one Suc.IH[of ?d]
      by (cases "t_Locked r") (auto simp: exec_def Let_def)
  qed
qed simp

lemma find_agreement_frame [simp]:
  "find_agreement (lock_contract_row r k d) i = find_agreement d i"
  "find_agreement (lock_transfer_row t k d) i = find_agreement d i"
  "find_agreement (d\<lparr>clock := k\<rparr>) i = find_agreement d i"
  by (simp_all add: find_agreement_def lock_contract_row_def lock_transfer_row_def)

lemma join_agreement_frame [simp]:
  "join_agreement (lock_contract_row r k d) x = join_agreement d x"
  "join_agreement (d\<lparr>clock := k\<rparr>) x = join_agreement d x"
proof -
  have "find_agreement (lock_contract_row r k d) = find_agreement d"
    "find_agreement (d\<lparr>clock := k\<rparr>) = find_agreement d" by (auto intro: ext)
  then show "join_agreement (lock_contract_row r k d) x = join_agreement d x"
    "join_agreement (d\<lparr>clock := k\<rparr>) x = join_agreement d x" by (simp_all add: join_agreement_def)
qed

lemma lock_row_again [simp]:
  "(lock_contract_row r k d)\<lparr>clock := j\<rparr> = lock_contract_row r j d"
  "(lock_transfer_row t k d)\<lparr>clock := j\<rparr> = lock_transfer_row t j d"
  by (simp_all add: lock_contract_row_def lock_transfer_row_def)

lemma finish_contract_OK:
  "finish_contract L P r d = (d', OK n) \<Longrightarrow> (\<exists>k. d' = d\<lparr>clock := k\<rparr>) \<and>
     n_FromModel L (join_agreement d r) False = OK n \<and>
     (\<forall>i. c_AgreementID r = Some i \<longrightarrow> (\<exists>a. find_agreement d i = Some a))"
  by (auto simp: finish_contract_def join_agreement_def exec_OK exec_cases outcome_simps
      split: option.splits outcome.splits prod.splits dest!: exec_cases intro: exI[of _ "clock d"])

lemma finish_transfer_OK:
  "finish_transfer L P r d = (d', OK n) \<Longrightarrow> (\<exists>k. d' = d\<lparr>clock := k\<rparr>) \<and>
     (\<exists>a. find_agreement d (t_AgreementID r) = Some a \<and> r_FromModel L (r\<lparr>t_Agreement := a\<rparr>) False = OK n)"
  by (auto simp: finish_transfer_def split: option.splits outcome.splits prod.splits dest!: exec_cases)

lemma getContractLocked_OK:
  assumes "getContractLocked L (quiet P) q d = (d', OK n)" and "wf_db d"
  obtains r k where "filter (contract_where L q None) (contracts d) = [r]" "\<not> c_Locked r"
    "d' = lock_contract_row r k d" "n_FromModel L (join_agreement d (r\<lparr>c_Locked := True\<rparr>)) False = OK n"
proof -
  let ?d = "d\<lparr>clock := Suc (clock d)\<rparr>"
  have one: "length (filter (contract_where L q None) (contracts d)) = 1"
    and loop: "lock_loop (quiet P) (lock_contracts L q) (finish_contract L (quiet P)) (lockTimeout P) ?d = (d', OK n)"
    using assms(1) by (auto simp: getContractLocked_def exec_def Let_def split: if_splits)
  then obtain r where r: "filter (contract_where L q None) (contracts ?d) = [r]"
    by (auto simp: length_Suc_conv)
  obtain k where "\<not> c_Locked r"
    and fin: "finish_contract L (quiet P) (r\<lparr>c_Locked := True\<rparr>) (lock_contract_row r k ?d) = (d', OK n)"
    using lock_loop_contract_OK[OF loop r] assms(2) by auto
  then show thesis
    using that[of r] r finish_contract_OK[OF fin] by auto
qed

lemma getTransferLocked_OK:
  assumes "getTransferLocked L (quiet P) q d = (d', OK n)" and "wf_db d"
  obtains r k a where "filter (transfer_where L q None) (transfers d) = [r]" "\<not> t_Locked r"
    "d' = lock_transfer_row r k d" "find_agreement d (t_AgreementID r) = Some a"
    "r_FromModel L (r\<lparr>t_Locked := True, t_Agreement := a\<rparr>) False = OK n"
proof -
  let ?d = "d\<lparr>clock := Suc (clock d)\<rparr>"
  have one: "length (filter (transfer_where L q None) (transfers d)) = 1"
    and loop: "lock_loop (quiet P) (lock_transfers L q) (finish_transfer L (quiet P)) (lockTimeout P) ?d = (d', OK n)"
    using assms(1) by (auto simp: getTransferLocked_def exec_def Let_def split: if_splits)
  then obtain r where r: "filter (transfer_where L q None) (transfers ?d) = [r]"
    by (auto simp: length_Suc_conv)
  obtain k where "\<not> t_Locked r"
    and fin: "finish_transfer L (quiet P) (r\<lparr>t_Locked := True\<rparr>) (lock_transfer_row r k ?d) = (d', OK n)"
    using lock_loop_transfer_OK[OF loop r] assms(2) by auto
  then show thesis
    using that[of r] r finish_transfer_OK[OF fin] by auto
qed

section \<open>What a caller of the savers relies on\<close>

text \<open>
  \<open>get\<close> is the read-write form, \<open>held\<close> the keys of the locked rows: getting takes a lock
  nobody held, putting and releasing give it back, and failing to put or release keeps it.
\<close>

locale locked_store =
  fixes get :: "'q \<Rightarrow> 'd \<Rightarrow> 'd \<times> 'x outcome"
    and put :: "'x \<Rightarrow> 'd \<Rightarrow> 'd \<times> unit outcome"
    and rel :: "'x \<Rightarrow> 'd \<Rightarrow> 'd \<times> unit outcome"
    and held :: "'d \<Rightarrow> int set"
    and key :: "'x \<Rightarrow> int"
    and wf :: "'d \<Rightarrow> bool"
  assumes get_locks: "wf d \<Longrightarrow> get q d = (d', OK x) \<Longrightarrow>
      key x \<notin> held d \<and> held d' = insert (key x) (held d) \<and> 0 \<le> key x"
    and get_wf: "wf d \<Longrightarrow> wf (fst (get q d))"
    and put_unlocks: "wf d \<Longrightarrow> put x d = (d', OK u) \<Longrightarrow> held d' = held d - {key x}"
    and put_fails: "\<not> is_OK (snd (put x d)) \<Longrightarrow> held (fst (put x d)) = held d"
    and put_wf: "wf d \<Longrightarrow> 0 \<le> key x \<Longrightarrow> wf (fst (put x d))"
    and rel_unlocks: "rel x d = (d', OK u) \<Longrightarrow> held d' = held d - {key x}"
    and rel_fails: "\<not> is_OK (snd (rel x d)) \<Longrightarrow> held (fst (rel x d)) = held d"
    and rel_wf: "wf d \<Longrightarrow> wf (fst (rel x d))"
begin

lemma two_gets:
  assumes "wf d" "get q d = (d1, OK x)" "get q' d1 = (d2, OK y)"
  shows "key x \<noteq> key y"
proof -
  have "wf d1" using get_wf[OF assms(1), of q] assms(2) by simp
  then have "key y \<notin> held d1" using get_locks assms(3) by blast
  then show ?thesis using get_locks[OF assms(1,2)] by auto
qed

lemma get_put:
  assumes "wf d" "get q d = (d1, OK x)" "key x' = key x" "put x' d1 = (d2, OK u)"
  shows "held d2 = held d"
proof -
  have "wf d1" using get_wf[OF assms(1), of q] assms(2) by simp
  then have "held d2 = held d1 - {key x}" using put_unlocks[of d1 x' d2] assms(3,4) by simp
  then show ?thesis using get_locks[OF assms(1,2)] by auto
qed

lemma get_rel:
  assumes "wf d" "get q d = (d1, OK x)" "key x' = key x" "rel x' d1 = (d2, OK u)"
  shows "held d2 = held d"
  using rel_unlocks[OF assms(4)] assms(3) get_locks[OF assms(1,2)] by auto

end

definition held_contracts :: "db \<Rightarrow> int set" where
  "held_contracts d = locked_of c_ID c_Locked (contracts d)"

definition held_transfers :: "db \<Rightarrow> int set" where
  "held_transfers d = locked_of t_ID t_Locked (transfers d)"

lemma held_clock [simp]:
  "held_contracts (d\<lparr>clock := k\<rparr>) = held_contracts d" "held_transfers (d\<lparr>clock := k\<rparr>) = held_transfers d"
  by (simp_all add: held_contracts_def held_transfers_def)

lemma n_FromModel_fields:
  "n_FromModel L r ro = OK n \<Longrightarrow> n_internal_id n = c_ID r \<and> n_ro n = ro \<and> \<not> n_modified n \<and> \<not> n_initial n
     \<and> \<not> n_newAgreement n \<and> n_role n \<noteq> RoleInvalid \<and> parse_pid L (c_ProviderPID r) = OK (n_providerPID n)
     \<and> parse_pid L (c_ConsumerPID r) = OK (n_consumerPID n)
     \<and> contract_ParseState (ArgString (c_State r)) = OK (n_state n) \<and> n_locked n = c_Locked r"
  by (auto simp: n_FromModel_def outcome_simps dest: ParseRole_OK)

lemma r_FromModel_fields:
  "r_FromModel L r ro = OK n \<Longrightarrow> r_internal_id n = t_ID r \<and> r_ro n = ro \<and> \<not> r_modified n
     \<and> r_role n \<noteq> RoleInvalid \<and> r_transferDirection n \<noteq> DirectionInvalid
     \<and> transfer_ParseState (ArgString (t_State r)) = OK (r_state n)"
  by (auto simp: r_FromModel_def outcome_simps ParseDirection_def dest: ParseRole_OK split: if_splits)

lemma q_RW_fold: "q_RW (fold apply_option opts b) \<longleftrightarrow> q_RW b \<or> WithRW \<in> set opts"
proof (induction opts arbitrary: b)
  case (Cons a opts)
  then show ?case by (cases a) auto
qed simp

lemma tq_RW_fold: "tq_RW (fold apply_request_option opts b) \<longleftrightarrow> tq_RW b \<or> T_WithRW \<in> set opts"
proof (induction opts arbitrary: b)
  case (Cons a opts)
  then show ?case by (cases a) auto
qed simp

lemma GetContract_RW:
  "WithRW \<in> set opts \<Longrightarrow> GetContract L P opts d = (d', OK n) \<Longrightarrow>
     getContractLocked L P (newNegotiationParamBuilder opts) d = (d', OK n)"
  by (simp add: GetContract_def Let_def newNegotiationParamBuilder_def q_RW_fold split: if_splits)

lemma GetTransfer_RW:
  "T_WithRW \<in> set opts \<Longrightarrow> GetTransfer L P opts d = (d', OK n) \<Longrightarrow>
     getTransferLocked L P (newTransferParamBuilder opts) d = (d', OK n)"
  by (simp add: GetTransfer_def Let_def newTransferParamBuilder_def tq_RW_fold split: if_splits)

lemma held_lock_contract_row:
  "r \<in> set (contracts d) \<Longrightarrow> held_contracts (lock_contract_row r k d) = insert (c_ID r) (held_contracts d)"
  using crows.locked_of_lock[of r "contracts d"] by (simp add: held_contracts_def lock_contract_row_def)

lemma held_lock_transfer_row:
  "r \<in> set (transfers d) \<Longrightarrow> held_transfers (lock_transfer_row r k d) = insert (t_ID r) (held_transfers d)"
  using trows.locked_of_lock[of r "transfers d"] by (simp add: held_transfers_def lock_transfer_row_def)

lemma unlocked_not_held:
  "wf_db d \<Longrightarrow> r \<in> set (contracts d) \<Longrightarrow> \<not> c_Locked r \<Longrightarrow> c_ID r \<notin> held_contracts d"
  "wf_db d \<Longrightarrow> t \<in> set (transfers d) \<Longrightarrow> \<not> t_Locked t \<Longrightarrow> t_ID t \<notin> held_transfers d"
  unfolding wf_db_def wf_rows_def held_contracts_def held_transfers_def locked_of_def
  by (auto dest: distinct_map_eq)

lemma contract_get_locks:
  assumes "wf_db d" and "GetContract L (quiet P) (WithRW # opts) d = (d', OK n)"
  shows "n_internal_id n \<notin> held_contracts d
    \<and> held_contracts d' = insert (n_internal_id n) (held_contracts d) \<and> 0 \<le> n_internal_id n"
proof -
  obtain r k where r: "filter (contract_where L (newNegotiationParamBuilder (WithRW # opts)) None) (contracts d) = [r]"
      "\<not> c_Locked r" "d' = lock_contract_row r k d"
      "n_FromModel L (join_agreement d (r\<lparr>c_Locked := True\<rparr>)) False = OK n"
    using getContractLocked_OK[OF GetContract_RW[OF _ assms(2)] assms(1)] by auto
  have mem: "r \<in> set (contracts d)" using filter_eq_singleton_mem[OF r(1)] by simp
  have "n_internal_id n = c_ID r" using n_FromModel_fields[OF r(4)] by (simp add: join_agreement_def)
  moreover have "0 \<le> c_ID r" using assms(1) mem by (auto simp: wf_db_def wf_rows_def)
  ultimately show ?thesis
    using unlocked_not_held(1)[OF assms(1) mem r(2)] held_lock_contract_row[OF mem] r(3) by simp
qed

lemma transfer_get_locks:
  assumes "wf_db d" and "GetTransfer L (quiet P) (T_WithRW # opts) d = (d', OK n)"
  shows "r_internal_id n \<notin> held_transfers d
    \<and> held_transfers d' = insert (r_internal_id n) (held_transfers d) \<and> 0 \<le> r_internal_id n"
proof -
  obtain r k a where r: "filter (transfer_where L (newTransferParamBuilder (T_WithRW # opts)) None) (transfers d) = [r]"
      "\<not> t_Locked r" "d' = lock_transfer_row r k d"
      "r_FromModel L (r\<lparr>t_Locked := True, t_Agreement := a\<rparr>) False = OK n"
    by (rule getTransferLocked_OK[OF GetTransfer_RW[OF _ assms(2)] assms(1)]) auto
  have mem: "r \<in> set (transfers d)" using filter_eq_singleton_mem[OF r(1)] by simp
  have "r_internal_id n = t_ID r" using r_FromModel_fields[OF r(4)] by simp
  moreover have "0 \<le> t_ID r" using assms(1) mem by (auto simp: wf_db_def wf_rows_def)
  ultimately show ?thesis
    using unlocked_not_held(2)[OF assms(1) mem r(2)] held_lock_transfer_row[OF mem] r(3) by simp
qed

lemma upsert_contract_held:
  assumes "wf_db d" and "\<not> c_Locked m" and "upsert_contract m d = (d', OK u)"
  shows "held_contracts d' = held_contracts d - {c_ID m}"
proof -
  obtain rs nx where up: "upsert_rows c_ID (\<lambda>i r. r\<lparr>c_ID := i\<rparr>) contract_conflict contract_excluded m
      (contracts d, next_contract d) = OK (rs, nx)" and d': "contracts d' = rs"
    using assms(3) by (auto simp: upsert_contract_def split: outcome.splits)
  have wf: "wf_rows c_ID contract_conflict (contracts d) (next_contract d)" using assms(1) by (simp add: wf_db_def)
  show ?thesis
    using crows.locked_of_upsert[OF up assms(2) wf] by (simp add: held_contracts_def d')
qed

lemma ReleaseContract_held:
  "ReleaseContract L P v d = (d', OK u) \<Longrightarrow> held_contracts d' = held_contracts d - {n_internal_id v}"
proof -
  assume rel: "ReleaseContract L P v d = (d', OK u)"
  then obtain m where m: "n_ToModel L v = OK m"
      "contracts d' = update_where (\<lambda>r. c_ID r = c_ID m) (\<lambda>r. r\<lparr>c_Locked := False\<rparr>) (contracts d)"
    by (auto simp: ReleaseContract_def exec_OK split: outcome.splits)
  have "c_ID m = n_internal_id v" using n_ToModel_fields[OF m(1)] by simp
  then show ?thesis
    using crows.locked_of_release[of "c_ID m" "contracts d"] by (simp add: held_contracts_def m(2))
qed

lemma contract_put_unlocks:
  assumes "wf_db d" and "PutContract L P v d = (d', OK u)"
  shows "held_contracts d' = held_contracts d - {n_internal_id v}"
proof (cases "n_modified v")
  case True
  then obtain m where m: "n_ToModel L v = OK m"
      "upsert_contract m (d\<lparr>clock := Suc (clock d)\<rparr>) = (d', OK u)"
    using assms(2) by (auto simp: PutContract_def exec_OK split: outcome.splits if_splits)
  then show ?thesis
    using upsert_contract_held[OF _ _ m(2)] assms(1) n_ToModel_fields[OF m(1)] by simp
next
  case False
  then have "ReleaseContract L P v d = (d', OK u)" using assms(2) by (simp add: PutContract_def split: if_splits)
  then show ?thesis by (rule ReleaseContract_held)
qed

lemma upsert_transfer_held:
  assumes "wf_db d" and "\<not> t_Locked m" and "upsert_transfer m d = (d', OK u)"
  shows "held_transfers d' = held_transfers d - {t_ID m}"
proof -
  obtain rs nx where up: "upsert_rows t_ID (\<lambda>i r. r\<lparr>t_ID := i\<rparr>) transfer_conflict transfer_excluded m
      (transfers d, next_transfer d) = OK (rs, nx)" and d': "transfers d' = rs"
    using assms(3) by (auto simp: upsert_transfer_def split: outcome.splits)
  have wf: "wf_rows t_ID transfer_conflict (transfers d) (next_transfer d)" using assms(1) by (simp add: wf_db_def)
  show ?thesis
    using trows.locked_of_upsert[OF up assms(2) wf] by (simp add: held_transfers_def d')
qed

lemma ReleaseTransfer_held:
  "ReleaseTransfer L P v d = (d', OK u) \<Longrightarrow> held_transfers d' = held_transfers d - {r_internal_id v}"
proof -
  assume rel: "ReleaseTransfer L P v d = (d', OK u)"
  then obtain m where m: "r_ToModel L v = OK m"
      "transfers d' = update_where (\<lambda>r. t_ID r = t_ID m) (\<lambda>r. r\<lparr>t_Locked := False\<rparr>) (transfers d)"
    by (auto simp: ReleaseTransfer_def exec_OK split: outcome.splits)
  have "t_ID m = r_internal_id v" using r_ToModel_fields[OF m(1)] by simp
  then show ?thesis
    using trows.locked_of_release[of "t_ID m" "transfers d"] by (simp add: held_transfers_def m(2))
qed

lemma transfer_put_unlocks:
  assumes "wf_db d" and "PutTransfer L P v d = (d', OK u)"
  shows "held_transfers d' = held_transfers d - {r_internal_id v}"
proof (cases "r_modified v")
  case True
  then obtain m where m: "r_ToModel L v = OK m"
      "upsert_transfer m (d\<lparr>clock := Suc (clock d)\<rparr>) = (d', OK u)"
    using assms(2) by (auto simp: PutTransfer_def exec_OK split: outcome.splits if_splits)
  then show ?thesis
    using upsert_transfer_held[OF _ _ m(2)] assms(1) r_ToModel_fields[OF m(1)] by simp
next
  case False
  then have "ReleaseTransfer L P v d = (d', OK u)" using assms(2) by (simp add: PutTransfer_def split: if_splits)
  then show ?thesis by (rule ReleaseTransfer_held)
qed

text \<open>A failed write changes no row.\<close>

definition same_rows :: "db \<Rightarrow> db \<Rightarrow> bool" where
  "same_rows d d' \<longleftrightarrow> contracts d' = contracts d \<and> transfers d' = transfers d \<and> agreements d' = agreements d
     \<and> next_contract d' = next_contract d \<and> next_transfer d' = next_transfer d"

lemma same_rows_refl [simp]: "same_rows d d" "same_rows d (d\<lparr>clock := k\<rparr>)"
  by (simp_all add: same_rows_def)

lemma same_rows_trans: "same_rows d d1 \<Longrightarrow> same_rows d1 d2 \<Longrightarrow> same_rows d d2"
  by (simp add: same_rows_def)

lemma failed_writes:
  "\<not> is_OK (snd (ReleaseContract L P cn d)) \<Longrightarrow> same_rows d (fst (ReleaseContract L P cn d))"
  "\<not> is_OK (snd (PutContract L P cn d)) \<Longrightarrow> same_rows d (fst (PutContract L P cn d))"
  "\<not> is_OK (snd (ReleaseTransfer L P tr d)) \<Longrightarrow> same_rows d (fst (ReleaseTransfer L P tr d))"
  "\<not> is_OK (snd (PutTransfer L P tr d)) \<Longrightarrow> same_rows d (fst (PutTransfer L P tr d))"
  "\<not> is_OK (snd (PutAgreement L P ag d)) \<Longrightarrow> same_rows d (fst (PutAgreement L P ag d))"
  by (auto simp: ReleaseContract_def PutContract_def ReleaseTransfer_def PutTransfer_def PutAgreement_def
      upsert_contract_def upsert_transfer_def exec_def Let_def split: outcome.splits if_splits)

lemma same_rows_held: "same_rows d d' \<Longrightarrow> held_contracts d' = held_contracts d"
  "same_rows d d' \<Longrightarrow> held_transfers d' = held_transfers d"
  by (simp_all add: same_rows_def held_contracts_def held_transfers_def)

interpretation cstore: locked_store "\<lambda>opts. GetContract L (quiet P) (WithRW # opts)" "PutContract L (quiet P)"
  "ReleaseContract L (quiet P)" held_contracts n_internal_id wf_db
  for L P
proof unfold_locales
  fix opts d d' x u
  show "wf_db d \<Longrightarrow> GetContract L (quiet P) (WithRW # opts) d = (d', OK x) \<Longrightarrow>
    n_internal_id x \<notin> held_contracts d \<and> held_contracts d' = insert (n_internal_id x) (held_contracts d)
    \<and> 0 \<le> n_internal_id x"
    by (rule contract_get_locks)
  show "wf_db d \<Longrightarrow> wf_db (fst (GetContract L (quiet P) (WithRW # opts) d))" by (simp add: wf_GetContract)
  show "wf_db d \<Longrightarrow> PutContract L (quiet P) x d = (d', OK u) \<Longrightarrow>
    held_contracts d' = held_contracts d - {n_internal_id x}" by (rule contract_put_unlocks)
  show "wf_db d \<Longrightarrow> 0 \<le> n_internal_id x \<Longrightarrow> wf_db (fst (PutContract L (quiet P) x d))" by (rule wf_PutContract)
  show "ReleaseContract L (quiet P) x d = (d', OK u) \<Longrightarrow>
    held_contracts d' = held_contracts d - {n_internal_id x}" by (rule ReleaseContract_held)
  show "wf_db d \<Longrightarrow> wf_db (fst (ReleaseContract L (quiet P) x d))" by (rule wf_ReleaseContract)
  show "\<not> is_OK (snd (PutContract L (quiet P) x d)) \<Longrightarrow>
    held_contracts (fst (PutContract L (quiet P) x d)) = held_contracts d"
    by (rule same_rows_held(1)[OF failed_writes(2)])
  show "\<not> is_OK (snd (ReleaseContract L (quiet P) x d)) \<Longrightarrow>
    held_contracts (fst (ReleaseContract L (quiet P) x d)) = held_contracts d"
    by (rule same_rows_held(1)[OF failed_writes(1)])
qed

interpretation tstore: locked_store "\<lambda>opts. GetTransfer L (quiet P) (T_WithRW # opts)" "PutTransfer L (quiet P)"
  "ReleaseTransfer L (quiet P)" held_transfers r_internal_id wf_db
  for L P
proof unfold_locales
  fix opts d d' x u
  show "wf_db d \<Longrightarrow> GetTransfer L (quiet P) (T_WithRW # opts) d = (d', OK x) \<Longrightarrow>
    r_internal_id x \<notin> held_transfers d \<and> held_transfers d' = insert (r_internal_id x) (held_transfers d)
    \<and> 0 \<le> r_internal_id x"
    by (rule transfer_get_locks)
  show "wf_db d \<Longrightarrow> wf_db (fst (GetTransfer L (quiet P) (T_WithRW # opts) d))" by (simp add: wf_GetTransfer)
  show "wf_db d \<Longrightarrow> PutTransfer L (quiet P) x d = (d', OK u) \<Longrightarrow>
    held_transfers d' = held_transfers d - {r_internal_id x}" by (rule transfer_put_unlocks)
  show "wf_db d \<Longrightarrow> 0 \<le> r_internal_id x \<Longrightarrow> wf_db (fst (PutTransfer L (quiet P) x d))" by (rule wf_PutTransfer)
  show "ReleaseTransfer L (quiet P) x d = (d', OK u) \<Longrightarrow>
    held_transfers d' = held_transfers d - {r_internal_id x}" by (rule ReleaseTransfer_held)
  show "wf_db d \<Longrightarrow> wf_db (fst (ReleaseTransfer L (quiet P) x d))" by (rule wf_ReleaseTransfer)
  show "\<not> is_OK (snd (PutTransfer L (quiet P) x d)) \<Longrightarrow>
    held_transfers (fst (PutTransfer L (quiet P) x d)) = held_transfers d"
    by (rule same_rows_held(2)[OF failed_writes(4)])
  show "\<not> is_OK (snd (ReleaseTransfer L (quiet P) x d)) \<Longrightarrow>
    held_transfers (fst (ReleaseTransfer L (quiet P) x d)) = held_transfers d"
    by (rule same_rows_held(2)[OF failed_writes(3)])
qed

section \<open>Holding a lock\<close>

text \<open>What a caller of the savers can do, and what it leaves of the database.\<close>

datatype store_call =
    GetsContract "negotiation_option list" | GetsContracts "negotiation_option list"
  | PutsContract negotiation | ReleasesContract negotiation
  | GetsAgreement "uuid option" | PutsAgreement Agreement
  | GetsTransfer "request_option list" | GetsTransfers "request_option list"
  | PutsTransfer transfer_request | ReleasesTransfer transfer_request

fun after_call :: "'a lib_scheme \<Rightarrow> backend \<Rightarrow> store_call \<Rightarrow> db \<Rightarrow> db" where
  "after_call L P (GetsContract opts) d = fst (GetContract L P opts d)"
| "after_call L P (GetsContracts opts) d = fst (GetContracts L P opts d)"
| "after_call L P (PutsContract cn) d = fst (PutContract L P cn d)"
| "after_call L P (ReleasesContract cn) d = fst (ReleaseContract L P cn d)"
| "after_call L P (GetsAgreement i) d = fst (GetAgreement L P i d)"
| "after_call L P (PutsAgreement ag) d = fst (PutAgreement L P ag d)"
| "after_call L P (GetsTransfer opts) d = fst (GetTransfer L P opts d)"
| "after_call L P (GetsTransfers opts) d = fst (GetTransfers L P opts d)"
| "after_call L P (PutsTransfer tr) d = fst (PutTransfer L P tr d)"
| "after_call L P (ReleasesTransfer tr) d = fst (ReleaseTransfer L P tr d)"

text \<open>The keys a record can have: zero for a new one, else that of its row.\<close>

fun storable :: "store_call \<Rightarrow> bool" where
  "storable (PutsContract cn) = (0 \<le> n_internal_id cn)"
| "storable (PutsTransfer tr) = (0 \<le> r_internal_id tr)"
| "storable _ = True"

fun contract_given_back :: "store_call \<Rightarrow> int option" where
  "contract_given_back (PutsContract cn) = Some (n_internal_id cn)"
| "contract_given_back (ReleasesContract cn) = Some (n_internal_id cn)"
| "contract_given_back _ = None"

fun transfer_given_back :: "store_call \<Rightarrow> int option" where
  "transfer_given_back (PutsTransfer tr) = Some (r_internal_id tr)"
| "transfer_given_back (ReleasesTransfer tr) = Some (r_internal_id tr)"
| "transfer_given_back _ = None"

text \<open>The others that are connected do not give back what is held here.\<close>

definition contract_respected :: "int \<Rightarrow> backend \<Rightarrow> bool" where
  "contract_respected i P \<longleftrightarrow> sane P \<and> (\<forall>n d. wf_db d \<longrightarrow> i \<in> held_contracts d \<longrightarrow> i \<in> held_contracts (others P n d))"

definition transfer_respected :: "int \<Rightarrow> backend \<Rightarrow> bool" where
  "transfer_respected i P \<longleftrightarrow> sane P \<and> (\<forall>n d. wf_db d \<longrightarrow> i \<in> held_transfers d \<longrightarrow> i \<in> held_transfers (others P n d))"

lemma lock_contracts_holds:
  "held_contracts d \<subseteq> held_contracts (fst (lock_contracts L q d))" "held_transfers (fst (lock_contracts L q d)) = held_transfers d"
  by (auto simp: lock_contracts_def lock_rows_def held_contracts_def held_transfers_def crows.locked_of_update)
    (auto simp: crows.locked_of_iff)

lemma lock_transfers_holds:
  "held_transfers d \<subseteq> held_transfers (fst (lock_transfers L q d))" "held_contracts (fst (lock_transfers L q d)) = held_contracts d"
  by (auto simp: lock_transfers_def lock_rows_def held_contracts_def held_transfers_def trows.locked_of_update)
    (auto simp: trows.locked_of_iff)

lemma first_of_filter: "first_row (map f (filter p rs)) = OK r \<Longrightarrow> \<exists>r0 \<in> set rs. p r0 \<and> r = f r0"
  by (induction rs) (auto simp: first_row_def split: if_splits)

lemma lock_contracts_taken:
  assumes "lock_contracts L q d = (d', OK r)" and "wf_db d"
  shows "c_ID r \<notin> held_contracts d \<and> c_ID r \<in> held_contracts d'"
proof -
  have rows: "contracts d' = update_where (contract_where L q (Some False)) (\<lambda>r. r\<lparr>c_Locked := True\<rparr>) (contracts d)"
    and first: "first_row (map (\<lambda>r. r\<lparr>c_Locked := True\<rparr>) (filter (contract_where L q (Some False)) (contracts d))) = OK r"
    using assms(1) by (auto simp: lock_contracts_def lock_rows_def)
  obtain r0 where r0: "r0 \<in> set (contracts d)" "contract_where L q (Some False) r0" "r = r0\<lparr>c_Locked := True\<rparr>"
    using first_of_filter[OF first] by blast
  have "\<not> c_Locked r0" using r0(2) by (simp add: contract_where_def when_set_def)
  then have "c_ID r \<notin> held_contracts d" using unlocked_not_held(1)[OF assms(2) r0(1)] r0(3) by simp
  moreover have "c_ID r \<in> held_contracts d'"
    using r0 by (auto simp: held_contracts_def rows crows.locked_of_update intro!: bexI[of _ r0])
  ultimately show ?thesis by simp
qed

lemma lock_transfers_taken:
  assumes "lock_transfers L q d = (d', OK r)" and "wf_db d"
  shows "t_ID r \<notin> held_transfers d \<and> t_ID r \<in> held_transfers d'"
proof -
  have rows: "transfers d' = update_where (transfer_where L q (Some False)) (\<lambda>r. r\<lparr>t_Locked := True\<rparr>) (transfers d)"
    and first: "first_row (map (\<lambda>r. r\<lparr>t_Locked := True\<rparr>) (filter (transfer_where L q (Some False)) (transfers d))) = OK r"
    using assms(1) by (auto simp: lock_transfers_def lock_rows_def)
  obtain r0 where r0: "r0 \<in> set (transfers d)" "transfer_where L q (Some False) r0" "r = r0\<lparr>t_Locked := True\<rparr>"
    using first_of_filter[OF first] by blast
  have "\<not> t_Locked r0" using r0(2) by (simp add: transfer_where_def when_set_def)
  then have "t_ID r \<notin> held_transfers d" using unlocked_not_held(2)[OF assms(2) r0(1)] r0(3) by simp
  moreover have "t_ID r \<in> held_transfers d'"
    using r0 by (auto simp: held_transfers_def rows trows.locked_of_update intro!: bexI[of _ r0])
  ultimately show ?thesis by simp
qed

text \<open>When the loop answers, it has taken the lock in some database on the way.\<close>

lemma lock_loop_taken:
  assumes "lock_loop P upd fin n d = (d', OK x)" and "I d"
    and "\<And>d. I d \<Longrightarrow> I (fst (upd d))" and "\<And>n d. I d \<Longrightarrow> I (others P n d)" and "\<And>d k. I d \<Longrightarrow> I (d\<lparr>clock := k\<rparr>)"
  shows "\<exists>d0 d1 r. I d0 \<and> upd d0 = (d1, OK r) \<and> fin r d1 = (d', OK x)"
  using assms(1,2)
proof (induction n arbitrary: d)
  case (Suc n)
  obtain d1 r where e: "exec P upd d = (d1, r)" by force
  have I1: "I d1" using exec_inv[of I d upd P] Suc.prems(2) assms(3,5) e by simp
  show ?case
  proof (cases r)
    case (OK v)
    then have "upd (d\<lparr>clock := Suc (clock d)\<rparr>) = (d1, OK v)" using e by (simp add: exec_OK)
    then show ?thesis using Suc.prems e OK assms(5)[OF Suc.prems(2)] by (intro exI conjI) auto
  next
    case (ERR er)
    then show ?thesis using Suc.prems e Suc.IH[of "others P (clock d1) d1"] assms(4)[OF I1] by (auto split: if_splits)
  next
    case (PANIC p)
    then show ?thesis using Suc.prems e by simp
  qed
qed simp

lemma GetContract_taken:
  assumes "GetContract L P opts d = (d', OK x)" and "WithRW \<in> set opts" and "wf_db d \<and> J d"
    and "\<And>n d. wf_db d \<and> J d \<Longrightarrow> wf_db (others P n d) \<and> J (others P n d)" and "\<And>d k. J d \<Longrightarrow> J (d\<lparr>clock := k\<rparr>)"
    and "\<And>q d. J d \<Longrightarrow> J (fst (lock_contracts L q d))"
  shows "\<exists>d0. wf_db d0 \<and> J d0 \<and> n_internal_id x \<notin> held_contracts d0 \<and> n_internal_id x \<in> held_contracts d'"
proof -
  let ?q = "newNegotiationParamBuilder opts"
  have "lock_loop P (lock_contracts L ?q) (finish_contract L P) (lockTimeout P) (d\<lparr>clock := Suc (clock d)\<rparr>) = (d', OK x)"
    using GetContract_RW[OF assms(2,1)] by (auto simp: getContractLocked_def exec_def Let_def split: if_splits)
  note loop = this
  have "\<exists>d0 d1 r. (wf_db d0 \<and> J d0) \<and> lock_contracts L ?q d0 = (d1, OK r) \<and> finish_contract L P r d1 = (d', OK x)"
    by (rule lock_loop_taken[OF loop, where I = "\<lambda>d. wf_db d \<and> J d"]) (use assms(3-6) wf_lock_contracts in auto)
  then obtain d0 d1 r where d0: "wf_db d0 \<and> J d0" "lock_contracts L ?q d0 = (d1, OK r)" "finish_contract L P r d1 = (d', OK x)" by blast
  have "n_internal_id x = c_ID r" using d0(3)
    by (auto simp: finish_contract_def dest!: n_FromModel_fields split: option.splits outcome.splits prod.splits)
  moreover obtain k where "d' = d1\<lparr>clock := k\<rparr>" using finish_contract_db[of L P r d1] d0(3) by auto
  ultimately show ?thesis using lock_contracts_taken[OF d0(2)] d0(1) by auto
qed

lemma GetTransfer_taken:
  assumes "GetTransfer L P opts d = (d', OK x)" and "T_WithRW \<in> set opts" and "wf_db d \<and> J d"
    and "\<And>n d. wf_db d \<and> J d \<Longrightarrow> wf_db (others P n d) \<and> J (others P n d)" and "\<And>d k. J d \<Longrightarrow> J (d\<lparr>clock := k\<rparr>)"
    and "\<And>q d. J d \<Longrightarrow> J (fst (lock_transfers L q d))"
  shows "\<exists>d0. wf_db d0 \<and> J d0 \<and> r_internal_id x \<notin> held_transfers d0 \<and> r_internal_id x \<in> held_transfers d'"
proof -
  let ?q = "newTransferParamBuilder opts"
  have "lock_loop P (lock_transfers L ?q) (finish_transfer L P) (lockTimeout P) (d\<lparr>clock := Suc (clock d)\<rparr>) = (d', OK x)"
    using GetTransfer_RW[OF assms(2,1)] by (auto simp: getTransferLocked_def exec_def Let_def split: if_splits)
  note loop = this
  have "\<exists>d0 d1 r. (wf_db d0 \<and> J d0) \<and> lock_transfers L ?q d0 = (d1, OK r) \<and> finish_transfer L P r d1 = (d', OK x)"
    by (rule lock_loop_taken[OF loop, where I = "\<lambda>d. wf_db d \<and> J d"]) (use assms(3-6) wf_lock_transfers in auto)
  then obtain d0 d1 r where d0: "wf_db d0 \<and> J d0" "lock_transfers L ?q d0 = (d1, OK r)" "finish_transfer L P r d1 = (d', OK x)" by blast
  have "r_internal_id x = t_ID r" using d0(3)
    by (auto simp: finish_transfer_def dest!: r_FromModel_fields split: outcome.splits prod.splits)
  moreover obtain k where "d' = d1\<lparr>clock := k\<rparr>" using finish_transfer_db[of L P r d1] d0(3) by auto
  ultimately show ?thesis using lock_transfers_taken[OF d0(2)] d0(1) by auto
qed

text \<open>A get keeps what is held, taken with or without success.\<close>

lemma GetContract_keeps:
  assumes "wf_db d \<and> J d" and "\<And>n d. wf_db d \<and> J d \<Longrightarrow> wf_db (others P n d) \<and> J (others P n d)"
    and clk: "\<And>d k. J d \<Longrightarrow> J (d\<lparr>clock := k\<rparr>)" and "\<And>q d. J d \<Longrightarrow> J (fst (lock_contracts L q d))"
  shows "wf_db (fst (GetContract L P opts d)) \<and> J (fst (GetContract L P opts d))"
proof -
  have fin: "wf_db (fst (finish_contract L P r d)) \<and> J (fst (finish_contract L P r d))" if "wf_db d \<and> J d" for r d
    using finish_contract_db[of L P r d] clk that by fastforce
  have loop: "wf_db (fst (lock_loop P (lock_contracts L q) (finish_contract L P) n d))
      \<and> J (fst (lock_loop P (lock_contracts L q) (finish_contract L P) n d))" if "wf_db d \<and> J d" for q n d
    by (rule lock_loop_inv[where I = "\<lambda>d. wf_db d \<and> J d"]) (use that assms(2-4) fin wf_lock_contracts in auto)
  show ?thesis using assms(1) clk loop[of "d\<lparr>clock := Suc (clock d)\<rparr>"]
    by (auto simp: GetContract_def getContractLocked_def exec_def Let_def)
qed

lemma GetTransfer_keeps:
  assumes "wf_db d \<and> J d" and "\<And>n d. wf_db d \<and> J d \<Longrightarrow> wf_db (others P n d) \<and> J (others P n d)"
    and clk: "\<And>d k. J d \<Longrightarrow> J (d\<lparr>clock := k\<rparr>)" and "\<And>q d. J d \<Longrightarrow> J (fst (lock_transfers L q d))"
  shows "wf_db (fst (GetTransfer L P opts d)) \<and> J (fst (GetTransfer L P opts d))"
proof -
  have fin: "wf_db (fst (finish_transfer L P r d)) \<and> J (fst (finish_transfer L P r d))" if "wf_db d \<and> J d" for r d
    using finish_transfer_db[of L P r d] clk that by fastforce
  have loop: "wf_db (fst (lock_loop P (lock_transfers L q) (finish_transfer L P) n d))
      \<and> J (fst (lock_loop P (lock_transfers L q) (finish_transfer L P) n d))" if "wf_db d \<and> J d" for q n d
    by (rule lock_loop_inv[where I = "\<lambda>d. wf_db d \<and> J d"]) (use that assms(2-4) fin wf_lock_transfers in auto)
  show ?thesis using assms(1) clk loop[of "d\<lparr>clock := Suc (clock d)\<rparr>"]
    by (auto simp: GetTransfer_def getTransferLocked_def exec_def Let_def)
qed

text \<open>Only putting and releasing give back: the writes, with or without success.\<close>

lemma writes_hold:
  assumes "wf_db d"
  shows "held_contracts (fst (PutContract L P cn d)) \<in> {held_contracts d, held_contracts d - {n_internal_id cn}}"
    and "held_transfers (fst (PutTransfer L P tr d)) \<in> {held_transfers d, held_transfers d - {r_internal_id tr}}"
    and "held_contracts (fst (ReleaseContract L P cn d)) \<in> {held_contracts d, held_contracts d - {n_internal_id cn}}"
    and "held_transfers (fst (ReleaseTransfer L P tr d)) \<in> {held_transfers d, held_transfers d - {r_internal_id tr}}"
proof -
  show "held_contracts (fst (PutContract L P cn d)) \<in> {held_contracts d, held_contracts d - {n_internal_id cn}}"
    using contract_put_unlocks[OF assms, of L P cn] same_rows_held(1)[OF failed_writes(2)[of L P cn d]]
    by (cases "PutContract L P cn d"; cases "snd (PutContract L P cn d)") auto
  show "held_transfers (fst (PutTransfer L P tr d)) \<in> {held_transfers d, held_transfers d - {r_internal_id tr}}"
    using transfer_put_unlocks[OF assms, of L P tr] same_rows_held(2)[OF failed_writes(4)[of L P tr d]]
    by (cases "PutTransfer L P tr d"; cases "snd (PutTransfer L P tr d)") auto
  show "held_contracts (fst (ReleaseContract L P cn d)) \<in> {held_contracts d, held_contracts d - {n_internal_id cn}}"
    using ReleaseContract_held[of L P cn d] same_rows_held(1)[OF failed_writes(1)[of L P cn d]]
    by (cases "ReleaseContract L P cn d"; cases "snd (ReleaseContract L P cn d)") auto
  show "held_transfers (fst (ReleaseTransfer L P tr d)) \<in> {held_transfers d, held_transfers d - {r_internal_id tr}}"
    using ReleaseTransfer_held[of L P tr d] same_rows_held(2)[OF failed_writes(3)[of L P tr d]]
    by (cases "ReleaseTransfer L P tr d"; cases "snd (ReleaseTransfer L P tr d)") auto
qed

lemma other_table:
  "contracts (fst (PutTransfer L P tr d)) = contracts d" "contracts (fst (ReleaseTransfer L P tr d)) = contracts d"
  "contracts (fst (PutAgreement L P ag d)) = contracts d" "transfers (fst (PutAgreement L P ag d)) = transfers d"
  "transfers (fst (PutContract L P cn d)) = transfers d" "transfers (fst (ReleaseContract L P cn d)) = transfers d"
  by (auto simp: ReleaseContract_def PutContract_def ReleaseTransfer_def PutTransfer_def PutAgreement_def
      upsert_contract_def upsert_transfer_def exec_def Let_def split: outcome.splits)

lemma reads_hold:
  "\<exists>k. fst (GetContracts L P co d) = d\<lparr>clock := k\<rparr>" "\<exists>k. fst (GetTransfers L P ro d) = d\<lparr>clock := k\<rparr>"
  "\<exists>k. fst (GetAgreement L P i d) = d\<lparr>clock := k\<rparr>"
  by (cases d; auto simp: GetContracts_def GetTransfers_def GetAgreement_def exec_def Let_def split: option.splits)+


lemma call_keeps_contract:
  assumes "wf_db d" and "contract_respected i P" and "i \<in> held_contracts d" and "storable c" and "contract_given_back c \<noteq> Some i"
  shows "wf_db (after_call L P c d) \<and> i \<in> held_contracts (after_call L P c d)"
proof (cases c)
  case (GetsContract opts)
  then show ?thesis using GetContract_keeps[of d "\<lambda>d. i \<in> held_contracts d" P L opts] assms lock_contracts_holds(1)
    by (auto simp: contract_respected_def sane_def)
next
  case (GetsTransfer opts)
  then show ?thesis using GetTransfer_keeps[of d "\<lambda>d. i \<in> held_contracts d" P L opts] assms lock_transfers_holds(2)
    by (auto simp: contract_respected_def sane_def)
next
  case (GetsContracts opts)
  then show ?thesis using reads_hold(1)[of L P opts d] assms by auto
next
  case (GetsTransfers opts)
  then show ?thesis using reads_hold(2)[of L P opts d] assms by auto
next
  case (GetsAgreement a)
  then show ?thesis using reads_hold(3)[of L P a d] assms by auto
next
  case (PutsContract cn)
  then show ?thesis using writes_hold(1)[OF assms(1), of L P cn] wf_PutContract[OF assms(1), of cn L P] assms by auto
next
  case (ReleasesContract cn)
  then show ?thesis using writes_hold(3)[OF assms(1), of L P cn] wf_ReleaseContract[OF assms(1), of L P cn] assms by auto
qed (use assms wf_PutTransfer wf_ReleaseTransfer wf_PutAgreement in \<open>auto simp: held_contracts_def other_table\<close>)

lemma call_keeps_transfer:
  assumes "wf_db d" and "transfer_respected i P" and "i \<in> held_transfers d" and "storable c" and "transfer_given_back c \<noteq> Some i"
  shows "wf_db (after_call L P c d) \<and> i \<in> held_transfers (after_call L P c d)"
proof (cases c)
  case (GetsContract opts)
  then show ?thesis using GetContract_keeps[of d "\<lambda>d. i \<in> held_transfers d" P L opts] assms lock_contracts_holds(2)
    by (auto simp: transfer_respected_def sane_def)
next
  case (GetsTransfer opts)
  then show ?thesis using GetTransfer_keeps[of d "\<lambda>d. i \<in> held_transfers d" P L opts] assms lock_transfers_holds(1)
    by (auto simp: transfer_respected_def sane_def)
next
  case (GetsContracts opts)
  then show ?thesis using reads_hold(1)[of L P opts d] assms by auto
next
  case (GetsTransfers opts)
  then show ?thesis using reads_hold(2)[of L P opts d] assms by auto
next
  case (GetsAgreement a)
  then show ?thesis using reads_hold(3)[of L P a d] assms by auto
next
  case (PutsTransfer tr)
  then show ?thesis using writes_hold(2)[OF assms(1), of L P tr] wf_PutTransfer[OF assms(1), of tr L P] assms by auto
next
  case (ReleasesTransfer tr)
  then show ?thesis using writes_hold(4)[OF assms(1), of L P tr] wf_ReleaseTransfer[OF assms(1), of L P tr] assms by auto
qed (use assms wf_PutContract wf_ReleaseContract wf_PutAgreement in \<open>auto simp: held_transfers_def other_table\<close>)

lemma calls_keep_contract:
  "wf_db d \<Longrightarrow> contract_respected i P \<Longrightarrow> i \<in> held_contracts d \<Longrightarrow>
     list_all (\<lambda>c. storable c \<and> contract_given_back c \<noteq> Some i) cs \<Longrightarrow>
     wf_db (fold (after_call L P) cs d) \<and> i \<in> held_contracts (fold (after_call L P) cs d)"
  by (induction cs arbitrary: d) (simp_all add: call_keeps_contract)

lemma calls_keep_transfer:
  "wf_db d \<Longrightarrow> transfer_respected i P \<Longrightarrow> i \<in> held_transfers d \<Longrightarrow>
     list_all (\<lambda>c. storable c \<and> transfer_given_back c \<noteq> Some i) cs \<Longrightarrow>
     wf_db (fold (after_call L P) cs d) \<and> i \<in> held_transfers (fold (after_call L P) cs d)"
  by (induction cs arbitrary: d) (simp_all add: call_keeps_transfer)

lemma contract_exclusion:
  assumes "wf_db d" and "GetContract L P o1 d = (d1, OK x)" and "WithRW \<in> set o1" and "WithRW \<in> set o2"
    and "contract_respected (n_internal_id x) P"
    and "list_all (\<lambda>c. storable c \<and> contract_given_back c \<noteq> Some (n_internal_id x)) cs"
    and "GetContract L P o2 (fold (after_call L P) cs d1) = (d2, OK y)"
  shows "n_internal_id y \<noteq> n_internal_id x"
proof -
  let ?i = "n_internal_id x" and ?d = "fold (after_call L P) cs d1"
  have sane: "\<And>n d. wf_db d \<Longrightarrow> wf_db (others P n d)" using assms(5) by (simp add: contract_respected_def sane_def)
  have "?i \<in> held_contracts d1"
    using GetContract_taken[OF assms(2,3), of "\<lambda>_. True"] assms(1) sane by auto
  moreover have "wf_db d1" using wf_GetContract[of P d L o1] assms(1,2,5) by (simp add: contract_respected_def)
  ultimately have "wf_db ?d \<and> ?i \<in> held_contracts ?d" using calls_keep_contract assms(5,6) by blast
  then obtain d0 where "?i \<in> held_contracts d0" "n_internal_id y \<notin> held_contracts d0"
    using GetContract_taken[OF assms(7,4), of "\<lambda>d. ?i \<in> held_contracts d"] assms(5) lock_contracts_holds(1)
    by (fastforce simp: contract_respected_def sane_def)
  then show ?thesis by auto
qed

lemma transfer_exclusion:
  assumes "wf_db d" and "GetTransfer L P o1 d = (d1, OK x)" and "T_WithRW \<in> set o1" and "T_WithRW \<in> set o2"
    and "transfer_respected (r_internal_id x) P"
    and "list_all (\<lambda>c. storable c \<and> transfer_given_back c \<noteq> Some (r_internal_id x)) cs"
    and "GetTransfer L P o2 (fold (after_call L P) cs d1) = (d2, OK y)"
  shows "r_internal_id y \<noteq> r_internal_id x"
proof -
  let ?i = "r_internal_id x" and ?d = "fold (after_call L P) cs d1"
  have sane: "\<And>n d. wf_db d \<Longrightarrow> wf_db (others P n d)" using assms(5) by (simp add: transfer_respected_def sane_def)
  have "?i \<in> held_transfers d1"
    using GetTransfer_taken[OF assms(2,3), of "\<lambda>_. True"] assms(1) sane by auto
  moreover have "wf_db d1" using wf_GetTransfer[of P d L o1] assms(1,2,5) by (simp add: transfer_respected_def)
  ultimately have "wf_db ?d \<and> ?i \<in> held_transfers ?d" using calls_keep_transfer assms(5,6) by blast
  then obtain d0 where "?i \<in> held_transfers d0" "r_internal_id y \<notin> held_transfers d0"
    using GetTransfer_taken[OF assms(7,4), of "\<lambda>d. ?i \<in> held_transfers d"] assms(5) lock_transfers_holds(1)
    by (fastforce simp: transfer_respected_def sane_def)
  then show ?thesis by auto
qed

section \<open>A backend that does not fail\<close>

definition reliable :: "backend \<Rightarrow> bool" where
  "reliable P \<longleftrightarrow> (\<forall>n. \<not> fault P n) \<and> 0 < lockTimeout P"

lemma exec_reliable [simp]: "reliable P \<Longrightarrow> exec (quiet P) stmt d = stmt (d\<lparr>clock := Suc (clock d)\<rparr>)"
  by (simp add: exec_def reliable_def Let_def)

lemma getContractLocked_reliable:
  assumes "reliable P" and "wf_db d" and one: "filter (contract_where L q None) (contracts d) = [r]"
    and "\<not> c_Locked r"
  shows "getContractLocked L (quiet P) q d =
    finish_contract L (quiet P) (r\<lparr>c_Locked := True\<rparr>) (lock_contract_row r (Suc (Suc (clock d))) d)"
proof -
  obtain n where n: "lockTimeout P = Suc n" using assms(1) by (cases "lockTimeout P") (auto simp: reliable_def)
  have "lock_contracts L q (d\<lparr>clock := Suc (Suc (clock d))\<rparr>) =
      (lock_contract_row r (Suc (Suc (clock d))) d, OK (r\<lparr>c_Locked := True\<rparr>))"
    using lock_contracts_one[of L q "d\<lparr>clock := Suc (Suc (clock d))\<rparr>" r] assms by simp
  then show ?thesis by (simp add: getContractLocked_def assms(1) one n)
qed

lemma finish_contract_reliable:
  assumes "reliable P"
  shows "finish_contract L (quiet P) r d = (case c_AgreementID r of
      None \<Rightarrow> (d, n_FromModel L (join_agreement d r) False)
    | Some i \<Rightarrow> (d\<lparr>clock := Suc (clock d)\<rparr>, case find_agreement d i of
         None \<Rightarrow> ERR no_rows | Some a \<Rightarrow> n_FromModel L (join_agreement d r) False))"
  by (auto simp: finish_contract_def assms join_agreement_def split: option.splits)

lemma rolePID_builder:
  "WithRolePID pid rl = OK opt \<Longrightarrow> contract_where L (newNegotiationParamBuilder [WithRW, opt]) None r \<longleftrightarrow>
     (if rl = DataspaceConsumer then c_ConsumerPID r else c_ProviderPID r) = Some (uuid_URN L pid)"
  by (cases rl) (auto simp: newNegotiationParamBuilder_def contract_where_def when_set_def)

lemma rolePID_RW:
  "WithRolePID pid rl = OK opt \<Longrightarrow> GetContract L P [WithRW, opt] d =
     getContractLocked L P (newNegotiationParamBuilder [WithRW, opt]) d"
  by (cases rl) (auto simp: GetContract_def newNegotiationParamBuilder_def)

text \<open>The row a fresh negotiation is stored in.\<close>

lemma put_new_contract:
  assumes "n_internal_id cn = 0" and "\<not> n_ro cn" and "n_modified cn" and "reliable P"
    and "PutContract L (quiet P) cn d = (d1, OK ())"
  obtains m where "n_ToModel L cn = OK m" "contracts d1 = contracts d @ [m\<lparr>c_ID := next_contract d\<rparr>]"
    "\<forall>r \<in> set (contracts d). c_ID r \<noteq> 0 \<longrightarrow> \<not> contract_conflict m r" "agreements d1 = agreements d"
proof -
  obtain m where m: "n_ToModel L cn = OK m" and up: "upsert_contract m (d\<lparr>clock := Suc (clock d)\<rparr>) = (d1, OK ())"
    using assms by (auto simp: PutContract_def split: outcome.splits if_splits)
  have "c_ID m = 0" using n_ToModel_fields[OF m] assms(1) by simp
  with up show thesis
    by (intro that[OF m]) (auto simp: upsert_contract_def upsert_rows_def Let_def split: outcome.splits if_splits)
qed

lemma put_get_contract:
  assumes laws: "uuid_laws L" and forms: "n_forms_ok L cn" and P: "reliable P" and wf: "wf_db d"
    and new: "n_internal_id cn = 0" "\<not> n_ro cn" "n_modified cn" "n_agreement cn = None"
    and pid: "n_GetLocalPID cn = OK pid" "pid \<noteq> emptyUUID"
    and put: "PutContract L (quiet P) cn d = (d1, OK ())"
    and opt: "WithRolePID pid (n_role cn) = OK opt"
  shows "snd (GetContract L (quiet P) [WithRW, opt] d1) =
    OK (cn\<lparr>n_initial := False, n_modified := False, n_newAgreement := False, n_locked := True,
           n_internal_id := next_contract d\<rparr>)"
proof -
  obtain m where m: "n_ToModel L cn = OK m" and rows: "contracts d1 = contracts d @ [m\<lparr>c_ID := next_contract d\<rparr>]"
    and free: "\<forall>r \<in> set (contracts d). c_ID r \<noteq> 0 \<longrightarrow> \<not> contract_conflict m r"
    by (rule put_new_contract[OF new(1,2,3) P put])
  let ?m = "m\<lparr>c_ID := next_contract d\<rparr>" and ?q = "newNegotiationParamBuilder [WithRW, opt]"
  have urn: "(if n_role cn = DataspaceConsumer then c_ConsumerPID m else c_ProviderPID m) = Some (uuid_URN L pid)"
    using n_ToModel_fields[OF m] pid by (cases "n_role cn") (auto simp: pid_column_Some[OF laws])
  have ids: "\<forall>r \<in> set (contracts d). c_ID r \<noteq> 0" using wf by (auto simp: wf_db_def wf_rows_def)
  have "\<not> contract_where L ?q None r" if "r \<in> set (contracts d)" for r
    using free ids that urn by (auto simp: rolePID_builder[OF opt] contract_conflict_def split: if_splits)
  moreover have "contract_where L ?q None ?m" using urn by (simp add: rolePID_builder[OF opt] split: if_splits)
  ultimately have one: "filter (contract_where L ?q None) (contracts d1) = [?m]"
    by (simp add: rows filter_empty_conv)
  have wf1: "wf_db d1" using wf_PutContract[OF wf, of cn L "quiet P"] new(1) put by simp
  have unlocked: "\<not> c_Locked ?m" "c_AgreementID ?m = None" "c_Agreement ?m = None"
    using n_ToModel_fields[OF m] new(4) by simp_all
  have mid: "n_ToModel L (cn\<lparr>n_internal_id := next_contract d\<rparr>) = OK ?m"
    using m by (auto simp: n_ToModel_def outcome_simps)
  have "n_forms_ok L (cn\<lparr>n_internal_id := next_contract d\<rparr>)" using forms by (simp add: n_forms_ok_def)
  then have "n_FromModel L (?m\<lparr>c_Agreement := None, c_Locked := True\<rparr>) False = OK
      (cn\<lparr>n_initial := False, n_ro := False, n_modified := False, n_newAgreement := False, n_locked := True,
           n_internal_id := next_contract d\<rparr>)"
    using n_FromModel_ToModel[OF laws _ mid, of None True False] new(4) by (simp add: opt_read_def)
  moreover have "cn\<lparr>n_ro := False\<rparr> = cn" using new(2) by simp
  ultimately have "n_FromModel L (?m\<lparr>c_Agreement := None, c_Locked := True\<rparr>) False = OK
      (cn\<lparr>n_initial := False, n_modified := False, n_newAgreement := False, n_locked := True,
           n_internal_id := next_contract d\<rparr>)" by (cases cn) simp
  moreover have swap: "?m\<lparr>c_Locked := True, c_Agreement := None\<rparr> = ?m\<lparr>c_Agreement := None, c_Locked := True\<rparr>"
    by (cases m) simp
  ultimately have "n_FromModel L (?m\<lparr>c_Locked := True, c_Agreement := None\<rparr>) False = OK
      (cn\<lparr>n_initial := False, n_modified := False, n_newAgreement := False, n_locked := True,
           n_internal_id := next_contract d\<rparr>)" by (subst swap)
  then show ?thesis
    using unlocked by (simp add: rolePID_RW[OF opt] getContractLocked_reliable[OF P wf1 one unlocked(1)]
      finish_contract_reliable[OF P] join_agreement_def)
qed

lemma unnormalised_agreement_lost:
  assumes laws: "uuid_laws L" and P: "reliable P" and wf: "wf_db d"
    and one: "filter (contract_where L (newNegotiationParamBuilder [WithRW, opt]) None) (contracts d) = [r]"
    and opt: "WithRolePID pid rl = OK opt" and free: "\<not> c_Locked r"
    and ag: "c_AgreementID r = Some i" "uuid_Parse L i = Some u" "i \<noteq> uuid_URN L u"
    and urns: "\<forall>a \<in> set (agreements d). \<exists>v. a_ID a = uuid_URN L v"
  shows "snd (GetContract L (quiet P) [WithRW, opt] d) = ERR no_rows
    \<and> c_ID r \<in> held_contracts (fst (GetContract L (quiet P) [WithRW, opt] d))"
proof -
  have "a_ID a \<noteq> i" if "a \<in> set (agreements d)" for a
    using urns that ag(2,3) uuid_lawsD(2)[OF laws] by force
  then have "find_agreement d i = None" by (auto simp: find_agreement_def find_None_iff)
  then show ?thesis
    using filter_eq_singleton_mem[OF one] held_lock_contract_row[of r d] ag(1)
    by (simp add: rolePID_RW[OF opt] getContractLocked_reliable[OF P wf one free] finish_contract_reliable[OF P])
qed

section \<open>Properties\<close>

text \<open>C15: two callers never hold the same negotiation or the same transfer: from a read-write get that answers a row until
  that row is put or released, no other read-write get answers it, whatever it asks for, whatever storage calls are made in between, with or without success,
  whatever statements fail, and whatever others do to the database that do not give the row back themselves. Putting and releasing, when they
  succeed, unlock exactly the row of the key they are given. A read-only get takes no lock and asks for none.\<close>

theorem lock_exclusion:
  assumes "wf_db d"
  shows "(WithRW \<in> set o1 \<and> WithRW \<in> set o2 \<and> GetContract L P o1 d = (d1, OK x) \<and> contract_respected (n_internal_id x) P
      \<and> list_all (\<lambda>c. storable c \<and> contract_given_back c \<noteq> Some (n_internal_id x)) cs
      \<and> GetContract L P o2 (fold (after_call L P) cs d1) = (d2, OK y) \<longrightarrow> n_internal_id y \<noteq> n_internal_id x)
    \<and> (T_WithRW \<in> set p1 \<and> T_WithRW \<in> set p2 \<and> GetTransfer L P p1 d = (d3, OK v) \<and> transfer_respected (r_internal_id v) P
      \<and> list_all (\<lambda>c. storable c \<and> transfer_given_back c \<noteq> Some (r_internal_id v)) cs
      \<and> GetTransfer L P p2 (fold (after_call L P) cs d3) = (d4, OK w) \<longrightarrow> r_internal_id w \<noteq> r_internal_id v)
    \<and> (PutContract L P cn d = (d', OK ()) \<or> ReleaseContract L P cn d = (d', OK ()) \<longrightarrow>
         held_contracts d' = held_contracts d - {n_internal_id cn})
    \<and> (PutTransfer L P tr d = (d', OK ()) \<or> ReleaseTransfer L P tr d = (d', OK ()) \<longrightarrow>
         held_transfers d' = held_transfers d - {r_internal_id tr})"
proof (intro conjI impI)
  show "WithRW \<in> set o1 \<and> WithRW \<in> set o2 \<and> GetContract L P o1 d = (d1, OK x) \<and> contract_respected (n_internal_id x) P
      \<and> list_all (\<lambda>c. storable c \<and> contract_given_back c \<noteq> Some (n_internal_id x)) cs
      \<and> GetContract L P o2 (fold (after_call L P) cs d1) = (d2, OK y) \<Longrightarrow> n_internal_id y \<noteq> n_internal_id x"
    using contract_exclusion[OF assms] by blast
  show "T_WithRW \<in> set p1 \<and> T_WithRW \<in> set p2 \<and> GetTransfer L P p1 d = (d3, OK v) \<and> transfer_respected (r_internal_id v) P
      \<and> list_all (\<lambda>c. storable c \<and> transfer_given_back c \<noteq> Some (r_internal_id v)) cs
      \<and> GetTransfer L P p2 (fold (after_call L P) cs d3) = (d4, OK w) \<Longrightarrow> r_internal_id w \<noteq> r_internal_id v"
    using transfer_exclusion[OF assms] by blast
  show "PutContract L P cn d = (d', OK ()) \<or> ReleaseContract L P cn d = (d', OK ()) \<Longrightarrow>
      held_contracts d' = held_contracts d - {n_internal_id cn}"
    using contract_put_unlocks[OF assms] ReleaseContract_held by blast
  show "PutTransfer L P tr d = (d', OK ()) \<or> ReleaseTransfer L P tr d = (d', OK ()) \<Longrightarrow>
      held_transfers d' = held_transfers d - {r_internal_id tr}"
    using transfer_put_unlocks[OF assms] ReleaseTransfer_held by blast
qed

text \<open>C16: every storage operation keeps the database well-formed: keys are unique and below the next
  key, and no two negotiations share a provider PID, a consumer PID or an agreement, and no two
  transfers a PID.\<close>

theorem store_invariant:
  assumes "wf_db d" and "sane P" and "0 \<le> n_internal_id cn" and "0 \<le> r_internal_id tr"
  shows "wf_db (fst (GetContract L P co d)) \<and> wf_db (fst (GetTransfer L P ro d))
    \<and> wf_db (fst (PutContract L P cn d)) \<and> wf_db (fst (ReleaseContract L P cn d))
    \<and> wf_db (fst (PutTransfer L P tr d)) \<and> wf_db (fst (ReleaseTransfer L P tr d))
    \<and> wf_db (fst (PutAgreement L P ag d))"
  using assms by (simp add: wf_GetContract wf_GetTransfer wf_PutContract wf_ReleaseContract
      wf_PutTransfer wf_ReleaseTransfer wf_PutAgreement)

text \<open>A new negotiation that was stored is found again under its own PID and role, for writing:
  the same negotiation, locked, under the key it was given.\<close>

theorem put_then_get:
  assumes "uuid_laws L" and "n_forms_ok L cn" and "reliable P" and "wf_db d"
    and "n_internal_id cn = 0" and "\<not> n_ro cn" and "n_modified cn" and "n_agreement cn = None"
    and "n_GetLocalPID cn = OK pid" and "pid \<noteq> emptyUUID"
    and "PutContract L (quiet P) cn d = (d1, OK ())" and "WithRolePID pid (n_role cn) = OK opt"
  shows "snd (GetContract L (quiet P) [WithRW, opt] d1) =
    OK (cn\<lparr>n_initial := False, n_modified := False, n_newAgreement := False, n_locked := True,
           n_internal_id := next_contract d\<rparr>)"
  by (rule put_get_contract[OF assms])

text \<open>A negotiation stored with an agreement identifier that is a UUID but not in URN form is lost:
  agreements are stored under the URN, so taking the negotiation for writing finds its row, locks
  it, fails on the agreement, and leaves the lock behind.\<close>

theorem unnormalised_agreement_leaks_lock:
  assumes "uuid_laws L" and "reliable P" and "wf_db d"
    and "filter (contract_where L (newNegotiationParamBuilder [WithRW, opt]) None) (contracts d) = [r]"
    and "WithRolePID pid rl = OK opt" and "\<not> c_Locked r"
    and "c_AgreementID r = Some i" and "uuid_Parse L i = Some u" and "i \<noteq> uuid_URN L u"
    and "\<forall>a \<in> set (agreements d). \<exists>v. a_ID a = uuid_URN L v"
  shows "snd (GetContract L (quiet P) [WithRW, opt] d) = ERR no_rows
    \<and> c_ID r \<in> held_contracts (fst (GetContract L (quiet P) [WithRW, opt] d))"
  by (rule unnormalised_agreement_lost[OF assms])

section \<open>Examples\<close>

definition sample_new :: negotiation where
  "sample_new = sample_negotiation DataspaceProvider C_INITIAL\<lparr>n_internal_id := 0\<rparr>"

definition sample_row :: contract_row where
  "sample_row = \<lparr>c_ID = 1, c_ProviderPID = Some (uuid_URN sample_lib 2), c_ConsumerPID = Some (uuid_URN sample_lib 3),
     c_AgreementID = None, c_Agreement = None, c_Offer = ''{}'', c_State = ''INITIAL'', c_CallbackURL = ''/dsp'',
     c_SelfURL = ''/dsp'', c_Role = ''Provider'', c_AutoAccept = True, c_RequesterInfo = Some ''{}'',
     c_TraceInfo = ''{}'', c_Locked = False\<rparr>"

definition sample_db :: db where
  "sample_db = empty_db\<lparr>contracts := [sample_row], next_contract := 2, clock := 1\<rparr>"

lemma New_backend_reliable [simp]: "reliable New_backend"
  by (simp add: reliable_def New_backend_def)

lemma sample_pid_column [simp]:
  "pid_column sample_lib 2 = Some (uuid_URN sample_lib 2)" "pid_column sample_lib 3 = Some (uuid_URN sample_lib 3)"
  using pid_column_Some[OF sample_lib_laws] by simp_all

lemma sample_put: "PutContract sample_lib (quiet New_backend) sample_new empty_db = (sample_db, OK ())"
  by (simp add: PutContract_def sample_new_def n_ToModel_def opt_read_def upsert_contract_def upsert_rows_def
      empty_db_def sample_db_def sample_row_def root_url_def)

lemma sample_db_wf [simp]: "wf_db sample_db"
  by (simp add: sample_db_def wf_db_def wf_rows_def empty_db_def sample_row_def)

lemma put_then_get_witness:
  "snd (GetContract sample_lib (quiet New_backend) [WithRW, WithProviderPID 2] sample_db) =
    OK (sample_new\<lparr>n_initial := False, n_modified := False, n_newAgreement := False, n_locked := True,
           n_internal_id := 1\<rparr>)"
proof -
  have "n_forms_ok sample_lib sample_new"
    using sample_negotiation_forms by (simp add: sample_new_def n_forms_ok_def)
  then show ?thesis
    using put_then_get[OF sample_lib_laws _ New_backend_reliable wf_empty_db _ _ _ _ _ _ sample_put, of 2 "WithProviderPID 2"]
    by (simp add: sample_new_def empty_db_def)
qed

lemma store_invariant_witness:
  "wf_db (fst (GetContract sample_lib (quiet New_backend) [WithRW, WithProviderPID 2] sample_db))"
  using store_invariant[OF sample_db_wf, of "quiet New_backend" sample_new
      "sample_transfer DataspaceProvider T_INITIAL DirectionPull" sample_lib "[WithRW, WithProviderPID 2]"]
  by (simp add: sample_new_def)

lemma lock_exclusion_witness:
  "\<nexists>y d2. GetContract sample_lib New_backend [WithRW, WithConsumerPID 3]
      (fold (after_call sample_lib New_backend) [GetsContract [], GetsAgreement None]
        (fst (GetContract sample_lib New_backend [WithRW, WithProviderPID 2] sample_db))) = (d2, OK y)
    \<and> n_internal_id y = 1"
proof -
  have q: "quiet New_backend = New_backend" by (simp add: quiet_def New_backend_def)
  obtain d1 x where g: "GetContract sample_lib New_backend [WithRW, WithProviderPID 2] sample_db = (d1, OK x)"
    "n_internal_id x = 1"
    using put_get_contract[OF sample_lib_laws _ New_backend_reliable wf_empty_db _ _ _ _ _ _ sample_put, of 2 "WithProviderPID 2"]
      sample_negotiation_forms[of DataspaceProvider C_INITIAL]
    unfolding q
    by (cases "GetContract sample_lib New_backend [WithRW, WithProviderPID 2] sample_db")
       (auto simp: sample_new_def empty_db_def n_forms_ok_def)
  have "contract_respected 1 New_backend" by (simp add: contract_respected_def sane_def New_backend_def)
  then show ?thesis
    using lock_exclusion[OF sample_db_wf, of "[WithRW, WithProviderPID 2]" "[WithRW, WithConsumerPID 3]" sample_lib New_backend d1 x
        "[GetsContract [], GetsAgreement None]"] g by auto
qed
definition raw_agreement_db :: db where
  "raw_agreement_db = sample_db\<lparr>contracts := [sample_row\<lparr>c_AgreementID := Some (uuid_String sample_lib 7)\<rparr>]\<rparr>"

lemma unnormalised_agreement_leaks_lock_witness:
  "1 \<in> held_contracts (fst (GetContract sample_lib (quiet New_backend) [WithRW, WithProviderPID 2] raw_agreement_db))"
proof -
  have "wf_db raw_agreement_db"
    by (simp add: raw_agreement_db_def sample_db_def wf_db_def wf_rows_def empty_db_def sample_row_def)
  moreover have "uuid_String sample_lib 7 \<noteq> uuid_URN sample_lib 7"
    using uuid_lawsD(3)[OF sample_lib_laws, of 7] by simp
  moreover have "contract_where sample_lib (newNegotiationParamBuilder [WithRW, WithProviderPID 2]) None
      (sample_row\<lparr>c_AgreementID := Some (uuid_String sample_lib 7)\<rparr>)"
    using rolePID_builder[of 2 DataspaceProvider "WithProviderPID 2" sample_lib] by (simp add: sample_row_def)
  ultimately show ?thesis
    using unnormalised_agreement_leaks_lock[OF sample_lib_laws New_backend_reliable, of raw_agreement_db
        "WithProviderPID 2" "sample_row\<lparr>c_AgreementID := Some (uuid_String sample_lib 7)\<rparr>" 2 DataspaceProvider
        "uuid_String sample_lib 7" 7]
    by (simp add: raw_agreement_db_def sample_db_def sample_row_def empty_db_def)
qed

end
