(* ===== verification/Contract_Handlers.thy ===== *)
theory Contract_Handlers
  imports Store_Facts
begin

text \<open>
  The HTTP handlers of contract negotiations: \<open>dsp/contract_handlers.go\<close> and the error wrapper
  of \<open>dsp/error_wrapper.go\<close>. A handler changes the database, calls services and adds to the
  reconciler's queue, and answers a response, an error for the wrapper, or a panic, which the
  server's recovery middleware turns into a bare 500. The identifiers and times it draws are
  arguments.
\<close>

section \<open>Server state and errors\<close>

record server =
  sv_deps :: deps
  sv_backend :: backend
  sv_selfURL :: url

record sys =
  s_db :: db
  s_effects :: effects

record fresh_values =
  fv_pid :: uuid
  fv_recv :: uuid
  fv_agreement :: uuid
  fv_now :: int
  fv_trace :: TraceInfo

record ContractError =
  ce_status :: nat
  ce_contract :: "negotiation option"
  ce_dspCode :: string
  ce_reason :: string
  ce_err :: string

datatype ('e, 'r) handler_result = Failed 'e | Crashed string | Responded "'r http_response"

type_synonym contract_result = "(ContractError, ContractNegotiation) handler_result"

definition ce_ErrorType :: string where
  "ce_ErrorType = ''dspace:ContractNegotiationError''"

definition ce_ProviderPID :: "'a lib_scheme \<Rightarrow> ContractError \<Rightarrow> string" where
  "ce_ProviderPID L ce = (case ce_contract ce of None \<Rightarrow> [] | Some c \<Rightarrow> uuid_URN L (n_providerPID c))"

definition ce_ConsumerPID :: "'a lib_scheme \<Rightarrow> ContractError \<Rightarrow> string" where
  "ce_ConsumerPID L ce = (case ce_contract ce of None \<Rightarrow> [] | Some c \<Rightarrow> uuid_URN L (n_consumerPID c))"

text \<open>The log line of an error with a negotiation asks for its local PID.\<close>

definition contractError :: "string \<Rightarrow> nat \<Rightarrow> string \<Rightarrow> string \<Rightarrow> negotiation option \<Rightarrow> contract_result" where
  "contractError err statusCode dspCode reason contract =
     (let ce = Failed \<lparr>ce_status = statusCode, ce_contract = contract, ce_dspCode = dspCode,
                       ce_reason = reason, ce_err = err\<rparr>
      in case contract of
           None \<Rightarrow> ce
         | Some c \<Rightarrow> (case n_GetLocalPID c of PANIC p \<Rightarrow> Crashed p | _ \<Rightarrow> ce))"

text \<open>\<open>WrapHandlerWithError\<close>: what the peer receives.\<close>

definition handleHTTPError :: "'a lib_scheme \<Rightarrow> ContractError \<Rightarrow> DSPError http_response" where
  "handleHTTPError L ce =
     (let ml = [\<lparr>ml_Value = ce_reason ce, ml_Language = ''en''\<rparr>]
      in EncodeValid (\<lambda>_. True) (ce_status ce)
           \<lparr>de_Context = GetDSPContext, de_Type = ce_ErrorType, de_ProviderPID = ce_ProviderPID L ce,
            de_ConsumerPID = ce_ConsumerPID L ce, de_Code = ce_dspCode ce, de_Reason = ml,
            de_Description = ml\<rparr>)"

section \<open>Storing a negotiation\<close>

definition store_db :: "sys \<Rightarrow> db \<Rightarrow> sys" where
  "store_db s d = s\<lparr>s_db := d\<rparr>"

definition storeNegotiation :: "'a lib_scheme \<Rightarrow> backend \<Rightarrow> negotiation \<Rightarrow> db \<Rightarrow> db \<times> contract_result option" where
  "storeNegotiation L P neg d =
     (case PutContract L P neg d of
        (d1, PANIC p) \<Rightarrow> (d1, Some (Crashed p))
      | (d1, ERR e) \<Rightarrow>
          (d1, Some (contractError ''couldn't store negotiation'' 500 ''500'' ''Not able to store negotiation'' (Some neg)))
      | (d1, OK _) \<Rightarrow>
          (case n_agreement neg of
             Some ag \<Rightarrow>
               if n_newAgreement neg
               then (case PutAgreement L P ag d1 of
                       (d2, OK _) \<Rightarrow> (d2, None)
                     | (d2, PANIC p) \<Rightarrow> (d2, Some (Crashed p))
                     | (d2, ERR e) \<Rightarrow> (d2, Some (contractError ''couldn't store agreement'' 500 ''500''
                                              ''Not able to store agreement'' (Some neg))))
               else (d1, None)
           | None \<Rightarrow> (d1, None)))"

section \<open>Processing a message\<close>

text \<open>Receiving, and progressing when the negotiation accepts automatically or there is no contract
  service: the negotiation as it was changed, and the function to apply or the failure.\<close>

definition recv_and_send :: "'a lib_scheme \<Rightarrow> deps \<Rightarrow> go_context \<Rightarrow> fresh_values \<Rightarrow> message \<Rightarrow> negotiation
    \<Rightarrow> negotiation \<times> (contract_result + apply_func)" where
  "recv_and_send L d ctx fv msg contract =
     (case contract_Recv L d ctx (fv_recv fv) msg contract of
        (c1, PANIC p) \<Rightarrow> (c1, Inl (Crashed p))
      | (c1, ERR e) \<Rightarrow> (c1, Inl (contractError ''invalid request'' 400 ''400'' ''Invalid request'' (Some c1)))
      | (c1, OK apply) \<Rightarrow>
          if n_autoAccept c1 \<or> d_c d = None
          then (case contract_Send L d ctx (fv_agreement fv) (fv_now fv) c1 of
                  (c2, PANIC p) \<Rightarrow> (c2, Inl (Crashed p))
                | (c2, ERR e) \<Rightarrow> (c2, Inl (contractError ''failed to send'' 500 ''500'' ''Internal error'' (Some c2)))
                | (c2, OK apply2) \<Rightarrow> (c2, Inr apply2))
          else (c1, Inr apply))"

text \<open>The deferred release runs on every path that did not store the negotiation, panics included.\<close>

definition release_deferred :: "'a lib_scheme \<Rightarrow> backend \<Rightarrow> negotiation \<Rightarrow> db \<Rightarrow> db" where
  "release_deferred L P c d = fst (ReleaseContract L P c d)"

definition processMessage :: "'a lib_scheme \<Rightarrow> server \<Rightarrow> go_context \<Rightarrow> fresh_values \<Rightarrow> role \<Rightarrow> uuid \<Rightarrow> message
    \<Rightarrow> sys \<Rightarrow> sys \<times> contract_result" where
  "processMessage L sv ctx fv rl pid msg s =
     (let P = sv_backend sv; d = sv_deps sv in
      case WithRolePID pid rl of
        PANIC p \<Rightarrow> (s, Crashed p)
      | ERR e \<Rightarrow> (s, Crashed (err_msg e))
      | OK opt \<Rightarrow>
     (case GetContract L P [WithRW, opt] (s_db s) of
        (d1, PANIC p) \<Rightarrow> (store_db s d1, Crashed p)
      | (d1, ERR e) \<Rightarrow>
          (store_db s d1, contractError ''contract not found'' 404 ''404'' ''Contract not found'' None)
      | (d1, OK contract) \<Rightarrow>
          (case recv_and_send L d ctx fv msg contract of
             (c, Inl failure) \<Rightarrow> (store_db s (release_deferred L P c d1), failure)
           | (c, Inr apply) \<Rightarrow>
               (case storeNegotiation L P c d1 of
                  (d2, Some failure) \<Rightarrow> (store_db s (release_deferred L P c d2), failure)
                | (d2, None) \<Rightarrow>
                    (case run_apply L d c apply (s_effects s) of
                       (e, PANIC p) \<Rightarrow> (s\<lparr>s_db := d2, s_effects := e\<rparr>, Crashed p)
                     | (e, ERR er) \<Rightarrow> (s\<lparr>s_db := d2, s_effects := e\<rparr>,
                         contractError ''failed to propagate'' 500 ''500'' ''Internal error'' (Some c))
                     | (e, OK _) \<Rightarrow> (s\<lparr>s_db := d2, s_effects := e\<rparr>,
                         Responded (EncodeValid valid_ContractNegotiation 200
                           (GetContractNegotiation_message L c))))))))"

section \<open>Handlers\<close>

text \<open>A request body decoded as the message type the handler expects.\<close>

definition decode_as :: "('t \<Rightarrow> message) \<Rightarrow> ('t \<Rightarrow> bool) \<Rightarrow> 't option \<Rightarrow> message outcome" where
  "decode_as con valid body = obind (DecodeValid valid body) (\<lambda>v. OK (con v))"

definition progressContractState :: "'a lib_scheme \<Rightarrow> server \<Rightarrow> go_context \<Rightarrow> fresh_values \<Rightarrow> role \<Rightarrow> string
    \<Rightarrow> message outcome \<Rightarrow> sys \<Rightarrow> sys \<times> contract_result" where
  "progressContractState L sv ctx fv rl rawPID decoded s =
     (case uuid_Parse L rawPID of
        None \<Rightarrow> (s, contractError ''Invalid PID'' 400 ''400'' ''Invalid request: PID is not a UUID'' None)
      | Some pid \<Rightarrow>
          (case decoded of
             OK msg \<Rightarrow>
               (case ExtractRequesterInfo ctx of
                  OK ri \<Rightarrow> processMessage L sv (SetRequesterInfo ctx ri) fv rl pid msg s
                | PANIC p \<Rightarrow> (s, Crashed p)
                | ERR e \<Rightarrow> (s, Crashed (err_msg e)))
           | _ \<Rightarrow> (s, contractError ''could not decode message'' 400 ''400'' ''Invalid request'' None)))"

definition providerContractStateHandler :: "'a lib_scheme \<Rightarrow> server \<Rightarrow> string \<Rightarrow> sys \<Rightarrow> sys \<times> contract_result" where
  "providerContractStateHandler L sv pathPID s =
     (case uuid_Parse L pathPID of
        None \<Rightarrow> (s, contractError ''invalid provider ID'' 400 ''400'' ''Invalid provider PID'' None)
      | Some providerPID \<Rightarrow>
          (case GetContract L (sv_backend sv) [WithProviderPID providerPID] (s_db s) of
             (d1, OK c) \<Rightarrow> (store_db s d1, Responded (EncodeValid valid_ContractNegotiation 200
                             (GetContractNegotiation_message L c)))
           | (d1, ERR e) \<Rightarrow> (store_db s d1, contractError (err_msg e) 404 ''404'' ''Contract not found'' None)
           | (d1, PANIC p) \<Rightarrow> (store_db s d1, Crashed p)))"

definition providerContractRequestHandler :: "'a lib_scheme \<Rightarrow> server \<Rightarrow> go_context \<Rightarrow> fresh_values
    \<Rightarrow> ContractRequestMessage option \<Rightarrow> sys \<Rightarrow> sys \<times> contract_result" where
  "providerContractRequestHandler L sv ctx fv body s =
     (case DecodeValid valid_ContractRequest body of
        OK contractReq \<Rightarrow>
          (case uuid_Parse L (crm_ConsumerPID contractReq) of
             None \<Rightarrow> (s, contractError ''Invalid consumer ID'' 400 ''400''
                        ''Invalid request: ConsumerPID is not a UUID'' None)
           | Some consumerPID \<Rightarrow>
          (case url_Parse L (crm_CallbackAddress contractReq) of
             None \<Rightarrow> (s, contractError ''Invalid callback URL'' 400 ''400''
                        ''Invalid request: Non-valid callback URL.'' None)
           | Some cbURL \<Rightarrow>
          (case obind (ExtractRequesterInfo ctx) (\<lambda>ri.
                  New_negotiation (fv_trace fv) (fv_pid fv) consumerPID C_INITIAL
                    \<lparr>offer_message = crm_Offer contractReq\<rparr> cbURL (sv_selfURL sv) DataspaceProvider
                    (d_c (sv_deps sv) = None) (Some ri)) of
             OK negotiation \<Rightarrow>
               (case storeNegotiation L (sv_backend sv) negotiation (s_db s) of
                  (d1, Some failure) \<Rightarrow> (store_db s d1, failure)
                | (d1, None) \<Rightarrow>
                    processMessage L sv ctx fv (n_role negotiation) (n_providerPID negotiation)
                      (MContractRequest contractReq) (store_db s d1))
           | PANIC p \<Rightarrow> (s, Crashed p)
           | ERR e \<Rightarrow> (s, Crashed (err_msg e)))))
      | _ \<Rightarrow> (s, contractError ''invalid request message'' 400 ''400'' ''Invalid request'' None))"

definition consumerContractOfferHandler :: "'a lib_scheme \<Rightarrow> server \<Rightarrow> go_context \<Rightarrow> fresh_values
    \<Rightarrow> ContractOfferMessage option \<Rightarrow> sys \<Rightarrow> sys \<times> contract_result" where
  "consumerContractOfferHandler L sv ctx fv body s =
     (case DecodeValid valid_ContractOffer body of
        OK contractOffer \<Rightarrow>
          (case uuid_Parse L (com_ProviderPID contractOffer) of
             None \<Rightarrow> (s, contractError ''Invalid providerPID ID'' 400 ''400''
                        ''Invalid request: ProviderPID is not a UUID'' None)
           | Some providerPID \<Rightarrow>
          (case url_Parse L (com_CallbackAddress contractOffer) of
             None \<Rightarrow> (s, contractError ''Invalid callback URL'' 400 ''400''
                        ''Invalid request: Non-valid callback URL.'' None)
           | Some cbURL \<Rightarrow>
          (case obind (MustParseURL L (url_String L (sv_selfURL sv))) (\<lambda>selfURL.
                obind (ExtractRequesterInfo ctx) (\<lambda>ri.
                  New_negotiation (fv_trace fv) providerPID (fv_pid fv) C_INITIAL
                    \<lparr>offer_message = com_Offer contractOffer\<rparr> cbURL (with_path selfURL [''callback''])
                    DataspaceConsumer (d_c (sv_deps sv) = None) (Some ri))) of
             OK negotiation \<Rightarrow>
               (case storeNegotiation L (sv_backend sv) negotiation (s_db s) of
                  (d1, Some failure) \<Rightarrow> (store_db s d1, failure)
                | (d1, None) \<Rightarrow>
                    processMessage L sv ctx fv (n_role negotiation) (n_consumerPID negotiation)
                      (MContractOffer contractOffer) (store_db s d1))
           | PANIC p \<Rightarrow> (s, Crashed p)
           | ERR e \<Rightarrow> (s, Crashed (err_msg e)))))
      | _ \<Rightarrow> (s, contractError ''invalid request message'' 400 ''400'' ''Invalid request'' None))"

definition providerContractSpecificRequestHandler where
  "providerContractSpecificRequestHandler L sv ctx fv pathPID body =
     progressContractState L sv ctx fv DataspaceProvider pathPID
       (decode_as MContractRequest valid_ContractRequest body)"

definition providerContractEventHandler where
  "providerContractEventHandler L sv ctx fv pathPID body =
     progressContractState L sv ctx fv DataspaceProvider pathPID (decode_as MContractEvent valid_ContractEvent body)"

definition providerContractVerificationHandler where
  "providerContractVerificationHandler L sv ctx fv pathPID body =
     progressContractState L sv ctx fv DataspaceProvider pathPID
       (decode_as MContractVerification valid_ContractVerification body)"

definition consumerContractSpecificOfferHandler where
  "consumerContractSpecificOfferHandler L sv ctx fv pathPID body =
     progressContractState L sv ctx fv DataspaceConsumer pathPID (decode_as MContractOffer valid_ContractOffer body)"

definition consumerContractAgreementHandler where
  "consumerContractAgreementHandler L sv ctx fv pathPID body =
     progressContractState L sv ctx fv DataspaceConsumer pathPID
       (decode_as MContractAgreement valid_ContractAgreement body)"

definition consumerContractEventHandler where
  "consumerContractEventHandler L sv ctx fv pathPID body =
     progressContractState L sv ctx fv DataspaceConsumer pathPID (decode_as MContractEvent valid_ContractEvent body)"

text \<open>A termination is for the provider's negotiation of that PID if there is one, else the consumer's.\<close>

definition contractTerminationHandler :: "'a lib_scheme \<Rightarrow> server \<Rightarrow> go_context \<Rightarrow> fresh_values \<Rightarrow> string
    \<Rightarrow> ContractNegotiationTerminationMessage option \<Rightarrow> sys \<Rightarrow> sys \<times> contract_result" where
  "contractTerminationHandler L sv ctx fv pid body s =
     (let msg = decode_as MContractTermination valid_ContractTermination body in
      case uuid_Parse L pid of
        None \<Rightarrow> (s, contractError ''Invalid PID'' 400 ''400'' ''Invalid request: PID is not a UUID'' None)
      | Some i \<Rightarrow>
          (case GetContract L (sv_backend sv) [WithProviderPID i] (s_db s) of
             (d1, OK c) \<Rightarrow> progressContractState L sv ctx fv DataspaceProvider pid msg (store_db s d1)
           | (d1, ERR e) \<Rightarrow> progressContractState L sv ctx fv DataspaceConsumer pid msg (store_db s d1)
           | (d1, PANIC p) \<Rightarrow> (store_db s d1, Crashed p)))"

end
