(* ===== verification/Store_Session.thy ===== *)
theory Store_Session
  imports Store_Facts
begin

text \<open>
  What a caller that takes a record, works on it, and puts or releases it may rely on: on a backend
  that does not fail, releasing restores the rows exactly, and as long as the record is held it
  can not be taken again.
\<close>

section \<open>Releasing\<close>

text \<open>Encoding a column never fails: what \<open>json.Marshal\<close> promises for these types.\<close>

definition total_codecs :: "'a lib_scheme \<Rightarrow> bool" where
  "total_codecs L \<longleftrightarrow> (\<forall>x. is_OK (Marshal_offer L x)) \<and> (\<forall>x. is_OK (Marshal_agreement L x))
     \<and> (\<forall>x. is_OK (Marshal_requester L x)) \<and> (\<forall>x. is_OK (Marshal_publish L x)) \<and> (\<forall>x. is_OK (Marshal_trace L x))"

lemma opt_read_total: "(\<And>x. is_OK (f x)) \<Longrightarrow> \<exists>v. opt_read f c = OK v"
  by (cases c) (auto simp: opt_read_def is_OK_iff outcome_simps)

lemma total_codecsD:
  assumes "total_codecs L"
  shows "\<exists>t. Marshal_offer L x = OK t" "\<exists>t. Marshal_agreement L a = OK t" "\<exists>t. Marshal_trace L tr = OK t"
    "\<exists>t. opt_read (Marshal_requester L) ri = OK t" "\<exists>t. opt_read (Marshal_publish L) pi = OK t"
  using assms opt_read_total[of "Marshal_requester L" ri] opt_read_total[of "Marshal_publish L" pi]
  by (auto simp: total_codecs_def is_OK_iff)

lemma n_ToModel_total: "total_codecs L \<Longrightarrow> n_role cn \<noteq> RoleInvalid \<Longrightarrow> \<exists>m. n_ToModel L cn = OK m"
  using total_codecsD(1)[of L "n_offer cn"] total_codecsD(3)[of L "n_traceInfo cn"]
    total_codecsD(4)[of L "n_requesterInfo cn"]
  by (cases "n_role cn") (auto simp: n_ToModel_def)

lemma r_ToModel_total: "total_codecs L \<Longrightarrow> r_role tr \<noteq> RoleInvalid \<Longrightarrow> r_transferDirection tr \<noteq> DirectionInvalid
    \<Longrightarrow> \<exists>m. r_ToModel L tr = OK m"
  using total_codecsD(3)[of L "r_traceInfo tr"] total_codecsD(4)[of L "r_requesterInfo tr"]
    total_codecsD(5)[of L "r_publishInfo tr"]
  by (cases "r_role tr"; cases "r_transferDirection tr") (auto simp: r_ToModel_def)

lemma ReleaseContract_reliable:
  assumes "reliable P" "total_codecs L" "n_role cn \<noteq> RoleInvalid"
  shows "ReleaseContract L (quiet P) cn d =
    (d\<lparr>contracts := update_where (\<lambda>r. c_ID r = n_internal_id cn) (\<lambda>r. r\<lparr>c_Locked := False\<rparr>) (contracts d),
       clock := Suc (clock d)\<rparr>, OK ())"
proof -
  obtain m where m: "n_ToModel L cn = OK m" using n_ToModel_total assms(2,3) by blast
  then show ?thesis using n_ToModel_fields[OF m] by (simp add: ReleaseContract_def assms(1))
qed

lemma ReleaseTransfer_reliable:
  assumes "reliable P" "total_codecs L" "r_role tr \<noteq> RoleInvalid" "r_transferDirection tr \<noteq> DirectionInvalid"
  shows "ReleaseTransfer L (quiet P) tr d =
    (d\<lparr>transfers := update_where (\<lambda>r. t_ID r = r_internal_id tr) (\<lambda>r. r\<lparr>t_Locked := False\<rparr>) (transfers d),
       clock := Suc (clock d)\<rparr>, OK ())"
proof -
  obtain m where m: "r_ToModel L tr = OK m" using r_ToModel_total assms(2-4) by blast
  then show ?thesis using r_ToModel_fields[OF m] by (simp add: ReleaseTransfer_def assms(1))
qed

lemma GetContract_role:
  "WithRolePID pid rl = OK opt \<Longrightarrow> wf_db d \<Longrightarrow> GetContract L (quiet P) [WithRW, opt] d = (d1, OK c) \<Longrightarrow>
     n_role c \<noteq> RoleInvalid \<and> \<not> n_ro c \<and> \<not> n_modified c"
  by (auto simp: rolePID_RW elim!: getContractLocked_OK dest!: n_FromModel_fields)

lemma T_rolePID_RW:
  "T_WithRolePID pid rl = OK opt \<Longrightarrow> GetTransfer L P [T_WithRW, opt] d =
     getTransferLocked L P (newTransferParamBuilder [T_WithRW, opt]) d"
  by (cases rl) (auto simp: GetTransfer_def newTransferParamBuilder_def)

lemma GetTransfer_role:
  "T_WithRolePID pid rl = OK opt \<Longrightarrow> wf_db d \<Longrightarrow> GetTransfer L (quiet P) [T_WithRW, opt] d = (d1, OK c) \<Longrightarrow>
     r_role c \<noteq> RoleInvalid \<and> r_transferDirection c \<noteq> DirectionInvalid \<and> \<not> r_ro c \<and> \<not> r_modified c"
  by (auto simp: T_rolePID_RW elim!: getTransferLocked_OK dest!: r_FromModel_fields)

lemma T_rolePID_builder:
  "T_WithRolePID pid rl = OK opt \<Longrightarrow> transfer_where L (newTransferParamBuilder [T_WithRW, opt]) None r \<longleftrightarrow>
     (if rl = DataspaceConsumer then t_ConsumerPID r else t_ProviderPID r) = Some (uuid_URN L pid)"
  by (cases rl) (auto simp: newTransferParamBuilder_def transfer_where_def when_set_def)

lemma getTransferLocked_reliable:
  assumes "reliable P" and "wf_db d" and one: "filter (transfer_where L q None) (transfers d) = [r]"
    and "\<not> t_Locked r"
  shows "getTransferLocked L (quiet P) q d =
    finish_transfer L (quiet P) (r\<lparr>t_Locked := True\<rparr>) (lock_transfer_row r (Suc (Suc (clock d))) d)"
proof -
  obtain n where n: "lockTimeout P = Suc n" using assms(1) by (cases "lockTimeout P") (auto simp: reliable_def)
  have "lock_transfers L q (d\<lparr>clock := Suc (Suc (clock d))\<rparr>) =
      (lock_transfer_row r (Suc (Suc (clock d))) d, OK (r\<lparr>t_Locked := True\<rparr>))"
    using lock_transfers_one[of L q "d\<lparr>clock := Suc (Suc (clock d))\<rparr>" r] assms by simp
  then show ?thesis by (simp add: getTransferLocked_def assms(1) one n)
qed

section \<open>Holding a record\<close>

lemma wf_db_same_rows: "same_rows d d' \<Longrightarrow> wf_db d' = wf_db d"
  by (simp add: same_rows_def wf_db_def)

lemma same_rows_sym: "same_rows d d' \<Longrightarrow> same_rows d' d"
  by (simp add: same_rows_def)

lemma GetContract_row:
  assumes "GetContract L (quiet P) [WithRW, opt] d = (d1, OK cn)" and "wf_db d" and "WithRolePID pid rl = OK opt"
  obtains r k where "filter (contract_where L (newNegotiationParamBuilder [WithRW, opt]) None) (contracts d) = [r]"
    "r \<in> set (contracts d)" "\<not> c_Locked r" "d1 = lock_contract_row r k d" "n_internal_id cn = c_ID r"
    "contract_ParseState (ArgString (c_State r)) = OK (n_state cn)"
proof -
  obtain r k where r: "filter (contract_where L (newNegotiationParamBuilder [WithRW, opt]) None) (contracts d) = [r]"
      "\<not> c_Locked r" "d1 = lock_contract_row r k d"
      "n_FromModel L (join_agreement d (r\<lparr>c_Locked := True\<rparr>)) False = OK cn"
    using assms(1) by (auto simp: rolePID_RW[OF assms(3)] elim: getContractLocked_OK[OF _ assms(2)])
  then show thesis
    using that[of r k] filter_eq_singleton_mem[OF r(1)] n_FromModel_fields[OF r(4)] by (simp add: join_agreement_def)
qed

lemma GetTransfer_row:
  assumes "GetTransfer L (quiet P) [T_WithRW, opt] d = (d1, OK tr)" and "wf_db d" and "T_WithRolePID pid rl = OK opt"
  obtains r k where "filter (transfer_where L (newTransferParamBuilder [T_WithRW, opt]) None) (transfers d) = [r]"
    "r \<in> set (transfers d)" "\<not> t_Locked r" "d1 = lock_transfer_row r k d" "r_internal_id tr = t_ID r"
    "transfer_ParseState (ArgString (t_State r)) = OK (r_state tr)"
proof -
  obtain r k a where r: "filter (transfer_where L (newTransferParamBuilder [T_WithRW, opt]) None) (transfers d) = [r]"
      "\<not> t_Locked r" "d1 = lock_transfer_row r k d"
      "r_FromModel L (r\<lparr>t_Locked := True, t_Agreement := a\<rparr>) False = OK tr"
    using assms(1) by (auto simp: T_rolePID_RW[OF assms(3)] elim: getTransferLocked_OK[OF _ assms(2)])
  then show thesis
    using that[of r k] filter_eq_singleton_mem[OF r(1)] r_FromModel_fields[OF r(4)] by simp
qed

lemma release_restores_contract:
  assumes "GetContract L (quiet P) [WithRW, opt] d = (d1, OK cn)" and "wf_db d" and "WithRolePID pid rl = OK opt"
    and "reliable P" and "total_codecs L" and "same_rows d1 d2" and "n_internal_id c = n_internal_id cn"
    and "n_role c \<noteq> RoleInvalid"
  shows "\<exists>d3. ReleaseContract L (quiet P) c d2 = (d3, OK ()) \<and> same_rows d d3"
proof -
  obtain r k where r: "r \<in> set (contracts d)" "\<not> c_Locked r" "d1 = lock_contract_row r k d" "n_internal_id cn = c_ID r"
    by (rule GetContract_row[OF assms(1-3)])
  have "distinct (map c_ID (contracts d))" using assms(2) by (simp add: wf_db_def wf_rows_def)
  from crows.lock_then_unlock[OF this r(1,2)] show ?thesis
    using assms(6,7) r(3,4) by (simp add: ReleaseContract_reliable[OF assms(4,5,8)] same_rows_def lock_contract_row_def)
qed

lemma release_restores_transfer:
  assumes "GetTransfer L (quiet P) [T_WithRW, opt] d = (d1, OK tr)" and "wf_db d" and "T_WithRolePID pid rl = OK opt"
    and "reliable P" and "total_codecs L" and "same_rows d1 d2" and "r_internal_id t = r_internal_id tr"
    and "r_role t \<noteq> RoleInvalid" and "r_transferDirection t \<noteq> DirectionInvalid"
  shows "\<exists>d3. ReleaseTransfer L (quiet P) t d2 = (d3, OK ()) \<and> same_rows d d3"
proof -
  obtain r k where r: "r \<in> set (transfers d)" "\<not> t_Locked r" "d1 = lock_transfer_row r k d" "r_internal_id tr = t_ID r"
    by (rule GetTransfer_row[OF assms(1-3)])
  have "distinct (map t_ID (transfers d))" using assms(2) by (simp add: wf_db_def wf_rows_def)
  from trows.lock_then_unlock[OF this r(1,2)] show ?thesis
    using assms(6,7) r(3,4) by (simp add: ReleaseTransfer_reliable[OF assms(4,5,8,9)] same_rows_def lock_transfer_row_def)
qed

text \<open>A loop whose update never finds a free row ends with an error and changes nothing.\<close>

lemma lock_loop_no_rows:
  "(\<And>k. upd (d\<lparr>clock := k\<rparr>) = (d\<lparr>clock := k\<rparr>, ERR no_rows)) \<Longrightarrow>
     \<exists>d' e. lock_loop (quiet P) upd fin n d = (d', ERR e) \<and> same_rows d d'"
proof (induction n arbitrary: d)
  case 0
  show ?case by simp
next
  case (Suc n)
  obtain d' e where "lock_loop (quiet P) upd fin n (d\<lparr>clock := Suc (clock d)\<rparr>) = (d', ERR e)" "same_rows d d'"
    using Suc.IH[of "d\<lparr>clock := Suc (clock d)\<rparr>"] Suc.prems by (auto simp: same_rows_def)
  then show ?case using Suc.prems by (cases "fault P (clock d)") (auto simp: exec_def Let_def)
qed

lemma GetContract_again:
  assumes "GetContract L (quiet P) [WithRW, opt] d = (d1, OK cn)" and "wf_db d" and "WithRolePID pid rl = OK opt"
    and "same_rows d1 d2"
  shows "\<exists>d3 e. GetContract L (quiet P) [WithRW, opt] d2 = (d3, ERR e) \<and> same_rows d2 d3"
proof -
  let ?q = "newNegotiationParamBuilder [WithRW, opt]" and ?d = "d2\<lparr>clock := Suc (clock d2)\<rparr>"
  obtain r k where r: "filter (contract_where L ?q None) (contracts d) = [r]" "d1 = lock_contract_row r k d"
    by (rule GetContract_row[OF assms(1-3)])
  have cw: "contract_where L ?q None (x\<lparr>c_Locked := b\<rparr>) = contract_where L ?q None x" for b x
    by (simp add: contract_where_def when_set_def)
  have one: "filter (contract_where L ?q None) (contracts d2) = [r\<lparr>c_Locked := True\<rparr>]"
    using assms(4) crows.filter_after_lock[OF r(1), OF cw] r(2) by (simp add: same_rows_def lock_contract_row_def)
  have wf: "wf_db d2"
    using wf_GetContract[OF _ assms(2), of "quiet P" L "[WithRW, opt]"] assms(1) wf_db_same_rows[OF assms(4)] by simp
  have "\<exists>d3 e. lock_loop (quiet P) (lock_contracts L ?q) (finish_contract L (quiet P)) (lockTimeout P) ?d = (d3, ERR e)
      \<and> same_rows ?d d3"
    using one wf by (intro lock_loop_no_rows) (simp add: lock_contracts_one[where r = "r\<lparr>c_Locked := True\<rparr>"])
  then show ?thesis
    by (auto simp: rolePID_RW[OF assms(3)] getContractLocked_def exec_def Let_def one same_rows_def)
qed

lemma GetTransfer_again:
  assumes "GetTransfer L (quiet P) [T_WithRW, opt] d = (d1, OK tr)" and "wf_db d" and "T_WithRolePID pid rl = OK opt"
    and "same_rows d1 d2"
  shows "\<exists>d3 e. GetTransfer L (quiet P) [T_WithRW, opt] d2 = (d3, ERR e) \<and> same_rows d2 d3"
proof -
  let ?q = "newTransferParamBuilder [T_WithRW, opt]" and ?d = "d2\<lparr>clock := Suc (clock d2)\<rparr>"
  obtain r k where r: "filter (transfer_where L ?q None) (transfers d) = [r]" "d1 = lock_transfer_row r k d"
    by (rule GetTransfer_row[OF assms(1-3)])
  have cw: "transfer_where L ?q None (x\<lparr>t_Locked := b\<rparr>) = transfer_where L ?q None x" for b x
    by (simp add: transfer_where_def when_set_def)
  have one: "filter (transfer_where L ?q None) (transfers d2) = [r\<lparr>t_Locked := True\<rparr>]"
    using assms(4) trows.filter_after_lock[OF r(1), OF cw] r(2) by (simp add: same_rows_def lock_transfer_row_def)
  have wf: "wf_db d2"
    using wf_GetTransfer[OF _ assms(2), of "quiet P" L "[T_WithRW, opt]"] assms(1) wf_db_same_rows[OF assms(4)] by simp
  have "\<exists>d3 e. lock_loop (quiet P) (lock_transfers L ?q) (finish_transfer L (quiet P)) (lockTimeout P) ?d = (d3, ERR e)
      \<and> same_rows ?d d3"
    using one wf by (intro lock_loop_no_rows) (simp add: lock_transfers_one[where r = "r\<lparr>t_Locked := True\<rparr>"])
  then show ?thesis
    by (auto simp: T_rolePID_RW[OF assms(3)] getTransferLocked_def exec_def Let_def one same_rows_def)
qed

section \<open>What a put of a held record leaves\<close>

text \<open>The row of a negotiation that was taken and is put back.\<close>

lemma PutContract_row:
  assumes "PutContract L (quiet P) c d = (d', OK u)" and "reliable P" and "n_modified c" and "\<not> n_ro c"
    and "r \<in> set (contracts d)" and "c_ID r = n_internal_id c" and "n_internal_id c \<noteq> 0"
  shows "\<exists>r' \<in> set (contracts d'). c_ID r' = n_internal_id c \<and> c_State r' = cstate_String (n_state c) \<and> \<not> c_Locked r'"
proof -
  obtain m where m: "n_ToModel L c = OK m" and up: "upsert_contract m (d\<lparr>clock := Suc (clock d)\<rparr>) = (d', OK u)"
    using assms(1-4) by (auto simp: PutContract_def split: outcome.splits)
  have f: "c_ID m = n_internal_id c" "c_State m = cstate_String (n_state c)" "\<not> c_Locked m"
    using n_ToModel_fields[OF m] by simp_all
  have "contracts d' = update_where (\<lambda>r. c_ID r = c_ID m) (contract_excluded m) (contracts d)"
    using up f(1) assms(5-7) by (auto simp: upsert_contract_def upsert_rows_def split: if_splits outcome.splits)
  moreover have "contract_excluded m r \<in> set (update_where (\<lambda>r. c_ID r = c_ID m) (contract_excluded m) (contracts d))"
    using assms(5,6) f(1) by (auto simp: set_update_where)
  ultimately show ?thesis
    using f assms(6) by (intro bexI[of _ "contract_excluded m r"]) (simp_all add: contract_excluded_def)
qed

lemma PutTransfer_row:
  assumes "PutTransfer L (quiet P) c d = (d', OK u)" and "reliable P" and "r_modified c" and "\<not> r_ro c"
    and "r \<in> set (transfers d)" and "t_ID r = r_internal_id c" and "r_internal_id c \<noteq> 0"
  shows "\<exists>r' \<in> set (transfers d'). t_ID r' = r_internal_id c \<and> t_State r' = tstate_String (r_state c) \<and> \<not> t_Locked r'"
proof -
  obtain m where m: "r_ToModel L c = OK m" and up: "upsert_transfer m (d\<lparr>clock := Suc (clock d)\<rparr>) = (d', OK u)"
    using assms(1-4) by (auto simp: PutTransfer_def split: outcome.splits)
  have f: "t_ID m = r_internal_id c" "t_State m = tstate_String (r_state c)" "\<not> t_Locked m"
    using r_ToModel_fields[OF m] by simp_all
  have "transfers d' = update_where (\<lambda>r. t_ID r = t_ID m) (transfer_excluded m) (transfers d)"
    using up f(1) assms(5-7) by (auto simp: upsert_transfer_def upsert_rows_def split: if_splits outcome.splits)
  moreover have "transfer_excluded m r \<in> set (update_where (\<lambda>r. t_ID r = t_ID m) (transfer_excluded m) (transfers d))"
    using assms(5,6) f(1) by (auto simp: set_update_where)
  ultimately show ?thesis
    using f assms(6) by (intro bexI[of _ "transfer_excluded m r"]) (simp_all add: transfer_excluded_def)
qed

end
