(* ===== verification/Contract_Handlers_Facts.thy ===== *)
theory Contract_Handlers_Facts
  imports Contract_Handlers Store_Session
begin

text \<open>
  What the contract handlers guarantee: the lock is given back on every path, a refused message
  leaves the database and the outside world untouched, and an accepted one stores the state the
  protocol assigns to it.
\<close>

section \<open>The identity of a negotiation is never changed\<close>

definition same_identity :: "negotiation \<Rightarrow> negotiation \<Rightarrow> bool" where
  "same_identity c0 c \<longleftrightarrow> n_internal_id c = n_internal_id c0 \<and> n_role c = n_role c0 \<and> n_ro c = n_ro c0"

named_theorems identity_intros \<open>operations keep the identity of a negotiation\<close>

lemma same_identity_refl [simp]: "same_identity c c"
  by (simp add: same_identity_def)

lemma seq_m_identity [identity_intros]:
  "same_identity c0 (fst r) \<Longrightarrow> (\<And>c x. same_identity c0 c \<Longrightarrow> same_identity c0 (fst (k c x)))
     \<Longrightarrow> same_identity c0 (fst (seq_m r k))"
  by (cases "(r, k)" rule: seq_m.cases) auto

lemma set_m_identity [identity_intros]:
  "same_identity c0 c \<Longrightarrow> same_identity c0 (fst (set_m c (n_SetState st c)))"
  "same_identity c0 c \<Longrightarrow> same_identity c0 (fst (set_m c (n_SetProviderPID u c)))"
  "same_identity c0 c \<Longrightarrow> same_identity c0 (fst (set_m c (n_SetConsumerPID u c)))"
  "same_identity c0 c \<Longrightarrow> same_identity c0 (fst (set_m c (n_SetAgreement a c)))"
  "same_identity c0 c \<Longrightarrow> same_identity c0 (fst (set_m c (n_SetCallback L v c)))"
  by (auto simp: same_identity_def n_SetState_def n_SetProviderPID_def n_SetConsumerPID_def
      n_SetAgreement_def n_SetCallback_def n_panicRO_def n_modify_def split: option.split)

lemma flag_identity [identity_intros, simp]:
  "same_identity c0 (n_SetInitial c) = same_identity c0 c" "same_identity c0 (n_UnsetInitial c) = same_identity c0 c"
  by (simp_all add: same_identity_def n_SetInitial_def n_UnsetInitial_def)

lemma verifyAndTransform_identity [identity_intros]:
  "same_identity c0 c \<Longrightarrow> same_identity c0 (fst (verifyAndTransform L c pp cp cb st af))"
  by (auto simp: verifyAndTransform_def intro!: identity_intros)

lemma learn_identity [identity_intros]:
  "same_identity c0 c \<Longrightarrow> same_identity c0 (fst (learn_provider L pid c))"
  "same_identity c0 c \<Longrightarrow> same_identity c0 (fst (learn_consumer L pid c))"
  by (auto simp: learn_provider_def learn_consumer_def intro!: identity_intros split: option.split)

lemma termination_identity [identity_intros]:
  "same_identity c0 c \<Longrightarrow> same_identity c0 (fst (processTermination L d t c))"
  by (auto simp: processTermination_def Let_def intro!: identity_intros)

lemma Initial_Recv_identity: "same_identity c0 c \<Longrightarrow> same_identity c0 (fst (Initial_Recv L d ctx fresh msg c))"
  by (cases msg) (auto simp: processContractRequest_def processContractOffer_def Let_def
      intro!: identity_intros split: outcome.split)

lemma Requested_Recv_identity: "same_identity c0 c \<Longrightarrow> same_identity c0 (fst (Requested_Recv L d ctx msg c))"
  by (cases msg) (auto intro!: identity_intros)

lemma Offered_Recv_identity: "same_identity c0 c \<Longrightarrow> same_identity c0 (fst (Offered_Recv L d ctx msg c))"
  by (cases msg) (auto intro!: identity_intros)

lemma Later_Recv_identity:
  "same_identity c0 c \<Longrightarrow> same_identity c0 (fst (Accepted_Recv L d ctx msg c))"
  "same_identity c0 c \<Longrightarrow> same_identity c0 (fst (Agreed_Recv L d ctx msg c))"
  "same_identity c0 c \<Longrightarrow> same_identity c0 (fst (Verified_Recv L d ctx msg c))"
  by (cases msg; auto intro!: identity_intros)+

lemma contract_Recv_identity: "same_identity c (fst (contract_Recv L d ctx fresh msg c))"
  by (cases "n_state c") (simp_all add: Initial_Recv_identity Requested_Recv_identity Offered_Recv_identity
      Later_Recv_identity)

lemma sendContractAgreement_identity [identity_intros]:
  "same_identity c0 c \<Longrightarrow> same_identity c0 (fst (sendContractAgreement L ctx fresh now c))"
  by (auto simp: sendContractAgreement_def intro!: identity_intros)

lemma contract_Send_identity: "same_identity c0 c \<Longrightarrow> same_identity c0 (fst (contract_Send L d ctx fresh now c))"
  by (cases "n_state c") (auto simp: Requested_Send_def Offered_Send_def Let_def intro!: identity_intros)

lemma recv_and_send_identity:
  assumes "recv_and_send L d ctx fv msg c = (c', r)"
  shows "same_identity c c'"
proof -
  obtain c1 o1 where r1: "contract_Recv L d ctx (fv_recv fv) msg c = (c1, o1)" by force
  obtain c2 o2 where r2: "contract_Send L d ctx (fv_agreement fv) (fv_now fv) c1 = (c2, o2)" by force
  have "same_identity c c1" using contract_Recv_identity[of c L d ctx "fv_recv fv" msg] r1 by simp
  moreover from this have "same_identity c c2"
    using contract_Send_identity[of c c1 L d ctx "fv_agreement fv" "fv_now fv"] r2 by simp
  ultimately show ?thesis
    using assms by (cases o1; cases o2) (auto simp: recv_and_send_def r1 r2 simp del: contract_Recv.simps contract_Send.simps split: if_splits)
qed

section \<open>Locks\<close>

lemma PutAgreement_frame:
  "contracts (fst (PutAgreement L P ag d)) = contracts d \<and> transfers (fst (PutAgreement L P ag d)) = transfers d"
  by (auto simp: PutAgreement_def exec_def Let_def split: outcome.split)

lemma PutAgreement_held: "held_contracts (fst (PutAgreement L P ag d)) = held_contracts d"
  using PutAgreement_frame[of L P ag d] by (simp add: held_contracts_def)

lemma storeNegotiation_held:
  assumes "storeNegotiation L P c d = (d', r)" and "wf_db d"
  shows "held_contracts d' - {n_internal_id c} = held_contracts d - {n_internal_id c}
    \<and> (r = None \<longrightarrow> held_contracts d' = held_contracts d - {n_internal_id c})"
proof -
  obtain d1 o1 where p: "PutContract L P c d = (d1, o1)" by force
  have held1: "held_contracts d1 = (if is_OK o1 then held_contracts d - {n_internal_id c} else held_contracts d)"
    using contract_put_unlocks[OF assms(2), of L P c d1] p
      same_rows_held(1)[OF failed_writes(2), of L P c d] by (cases o1) auto
  have "held_contracts d' = held_contracts d1"
  proof (cases "n_agreement c")
    case (Some ag)
    obtain d2 o2 where a: "PutAgreement L P ag d1 = (d2, o2)" by force
    then have "held_contracts d2 = held_contracts d1" using PutAgreement_held[of L P ag d1] by simp
    then show ?thesis
      using assms(1) by (cases o1; cases o2) (auto simp: storeNegotiation_def p a Some split: if_splits)
  qed (use assms(1) p in \<open>cases o1; auto simp: storeNegotiation_def\<close>)
  moreover have "is_OK o1" if "r = None"
    using assms(1) p that by (cases o1) (auto simp: storeNegotiation_def)
  ultimately show ?thesis using held1 by auto
qed

text \<open>What the theorems on \<open>processMessage\<close> ask of their setting: nobody else is connected, no
  statement fails, and the negotiation was found and taken.\<close>

definition taken :: "'a lib_scheme \<Rightarrow> server \<Rightarrow> backend \<Rightarrow> role \<Rightarrow> uuid \<Rightarrow> sys \<Rightarrow> negotiation_option \<Rightarrow> db \<Rightarrow> negotiation \<Rightarrow> bool" where
  "taken L sv P rl pid s opt d1 cn \<longleftrightarrow> sv_backend sv = quiet P \<and> reliable P \<and> total_codecs L \<and> wf_db (s_db s)
     \<and> WithRolePID pid rl = OK opt \<and> GetContract L (quiet P) [WithRW, opt] (s_db s) = (d1, OK cn)"

lemma takenD:
  assumes "taken L sv P rl pid s opt d1 cn"
  shows "sv_backend sv = quiet P" "reliable P" "total_codecs L" "wf_db (s_db s)" "WithRolePID pid rl = OK opt"
    "GetContract L (quiet P) [WithRW, opt] (s_db s) = (d1, OK cn)" "wf_db d1" "n_role cn \<noteq> RoleInvalid"
    "\<not> n_ro cn" "\<not> n_modified cn" "held_contracts d1 - {n_internal_id cn} = held_contracts (s_db s)"
    "0 \<le> n_internal_id cn"
proof -
  show t: "sv_backend sv = quiet P" "reliable P" "total_codecs L" "wf_db (s_db s)" "WithRolePID pid rl = OK opt"
    "GetContract L (quiet P) [WithRW, opt] (s_db s) = (d1, OK cn)"
    using assms by (auto simp: taken_def)
  show "wf_db d1" using wf_GetContract[OF _ t(4), of "quiet P" L "[WithRW, opt]"] t(6) by simp
  show "n_role cn \<noteq> RoleInvalid" "\<not> n_ro cn" "\<not> n_modified cn" using GetContract_role[OF t(5,4,6)] by simp_all
  show "held_contracts d1 - {n_internal_id cn} = held_contracts (s_db s)" "0 \<le> n_internal_id cn"
    using contract_get_locks[OF t(4), of L P "[opt]" d1 cn] t(6) by auto
qed

lemma release_deferred_held:
  assumes "taken L sv P rl pid s opt d1 cn" and "same_identity cn c"
    and "held_contracts d2 - {n_internal_id cn} = held_contracts d1 - {n_internal_id cn}"
  shows "held_contracts (release_deferred L (quiet P) c d2) = held_contracts (s_db s)"
proof -
  note t = takenD[OF assms(1)]
  have r: "n_role c \<noteq> RoleInvalid" "n_internal_id c = n_internal_id cn"
    using assms(2) t(8) by (simp_all add: same_identity_def)
  have "ReleaseContract L (quiet P) c d2 = (fst (ReleaseContract L (quiet P) c d2), OK ())"
    using ReleaseContract_reliable[OF t(2,3) r(1)] by simp
  then show ?thesis
    using ReleaseContract_held[of L "quiet P" c d2] r(2) assms(3) t(11) by (simp add: release_deferred_def)
qed

lemma processMessage_held:
  assumes "taken L sv P rl pid s opt d1 cn"
  shows "held_contracts (s_db (fst (processMessage L sv ctx fv rl pid msg s))) = held_contracts (s_db s)"
proof -
  note t = takenD[OF assms]
  obtain c r where rs: "recv_and_send L (sv_deps sv) ctx fv msg cn = (c, r)" by force
  have ident: "same_identity cn c" by (rule recv_and_send_identity[OF rs])
  show ?thesis
  proof (cases r)
    case (Inl failure)
    then show ?thesis
      using release_deferred_held[OF assms ident, of d1]
      by (simp add: processMessage_def t(1,5,6) rs store_db_def)
  next
    case (Inr af)
    obtain d2 st where sn: "storeNegotiation L (quiet P) c d1 = (d2, st)" by force
    note h = storeNegotiation_held[OF sn t(7)]
    have i: "n_internal_id c = n_internal_id cn" using ident by (simp add: same_identity_def)
    show ?thesis
    proof (cases st)
      case None
      then show ?thesis
        using h i t(11) by (auto simp: processMessage_def t(1,5,6) rs Inr sn split: outcome.split prod.split)
    next
      case (Some failure)
      then show ?thesis
        using release_deferred_held[OF assms ident, of d2] h i
        by (simp add: processMessage_def t(1,5,6) rs Inr sn store_db_def)
    qed
  qed
qed

section \<open>Refused and accepted messages\<close>

lemma taken_row:
  assumes "taken L sv P rl pid s opt d1 cn"
  obtains r k where "r \<in> set (contracts (s_db s))" "\<not> c_Locked r" "d1 = lock_contract_row r k (s_db s)"
    "n_internal_id cn = c_ID r" "contract_ParseState (ArgString (c_State r)) = OK (n_state cn)"
proof -
  note t = takenD[OF assms]
  obtain r k where r: "filter (contract_where L (newNegotiationParamBuilder [WithRW, opt]) None) (contracts (s_db s)) = [r]"
      "\<not> c_Locked r" "d1 = lock_contract_row r k (s_db s)"
      "n_FromModel L (join_agreement (s_db s) (r\<lparr>c_Locked := True\<rparr>)) False = OK cn"
    using t(6) by (auto simp: rolePID_RW[OF t(5)] elim: getContractLocked_OK[OF _ t(4)])
  show thesis
    using that[of r k] filter_eq_singleton_mem[OF r(1)] r(2,3) n_FromModel_fields[OF r(4)]
    by (simp add: join_agreement_def)
qed

lemma release_taken:
  assumes "taken L sv P rl pid s opt d1 cn" and "same_identity cn c"
  shows "same_rows (s_db s) (release_deferred L (quiet P) c d1)"
proof -
  note t = takenD[OF assms(1)]
  obtain r k where r: "r \<in> set (contracts (s_db s))" "\<not> c_Locked r" "d1 = lock_contract_row r k (s_db s)"
    "n_internal_id cn = c_ID r" by (rule taken_row[OF assms(1)])
  have c: "n_role c \<noteq> RoleInvalid" "n_internal_id c = c_ID r"
    using assms(2) t(8) r(4) by (simp_all add: same_identity_def)
  have "distinct (map c_ID (contracts (s_db s)))" using t(4) by (simp add: wf_db_def wf_rows_def)
  then show ?thesis
    using crows.lock_then_unlock[OF _ r(1,2)]
    by (simp add: release_deferred_def ReleaseContract_reliable[OF t(2,3) c(1)] c(2) r(3)
        lock_contract_row_def same_rows_def)
qed

lemma contractError_cases: "contractError e st c re n = r \<Longrightarrow>
    (\<exists>ce. r = Failed ce \<and> ce_status ce = st) \<or> (\<exists>p. r = Crashed p)"
  by (auto simp: contractError_def Let_def split: option.splits outcome.splits)

lemma contractError_not_Responded [simp]: "contractError e st c re n \<noteq> Responded x"
  by (auto simp: contractError_def Let_def split: option.splits outcome.splits)

lemma contractError_Failed: "contractError e st c re n = Failed ce \<Longrightarrow> ce_status ce = st"
  by (auto simp: contractError_def Let_def split: option.splits outcome.splits)

lemma storeNegotiation_status: "storeNegotiation L P c d = (d', Some (Failed ce)) \<Longrightarrow> ce_status ce = 500"
  by (auto simp: storeNegotiation_def dest!: contractError_Failed split: outcome.splits option.splits
      prod.splits if_splits)

lemma processMessage_refused:
  assumes "taken L sv P rl pid s opt d1 cn" and "processMessage L sv ctx fv rl pid msg s = (s', Failed ce)"
    and "ce_status ce = 400"
  shows "same_rows (s_db s) (s_db s') \<and> s_effects s' = s_effects s"
proof -
  note t = takenD[OF assms(1)]
  obtain c r where rs: "recv_and_send L (sv_deps sv) ctx fv msg cn = (c, r)" by force
  show ?thesis
  proof (cases r)
    case (Inl failure)
    then show ?thesis
      using release_taken[OF assms(1) recv_and_send_identity[OF rs]] assms(2)
      by (auto simp: processMessage_def t(1,5,6) rs store_db_def)
  next
    case (Inr af)
    obtain d2 st where sn: "storeNegotiation L (quiet P) c d1 = (d2, st)" by force
    have "st = Some (Failed ce) \<or> ce_status ce = 500"
      using assms(2) by (auto simp: processMessage_def t(1,5,6) rs Inr sn dest!: contractError_Failed
          split: option.splits outcome.splits prod.splits)
    then have "ce_status ce = 500" using storeNegotiation_status[of L "quiet P" c d1 d2 ce] sn by auto
    with assms(3) show ?thesis by simp
  qed
qed

lemma put_existing_row:
  assumes "wf_db d" and "r \<in> set (contracts d)" and "c_ID r = n_internal_id c" and "n_modified c"
    and "PutContract L P c d = (d', OK u)"
  obtains m where "n_ToModel L c = OK m" "agreements d' = agreements d"
    "contracts d' = update_where (\<lambda>x. c_ID x = n_internal_id c) (contract_excluded m) (contracts d)"
proof -
  obtain m where m: "n_ToModel L c = OK m" and up: "upsert_contract m (d\<lparr>clock := Suc (clock d)\<rparr>) = (d', OK u)"
    using assms(4,5) by (auto simp: PutContract_def exec_OK split: outcome.splits if_splits)
  have "c_ID m = n_internal_id c" using n_ToModel_fields[OF m] by simp
  moreover have "0 < c_ID r" using assms(1,2) by (auto simp: wf_db_def wf_rows_def)
  ultimately show thesis
    using up assms(2,3) by (intro that[OF m])
      (auto simp: upsert_contract_def upsert_rows_def split: outcome.splits if_splits)
qed

lemma recv_and_send_OK:
  assumes "recv_and_send L d ctx fv msg cn = (c, Inr af)"
  shows "recv_target (n_state cn) msg = Some (n_state c) \<and> n_modified c"
proof -
  obtain c1 o1 where r1: "contract_Recv L d ctx (fv_recv fv) msg cn = (c1, o1)" by force
  obtain c2 o2 where r2: "contract_Send L d ctx (fv_agreement fv) (fv_now fv) c1 = (c2, o2)" by force
  obtain a1 where o1: "o1 = OK a1" using assms by (cases o1) (auto simp: recv_and_send_def r1 simp del: contract_Recv.simps)
  note recv = contract_Recv_OK[OF r1[unfolded o1]]
  show ?thesis
  proof (cases "n_autoAccept c1 \<or> d_c d = None")
    case True
    then obtain a2 where "o2 = OK a2" "c = c2"
      using assms by (cases o2) (auto simp: recv_and_send_def r1 o1 r2 simp del: contract_Recv.simps contract_Send.simps)
    then show ?thesis using contract_Send_OK[of L d ctx "fv_agreement fv" "fv_now fv" c1 c2 a2] r2 recv
      by (simp add: send_frame_def)
  next
    case False
    then have "c = c1" using assms by (auto simp: recv_and_send_def r1 o1 simp del: contract_Recv.simps)
    then show ?thesis using recv by simp
  qed
qed

lemma storeNegotiation_put:
  assumes "storeNegotiation L P c d = (d2, None)"
  shows "\<exists>d3. PutContract L P c d = (d3, OK ()) \<and> contracts d2 = contracts d3"
proof -
  obtain d3 o3 where p: "PutContract L P c d = (d3, o3)" by force
  have "o3 = OK ()" using assms by (cases o3) (auto simp: storeNegotiation_def p)
  moreover have "contracts d2 = contracts d3"
    using assms PutAgreement_frame[of L P _ d3] \<open>o3 = OK ()\<close>
    by (auto simp: storeNegotiation_def p split: option.splits if_splits outcome.splits prod.splits) (metis fst_conv)
  ultimately show ?thesis using p by blast
qed

lemma processMessage_accepted:
  assumes "taken L sv P rl pid s opt d1 cn" and "processMessage L sv ctx fv rl pid msg s = (s', Responded resp)"
  obtains c row where "recv_target (n_state cn) msg = Some (n_state c)" "same_identity cn c"
    "resp = EncodeValid valid_ContractNegotiation 200 (GetContractNegotiation_message L c)"
    "row \<in> set (contracts (s_db s'))" "c_ID row = n_internal_id cn" "c_State row = cstate_String (n_state c)"
    "\<not> c_Locked row"
proof -
  note t = takenD[OF assms(1)]
  obtain c r where rs: "recv_and_send L (sv_deps sv) ctx fv msg cn = (c, r)" by force
  note ident = recv_and_send_identity[OF rs]
  have "\<exists>af. r = Inr af"
    using assms(2) rs by (cases r) (auto simp: processMessage_def t(1,5,6) recv_and_send_def split: outcome.splits prod.splits if_splits)
  then obtain af where af: "r = Inr af" ..
  obtain d2 st where sn: "storeNegotiation L (quiet P) c d1 = (d2, st)" by force
  have st: "st = None"
    using assms(2) sn by (cases st) (auto simp: processMessage_def t(1,5,6) rs af storeNegotiation_def
        split: outcome.splits option.splits prod.splits if_splits)
  have resp: "resp = EncodeValid valid_ContractNegotiation 200 (GetContractNegotiation_message L c)" "s_db s' = d2"
    using assms(2) by (auto simp: processMessage_def t(1,5,6) rs af sn st split: outcome.splits prod.splits)
  obtain d3 where put: "PutContract L (quiet P) c d1 = (d3, OK ())" and d2: "contracts d2 = contracts d3"
    using storeNegotiation_put sn st by blast
  obtain row k where row: "row \<in> set (contracts (s_db s))" "d1 = lock_contract_row row k (s_db s)"
    "n_internal_id cn = c_ID row" by (rule taken_row[OF assms(1)])
  have "row\<lparr>c_Locked := True\<rparr> \<in> set (contracts d1)"
    using row by (auto simp: lock_contract_row_def set_update_where)
  moreover have "c_ID (row\<lparr>c_Locked := True\<rparr>) = n_internal_id c" using row(3) ident by (simp add: same_identity_def)
  ultimately obtain m where m: "n_ToModel L c = OK m"
    "contracts d3 = update_where (\<lambda>x. c_ID x = n_internal_id c) (contract_excluded m) (contracts d1)"
    using put_existing_row[OF t(7) _ _ _ put] recv_and_send_OK[OF rs[unfolded af]] by metis
  have "contract_excluded m (row\<lparr>c_Locked := True\<rparr>) \<in> set (contracts (s_db s'))"
    using \<open>row\<lparr>c_Locked := True\<rparr> \<in> set (contracts d1)\<close> row(3) ident
    by (auto simp: resp(2) d2 m(2) set_update_where same_identity_def)
  then show thesis
    using that[OF conjunct1[OF recv_and_send_OK[OF rs[unfolded af]]] ident resp(1)] n_ToModel_fields[OF m(1)] row(3)
    by (simp add: contract_excluded_def)
qed

section \<open>Properties\<close>

text \<open>C11: with a storage whose statements do not fail and that nobody else uses meanwhile, processing a
  message gives the lock back: whatever the message, the services and the state machine do, refusals,
  writes that break a constraint and panics included, the rows that are held afterwards are the rows
  that were held before. (When the statement that gives the lock back fails, the row stays locked.)\<close>

theorem processMessage_releases_lock:
  assumes "sv_backend sv = quiet P" and "reliable P" and "total_codecs L" and "wf_db (s_db s)"
    and "WithRolePID pid rl = OK opt" and "GetContract L (quiet P) [WithRW, opt] (s_db s) = (d1, OK cn)"
  shows "held_contracts (s_db (fst (processMessage L sv ctx fv rl pid msg s))) = held_contracts (s_db s)"
  using processMessage_held[of L sv P rl pid s opt d1 cn] assms by (simp add: taken_def)

text \<open>C21: a message the state machine refuses (status 400) changes nothing: no row of any table, no call
  to the contract service, nothing in the reconciler's queue.\<close>

theorem refused_message_changes_nothing:
  assumes "sv_backend sv = quiet P" and "reliable P" and "total_codecs L" and "wf_db (s_db s)"
    and "WithRolePID pid rl = OK opt" and "GetContract L (quiet P) [WithRW, opt] (s_db s) = (d1, OK cn)"
    and "processMessage L sv ctx fv rl pid msg s = (s', Failed ce)" and "ce_status ce = 400"
  shows "same_rows (s_db s) (s_db s') \<and> s_effects s' = s_effects s"
  using processMessage_refused[of L sv P rl pid s opt d1 cn] assms by (simp add: taken_def)

text \<open>C10: an accepted message is answered with status 200, and the negotiation's row then holds, unlocked,
  exactly the state the protocol assigns to that message in the state before, a move of the
  transition table.\<close>

theorem accepted_message_stored:
  assumes "sv_backend sv = quiet P" and "reliable P" and "total_codecs L" and "wf_db (s_db s)"
    and "WithRolePID pid rl = OK opt" and "GetContract L (quiet P) [WithRW, opt] (s_db s) = (d1, OK cn)"
    and "processMessage L sv ctx fv rl pid msg s = (s', Responded resp)"
  shows "\<exists>st row. status_code resp = 200 \<and> recv_target (n_state cn) msg = Some st
    \<and> st \<in> set (validTransitions (n_state cn)) \<and> row \<in> set (contracts (s_db s'))
    \<and> c_ID row = n_internal_id cn \<and> c_State row = cstate_String st \<and> \<not> c_Locked row"
proof -
  have "taken L sv P rl pid s opt d1 cn" using assms by (simp add: taken_def)
  then show ?thesis
    using processMessage_accepted[OF _ assms(7)] recv_target_valid by (metis EncodeValid_def http_response.select_convs(1))
qed

section \<open>Examples\<close>

definition agreed_row :: contract_row where
  "agreed_row = sample_row\<lparr>c_State := ''dspace:AGREED'', c_AutoAccept := False\<rparr>"

definition agreed_sys :: sys where
  "agreed_sys = \<lparr>s_db = sample_db\<lparr>contracts := [agreed_row]\<rparr>, s_effects = no_effects\<rparr>"

definition agreed_negotiation :: negotiation where
  "agreed_negotiation = sample_negotiation DataspaceProvider C_AGREED
     \<lparr>n_autoAccept := False, n_initial := False, n_modified := False, n_internal_id := 1\<rparr>"

definition sample_server :: server where
  "sample_server = \<lparr>sv_deps = sample_deps\<lparr>d_c := Some (\<lambda>_. OK ())\<rparr>, sv_backend = quiet New_backend,
     sv_selfURL = root_url\<rparr>"

definition sample_fresh :: fresh_values where
  "sample_fresh = \<lparr>fv_pid = 11, fv_recv = 12, fv_agreement = 13, fv_now = 14, fv_trace = zero_trace\<rparr>"

lemma sample_total [simp]: "total_codecs sample_lib"
  by (simp add: total_codecs_def)

lemma sample_server_backend [simp]: "sv_backend sample_server = quiet New_backend"
  by (simp add: sample_server_def)

lemma sample_server_codec: "d_c (sv_deps sample_server) = Some (\<lambda>_. OK ())"
  by (simp add: sample_server_def)

lemma agreed_sys_wf [simp]: "wf_db (s_db agreed_sys)"
  by (simp add: agreed_sys_def agreed_row_def sample_db_def wf_db_def wf_rows_def empty_db_def sample_row_def)

lemma agreed_take:
  "GetContract sample_lib (quiet New_backend) [WithRW, WithProviderPID 2] (s_db agreed_sys)
     = (lock_contract_row agreed_row 3 (s_db agreed_sys), OK agreed_negotiation)"
proof -
  have one: "filter (contract_where sample_lib (newNegotiationParamBuilder [WithRW, WithProviderPID 2]) None)
      (contracts (s_db agreed_sys)) = [agreed_row]"
    using rolePID_builder[of 2 DataspaceProvider "WithProviderPID 2" sample_lib agreed_row]
    by (simp add: agreed_sys_def agreed_row_def sample_row_def)
  have state: "contract_ParseState (ArgString ''dspace:AGREED'') = OK C_AGREED"
    using ParseState_String(1)[of C_AGREED] by simp
  have "n_FromModel sample_lib (join_agreement (lock_contract_row agreed_row 3 (s_db agreed_sys))
      (agreed_row\<lparr>c_Locked := True\<rparr>)) False = OK agreed_negotiation"
    by (simp add: join_agreement_def agreed_row_def sample_row_def n_FromModel_def parse_pid_def state
        ParseRole_Role_String[of DataspaceProvider] opt_read_def agreed_negotiation_def sample_negotiation_def root_url_def)
  moreover have "\<not> c_Locked agreed_row" "c_AgreementID agreed_row = None" "clock (s_db agreed_sys) = 1"
    by (simp_all add: agreed_row_def sample_row_def agreed_sys_def sample_db_def)
  ultimately show ?thesis
    using getContractLocked_reliable[OF New_backend_reliable agreed_sys_wf one]
      rolePID_RW[of 2 DataspaceProvider "WithProviderPID 2" sample_lib "quiet New_backend" "s_db agreed_sys"]
    by (simp add: finish_contract_reliable eval_nat_numeral)
qed

lemma extract_sample: "ExtractRequesterInfo sample_ctx = OK sample_requester"
  by (simp add: sample_ctx_def)

lemma agreed_verify:
  "\<exists>s' resp. processMessage sample_lib sample_server sample_ctx sample_fresh DataspaceProvider 2
     sample_verification agreed_sys = (s', Responded resp)"
proof -
  let ?c = "agreed_negotiation\<lparr>n_callback := root_url, n_modified := True, n_state := C_VERIFIED\<rparr>"
  have recv: "contract_Recv sample_lib (sv_deps sample_server) sample_ctx (fv_recv sample_fresh) sample_verification
      agreed_negotiation = (?c, OK (ApVerificationReceived sample_ctx))"
    by (simp add: agreed_negotiation_def sample_server_def sample_verification_def verifyAndTransform_def
        n_SetCallback_def n_SetState_def n_panicRO_def n_modify_def root_url_def)
  have rs: "recv_and_send sample_lib (sv_deps sample_server) sample_ctx sample_fresh sample_verification
      agreed_negotiation = (?c, Inr (ApVerificationReceived sample_ctx))"
    unfolding recv_and_send_def recv by (simp add: agreed_negotiation_def sample_server_def)
  obtain d2 where put: "PutContract sample_lib (quiet New_backend) ?c (lock_contract_row agreed_row 3 (s_db agreed_sys))
      = (d2, OK ())"
    by (auto simp: PutContract_def agreed_negotiation_def n_ToModel_def opt_read_def upsert_contract_def
        upsert_rows_def lock_contract_row_def agreed_sys_def sample_db_def agreed_row_def sample_row_def)
  have sn: "storeNegotiation sample_lib (quiet New_backend) ?c (lock_contract_row agreed_row 3 (s_db agreed_sys))
      = (d2, None)"
  proof -
    have "n_agreement ?c = None" by (simp add: agreed_negotiation_def)
    then show ?thesis unfolding storeNegotiation_def put by simp
  qed
  show ?thesis
    by (simp add: processMessage_def agreed_take rs sn call_with_def call_service_def sample_server_codec
        extract_sample)
qed

lemma agreed_refuse:
  "\<exists>s' ce. processMessage sample_lib sample_server sample_ctx sample_fresh DataspaceProvider 2
     sample_counter_offer agreed_sys = (s', Failed ce) \<and> ce_status ce = 400"
proof -
  have recv: "contract_Recv sample_lib (sv_deps sample_server) sample_ctx (fv_recv sample_fresh) sample_counter_offer
      agreed_negotiation = (agreed_negotiation, ERR (Errorf ''unsupported message type'' []))"
    by (simp add: agreed_negotiation_def sample_counter_offer_def)
  have rs: "recv_and_send sample_lib (sv_deps sample_server) sample_ctx sample_fresh sample_counter_offer
      agreed_negotiation = (agreed_negotiation, Inl (Failed \<lparr>ce_status = 400, ce_contract = Some agreed_negotiation,
         ce_dspCode = ''400'', ce_reason = ''Invalid request'', ce_err = ''invalid request''\<rparr>))"
    unfolding recv_and_send_def recv by (simp add: contractError_def agreed_negotiation_def)
  show ?thesis by (simp add: processMessage_def agreed_take rs)
qed

lemma agreed_sys_unheld: "held_contracts (s_db agreed_sys) = {}"
  by (auto simp: held_contracts_def locked_of_def agreed_sys_def agreed_row_def sample_row_def)

lemma agreed_sys_effects: "s_effects agreed_sys = no_effects"
  by (simp add: agreed_sys_def)

lemma processMessage_releases_lock_witness:
  "held_contracts (s_db (fst (processMessage sample_lib sample_server sample_ctx sample_fresh DataspaceProvider 2
     sample_verification agreed_sys))) = {}"
  using processMessage_releases_lock[of sample_server New_backend sample_lib agreed_sys 2 DataspaceProvider,
      OF _ _ _ _ _ agreed_take]
  by (simp add: agreed_sys_unheld)

lemma refused_message_changes_nothing_witness:
  "\<exists>s'. fst (processMessage sample_lib sample_server sample_ctx sample_fresh DataspaceProvider 2
     sample_counter_offer agreed_sys) = s' \<and> same_rows (s_db agreed_sys) (s_db s') \<and> s_effects s' = no_effects"
proof -
  obtain s' ce where r: "processMessage sample_lib sample_server sample_ctx sample_fresh DataspaceProvider 2
     sample_counter_offer agreed_sys = (s', Failed ce)" "ce_status ce = 400"
    using agreed_refuse by blast
  show ?thesis
    using refused_message_changes_nothing[of sample_server New_backend sample_lib agreed_sys 2 DataspaceProvider,
        OF _ _ _ _ _ agreed_take r] r(1) agreed_sys_effects
    by simp
qed

lemma accepted_message_stored_witness:
  "\<exists>s' row. fst (processMessage sample_lib sample_server sample_ctx sample_fresh DataspaceProvider 2
     sample_verification agreed_sys) = s' \<and> row \<in> set (contracts (s_db s')) \<and> c_State row = ''dspace:VERIFIED''"
proof -
  obtain s' resp where r: "processMessage sample_lib sample_server sample_ctx sample_fresh DataspaceProvider 2
     sample_verification agreed_sys = (s', Responded resp)"
    using agreed_verify by blast
  show ?thesis
    using accepted_message_stored[of sample_server New_backend sample_lib agreed_sys 2 DataspaceProvider,
        OF _ _ _ _ _ agreed_take r] r
    by (auto simp: agreed_negotiation_def sample_verification_def)
qed

end
