(* ===== verification/Transfer_Machine.thy ===== *)
theory Transfer_Machine
  imports Contract_Machine
begin

text \<open>
  The transfer state machine: \<open>dsp/statemachine/transfer_request_transitions.go\<close> and
  \<open>transfer_messages.go\<close>. The methods change the transfer they are called on and call the provider
  service: a session holds the transfer and the calls made so far. A suspended transfer has no
  state of the machine, and asking for one panics.
\<close>

section \<open>Sessions\<close>

datatype provider_call =
    CallGetDataset string RequesterInfo
  | CallPublishDataset string string RequesterInfo
  | CallShutdownTransfer string RequesterInfo
  | CallReceiveDataset string "RequesterInfo option"

type_synonym session = "transfer_request \<times> provider_call list"

fun put_m :: "session \<Rightarrow> transfer_request outcome \<Rightarrow> session \<times> unit outcome" where
  "put_m (tr, cs) (OK tr') = ((tr', cs), OK ())"
| "put_m (tr, cs) (ERR e) = ((tr, cs), ERR e)"
| "put_m (tr, cs) (PANIC p) = ((tr, cs), PANIC p)"

text \<open>A call: the requester is read from the context before it is made.\<close>

fun call_provider :: "go_context \<Rightarrow> (RequesterInfo \<Rightarrow> provider_call) \<Rightarrow> (RequesterInfo \<Rightarrow> 'a outcome)
    \<Rightarrow> session \<Rightarrow> session \<times> 'a outcome" where
  "call_provider ctx c f (tr, cs) = (case ExtractRequesterInfo ctx of
     OK ri \<Rightarrow> ((tr, cs @ [c ri]), f ri)
   | ERR e \<Rightarrow> ((tr, cs), ERR e)
   | PANIC p \<Rightarrow> ((tr, cs), PANIC p))"

lemma put_m_OK [outcome_simps]:
  "put_m s r = (s', OK x) \<longleftrightarrow> (\<exists>tr'. r = OK tr' \<and> s' = (tr', snd s))"
  by (cases "(s, r)" rule: put_m.cases) auto

lemma put_m_ERR [outcome_simps]: "put_m s r = (s', ERR e) \<longleftrightarrow> r = ERR e \<and> s' = s"
  by (cases "(s, r)" rule: put_m.cases) auto

lemma call_provider_OK [outcome_simps]:
  "call_provider ctx c f s = (s', OK x) \<longleftrightarrow>
     (\<exists>ri. ExtractRequesterInfo ctx = OK ri \<and> f ri = OK x \<and> s' = (fst s, snd s @ [c ri]))"
  by (cases s) (auto split: outcome.splits)

section \<open>Publish information and data addresses\<close>

definition endpoint_property :: "string \<Rightarrow> string \<Rightarrow> EndpointProperty" where
  "endpoint_property n v = \<lparr>ep_Type = ''dspace:EndpointProperty'', ep_Name = n, ep_Value = v\<rparr>"

definition auth_properties :: "PublishInfo \<Rightarrow> EndpointProperty list outcome" where
  "auth_properties pi = (case AuthenticationType pi of
     AUTHENTICATION_TYPE_BASIC \<Rightarrow> OK
       [endpoint_property ''username'' (Username pi), endpoint_property ''password'' (Password pi),
        endpoint_property ''authType'' ''basic'']
   | AUTHENTICATION_TYPE_BEARER \<Rightarrow> OK
       [endpoint_property ''authorization'' (Password pi), endpoint_property ''authType'' ''bearer'']
   | AUTHENTICATION_TYPE_UNSPECIFIED \<Rightarrow> OK []
   | AUTHENTICATION_TYPE_OTHER n \<Rightarrow> PANIC ''unexpected providerv1.AuthenticationType'')"

definition endpoint_type :: "string \<Rightarrow> string" where
  "endpoint_type u =
     (let t = (if HasPrefix u ''https://'' then ''https://w3id.org/idsa/v4.1/HTTPS'' else [])
      in if HasPrefix u ''http://'' then ''https://w3id.org/idsa/v4.1/HTTP'' else t)"

definition publishInfoToDataAddress :: "PublishInfo option \<Rightarrow> DataAddress outcome" where
  "publishInfoToDataAddress p = (case p of
     None \<Rightarrow> PANIC ''nil pointer dereference''
   | Some pi \<Rightarrow> obind (auth_properties pi) (\<lambda>props. OK
       \<lparr>da_Type = ''dspace:DataAddress'', EndpointType = endpoint_type (pi_Url pi), Endpoint = pi_Url pi,
        EndpointProperties = props\<rparr>))"

fun makeEndpointPropertyMap :: "EndpointProperty list \<Rightarrow> (string \<rightharpoonup> string) \<Rightarrow> (string \<rightharpoonup> string) outcome" where
  "makeEndpointPropertyMap [] m = OK m"
| "makeEndpointPropertyMap (e # es) m =
     (if ep_Type e \<noteq> ''dspace:EndpointProperty'' then ERR (Errorf ''invalid endpoint property'' [])
      else makeEndpointPropertyMap es (m(ep_Name e \<mapsto> ep_Value e)))"

text \<open>Indexing a Go map gives the zero value for a missing key.\<close>

definition map_index :: "(string \<rightharpoonup> string) \<Rightarrow> string \<Rightarrow> string" where
  "map_index m k = (case m k of None \<Rightarrow> [] | Some v \<Rightarrow> v)"

definition DataAddressToPublishInfo :: "DataAddress option \<Rightarrow> PublishInfo outcome" where
  "DataAddressToPublishInfo da = (case da of
     None \<Rightarrow> PANIC ''nil pointer dereference''
   | Some d \<Rightarrow>
      obind (makeEndpointPropertyMap (EndpointProperties d) Map.empty) (\<lambda>p.
      let pi = \<lparr>pi_Url = Endpoint d, AuthenticationType = AUTHENTICATION_TYPE_UNSPECIFIED,
                Username = [], Password = []\<rparr>
      in case p ''authType'' of
           None \<Rightarrow> OK pi
         | Some authType \<Rightarrow>
             if authType = ''bearer''
             then OK (pi\<lparr>AuthenticationType := AUTHENTICATION_TYPE_BEARER, Password := map_index p ''authorization''\<rparr>)
             else if authType = ''basic''
             then OK (pi\<lparr>AuthenticationType := AUTHENTICATION_TYPE_BASIC, Username := map_index p ''username'',
                        Password := map_index p ''password''\<rparr>)
             else ERR (Errorf (''unsupported authentication type: '' @ authType) [])))"

section \<open>Outgoing messages\<close>

text \<open>The function panics where its inner one fails.\<close>

definition makeTransferRequestFunction ::
  "go_context \<Rightarrow> transfer_request \<Rightarrow> url \<Rightarrow> message \<Rightarrow> tstate \<Rightarrow> apply_func" where
  "makeTransferRequestFunction ctx t cu reqBody destinationState =
     makeRequestFunction ctx cu reqBody
       (if r_role t = DataspaceConsumer then r_consumerPID t else r_providerPID t)
       (r_role t) (tstate_String destinationState) ReconciliationTransferRequest
       (GetExternalId (r_requesterInfo t))"

definition sendTransferRequest :: "'a lib_scheme \<Rightarrow> go_context \<Rightarrow> transfer_request \<Rightarrow> apply_func outcome" where
  "sendTransferRequest L ctx tr =
     obind (if r_transferDirection tr = DirectionPush
            then (if r_publishInfo tr = None
                  then ERR (Errorf ''push transfer request without publishinfo attempted'' [])
                  else obind (publishInfoToDataAddress (r_publishInfo tr)) (\<lambda>a. OK (Some a)))
            else OK None) (\<lambda>da.
     obind (ValidateAndMarshal valid_TransferRequest
        \<lparr>trm_Context = GetDSPContext, trm_Type = ''dspace:TransferRequestMessage'',
         trm_AgreementID = uuid_URN L (r_agreementID tr), trm_Format = r_format tr, trm_DataAddress = da,
         trm_CallbackAddress = url_String L (r_self tr), trm_ConsumerPID = uuid_URN L (r_consumerPID tr)\<rparr>) (\<lambda>reqBody.
     obind (cloneURL L (r_callback tr)) (\<lambda>cu.
     OK (makeTransferRequestFunction ctx tr (with_path cu [''transfers'', ''request''])
           (MTransferRequest reqBody) T_REQUESTED))))"

definition peer_pid :: "'a lib_scheme \<Rightarrow> transfer_request \<Rightarrow> string" where
  "peer_pid L tr = uuid_String L (if r_role tr = DataspaceConsumer then r_providerPID tr else r_consumerPID tr)"

text \<open>The address is made before the direction is looked at, and once more for a pull.\<close>

definition sendTransferStart :: "'a lib_scheme \<Rightarrow> go_context \<Rightarrow> transfer_request \<Rightarrow> apply_func outcome" where
  "sendTransferStart L ctx tr =
     obind (publishInfoToDataAddress (r_publishInfo tr)) (\<lambda>da.
     obind (if r_transferDirection tr = DirectionPull
            then (if r_publishInfo tr = None
                  then ERR (Errorf ''pull transfer start without publishinfo attempted'' [])
                  else publishInfoToDataAddress (r_publishInfo tr))
            else OK da) (\<lambda>da'.
     obind (ValidateAndMarshal valid_TransferStart
        \<lparr>tsm_Context = GetDSPContext, tsm_Type = ''dspace:TransferStartMessage'',
         tsm_ProviderPID = uuid_URN L (r_providerPID tr), tsm_ConsumerPID = uuid_URN L (r_consumerPID tr),
         tsm_DataAddress = Some da'\<rparr>) (\<lambda>reqBody.
     obind (cloneURL L (r_callback tr)) (\<lambda>cu.
     OK (makeTransferRequestFunction ctx tr (with_path cu [''transfers'', peer_pid L tr, ''start''])
           (MTransferStart reqBody) T_STARTED)))))"

definition sendTransferCompletion :: "'a lib_scheme \<Rightarrow> go_context \<Rightarrow> transfer_request \<Rightarrow> apply_func outcome" where
  "sendTransferCompletion L ctx tr =
     obind (ValidateAndMarshal valid_TransferCompletion
        \<lparr>tcm_Context = GetDSPContext, tcm_Type = ''dspace:TransferCompletionMessage'',
         tcm_ProviderPID = uuid_URN L (r_providerPID tr), tcm_ConsumerPID = uuid_URN L (r_consumerPID tr)\<rparr>) (\<lambda>reqBody.
     obind (cloneURL L (r_callback tr)) (\<lambda>cu.
     OK (makeTransferRequestFunction ctx tr (with_path cu [''transfers'', peer_pid L tr, ''completion''])
           (MTransferCompletion reqBody) T_COMPLETED)))"

section \<open>Receiving\<close>

text \<open>The states of the machine, named by the state of the transfer they are for.\<close>

definition GetTransferRequestNegotiation :: "transfer_request \<Rightarrow> tstate outcome" where
  "GetTransferRequestNegotiation tr = (if r_state tr = T_SUSPENDED
     then PANIC (''No transition found for state '' @ tstate_String (r_state tr)) else OK (r_state tr))"

definition verifyAndTransformTransfer :: "'a lib_scheme \<Rightarrow> string \<Rightarrow> string \<Rightarrow> tstate \<Rightarrow> session
    \<Rightarrow> session \<times> tstate outcome" where
  "verifyAndTransformTransfer L providerPID consumerPID targetState s =
     (if uuid_URN L (r_providerPID (fst s)) \<noteq> ToLower providerPID
      then (s, ERR (Errorf ''given provider pid does not match transfer provider pid'' []))
      else if uuid_URN L (r_consumerPID (fst s)) \<noteq> ToLower consumerPID
      then (s, ERR (Errorf ''given consumer pid does not match transfer consumer pid'' []))
      else seq_m (put_m s (r_SetState targetState (fst s))) (\<lambda>s1 _.
           (s1, GetTransferRequestNegotiation (fst s1))))"

text \<open>A transfer that is pulled is published by the provider, one that is pushed by the consumer.\<close>

definition unpublishTransfer :: "'a lib_scheme \<Rightarrow> deps \<Rightarrow> go_context \<Rightarrow> session \<Rightarrow> session \<times> unit outcome" where
  "unpublishTransfer L d ctx s =
     (let tr = fst s;
          shutdown = (\<lambda>pid. call_provider ctx (CallShutdownTransfer (uuid_String L pid))
                              (ShutdownTransfer (d_p d) (uuid_String L pid)) s)
      in case r_transferDirection tr of
           DirectionPull \<Rightarrow> if r_role tr = DataspaceProvider then shutdown (r_providerPID tr) else (s, OK ())
         | DirectionPush \<Rightarrow> if r_role tr = DataspaceConsumer then shutdown (r_consumerPID tr) else (s, OK ())
         | DirectionUnknown \<Rightarrow> (s, ERR (Errorf ''unknown transfer direction'' []))
         | DirectionInvalid \<Rightarrow> (s, PANIC ''unexpected statemachine.TransferDirection''))"

text \<open>A pulled target is looked up at the provider service first.\<close>

definition check_target :: "deps \<Rightarrow> go_context \<Rightarrow> session \<Rightarrow> session \<times> unit outcome" where
  "check_target d ctx s = (if r_format (fst s) = ''HTTP_PULL''
     then (case call_provider ctx (CallGetDataset (r_target (fst s))) (GetDataset (d_p d) (r_target (fst s))) s of
             (s1, ERR e) \<Rightarrow> (s1, ERR (wrapf ''could not find target'' e))
           | r \<Rightarrow> r)
     else (s, OK ()))"

text \<open>The provider draws its PID when it receives the request; the consumer learns it, and where the
  data is published, from the start message.\<close>

definition draw_provider :: "uuid \<Rightarrow> session \<Rightarrow> session \<times> unit outcome" where
  "draw_provider fresh s = (if r_providerPID (fst s) = emptyUUID
     then put_m s (r_SetProviderPID fresh (fst s)) else (s, OK ()))"

definition take_provider :: "'a lib_scheme \<Rightarrow> string \<Rightarrow> session \<Rightarrow> session \<times> unit outcome" where
  "take_provider L pid s = (if r_providerPID (fst s) = emptyUUID
     then (case uuid_Parse L pid of
             None \<Rightarrow> (s, ERR (Errorf ''invalid UUID for provider PID'' []))
           | Some u \<Rightarrow> put_m s (r_SetProviderPID u (fst s)))
     else (s, OK ()))"

definition take_publish :: "DataAddress option \<Rightarrow> session \<Rightarrow> session \<times> unit outcome" where
  "take_publish da s = (if r_publishInfo (fst s) = None
     then (case DataAddressToPublishInfo da of
             OK pi \<Rightarrow> put_m s (r_SetPublishInfo (Some pi) (fst s))
           | ERR e \<Rightarrow> (s, ERR (Errorf ''invalid dataAddress supplied'' []))
           | PANIC p \<Rightarrow> (s, PANIC p))
     else (s, OK ()))"

fun T_Initial_Recv :: "'a lib_scheme \<Rightarrow> deps \<Rightarrow> go_context \<Rightarrow> uuid \<Rightarrow> message \<Rightarrow> session \<Rightarrow> session \<times> tstate outcome" where
  "T_Initial_Recv L d ctx fresh (MTransferRequest t) s =
     seq_m (check_target d ctx s) (\<lambda>s1 _.
     seq_m (draw_provider fresh s1) (\<lambda>s2 _.
     verifyAndTransformTransfer L (uuid_URN L (r_providerPID (fst s2))) (trm_ConsumerPID t) T_REQUESTED s2))"
| "T_Initial_Recv L d ctx fresh _ s = (s, ERR (Errorf ''invalid message type'' []))"

fun T_Requested_Recv :: "'a lib_scheme \<Rightarrow> message \<Rightarrow> session \<Rightarrow> session \<times> tstate outcome" where
  "T_Requested_Recv L (MTransferStart t) s =
     seq_m (take_provider L (tsm_ProviderPID t) s) (\<lambda>s1 _.
     seq_m (take_publish (tsm_DataAddress t) s1) (\<lambda>s2 _.
     verifyAndTransformTransfer L (tsm_ProviderPID t) (tsm_ConsumerPID t) T_STARTED s2))"
| "T_Requested_Recv L (MTransferTermination t) s =
     verifyAndTransformTransfer L (ttm_ProviderPID t) (ttm_ConsumerPID t) T_TERMINATED s"
| "T_Requested_Recv L _ s = (s, ERR (Errorf ''invalid message type'' []))"

fun T_Started_Recv :: "'a lib_scheme \<Rightarrow> deps \<Rightarrow> go_context \<Rightarrow> message \<Rightarrow> session \<Rightarrow> session \<times> tstate outcome" where
  "T_Started_Recv L d ctx (MTransferCompletion t) s =
     seq_m (unpublishTransfer L d ctx s) (\<lambda>s1 _.
     verifyAndTransformTransfer L (tcm_ProviderPID t) (tcm_ConsumerPID t) T_COMPLETED s1)"
| "T_Started_Recv L d ctx (MTransferTermination t) s =
     verifyAndTransformTransfer L (ttm_ProviderPID t) (ttm_ConsumerPID t) T_TERMINATED s"
| "T_Started_Recv L d ctx _ s = (s, ERR (Errorf ''invalid message type'' []))"

fun transfer_Recv :: "'a lib_scheme \<Rightarrow> deps \<Rightarrow> go_context \<Rightarrow> uuid \<Rightarrow> message \<Rightarrow> session \<Rightarrow> session \<times> tstate outcome" where
  "transfer_Recv L d ctx fresh msg s = (case r_state (fst s) of
     T_INITIAL \<Rightarrow> T_Initial_Recv L d ctx fresh msg s
   | T_REQUESTED \<Rightarrow> T_Requested_Recv L msg s
   | T_STARTED \<Rightarrow> T_Started_Recv L d ctx msg s
   | T_SUSPENDED \<Rightarrow> (s, PANIC ''No transition found for state dspace:SUSPENDED'')
   | T_COMPLETED \<Rightarrow> (s, ERR (Errorf ''this is a final state'' []))
   | T_TERMINATED \<Rightarrow> (s, ERR (Errorf ''this is a final state'' [])))"

section \<open>Sending\<close>

definition T_Initial_Send :: "'a lib_scheme \<Rightarrow> go_context \<Rightarrow> session \<Rightarrow> session \<times> apply_func outcome" where
  "T_Initial_Send L ctx s = (s, sendTransferRequest L ctx (fst s))"

declare T_Initial_Send_def [simp]

definition T_Requested_Send :: "'a lib_scheme \<Rightarrow> deps \<Rightarrow> go_context \<Rightarrow> session \<Rightarrow> session \<times> apply_func outcome" where
  "T_Requested_Send L d ctx s =
     seq_m (case r_transferDirection (fst s) of
        DirectionPull \<Rightarrow>
          seq_m (call_provider ctx (CallPublishDataset (r_target (fst s)) (uuid_String L (r_providerPID (fst s))))
                   (PublishDataset (d_p d) (r_target (fst s)) (uuid_String L (r_providerPID (fst s)))) s) (\<lambda>s1 pi.
          put_m s1 (r_SetPublishInfo pi (fst s1)))
      | DirectionPush \<Rightarrow> (s, OK ())
      | DirectionUnknown \<Rightarrow> (s, ERR (Errorf ''unknown transfer direction'' []))
      | DirectionInvalid \<Rightarrow> (s, PANIC ''unexpected statemachine.TransferDirection'')) (\<lambda>s2 _.
     (s2, sendTransferStart L ctx (fst s2)))"

definition T_Started_Send :: "'a lib_scheme \<Rightarrow> deps \<Rightarrow> go_context \<Rightarrow> session \<Rightarrow> session \<times> apply_func outcome" where
  "T_Started_Send L d ctx s =
     seq_m (unpublishTransfer L d ctx s) (\<lambda>s1 _. (s1, sendTransferCompletion L ctx (fst s1)))"

fun transfer_Send :: "'a lib_scheme \<Rightarrow> deps \<Rightarrow> go_context \<Rightarrow> session \<Rightarrow> session \<times> apply_func outcome" where
  "transfer_Send L d ctx s = (case r_state (fst s) of
     T_INITIAL \<Rightarrow> T_Initial_Send L ctx s
   | T_REQUESTED \<Rightarrow> T_Requested_Send L d ctx s
   | T_STARTED \<Rightarrow> T_Started_Send L d ctx s
   | T_SUSPENDED \<Rightarrow> (s, PANIC ''No transition found for state dspace:SUSPENDED'')
   | T_COMPLETED \<Rightarrow> (s, OK ApNoop)
   | T_TERMINATED \<Rightarrow> (s, OK ApNoop))"

section \<open>What receiving a message does\<close>

lemma verifyAndTransformTransfer_OK [outcome_simps]:
  "verifyAndTransformTransfer L pp cp t s = (s', OK k) \<longleftrightarrow>
     uuid_URN L (r_providerPID (fst s)) = ToLower pp \<and> uuid_URN L (r_consumerPID (fst s)) = ToLower cp
     \<and> \<not> r_ro (fst s) \<and> t \<in> set (validTransferTransitions (r_state (fst s))) \<and> t \<noteq> T_SUSPENDED \<and> k = t
     \<and> s' = ((fst s)\<lparr>r_state := t, r_modified := True\<rparr>, snd s)"
  by (auto simp: verifyAndTransformTransfer_def GetTransferRequestNegotiation_def outcome_simps)

fun transfer_target :: "tstate \<Rightarrow> message \<Rightarrow> tstate option" where
  "transfer_target T_INITIAL (MTransferRequest t) = Some T_REQUESTED"
| "transfer_target T_REQUESTED (MTransferStart t) = Some T_STARTED"
| "transfer_target T_REQUESTED (MTransferTermination t) = Some T_TERMINATED"
| "transfer_target T_STARTED (MTransferCompletion t) = Some T_COMPLETED"
| "transfer_target T_STARTED (MTransferTermination t) = Some T_TERMINATED"
| "transfer_target _ _ = None"

text \<open>The PIDs a transfer message names; a request names only the consumer's.\<close>

fun transfer_pids :: "message \<Rightarrow> (string \<times> string) option" where
  "transfer_pids (MTransferStart t) = Some (tsm_ProviderPID t, tsm_ConsumerPID t)"
| "transfer_pids (MTransferCompletion t) = Some (tcm_ProviderPID t, tcm_ConsumerPID t)"
| "transfer_pids (MTransferTermination t) = Some (ttm_ProviderPID t, ttm_ConsumerPID t)"
| "transfer_pids _ = None"

text \<open>All fields but state and modified mark; provider PID and publish information are kept once they are known.\<close>

definition transfer_frame :: "transfer_request \<Rightarrow> transfer_request \<Rightarrow> bool" where
  "transfer_frame tr tr' \<longleftrightarrow>
     r_role tr' = r_role tr \<and> r_consumerPID tr' = r_consumerPID tr \<and> r_agreementID tr' = r_agreementID tr
     \<and> r_target tr' = r_target tr \<and> r_format tr' = r_format tr \<and> r_callback tr' = r_callback tr
     \<and> r_self tr' = r_self tr \<and> r_transferDirection tr' = r_transferDirection tr \<and> r_ro tr' = r_ro tr
     \<and> r_requesterInfo tr' = r_requesterInfo tr \<and> r_internal_id tr' = r_internal_id tr
     \<and> r_traceInfo tr' = r_traceInfo tr \<and> r_locked tr' = r_locked tr
     \<and> (r_providerPID tr \<noteq> emptyUUID \<longrightarrow> r_providerPID tr' = r_providerPID tr)
     \<and> (r_publishInfo tr \<noteq> None \<longrightarrow> r_publishInfo tr' = r_publishInfo tr)"

lemma transfer_target_valid:
  "transfer_target st msg = Some st' \<Longrightarrow> st' \<in> set (validTransferTransitions st) \<and> st' \<noteq> T_SUSPENDED"
  by (cases "(st, msg)" rule: transfer_target.cases) auto

lemma unpublish_OK:
  "unpublishTransfer L d ctx s = (s', OK u) \<Longrightarrow> fst s' = fst s \<and> (\<exists>cs. snd s' = snd s @ cs)"
  by (auto simp: unpublishTransfer_def Let_def outcome_simps split: direction.splits if_splits)

lemma draw_provider_OK:
  "draw_provider fresh s = (s', OK u) \<Longrightarrow> transfer_frame (fst s) (fst s') \<and> r_state (fst s') = r_state (fst s)
     \<and> snd s' = snd s \<and> (r_providerPID (fst s) = emptyUUID \<longrightarrow> r_providerPID (fst s') = fresh)"
  by (auto simp: draw_provider_def outcome_simps transfer_frame_def split: if_splits)

lemma take_provider_OK:
  "take_provider L pid s = (s', OK u) \<Longrightarrow> transfer_frame (fst s) (fst s') \<and> r_state (fst s') = r_state (fst s)
     \<and> snd s' = snd s \<and> r_publishInfo (fst s') = r_publishInfo (fst s)
     \<and> (r_providerPID (fst s) = emptyUUID \<longrightarrow> uuid_Parse L pid = Some (r_providerPID (fst s')))"
  by (auto simp: take_provider_def outcome_simps transfer_frame_def split: if_splits option.splits)

lemma take_publish_OK:
  "take_publish da s = (s', OK u) \<Longrightarrow> transfer_frame (fst s) (fst s') \<and> r_state (fst s') = r_state (fst s)
     \<and> snd s' = snd s \<and> r_providerPID (fst s') = r_providerPID (fst s)
     \<and> (r_publishInfo (fst s) = None \<longrightarrow> (\<exists>pi. DataAddressToPublishInfo da = OK pi \<and> r_publishInfo (fst s') = Some pi))"
  by (auto simp: take_publish_def outcome_simps transfer_frame_def split: if_splits outcome.splits)

lemma check_target_OK:
  "check_target d ctx s = (s', OK u) \<Longrightarrow> fst s' = fst s \<and> (\<exists>cs. snd s' = snd s @ cs)"
  by (auto simp: check_target_def outcome_simps split: if_splits prod.splits outcome.splits)

lemma T_Initial_Recv_OK:
  "T_Initial_Recv L d ctx fresh msg s = (s', OK k) \<Longrightarrow> r_state (fst s) = T_INITIAL \<Longrightarrow>
     transfer_target T_INITIAL msg = Some (r_state (fst s')) \<and> transfer_frame (fst s) (fst s')
     \<and> (\<forall>t. msg = MTransferRequest t \<longrightarrow> uuid_URN L (r_consumerPID (fst s)) = ToLower (trm_ConsumerPID t))"
  by (cases msg) (auto simp: seq_m_OK verifyAndTransformTransfer_OK transfer_frame_def
      dest!: check_target_OK draw_provider_OK)

lemma T_Requested_Recv_OK:
  "T_Requested_Recv L msg s = (s', OK k) \<Longrightarrow> r_state (fst s) = T_REQUESTED \<Longrightarrow>
     transfer_target T_REQUESTED msg = Some (r_state (fst s')) \<and> transfer_frame (fst s) (fst s')
     \<and> snd s' = snd s
     \<and> (\<forall>p c. transfer_pids msg = Some (p, c) \<longrightarrow> uuid_URN L (r_providerPID (fst s')) = ToLower p
          \<and> uuid_URN L (r_consumerPID (fst s')) = ToLower c)"
  by (cases msg) (auto simp: seq_m_OK verifyAndTransformTransfer_OK transfer_frame_def
      dest!: take_provider_OK take_publish_OK)

lemma T_Started_Recv_OK:
  "T_Started_Recv L d ctx msg s = (s', OK k) \<Longrightarrow> r_state (fst s) = T_STARTED \<Longrightarrow>
     transfer_target T_STARTED msg = Some (r_state (fst s')) \<and> transfer_frame (fst s) (fst s')
     \<and> (\<forall>p c. transfer_pids msg = Some (p, c) \<longrightarrow> uuid_URN L (r_providerPID (fst s')) = ToLower p
          \<and> uuid_URN L (r_consumerPID (fst s')) = ToLower c)"
  by (cases msg) (auto simp: seq_m_OK verifyAndTransformTransfer_OK transfer_frame_def
      dest!: unpublish_OK)

lemma transfer_Recv_OK:
  assumes "transfer_Recv L d ctx fresh msg s = (s', OK k)"
  shows "transfer_target (r_state (fst s)) msg = Some (r_state (fst s')) \<and> transfer_frame (fst s) (fst s')
    \<and> (\<forall>p c. transfer_pids msg = Some (p, c) \<longrightarrow> uuid_URN L (r_providerPID (fst s')) = ToLower p
          \<and> uuid_URN L (r_consumerPID (fst s')) = ToLower c)
    \<and> (\<forall>t. msg = MTransferRequest t \<longrightarrow> uuid_URN L (r_consumerPID (fst s)) = ToLower (trm_ConsumerPID t))"
proof (cases "r_state (fst s)")
  case T_INITIAL
  with assms have t: "T_Initial_Recv L d ctx fresh msg s = (s', OK k)" by simp
  then have "transfer_pids msg = None" by (cases msg) auto
  with T_Initial_Recv_OK[OF t T_INITIAL] T_INITIAL show ?thesis by simp
next
  case T_REQUESTED
  with assms have t: "T_Requested_Recv L msg s = (s', OK k)" by simp
  then have "\<And>t. msg \<noteq> MTransferRequest t" by auto
  with T_Requested_Recv_OK[OF t T_REQUESTED] T_REQUESTED show ?thesis by simp
next
  case T_STARTED
  with assms have t: "T_Started_Recv L d ctx msg s = (s', OK k)" by simp
  then have "\<And>t. msg \<noteq> MTransferRequest t" by auto
  with T_Started_Recv_OK[OF t T_STARTED] T_STARTED show ?thesis by simp
qed (use assms in simp_all)

text \<open>What is learnt where it was wanting.\<close>

lemma transfer_Recv_learns:
  assumes "transfer_Recv L d ctx fresh msg s = (s', OK k)"
  shows "r_modified (fst s')
    \<and> (\<forall>t. msg = MTransferRequest t \<longrightarrow> r_providerPID (fst s) = emptyUUID \<longrightarrow> r_providerPID (fst s') = fresh)
    \<and> (case msg of MTransferStart t \<Rightarrow> r_publishInfo (fst s) = None \<longrightarrow>
           (\<exists>i. DataAddressToPublishInfo (tsm_DataAddress t) = OK i \<and> r_publishInfo (fst s') = Some i)
         | _ \<Rightarrow> r_publishInfo (fst s') = r_publishInfo (fst s))"
  using assms
  by (cases "r_state (fst s)"; cases msg)
    (auto simp: seq_m_OK outcome_simps draw_provider_def r_setters_rw split: if_splits
      dest!: check_target_OK take_provider_OK take_publish_OK unpublish_OK)

section \<open>What sending does\<close>

lemma sendTransferRequest_OK:
  "sendTransferRequest L ctx tr = OK a \<Longrightarrow> \<exists>e t. a = ApAdd e \<and> Body e = MTransferRequest t
     \<and> TargetState e = tstate_String T_REQUESTED \<and> re_Role e = r_role tr \<and> re_Type e = ReconciliationTransferRequest
     \<and> EntityID e = (if r_role tr = DataspaceConsumer then r_consumerPID tr else r_providerPID tr) \<and> valid_message (Body e)"
  by (auto simp: sendTransferRequest_def makeTransferRequestFunction_def send_simps)

lemma sendTransferStart_OK:
  "sendTransferStart L ctx tr = OK a \<Longrightarrow> \<exists>e t da. a = ApAdd e \<and> Body e = MTransferStart t
     \<and> publishInfoToDataAddress (r_publishInfo tr) = OK da \<and> tsm_DataAddress t = Some da
     \<and> tsm_ProviderPID t = uuid_URN L (r_providerPID tr) \<and> tsm_ConsumerPID t = uuid_URN L (r_consumerPID tr)
     \<and> TargetState e = tstate_String T_STARTED \<and> re_Role e = r_role tr \<and> re_Type e = ReconciliationTransferRequest
     \<and> EntityID e = (if r_role tr = DataspaceConsumer then r_consumerPID tr else r_providerPID tr) \<and> valid_message (Body e)"
  by (auto simp: sendTransferStart_def makeTransferRequestFunction_def send_simps split: if_splits)

lemma sendTransferCompletion_OK:
  "sendTransferCompletion L ctx tr = OK a \<Longrightarrow> \<exists>e t. a = ApAdd e \<and> Body e = MTransferCompletion t
     \<and> TargetState e = tstate_String T_COMPLETED \<and> re_Role e = r_role tr \<and> re_Type e = ReconciliationTransferRequest
     \<and> EntityID e = (if r_role tr = DataspaceConsumer then r_consumerPID tr else r_providerPID tr) \<and> valid_message (Body e)"
  by (auto simp: sendTransferCompletion_def makeTransferRequestFunction_def send_simps)

lemma T_Requested_Send_OK:
  "T_Requested_Send L d ctx s = (s', OK a) \<Longrightarrow>
     sendTransferStart L ctx (fst s') = OK a \<and>
     (fst s' = fst s \<or> r_transferDirection (fst s) = DirectionPull \<and>
       (\<exists>pi. fst s' = (fst s)\<lparr>r_publishInfo := pi, r_modified := True\<rparr>))"
  by (auto simp: T_Requested_Send_def outcome_simps split: direction.splits)

lemma T_Started_Send_OK:
  "T_Started_Send L d ctx s = (s', OK a) \<Longrightarrow> sendTransferCompletion L ctx (fst s') = OK a \<and> fst s' = fst s"
  by (auto simp: T_Started_Send_def outcome_simps dest!: unpublish_OK)

lemma transfer_Send_OK:
  assumes "transfer_Send L d ctx s = (s', OK a)"
  shows "r_state (fst s') = r_state (fst s) \<and> r_providerPID (fst s') = r_providerPID (fst s)
    \<and> r_consumerPID (fst s') = r_consumerPID (fst s) \<and> r_role (fst s') = r_role (fst s)
    \<and> (transfer_final (r_state (fst s)) \<and> a = ApNoop
       \<or> (\<exists>e st. a = ApAdd e \<and> valid_message (Body e) \<and> transfer_target (r_state (fst s)) (Body e) = Some st
            \<and> TargetState e = tstate_String st \<and> re_Role e = r_role (fst s) \<and> re_Type e = ReconciliationTransferRequest
            \<and> EntityID e = (if r_role (fst s) = DataspaceConsumer then r_consumerPID (fst s) else r_providerPID (fst s))))"
proof (cases "r_state (fst s)")
  case T_INITIAL
  with assms show ?thesis by (auto dest!: sendTransferRequest_OK)
next
  case T_REQUESTED
  with assms have "T_Requested_Send L d ctx s = (s', OK a)" by simp
  from T_Requested_Send_OK[OF this] T_REQUESTED show ?thesis by (auto dest!: sendTransferStart_OK)
next
  case T_STARTED
  with assms have "T_Started_Send L d ctx s = (s', OK a)" by simp
  from T_Started_Send_OK[OF this] T_STARTED show ?thesis by (auto dest!: sendTransferCompletion_OK)
qed (use assms in \<open>simp_all add: transfer_final_def\<close>)

section \<open>Where the data is published\<close>

text \<open>What a data address can carry of publish information.\<close>

definition carried :: "PublishInfo \<Rightarrow> bool" where
  "carried pi \<longleftrightarrow> (case AuthenticationType pi of
     AUTHENTICATION_TYPE_UNSPECIFIED \<Rightarrow> Username pi = [] \<and> Password pi = []
   | AUTHENTICATION_TYPE_BASIC \<Rightarrow> True
   | AUTHENTICATION_TYPE_BEARER \<Rightarrow> Username pi = []
   | AUTHENTICATION_TYPE_OTHER n \<Rightarrow> False)"

lemma address_carries:
  "publishInfoToDataAddress (Some pi) = OK da \<Longrightarrow> DataAddressToPublishInfo (Some da) = OK pi \<longleftrightarrow> carried pi"
  by (cases pi; cases "AuthenticationType pi")
     (auto simp: publishInfoToDataAddress_def auth_properties_def DataAddressToPublishInfo_def carried_def
       endpoint_property_def map_index_def outcome_simps Let_def)

lemma address_OTHER: "publishInfoToDataAddress (Some pi) = OK da \<Longrightarrow> AuthenticationType pi \<noteq> AUTHENTICATION_TYPE_OTHER n"
  by (auto simp: publishInfoToDataAddress_def auth_properties_def)

text \<open>The data address a transfer message carries is read back as exactly the publish information
  it was made from if and only if that has an authentication type the code knows, with no user
  name beside a bearer token and no credentials without a type; all other credentials are lost
  on the way, and an unknown type panics.\<close>

theorem publish_info_carried:
  "obind (publishInfoToDataAddress (Some pi)) (\<lambda>da. DataAddressToPublishInfo (Some da)) = OK pi \<longleftrightarrow> carried pi"
proof (cases "publishInfoToDataAddress (Some pi)")
  case (OK da)
  then show ?thesis using address_carries by simp
qed (auto simp: publishInfoToDataAddress_def auth_properties_def carried_def split: auth_type.splits)

section \<open>Properties\<close>

text \<open>C35: a transfer that takes a message moves to the state the protocol assigns to it, a move of the
  transition table; the message named both PIDs (a request the consumer's). A known provider PID
  and known publish information are kept; where they were wanting, a request gives the provider the PID drawn for it and
  a start gives the publish information read from its data address. Apart from these two, the state and the
  modified mark nothing changes (\<open>transfer_frame\<close>). No message ever suspends a transfer.\<close>

theorem transfer_Recv_safe:
  assumes "transfer_Recv L d ctx fresh msg s = (s', OK k)"
  shows "transfer_target (r_state (fst s)) msg = Some (r_state (fst s'))
    \<and> r_state (fst s') \<in> set (validTransferTransitions (r_state (fst s))) \<and> r_state (fst s') \<noteq> T_SUSPENDED
    \<and> transfer_frame (fst s) (fst s') \<and> r_modified (fst s')
    \<and> (\<forall>p c. transfer_pids msg = Some (p, c) \<longrightarrow> uuid_URN L (r_providerPID (fst s')) = ToLower p
          \<and> uuid_URN L (r_consumerPID (fst s')) = ToLower c)
    \<and> (\<forall>t. msg = MTransferRequest t \<longrightarrow> uuid_URN L (r_consumerPID (fst s)) = ToLower (trm_ConsumerPID t)
          \<and> (r_providerPID (fst s) = emptyUUID \<longrightarrow> r_providerPID (fst s') = fresh))
    \<and> (case msg of MTransferStart t \<Rightarrow> r_publishInfo (fst s) = None \<longrightarrow>
           (\<exists>i. DataAddressToPublishInfo (tsm_DataAddress t) = OK i \<and> r_publishInfo (fst s') = Some i)
         | _ \<Rightarrow> r_publishInfo (fst s') = r_publishInfo (fst s))"
  using transfer_Recv_OK[OF assms] transfer_target_valid[of "r_state (fst s)" msg "r_state (fst s')"] transfer_Recv_learns[OF assms] by blast

text \<open>The transfer of a peer that can take a message of \<open>tr\<close>: in the same state, writable and for the same consumer PID; a request
  needs the target at the provider service where it is to be pulled, a start an address that can be read and no other provider PID, and
  a completion the same provider PID and a provider service that shuts the publication down.\<close>

definition ready_transfer :: "'a lib_scheme \<Rightarrow> deps \<Rightarrow> go_context \<Rightarrow> transfer_request \<Rightarrow> message \<Rightarrow> session \<Rightarrow> bool" where
  "ready_transfer L d ctx tr msg s \<longleftrightarrow>
     r_state (fst s) = r_state tr \<and> \<not> r_ro (fst s) \<and> r_consumerPID (fst s) = r_consumerPID tr
     \<and> (case r_state tr of
          T_INITIAL \<Rightarrow> r_format (fst s) = ''HTTP_PULL'' \<longrightarrow>
            (\<exists>ri. ExtractRequesterInfo ctx = OK ri \<and> GetDataset (d_p d) (r_target (fst s)) ri = OK ())
        | T_REQUESTED \<Rightarrow> (r_providerPID (fst s) = emptyUUID \<or> r_providerPID (fst s) = r_providerPID tr)
            \<and> (\<forall>t. msg = MTransferStart t \<longrightarrow> r_publishInfo (fst s) = None \<longrightarrow>
                 (\<exists>i. DataAddressToPublishInfo (tsm_DataAddress t) = OK i))
        | _ \<Rightarrow> r_providerPID (fst s) = r_providerPID tr \<and> snd (unpublishTransfer L d ctx s) = OK ())"

lemma take_provider_peer:
  assumes "uuid_laws L" "\<not> r_ro c" "r_providerPID c = emptyUUID \<or> r_providerPID c = u"
  shows "\<exists>c'. take_provider L (uuid_URN L u) (c, cs) = ((c', cs), OK ()) \<and> r_providerPID c' = u
    \<and> r_consumerPID c' = r_consumerPID c \<and> r_publishInfo c' = r_publishInfo c \<and> r_state c' = r_state c \<and> \<not> r_ro c'"
  using assms by (auto simp: take_provider_def r_setters_rw uuid_lawsD(2)[OF assms(1)])

lemma draw_provider_ready:
  "\<not> r_ro c \<Longrightarrow> \<exists>c'. draw_provider fresh (c, cs) = ((c', cs), OK ()) \<and> r_state c' = r_state c \<and> \<not> r_ro c'
     \<and> r_consumerPID c' = r_consumerPID c"
  by (cases "r_providerPID c = emptyUUID") (simp_all add: draw_provider_def r_setters_rw)

lemma take_publish_ready:
  "\<not> r_ro c \<Longrightarrow> r_publishInfo c = None \<longrightarrow> (\<exists>i. DataAddressToPublishInfo da = OK i) \<Longrightarrow>
     \<exists>c'. take_publish da (c, cs) = ((c', cs), OK ()) \<and> r_providerPID c' = r_providerPID c \<and> r_consumerPID c' = r_consumerPID c
       \<and> r_state c' = r_state c \<and> \<not> r_ro c'"
  by (cases "r_publishInfo c") (auto simp: take_publish_def r_setters_rw)

lemmas transfer_takes = r_setters_rw verifyAndTransformTransfer_def GetTransferRequestNegotiation_def r_SetState_def r_panicRO_def
  r_modify_def

lemma ready_for_request:
  assumes "uuid_laws L" and "transfer_Send L d ctx s = (s', OK (ApAdd e))" and "r_state (fst s) = T_INITIAL"
    and "ready_transfer L d' ctx' (fst s) (Body e) peer"
  shows "\<exists>peer'. transfer_Recv L d' ctx' fresh (Body e) peer = (peer', OK T_REQUESTED) \<and> r_state (fst peer') = T_REQUESTED"
proof -
  obtain t where t: "Body e = MTransferRequest t" "trm_ConsumerPID t = uuid_URN L (r_consumerPID (fst s))"
    using assms(2,3) by (auto simp: sendTransferRequest_def makeTransferRequestFunction_def send_simps)
  obtain c cs where p: "peer = (c, cs)" by (cases peer)
  have c: "r_state c = T_INITIAL" "\<not> r_ro c" "r_consumerPID c = r_consumerPID (fst s)"
    "r_format c = ''HTTP_PULL'' \<longrightarrow> (\<exists>ri. ExtractRequesterInfo ctx' = OK ri \<and> GetDataset (d_p d') (r_target c) ri = OK ())"
    using assms(3,4) p by (simp_all add: ready_transfer_def)
  obtain cs' where check: "check_target d' ctx' (c, cs) = ((c, cs'), OK ())"
    using c(4) by (cases "r_format c = ''HTTP_PULL''") (auto simp: check_target_def)
  obtain c1 where draw: "draw_provider fresh (c, cs') = ((c1, cs'), OK ())" "r_state c1 = T_INITIAL" "\<not> r_ro c1"
      "r_consumerPID c1 = r_consumerPID c"
    using draw_provider_ready[OF c(2), of fresh cs'] c(1) by auto
  show ?thesis using c draw(2-4) by (simp add: p t check draw(1) transfer_takes uuid_URN_lower[OF assms(1)])
qed

lemma ready_for_start:
  assumes "uuid_laws L" and "transfer_Send L d ctx s = (s', OK (ApAdd e))" and "r_state (fst s) = T_REQUESTED"
    and "ready_transfer L d' ctx' (fst s) (Body e) peer"
  shows "\<exists>peer'. transfer_Recv L d' ctx' fresh (Body e) peer = (peer', OK T_STARTED) \<and> r_state (fst peer') = T_STARTED"
proof -
  have send: "T_Requested_Send L d ctx s = (s', OK (ApAdd e))" using assms(2,3) by simp
  then obtain t where t: "Body e = MTransferStart t" "tsm_ProviderPID t = uuid_URN L (r_providerPID (fst s))"
      "tsm_ConsumerPID t = uuid_URN L (r_consumerPID (fst s))"
    using T_Requested_Send_OK[OF send] by (auto dest!: sendTransferStart_OK)
  obtain c cs where p: "peer = (c, cs)" by (cases peer)
  have c: "r_state c = T_REQUESTED" "\<not> r_ro c" "r_consumerPID c = r_consumerPID (fst s)"
    "r_providerPID c = emptyUUID \<or> r_providerPID c = r_providerPID (fst s)"
    "r_publishInfo c = None \<longrightarrow> (\<exists>i. DataAddressToPublishInfo (tsm_DataAddress t) = OK i)"
    using assms(3,4) p t(1) by (simp_all add: ready_transfer_def)
  obtain c1 where c1: "take_provider L (tsm_ProviderPID t) (c, cs) = ((c1, cs), OK ())" "r_providerPID c1 = r_providerPID (fst s)"
      "r_consumerPID c1 = r_consumerPID c" "r_publishInfo c1 = r_publishInfo c" "r_state c1 = r_state c" "\<not> r_ro c1"
    using take_provider_peer[OF assms(1) c(2,4), of cs] t(2) by auto
  obtain c2 where c2: "take_publish (tsm_DataAddress t) (c1, cs) = ((c2, cs), OK ())" "r_providerPID c2 = r_providerPID c1"
      "r_consumerPID c2 = r_consumerPID c1" "r_state c2 = r_state c1" "\<not> r_ro c2"
    using take_publish_ready[OF c1(6), of "tsm_DataAddress t" cs] c(5) c1(4) by auto
  show ?thesis using c(1,3) c1(2,3,5) c2(2-5) by (simp add: p t c1(1)[unfolded t] c2(1) transfer_takes uuid_URN_lower[OF assms(1)])
qed

lemma ready_for_completion:
  assumes "uuid_laws L" and "transfer_Send L d ctx s = (s', OK (ApAdd e))" and "r_state (fst s) = T_STARTED"
    and "ready_transfer L d' ctx' (fst s) (Body e) peer"
  shows "\<exists>peer'. transfer_Recv L d' ctx' fresh (Body e) peer = (peer', OK T_COMPLETED) \<and> r_state (fst peer') = T_COMPLETED"
proof -
  have send: "T_Started_Send L d ctx s = (s', OK (ApAdd e))" using assms(2,3) by simp
  have "sendTransferCompletion L ctx (fst s) = OK (ApAdd e)" using T_Started_Send_OK[OF send] by metis
  then obtain t where t: "Body e = MTransferCompletion t" "tcm_ProviderPID t = uuid_URN L (r_providerPID (fst s))"
      "tcm_ConsumerPID t = uuid_URN L (r_consumerPID (fst s))"
    by (auto simp: sendTransferCompletion_def makeTransferRequestFunction_def send_simps)
  obtain c cs where p: "peer = (c, cs)" by (cases peer)
  have c: "r_state c = T_STARTED" "\<not> r_ro c" "r_consumerPID c = r_consumerPID (fst s)" "r_providerPID c = r_providerPID (fst s)"
      "snd (unpublishTransfer L d' ctx' (c, cs)) = OK ()"
    using assms(3,4) p by (simp_all add: ready_transfer_def)
  obtain cs' where "unpublishTransfer L d' ctx' (c, cs) = ((c, cs'), OK ())"
    using unpublish_OK[of L d' ctx' "(c, cs)"] c(5) by (cases "unpublishTransfer L d' ctx' (c, cs)") force
  then show ?thesis using c(1-4) by (simp add: p t transfer_takes uuid_URN_lower[OF assms(1)])
qed

text \<open>C34: what a transfer sends is what its peer takes: a valid message, which every transfer of a peer that is in the same state
  and can take a message of it (\<open>ready_transfer\<close>) receives without an error, after which it is in exactly the state the sender will store;
  sending changes neither state nor PIDs, and final states send nothing.\<close>

theorem transfer_Send_matches_Recv:
  assumes "transfer_Send L d ctx s = (s', OK a)" and "uuid_laws L"
  shows "r_state (fst s') = r_state (fst s) \<and> r_providerPID (fst s') = r_providerPID (fst s)
    \<and> r_consumerPID (fst s') = r_consumerPID (fst s)
    \<and> (r_state (fst s) \<in> {T_COMPLETED, T_TERMINATED} \<and> a = ApNoop
       \<or> (\<exists>e st. a = ApAdd e \<and> valid_message (Body e) \<and> transfer_target (r_state (fst s)) (Body e) = Some st
            \<and> TargetState e = tstate_String st \<and> st \<in> set (validTransferTransitions (r_state (fst s)))
            \<and> re_Role e = r_role (fst s) \<and> re_Type e = ReconciliationTransferRequest
            \<and> (\<forall>d' ctx' fresh peer. ready_transfer L d' ctx' (fst s) (Body e) peer \<longrightarrow>
                 (\<exists>peer'. transfer_Recv L d' ctx' fresh (Body e) peer = (peer', OK st) \<and> r_state (fst peer') = st))))"
proof (cases "transfer_final (r_state (fst s)) \<and> a = ApNoop")
  case True
  then show ?thesis using transfer_Send_OK[OF assms(1)] by (auto simp: transfer_final_def)
next
  case False
  then obtain e st where e: "a = ApAdd e" "valid_message (Body e)" "transfer_target (r_state (fst s)) (Body e) = Some st"
      "TargetState e = tstate_String st" "re_Role e = r_role (fst s)" "re_Type e = ReconciliationTransferRequest"
    using transfer_Send_OK[OF assms(1)] by blast
  note send = assms(1)[unfolded e(1)]
  have "\<forall>d' ctx' fresh peer. ready_transfer L d' ctx' (fst s) (Body e) peer \<longrightarrow>
      (\<exists>peer'. transfer_Recv L d' ctx' fresh (Body e) peer = (peer', OK st) \<and> r_state (fst peer') = st)"
  proof (cases "r_state (fst s)")
    case T_INITIAL
    then have "st = T_REQUESTED" using e(3) by (cases "Body e") auto
    then show ?thesis using ready_for_request[OF assms(2) send T_INITIAL] by blast
  next
    case T_REQUESTED
    moreover have "\<exists>t. Body e = MTransferStart t"
      using send T_REQUESTED T_Requested_Send_OK[of L d ctx s s' "ApAdd e"] by (auto dest!: sendTransferStart_OK)
    ultimately have "st = T_STARTED" using e(3) by auto
    then show ?thesis using ready_for_start[OF assms(2) send T_REQUESTED] by blast
  next
    case T_STARTED
    moreover have "\<exists>t. Body e = MTransferCompletion t"
      using send T_STARTED T_Started_Send_OK[of L d ctx s s' "ApAdd e"] by (auto dest!: sendTransferCompletion_OK)
    ultimately have "st = T_COMPLETED" using e(3) by auto
    then show ?thesis using ready_for_completion[OF assms(2) send T_STARTED] by blast
  qed (use e(3) in simp_all)
  then show ?thesis using transfer_Send_OK[OF assms(1)] e transfer_target_valid[OF e(3)] by blast
qed

text \<open>C33: the start message delivers where the data is: when the provider of a requested transfer
  has published, with publish information that a data address can carry (\<open>carried\<close>: no user name beside a token, nothing beside no
  authentication, and so on), the consumer that receives its start message and knows nothing yet ends up started,
  with the provider's PID and exactly that publish information.\<close>

theorem start_delivers_publish_info:
  assumes "uuid_laws L" and "r_state p = T_REQUESTED" and "r_state c = T_REQUESTED"
    and send: "transfer_Send L d ctx (p, cs) = ((p', cs'), OK (ApAdd e))"
    and "r_publishInfo p' = Some pi" and "carried pi"
    and "\<not> r_ro c" and "r_publishInfo c = None" and "r_consumerPID c = r_consumerPID p"
    and "r_providerPID c = emptyUUID \<or> r_providerPID c = r_providerPID p"
  shows "\<exists>c'. transfer_Recv L d' ctx' fresh (Body e) (c, ccs) = ((c', ccs), OK T_STARTED)
    \<and> r_state c' = T_STARTED \<and> r_publishInfo c' = Some pi \<and> r_providerPID c' = r_providerPID p"
proof -
  have s: "T_Requested_Send L d ctx (p, cs) = ((p', cs'), OK (ApAdd e))" using send assms(2) by simp
  have p': "r_providerPID p' = r_providerPID p" "r_consumerPID p' = r_consumerPID p"
    using T_Requested_Send_OK[OF s] by auto
  obtain t da where t: "Body e = MTransferStart t" "publishInfoToDataAddress (Some pi) = OK da"
      "tsm_DataAddress t = Some da" "tsm_ProviderPID t = uuid_URN L (r_providerPID p)"
      "tsm_ConsumerPID t = uuid_URN L (r_consumerPID p)"
    using sendTransferStart_OK[of L ctx p' "ApAdd e"] T_Requested_Send_OK[OF s] p' assms(5) by auto
  have da: "DataAddressToPublishInfo (Some da) = OK pi" using address_carries[OF t(2)] assms(6) by simp
  obtain c1 where c1: "take_provider L (tsm_ProviderPID t) (c, ccs) = ((c1, ccs), OK ())"
      "r_providerPID c1 = r_providerPID p" "r_consumerPID c1 = r_consumerPID p" "r_publishInfo c1 = None"
      "r_state c1 = T_REQUESTED" "\<not> r_ro c1"
    using take_provider_peer[OF assms(1,7,10), of ccs] assms(3,8,9) t(4) by auto
  show ?thesis
    using assms(3) c1 by (simp add: t da take_publish_def r_setters_rw verifyAndTransformTransfer_def
        GetTransferRequestNegotiation_def r_SetState_def r_panicRO_def r_modify_def uuid_URN_lower[OF assms(1)])
qed

text \<open>A completion message is acted upon before it is checked: although it names another
  provider PID and is refused, the provider of a pulled transfer has already shut the publication
  of the running transfer down.\<close>

theorem refused_completion_unpublishes:
  assumes "r_state (fst s) = T_STARTED" and "r_transferDirection (fst s) = DirectionPull"
    and "r_role (fst s) = DataspaceProvider" and "ExtractRequesterInfo ctx = OK ri"
    and "ShutdownTransfer (d_p d) (uuid_String L (r_providerPID (fst s))) ri = OK ()"
    and "ToLower (tcm_ProviderPID t) \<noteq> uuid_URN L (r_providerPID (fst s))"
  shows "\<exists>e. transfer_Recv L d ctx fresh (MTransferCompletion t) s =
    ((fst s, snd s @ [CallShutdownTransfer (uuid_String L (r_providerPID (fst s))) ri]), ERR e)"
  using assms by (cases s) (auto simp: unpublishTransfer_def verifyAndTransformTransfer_def)

section \<open>Examples\<close>

abbreviation sample_provider_transfer :: "tstate \<Rightarrow> transfer_request" where
  "sample_provider_transfer st \<equiv> sample_transfer DataspaceProvider st DirectionPull"

definition sample_consumer_transfer :: transfer_request where
  "sample_consumer_transfer = (sample_transfer DataspaceConsumer T_REQUESTED DirectionPull)
     \<lparr>r_providerPID := emptyUUID, r_publishInfo := None\<rparr>"

definition foreign_completion :: TransferCompletionMessage where
  "foreign_completion = \<lparr>tcm_Context = GetDSPContext, tcm_Type = ''dspace:TransferCompletionMessage'',
     tcm_ProviderPID = ''urn:uuid:other'', tcm_ConsumerPID = ''urn:uuid:other''\<rparr>"

definition sample_termination :: TransferTerminationMessage where
  "sample_termination = \<lparr>ttm_Context = GetDSPContext, ttm_Type = ''dspace:TransferTerminationMessage'',
     ttm_ProviderPID = uuid_URN sample_lib 2, ttm_ConsumerPID = uuid_URN sample_lib 3, ttm_Code = [], ttm_Reason = []\<rparr>"

lemma carried_sample: "carried sample_publish"
  by (simp add: carried_def sample_publish_def)

lemma sample_address:
  "\<exists>da. publishInfoToDataAddress (Some sample_publish) = OK da \<and> valid_DataAddress da"
  by (simp add: publishInfoToDataAddress_def sample_publish_def auth_properties_def valid_DataAddress_def
      required_def endpoint_type_def HasPrefix_def Let_def)

lemma sample_start:
  "\<exists>p' cs' e. transfer_Send sample_lib sample_deps sample_ctx (sample_provider_transfer T_REQUESTED, []) =
     ((p', cs'), OK (ApAdd e)) \<and> r_publishInfo p' = Some sample_publish"
proof -
  obtain da where da: "publishInfoToDataAddress (Some sample_publish) = OK da" "valid_DataAddress da"
    using sample_address by blast
  show ?thesis
    by (simp add: T_Requested_Send_def sample_ctx_def sample_deps_def r_setters_rw sendTransferStart_def da
        ValidateAndMarshal_def valid_TransferStart_def required_def valid_opt_DataAddress_def
        makeTransferRequestFunction_def makeRequestFunction_def)
qed

lemma sample_recv_termination:
  "transfer_Recv sample_lib sample_deps sample_ctx 0 (MTransferTermination sample_termination)
     (sample_provider_transfer T_STARTED, []) =
   (((sample_provider_transfer T_STARTED)\<lparr>r_state := T_TERMINATED, r_modified := True\<rparr>, []), OK T_TERMINATED)"
  by (simp add: verifyAndTransformTransfer_def sample_termination_def GetTransferRequestNegotiation_def
      r_SetState_def r_panicRO_def r_modify_def)

lemma transfer_Recv_safe_witness:
  "transfer_target T_STARTED (MTransferTermination sample_termination) = Some T_TERMINATED"
  using transfer_Recv_safe[OF sample_recv_termination] by simp

lemma sample_start_readable:
  assumes "transfer_Send sample_lib sample_deps sample_ctx (sample_provider_transfer T_REQUESTED, []) = ((p', cs'), OK (ApAdd e))"
    and "r_publishInfo p' = Some sample_publish" and "Body e = MTransferStart t"
  shows "DataAddressToPublishInfo (tsm_DataAddress t) = OK sample_publish"
proof -
  have s: "T_Requested_Send sample_lib sample_deps sample_ctx (sample_provider_transfer T_REQUESTED, []) = ((p', cs'), OK (ApAdd e))"
    using assms(1) by simp
  obtain da where "publishInfoToDataAddress (Some sample_publish) = OK da" "tsm_DataAddress t = Some da"
    using T_Requested_Send_OK[OF s] assms(2,3) by (auto dest!: sendTransferStart_OK)
  then show ?thesis using address_carries carried_sample by simp
qed

lemma transfer_Send_matches_Recv_witness:
  "\<exists>p' cs' e c'. transfer_Send sample_lib sample_deps sample_ctx (sample_provider_transfer T_REQUESTED, []) =
     ((p', cs'), OK (ApAdd e)) \<and> transfer_Recv sample_lib sample_deps sample_ctx 0 (Body e) (sample_consumer_transfer, []) = (c', OK T_STARTED)
     \<and> r_state (fst c') = T_STARTED"
proof -
  obtain p' cs' e where e: "transfer_Send sample_lib sample_deps sample_ctx (sample_provider_transfer T_REQUESTED, []) =
     ((p', cs'), OK (ApAdd e))" "r_publishInfo p' = Some sample_publish"
    using sample_start by blast
  have ne: "ApAdd e \<noteq> ApNoop" by simp
  have "r_state (sample_provider_transfer T_REQUESTED) = T_REQUESTED" by simp
  with transfer_Send_matches_Recv[OF e(1) sample_lib_laws] ne
  obtain e2 st where e2: "ApAdd e = ApAdd e2" and st2: "transfer_target T_REQUESTED (Body e2) = Some st"
      "\<And>d' ctx' fresh peer. ready_transfer sample_lib d' ctx' (sample_provider_transfer T_REQUESTED) (Body e2) peer \<Longrightarrow>
         \<exists>peer'. transfer_Recv sample_lib d' ctx' fresh (Body e2) peer = (peer', OK st) \<and> r_state (fst peer') = st"
    unfolding fst_conv by metis
  have "e2 = e" using e2 by simp
  note st = st2[unfolded this]
  obtain t where t: "Body e = MTransferStart t"
    using e T_Requested_Send_OK[of sample_lib sample_deps sample_ctx "(sample_provider_transfer T_REQUESTED, [])" "(p', cs')"]
    by (auto dest!: sendTransferStart_OK)
  moreover have "ready_transfer sample_lib sample_deps sample_ctx (sample_provider_transfer T_REQUESTED) (Body e) (sample_consumer_transfer, [])"
    using sample_start_readable[OF e t] by (simp add: ready_transfer_def sample_consumer_transfer_def t)
  ultimately obtain peer' where peer: "transfer_Recv sample_lib sample_deps sample_ctx 0 (Body e) (sample_consumer_transfer, []) = (peer', OK st)"
      "r_state (fst peer') = st"
    using st(2) by blast
  have "st = T_STARTED" using st(1) t by simp
  note started = peer[unfolded this]
  show ?thesis by (rule exI[of _ p'], rule exI[of _ cs'], rule exI[of _ e], rule exI[of _ peer'], intro conjI, rule e(1)) (rule started)+
qed

lemma start_delivers_publish_info_witness:
  "\<exists>(e :: ReconciliationEntry) c'. transfer_Recv sample_lib sample_deps sample_ctx 0 (Body e) (sample_consumer_transfer, []) = ((c', []), OK T_STARTED)
     \<and> r_publishInfo c' = Some sample_publish \<and> r_providerPID c' = 2"
proof -
  obtain p' cs' e where e: "transfer_Send sample_lib sample_deps sample_ctx (sample_provider_transfer T_REQUESTED, []) =
     ((p', cs'), OK (ApAdd e))" "r_publishInfo p' = Some sample_publish"
    using sample_start by blast
  have "\<exists>c'. transfer_Recv sample_lib sample_deps sample_ctx 0 (Body e) (sample_consumer_transfer, []) = ((c', []), OK T_STARTED)
     \<and> r_state c' = T_STARTED \<and> r_publishInfo c' = Some sample_publish \<and> r_providerPID c' = r_providerPID (sample_provider_transfer T_REQUESTED)"
    by (rule start_delivers_publish_info[OF sample_lib_laws _ _ e(1) e(2) carried_sample])
       (simp_all add: sample_consumer_transfer_def)
  then show ?thesis unfolding sample_transfer_simps by blast
qed

lemma refused_completion_unpublishes_witness:
  "snd (fst (transfer_Recv sample_lib sample_deps sample_ctx 0 (MTransferCompletion foreign_completion)
     (sample_provider_transfer T_STARTED, []))) = [CallShutdownTransfer (uuid_String sample_lib 2) sample_requester]"
proof -
  have "decimal_uuid_URN 2 \<noteq> ''urn:uuid:other''" by code_simp
  then have ne: "ToLower (tcm_ProviderPID foreign_completion) \<noteq> uuid_URN sample_lib 2"
    by (simp add: foreign_completion_def sample_lib_def ToLower_def lower_char_def)
  obtain e where "transfer_Recv sample_lib sample_deps sample_ctx 0 (MTransferCompletion foreign_completion)
     (sample_provider_transfer T_STARTED, []) = ((sample_provider_transfer T_STARTED,
       [CallShutdownTransfer (uuid_String sample_lib 2) sample_requester]), ERR e)"
    using refused_completion_unpublishes[of "(sample_provider_transfer T_STARTED, [])" sample_ctx sample_requester
        sample_deps sample_lib foreign_completion 0] ne
    by (auto simp: sample_ctx_def sample_deps_def)
  then show ?thesis by (simp del: transfer_Recv.simps)
qed

end
