(* ===== verification/Transfer_Handlers.thy ===== *)
theory Transfer_Handlers
  imports Contract_Handlers Store_Session Transfer_Machine
begin

text \<open>
  The HTTP handlers of transfers: \<open>dsp/transfer_handlers.go\<close>. They work like those of contract
  negotiations, with three differences of the code: an error is logged with the transfer's role
  before it is answered, also when there is no transfer; a refused message does not release the
  transfer; and the outgoing message is handed to the reconciler after the answer.
\<close>

section \<open>Errors\<close>

record TransferError =
  te_status :: nat
  te_transfer :: "transfer_request option"
  te_dspCode :: string
  te_reason :: string
  te_err :: string

text \<open>What a handler returns to the wrapper: one of the two protocol errors, or any other error.\<close>

datatype http_failure = TransferFailure TransferError | ContractFailure ContractError | OtherFailure string

type_synonym transfer_result = "(http_failure, TransferProcess) handler_result"

definition te_ErrorType :: string where
  "te_ErrorType = ''dspace:ContractNegotiationError''"

definition te_ProviderPID :: "'a lib_scheme \<Rightarrow> TransferError \<Rightarrow> string" where
  "te_ProviderPID L te = (case te_transfer te of None \<Rightarrow> [] | Some t \<Rightarrow> uuid_URN L (r_providerPID t))"

definition te_ConsumerPID :: "'a lib_scheme \<Rightarrow> TransferError \<Rightarrow> string" where
  "te_ConsumerPID L te = (case te_transfer te of None \<Rightarrow> [] | Some t \<Rightarrow> uuid_URN L (r_consumerPID t))"

text \<open>The log line reads the role and the local PID of the transfer, whatever pointer it is given.\<close>

definition transferError :: "string \<Rightarrow> nat \<Rightarrow> string \<Rightarrow> string \<Rightarrow> transfer_request option \<Rightarrow> transfer_result" where
  "transferError err statusCode dspCode reason transfer =
     (case transfer of
        None \<Rightarrow> Crashed ''nil pointer dereference''
      | Some tr \<Rightarrow>
          (case obind (Role_String (r_role tr)) (\<lambda>_. r_GetLocalPID tr) of
             PANIC p \<Rightarrow> Crashed p
           | _ \<Rightarrow> Failed (TransferFailure \<lparr>te_status = statusCode, te_transfer = transfer,
                    te_dspCode = dspCode, te_reason = reason, te_err = err\<rparr>)))"

definition as_transfer_result :: "contract_result \<Rightarrow> transfer_result" where
  "as_transfer_result r = (case r of
     Failed ce \<Rightarrow> Failed (ContractFailure ce) | Crashed p \<Rightarrow> Crashed p
   | Responded resp \<Rightarrow> Responded \<lparr>status_code = status_code resp, resp_body = None\<rparr>)"

text \<open>What the wrapper sends for a failure; every other error becomes a generic one.\<close>

definition WrapHandlerWithError :: "'a lib_scheme \<Rightarrow> http_failure \<Rightarrow> DSPError http_response" where
  "WrapHandlerWithError L f = (case f of
     ContractFailure ce \<Rightarrow> handleHTTPError L ce
   | TransferFailure te \<Rightarrow>
       EncodeValid (\<lambda>_. True) (te_status te)
         \<lparr>de_Context = GetDSPContext, de_Type = te_ErrorType, de_ProviderPID = te_ProviderPID L te,
          de_ConsumerPID = te_ConsumerPID L te, de_Code = te_dspCode te,
          de_Reason = [\<lparr>ml_Value = te_reason te, ml_Language = ''en''\<rparr>], de_Description = []\<rparr>
   | OtherFailure e \<Rightarrow>
       EncodeValid (\<lambda>_. True) 500
         \<lparr>de_Context = GetDSPContext, de_Type = ''dspace:UnknownError'', de_ProviderPID = [], de_ConsumerPID = [],
          de_Code = ''INTERNAL'', de_Reason = [\<lparr>ml_Value = ''Internal Server Errror'', ml_Language = ''en''\<rparr>],
          de_Description = []\<rparr>)"

section \<open>Processing a message\<close>

text \<open>The system with the calls made to the provider service.\<close>

record tsys = sys +
  s_provider :: "provider_call list"

definition storeRequest :: "'a lib_scheme \<Rightarrow> backend \<Rightarrow> transfer_request \<Rightarrow> db \<Rightarrow> db \<times> transfer_result option" where
  "storeRequest L P request d = (case PutTransfer L P request d of
     (d1, OK _) \<Rightarrow> (d1, None)
   | (d1, PANIC p) \<Rightarrow> (d1, Some (Crashed p))
   | (d1, ERR e) \<Rightarrow> (d1, Some (transferError ''couldn't store transfer request'' 500 ''500''
                                 ''Not able to store transfer request'' (Some request))))"

text \<open>\<open>go apply()\<close>: an entry added to the reconciler's queue, or nothing.\<close>

fun run_transfer_apply :: "apply_func \<Rightarrow> effects \<Rightarrow> effects" where
  "run_transfer_apply (ApAdd entry) e = e\<lparr>added := added e @ [entry]\<rparr>"
| "run_transfer_apply _ e = e"

definition recv_and_progress :: "'a lib_scheme \<Rightarrow> deps \<Rightarrow> go_context \<Rightarrow> uuid \<Rightarrow> bool \<Rightarrow> message \<Rightarrow> session
    \<Rightarrow> session \<times> (transfer_result + apply_func)" where
  "recv_and_progress L d ctx fresh autoProgress msg s =
     (case transfer_Recv L d ctx fresh msg s of
        (s1, PANIC p) \<Rightarrow> (s1, Inl (Crashed p))
      | (s1, ERR e) \<Rightarrow> (s1, Inl (transferError ''invalid request'' 400 ''400'' ''Invalid request'' (Some (fst s1))))
      | (s1, OK _) \<Rightarrow>
          if \<not> autoProgress then (s1, Inr ApNoop)
          else (case transfer_Send L d ctx s1 of
                  (s2, PANIC p) \<Rightarrow> (s2, Inl (Crashed p))
                | (s2, ERR e) \<Rightarrow> (s2, Inl (transferError ''couldn't progress to next state'' 500 ''500''
                                     ''Not able to progress state'' (Some (fst s2))))
                | (s2, OK apply) \<Rightarrow> (s2, Inr apply)))"

definition processTransferMessage :: "'a lib_scheme \<Rightarrow> server \<Rightarrow> go_context \<Rightarrow> uuid \<Rightarrow> role \<Rightarrow> uuid \<Rightarrow> bool
    \<Rightarrow> message \<Rightarrow> tsys \<Rightarrow> tsys \<times> transfer_result" where
  "processTransferMessage L sv ctx fresh rl pid autoProgress msg s =
     (let P = sv_backend sv in
      case T_WithRolePID pid rl of
        PANIC p \<Rightarrow> (s, Crashed p)
      | ERR e \<Rightarrow> (s, Crashed (err_msg e))
      | OK opt \<Rightarrow>
     (case GetTransfer L P [T_WithRW, opt] (s_db s) of
        (d1, PANIC p) \<Rightarrow> (s\<lparr>s_db := d1\<rparr>, Crashed p)
      | (d1, ERR e) \<Rightarrow>
          (s\<lparr>s_db := d1\<rparr>, transferError ''transfer request not found'' 404 ''404'' ''Transfer request not found'' None)
      | (d1, OK tr) \<Rightarrow>
          (case recv_and_progress L (sv_deps sv) ctx fresh autoProgress msg (tr, s_provider s) of
             ((tr1, calls), Inl failure) \<Rightarrow> (s\<lparr>s_db := d1, s_provider := calls\<rparr>, failure)
           | ((tr1, calls), Inr apply) \<Rightarrow>
               (case storeRequest L P tr1 d1 of
                  (d2, Some failure) \<Rightarrow> (s\<lparr>s_db := d2, s_provider := calls\<rparr>, failure)
                | (d2, None) \<Rightarrow>
                    (s\<lparr>s_db := d2, s_effects := run_transfer_apply apply (s_effects s), s_provider := calls\<rparr>,
                     Responded (EncodeValid valid_TransferProcess 200 (GetTransferProcess_message L tr1)))))))"

section \<open>Handlers\<close>

definition progressTransferState :: "'a lib_scheme \<Rightarrow> server \<Rightarrow> go_context \<Rightarrow> uuid \<Rightarrow> role \<Rightarrow> string \<Rightarrow> bool
    \<Rightarrow> message outcome \<Rightarrow> tsys \<Rightarrow> tsys \<times> transfer_result" where
  "progressTransferState L sv ctx fresh rl rawPID autoProgress decoded s =
     (case uuid_Parse L rawPID of
        None \<Rightarrow> (s, transferError ''Invalid PID'' 400 ''400'' ''Invalid request: PID is not a UUID'' None)
      | Some pid \<Rightarrow>
          (case decoded of
             OK msg \<Rightarrow> processTransferMessage L sv ctx fresh rl pid autoProgress msg s
           | _ \<Rightarrow> (s, transferError ''could not decode message'' 400 ''400'' ''Invalid request'' None)))"

definition providerTransferProcessHandler :: "'a lib_scheme \<Rightarrow> server \<Rightarrow> string \<Rightarrow> tsys \<Rightarrow> tsys \<times> transfer_result" where
  "providerTransferProcessHandler L sv pathPID s =
     (case uuid_Parse L pathPID of
        None \<Rightarrow> (s, transferError ''invalid provider ID'' 400 ''400'' ''Invalid provider PID'' None)
      | Some providerPID \<Rightarrow>
          (case GetTransfer L (sv_backend sv) [T_WithProviderPID providerPID] (s_db s) of
             (d1, OK tr) \<Rightarrow> (s\<lparr>s_db := d1\<rparr>,
               Responded (EncodeValid valid_TransferProcess 200 (GetTransferProcess_message L tr)))
           | (d1, ERR e) \<Rightarrow> (s\<lparr>s_db := d1\<rparr>,
               as_transfer_result (contractError (err_msg e) 404 ''404'' ''TransferRequest not found'' None))
           | (d1, PANIC p) \<Rightarrow> (s\<lparr>s_db := d1\<rparr>, Crashed p)))"

text \<open>The publish information a push request brings.\<close>

definition request_publish_info :: "TransferRequestMessage \<Rightarrow> PublishInfo option outcome" where
  "request_publish_info m = (case trm_DataAddress m of
     None \<Rightarrow> OK None
   | Some da \<Rightarrow> obind (DataAddressToPublishInfo (Some da)) (\<lambda>pi. OK (Some pi)))"

definition providerTransferRequestHandler :: "'a lib_scheme \<Rightarrow> server \<Rightarrow> go_context \<Rightarrow> TraceInfo \<Rightarrow> uuid \<Rightarrow> uuid
    \<Rightarrow> TransferRequestMessage option \<Rightarrow> tsys \<Rightarrow> tsys \<times> transfer_result" where
  "providerTransferRequestHandler L sv ctx trace pid fresh body s =
     (case DecodeValid valid_TransferRequest body of
        OK transferReq \<Rightarrow>
          (case uuid_Parse L (trm_ConsumerPID transferReq) of
             None \<Rightarrow> (s, transferError ''Invalid consumer ID'' 400 ''400'' ''Invalid request: ConsumerPID is not a UUID'' None)
           | Some consumerPID \<Rightarrow>
          (case uuid_Parse L (trm_AgreementID transferReq) of
             None \<Rightarrow> (s, transferError ''Invalid agreement ID'' 400 ''400'' ''Invalid request: agreement ID is not a UUID'' None)
           | Some agreementID \<Rightarrow>
          (case GetAgreement L (sv_backend sv) (Some agreementID) (s_db s) of
             (d1, PANIC p) \<Rightarrow> (s\<lparr>s_db := d1\<rparr>, Crashed p)
           | (d1, ERR e) \<Rightarrow> (s\<lparr>s_db := d1\<rparr>,
               transferError ''Could not get agreement'' 404 ''404'' ''Invalid request: Agreement not found'' None)
           | (d1, OK agreement) \<Rightarrow>
          (case url_Parse L (trm_CallbackAddress transferReq) of
             None \<Rightarrow> (s\<lparr>s_db := d1\<rparr>,
               transferError ''Invalid callback URL'' 400 ''400'' ''Invalid request: Non-valid callback URL.'' None)
           | Some cbURL \<Rightarrow>
          (case request_publish_info transferReq of
             PANIC p \<Rightarrow> (s\<lparr>s_db := d1\<rparr>, Crashed p)
           | ERR e \<Rightarrow> (s\<lparr>s_db := d1\<rparr>,
               transferError ''Invalid callback URL'' 400 ''400'' ''Invalid request: Invalid dataAddress supplied.'' None)
           | OK pi \<Rightarrow>
          (case obind (ExtractRequesterInfo ctx) (\<lambda>ri.
                obind (New_transfer L trace consumerPID (Some agreement) (trm_Format transferReq) cbURL (sv_selfURL sv)
                         DataspaceProvider T_INITIAL pi (Some ri))
                  (r_SetProviderPID pid)) of
             PANIC p \<Rightarrow> (s\<lparr>s_db := d1\<rparr>, Crashed p)
           | ERR e \<Rightarrow> (s\<lparr>s_db := d1\<rparr>, Crashed (err_msg e))
           | OK request \<Rightarrow>
               (case storeRequest L (sv_backend sv) request d1 of
                  (d2, Some failure) \<Rightarrow> (s\<lparr>s_db := d2\<rparr>, failure)
                | (d2, None) \<Rightarrow>
                    processTransferMessage L sv ctx fresh (r_role request) (r_providerPID request) True
                      (MTransferRequest transferReq) (s\<lparr>s_db := d2\<rparr>))))))))
      | _ \<Rightarrow> (s, transferError ''invalid request message'' 400 ''400'' ''Invalid request'' None))"

definition providerTransferStartHandler where
  "providerTransferStartHandler L sv ctx fresh pathPID body =
     progressTransferState L sv ctx fresh DataspaceProvider pathPID False (decode_as MTransferStart valid_TransferStart body)"

definition providerTransferCompletionHandler where
  "providerTransferCompletionHandler L sv ctx fresh pathPID body =
     progressTransferState L sv ctx fresh DataspaceProvider pathPID True
       (decode_as MTransferCompletion valid_TransferCompletion body)"

definition providerTransferTerminationHandler where
  "providerTransferTerminationHandler L sv ctx fresh pathPID body =
     progressTransferState L sv ctx fresh DataspaceProvider pathPID True
       (decode_as MTransferTermination valid_TransferTermination body)"

definition consumerTransferStartHandler where
  "consumerTransferStartHandler L sv ctx fresh pathPID body =
     progressTransferState L sv ctx fresh DataspaceConsumer pathPID False (decode_as MTransferStart valid_TransferStart body)"

definition consumerTransferCompletionHandler where
  "consumerTransferCompletionHandler L sv ctx fresh pathPID body =
     progressTransferState L sv ctx fresh DataspaceConsumer pathPID True
       (decode_as MTransferCompletion valid_TransferCompletion body)"

definition consumerTransferTerminationHandler where
  "consumerTransferTerminationHandler L sv ctx fresh pathPID body =
     progressTransferState L sv ctx fresh DataspaceConsumer pathPID True
       (decode_as MTransferTermination valid_TransferTermination body)"

text \<open>Suspension is only acknowledged. Both handlers ask for the path's \<open>providerPID\<close>, which the
  consumer's route, \<open>/callback/transfers/{consumerPID}/suspension\<close>, does not have: there
  \<open>PathValue\<close> answers the empty string.\<close>

type_synonym path_values = "string \<Rightarrow> string option"

definition PathValue :: "path_values \<Rightarrow> string \<Rightarrow> string" where
  "PathValue pv name = (case pv name of None \<Rightarrow> [] | Some v \<Rightarrow> v)"

definition providerTransferSuspensionHandler :: "path_values \<Rightarrow> TransferSuspensionMessage option \<Rightarrow> transfer_result" where
  "providerTransferSuspensionHandler pv body =
     (if PathValue pv ''providerPID'' = [] then Failed (OtherFailure ''missing provider PID'')
      else (case DecodeValid valid_TransferSuspension body of
              OK m \<Rightarrow> Responded \<lparr>status_code = 200, resp_body = None\<rparr>
            | _ \<Rightarrow> Failed (OtherFailure ''invalid request'')))"

definition consumerTransferSuspensionHandler :: "path_values \<Rightarrow> TransferSuspensionMessage option \<Rightarrow> transfer_result" where
  "consumerTransferSuspensionHandler pv body =
     (if PathValue pv ''providerPID'' = [] then Failed (OtherFailure ''missing consumner PID'')
      else (case DecodeValid valid_TransferSuspension body of
              OK m \<Rightarrow> Responded \<lparr>status_code = 200, resp_body = None\<rparr>
            | ERR e \<Rightarrow> Failed (OtherFailure (err_msg e))
            | PANIC p \<Rightarrow> Crashed p))"

end
