(* ===== verification/Transfer_Handlers_Facts.thy ===== *)
theory Transfer_Handlers_Facts
  imports Transfer_Handlers
begin

text \<open>
  What the transfer handlers guarantee, and where they do not do what the contract handlers do:
  an accepted message is stored, a refused one leaves the transfer locked for good, and a request
  that names no transfer is never answered with a protocol error.
\<close>

section \<open>The identity of a transfer is never changed\<close>

definition same_transfer :: "transfer_request \<Rightarrow> transfer_request \<Rightarrow> bool" where
  "same_transfer a b \<longleftrightarrow> r_internal_id b = r_internal_id a \<and> r_role b = r_role a \<and> r_ro b = r_ro a
     \<and> r_transferDirection b = r_transferDirection a \<and> (r_modified a \<longrightarrow> r_modified b)"

named_theorems transfer_intros \<open>operations keep the identity of a transfer\<close>

lemma same_transfer_refl [simp]: "same_transfer a a"
  by (simp add: same_transfer_def)

lemma seq_m_transfer [transfer_intros]:
  "same_transfer a (fst (fst r)) \<Longrightarrow> (\<And>s x. same_transfer a (fst s) \<Longrightarrow> same_transfer a (fst (fst (k s x))))
     \<Longrightarrow> same_transfer a (fst (fst (seq_m r k)))"
  by (cases "(r, k)" rule: seq_m.cases) auto

lemma put_m_transfer [transfer_intros]:
  "same_transfer a (fst s) \<Longrightarrow> same_transfer a (fst (fst (put_m s (r_SetState st (fst s)))))"
  "same_transfer a (fst s) \<Longrightarrow> same_transfer a (fst (fst (put_m s (r_SetProviderPID u (fst s)))))"
  "same_transfer a (fst s) \<Longrightarrow> same_transfer a (fst (fst (put_m s (r_SetPublishInfo pi (fst s)))))"
  by (cases s; auto simp: same_transfer_def r_SetState_def r_SetProviderPID_def r_SetPublishInfo_def
      r_panicRO_def r_modify_def)+

lemma call_transfer [transfer_intros]:
  "same_transfer a (fst s) \<Longrightarrow> same_transfer a (fst (fst (call_provider ctx c f s)))"
  by (cases s) (auto split: outcome.split)

lemma steps_transfer [transfer_intros]:
  "same_transfer a (fst s) \<Longrightarrow> same_transfer a (fst (fst (verifyAndTransformTransfer L pp cp st s)))"
  "same_transfer a (fst s) \<Longrightarrow> same_transfer a (fst (fst (unpublishTransfer L d ctx s)))"
  "same_transfer a (fst s) \<Longrightarrow> same_transfer a (fst (fst (draw_provider fresh s)))"
  "same_transfer a (fst s) \<Longrightarrow> same_transfer a (fst (fst (take_provider L pid s)))"
  "same_transfer a (fst s) \<Longrightarrow> same_transfer a (fst (fst (take_publish da s)))"
  by (auto simp: verifyAndTransformTransfer_def unpublishTransfer_def draw_provider_def take_provider_def
      take_publish_def Let_def intro!: transfer_intros split: direction.split option.split outcome.split)

lemma check_target_transfer [transfer_intros]:
  "same_transfer a (fst s) \<Longrightarrow> same_transfer a (fst (fst (check_target d ctx s)))"
  using call_transfer[of a s ctx]
  by (cases s) (auto simp: check_target_def split: outcome.split prod.split)

lemma Recv_transfer: "same_transfer (fst s) (fst (fst (transfer_Recv L d ctx fresh msg s)))"
proof (cases "r_state (fst s)")
  case T_INITIAL
  then show ?thesis by (cases msg) (auto intro!: transfer_intros)
next
  case T_REQUESTED
  then show ?thesis by (cases msg) (auto intro!: transfer_intros)
next
  case T_STARTED
  then show ?thesis by (cases msg) (auto intro!: transfer_intros)
qed simp_all

lemma Send_transfer: "same_transfer (fst s) (fst (fst (transfer_Send L d ctx s)))"
  by (cases "r_state (fst s)") (auto simp: T_Requested_Send_def T_Started_Send_def
      intro!: transfer_intros split: direction.split)

lemma same_transfer_trans: "same_transfer a b \<Longrightarrow> same_transfer b c \<Longrightarrow> same_transfer a c"
  by (simp add: same_transfer_def)

lemma recv_and_progress_transfer:
  assumes "recv_and_progress L d ctx fresh auto msg s = (s', r)"
  shows "same_transfer (fst s) (fst s')"
proof -
  obtain s1 o1 where r1: "transfer_Recv L d ctx fresh msg s = (s1, o1)" by (rule prod.exhaust)
  obtain s2 o2 where r2: "transfer_Send L d ctx s1 = (s2, o2)" by (rule prod.exhaust)
  have "same_transfer (fst s) (fst s1)" "same_transfer (fst s1) (fst s2)"
    using Recv_transfer[of s L d ctx fresh msg] Send_transfer[of s1 L d ctx] r1 r2 by simp_all
  then show ?thesis
    using assms same_transfer_trans[of "fst s" "fst s1" "fst s2"]
    by (cases o1; cases o2) (auto simp: recv_and_progress_def r1 r2 simp del: transfer_Recv.simps transfer_Send.simps
        split: if_splits)
qed

text \<open>An accepted message: the state is the one the protocol assigns to it, whether or not the next
  message was sent at once.\<close>

lemma recv_and_progress_OK:
  assumes "recv_and_progress L d ctx fresh auto msg s = (s', Inr ap)"
  shows "transfer_target (r_state (fst s)) msg = Some (r_state (fst s')) \<and> r_modified (fst s')"
proof -
  obtain s1 k where r1: "transfer_Recv L d ctx fresh msg s = (s1, OK k)"
    using assms by (cases "transfer_Recv L d ctx fresh msg s"; cases "snd (transfer_Recv L d ctx fresh msg s)")
      (auto simp: recv_and_progress_def transferError_def simp del: transfer_Recv.simps split: option.splits outcome.splits)
  have t: "transfer_target (r_state (fst s)) msg = Some (r_state (fst s1))" using transfer_Recv_OK[OF r1] by simp
  have m: "r_modified (fst s1)"
    using r1 by (cases "r_state (fst s)"; cases msg) (auto simp: seq_m_OK verifyAndTransformTransfer_OK)
  show ?thesis
  proof (cases auto)
    case True
    obtain s2 a where r2: "transfer_Send L d ctx s1 = (s2, OK a)" "s' = s2"
      using assms True by (cases "transfer_Send L d ctx s1"; cases "snd (transfer_Send L d ctx s1)")
        (auto simp: recv_and_progress_def r1 simp del: transfer_Recv.simps transfer_Send.simps)
    then show ?thesis
      using transfer_Send_OK[OF r2(1)] t m Send_transfer[of s1 L d ctx] by (simp add: same_transfer_def)
  next
    case False
    then show ?thesis using assms t m by (simp add: recv_and_progress_def r1 del: transfer_Recv.simps)
  qed
qed

section \<open>Accepted messages\<close>

lemma storeRequest_None: "storeRequest L P t d = (d', None) \<longleftrightarrow> PutTransfer L P t d = (d', OK ())"
  by (auto simp: storeRequest_def transferError_def split: outcome.splits prod.splits option.splits)

text \<open>A response means that the transfer was taken, received the message, and was stored.\<close>

lemma processTransfer_Responded:
  assumes "processTransferMessage L sv ctx fresh rl pid auto msg s = (s', Responded resp)"
  obtains opt d1 tr tr1 calls ap where "T_WithRolePID pid rl = OK opt"
    "GetTransfer L (sv_backend sv) [T_WithRW, opt] (s_db s) = (d1, OK tr)"
    "recv_and_progress L (sv_deps sv) ctx fresh auto msg (tr, s_provider s) = ((tr1, calls), Inr ap)"
    "PutTransfer L (sv_backend sv) tr1 d1 = (s_db s', OK ())" "s_provider s' = calls"
    "s_effects s' = run_transfer_apply ap (s_effects s)"
    "resp = EncodeValid valid_TransferProcess 200 (GetTransferProcess_message L tr1)"
proof -
  obtain opt where opt: "T_WithRolePID pid rl = OK opt"
    using assms by (cases "T_WithRolePID pid rl") (auto simp: processTransferMessage_def Let_def)
  obtain d1 o1 where get: "GetTransfer L (sv_backend sv) [T_WithRW, opt] (s_db s) = (d1, o1)" by (rule prod.exhaust)
  obtain tr where tr: "o1 = OK tr"
    using assms opt get by (cases o1) (auto simp: processTransferMessage_def Let_def transferError_def)
  obtain tr1 calls r where rp: "recv_and_progress L (sv_deps sv) ctx fresh auto msg (tr, s_provider s) = ((tr1, calls), r)"
    by (metis prod.exhaust)
  obtain ap where ap: "r = Inr ap"
    using assms opt get tr rp by (cases r) (auto simp: processTransferMessage_def Let_def recv_and_progress_def
        transferError_def split: prod.splits outcome.splits if_splits)
  obtain d2 st where sr: "storeRequest L (sv_backend sv) tr1 d1 = (d2, st)" by (rule prod.exhaust)
  have "st = None"
    using assms opt get tr rp ap sr by (cases st) (auto simp: processTransferMessage_def Let_def storeRequest_def
        transferError_def split: prod.splits outcome.splits option.splits)
  then show thesis
    using that[OF opt, of d1 tr tr1 calls ap] assms opt get tr rp ap sr
    by (auto simp: processTransferMessage_def Let_def storeRequest_None)
qed

lemma GetTransfer_state:
  assumes "T_WithRolePID pid rl = OK opt" "wf_db d" "GetTransfer L (quiet P) [T_WithRW, opt] d = (d1, OK tr)"
  obtains r where "r \<in> set (transfers d1)" "t_ID r = r_internal_id tr" "r_internal_id tr \<noteq> 0"
    "r_internal_id tr \<notin> held_transfers d" "held_transfers d1 = insert (r_internal_id tr) (held_transfers d)"
proof -
  obtain r k where r: "r \<in> set (transfers d)" "d1 = lock_transfer_row r k d" "r_internal_id tr = t_ID r"
    by (rule GetTransfer_row[OF assms(3,2,1)])
  have "r\<lparr>t_Locked := True\<rparr> \<in> set (transfers d1)" using r(1,2) by (auto simp: lock_transfer_row_def set_update_where)
  moreover have "t_ID r \<noteq> 0" using assms(2) r(1) by (auto simp: wf_db_def wf_rows_def)
  ultimately show thesis
    using that[of "r\<lparr>t_Locked := True\<rparr>"] r(3) transfer_get_locks[OF assms(2), of L P "[opt]" d1 tr] assms(3) by simp
qed

section \<open>Properties\<close>

text \<open>C36: a transfer message that is answered is answered with status 200, after the transfer's row was
  stored, unlocked, in exactly the state the protocol assigns to the message; the same transfers
  are held as before.\<close>

theorem accepted_transfer_message_stored:
  assumes "sv_backend sv = quiet P" and "reliable P" and "wf_db (s_db s)" and "T_WithRolePID pid rl = OK opt"
    and "GetTransfer L (quiet P) [T_WithRW, opt] (s_db s) = (d1, OK tr)"
    and "processTransferMessage L sv ctx fresh rl pid auto msg s = (s', Responded resp)"
  shows "status_code resp = 200 \<and> held_transfers (s_db s') = held_transfers (s_db s)
    \<and> (\<exists>st. transfer_target (r_state tr) msg = Some st \<and>
        (\<exists>r \<in> set (transfers (s_db s')). t_ID r = r_internal_id tr \<and> t_State r = tstate_String st \<and> \<not> t_Locked r))"
proof -
  obtain tr1 calls ap where rp: "recv_and_progress L (sv_deps sv) ctx fresh auto msg (tr, s_provider s) = ((tr1, calls), Inr ap)"
    and put: "PutTransfer L (quiet P) tr1 d1 = (s_db s', OK ())"
    and resp: "resp = EncodeValid valid_TransferProcess 200 (GetTransferProcess_message L tr1)"
    by (rule processTransfer_Responded[OF assms(6)]) (use assms(1,4,5) in auto)
  obtain r where r: "r \<in> set (transfers d1)" "t_ID r = r_internal_id tr" "r_internal_id tr \<noteq> 0"
      "r_internal_id tr \<notin> held_transfers (s_db s)" "held_transfers d1 = insert (r_internal_id tr) (held_transfers (s_db s))"
    by (rule GetTransfer_state[OF assms(4,3,5)])
  have same: "same_transfer tr tr1" using recv_and_progress_transfer[OF rp] by simp
  have acc: "transfer_target (r_state tr) msg = Some (r_state tr1)" "r_modified tr1"
    using recv_and_progress_OK[OF rp] by simp_all
  have ids: "r_internal_id tr1 = r_internal_id tr" "\<not> r_ro tr1"
    using same GetTransfer_role[OF assms(4,3,5)] by (simp_all add: same_transfer_def)
  have wf1: "wf_db d1" using wf_GetTransfer[OF _ assms(3), of "quiet P" L "[T_WithRW, opt]"] assms(5) by simp
  show ?thesis
    using PutTransfer_row[OF put assms(2) acc(2) ids(2) r(1)] r ids acc(1) transfer_put_unlocks[OF wf1 put]
    by (auto simp: resp EncodeValid_def)
qed

lemma unknown_transfer_crashes:
  assumes "T_WithRolePID pid rl = OK opt" and "GetTransfer L (sv_backend sv) [T_WithRW, opt] (s_db s) = (d1, ERR e)"
  shows "processTransferMessage L sv ctx fresh rl pid auto msg s = (s\<lparr>s_db := d1\<rparr>, Crashed ''nil pointer dereference'')"
  using assms by (simp add: processTransferMessage_def Let_def transferError_def)

text \<open>A transfer message with a malformed PID or body, or for a transfer that does not exist, is
  never answered with the protocol error the handler prepares for it: logging that error reads the
  role of a transfer that is not there, and the handler panics.\<close>

theorem bad_transfer_requests_crash:
  assumes "uuid_Parse L rawPID = None \<or> (\<forall>m. decoded \<noteq> OK m)
    \<or> (\<exists>pid opt d1 e. uuid_Parse L rawPID = Some pid \<and> T_WithRolePID pid rl = OK opt
         \<and> GetTransfer L (sv_backend sv) [T_WithRW, opt] (s_db s) = (d1, ERR e))"
  shows "snd (progressTransferState L sv ctx fresh rl rawPID auto decoded s) = Crashed ''nil pointer dereference''"
  using assms by (auto simp: progressTransferState_def transferError_def unknown_transfer_crashes
      split: option.split outcome.split)

text \<open>A refused message makes a transfer unusable: the transfer is not released, so that every later
  message for it, of either form and with whatever content, fails to take it and crashes the
  handler, and no row changes any more.\<close>

theorem refused_transfer_message_locks:
  assumes "sv_backend sv = quiet P" and "wf_db (s_db s)" and "T_WithRolePID pid rl = OK opt"
    and "GetTransfer L (quiet P) [T_WithRW, opt] (s_db s) = (d1, OK tr)"
    and "processTransferMessage L sv ctx fresh rl pid auto msg s = (s1, Failed f)"
    and "transfer_Recv L (sv_deps sv) ctx fresh msg (tr, s_provider s) = (x, ERR e)"
  shows "r_internal_id tr \<in> held_transfers (s_db s1)
    \<and> (\<exists>s2. processTransferMessage L sv ctx' fresh' rl pid auto' msg' s1 = (s2, Crashed ''nil pointer dereference'')
         \<and> same_rows (s_db s1) (s_db s2))"
proof -
  obtain r where r: "held_transfers d1 = insert (r_internal_id tr) (held_transfers (s_db s))"
    by (rule GetTransfer_state[OF assms(3,2,4)])
  have "s_db s1 = d1"
    using assms(1,3-6) by (auto simp: processTransferMessage_def Let_def recv_and_progress_def
        simp del: transfer_Recv.simps split: prod.splits)
  moreover obtain d3 er where "GetTransfer L (quiet P) [T_WithRW, opt] d1 = (d3, ERR er)" "same_rows d1 d3"
    using GetTransfer_again[OF assms(4,2,3), of d1] by auto
  ultimately show ?thesis
    using r unknown_transfer_crashes[OF assms(3), of L sv s1 d3 er] assms(1) by auto
qed

text \<open>Terminating a running transfer does not unpublish it: an accepted termination makes no call to
  the provider service and sends nothing, in whichever state, direction and role.\<close>

theorem termination_keeps_publication:
  assumes "processTransferMessage L sv ctx fresh rl pid auto (MTransferTermination t) s = (s', Responded resp)"
  shows "s_provider s' = s_provider s \<and> s_effects s' = s_effects s"
proof -
  obtain opt d1 tr tr1 calls ap where rp:
      "recv_and_progress L (sv_deps sv) ctx fresh auto (MTransferTermination t) (tr, s_provider s) = ((tr1, calls), Inr ap)"
    and s': "s_provider s' = calls" "s_effects s' = run_transfer_apply ap (s_effects s)"
    by (rule processTransfer_Responded[OF assms])
  obtain s1 k where r1: "transfer_Recv L (sv_deps sv) ctx fresh (MTransferTermination t) (tr, s_provider s) = (s1, OK k)"
    using rp by (cases "transfer_Recv L (sv_deps sv) ctx fresh (MTransferTermination t) (tr, s_provider s)";
        cases "snd (transfer_Recv L (sv_deps sv) ctx fresh (MTransferTermination t) (tr, s_provider s))")
      (auto simp: recv_and_progress_def transferError_def simp del: transfer_Recv.simps split: option.splits outcome.splits)
  have "r_state (fst s1) = T_TERMINATED \<and> snd s1 = s_provider s"
    using r1 by (cases "r_state tr") (auto simp: verifyAndTransformTransfer_OK)
  then show ?thesis
    using rp s' r1 by (cases auto) (auto simp: recv_and_progress_def simp del: transfer_Recv.simps)
qed

text \<open>A consumer never acknowledges a suspension: its route names the PID \<open>consumerPID\<close>, the handler
  asks for \<open>providerPID\<close>, so every suspension that arrives there is answered with a generic error
  500, while the provider's route acknowledges every valid one without recording it.\<close>

theorem consumer_suspension_refused:
  "consumerTransferSuspensionHandler [''consumerPID'' \<mapsto> v] body = Failed (OtherFailure ''missing consumner PID'')
   \<and> status_code (WrapHandlerWithError L (OtherFailure ''missing consumner PID'')) = 500
   \<and> (v \<noteq> [] \<and> valid_TransferSuspension m \<longrightarrow> providerTransferSuspensionHandler [''providerPID'' \<mapsto> v] (Some m) =
        Responded \<lparr>status_code = 200, resp_body = None\<rparr>)"
  by (simp add: consumerTransferSuspensionHandler_def providerTransferSuspensionHandler_def PathValue_def
      WrapHandlerWithError_def EncodeValid_def DecodeValid_def)

section \<open>Examples\<close>

definition started_row :: transfer_row where
  "started_row = \<lparr>t_ID = 1, t_ProviderPID = Some (uuid_URN sample_lib 2), t_ConsumerPID = Some (uuid_URN sample_lib 3),
     t_AgreementID = uuid_URN sample_lib 7, t_Agreement = no_agreement_row, t_Target = ''1'', t_Format = ''HTTP_PULL'',
     t_PublishInfo = Some ''{}'', t_Direction = ''PULL'', t_State = ''dspace:STARTED'', t_CallbackURL = ''/dsp'',
     t_SelfURL = ''/dsp'', t_Role = ''Provider'', t_RequesterInfo = Some ''{}'', t_TraceInfo = ''{}'', t_Locked = False\<rparr>"

definition started_db :: db where
  "started_db = empty_db\<lparr>transfers := [started_row], next_transfer := 2, clock := 1,
     agreements := [\<lparr>a_ID = uuid_URN sample_lib 7, a_ODRL = ''{}''\<rparr>]\<rparr>"

definition started_sys :: tsys where
  "started_sys = \<lparr>s_db = started_db, s_effects = no_effects, s_provider = []\<rparr>"

definition started_transfer :: transfer_request where
  "started_transfer = (sample_provider_transfer T_STARTED)\<lparr>r_modified := False, r_internal_id := 1\<rparr>"

definition transfer_server :: server where
  "transfer_server = \<lparr>sv_deps = sample_deps, sv_backend = quiet New_backend, sv_selfURL = root_url\<rparr>"

lemma transfer_server_simps [simp]: "sv_backend transfer_server = quiet New_backend" "sv_deps transfer_server = sample_deps"
  by (simp_all add: transfer_server_def)

lemma started_sys_simps [simp]: "s_db started_sys = started_db" "s_provider started_sys = []"
  by (simp_all add: started_sys_def)

lemma started_db_wf [simp]: "wf_db started_db"
  by (simp add: started_db_def started_row_def wf_db_def wf_rows_def empty_db_def)

lemma started_take:
  "\<exists>d1. GetTransfer sample_lib (quiet New_backend) [T_WithRW, T_WithProviderPID 2] started_db = (d1, OK started_transfer)"
proof -
  have one: "filter (transfer_where sample_lib (newTransferParamBuilder [T_WithRW, T_WithProviderPID 2]) None)
      (transfers started_db) = [started_row]"
    using T_rolePID_builder[of 2 DataspaceProvider "T_WithProviderPID 2" sample_lib started_row]
    by (simp add: started_db_def started_row_def)
  have free: "\<not> t_Locked started_row" by (simp add: started_row_def)
  have state: "transfer_ParseState (ArgString ''dspace:STARTED'') = OK T_STARTED"
    using ParseState_String(2)[of T_STARTED] by simp
  have found: "find_agreement started_db (t_AgreementID started_row) = Some \<lparr>a_ID = uuid_URN sample_lib 7, a_ODRL = ''{}''\<rparr>"
    by (simp add: find_agreement_def started_db_def started_row_def)
  have "r_FromModel sample_lib (started_row\<lparr>t_Locked := True, t_Agreement := \<lparr>a_ID = uuid_URN sample_lib 7, a_ODRL = ''{}''\<rparr>\<rparr>)
      False = OK started_transfer"
    by (simp add: r_FromModel_def started_row_def state parse_pid_def ParseRole_Role_String[of DataspaceProvider]
        ParseDirection_def opt_read_def started_transfer_def sample_transfer_def root_url_def)
  then show ?thesis
    using getTransferLocked_reliable[OF New_backend_reliable started_db_wf one free] found
    by (simp add: T_rolePID_RW[of 2 DataspaceProvider] finish_transfer_def)
qed

lemma started_terminate:
  "\<exists>s' resp. processTransferMessage sample_lib transfer_server sample_ctx 0 DataspaceProvider 2 True
     (MTransferTermination sample_termination) started_sys = (s', Responded resp)"
proof -
  obtain d1 where get: "GetTransfer sample_lib (quiet New_backend) [T_WithRW, T_WithProviderPID 2] started_db = (d1, OK started_transfer)"
    using started_take by blast
  let ?t = "started_transfer\<lparr>r_state := T_TERMINATED, r_modified := True\<rparr>"
  have rp: "recv_and_progress sample_lib sample_deps sample_ctx 0 True (MTransferTermination sample_termination)
      (started_transfer, []) = ((?t, []), Inr ApNoop)"
    by (simp add: recv_and_progress_def verifyAndTransformTransfer_def sample_termination_def started_transfer_def
        GetTransferRequestNegotiation_def r_SetState_def r_panicRO_def r_modify_def)
  obtain r where r: "r \<in> set (transfers d1)" "t_ID r = 1"
    by (rule GetTransfer_state[OF _ started_db_wf get, of 2 DataspaceProvider]) (auto simp: started_transfer_def)
  obtain x k where "started_row \<in> set (transfers started_db)" "d1 = lock_transfer_row x k started_db"
      "x \<in> set (transfers started_db)"
    by (rule GetTransfer_row[OF get started_db_wf, of 2 DataspaceProvider]) (auto simp: started_db_def)
  then have rows: "transfers d1 = [started_row\<lparr>t_Locked := True\<rparr>]"
    by (auto simp: started_db_def lock_transfer_row_def)
  have "\<exists>d2. PutTransfer sample_lib (quiet New_backend) ?t d1 = (d2, OK ())"
    by (simp add: PutTransfer_def started_transfer_def r_ToModel_def sample_transfer_def opt_read_def upsert_transfer_def
        upsert_rows_def rows started_row_def)
  then obtain d2 where "storeRequest sample_lib (quiet New_backend) ?t d1 = (d2, None)"
    by (auto simp: storeRequest_None)
  then show ?thesis by (simp add: processTransferMessage_def get rp)
qed

lemma started_refuse:
  "\<exists>s1 f x e. processTransferMessage sample_lib transfer_server sample_ctx 0 DataspaceProvider 2 True
     sample_counter_offer started_sys = (s1, Failed f)
   \<and> transfer_Recv sample_lib sample_deps sample_ctx 0 sample_counter_offer (started_transfer, []) = (x, ERR e)"
proof -
  obtain d1 where get: "GetTransfer sample_lib (quiet New_backend) [T_WithRW, T_WithProviderPID 2] started_db = (d1, OK started_transfer)"
    using started_take by blast
  have r: "transfer_Recv sample_lib sample_deps sample_ctx 0 sample_counter_offer (started_transfer, []) =
      ((started_transfer, []), ERR (Errorf ''invalid message type'' []))"
    by (simp add: sample_counter_offer_def started_transfer_def)
  then show ?thesis
    by (simp add: processTransferMessage_def get recv_and_progress_def transferError_def started_transfer_def
        del: transfer_Recv.simps)
qed

lemma accepted_transfer_message_stored_witness:
  "\<exists>s' resp. processTransferMessage sample_lib transfer_server sample_ctx 0 DataspaceProvider 2 True
     (MTransferTermination sample_termination) started_sys = (s', Responded resp) \<and> status_code resp = 200
   \<and> (\<exists>r \<in> set (transfers (s_db s')). t_ID r = 1 \<and> t_State r = ''dspace:TERMINATED'' \<and> \<not> t_Locked r)"
proof -
  obtain d1 where get: "GetTransfer sample_lib (quiet New_backend) [T_WithRW, T_WithProviderPID 2] (s_db started_sys) =
      (d1, OK started_transfer)"
    using started_take by auto
  obtain s' resp where r: "processTransferMessage sample_lib transfer_server sample_ctx 0 DataspaceProvider 2 True
     (MTransferTermination sample_termination) started_sys = (s', Responded resp)"
    using started_terminate by blast
  from accepted_transfer_message_stored[OF _ New_backend_reliable _ _ get r] r show ?thesis
    by (auto simp: started_transfer_def)
qed

lemma bad_transfer_requests_crash_witness:
  "snd (progressTransferState sample_lib transfer_server sample_ctx 0 DataspaceProvider (uuid_URN sample_lib 2) True
     (ERR (Errorf ''decode json'' [])) started_sys) = Crashed ''nil pointer dereference''"
  by (rule bad_transfer_requests_crash) simp

lemma refused_transfer_message_locks_witness:
  "\<exists>s1 s2 f. processTransferMessage sample_lib transfer_server sample_ctx 0 DataspaceProvider 2 True
     sample_counter_offer started_sys = (s1, Failed f) \<and> 1 \<in> held_transfers (s_db s1)
   \<and> processTransferMessage sample_lib transfer_server sample_ctx 0 DataspaceProvider 2 True
       (MTransferTermination sample_termination) s1 = (s2, Crashed ''nil pointer dereference'')"
proof -
  obtain d1 where get: "GetTransfer sample_lib (quiet New_backend) [T_WithRW, T_WithProviderPID 2] (s_db started_sys) =
      (d1, OK started_transfer)"
    using started_take by auto
  obtain s1 f x e where r: "processTransferMessage sample_lib transfer_server sample_ctx 0 DataspaceProvider 2 True
     sample_counter_offer started_sys = (s1, Failed f)"
     "transfer_Recv sample_lib (sv_deps transfer_server) sample_ctx 0 sample_counter_offer (started_transfer, s_provider started_sys) = (x, ERR e)"
    using started_refuse by auto
  from refused_transfer_message_locks[OF _ _ _ get r, of sample_ctx 0 True "MTransferTermination sample_termination"] r(1)
  show ?thesis by (auto simp: started_transfer_def)
qed

lemma termination_keeps_publication_witness:
  "\<exists>s' resp. processTransferMessage sample_lib transfer_server sample_ctx 0 DataspaceProvider 2 True
     (MTransferTermination sample_termination) started_sys = (s', Responded resp) \<and> s_provider s' = []"
proof -
  obtain s' resp where r: "processTransferMessage sample_lib transfer_server sample_ctx 0 DataspaceProvider 2 True
     (MTransferTermination sample_termination) started_sys = (s', Responded resp)"
    using started_terminate by blast
  from termination_keeps_publication[OF r] r show ?thesis by simp
qed

definition sample_suspension :: TransferSuspensionMessage where
  "sample_suspension = \<lparr>tum_Context = GetDSPContext, tum_Type = ''dspace:TransferSuspensionMessage'',
     tum_ProviderPID = ''2'', tum_ConsumerPID = ''3'', tum_Code = [], tum_Reason = []\<rparr>"

lemma consumer_suspension_refused_witness:
  "consumerTransferSuspensionHandler [''consumerPID'' \<mapsto> ''3''] (Some sample_suspension) =
     Failed (OtherFailure ''missing consumner PID'')
   \<and> providerTransferSuspensionHandler [''providerPID'' \<mapsto> ''2''] (Some sample_suspension) =
        Responded \<lparr>status_code = 200, resp_body = None\<rparr>"
  using consumer_suspension_refused[of "''3''" "Some sample_suspension" sample_lib sample_suspension]
    consumer_suspension_refused[of "''2''" "Some sample_suspension" sample_lib sample_suspension]
  by (simp add: sample_suspension_def valid_TransferSuspension_def required_def)

end
