(* ===== verification/Reconciler.thy ===== *)
theory Reconciler
  imports Complex_Main Store_Session Transfer_Machine
begin

text \<open>
  The reconciler: \<open>dsp/statemachine/reconciler.go\<close>. It keeps a queue of outgoing messages, sends
  the one at the front when its time has come, and on success stores the state the message leads
  to. A failed attempt is queued again with a growing delay, and given up after a minute. The
  manager hands an operation to its one worker over an unbuffered channel, so a tick of the manager
  and the attempt it starts are one step here. Instants and durations are nanoseconds.
\<close>

section \<open>State updaters\<close>

fun wrap_m :: "string \<Rightarrow> 's \<times> 'a outcome \<Rightarrow> 's \<times> 'a outcome" where
  "wrap_m msg (s, ERR e) = (s, ERR (wrapf msg e))"
| "wrap_m msg (s, OK x) = (s, OK x)"
| "wrap_m msg (s, PANIC p) = (s, PANIC p)"

datatype state_updater = NegotiationUpdater negotiation | RequestUpdater transfer_request

definition fatal :: "string \<Rightarrow> goerror \<Rightarrow> goerror" where
  "fatal msg e = Errorf msg (ErrFatal # err_wraps e)"

text \<open>The target state is set on the record that was taken; when the table does not allow it the record
  is released, and whether that succeeds is only logged.\<close>

definition set_or_release :: "'x outcome \<Rightarrow> db \<times> unit outcome \<Rightarrow> db \<Rightarrow> db \<times> 'x outcome" where
  "set_or_release result released d1 = (case result of
     OK x \<Rightarrow> (d1, OK x)
   | PANIC p \<Rightarrow> (d1, PANIC p)
   | ERR e \<Rightarrow> (case released of
        (d2, PANIC p) \<Rightarrow> (d2, PANIC p)
      | (d2, _) \<Rightarrow> (d2, ERR (wrapf ''can't change state'' e))))"

lemma set_or_release_OK [outcome_simps]: "set_or_release r rel d1 = (d', OK x) \<longleftrightarrow> r = OK x \<and> d' = d1"
  by (auto simp: set_or_release_def split: outcome.splits prod.splits)

definition newNegotiationUpdater :: "'a lib_scheme \<Rightarrow> backend \<Rightarrow> ReconciliationEntry \<Rightarrow> string \<Rightarrow> db
    \<Rightarrow> db \<times> negotiation outcome" where
  "newNegotiationUpdater L P entry state d =
     (case contract_ParseState (ArgString state) of
        ERR e \<Rightarrow> (d, ERR (fatal ''Invalid state'' e))
      | PANIC p \<Rightarrow> (d, PANIC p)
      | OK cs \<Rightarrow>
         seq_m (d, WithRolePID (EntityID entry) (re_Role entry)) (\<lambda>d opt.
         seq_m (wrap_m ''can't find contract'' (GetContract L P [WithRW, opt] d)) (\<lambda>d1 con.
         set_or_release (n_SetState cs con) (ReleaseContract L P con d1) d1)))"

definition newRequestUpdater :: "'a lib_scheme \<Rightarrow> backend \<Rightarrow> ReconciliationEntry \<Rightarrow> string \<Rightarrow> db
    \<Rightarrow> db \<times> transfer_request outcome" where
  "newRequestUpdater L P entry state d =
     (case transfer_ParseState (ArgString state) of
        ERR e \<Rightarrow> (d, ERR (fatal ''Invalid state'' e))
      | PANIC p \<Rightarrow> (d, PANIC p)
      | OK ts \<Rightarrow>
         seq_m (d, T_WithRolePID (EntityID entry) (re_Role entry)) (\<lambda>d opt.
         seq_m (wrap_m ''can't find transfer request'' (GetTransfer L P [T_WithRW, opt] d)) (\<lambda>d1 tr.
         set_or_release (r_SetState ts tr) (ReleaseTransfer L P tr d1) d1)))"

definition getStateUpdater :: "'a lib_scheme \<Rightarrow> backend \<Rightarrow> ReconciliationEntry \<Rightarrow> string \<Rightarrow> db
    \<Rightarrow> db \<times> state_updater outcome" where
  "getStateUpdater L P entry state d =
     (case re_Type entry of
        ReconciliationContract \<Rightarrow>
          seq_m (newNegotiationUpdater L P entry state d) (\<lambda>d1 n. (d1, OK (NegotiationUpdater n)))
      | ReconciliationTransferRequest \<Rightarrow>
          seq_m (newRequestUpdater L P entry state d) (\<lambda>d1 r. (d1, OK (RequestUpdater r)))
      | ReconciliationUndefined \<Rightarrow> (d, ERR (Errorf ''undefined type'' [])))"

fun updater_Commit :: "'a lib_scheme \<Rightarrow> backend \<Rightarrow> state_updater \<Rightarrow> db \<Rightarrow> db \<times> unit outcome" where
  "updater_Commit L P (NegotiationUpdater n) d = wrap_m ''can't save negotiation'' (PutContract L P n d)"
| "updater_Commit L P (RequestUpdater r) d = wrap_m ''can't save transfer request'' (PutTransfer L P r d)"

fun updater_Rollback :: "'a lib_scheme \<Rightarrow> backend \<Rightarrow> state_updater \<Rightarrow> db \<Rightarrow> db \<times> unit outcome" where
  "updater_Rollback L P (NegotiationUpdater n) d = wrap_m ''can't release negotiation lock'' (ReleaseContract L P n d)"
| "updater_Rollback L P (RequestUpdater r) d = wrap_m ''can't release transfer lock'' (ReleaseTransfer L P r d)"

text \<open>An acknowledgement is the negotiation the peer answers, \<open>None\<close> when the body is empty or does
  not decode. Only a PID that is missing is learnt, and only beside the one that is known.\<close>

definition parseNegotiationAck :: "'a lib_scheme \<Rightarrow> ContractNegotiation option \<Rightarrow> (uuid \<times> uuid) option" where
  "parseNegotiationAck L body = (case body of
     None \<Rightarrow> None
   | Some ack \<Rightarrow>
       if cn_Type ack \<noteq> ''dspace:ContractNegotiation'' then None
       else (case (uuid_Parse L (cn_ProviderPID ack), uuid_Parse L (cn_ConsumerPID ack)) of
               (Some ppid, Some cpid) \<Rightarrow> Some (ppid, cpid)
             | _ \<Rightarrow> None))"

definition negotiation_ApplyResponse :: "'a lib_scheme \<Rightarrow> ContractNegotiation option \<Rightarrow> negotiation \<Rightarrow> negotiation outcome" where
  "negotiation_ApplyResponse L body n = (case parseNegotiationAck L body of
     None \<Rightarrow> OK n
   | Some (ppid, cpid) \<Rightarrow>
       if n_providerPID n = emptyUUID \<and> cpid = n_consumerPID n \<and> ppid \<noteq> emptyUUID then n_SetProviderPID ppid n
       else if n_consumerPID n = emptyUUID \<and> ppid = n_providerPID n \<and> cpid \<noteq> emptyUUID then n_SetConsumerPID cpid n
       else OK n)"

fun updater_ApplyResponse :: "'a lib_scheme \<Rightarrow> ContractNegotiation option \<Rightarrow> state_updater \<Rightarrow> state_updater outcome" where
  "updater_ApplyResponse L body (NegotiationUpdater n) =
     obind (negotiation_ApplyResponse L body n) (\<lambda>n'. OK (NegotiationUpdater n'))"
| "updater_ApplyResponse L body (RequestUpdater r) = OK (RequestUpdater r)"

section \<open>The queue\<close>

record reconciliationOperation =
  Submitted :: int
  NextAttempt :: int
  Attempts :: int
  op_Entry :: ReconciliationEntry
  CurrentInterval :: int

definition initialRetry :: int where "initialRetry = 500000000"
definition maxDuration :: int where "maxDuration = 60000000000"
definition maxAttempts :: int where "maxAttempts = 50"

text \<open>The reconciler's view of the world: its queue, the database, and the requests it has sent.\<close>

record reconciler =
  rc_queue :: "reconciliationOperation list"
  rc_db :: db
  rc_sent :: "ReconciliationEntry list"

definition reconciler_Add :: "int \<Rightarrow> ReconciliationEntry \<Rightarrow> reconciler \<Rightarrow> reconciler" where
  "reconciler_Add now entry s = s\<lparr>rc_queue := rc_queue s @
     [\<lparr>Submitted = now, NextAttempt = now, Attempts = 0, op_Entry = entry, CurrentInterval = initialRetry\<rparr>]\<rparr>"

text \<open>The next attempt, given the random number; the products are exact, where the code's float64
  would round them.\<close>

definition calculateNextAttempt :: "int \<Rightarrow> rat \<Rightarrow> int \<Rightarrow> int \<Rightarrow> int \<times> int" where
  "calculateNextAttempt now rand currentInterval attempts =
     (let ci = (if attempts \<noteq> 1 then of_int currentInterval * (3 / 2) else of_int currentInterval);
          delta = (1 / 2) * ci;
          minInterval = ci - delta;
          maxInterval = ci + delta;
          randomValue = \<lfloor>minInterval + rand * (maxInterval - minInterval + 1)\<rfloor>
      in (now + randomValue, \<lfloor>ci\<rfloor>))"

definition terminateAttempt :: "'a lib_scheme \<Rightarrow> backend \<Rightarrow> ReconciliationEntry \<Rightarrow> db \<Rightarrow> db \<times> unit outcome" where
  "terminateAttempt L P entry d =
     seq_m (getStateUpdater L P entry (TargetState entry) d) (\<lambda>d1 u.
     (case updater_Commit L P u d1 of
        (d2, OK x) \<Rightarrow> (d2, OK ())
      | (d2, r) \<Rightarrow> (fst (updater_Rollback L P u d2), r)))"

fun terminate_loop :: "'a lib_scheme \<Rightarrow> backend \<Rightarrow> ReconciliationEntry \<Rightarrow> nat \<Rightarrow> db \<Rightarrow> db \<times> unit outcome" where
  "terminate_loop L P entry 0 d = (d, PANIC ''Could not set state to terminated'')"
| "terminate_loop L P entry (Suc n) d =
     (case terminateAttempt L P entry d of
        (d1, OK x) \<Rightarrow> (d1, OK ())
      | (d1, ERR e) \<Rightarrow> terminate_loop L P entry n d1
      | (d1, PANIC p) \<Rightarrow> (d1, PANIC p))"

definition terminate :: "'a lib_scheme \<Rightarrow> backend \<Rightarrow> ReconciliationEntry \<Rightarrow> db \<Rightarrow> db \<times> unit outcome" where
  "terminate L P entry d = terminate_loop L P entry 10 d"

definition handleError :: "'a lib_scheme \<Rightarrow> backend \<Rightarrow> int \<Rightarrow> rat \<Rightarrow> reconciliationOperation \<Rightarrow> goerror \<Rightarrow> reconciler
    \<Rightarrow> reconciler \<times> unit outcome" where
  "handleError L P now rand op err s =
     (let give_up = (case terminate L P (op_Entry op) (rc_db s) of (d, r) \<Rightarrow> (s\<lparr>rc_db := d\<rparr>, r))
      in if errors_Is err ErrFatal \<or> maxAttempts \<le> Attempts op then give_up
         else (case calculateNextAttempt now rand (CurrentInterval op) (Attempts op) of
                 (next, interval) \<Rightarrow>
                   if maxDuration < next - Submitted op then give_up
                   else (s\<lparr>rc_queue := rc_queue s @ [op\<lparr>NextAttempt := next, CurrentInterval := interval\<rparr>]\<rparr>, OK ())))"

text \<open>One attempt. \<open>answer\<close> is what the request would answer. The rollback is deferred: it runs after the
  error was handled, also when that panicked.\<close>

definition rollback_deferred :: "'a lib_scheme \<Rightarrow> backend \<Rightarrow> state_updater \<Rightarrow> reconciler \<times> unit outcome
    \<Rightarrow> reconciler \<times> unit outcome" where
  "rollback_deferred L P u r = (case r of (s, x) \<Rightarrow>
     (s\<lparr>rc_db := fst (updater_Rollback L P u (rc_db s))\<rparr>,
      case snd (updater_Rollback L P u (rc_db s)) of PANIC p \<Rightarrow> PANIC p | _ \<Rightarrow> x))"

definition reconcileEntry :: "'a lib_scheme \<Rightarrow> backend \<Rightarrow> ContractNegotiation option outcome \<Rightarrow> int \<Rightarrow> rat
    \<Rightarrow> reconciliationOperation \<Rightarrow> reconciler \<Rightarrow> reconciler \<times> unit outcome" where
  "reconcileEntry L P answer now rand op s =
     (let entry = op_Entry op in
      case getStateUpdater L P entry (TargetState entry) (rc_db s) of
        (d1, PANIC p) \<Rightarrow> (s\<lparr>rc_db := d1\<rparr>, PANIC p)
      | (d1, ERR e) \<Rightarrow> handleError L P now rand op (wrapf ''could not acquire record'' e) (s\<lparr>rc_db := d1\<rparr>)
      | (d1, OK u) \<Rightarrow>
          (let s1 = s\<lparr>rc_db := d1, rc_sent := rc_sent s @ [entry]\<rparr> in
           case answer of
             PANIC p \<Rightarrow> rollback_deferred L P u (s1, PANIC p)
           | ERR e \<Rightarrow> rollback_deferred L P u (handleError L P now rand op e s1)
           | OK body \<Rightarrow>
               (case updater_ApplyResponse L body u of
                  PANIC p \<Rightarrow> rollback_deferred L P u (s1, PANIC p)
                | ERR e \<Rightarrow> rollback_deferred L P u (s1, ERR e)
                | OK u' \<Rightarrow>
                    (case updater_Commit L P u' d1 of
                       (d2, OK x) \<Rightarrow> (s1\<lparr>rc_db := d2\<rparr>, OK ())
                     | (d2, PANIC p) \<Rightarrow> rollback_deferred L P u' (s1\<lparr>rc_db := d2\<rparr>, PANIC p)
                     | (d2, ERR e) \<Rightarrow> rollback_deferred L P u'
                         (handleError L P now rand op (wrapf ''could not update state'' e) (s1\<lparr>rc_db := d2\<rparr>))))))"

text \<open>A tick of the manager, with the attempt the worker then makes.\<close>

definition manager_tick :: "'a lib_scheme \<Rightarrow> backend \<Rightarrow> ContractNegotiation option outcome \<Rightarrow> int \<Rightarrow> rat
    \<Rightarrow> reconciler \<Rightarrow> reconciler \<times> unit outcome" where
  "manager_tick L P answer now rand s =
     (case rc_queue s of
        [] \<Rightarrow> (s, OK ())
      | op # q \<Rightarrow>
          if NextAttempt op < now
          then reconcileEntry L P answer now rand (op\<lparr>Attempts := Attempts op + 1\<rparr>) (s\<lparr>rc_queue := q\<rparr>)
          else (s\<lparr>rc_queue := q @ [op]\<rparr>, OK ()))"

end
