(* ===== verification/Reconciler_Facts.thy ===== *)
theory Reconciler_Facts
  imports Reconciler
begin

text \<open>
  What the reconciler guarantees: one interface for the records a message moves, implemented by
  negotiations and transfers; what an attempt that succeeds, fails or is given up leaves behind;
  and the bounds of the backoff.
\<close>

section \<open>The interface of state updaters\<close>

text \<open>
  A record is acquired for its target state, then committed or rolled back. While it is held it
  can not be acquired again; rolling back restores the rows; what \<open>kin\<close> relates are two views of
  the same record.
\<close>

locale updater_laws =
  fixes acquire :: "'e \<Rightarrow> 'd \<Rightarrow> 'd \<times> 'u outcome"
    and commit :: "'u \<Rightarrow> 'd \<Rightarrow> 'd \<times> unit outcome"
    and rollback :: "'u \<Rightarrow> 'd \<Rightarrow> 'd \<times> unit outcome"
    and held :: "'d \<Rightarrow> 'k set"
    and key :: "'u \<Rightarrow> 'k"
    and kin :: "'u \<Rightarrow> 'u \<Rightarrow> bool"
    and wf :: "'d \<Rightarrow> bool"
    and same :: "'d \<Rightarrow> 'd \<Rightarrow> bool"
  assumes acquire_holds: "wf d \<Longrightarrow> acquire e d = (d', OK u) \<Longrightarrow>
      key u \<notin> held d \<and> held d' = insert (key u) (held d) \<and> wf d'"
    and acquire_again: "wf d \<Longrightarrow> acquire e d = (d1, OK u) \<Longrightarrow> same d1 d2 \<Longrightarrow>
      \<exists>d3 er. acquire e d2 = (d3, ERR er) \<and> same d2 d3"
    and rollback_restores: "wf d \<Longrightarrow> acquire e d = (d1, OK u) \<Longrightarrow> kin u u' \<Longrightarrow> same d1 d2 \<Longrightarrow>
      \<exists>d3. rollback u' d2 = (d3, OK ()) \<and> same d d3"
    and commit_gives_back: "wf d \<Longrightarrow> commit u d = (d', OK x) \<Longrightarrow> held d' = held d - {key u}"
    and commit_fails: "commit u d = (d', ERR er) \<Longrightarrow> same d d'"
    and kin_key: "kin u u' \<Longrightarrow> key u' = key u"
    and kin_refl: "kin u u"
    and same_refl: "same d d"
    and same_trans: "same d d1 \<Longrightarrow> same d1 d2 \<Longrightarrow> same d d2"
begin

lemma committed:
  assumes "wf d" "acquire e d = (d1, OK u)" "kin u u'" "commit u' d1 = (d2, OK x)"
  shows "held d2 = held d"
  using acquire_holds[OF assms(1,2)] commit_gives_back[of d1 u' d2 x] assms(4) kin_key[OF assms(3)] by auto

lemma failed_commit:
  assumes "wf d" "acquire e d = (d1, OK u)" "kin u u'" "commit u' d1 = (d2, ERR er)"
  shows "\<exists>d3. rollback u' d2 = (d3, OK ()) \<and> same d d3"
  using rollback_restores[OF assms(1-3) commit_fails[OF assms(4)]] .

text \<open>However often it is tried, the record is not acquired a second time.\<close>

lemma never_again:
  assumes "wf d" "acquire e d = (d1, OK u)" "same d1 d2"
  shows "same d1 (fst (acquire e d2)) \<and> \<not> is_OK (snd (acquire e d2))"
  using acquire_again[OF assms] assms(3) same_trans by auto

end

definition held_records :: "db \<Rightarrow> (int + int) set" where
  "held_records d = Inl ` held_contracts d \<union> Inr ` held_transfers d"

fun updater_key :: "state_updater \<Rightarrow> int + int" where
  "updater_key (NegotiationUpdater n) = Inl (n_internal_id n)"
| "updater_key (RequestUpdater r) = Inr (r_internal_id r)"

fun updater_kin :: "state_updater \<Rightarrow> state_updater \<Rightarrow> bool" where
  "updater_kin (NegotiationUpdater n) (NegotiationUpdater n') \<longleftrightarrow>
     n_internal_id n' = n_internal_id n \<and> n_role n' = n_role n \<and> n_state n' = n_state n \<and> (n_modified n \<longrightarrow> n_modified n')
     \<and> n_ro n' = n_ro n"
| "updater_kin (RequestUpdater r) (RequestUpdater r') \<longleftrightarrow> r' = r"
| "updater_kin _ _ \<longleftrightarrow> False"

definition session_db :: "'a lib_scheme \<Rightarrow> backend \<Rightarrow> db \<Rightarrow> bool" where
  "session_db L P d \<longleftrightarrow> wf_db d \<and> reliable P \<and> total_codecs L"

abbreviation acquire_target :: "'a lib_scheme \<Rightarrow> backend \<Rightarrow> ReconciliationEntry \<Rightarrow> db \<Rightarrow> db \<times> state_updater outcome" where
  "acquire_target L P e d \<equiv> getStateUpdater L P e (TargetState e) d"

lemma wrap_m_OK [outcome_simps]: "wrap_m msg r = (s, OK x) \<longleftrightarrow> r = (s, OK x)"
  by (cases "(msg, r)" rule: wrap_m.cases) auto

lemma wrap_m_ERR [outcome_simps]: "wrap_m msg r = (s, ERR e) \<longleftrightarrow> (\<exists>e'. r = (s, ERR e') \<and> e = wrapf msg e')"
  by (cases "(msg, r)" rule: wrap_m.cases) auto

text \<open>What an updater was made from.\<close>

lemma newNegotiationUpdater_OK:
  "newNegotiationUpdater L P e st d = (d1, OK n) \<longleftrightarrow>
     (\<exists>cs opt con. contract_ParseState (ArgString st) = OK cs \<and> WithRolePID (EntityID e) (re_Role e) = OK opt
        \<and> GetContract L P [WithRW, opt] d = (d1, OK con) \<and> n_SetState cs con = OK n)"
  by (auto simp: newNegotiationUpdater_def outcome_simps simp del: n_SetState_OK split: outcome.splits)

lemma newRequestUpdater_OK:
  "newRequestUpdater L P e st d = (d1, OK r) \<longleftrightarrow>
     (\<exists>ts opt tr. transfer_ParseState (ArgString st) = OK ts \<and> T_WithRolePID (EntityID e) (re_Role e) = OK opt
        \<and> GetTransfer L P [T_WithRW, opt] d = (d1, OK tr) \<and> r_SetState ts tr = OK r)"
  by (auto simp: newRequestUpdater_def outcome_simps simp del: r_SetState_OK split: outcome.splits)

lemma getStateUpdater_OK:
  "getStateUpdater L P e st d = (d1, OK u) \<longleftrightarrow>
     re_Type e = ReconciliationContract \<and> (\<exists>n. newNegotiationUpdater L P e st d = (d1, OK n) \<and> u = NegotiationUpdater n)
     \<or> re_Type e = ReconciliationTransferRequest \<and> (\<exists>r. newRequestUpdater L P e st d = (d1, OK r) \<and> u = RequestUpdater r)"
  by (auto simp: getStateUpdater_def outcome_simps split: reconciliation_type.splits)

section \<open>Negotiations and transfers implement it\<close>

lemma put_frames:
  "transfers (fst (PutContract L P n d)) = transfers d" "contracts (fst (PutTransfer L P r d)) = contracts d"
  by (auto simp: PutContract_def ReleaseContract_def PutTransfer_def ReleaseTransfer_def upsert_contract_def
      upsert_transfer_def exec_def Let_def split: outcome.splits)

lemma lock_frames [simp]:
  "held_transfers (lock_contract_row r k d) = held_transfers d" "held_contracts (lock_transfer_row t k d) = held_contracts d"
  by (simp_all add: held_transfers_def held_contracts_def lock_contract_row_def lock_transfer_row_def)

lemma acquire_contract:
  assumes "session_db L P d" "acquire_target L (quiet P) e d = (d1, OK u)" "re_Type e = ReconciliationContract"
  obtains opt cs con n where "u = NegotiationUpdater n" "WithRolePID (EntityID e) (re_Role e) = OK opt"
    "GetContract L (quiet P) [WithRW, opt] d = (d1, OK con)" "n = con\<lparr>n_state := cs, n_modified := True\<rparr>"
    "contract_ParseState (ArgString (TargetState e)) = OK cs" "cs \<in> set (validTransitions (n_state con))"
    "n_role con \<noteq> RoleInvalid" "\<not> n_ro con" "wf_db d"
proof -
  obtain n opt cs con where u: "u = NegotiationUpdater n" "WithRolePID (EntityID e) (re_Role e) = OK opt"
      "GetContract L (quiet P) [WithRW, opt] d = (d1, OK con)" "n_SetState cs con = OK n"
      "contract_ParseState (ArgString (TargetState e)) = OK cs"
    using assms(2,3) by (auto simp: getStateUpdater_OK newNegotiationUpdater_OK simp del: n_SetState_OK)
  then show thesis using that GetContract_role[OF u(2) _ u(3)] assms(1) by (auto simp: session_db_def outcome_simps)
qed

lemma acquire_transfer:
  assumes "session_db L P d" "acquire_target L (quiet P) e d = (d1, OK u)" "re_Type e \<noteq> ReconciliationContract"
  obtains opt ts tr r where "u = RequestUpdater r" "re_Type e = ReconciliationTransferRequest"
    "T_WithRolePID (EntityID e) (re_Role e) = OK opt"
    "GetTransfer L (quiet P) [T_WithRW, opt] d = (d1, OK tr)" "r = tr\<lparr>r_state := ts, r_modified := True\<rparr>"
    "transfer_ParseState (ArgString (TargetState e)) = OK ts" "ts \<in> set (validTransferTransitions (r_state tr))"
    "r_role tr \<noteq> RoleInvalid" "r_transferDirection tr \<noteq> DirectionInvalid" "\<not> r_ro tr" "wf_db d"
proof -
  obtain r opt ts tr where u: "u = RequestUpdater r" "re_Type e = ReconciliationTransferRequest"
      "T_WithRolePID (EntityID e) (re_Role e) = OK opt"
      "GetTransfer L (quiet P) [T_WithRW, opt] d = (d1, OK tr)" "r_SetState ts tr = OK r"
      "transfer_ParseState (ArgString (TargetState e)) = OK ts"
    using assms(2,3) by (auto simp: getStateUpdater_OK newRequestUpdater_OK simp del: r_SetState_OK)
  then show thesis using that GetTransfer_role[OF u(3) _ u(4)] assms(1) by (auto simp: session_db_def outcome_simps)
qed

lemma acquire_target_holds:
  assumes "session_db L P d" and "acquire_target L (quiet P) e d = (d1, OK u)"
  shows "updater_key u \<notin> held_records d \<and> held_records d1 = insert (updater_key u) (held_records d) \<and> session_db L P d1"
proof (cases "re_Type e = ReconciliationContract")
  case True
  obtain opt con n where c: "u = NegotiationUpdater n" "GetContract L (quiet P) [WithRW, opt] d = (d1, OK con)"
      "n_internal_id n = n_internal_id con" "wf_db d" "WithRolePID (EntityID e) (re_Role e) = OK opt"
    by (rule acquire_contract[OF assms True]) auto
  obtain r k where r: "d1 = lock_contract_row r k d" by (rule GetContract_row[OF c(2,4,5)])
  have "wf_db d1" using wf_GetContract[OF _ c(4), of "quiet P" L "[WithRW, opt]"] c(2) by simp
  then show ?thesis
    using contract_get_locks[OF c(4), of L P "[opt]" d1 con] c(1-3) assms(1) r
    by (auto simp: held_records_def session_db_def)
next
  case False
  obtain opt tr r where t: "u = RequestUpdater r" "GetTransfer L (quiet P) [T_WithRW, opt] d = (d1, OK tr)"
      "r_internal_id r = r_internal_id tr" "wf_db d" "T_WithRolePID (EntityID e) (re_Role e) = OK opt"
    by (rule acquire_transfer[OF assms False]) auto
  obtain x k where r: "d1 = lock_transfer_row x k d" by (rule GetTransfer_row[OF t(2,4,5)])
  have "wf_db d1" using wf_GetTransfer[OF _ t(4), of "quiet P" L "[T_WithRW, opt]"] t(2) by simp
  then show ?thesis
    using transfer_get_locks[OF t(4), of L P "[opt]" d1 tr] t(1-3) assms(1) r
    by (auto simp: held_records_def session_db_def)
qed

lemma acquire_target_again:
  assumes "session_db L P d" and "acquire_target L (quiet P) e d = (d1, OK u)" and "same_rows d1 d2"
  shows "\<exists>d3 er. acquire_target L (quiet P) e d2 = (d3, ERR er) \<and> same_rows d2 d3"
proof (cases "re_Type e = ReconciliationContract")
  case True
  obtain opt con cs where c: "GetContract L (quiet P) [WithRW, opt] d = (d1, OK con)" "wf_db d"
      "WithRolePID (EntityID e) (re_Role e) = OK opt" "contract_ParseState (ArgString (TargetState e)) = OK cs"
    by (rule acquire_contract[OF assms(1,2) True]) auto
  obtain d3 er where "GetContract L (quiet P) [WithRW, opt] d2 = (d3, ERR er)" "same_rows d2 d3"
    using GetContract_again[OF c(1-3) assms(3)] by blast
  then show ?thesis using True c(3,4) by (simp add: getStateUpdater_def newNegotiationUpdater_def)
next
  case False
  obtain opt tr ts where t: "GetTransfer L (quiet P) [T_WithRW, opt] d = (d1, OK tr)" "wf_db d"
      "T_WithRolePID (EntityID e) (re_Role e) = OK opt" "transfer_ParseState (ArgString (TargetState e)) = OK ts"
      "re_Type e = ReconciliationTransferRequest"
    by (rule acquire_transfer[OF assms(1,2) False]) auto
  obtain d3 er where "GetTransfer L (quiet P) [T_WithRW, opt] d2 = (d3, ERR er)" "same_rows d2 d3"
    using GetTransfer_again[OF t(1-3) assms(3)] by blast
  then show ?thesis using t(3-5) by (simp add: getStateUpdater_def newRequestUpdater_def)
qed

lemma rollback_target_restores:
  assumes "session_db L P d" and "acquire_target L (quiet P) e d = (d1, OK u)" and "updater_kin u u'"
    and "same_rows d1 d2"
  shows "\<exists>d3. updater_Rollback L (quiet P) u' d2 = (d3, OK ()) \<and> same_rows d d3"
proof (cases "re_Type e = ReconciliationContract")
  case True
  obtain opt con n where c: "u = NegotiationUpdater n" "GetContract L (quiet P) [WithRW, opt] d = (d1, OK con)" "wf_db d"
      "WithRolePID (EntityID e) (re_Role e) = OK opt" "n_internal_id n = n_internal_id con" "n_role n \<noteq> RoleInvalid"
    by (rule acquire_contract[OF assms(1,2) True]) auto
  obtain n' where n': "u' = NegotiationUpdater n'" "n_internal_id n' = n_internal_id con" "n_role n' \<noteq> RoleInvalid"
    using assms(3) c by (cases u') auto
  obtain d3 where "ReleaseContract L (quiet P) n' d2 = (d3, OK ())" "same_rows d d3"
    using release_restores_contract[OF c(2-4) _ _ assms(4) n'(2,3)] assms(1) by (auto simp: session_db_def)
  then show ?thesis by (simp add: n')
next
  case False
  obtain opt tr r where t: "u = RequestUpdater r" "GetTransfer L (quiet P) [T_WithRW, opt] d = (d1, OK tr)" "wf_db d"
      "T_WithRolePID (EntityID e) (re_Role e) = OK opt" "r_internal_id r = r_internal_id tr" "r_role r \<noteq> RoleInvalid"
      "r_transferDirection r \<noteq> DirectionInvalid"
    by (rule acquire_transfer[OF assms(1,2) False]) auto
  have u': "u' = RequestUpdater r" using assms(3) t(1) by (cases u') auto
  obtain d3 where "ReleaseTransfer L (quiet P) r d2 = (d3, OK ())" "same_rows d d3"
    using release_restores_transfer[OF t(2-4) _ _ assms(4) t(5-7)] assms(1) by (auto simp: session_db_def)
  then show ?thesis by (simp add: u')
qed

lemma commit_target_gives_back:
  assumes "session_db L P d" and "updater_Commit L (quiet P) u d = (d', OK x)"
  shows "held_records d' = held_records d - {updater_key u}"
proof -
  have wf: "wf_db d" using assms(1) by (simp add: session_db_def)
  show ?thesis
  proof (cases u)
    case (NegotiationUpdater n)
    with assms(2) have p: "PutContract L (quiet P) n d = (d', OK x)" by (simp add: outcome_simps)
    have "held_transfers d' = held_transfers d" using put_frames(1)[of L "quiet P" n d] p by (simp add: held_transfers_def)
    with contract_put_unlocks[OF wf, of L "quiet P" n d' "()"] p show ?thesis
      by (auto simp: held_records_def NegotiationUpdater)
  next
    case (RequestUpdater r)
    with assms(2) have p: "PutTransfer L (quiet P) r d = (d', OK x)" by (simp add: outcome_simps)
    have "held_contracts d' = held_contracts d" using put_frames(2)[of L "quiet P" r d] p by (simp add: held_contracts_def)
    with transfer_put_unlocks[OF wf, of L "quiet P" r d' "()"] p show ?thesis
      by (auto simp: held_records_def RequestUpdater)
  qed
qed

lemma commit_target_fails:
  "updater_Commit L P u d = (d', ERR er) \<Longrightarrow> same_rows d d'"
proof (cases u)
  case (NegotiationUpdater n)
  moreover assume "updater_Commit L P u d = (d', ERR er)"
  ultimately show ?thesis using failed_writes(2)[of L P n d] by (auto simp: outcome_simps)
next
  case (RequestUpdater r)
  moreover assume "updater_Commit L P u d = (d', ERR er)"
  ultimately show ?thesis using failed_writes(4)[of L P r d] by (auto simp: outcome_simps)
qed

interpretation su: updater_laws "acquire_target L (quiet P)" "updater_Commit L (quiet P)" "updater_Rollback L (quiet P)"
  held_records updater_key updater_kin "session_db L P" same_rows
  for L P
proof unfold_locales
  fix d d1 d2 d' e u u' er x
  show "session_db L P d \<Longrightarrow> acquire_target L (quiet P) e d = (d', OK u) \<Longrightarrow>
      updater_key u \<notin> held_records d \<and> held_records d' = insert (updater_key u) (held_records d) \<and> session_db L P d'"
    by (rule acquire_target_holds)
  show "session_db L P d \<Longrightarrow> acquire_target L (quiet P) e d = (d1, OK u) \<Longrightarrow> same_rows d1 d2 \<Longrightarrow>
      \<exists>d3 er. acquire_target L (quiet P) e d2 = (d3, ERR er) \<and> same_rows d2 d3"
    by (rule acquire_target_again)
  show "session_db L P d \<Longrightarrow> acquire_target L (quiet P) e d = (d1, OK u) \<Longrightarrow> updater_kin u u' \<Longrightarrow> same_rows d1 d2 \<Longrightarrow>
      \<exists>d3. updater_Rollback L (quiet P) u' d2 = (d3, OK ()) \<and> same_rows d d3"
    by (rule rollback_target_restores)
  show "session_db L P d \<Longrightarrow> updater_Commit L (quiet P) u d = (d', OK x) \<Longrightarrow>
      held_records d' = held_records d - {updater_key u}"
    by (rule commit_target_gives_back)
  show "updater_Commit L (quiet P) u d = (d', ERR er) \<Longrightarrow> same_rows d d'" by (rule commit_target_fails)
  show "updater_kin u u' \<Longrightarrow> updater_key u' = updater_key u" by (cases "(u, u')" rule: updater_kin.cases) auto
  show "updater_kin u u" by (cases u) auto
  show "same_rows d d" by simp
  show "same_rows d d1 \<Longrightarrow> same_rows d1 d2 \<Longrightarrow> same_rows d d2" by (rule same_rows_trans)
qed

section \<open>An attempt that fails, and one that is given up\<close>

lemma terminate_held:
  assumes "session_db L P d" and "acquire_target L (quiet P) e d = (d1, OK u)" and "same_rows d1 d2"
  shows "\<exists>d3. terminate_loop L (quiet P) e n d2 = (d3, PANIC ''Could not set state to terminated'') \<and> same_rows d1 d3"
  using assms(3)
proof (induction n arbitrary: d2)
  case (Suc n)
  obtain d3 er where "acquire_target L (quiet P) e d2 = (d3, ERR er)" "same_rows d2 d3"
    using su.acquire_again[OF assms(1,2) Suc.prems] by blast
  then show ?case using Suc.IH[of d3] same_rows_trans[OF Suc.prems] by (simp add: terminateAttempt_def)
qed simp

definition gives_up :: "int \<Rightarrow> rat \<Rightarrow> reconciliationOperation \<Rightarrow> goerror \<Rightarrow> bool" where
  "gives_up now rand op er \<longleftrightarrow> errors_Is er ErrFatal \<or> maxAttempts \<le> Attempts op
     \<or> maxDuration < fst (calculateNextAttempt now rand (CurrentInterval op) (Attempts op)) - Submitted op"

definition requeued :: "int \<Rightarrow> rat \<Rightarrow> reconciliationOperation \<Rightarrow> reconciliationOperation" where
  "requeued now rand op = op\<lparr>NextAttempt := fst (calculateNextAttempt now rand (CurrentInterval op) (Attempts op)),
     CurrentInterval := snd (calculateNextAttempt now rand (CurrentInterval op) (Attempts op))\<rparr>"

lemma handleError_cases:
  "handleError L P now rand op er s =
     (if gives_up now rand op er
      then (s\<lparr>rc_db := fst (terminate L P (op_Entry op) (rc_db s))\<rparr>, snd (terminate L P (op_Entry op) (rc_db s)))
      else (s\<lparr>rc_queue := rc_queue s @ [requeued now rand op]\<rparr>, OK ()))"
  by (auto simp: handleError_def gives_up_def requeued_def Let_def split: prod.split)

lemma rollback_after:
  assumes "session_db L P d" and "acquire_target L (quiet P) e d = (d1, OK u)" and "updater_kin u u'"
    and "same_rows d1 (rc_db s)"
  shows "\<exists>d3. rollback_deferred L (quiet P) u' (s, x) = (s\<lparr>rc_db := d3\<rparr>, x) \<and> same_rows d d3"
  using su.rollback_restores[OF assms] by (auto simp: rollback_deferred_def)

lemma handled_error:
  assumes "session_db L P d" and "acquire_target L (quiet P) (op_Entry op) d = (d1, OK u)" and "updater_kin u u'"
    and "same_rows d1 (rc_db s)"
  shows "\<exists>d3. rollback_deferred L (quiet P) u' (handleError L (quiet P) now rand op er s) =
      (if gives_up now rand op er then (s\<lparr>rc_db := d3\<rparr>, PANIC ''Could not set state to terminated'')
       else (s\<lparr>rc_queue := rc_queue s @ [requeued now rand op], rc_db := d3\<rparr>, OK ())) \<and> same_rows d d3"
proof (cases "gives_up now rand op er")
  case True
  obtain d2 where d2: "terminate L (quiet P) (op_Entry op) (rc_db s) = (d2, PANIC ''Could not set state to terminated'')"
      "same_rows d1 d2"
    using terminate_held[OF assms(1,2,4), of 10] by (auto simp: terminate_def)
  then show ?thesis
    using True rollback_after[OF assms(1-3), of "s\<lparr>rc_db := d2\<rparr>"] by (simp add: handleError_cases)
next
  case False
  then show ?thesis
    using rollback_after[OF assms(1-3), of "s\<lparr>rc_queue := rc_queue s @ [requeued now rand op]\<rparr>"] assms(4)
    by (auto simp: handleError_cases)
qed

lemma reconcile_failed:
  assumes "session_db L P (rc_db s)" and "acquire_target L (quiet P) (op_Entry op) (rc_db s) = (d1, OK u)"
  shows "\<exists>d3. same_rows (rc_db s) d3 \<and> reconcileEntry L (quiet P) (ERR er) now rand op s =
      (if gives_up now rand op er
       then (s\<lparr>rc_db := d3, rc_sent := rc_sent s @ [op_Entry op]\<rparr>, PANIC ''Could not set state to terminated'')
       else (s\<lparr>rc_queue := rc_queue s @ [requeued now rand op], rc_db := d3, rc_sent := rc_sent s @ [op_Entry op]\<rparr>, OK ()))"
  using handled_error[OF assms su.kin_refl, of "s\<lparr>rc_db := d1, rc_sent := rc_sent s @ [op_Entry op]\<rparr>" now rand er] assms(2)
  by (auto simp: reconcileEntry_def Let_def split: if_splits)

section \<open>An attempt that succeeds\<close>

lemma ApplyResponse_kin: "updater_ApplyResponse L body u = OK u' \<Longrightarrow> updater_kin u u'"
  by (cases u) (auto simp: outcome_simps negotiation_ApplyResponse_def split: option.splits if_splits)

text \<open>What a commit leaves: the record's row, unlocked, in the target state.\<close>

definition row_in_target :: "ReconciliationEntry \<Rightarrow> state_updater \<Rightarrow> db \<Rightarrow> bool" where
  "row_in_target e u d \<longleftrightarrow> (case u of
     NegotiationUpdater n \<Rightarrow> (\<exists>cs. contract_ParseState (ArgString (TargetState e)) = OK cs
        \<and> (\<exists>r \<in> set (contracts d). c_ID r = n_internal_id n \<and> c_State r = cstate_String cs \<and> \<not> c_Locked r))
   | RequestUpdater q \<Rightarrow> (\<exists>ts. transfer_ParseState (ArgString (TargetState e)) = OK ts
        \<and> (\<exists>r \<in> set (transfers d). t_ID r = r_internal_id q \<and> t_State r = tstate_String ts \<and> \<not> t_Locked r)))"

lemma commit_row:
  assumes "session_db L P d" and "acquire_target L (quiet P) e d = (d1, OK u)" and "updater_kin u u'"
    and "updater_Commit L (quiet P) u' d1 = (d2, OK x)"
  shows "row_in_target e u d2"
proof (cases "re_Type e = ReconciliationContract")
  case True
  obtain opt con cs n where c: "u = NegotiationUpdater n" "GetContract L (quiet P) [WithRW, opt] d = (d1, OK con)" "wf_db d"
      "WithRolePID (EntityID e) (re_Role e) = OK opt" "n = con\<lparr>n_state := cs, n_modified := True\<rparr>" "\<not> n_ro con"
      "contract_ParseState (ArgString (TargetState e)) = OK cs"
    by (rule acquire_contract[OF assms(1,2) True]) auto
  obtain n' where n': "u' = NegotiationUpdater n'" "n_internal_id n' = n_internal_id con" "n_state n' = cs"
      "n_modified n'" "\<not> n_ro n'"
    using assms(3) c by (cases u') auto
  obtain r k where r: "r \<in> set (contracts d)" "d1 = lock_contract_row r k d" "n_internal_id con = c_ID r"
    by (rule GetContract_row[OF c(2-4)])
  have "r\<lparr>c_Locked := True\<rparr> \<in> set (contracts d1)" using r(1,2) by (auto simp: lock_contract_row_def set_update_where)
  moreover have "c_ID r \<noteq> 0" using c(3) r(1) by (auto simp: wf_db_def wf_rows_def)
  ultimately show ?thesis
    using PutContract_row[of L P n' d1 d2 x "r\<lparr>c_Locked := True\<rparr>"] assms(1,4) n' r(3) c(1,5,7)
    by (auto simp: row_in_target_def session_db_def outcome_simps)
next
  case False
  obtain opt tr ts q where t: "u = RequestUpdater q" "GetTransfer L (quiet P) [T_WithRW, opt] d = (d1, OK tr)" "wf_db d"
      "T_WithRolePID (EntityID e) (re_Role e) = OK opt" "q = tr\<lparr>r_state := ts, r_modified := True\<rparr>" "\<not> r_ro tr"
      "transfer_ParseState (ArgString (TargetState e)) = OK ts"
    by (rule acquire_transfer[OF assms(1,2) False]) auto
  have u': "u' = RequestUpdater q" using assms(3) t(1) by (cases u') auto
  obtain r k where r: "r \<in> set (transfers d)" "d1 = lock_transfer_row r k d" "r_internal_id tr = t_ID r"
    by (rule GetTransfer_row[OF t(2-4)])
  have "r\<lparr>t_Locked := True\<rparr> \<in> set (transfers d1)" using r(1,2) by (auto simp: lock_transfer_row_def set_update_where)
  moreover have "t_ID r \<noteq> 0" using t(3) r(1) by (auto simp: wf_db_def wf_rows_def)
  ultimately show ?thesis
    using PutTransfer_row[of L P q d1 d2 x "r\<lparr>t_Locked := True\<rparr>"] assms(1,4) u' r(3) t(1,5-7)
    by (auto simp: row_in_target_def session_db_def outcome_simps)
qed

text \<open>An answered attempt that is over learns what the answer says and commits.\<close>

lemma reconcile_commits:
  assumes "session_db L P (rc_db s)" and "acquire_target L (quiet P) (op_Entry op) (rc_db s) = (d1, OK u)"
    and "reconcileEntry L (quiet P) (OK body) now rand op s = (s', OK x)" and "rc_queue s' = rc_queue s"
  shows "\<exists>u' d2. updater_ApplyResponse L body u = OK u' \<and> updater_kin u u' \<and> updater_Commit L (quiet P) u' d1 = (d2, OK ())
    \<and> s' = s\<lparr>rc_db := d2, rc_sent := rc_sent s @ [op_Entry op]\<rparr>"
proof -
  let ?s1 = "s\<lparr>rc_db := d1, rc_sent := rc_sent s @ [op_Entry op]\<rparr>"
  obtain u' where u': "updater_ApplyResponse L body u = OK u'"
    using assms(2,3) by (cases "updater_ApplyResponse L body u")
      (auto simp: reconcileEntry_def rollback_deferred_def Let_def split: outcome.splits)
  have kin: "updater_kin u u'" by (rule ApplyResponse_kin[OF u'])
  obtain d2 where d2: "updater_Commit L (quiet P) u' d1 = (d2, OK ())" "s' = ?s1\<lparr>rc_db := d2\<rparr>"
  proof (cases "updater_Commit L (quiet P) u' d1")
    case (Pair d2 o2)
    show ?thesis
    proof (cases o2)
      case (OK y)
      then show ?thesis using that[of d2] assms(2,3) u' Pair by (simp add: reconcileEntry_def Let_def)
    next
      case (ERR er)
      let ?er = "wrapf ''could not update state'' er"
      have "same_rows d1 (rc_db (?s1\<lparr>rc_db := d2\<rparr>))" using su.commit_fails Pair ERR by simp
      from handled_error[OF assms(1,2) kin this, of now rand ?er]
      have "snd r = OK y \<Longrightarrow> rc_queue (fst r) \<noteq> rc_queue s"
        if "r = rollback_deferred L (quiet P) u' (handleError L (quiet P) now rand op ?er (?s1\<lparr>rc_db := d2\<rparr>))" for r y
        using that by (auto split: if_splits)
      then show ?thesis using assms(2-4) u' Pair ERR by (fastforce simp: reconcileEntry_def Let_def)
    next
      case (PANIC p)
      then show ?thesis using assms(2,3) u' Pair
        by (auto simp: reconcileEntry_def Let_def rollback_deferred_def split: outcome.splits)
    qed
  qed
  show ?thesis using u' kin d2 by auto
qed

lemma reconcile_answered:
  assumes "session_db L P (rc_db s)" and "acquire_target L (quiet P) (op_Entry op) (rc_db s) = (d1, OK u)"
    and "reconcileEntry L (quiet P) (OK body) now rand op s = (s', OK x)" and "rc_queue s' = rc_queue s"
  shows "row_in_target (op_Entry op) u (rc_db s') \<and> held_records (rc_db s') = held_records (rc_db s)
    \<and> rc_sent s' = rc_sent s @ [op_Entry op]"
  using reconcile_commits[OF assms] commit_row[OF assms(1,2)] su.committed[OF assms(1,2)] by fastforce

section \<open>Giving up\<close>

lemma fst_seq_m: "fst (seq_m r k) = (case snd r of OK x \<Rightarrow> fst (k (fst r) x) | _ \<Rightarrow> fst r)"
  by (cases "(r, k)" rule: seq_m.cases) auto

lemma fst_wrap_m [simp]: "fst (wrap_m msg r) = fst r"
  by (cases "(msg, r)" rule: wrap_m.cases) auto

lemma wf_set_or_release: "wf_db d \<Longrightarrow> wf_db (fst rel) \<Longrightarrow> wf_db (fst (set_or_release r rel d))"
  by (auto simp: set_or_release_def split: outcome.split prod.split)

lemma wf_acquire:
  assumes "wf_db d" and "sane P"
  shows "wf_db (fst (getStateUpdater L P e st d))"
proof -
  have c: "wf_db (fst (newNegotiationUpdater L P e st d))"
    using assms wf_GetContract[OF assms(2,1), of L]
    by (auto simp: newNegotiationUpdater_def fst_seq_m wf_ReleaseContract wf_set_or_release split: outcome.split)
  have t: "wf_db (fst (newRequestUpdater L P e st d))"
    using assms wf_GetTransfer[OF assms(2,1), of L]
    by (auto simp: newRequestUpdater_def fst_seq_m wf_ReleaseTransfer wf_set_or_release split: outcome.split)
  show ?thesis using assms c t by (auto simp: getStateUpdater_def fst_seq_m split: reconciliation_type.split outcome.split)
qed

lemma wf_terminateAttempt:
  assumes "session_db L P d"
  shows "session_db L P (fst (terminateAttempt L (quiet P) e d))"
proof -
  have wf: "wf_db d" "reliable P" "total_codecs L" using assms by (simp_all add: session_db_def)
  obtain d1 o1 where a: "acquire_target L (quiet P) e d = (d1, o1)" by force
  have wf1: "wf_db d1" using wf_acquire[OF wf(1), of "quiet P" L e "TargetState e"] a by simp
  have "wf_db (fst (terminateAttempt L (quiet P) e d))"
  proof (cases o1)
    case (OK u)
    have "wf_db (fst (updater_Commit L (quiet P) u d1))"
    proof (cases "re_Type e = ReconciliationContract")
      case True
      obtain opt con n where c: "u = NegotiationUpdater n" "GetContract L (quiet P) [WithRW, opt] d = (d1, OK con)"
          "n_internal_id n = n_internal_id con"
        by (rule acquire_contract[OF assms _ True, of d1 u]) (use a OK in auto)
      then show ?thesis
        using contract_get_locks[OF wf(1), of L P "[opt]" d1 con] wf_PutContract[OF wf1, of n L "quiet P"] by simp
    next
      case False
      obtain opt tr r where t: "u = RequestUpdater r" "GetTransfer L (quiet P) [T_WithRW, opt] d = (d1, OK tr)"
          "r_internal_id r = r_internal_id tr"
        by (rule acquire_transfer[OF assms _ False, of d1 u]) (use a OK in auto)
      then show ?thesis
        using transfer_get_locks[OF wf(1), of L P "[opt]" d1 tr] wf_PutTransfer[OF wf1, of r L "quiet P"] by simp
    qed
    moreover have "wf_db x \<Longrightarrow> wf_db (fst (updater_Rollback L (quiet P) u x))" for x
      by (cases u) (simp_all add: wf_ReleaseContract wf_ReleaseTransfer)
    ultimately show ?thesis
      by (cases "updater_Commit L (quiet P) u d1"; cases "snd (updater_Commit L (quiet P) u d1)")
        (auto simp: terminateAttempt_def a OK)
  qed (use wf1 in \<open>simp_all add: terminateAttempt_def a\<close>)
  then show ?thesis using wf by (simp add: session_db_def)
qed

lemma terminateAttempt_commits:
  assumes "session_db L P d" and "terminateAttempt L (quiet P) e d = (d', OK x)"
  shows "\<exists>d1 u. acquire_target L (quiet P) e d = (d1, OK u) \<and> row_in_target e u d' \<and> held_records d' = held_records d"
proof -
  obtain d1 u where a: "acquire_target L (quiet P) e d = (d1, OK u)" "updater_Commit L (quiet P) u d1 = (d', OK ())"
  proof (cases "acquire_target L (quiet P) e d")
    case (Pair d1 o1)
    show ?thesis
    proof (cases o1)
      case (OK u)
      then show ?thesis using that[of d1 u] assms(2) Pair
        by (cases "updater_Commit L (quiet P) u d1"; cases "snd (updater_Commit L (quiet P) u d1)")
          (auto simp: terminateAttempt_def)
    qed (use assms(2) Pair in \<open>simp_all add: terminateAttempt_def\<close>)
  qed
  then show ?thesis
    using commit_row[OF assms(1) a(1) su.kin_refl a(2)] su.committed[OF assms(1) a(1) su.kin_refl a(2)] by blast
qed

lemma terminate_commits:
  assumes "terminate_loop L (quiet P) e n d = (d', OK x)" and "session_db L P d"
  shows "\<exists>d0 d1 u. session_db L P d0 \<and> acquire_target L (quiet P) e d0 = (d1, OK u) \<and> row_in_target e u d'
    \<and> held_records d' = held_records d0"
  using assms
proof (induction n arbitrary: d)
  case (Suc n)
  show ?case
  proof (cases "terminateAttempt L (quiet P) e d")
    case (Pair d1 o1)
    show ?thesis
    proof (cases o1)
      case (OK y)
      then have "terminateAttempt L (quiet P) e d = (d', OK y)" using Suc.prems(1) Pair by simp
      from terminateAttempt_commits[OF Suc.prems(2) this] show ?thesis using Suc.prems(2) by blast
    next
      case (ERR er)
      then show ?thesis
        using Suc.IH[of d1] Suc.prems Pair wf_terminateAttempt[OF Suc.prems(2), of e] by simp
    qed (use Suc.prems(1) Pair in simp)
  qed
qed simp

section \<open>The backoff\<close>

text \<open>The interval after so many attempts, whatever the random numbers were.\<close>

fun interval_at :: "nat \<Rightarrow> int" where
  "interval_at 0 = initialRetry"
| "interval_at (Suc 0) = initialRetry"
| "interval_at (Suc (Suc n)) = (interval_at (Suc n) * 3) div 2"

lemma interval_at_15: "interval_at 15 = 145964630119"
  by (simp add: eval_nat_numeral initialRetry_def)

lemma interval_at_pos: "0 < interval_at n"
  by (induction n rule: interval_at.induct) (auto simp: initialRetry_def)

lemma next_interval:
  "snd (calculateNextAttempt now rand (interval_at n) (int n + 1)) = interval_at (Suc n)"
proof (cases n)
  case (Suc m)
  have "\<lfloor>of_int (interval_at n) * (3 / 2) :: rat\<rfloor> = (interval_at n * 3) div 2"
    using floor_divide_of_int_eq[of "interval_at n * 3" 2, where 'a = rat] by simp
  then show ?thesis using Suc by (simp add: calculateNextAttempt_def Let_def)
qed (simp add: calculateNextAttempt_def Let_def)

lemma delay_int:
  assumes "0 \<le> rand" "rand < 1"
  shows "now + interval_at (Suc n) div 2 \<le> fst (calculateNextAttempt now rand (interval_at n) (int n + 1))"
proof -
  define ci :: rat where "ci = (if int n + 1 \<noteq> 1 then of_int (interval_at n) * (3 / 2) else of_int (interval_at n))"
  have v: "fst (calculateNextAttempt now rand (interval_at n) (int n + 1)) = now + \<lfloor>ci / 2 + rand * (ci + 1)\<rfloor>"
    by (simp add: calculateNextAttempt_def Let_def ci_def)
  have fl: "\<lfloor>ci\<rfloor> = interval_at (Suc n)"
    using next_interval[of now rand n]
    by (simp add: calculateNextAttempt_def Let_def ci_def)
  then have le: "of_int (interval_at (Suc n)) \<le> ci" by linarith
  then have "0 \<le> ci" using interval_at_pos[of "Suc n"] by linarith
  then have "0 \<le> rand * (ci + 1)" using assms(1) by simp
  moreover have "of_int (interval_at (Suc n) div 2) \<le> (of_int (interval_at (Suc n)) / 2 :: rat)"
    using floor_divide_of_int_eq[of "interval_at (Suc n)" 2, where 'a = rat] by linarith
  ultimately have "of_int (interval_at (Suc n) div 2) \<le> ci / 2 + rand * (ci + 1)" using le by linarith
  then show ?thesis unfolding v by (simp add: le_floor_iff)
qed

definition op_ok :: "reconciliationOperation \<Rightarrow> bool" where
  "op_ok op \<longleftrightarrow> 0 \<le> Attempts op \<and> Attempts op \<le> 14 \<and> CurrentInterval op = interval_at (nat (Attempts op))
     \<and> Submitted op \<le> NextAttempt op \<and> NextAttempt op \<le> Submitted op + maxDuration"

lemma requeued_ok:
  assumes "op_ok op" "NextAttempt op < now" "0 \<le> rand" "rand < 1"
    and "\<not> gives_up now rand (op\<lparr>Attempts := Attempts op + 1\<rparr>) er"
  shows "op_ok (requeued now rand (op\<lparr>Attempts := Attempts op + 1\<rparr>))"
proof -
  define n where "n = nat (Attempts op)"
  have n: "Attempts op = int n" "CurrentInterval op = interval_at n" "n \<le> 14" "Submitted op < now"
    using assms(1,2) by (auto simp: op_ok_def n_def)
  have att: "Attempts op + 1 = int n + 1" using n(1) by simp
  have lo: "now + interval_at (Suc n) div 2 \<le> fst (calculateNextAttempt now rand (interval_at n) (int n + 1))"
    by (rule delay_int[OF assms(3,4)])
  have hi: "fst (calculateNextAttempt now rand (interval_at n) (int n + 1)) \<le> Submitted op + maxDuration"
    using assms(5) n(2) att by (simp add: gives_up_def not_less)
  have "n \<noteq> 14"
  proof
    assume "n = 14"
    then have "Suc n = 15" by simp
    then have "interval_at (Suc n) = 145964630119" by (simp only: interval_at_15)
    then show False using lo hi n(4) by (simp add: maxDuration_def)
  qed
  moreover have "0 < interval_at (Suc n)" by (rule interval_at_pos)
  ultimately show ?thesis
    using lo hi n att next_interval[of now rand n] by (simp add: op_ok_def requeued_def nat_add_distrib)
qed

text \<open>An attempt adds at most one operation to the queue, and only when it does not give up.\<close>

definition queue_step :: "int \<Rightarrow> rat \<Rightarrow> reconciliationOperation \<Rightarrow> reconciler \<Rightarrow> reconciler \<Rightarrow> bool" where
  "queue_step now rand op s s' \<longleftrightarrow> rc_queue s' = rc_queue s \<or>
     (\<exists>er. \<not> gives_up now rand op er \<and> rc_queue s' = rc_queue s @ [requeued now rand op])"

lemma handleError_queue:
  "rc_queue s1 = rc_queue s \<Longrightarrow> queue_step now rand op s (fst (handleError L P now rand op er s1))"
  by (auto simp: handleError_cases queue_step_def)

lemma rollback_queue: "rc_queue (fst (rollback_deferred L P u r)) = rc_queue (fst r)"
  by (auto simp: rollback_deferred_def split: prod.split)

lemma rollback_queue_step:
  "queue_step now rand op s (fst r) \<Longrightarrow> queue_step now rand op s (fst (rollback_deferred L P u r))"
  by (simp add: queue_step_def rollback_queue)

lemma queue_step_frame [simp]:
  "queue_step now rand op s (s\<lparr>rc_db := d\<rparr>)" "queue_step now rand op s (s\<lparr>rc_db := d, rc_sent := t\<rparr>)"
  "queue_step now rand op s (s\<lparr>rc_sent := t, rc_db := d\<rparr>)"
  by (simp_all add: queue_step_def)

lemma reconcile_queue: "queue_step now rand op s (fst (reconcileEntry L P answer now rand op s))"
  by (auto simp: reconcileEntry_def Let_def split: prod.split outcome.split
      intro!: handleError_queue rollback_queue_step)

section \<open>Properties\<close>

text \<open>C23: a message that could not be delivered costs nothing but time: as long as the reconciler does
  not give up, every row is as it was, the record is free again, and the operation waits at the
  end of the queue for its next attempt.\<close>

theorem failed_attempt_requeued:
  assumes "wf_db (rc_db s)" and "reliable P" and "total_codecs L"
    and "getStateUpdater L (quiet P) (op_Entry op) (TargetState (op_Entry op)) (rc_db s) = (d1, OK u)"
    and "\<not> gives_up now rand op er"
  shows "\<exists>d3. reconcileEntry L (quiet P) (ERR er) now rand op s =
      (s\<lparr>rc_queue := rc_queue s @ [requeued now rand op], rc_db := d3, rc_sent := rc_sent s @ [op_Entry op]\<rparr>, OK ())
    \<and> same_rows (rc_db s) d3"
  using reconcile_failed[of L P s op d1 u er now rand] assms by (auto simp: session_db_def)

text \<open>C38: giving up on an undeliverable message brings the connector down: the attempt still holds the
  record when it is terminated, so none of the ten attempts to take it again can succeed, and the
  reconciler panics, whatever the record and however long the lock timeout.\<close>

theorem giving_up_panics:
  assumes "wf_db (rc_db s)" and "reliable P" and "total_codecs L"
    and "getStateUpdater L (quiet P) (op_Entry op) (TargetState (op_Entry op)) (rc_db s) = (d1, OK u)"
    and "gives_up now rand op er"
  shows "snd (reconcileEntry L (quiet P) (ERR er) now rand op s) = PANIC ''Could not set state to terminated''"
  using reconcile_failed[of L P s op d1 u er now rand] assms by (auto simp: session_db_def)

text \<open>C22: an answered message moves the record: unless it is queued again, the record's row then holds
  the target state, unlocked, exactly the records held before are held, and the message was sent
  once.\<close>

theorem delivered_message_commits:
  assumes "wf_db (rc_db s)" and "reliable P" and "total_codecs L"
    and "getStateUpdater L (quiet P) (op_Entry op) (TargetState (op_Entry op)) (rc_db s) = (d1, OK u)"
    and "reconcileEntry L (quiet P) (OK body) now rand op s = (s', OK ())" and "rc_queue s' = rc_queue s"
  shows "row_in_target (op_Entry op) u (rc_db s') \<and> held_records (rc_db s') = held_records (rc_db s)
    \<and> rc_sent s' = rc_sent s @ [op_Entry op]"
  using reconcile_answered[of L P s op d1 u body now rand s' "()"] assms by (auto simp: session_db_def)

text \<open>Terminating an entry does not terminate its record: when it succeeds, the record is in the
  state the undelivered message would have led to, although nothing was sent.\<close>

theorem given_up_entry_is_committed:
  assumes "wf_db (rc_db s)" and "reliable P" and "total_codecs L"
    and "gives_up now rand op er" and "handleError L (quiet P) now rand op er s = (s', OK ())"
  shows "rc_sent s' = rc_sent s \<and> rc_queue s' = rc_queue s
    \<and> (\<exists>d0 d1 u. getStateUpdater L (quiet P) (op_Entry op) (TargetState (op_Entry op)) d0 = (d1, OK u)
         \<and> row_in_target (op_Entry op) u (rc_db s'))"
proof -
  obtain d' where t: "terminate L (quiet P) (op_Entry op) (rc_db s) = (d', OK ())" "s' = s\<lparr>rc_db := d'\<rparr>"
    using assms(4,5) by (cases "terminate L (quiet P) (op_Entry op) (rc_db s)") (auto simp: handleError_cases)
  from terminate_commits[OF t(1)[unfolded terminate_def]] assms(1-3) t(2) show ?thesis
    by (fastforce simp: session_db_def)
qed

text \<open>C32: whatever the clock, the random numbers and the answers, an operation in the queue was tried at
  most fourteen times, and waits no longer than a minute after it was submitted: the backoff ends
  long before the limit of fifty attempts.\<close>

theorem retries_bounded:
  assumes "\<forall>op \<in> set (rc_queue s). op_ok op" and "0 \<le> rand" and "rand < 1"
  shows "(\<forall>op \<in> set (rc_queue (reconciler_Add now entry s)). op_ok op)
    \<and> (\<forall>op \<in> set (rc_queue (fst (manager_tick L P answer now rand s))). op_ok op)"
proof
  show "\<forall>op \<in> set (rc_queue (reconciler_Add now entry s)). op_ok op"
    using assms(1) by (auto simp: reconciler_Add_def op_ok_def maxDuration_def)
  show "\<forall>op \<in> set (rc_queue (fst (manager_tick L P answer now rand s))). op_ok op"
  proof (cases "rc_queue s")
    case (Cons op q)
    have ok: "op_ok op" "\<forall>x \<in> set q. op_ok x" using assms(1) Cons by simp_all
    show ?thesis
    proof (cases "NextAttempt op < now")
      case True
      then show ?thesis
        using reconcile_queue[of now rand "op\<lparr>Attempts := Attempts op + 1\<rparr>" "s\<lparr>rc_queue := q\<rparr>" L P answer]
          requeued_ok[OF ok(1) True assms(2,3)] ok(2) Cons
        by (auto simp: manager_tick_def queue_step_def)
    qed (use Cons ok in \<open>auto simp: manager_tick_def\<close>)
  qed (simp add: manager_tick_def)
qed

text \<open>An acknowledgement never overwrites a PID that is known: it changes a negotiation only by
  filling in the one PID that is missing, and only when it names the other one.\<close>

theorem ack_learns_only_missing:
  assumes "updater_ApplyResponse L body u = OK u'"
  shows "u' = u \<or> (\<exists>n ppid cpid. u = NegotiationUpdater n \<and> parseNegotiationAck L body = Some (ppid, cpid) \<and>
     (n_providerPID n = emptyUUID \<and> cpid = n_consumerPID n \<and> u' = NegotiationUpdater (n\<lparr>n_providerPID := ppid, n_modified := True\<rparr>)
      \<or> n_consumerPID n = emptyUUID \<and> ppid = n_providerPID n
        \<and> u' = NegotiationUpdater (n\<lparr>n_consumerPID := cpid, n_modified := True\<rparr>)))"
  using assms by (cases u) (auto simp: outcome_simps negotiation_ApplyResponse_def split: option.splits if_splits)

section \<open>Examples\<close>

definition sample_entry :: ReconciliationEntry where
  "sample_entry = \<lparr>EntityID = 2, re_Type = ReconciliationContract, re_Role = DataspaceProvider,
     TargetState = ''dspace:OFFERED'', Method = ''POST'', URL = root_url, Body = sample_counter_offer,
     re_Context = sample_ctx, AuthHeaderValue = []\<rparr>"

definition sample_op :: "int \<Rightarrow> reconciliationOperation" where
  "sample_op n = \<lparr>Submitted = 0, NextAttempt = 0, Attempts = n, op_Entry = sample_entry, CurrentInterval = initialRetry\<rparr>"

definition sample_reconciler :: reconciler where
  "sample_reconciler = \<lparr>rc_queue = [], rc_db = sample_db, rc_sent = []\<rparr>"

abbreviation refused :: goerror where "refused \<equiv> Errorf ''connection refused'' []"

definition offered_negotiation :: negotiation where
  "offered_negotiation = sample_new\<lparr>n_initial := False, n_modified := True, n_newAgreement := False, n_locked := True,
     n_internal_id := 1, n_state := C_OFFERED\<rparr>"

lemma sample_acquire:
  "\<exists>d1. getStateUpdater sample_lib (quiet New_backend) sample_entry ''dspace:OFFERED'' sample_db =
     (d1, OK (NegotiationUpdater offered_negotiation)) \<and> contracts d1 = [sample_row\<lparr>c_Locked := True\<rparr>]"
proof -
  have one: "filter (contract_where sample_lib (newNegotiationParamBuilder [WithRW, WithProviderPID 2]) None)
      (contracts sample_db) = [sample_row]"
    using rolePID_builder[of 2 DataspaceProvider "WithProviderPID 2" sample_lib sample_row]
    by (simp add: sample_db_def sample_row_def)
  have get: "snd (GetContract sample_lib (quiet New_backend) [WithRW, WithProviderPID 2] sample_db) =
    OK (sample_new\<lparr>n_initial := False, n_modified := False, n_newAgreement := False, n_locked := True, n_internal_id := 1\<rparr>)"
    using put_get_contract[OF sample_lib_laws _ New_backend_reliable wf_empty_db _ _ _ _ _ _ sample_put, of 2 "WithProviderPID 2"]
      sample_negotiation_forms[of DataspaceProvider C_INITIAL]
    by (simp add: sample_new_def empty_db_def n_forms_ok_def)
  obtain d1 con where g: "GetContract sample_lib (quiet New_backend) [WithRW, WithProviderPID 2] sample_db = (d1, OK con)"
      "con = sample_new\<lparr>n_initial := False, n_modified := False, n_newAgreement := False, n_locked := True, n_internal_id := 1\<rparr>"
    using get by (cases "GetContract sample_lib (quiet New_backend) [WithRW, WithProviderPID 2] sample_db") auto
  obtain r k where "filter (contract_where sample_lib (newNegotiationParamBuilder [WithRW, WithProviderPID 2]) None)
      (contracts sample_db) = [r]" "d1 = lock_contract_row r k sample_db"
    by (rule GetContract_row[OF g(1) sample_db_wf, of 2 DataspaceProvider]) simp_all
  then have "contracts d1 = [sample_row\<lparr>c_Locked := True\<rparr>]"
    using one by (simp add: lock_contract_row_def sample_db_def)
  then show ?thesis
    using g ParseState_String(1)[of C_OFFERED]
    by (simp add: getStateUpdater_OK newNegotiationUpdater_OK sample_entry_def offered_negotiation_def sample_new_def
        n_SetState_def n_panicRO_def n_modify_def)
qed

lemma sample_entry_simps [simp]: "TargetState sample_entry = ''dspace:OFFERED''" "op_Entry (sample_op n) = sample_entry"
  by (simp_all add: sample_entry_def sample_op_def)

lemma sample_gives_up: "gives_up 1 0 (sample_op 50) refused" "\<not> gives_up 1 0 (sample_op 1) refused"
  by (simp_all add: gives_up_def sample_op_def maxAttempts_def errors_Is_def calculateNextAttempt_def Let_def
      initialRetry_def maxDuration_def)

lemma sample_rec_simps [simp]:
  "rc_db sample_reconciler = sample_db" "rc_queue sample_reconciler = []" "rc_sent sample_reconciler = []"
  by (simp_all add: sample_reconciler_def)

lemma sample_commit:
  assumes "contracts d1 = [sample_row\<lparr>c_Locked := True\<rparr>]"
  shows "\<exists>d2. PutContract sample_lib (quiet New_backend) offered_negotiation d1 = (d2, OK ())"
  using assms by (simp add: PutContract_def offered_negotiation_def sample_new_def n_ToModel_def opt_read_def
      upsert_contract_def upsert_rows_def sample_row_def)

lemma failed_attempt_requeued_witness:
  "rc_queue (fst (reconcileEntry sample_lib (quiet New_backend) (ERR refused) 1 0 (sample_op 1) sample_reconciler)) =
     [requeued 1 0 (sample_op 1)]"
proof -
  obtain d1 u where "getStateUpdater sample_lib (quiet New_backend) (op_Entry (sample_op 1))
      (TargetState (op_Entry (sample_op 1))) (rc_db sample_reconciler) = (d1, OK u)"
    using sample_acquire by auto
  from failed_attempt_requeued[OF _ New_backend_reliable _ this sample_gives_up(2)] show ?thesis
    by (auto simp: total_codecs_def)
qed

lemma giving_up_panics_witness:
  "snd (reconcileEntry sample_lib (quiet New_backend) (ERR refused) 1 0 (sample_op 50) sample_reconciler) =
     PANIC ''Could not set state to terminated''"
proof -
  obtain d1 u where "getStateUpdater sample_lib (quiet New_backend) (op_Entry (sample_op 50))
      (TargetState (op_Entry (sample_op 50))) (rc_db sample_reconciler) = (d1, OK u)"
    using sample_acquire by auto
  from giving_up_panics[OF _ New_backend_reliable _ this sample_gives_up(1)] show ?thesis
    by (simp add: total_codecs_def)
qed

lemma delivered_message_commits_witness:
  "\<exists>s'. reconcileEntry sample_lib (quiet New_backend) (OK None) 1 0 (sample_op 1) sample_reconciler = (s', OK ())
     \<and> rc_sent s' = [sample_entry] \<and> row_in_target sample_entry (NegotiationUpdater offered_negotiation) (rc_db s')"
proof -
  obtain d1 where d1: "getStateUpdater sample_lib (quiet New_backend) sample_entry ''dspace:OFFERED'' sample_db =
     (d1, OK (NegotiationUpdater offered_negotiation))" "contracts d1 = [sample_row\<lparr>c_Locked := True\<rparr>]"
    using sample_acquire by blast
  obtain d2 where d2: "PutContract sample_lib (quiet New_backend) offered_negotiation d1 = (d2, OK ())"
    using sample_commit[OF d1(2)] by blast
  have r: "reconcileEntry sample_lib (quiet New_backend) (OK None) 1 0 (sample_op 1) sample_reconciler =
      (sample_reconciler\<lparr>rc_db := d2, rc_sent := [sample_entry]\<rparr>, OK ())"
    by (simp add: reconcileEntry_def d1(1) d2 negotiation_ApplyResponse_def parseNegotiationAck_def Let_def)
  have a: "getStateUpdater sample_lib (quiet New_backend) (op_Entry (sample_op 1)) (TargetState (op_Entry (sample_op 1)))
      (rc_db sample_reconciler) = (d1, OK (NegotiationUpdater offered_negotiation))"
    using d1(1) by simp
  show ?thesis
    using delivered_message_commits[OF _ New_backend_reliable _ a r] r by (simp add: total_codecs_def)
qed

lemma given_up_entry_is_committed_witness:
  "\<exists>s'. handleError sample_lib (quiet New_backend) 1 0 (sample_op 50) refused sample_reconciler = (s', OK ())
     \<and> rc_sent s' = [] \<and> (\<exists>u. row_in_target sample_entry u (rc_db s'))"
proof -
  obtain d1 where d1: "getStateUpdater sample_lib (quiet New_backend) sample_entry ''dspace:OFFERED'' sample_db =
     (d1, OK (NegotiationUpdater offered_negotiation))" "contracts d1 = [sample_row\<lparr>c_Locked := True\<rparr>]"
    using sample_acquire by blast
  obtain d2 where d2: "PutContract sample_lib (quiet New_backend) offered_negotiation d1 = (d2, OK ())"
    using sample_commit[OF d1(2)] by blast
  have "terminate sample_lib (quiet New_backend) sample_entry sample_db = (d2, OK ())"
    by (simp add: terminate_def eval_nat_numeral terminateAttempt_def d1(1) d2)
  then have r: "handleError sample_lib (quiet New_backend) 1 0 (sample_op 50) refused sample_reconciler =
      (sample_reconciler\<lparr>rc_db := d2\<rparr>, OK ())"
    using sample_gives_up(1) by (simp add: handleError_cases)
  show ?thesis
    using given_up_entry_is_committed[OF _ New_backend_reliable _ sample_gives_up(1) r] r
    by (auto simp: total_codecs_def)
qed

lemma retries_bounded_witness:
  "list_all (\<lambda>op. Attempts op \<le> 14) (rc_queue (fst (manager_tick sample_lib (quiet New_backend) (ERR refused) 1 0
      (reconciler_Add 0 sample_entry sample_reconciler))))"
  unfolding list_all_iff
  using retries_bounded[of "reconciler_Add 0 sample_entry sample_reconciler" 0 1 sample_entry sample_lib
      "quiet New_backend" "ERR refused"]
  by (auto simp: op_ok_def reconciler_Add_def maxDuration_def)

definition sample_ack :: ContractNegotiation where
  "sample_ack = \<lparr>cn_Context = GetDSPContext, cn_Type = ''dspace:ContractNegotiation'',
     cn_ProviderPID = uuid_URN sample_lib 9, cn_ConsumerPID = uuid_URN sample_lib 3, cn_State = ''dspace:OFFERED''\<rparr>"

lemma ack_learns_only_missing_witness:
  "updater_ApplyResponse sample_lib (Some sample_ack) (NegotiationUpdater offered_negotiation) =
     OK (NegotiationUpdater offered_negotiation)"
proof -
  have pids: "n_providerPID offered_negotiation = 2" "n_consumerPID offered_negotiation = 3" "\<not> n_ro offered_negotiation"
    by (simp_all add: offered_negotiation_def sample_new_def)
  have a: "parseNegotiationAck sample_lib (Some sample_ack) = Some (9, 3)"
    by (simp add: parseNegotiationAck_def sample_ack_def)
  obtain u' where u': "updater_ApplyResponse sample_lib (Some sample_ack) (NegotiationUpdater offered_negotiation) = OK u'"
    by (auto simp: negotiation_ApplyResponse_def a pids n_SetConsumerPID_def n_SetProviderPID_def n_panicRO_def)
  from ack_learns_only_missing[OF u'] u' pids show ?thesis by auto
qed

end
