(* ===== verification/Control.thy ===== *)
theory Control
  imports Transfer_Handlers
begin

text \<open>
  The control service: the gRPC methods a participant's own software calls. Here the server of
  \<open>dsp/control/control.go\<close> with its lookup of a provider's address, and the contract methods of
  \<open>dsp/control/contracts.go\<close>. A method answers a response, a gRPC status or a panic; what a
  peer answers over HTTP, fresh identifiers and the time are arguments.
\<close>

section \<open>Answers of a gRPC method\<close>

datatype grpc_code =
    Code_Unknown | Code_InvalidArgument | Code_NotFound | Code_PermissionDenied | Code_Unauthenticated
  | Code_FailedPrecondition | Code_Aborted | Code_Unavailable | Code_Internal

text \<open>A nil response with a nil error reaches the caller as an empty response. An error that is returned as
  it is has the code it carries when it is itself a status, and \<open>Unknown\<close> otherwise.\<close>

datatype 'r grpc_result = Reply "'r option" | Status grpc_code string | Returned goerror | Panicked string

section \<open>The server\<close>

text \<open>What a peer answers to a request: no answer, or a status code and a body, \<open>None\<close> when the
  body is not JSON of the expected type.\<close>

type_synonym 'b peer_answer = "(nat \<times> 'b option) outcome"

definition SendHTTPRequest :: "'b peer_answer \<Rightarrow> 'b option outcome" where
  "SendHTTPRequest answer = obind answer (\<lambda>(code, body).
     if code < 200 \<or> 299 < code then ERR (Errorf ''received a non-200 status code'' []) else OK body)"

definition UnmarshalAndValidate :: "('b \<Rightarrow> bool) \<Rightarrow> 'b option \<Rightarrow> 'b outcome" where
  "UnmarshalAndValidate valid body = DecodeValid valid body"

record control_server =
  ct_deps :: deps
  ct_receive :: "string \<Rightarrow> RequesterInfo option \<Rightarrow> PublishInfo option outcome"
  ct_version :: "url \<Rightarrow> VersionResponse peer_answer"
  ct_backend :: backend
  ct_selfURL :: url

definition localRequesterInfo :: RequesterInfo where
  "localRequesterInfo = \<lparr>AuthenticationStatus = AUTHENTICATION_STATUS_LOCAL_ORIGIN,
     ri_Identifier = [], ExternalId = []\<rparr>"

definition DSPVersion :: string where "DSPVersion = ''2024-1''"

text \<open>The address of a provider: the path it advertises for the protocol version spoken here.\<close>

definition getProviderURL :: "'a lib_scheme \<Rightarrow> control_server \<Rightarrow> string \<Rightarrow> url grpc_result" where
  "getProviderURL L sv u =
     (case url_Parse L u of
        None \<Rightarrow> Status Code_InvalidArgument ''invalid URL''
      | Some pu \<Rightarrow>
          (case SendHTTPRequest (ct_version sv (with_path pu [''.well-known'', ''dspace-version''])) of
             PANIC p \<Rightarrow> Panicked p
           | ERR e \<Rightarrow> Status Code_NotFound ''could not fetch dataspace version url''
           | OK resp \<Rightarrow>
               (case UnmarshalAndValidate valid_VersionResponse resp of
                  PANIC p \<Rightarrow> Panicked p
                | ERR e \<Rightarrow> Status Code_FailedPrecondition ''Invalid version response''
                | OK wellKnown \<Rightarrow>
                    (case find (\<lambda>v. pv_Version v = DSPVersion) (ProtocolVersions wellKnown) of
                       None \<Rightarrow> Status Code_FailedPrecondition ''provider does not support dataspace protocol version''
                     | Some v \<Rightarrow>
                         (case MustParseURL L u of
                            OK du \<Rightarrow> Reply (Some (with_path du [pv_Path v]))
                          | PANIC p \<Rightarrow> Panicked p
                          | ERR e \<Rightarrow> Returned e)))))"

section \<open>Contract messages\<close>

text \<open>\<open>VerifyConnection\<close> accepts any token.\<close>

definition VerifyConnection :: "string \<Rightarrow> unit grpc_result" where
  "VerifyConnection token = Reply (Some ())"

text \<open>The negotiation after the flags the caller asks for.\<close>

definition flagged :: "bool \<Rightarrow> bool \<Rightarrow> negotiation \<Rightarrow> negotiation" where
  "flagged initial autoAccept cn =
     (let cn1 = (if initial then n_SetInitial cn else cn) in if autoAccept then n_SetAutoAccept cn1 else cn1)"

text \<open>The negotiation and, when it was set on the way, its agreement; then the message is queued.\<close>

definition store_and_apply :: "'a lib_scheme \<Rightarrow> control_server \<Rightarrow> negotiation \<Rightarrow> apply_func \<Rightarrow> db \<Rightarrow> sys
    \<Rightarrow> sys \<times> unit grpc_result" where
  "store_and_apply L sv cn apply d1 s =
     (let finish = (\<lambda>d. case run_apply L (ct_deps sv) cn apply (s_effects s) of
             (e, PANIC p) \<Rightarrow> (s\<lparr>s_db := d, s_effects := e\<rparr>, Panicked p)
           | (e, _) \<Rightarrow> (s\<lparr>s_db := d, s_effects := e\<rparr>, Reply (Some ())))
      in case PutContract L (ct_backend sv) cn d1 of
           (d2, PANIC p) \<Rightarrow> (store_db s d2, Panicked p)
         | (d2, ERR e) \<Rightarrow> (store_db s d2, Status Code_Internal ''couldn't store contract negotiation'')
         | (d2, OK _) \<Rightarrow>
             (case n_agreement cn of
                None \<Rightarrow> finish d2
              | Some ag \<Rightarrow>
                  if n_newAgreement cn
                  then (case PutAgreement L (ct_backend sv) ag d2 of
                          (d3, PANIC p) \<Rightarrow> (store_db s d3, Panicked p)
                        | (d3, ERR e) \<Rightarrow> (store_db s d3, Status Code_Internal ''couldn't store agreement'')
                        | (d3, OK _) \<Rightarrow> finish d3)
                  else finish d2))"

text \<open>The lock taken here is given back by the put, and where the requester is refused; it is not on
  the two other error paths.\<close>

definition sendContractMessage :: "'a lib_scheme \<Rightarrow> control_server \<Rightarrow> go_context \<Rightarrow> uuid \<Rightarrow> int \<Rightarrow> cstate list
    \<Rightarrow> string \<Rightarrow> role \<Rightarrow> bool \<Rightarrow> bool \<Rightarrow> sys \<Rightarrow> sys \<times> unit grpc_result" where
  "sendContractMessage L sv ctx0 fresh now validFromStates rawPid rl initial autoAccept s =
     (case uuid_Parse L rawPid of
        None \<Rightarrow> (s, Status Code_InvalidArgument ''couldn't parse UUID'')
      | Some pid \<Rightarrow>
     (let ctx = SetRequesterInfo ctx0 localRequesterInfo; P = ct_backend sv in
      case WithRolePID pid rl of
        PANIC p \<Rightarrow> (s, Panicked p)
      | ERR e \<Rightarrow> (s, Returned e)
      | OK opt \<Rightarrow>
     (case GetContract L P [opt, WithRW] (s_db s) of
        (d1, PANIC p) \<Rightarrow> (store_db s d1, Panicked p)
      | (d1, ERR e) \<Rightarrow> (store_db s d1, Status Code_InvalidArgument ''could not find contract with pid'')
      | (d1, OK cn0) \<Rightarrow>
     (case CheckRequesterInfo ctx (n_requesterInfo cn0) of
        PANIC p \<Rightarrow> (store_db s d1, Panicked p)
      | ERR e \<Rightarrow>
          (case ReleaseContract L P cn0 d1 of
             (d2, PANIC p) \<Rightarrow> (store_db s d2, Panicked p)
           | (d2, _) \<Rightarrow> (store_db s d2, Status Code_Unauthenticated (err_msg e)))
      | OK _ \<Rightarrow>
     (let cn1 = flagged initial autoAccept cn0 in
      case n_GetLogFields L cn1 [] of
        PANIC p \<Rightarrow> (store_db s d1, Panicked p)
      | ERR e \<Rightarrow> (store_db s d1, Returned e)
      | OK _ \<Rightarrow>
          if n_state cn1 \<notin> set validFromStates
          then (store_db s d1, Status Code_InvalidArgument ''invalid initial state'')
          else (case contract_Send L (ct_deps sv) ctx fresh now cn1 of
                  (cn2, PANIC p) \<Rightarrow> (store_db s d1, Panicked p)
                | (cn2, ERR e) \<Rightarrow> (store_db s d1, Status Code_Internal ''Couldn't progress contract negotiation'')
                | (cn2, OK apply) \<Rightarrow> store_and_apply L sv cn2 apply d1 s))))))"

section \<open>The contract methods\<close>

record contract_request =
  cr_offer :: string
  cr_pid :: string
  cr_address :: string
  cr_autoAccept :: bool

text \<open>A new negotiation, stored before its first message is sent. The URL it names for callbacks is the
  server's own, as it is.\<close>

definition start_negotiation :: "'a lib_scheme \<Rightarrow> control_server \<Rightarrow> TraceInfo \<Rightarrow> uuid \<Rightarrow> uuid \<Rightarrow> role
    \<Rightarrow> contract_request \<Rightarrow> sys \<Rightarrow> sys \<times> negotiation grpc_result" where
  "start_negotiation L sv trace ppid cpid rl req s =
     (case Unmarshal_offer L (cr_offer req) of
        PANIC p \<Rightarrow> (s, Panicked p)
      | ERR e \<Rightarrow> (s, Status Code_InvalidArgument ''couldn't parse offer'')
      | OK off \<Rightarrow>
     (case getProviderURL L sv (cr_address req) of
        Panicked p \<Rightarrow> (s, Panicked p)
      | Status c m \<Rightarrow> (s, Status Code_InvalidArgument ''could not reach provider'')
      | Returned e \<Rightarrow> (s, Status Code_InvalidArgument ''could not reach provider'')
      | Reply None \<Rightarrow> (s, Panicked ''nil pointer dereference'')
      | Reply (Some providerURL) \<Rightarrow>
     (case obind (MustParseURL L (url_String L (ct_selfURL sv))) (\<lambda>self.
             New_negotiation trace ppid cpid C_INITIAL off providerURL self rl
               (cr_autoAccept req \<or> d_c (ct_deps sv) = None) (Some localRequesterInfo)) of
        PANIC p \<Rightarrow> (s, Panicked p)
      | ERR e \<Rightarrow> (s, Returned e)
      | OK negotiation \<Rightarrow>
     (case PutContract L (ct_backend sv) negotiation (s_db s) of
        (d1, PANIC p) \<Rightarrow> (store_db s d1, Panicked p)
      | (d1, ERR e) \<Rightarrow> (store_db s d1, Status Code_Internal ''couldn't store contract negotiation'')
      | (d1, OK _) \<Rightarrow> (store_db s d1, Reply (Some negotiation))))))"

definition ContractRequest :: "'a lib_scheme \<Rightarrow> control_server \<Rightarrow> go_context \<Rightarrow> TraceInfo \<Rightarrow> uuid \<Rightarrow> uuid \<Rightarrow> int
    \<Rightarrow> contract_request \<Rightarrow> sys \<Rightarrow> sys \<times> unit grpc_result" where
  "ContractRequest L sv ctx trace pid fresh now req s =
     (let send = sendContractMessage L sv ctx fresh now [C_INITIAL, C_OFFERED];
          go = (\<lambda>rawPID. send rawPID DataspaceConsumer True (cr_autoAccept req)) in
      if cr_pid req = [] \<and> cr_address req = []
      then (s, Status Code_InvalidArgument ''need to define pid or participant address'')
      else if cr_pid req = []
      then (case start_negotiation L sv trace emptyUUID pid DataspaceConsumer req s of
              (s1, Panicked p) \<Rightarrow> (s1, Panicked p)
            | (s1, Status c m) \<Rightarrow> (s1, Status c m)
            | (s1, Returned e) \<Rightarrow> (s1, Returned e)
            | (s1, Reply None) \<Rightarrow> (s1, Panicked ''nil pointer dereference'')
            | (s1, Reply (Some negotiation)) \<Rightarrow> go (uuid_String L (n_consumerPID negotiation)) s1)
      else go (cr_pid req) s)"

definition ContractOffer :: "'a lib_scheme \<Rightarrow> control_server \<Rightarrow> go_context \<Rightarrow> TraceInfo \<Rightarrow> uuid \<Rightarrow> uuid \<Rightarrow> int
    \<Rightarrow> contract_request \<Rightarrow> sys \<Rightarrow> sys \<times> unit grpc_result" where
  "ContractOffer L sv ctx trace pid fresh now req s =
     (let send = sendContractMessage L sv ctx fresh now [C_INITIAL, C_REQUESTED];
          go = (\<lambda>rawPID. send rawPID DataspaceProvider True (cr_autoAccept req)) in
      if cr_pid req = [] \<and> cr_address req = []
      then (s, Status Code_InvalidArgument ''need to define pid or participant address'')
      else if cr_pid req = []
      then (case start_negotiation L sv trace pid emptyUUID DataspaceProvider req s of
              (s1, Panicked p) \<Rightarrow> (s1, Panicked p)
            | (s1, Status c m) \<Rightarrow> (s1, Status c m)
            | (s1, Returned e) \<Rightarrow> (s1, Returned e)
            | (s1, Reply None) \<Rightarrow> (s1, Panicked ''nil pointer dereference'')
            | (s1, Reply (Some negotiation)) \<Rightarrow> go (uuid_String L (n_providerPID negotiation)) s1)
      else go (cr_pid req) s)"

definition ContractAccept :: "'a lib_scheme \<Rightarrow> control_server \<Rightarrow> go_context \<Rightarrow> uuid \<Rightarrow> int \<Rightarrow> string \<Rightarrow> bool
    \<Rightarrow> sys \<Rightarrow> sys \<times> unit grpc_result" where
  "ContractAccept L sv ctx fresh now pid autoAccept =
     sendContractMessage L sv ctx fresh now [C_OFFERED] pid DataspaceConsumer False autoAccept"

definition ContractAgree :: "'a lib_scheme \<Rightarrow> control_server \<Rightarrow> go_context \<Rightarrow> uuid \<Rightarrow> int \<Rightarrow> string \<Rightarrow> bool
    \<Rightarrow> sys \<Rightarrow> sys \<times> unit grpc_result" where
  "ContractAgree L sv ctx fresh now pid autoAccept =
     sendContractMessage L sv ctx fresh now [C_REQUESTED, C_ACCEPTED] pid DataspaceProvider False autoAccept"

definition ContractVerify :: "'a lib_scheme \<Rightarrow> control_server \<Rightarrow> go_context \<Rightarrow> uuid \<Rightarrow> int \<Rightarrow> string \<Rightarrow> bool
    \<Rightarrow> sys \<Rightarrow> sys \<times> unit grpc_result" where
  "ContractVerify L sv ctx fresh now pid autoAccept =
     sendContractMessage L sv ctx fresh now [C_AGREED] pid DataspaceConsumer False autoAccept"

definition ContractFinalize :: "'a lib_scheme \<Rightarrow> control_server \<Rightarrow> go_context \<Rightarrow> uuid \<Rightarrow> int \<Rightarrow> string \<Rightarrow> bool
    \<Rightarrow> sys \<Rightarrow> sys \<times> unit grpc_result" where
  "ContractFinalize L sv ctx fresh now pid autoAccept =
     sendContractMessage L sv ctx fresh now [C_VERIFIED] pid DataspaceProvider False autoAccept"

section \<open>Termination\<close>

text \<open>The negotiation is looked up as consumer, then as provider, without a lock.\<close>

fun find_by_roles :: "'a lib_scheme \<Rightarrow> backend \<Rightarrow> uuid \<Rightarrow> role list \<Rightarrow> db \<Rightarrow> db \<times> negotiation outcome" where
  "find_by_roles L P pid [] d = (d, ERR no_rows)"
| "find_by_roles L P pid (rl # rls) d =
     seq_m (d, WithRolePID pid rl) (\<lambda>d opt.
     (case GetContract L P [opt] d of
        (d1, OK cn) \<Rightarrow> seq_m (d1, n_GetLocalPID cn) (\<lambda>d1 _. (d1, OK cn))
      | (d1, PANIC p) \<Rightarrow> (d1, PANIC p)
      | (d1, ERR e) \<Rightarrow> if rls = [] then (d1, ERR e) else find_by_roles L P pid rls d1))"

definition termination_message :: "'a lib_scheme \<Rightarrow> negotiation \<Rightarrow> string \<Rightarrow> string list
    \<Rightarrow> ContractNegotiationTerminationMessage" where
  "termination_message L cn code reasons =
     \<lparr>ctm_Context = GetDSPContext, ctm_Type = ''dspace:ContractNegotiationTerminationMessage'',
      ctm_ProviderPID = uuid_URN L (n_providerPID cn), ctm_ConsumerPID = uuid_URN L (n_consumerPID cn),
      ctm_Code = code, ctm_Reason = map (\<lambda>r. \<lparr>ml_Value = r, ml_Language = ''en''\<rparr>) reasons\<rparr>"

text \<open>The entry that is queued: a nil requester is dereferenced.\<close>

definition termination_entry :: "'a lib_scheme \<Rightarrow> go_context \<Rightarrow> negotiation \<Rightarrow> ContractNegotiationTerminationMessage
    \<Rightarrow> ReconciliationEntry outcome" where
  "termination_entry L ctx cn body =
     obind (MustParseURL L (url_String L (n_callback cn))) (\<lambda>cu.
     obind (n_GetRemotePID cn) (\<lambda>remote.
     obind (n_GetLocalPID cn) (\<lambda>pid.
     case n_requesterInfo cn of
       None \<Rightarrow> PANIC ''nil pointer dereference''
     | Some ri \<Rightarrow> OK
         \<lparr>EntityID = pid, re_Type = ReconciliationContract, re_Role = n_role cn,
          TargetState = cstate_String C_TERMINATED, Method = ''POST'',
          URL = with_path cu [''negotiations'', uuid_String L remote, ''termination''],
          Body = MContractTermination body, re_Context = ctx, AuthHeaderValue = ExternalId ri\<rparr>)))"

definition ContractTerminate :: "'a lib_scheme \<Rightarrow> control_server \<Rightarrow> go_context \<Rightarrow> string \<Rightarrow> string \<Rightarrow> string list
    \<Rightarrow> sys \<Rightarrow> sys \<times> unit grpc_result" where
  "ContractTerminate L sv ctx rawPid code reasons s =
     (case uuid_Parse L rawPid of
        None \<Rightarrow> (s, Status Code_InvalidArgument ''could not parse PID'')
      | Some pid \<Rightarrow>
     (case find_by_roles L (ct_backend sv) pid [DataspaceConsumer, DataspaceProvider] (s_db s) of
        (d1, PANIC p) \<Rightarrow> (store_db s d1, Panicked p)
      | (d1, ERR e) \<Rightarrow> (store_db s d1, Status Code_InvalidArgument ''could not find contract with PID'')
      | (d1, OK cn) \<Rightarrow>
     (case ValidateAndMarshal valid_ContractTermination (termination_message L cn code reasons) of
        PANIC p \<Rightarrow> (store_db s d1, Panicked p)
      | ERR e \<Rightarrow> (store_db s d1, Status Code_Internal ''could not encode termination message'')
      | OK body \<Rightarrow>
     (case termination_entry L ctx cn body of
        PANIC p \<Rightarrow> (store_db s d1, Panicked p)
      | ERR e \<Rightarrow> (store_db s d1, Returned e)
      | OK entry \<Rightarrow>
     (case run_apply L (ct_deps sv) cn (ApAdd entry) (s_effects s) of
        (e, PANIC p) \<Rightarrow> (s\<lparr>s_db := d1, s_effects := e\<rparr>, Panicked p)
      | (e, _) \<Rightarrow> (s\<lparr>s_db := d1, s_effects := e\<rparr>, Reply (Some ())))))))"

end
