(* ===== verification/Control_Facts.thy ===== *)
theory Control_Facts
  imports Control Contract_Handlers_Facts Reconciler_Facts
begin

text \<open>
  The contract methods of the control service: what a message that was queued promises, what a
  refused one leaves behind, and what becomes of a negotiation that is terminated.
\<close>

section \<open>A negotiation the control service has taken\<close>

text \<open>The protocol's side of the same connector.\<close>

definition protocol_side :: "control_server \<Rightarrow> server" where
  "protocol_side sv = \<lparr>sv_deps = ct_deps sv, sv_backend = ct_backend sv, sv_selfURL = ct_selfURL sv\<rparr>"

lemma protocol_side_simps [simp]:
  "sv_deps (protocol_side sv) = ct_deps sv" "sv_backend (protocol_side sv) = ct_backend sv"
  by (simp_all add: protocol_side_def)

lemma GetContract_order:
  "WithRolePID pid rl = OK opt \<Longrightarrow> GetContract L P [opt, WithRW] = GetContract L P [WithRW, opt]"
  by (cases rl) (auto simp: GetContract_def newNegotiationParamBuilder_def intro!: ext)

text \<open>A local request passes the requester check of every negotiation that has a requester.\<close>

lemma local_requester_passes:
  "CheckRequesterInfo (SetRequesterInfo ctx localRequesterInfo) (Some ri) = OK ()"
  by (simp add: CheckRequesterInfo_def localRequesterInfo_def)

lemma n_GetLogFields_OK: "n_role cn \<noteq> RoleInvalid \<Longrightarrow> \<exists>fs. n_GetLogFields L cn sfx = OK fs"
  by (cases "n_role cn") (simp_all add: n_GetLogFields_def)

lemma flagged_fields [simp]:
  "n_state (flagged i a cn) = n_state cn" "n_role (flagged i a cn) = n_role cn" "n_ro (flagged i a cn) = n_ro cn"
  "n_internal_id (flagged i a cn) = n_internal_id cn" "n_modified (flagged i a cn) = n_modified cn"
  "n_requesterInfo (flagged i a cn) = n_requesterInfo cn"
  by (simp_all add: flagged_def n_SetInitial_def n_SetAutoAccept_def Let_def)

lemma sendContractMessage_taken:
  assumes "taken L (protocol_side sv) P rl pid s opt d1 cn" and "uuid_Parse L rawPid = Some pid"
    and "n_requesterInfo cn = Some ri"
  shows "sendContractMessage L sv ctx fresh now valid rawPid rl ini aa s =
    (if n_state cn \<notin> set valid then (store_db s d1, Status Code_InvalidArgument ''invalid initial state'')
     else case contract_Send L (ct_deps sv) (SetRequesterInfo ctx localRequesterInfo) fresh now (flagged ini aa cn) of
            (cn2, PANIC p) \<Rightarrow> (store_db s d1, Panicked p)
          | (cn2, ERR e) \<Rightarrow> (store_db s d1, Status Code_Internal ''Couldn't progress contract negotiation'')
          | (cn2, OK apply) \<Rightarrow> store_and_apply L sv cn2 apply d1 s)"
proof -
  note t = takenD[OF assms(1)]
  obtain fs where fs: "n_GetLogFields L (flagged ini aa cn) [] = OK fs"
    using n_GetLogFields_OK[of "flagged ini aa cn" L "[]"] t(8) by auto
  have "GetContract L (ct_backend sv) [opt, WithRW] (s_db s) = (d1, OK cn)"
    using t(1,6) by (simp add: GetContract_order[OF t(5)])
  then show ?thesis
    by (simp add: sendContractMessage_def assms(2,3) t(5) local_requester_passes fs del: contract_Send.simps)
qed

text \<open>Without a requester the method panics while it holds the lock.\<close>

lemma sendContractMessage_no_requester:
  assumes "taken L (protocol_side sv) P rl pid s opt d1 cn" and "uuid_Parse L rawPid = Some pid"
    and "n_requesterInfo cn = None"
  shows "sendContractMessage L sv ctx fresh now valid rawPid rl ini aa s =
    (store_db s d1, Panicked ''nil pointer dereference'')"
proof -
  note t = takenD[OF assms(1)]
  have "GetContract L (ct_backend sv) [opt, WithRW] (s_db s) = (d1, OK cn)"
    using t(1,6) by (simp add: GetContract_order[OF t(5)])
  then show ?thesis
    by (simp add: sendContractMessage_def assms(2,3) t(5) CheckRequesterInfo_def)
qed

section \<open>A message that is queued\<close>

lemma store_and_apply_reply:
  assumes "store_and_apply L sv cn (ApAdd e) d1 s = (s', Reply r)"
  obtains d2 where "PutContract L (ct_backend sv) cn d1 = (d2, OK ())" "contracts (s_db s') = contracts d2"
    "s_effects s' = (s_effects s)\<lparr>added := added (s_effects s) @ [e]\<rparr>"
proof -
  obtain d2 o2 where p: "PutContract L (ct_backend sv) cn d1 = (d2, o2)" by force
  have o2: "o2 = OK ()" using assms by (cases o2) (auto simp: store_and_apply_def p)
  note sa = assms[unfolded store_and_apply_def p o2 Let_def prod.case outcome.case]
  have "contracts (s_db s') = contracts d2 \<and> s_effects s' = (s_effects s)\<lparr>added := added (s_effects s) @ [e]\<rparr>"
  proof (cases "n_agreement cn")
    case None
    with sa show ?thesis by (cases "re_Role e") auto
  next
    case (Some ag)
    obtain d3 o3 where a: "PutAgreement L (ct_backend sv) ag d2 = (d3, o3)" by force
    then have "contracts d3 = contracts d2" using PutAgreement_frame[of L "ct_backend sv" ag d2] by simp
    with sa Some a show ?thesis
      by (cases "n_newAgreement cn"; cases o3; cases "re_Role e") auto
  qed
  then show thesis using that p o2 by blast
qed

lemma put_taken_row:
  assumes "taken L sv P rl pid s opt d1 cn" and "same_identity cn c" and "n_state c = n_state cn" and "\<not> n_ro c"
    and "PutContract L (quiet P) c d1 = (d2, OK ())"
  shows "\<exists>row \<in> set (contracts d2). c_ID row = n_internal_id cn \<and> \<not> c_Locked row
    \<and> contract_ParseState (ArgString (c_State row)) = OK (n_state cn)"
proof -
  note t = takenD[OF assms(1)]
  obtain r k where r: "r \<in> set (contracts (s_db s))" "\<not> c_Locked r" "d1 = lock_contract_row r k (s_db s)"
    "n_internal_id cn = c_ID r" "contract_ParseState (ArgString (c_State r)) = OK (n_state cn)"
    by (rule taken_row[OF assms(1)])
  have c: "n_internal_id c = c_ID r" "n_role c \<noteq> RoleInvalid" using assms(2) r(4) t(8) by (simp_all add: same_identity_def)
  have mem: "r\<lparr>c_Locked := True\<rparr> \<in> set (contracts d1)" using r(1,3) by (auto simp: lock_contract_row_def set_update_where)
  have pos: "c_ID r \<noteq> 0" using r(1) t(4) by (auto simp: wf_db_def wf_rows_def)
  show ?thesis
  proof (cases "n_modified c")
    case True
    obtain r' where "r' \<in> set (contracts d2)" "c_ID r' = n_internal_id c" "c_State r' = cstate_String (n_state c)" "\<not> c_Locked r'"
      using PutContract_row[OF assms(5) t(2) True assms(4) mem] c(1) pos by auto
    then show ?thesis using assms(3) c(1) r(4) ParseState_String(1)[of "n_state c"] by (intro bexI[of _ r']) simp_all
  next
    case False
    then have "same_rows (s_db s) d2"
      using release_taken[OF assms(1,2)] assms(4,5) by (simp add: PutContract_def release_deferred_def)
    then show ?thesis using r by (intro bexI[of _ r]) (auto simp: same_rows_def)
  qed
qed

lemma flagged_identity [simp]: "same_identity cn (flagged i a cn)"
  by (simp add: same_identity_def)

text \<open>The marks a method puts on the negotiation before it sends are no matter to the peer.\<close>

lemma ready_peer_flagged [simp]: "ready_peer L d ctx (flagged i a cn) msg peer = ready_peer L d ctx cn msg peer"
  by (simp add: ready_peer_def flagged_def n_SetInitial_def n_SetAutoAccept_def Let_def)

lemma queued_message:
  assumes t: "taken L (protocol_side sv) P rl pid s opt d1 cn" and raw: "uuid_Parse L rawPid = Some pid" and "uuid_laws L"
    and "sendContractMessage L sv ctx fresh now valid rawPid rl ini aa s = (s', Reply r)"
    and "list_all (\<lambda>st. \<not> contract_final st) valid"
  shows "\<exists>e st row. n_state cn \<in> set valid \<and> s_effects s' = (s_effects s)\<lparr>added := added (s_effects s) @ [e]\<rparr>
    \<and> send_target (flagged ini aa cn) = Some st \<and> entry_for L cn st e
    \<and> valid_message (Body e)
    \<and> (\<forall>d' ctx' fresh' peer. ready_peer L d' ctx' cn (Body e) peer \<longrightarrow>
         (\<exists>peer' af. contract_Recv L d' ctx' fresh' (Body e) peer = (peer', OK af) \<and> n_state peer' = st))
    \<and> row \<in> set (contracts (s_db s')) \<and> c_ID row = n_internal_id cn \<and> \<not> c_Locked row
    \<and> contract_ParseState (ArgString (c_State row)) = OK (n_state cn)"
proof -
  obtain ri where ri: "n_requesterInfo cn = Some ri"
    using sendContractMessage_no_requester[OF t raw] assms(4) by (cases "n_requesterInfo cn") auto
  obtain cn2 o2 where send: "contract_Send L (ct_deps sv) (SetRequesterInfo ctx localRequesterInfo) fresh now
      (flagged ini aa cn) = (cn2, o2)" by force
  have st: "n_state cn \<in> set valid"
    using assms(4) by (simp add: sendContractMessage_taken[OF t raw ri] split: if_splits)
  then obtain a where o2: "o2 = OK a" and sa: "store_and_apply L sv cn2 a d1 s = (s', Reply r)"
    using assms(4) by (cases o2) (auto simp: sendContractMessage_taken[OF t raw ri] send simp del: contract_Send.simps)
  have "\<not> contract_final (n_state cn)" using st assms(5) by (auto simp: list_all_iff)
  then obtain e tg where tg: "send_target (flagged ini aa cn) = Some tg" and e: "a = ApAdd e" "entry_for L (flagged ini aa cn) tg e"
      "recv_target (n_state cn) (Body e) = Some tg" "valid_message (Body e)" and fr: "send_frame (flagged ini aa cn) cn2"
    using contract_Send_OK[OF send[unfolded o2]] by auto
  obtain d2 where d2: "PutContract L (ct_backend sv) cn2 d1 = (d2, OK ())" "contracts (s_db s') = contracts d2"
      "s_effects s' = (s_effects s)\<lparr>added := added (s_effects s) @ [e]\<rparr>"
    using store_and_apply_reply[OF sa[unfolded e(1)]] by blast
  have ident: "same_identity cn cn2"
    using contract_Send_identity[OF flagged_identity, of cn L "ct_deps sv" "SetRequesterInfo ctx localRequesterInfo"
        fresh now ini aa] send by simp
  have "ct_backend sv = quiet P" using takenD(1)[OF t] by simp
  then obtain row where "row \<in> set (contracts d2)" "c_ID row = n_internal_id cn" "\<not> c_Locked row"
      "contract_ParseState (ArgString (c_State row)) = OK (n_state cn)"
    using put_taken_row[OF t ident _ _ d2(1)[unfolded \<open>ct_backend sv = quiet P\<close>]] fr takenD(9)[OF t]
    by (auto simp: send_frame_def recv_frame_def)
  moreover have "entry_for L cn tg e"
    using e(2) by (simp add: entry_for_def flagged_def n_SetInitial_def n_SetAutoAccept_def Let_def split: if_splits)
  moreover have "ready_peer L d' ctx' cn (Body e) peer \<longrightarrow>
      (\<exists>peer' af. contract_Recv L d' ctx' fresh' (Body e) peer = (peer', OK af) \<and> n_state peer' = tg)" for d' ctx' fresh' peer
    using ready_peer_takes[OF assms(3) send[unfolded o2 e(1)], of tg d' ctx' peer fresh'] e(3) by simp
  ultimately show ?thesis using st d2 tg e(4)
    by (intro exI[of _ e] exI[of _ tg] exI[of _ row]) (simp del: send_target.simps contract_Recv.simps)
qed

section \<open>A message the state does not allow\<close>

text \<open>The lock is kept: whatever the peer then sends for this negotiation, and whatever the caller sends
  next through \<open>sendContractMessage\<close>, the negotiation is not found.\<close>

lemma n_FromModel_ro: "n_FromModel L r False = OK cn \<Longrightarrow> n_FromModel L r ro = OK (cn\<lparr>n_ro := ro\<rparr>)"
  by (auto simp: n_FromModel_def outcome_simps)

text \<open>A reader that asks for no lock finds a negotiation that is held, and finds it unchanged.\<close>

lemma locked_contract_read:
  assumes "GetContract L (quiet P) [WithRW, opt] d = (d1, OK cn)" and "wf_db d" and "WithRolePID pid rl = OK opt"
    and "reliable P"
  shows "snd (GetContract L (quiet P) [opt] d1) = OK (cn\<lparr>n_ro := True\<rparr>)"
proof -
  let ?q = "newNegotiationParamBuilder [WithRW, opt]" and ?q' = "newNegotiationParamBuilder [opt]"
  obtain r k where r: "filter (contract_where L ?q None) (contracts d) = [r]" "d1 = lock_contract_row r k d"
      "n_FromModel L (join_agreement d (r\<lparr>c_Locked := True\<rparr>)) False = OK cn"
    using assms(1) by (auto simp: rolePID_RW[OF assms(3)] elim: getContractLocked_OK[OF _ assms(2)])
  have cw: "contract_where L ?q None (x\<lparr>c_Locked := b\<rparr>) = contract_where L ?q None x" for b x
    by (simp add: contract_where_def when_set_def)
  have q: "contract_where L ?q' None = contract_where L ?q None" "q_role ?q' = None" "\<not> q_RW ?q'"
    using assms(3) by (cases rl; auto simp: newNegotiationParamBuilder_def contract_where_def fun_eq_iff)+
  have one: "filter (contract_where L ?q None) (contracts d1) = [r\<lparr>c_Locked := True\<rparr>]"
    using crows.filter_after_lock[OF r(1), OF cw] r(2) by (simp add: lock_contract_row_def)
  have join: "join_agreement d1 x = join_agreement d x" "join_agreement (d1\<lparr>clock := k'\<rparr>) x = join_agreement d x" for x k'
    by (simp_all add: r(2) join_agreement_def find_agreement_def[abs_def] lock_contract_row_def)
  show ?thesis
    using one assms(4) n_FromModel_ro[OF r(3), of True]
    by (simp add: GetContract_def Let_def q exec_def reliable_def first_row_def join)
qed

lemma refused_message_blocks:
  assumes t: "taken L (protocol_side sv) P rl pid s opt d1 cn" and raw: "uuid_Parse L rawPid = Some pid"
    and "n_requesterInfo cn = Some ri" and "n_state cn \<notin> set valid"
  shows "sendContractMessage L sv ctx fresh now valid rawPid rl ini aa s =
      (store_db s d1, Status Code_InvalidArgument ''invalid initial state'')
    \<and> (\<exists>ce. snd (processMessage L (protocol_side sv) ctx' fv rl pid msg (store_db s d1)) = Failed ce \<and> ce_status ce = 404)
    \<and> (\<exists>d2. sendContractMessage L sv ctx fresh now valid' rawPid rl ini' aa' (store_db s d1) =
         (store_db s d2, Status Code_InvalidArgument ''could not find contract with pid''))
    \<and> snd (GetContract L (quiet P) [opt] d1) = OK (cn\<lparr>n_ro := True\<rparr>)"
proof -
  note td = takenD[OF t]
  obtain d2 e where again: "GetContract L (quiet P) [WithRW, opt] d1 = (d2, ERR e)"
    using GetContract_again[OF td(6,4,5) same_rows_refl(1)] by blast
  then have "\<exists>ce. snd (processMessage L (protocol_side sv) ctx' fv rl pid msg (store_db s d1)) = Failed ce \<and> ce_status ce = 404"
    using td(1,5) by (simp add: processMessage_def store_db_def contractError_def)
  moreover have "sendContractMessage L sv ctx fresh now valid' rawPid rl ini' aa' (store_db s d1) =
      (store_db s d2, Status Code_InvalidArgument ''could not find contract with pid'')"
    using td(1,5) again by (simp add: sendContractMessage_def raw GetContract_order[OF td(5)] store_db_def)
  ultimately show ?thesis
    using assms(4) locked_contract_read[OF td(6,4,5,2)] by (auto simp: sendContractMessage_taken[OF t raw assms(3)])
qed

section \<open>Termination\<close>

lemma GetContract_rows: "\<not> WithRW \<in> set opts \<Longrightarrow> same_rows d (fst (GetContract L P opts d))"
  by (auto simp: GetContract_def exec_def Let_def newNegotiationParamBuilder_def q_RW_fold)

lemma find_by_roles_OK:
  "find_by_roles L P pid rls d = (d1, OK cn) \<Longrightarrow> same_rows d d1 \<and> (\<exists>rl opt d0 d2. rl \<in> set rls \<and> same_rows d d0
     \<and> WithRolePID pid rl = OK opt \<and> GetContract L P [opt] d0 = (d2, OK cn) \<and> n_role cn \<noteq> RoleInvalid)"
proof (induction L P pid rls d rule: find_by_roles.induct)
  case (2 L P pid rl rls d)
  obtain opt where opt: "WithRolePID pid rl = OK opt" using "2.prems" by (cases rl) auto
  obtain d2 o2 where g: "GetContract L P [opt] d = (d2, o2)" by force
  have "opt \<noteq> WithRW" using opt by (cases rl) auto
  then have same: "same_rows d d2" using GetContract_rows[of "[opt]" d L P] g by simp
  show ?case
  proof (cases o2)
    case (OK c)
    then have "cn = c" "d1 = d2" "n_role cn \<noteq> RoleInvalid"
      using "2.prems" by (auto simp: opt g outcome_simps split: role.splits)
    then show ?thesis using opt g OK same
      by (intro conjI exI[of _ rl] exI[of _ opt] exI[of _ d] exI[of _ d2]) auto
  next
    case (ERR e)
    then have "rls \<noteq> []" "find_by_roles L P pid rls d2 = (d1, OK cn)"
      using "2.prems" by (auto simp: opt g split: if_splits)
    then obtain rl' opt' d0 d3 where "same_rows d2 d1" "rl' \<in> set rls" "same_rows d2 d0" "WithRolePID pid rl' = OK opt'"
        "GetContract L P [opt'] d0 = (d3, OK cn)" "n_role cn \<noteq> RoleInvalid"
      using "2.IH"[OF _ g[symmetric] ERR] opt by auto
    then show ?thesis using same same_rows_trans by (metis list.set_intros(2))
  qed (use "2.prems" opt g in simp)
qed simp

text \<open>An entry whose target the table does not allow: taking the record succeeds, the state is refused,
  and the record is given back.\<close>

lemma GetContract_same_rows:
  assumes "GetContract L (quiet P) [WithRW, opt] d = (d1, OK cn)" and "wf_db d" and "WithRolePID pid rl = OK opt"
    and "reliable P" and "same_rows d d'"
  shows "\<exists>d1'. GetContract L (quiet P) [WithRW, opt] d' = (d1', OK cn)"
proof -
  let ?q = "newNegotiationParamBuilder [WithRW, opt]"
  obtain r k where r: "filter (contract_where L ?q None) (contracts d) = [r]" "\<not> c_Locked r"
      "n_FromModel L (join_agreement d (r\<lparr>c_Locked := True\<rparr>)) False = OK cn"
    using assms(1) by (auto simp: rolePID_RW[OF assms(3)] elim: getContractLocked_OK[OF _ assms(2)])
  have r': "filter (contract_where L ?q None) (contracts d') = [r]" "wf_db d'"
    using r(1) assms(2,5) wf_db_same_rows[OF assms(5)] by (simp_all add: same_rows_def)
  have find: "find_agreement d' = find_agreement d" using assms(5) by (simp add: same_rows_def find_agreement_def fun_eq_iff)
  then have join: "join_agreement d' x = join_agreement d x" for x by (simp add: join_agreement_def)
  have "c_AgreementID r = None \<or> (\<exists>a. find_agreement d (the (c_AgreementID r)) = Some a)"
    using assms(1) r by (auto simp: rolePID_RW[OF assms(3)] getContractLocked_reliable[OF assms(4,2) r(1,2)]
        finish_contract_reliable[OF assms(4)] split: option.splits)
  then show ?thesis
    by (auto simp: rolePID_RW[OF assms(3)] getContractLocked_reliable[OF assms(4) r'(2,1) r(2)]
        finish_contract_reliable[OF assms(4)] join find r(3) split: option.split)
qed

text \<open>Such an entry is stuck: its negotiation is found, and its state forbids the entry's target.\<close>

definition stuck_entry :: "'a lib_scheme \<Rightarrow> backend \<Rightarrow> ReconciliationEntry \<Rightarrow> db \<Rightarrow> bool" where
  "stuck_entry L P e d \<longleftrightarrow> re_Type e = ReconciliationContract \<and> (\<exists>opt d1 cn cs.
     WithRolePID (EntityID e) (re_Role e) = OK opt \<and> GetContract L (quiet P) [WithRW, opt] d = (d1, OK cn)
     \<and> contract_ParseState (ArgString (TargetState e)) = OK cs \<and> cs \<notin> set (validTransitions (n_state cn)))"

lemma stuck_acquire:
  assumes "stuck_entry L P e d" and "session_db L P d"
  shows "\<exists>d2 er. acquire_target L (quiet P) e d = (d2, ERR er) \<and> same_rows d d2 \<and> \<not> errors_Is er ErrFatal
    \<and> stuck_entry L P e d2"
proof -
  obtain opt d1 cn cs where e: "re_Type e = ReconciliationContract" "WithRolePID (EntityID e) (re_Role e) = OK opt"
      "GetContract L (quiet P) [WithRW, opt] d = (d1, OK cn)" "contract_ParseState (ArgString (TargetState e)) = OK cs"
      "cs \<notin> set (validTransitions (n_state cn))"
    using assms(1) by (auto simp: stuck_entry_def)
  have s: "wf_db d" "reliable P" "total_codecs L" using assms(2) by (simp_all add: session_db_def)
  have role: "n_role cn \<noteq> RoleInvalid" "\<not> n_ro cn" using GetContract_role[OF e(2) s(1) e(3)] by simp_all
  obtain d2 where d2: "ReleaseContract L (quiet P) cn d1 = (d2, OK ())" "same_rows d d2"
    using release_restores_contract[OF e(3) s(1) e(2) s(2,3) same_rows_refl(1) refl role(1)] by blast
  have "stuck_entry L P e d2"
    using GetContract_same_rows[OF e(3) s(1) e(2) s(2) d2(2)] e by (auto simp: stuck_entry_def)
  then show ?thesis
    using d2 e role by (auto simp: getStateUpdater_def newNegotiationUpdater_def set_or_release_def n_SetState_def
        n_panicRO_def errors_Is_def wrapf_def)
qed

lemma stuck_terminate:
  assumes "stuck_entry L P e d" and "session_db L P d"
  shows "\<exists>d2. terminate_loop L (quiet P) e n d = (d2, PANIC ''Could not set state to terminated'') \<and> same_rows d d2"
  using assms
proof (induction n arbitrary: d)
  case 0
  show ?case by simp
next
  case (Suc n)
  obtain d2 er where d2: "acquire_target L (quiet P) e d = (d2, ERR er)" "same_rows d d2" "stuck_entry L P e d2"
    using stuck_acquire[OF Suc.prems] by blast
  moreover have "session_db L P d2" using Suc.prems(2) wf_db_same_rows[OF d2(2)] by (simp add: session_db_def)
  ultimately show ?case using Suc.IH[of d2] same_rows_trans by (fastforce simp: terminateAttempt_def)
qed

lemma stuck_reconcile:
  assumes "stuck_entry L P (op_Entry op) (rc_db s)" and "session_db L P (rc_db s)"
  shows "\<exists>d2. same_rows (rc_db s) d2 \<and> reconcileEntry L (quiet P) answer now rand op s =
    (if gives_up now rand op (Errorf [] []) then (s\<lparr>rc_db := d2\<rparr>, PANIC ''Could not set state to terminated'')
     else (s\<lparr>rc_queue := rc_queue s @ [requeued now rand op], rc_db := d2\<rparr>, OK ()))"
proof -
  obtain d2 er where d2: "acquire_target L (quiet P) (op_Entry op) (rc_db s) = (d2, ERR er)" "same_rows (rc_db s) d2"
      "\<not> errors_Is er ErrFatal" "stuck_entry L P (op_Entry op) d2"
    using stuck_acquire[OF assms] by blast
  have ses: "session_db L P d2" using assms(2) wf_db_same_rows[OF d2(2)] by (simp add: session_db_def)
  have g: "gives_up now rand op (wrapf msg er) = gives_up now rand op (Errorf [] [])" for msg
    using d2(3) by (simp add: gives_up_def errors_Is_def wrapf_def)
  obtain d3 where d3: "terminate_loop L (quiet P) (op_Entry op) 10 d2 = (d3, PANIC ''Could not set state to terminated'')"
      "same_rows d2 d3"
    using stuck_terminate[OF d2(4) ses] by blast
  show ?thesis
    using d2(1,2) d3 same_rows_trans[OF d2(2) d3(2)]
    by (auto simp: reconcileEntry_def Let_def handleError_cases g terminate_def)
qed

text \<open>A minute after it was queued, the next attempt of an entry is its last.\<close>

lemma late_gives_up:
  assumes "op_ok op" and "0 \<le> rand" and "rand < 1" and "Submitted op + maxDuration < now"
  shows "gives_up now rand (op\<lparr>Attempts := Attempts op + 1\<rparr>) er"
proof -
  have n: "Attempts op + 1 = int (nat (Attempts op)) + 1" "CurrentInterval op = interval_at (nat (Attempts op))"
    using assms(1) by (auto simp: op_ok_def)
  have "now \<le> fst (calculateNextAttempt now rand (CurrentInterval op) (Attempts op + 1))"
    using delay_int[OF assms(2,3), of now "nat (Attempts op)"] interval_at_pos[of "Suc (nat (Attempts op))"]
    unfolding n by linarith
  then show ?thesis using assms(4) by (simp add: gives_up_def)
qed

section \<open>Properties\<close>


text \<open>C39: a contract method that sends through \<open>sendContractMessage\<close>, called in a state it is not for,
  answers \<open>InvalidArgument\<close> and keeps the lock: afterwards every message of the peer for the
  negotiation is answered 404, and every further such method, in whatever state it is for, does not
  find the negotiation. Only a reader that asks for no lock, as \<open>ContractTerminate\<close> does, still finds
  it, read-only and as it was.\<close>

theorem refused_control_message_blocks:
  assumes "ct_backend sv = quiet P" and "reliable P" and "total_codecs L" and "wf_db (s_db s)"
    and "uuid_Parse L rawPid = Some pid" and "WithRolePID pid rl = OK opt"
    and "GetContract L (quiet P) [WithRW, opt] (s_db s) = (d1, OK cn)"
    and "n_requesterInfo cn = Some ri" and "n_state cn \<notin> set valid"
    and "s1 = fst (sendContractMessage L sv ctx fresh now valid rawPid rl initial autoAccept s)"
  shows "snd (sendContractMessage L sv ctx fresh now valid rawPid rl initial autoAccept s) =
      Status Code_InvalidArgument ''invalid initial state''
    \<and> (\<exists>ce. snd (processMessage L (protocol_side sv) ctx' fv rl pid msg s1) = Failed ce \<and> ce_status ce = 404)
    \<and> snd (sendContractMessage L sv ctx fresh now valid' rawPid rl initial' autoAccept' s1) =
      Status Code_InvalidArgument ''could not find contract with pid''
    \<and> snd (GetContract L (quiet P) [opt] (s_db s1)) = OK (cn\<lparr>n_ro := True\<rparr>)"
proof -
  have t: "taken L (protocol_side sv) P rl pid s opt d1 cn" using assms by (simp add: taken_def)
  note b = refused_message_blocks[OF t assms(5,8,9), of ctx fresh now initial autoAccept ctx' fv msg valid' initial' autoAccept']
  have s1: "s1 = store_db s d1" using b assms(10) by simp
  obtain d2 where "sendContractMessage L sv ctx fresh now valid' rawPid rl initial' autoAccept' s1 =
      (store_db s d2, Status Code_InvalidArgument ''could not find contract with pid'')"
    using b unfolding s1 by blast
  then show ?thesis using b unfolding s1 by (simp add: store_db_def)
qed

text \<open>Terminating a negotiation takes no lock and changes no row: when the method answers without
  an error it has queued one valid termination message for a negotiation of the database, which
  the peer accepts in every state in which a negotiation can be terminated.\<close>

theorem terminate_queues_message:
  assumes "ContractTerminate L sv ctx rawPid code reasons s = (s', Reply r)"
  shows "same_rows (s_db s) (s_db s') \<and> (\<exists>pid rl opt d0 d1 cn e. uuid_Parse L rawPid = Some pid
    \<and> WithRolePID pid rl = OK opt \<and> same_rows (s_db s) d0 \<and> GetContract L (ct_backend sv) [opt] d0 = (d1, OK cn)
    \<and> s_effects s' = (s_effects s)\<lparr>added := added (s_effects s) @ [e]\<rparr> \<and> re_Type e = ReconciliationContract \<and> TargetState e = ''dspace:TERMINATED'' \<and> re_Role e = n_role cn
    \<and> n_GetLocalPID cn = OK (EntityID e) \<and> valid_message (Body e)
    \<and> msg_provider (Body e) = uuid_URN L (n_providerPID cn) \<and> msg_consumer (Body e) = uuid_URN L (n_consumerPID cn)
    \<and> (st \<notin> {C_INITIAL, C_FINALIZED, C_TERMINATED} \<longrightarrow> recv_target st (Body e) = Some C_TERMINATED))"
proof -
  note [simp del] = find_by_roles.simps n_GetLocalPID.simps
  obtain pid where pid: "uuid_Parse L rawPid = Some pid"
    using assms by (cases "uuid_Parse L rawPid") (auto simp: ContractTerminate_def)
  obtain d1 o1 where f: "find_by_roles L (ct_backend sv) pid [DataspaceConsumer, DataspaceProvider] (s_db s) = (d1, o1)" by force
  obtain cn where cn: "o1 = OK cn" using assms by (cases o1) (auto simp: ContractTerminate_def pid f)
  let ?t = "termination_message L cn code reasons"
  have v: "valid_ContractTermination ?t"
    using assms by (auto simp: ContractTerminate_def pid f cn ValidateAndMarshal_def split: if_splits)
  obtain e where e: "termination_entry L ctx cn ?t = OK e"
    using assms v by (cases "termination_entry L ctx cn ?t")
      (auto simp: ContractTerminate_def pid f cn ValidateAndMarshal_def)
  obtain rl opt d0 d2 where found: "n_role cn \<noteq> RoleInvalid" "same_rows (s_db s) d1" "WithRolePID pid rl = OK opt"
      "same_rows (s_db s) d0" "GetContract L (ct_backend sv) [opt] d0 = (d2, OK cn)"
    using find_by_roles_OK[of L "ct_backend sv" pid _ "s_db s" d1 cn] f cn by blast
  have fields: "re_Type e = ReconciliationContract" "TargetState e = ''dspace:TERMINATED''" "re_Role e = n_role cn"
      "n_GetLocalPID cn = OK (EntityID e)" "Body e = MContractTermination ?t"
    using e by (auto simp: termination_entry_def outcome_simps split: option.splits)
  obtain rs where "Role_String (re_Role e) = OK rs" using fields(3) found(1) by (cases "n_role cn") auto
  then have "s' = s\<lparr>s_db := d1, s_effects := (s_effects s)\<lparr>added := added (s_effects s) @ [e]\<rparr>\<rparr>"
    using assms v e by (simp add: ContractTerminate_def pid f cn ValidateAndMarshal_def)
  moreover have "st \<notin> {C_INITIAL, C_FINALIZED, C_TERMINATED} \<longrightarrow> recv_target st (Body e) = Some C_TERMINATED"
    using fields(5) by (cases st) auto
  ultimately show ?thesis
    using found pid fields v by (intro conjI exI[of _ pid] exI[of _ rl] exI[of _ opt] exI[of _ d0] exI[of _ d2]
        exI[of _ cn] exI[of _ e]) (simp_all add: valid_message_def termination_message_def)
qed

text \<open>C37: a queued message whose target state the negotiation can no longer reach (it was sent twice, or
  terminates a finished negotiation) is never sent and never dropped: every attempt changes no row
  and queues it again, and the first attempt later than a minute after it was queued brings the
  connector down.\<close>

theorem stale_entry_panics:
  assumes "wf_db (rc_db s)" and "reliable P" and "total_codecs L" and "rc_queue s = op # q" and "op_ok op"
    and "NextAttempt op < now" and "0 \<le> rand" and "rand < 1"
    and "re_Type (op_Entry op) = ReconciliationContract"
    and "WithRolePID (EntityID (op_Entry op)) (re_Role (op_Entry op)) = OK opt"
    and "GetContract L (quiet P) [WithRW, opt] (rc_db s) = (d1, OK cn)"
    and "contract_ParseState (ArgString (TargetState (op_Entry op))) = OK target"
    and "target \<notin> set (validTransitions (n_state cn))"
    and "manager_tick L (quiet P) answer now rand s = (s', res)"
  shows "rc_sent s' = rc_sent s \<and> same_rows (rc_db s) (rc_db s')
    \<and> (res = PANIC ''Could not set state to terminated'' \<or>
       res = OK () \<and> map op_Entry (rc_queue s') = map op_Entry (q @ [op]) \<and> now \<le> Submitted op + maxDuration)"
proof -
  let ?op = "op\<lparr>Attempts := Attempts op + 1\<rparr>" and ?s = "s\<lparr>rc_queue := q\<rparr>"
  have "stuck_entry L P (op_Entry ?op) (rc_db ?s)" "session_db L P (rc_db ?s)"
    using assms(1-3,9-13) by (auto simp: stuck_entry_def session_db_def)
  from stuck_reconcile[OF this, of answer now rand] obtain d2 where d2: "same_rows (rc_db s) d2"
      "reconcileEntry L (quiet P) answer now rand ?op ?s =
        (if gives_up now rand ?op (Errorf [] []) then (?s\<lparr>rc_db := d2\<rparr>, PANIC ''Could not set state to terminated'')
         else (?s\<lparr>rc_queue := rc_queue ?s @ [requeued now rand ?op], rc_db := d2\<rparr>, OK ()))"
    by auto
  have tick: "manager_tick L (quiet P) answer now rand s = reconcileEntry L (quiet P) answer now rand ?op ?s"
    using assms(4,6) by (simp add: manager_tick_def)
  show ?thesis
    using assms(14) d2 late_gives_up[OF assms(5,7,8), of now "Errorf [] []"]
    by (auto simp: tick requeued_def simp flip: linorder_not_less split: if_splits)
qed

section \<open>Examples\<close>

definition sample_control :: control_server where
  "sample_control = \<lparr>ct_deps = sv_deps sample_server, ct_receive = (\<lambda>_ _. OK (Some sample_publish)),
     ct_version = (\<lambda>_. OK (200, Some \<lparr>vr_Context = GetDSPContext,
        ProtocolVersions = [\<lparr>pv_Version = ''2024-1'', pv_Path = ''/run-dsp/v2024-1''\<rparr>]\<rparr>)),
     ct_backend = quiet New_backend, ct_selfURL = root_url\<rparr>"

lemma sample_control_simps [simp]:
  "ct_backend sample_control = quiet New_backend" "ct_deps sample_control = sv_deps sample_server"
  by (simp_all add: sample_control_def)

lemma agreed_taken: "taken sample_lib (protocol_side sample_control) New_backend DataspaceProvider 2 agreed_sys
    (WithProviderPID 2) (lock_contract_row agreed_row 3 (s_db agreed_sys)) agreed_negotiation"
  using agreed_take by (simp add: taken_def)

lemma agreed_fields: "n_state agreed_negotiation = C_AGREED" "n_requesterInfo agreed_negotiation = Some sample_requester"
  by (simp_all add: agreed_negotiation_def sample_negotiation_def)

lemma agreed_verify_queued:
  "\<exists>s' r. sendContractMessage sample_lib sample_control background 5 6 [C_AGREED] (uuid_String sample_lib 2)
     DataspaceProvider False False agreed_sys = (s', Reply r)"
proof -
  have f: "flagged False False agreed_negotiation = agreed_negotiation" by (simp add: flagged_def)
  have d: "n_role agreed_negotiation = DataspaceProvider" "\<not> n_ro agreed_negotiation" "\<not> n_modified agreed_negotiation"
    "n_agreement agreed_negotiation = None"
    "n_callback agreed_negotiation = root_url" "n_consumerPID agreed_negotiation = 3"
    by (simp_all add: agreed_negotiation_def sample_negotiation_def root_url_def)
  obtain e where "contract_Send sample_lib (ct_deps sample_control) (SetRequesterInfo background localRequesterInfo) 5 6
      agreed_negotiation = (agreed_negotiation, OK (ApAdd e))" "re_Role e = DataspaceProvider"
    using d by (simp add: agreed_fields sendContractVerification_def ValidateAndMarshal_def valid_ContractVerification_def
        required_def makeContractRequestFunction_def makeRequestFunction_def)
  then show ?thesis
    by (simp add: sendContractMessage_taken[OF agreed_taken _ agreed_fields(2)] agreed_fields f store_and_apply_def d
        PutContract_def ReleaseContract_reliable[OF New_backend_reliable sample_total] del: contract_Send.simps)
qed


lemma refused_control_message_blocks_witness:
  "snd (sendContractMessage sample_lib sample_control background 5 6 [C_AGREED] (uuid_String sample_lib 2)
     DataspaceProvider False False (fst (ContractFinalize sample_lib sample_control background 5 6 (uuid_String sample_lib 2)
       False agreed_sys))) = Status Code_InvalidArgument ''could not find contract with pid''"
  using refused_control_message_blocks[OF _ New_backend_reliable sample_total _ _ _ agreed_take agreed_fields(2) _ refl,
      where sv = sample_control and rawPid = "uuid_String sample_lib 2" and rl = DataspaceProvider and pid = 2
        and valid = "[C_VERIFIED]" and valid' = "[C_AGREED]" and ctx = background and fresh = 5 and now = 6]
  by (simp add: agreed_fields ContractFinalize_def)

text \<open>A negotiation read without a lock.\<close>

lemma agreed_read:
  "find_by_roles sample_lib (quiet New_backend) 3 [DataspaceConsumer, DataspaceProvider] (s_db agreed_sys) =
     ((s_db agreed_sys)\<lparr>clock := 2\<rparr>, OK (agreed_negotiation\<lparr>n_ro := True, n_locked := False\<rparr>))"
proof -
  let ?d = "(s_db agreed_sys)\<lparr>clock := 2\<rparr>"
  have rows: "contracts ?d = [agreed_row]" "clock (s_db agreed_sys) = 1"
    by (simp_all add: agreed_sys_def sample_db_def)
  have "contract_where sample_lib (newNegotiationParamBuilder [WithConsumerPID 3]) None agreed_row"
    by (simp add: contract_where_def newNegotiationParamBuilder_def when_set_def agreed_row_def sample_row_def)
  moreover have state: "contract_ParseState (ArgString ''dspace:AGREED'') = OK C_AGREED"
    using ParseState_String(1)[of C_AGREED] by simp
  moreover have "n_FromModel sample_lib (join_agreement ?d agreed_row) True =
      OK (agreed_negotiation\<lparr>n_ro := True, n_locked := False\<rparr>)"
    by (simp add: join_agreement_def agreed_row_def sample_row_def n_FromModel_def parse_pid_def state
        ParseRole_Role_String[of DataspaceProvider] opt_read_def agreed_negotiation_def sample_negotiation_def root_url_def)
  moreover have "q_role (newNegotiationParamBuilder [WithConsumerPID 3]) = None" "\<not> q_RW (newNegotiationParamBuilder [WithConsumerPID 3])"
    by (simp_all add: newNegotiationParamBuilder_def)
  ultimately have "GetContract sample_lib (quiet New_backend) [WithConsumerPID 3] (s_db agreed_sys) =
      (?d, OK (agreed_negotiation\<lparr>n_ro := True, n_locked := False\<rparr>))"
    using rows by (simp add: GetContract_def Let_def first_row_def New_backend_reliable eval_nat_numeral)
  then show ?thesis by (simp add: agreed_negotiation_def sample_negotiation_def)
qed

lemma terminate_queues_message_witness:
  "\<exists>s' e. ContractTerminate sample_lib sample_control background (uuid_String sample_lib 3) ''done'' [] agreed_sys =
     (s', Reply (Some ())) \<and> added (s_effects s') = [e] \<and> TargetState e = ''dspace:TERMINATED''
     \<and> recv_target C_AGREED (Body e) = Some C_TERMINATED"
proof -
  obtain s' where s': "ContractTerminate sample_lib sample_control background (uuid_String sample_lib 3) ''done'' []
      agreed_sys = (s', Reply (Some ()))"
    using agreed_read by (simp add: ContractTerminate_def ValidateAndMarshal_def valid_ContractTermination_def
        termination_message_def required_def termination_entry_def MustParseURL_def agreed_negotiation_def
        sample_negotiation_def del: find_by_roles.simps)
  show ?thesis
    using terminate_queues_message[OF s', of C_AGREED] s' by (auto simp: agreed_sys_effects no_effects_def)
qed

definition stale_operation :: reconciliationOperation where
  "stale_operation = \<lparr>Submitted = 0, NextAttempt = 0, Attempts = 0,
     op_Entry = sample_entry\<lparr>TargetState := ''dspace:AGREED''\<rparr>, CurrentInterval = initialRetry\<rparr>"

lemma stale_entry_panics_witness:
  "snd (manager_tick sample_lib (quiet New_backend) (OK None) (maxDuration + 1) 0
     \<lparr>rc_queue = [stale_operation], rc_db = s_db agreed_sys, rc_sent = []\<rparr>) = PANIC ''Could not set state to terminated''"
proof -
  let ?s = "\<lparr>rc_queue = [stale_operation], rc_db = s_db agreed_sys, rc_sent = []\<rparr>"
  obtain s' res where tick: "manager_tick sample_lib (quiet New_backend) (OK None) (maxDuration + 1) 0 ?s = (s', res)" by force
  have ok: "op_ok stale_operation" by (simp add: op_ok_def stale_operation_def initialRetry_def maxDuration_def)
  have state: "contract_ParseState (ArgString ''dspace:AGREED'') = OK C_AGREED"
    using ParseState_String(1)[of C_AGREED] by simp
  have "res = PANIC ''Could not set state to terminated'' \<or> res = OK () \<and>
      map op_Entry (rc_queue s') = map op_Entry ([] @ [stale_operation]) \<and> maxDuration + 1 \<le> Submitted stale_operation + maxDuration"
    using stale_entry_panics[OF _ New_backend_reliable sample_total _ ok _ _ _ _ _ _ _ _ tick,
        where target = C_AGREED and cn = agreed_negotiation and opt = "WithProviderPID 2"] agreed_take state
    by (simp add: stale_operation_def sample_entry_def maxDuration_def agreed_fields)
  then show ?thesis using tick by (simp add: stale_operation_def)
qed

end
