(* ===== verification/Control_Transfer.thy ===== *)
theory Control_Transfer
  imports Control
begin

text \<open>
  The transfer methods of the control service (\<open>dsp/control/control.go\<close>). Two of them negotiate a
  contract and start a transfer, and then wait for the peer by reading the database once a second:
  what others did to it meanwhile is an argument, and a wait without an end is \<open>None\<close>.
\<close>

section \<open>Sequences of steps\<close>

text \<open>Each step answers a value or leaves the method with a status, an error or a panic.\<close>

fun as_failure :: "'a grpc_result \<Rightarrow> 'b grpc_result" where
  "as_failure (Reply x) = Panicked ''nil pointer dereference''"
| "as_failure (Status c m) = Status c m"
| "as_failure (Returned e) = Returned e"
| "as_failure (Panicked p) = Panicked p"

fun andthen :: "'s \<times> 'a grpc_result \<Rightarrow> ('s \<Rightarrow> 'a \<Rightarrow> 's \<times> 'b grpc_result) \<Rightarrow> 's \<times> 'b grpc_result" where
  "andthen (s, Reply (Some x)) k = k s x"
| "andthen (s, r) k = (s, as_failure r)"

fun or_status :: "grpc_code \<Rightarrow> string \<Rightarrow> 'a outcome \<Rightarrow> 'a grpc_result" where
  "or_status c m (OK x) = Reply (Some x)"
| "or_status c m (ERR e) = Status c m"
| "or_status c m (PANIC p) = Panicked p"

fun or_return :: "'a outcome \<Rightarrow> 'a grpc_result" where
  "or_return (OK x) = Reply (Some x)"
| "or_return (ERR e) = Returned e"
| "or_return (PANIC p) = Panicked p"

text \<open>A call of the store from a method of the control service.\<close>

definition on_db :: "(db \<Rightarrow> db \<times> 'a outcome) \<Rightarrow> ('a outcome \<Rightarrow> 'b grpc_result) \<Rightarrow> tsys \<Rightarrow> tsys \<times> 'b grpc_result" where
  "on_db f g s = (case f (s_db s) of (d, r) \<Rightarrow> (s\<lparr>s_db := d\<rparr>, g r))"

definition local_requester :: "string \<Rightarrow> RequesterInfo" where
  "local_requester externalId = localRequesterInfo\<lparr>ExternalId := externalId\<rparr>"

section \<open>Signalling\<close>

text \<open>The transfer is taken as consumer, then as provider; one that is found is released at once and the
  method returns nil without an error. What follows the loop in the source is for a transfer that
  is not nil, and is never reached.\<close>

fun signal_loop :: "'a lib_scheme \<Rightarrow> backend \<Rightarrow> uuid \<Rightarrow> role list \<Rightarrow> db \<Rightarrow> db \<times> unit grpc_result" where
  "signal_loop L P i [] d = (d, Status Code_NotFound ''no transfer found'')"
| "signal_loop L P i (rl # rls) d =
     (case T_WithRolePID i rl of
        PANIC p \<Rightarrow> (d, Panicked p)
      | ERR e \<Rightarrow> (d, Returned e)
      | OK opt \<Rightarrow>
          (case GetTransfer L P [opt, T_WithRW] d of
             (d1, PANIC p) \<Rightarrow> (d1, Panicked p)
           | (d1, ERR e) \<Rightarrow> signal_loop L P i rls d1
           | (d1, OK tr) \<Rightarrow>
               (case ReleaseTransfer L P tr d1 of
                  (d2, PANIC p) \<Rightarrow> (d2, Panicked p)
                | (d2, _) \<Rightarrow> (d2, Reply None))))"

definition SignalTransferComplete :: "'a lib_scheme \<Rightarrow> control_server \<Rightarrow> string \<Rightarrow> tsys \<Rightarrow> tsys \<times> unit grpc_result" where
  "SignalTransferComplete L sv transferId s =
     (case uuid_Parse L transferId of
        None \<Rightarrow> (s, Status Code_InvalidArgument ''Transfer ID is not a valid UUID.'')
      | Some i \<Rightarrow>
          (case signal_loop L (ct_backend sv) i [DataspaceConsumer, DataspaceProvider] (s_db s) of
             (d, r) \<Rightarrow> (s\<lparr>s_db := d\<rparr>, r)))"

definition SignalTransferCancelled :: "tsys \<Rightarrow> tsys \<times> unit grpc_result" where
  "SignalTransferCancelled s = (s, Panicked ''not implemented'')"

definition SignalTransferSuspend :: "tsys \<Rightarrow> tsys \<times> unit grpc_result" where
  "SignalTransferSuspend s = (s, Panicked ''not implemented'')"

definition SignalTransferResume :: "tsys \<Rightarrow> tsys \<times> unit grpc_result" where
  "SignalTransferResume s = (s, Panicked ''not implemented'')"

section \<open>Starting a transfer\<close>

text \<open>A transfer is stored, taken back under its lock, and its first message is queued. Where the message
  can not be made the lock is kept.\<close>

definition open_transfer :: "'a lib_scheme \<Rightarrow> control_server \<Rightarrow> go_context \<Rightarrow> (goerror \<Rightarrow> unit grpc_result)
    \<Rightarrow> transfer_request \<Rightarrow> tsys \<Rightarrow> tsys \<times> unit grpc_result" where
  "open_transfer L sv ctx refused new s =
     (let P = ct_backend sv in
      andthen (on_db (PutTransfer L P new) (or_status Code_Internal ''Couldn't create transfer request'') s) (\<lambda>s _.
      andthen (s, or_return (T_WithRolePID (r_consumerPID new) DataspaceConsumer)) (\<lambda>s opt.
      andthen (on_db (GetTransfer L P [opt, T_WithRW]) (or_status Code_Internal ''could not retrieve transfer request'') s) (\<lambda>s tr.
      case CheckRequesterInfo ctx (r_requesterInfo tr) of
        PANIC p \<Rightarrow> (s, Panicked p)
      | ERR e \<Rightarrow>
          (case ReleaseTransfer L P tr (s_db s) of
             (d, PANIC p) \<Rightarrow> (s\<lparr>s_db := d\<rparr>, Panicked p)
           | (d, _) \<Rightarrow> (s\<lparr>s_db := d\<rparr>, refused e))
      | OK _ \<Rightarrow>
          (case transfer_Send L (ct_deps sv) ctx (tr, s_provider s) of
             ((tr1, calls), PANIC p) \<Rightarrow> (s\<lparr>s_provider := calls\<rparr>, Panicked p)
           | ((tr1, calls), ERR e) \<Rightarrow>
               (s\<lparr>s_provider := calls\<rparr>, Status Code_Internal ''Couldn't generate inital initial request.'')
           | ((tr1, calls), OK apply) \<Rightarrow>
               andthen (on_db (PutTransfer L P tr1) (or_status Code_Internal ''Couldn't create transfer request'')
                 (s\<lparr>s_provider := calls\<rparr>)) (\<lambda>s _.
               (s\<lparr>s_effects := run_transfer_apply apply (s_effects s)\<rparr>, Reply (Some ()))))))))"

text \<open>A dataset is pushed under a negotiation: where to push it to is asked of the provider service.\<close>

definition InitiatePushTransfer :: "'a lib_scheme \<Rightarrow> control_server \<Rightarrow> go_context \<Rightarrow> TraceInfo \<Rightarrow> uuid \<Rightarrow> string
    \<Rightarrow> RequesterInfo option \<Rightarrow> tsys \<Rightarrow> tsys \<times> unit grpc_result" where
  "InitiatePushTransfer L sv ctx0 trace fresh pid requester s =
     (let P = ct_backend sv; ctx = ctx0\<lparr>ctx_requester := requester\<rparr> in
      andthen (s, or_return (MustParseURL L (url_String L (ct_selfURL sv)))) (\<lambda>s self.
      case uuid_Parse L pid of
        None \<Rightarrow> (s, Panicked ''uuid: Parse'')
      | Some contractID \<Rightarrow>
      andthen (s, or_return (WithRolePID contractID DataspaceConsumer)) (\<lambda>s opt.
      andthen (on_db (GetContract L P [opt]) or_return s) (\<lambda>s negotiation.
      let target = offer_target negotiation;
          s1 = s\<lparr>s_provider := s_provider s @ [CallReceiveDataset target requester]\<rparr> in
      andthen (s1, or_return (ct_receive sv target requester)) (\<lambda>s publishInfo.
      case requester of
        None \<Rightarrow> (s, Panicked ''nil pointer dereference'')
      | Some ri \<Rightarrow>
      andthen (s, or_return (New_transfer L trace fresh (n_agreement negotiation) ''HTTP_PUSH'' (n_callback negotiation)
          (with_path self [''callback'']) DataspaceConsumer T_INITIAL publishInfo (Some (local_requester (ExternalId ri)))))
        (\<lambda>s new. open_transfer L sv ctx Returned new s))))))"

section \<open>Waiting\<close>

text \<open>What happened to the database during the second before the \<open>k\<close>-th reading.\<close>

type_synonym world = "nat \<Rightarrow> db \<Rightarrow> db"

text \<open>The negotiation is read until it is finalised. The download also stops when it was terminated
  (\<open>checks_terminated\<close>), the upload does not.\<close>

partial_function (option) wait_finalized :: "'a lib_scheme \<Rightarrow> backend \<Rightarrow> world \<Rightarrow> role \<Rightarrow> bool \<Rightarrow> nat \<Rightarrow> negotiation
    \<Rightarrow> db \<Rightarrow> (db \<times> negotiation grpc_result) option" where
  "wait_finalized L P world rl checks_terminated k cn d =
     (if n_state cn = C_FINALIZED then Some (d, Reply (Some cn))
      else if \<not> snd (n_TryLocalPID cn) then Some (world k d, Status Code_Internal ''negotiation has an invalid role'')
      else (case WithRolePID (fst (n_TryLocalPID cn)) rl of
              PANIC p \<Rightarrow> Some (world k d, Panicked p)
            | ERR e \<Rightarrow> Some (world k d, Returned e)
            | OK opt \<Rightarrow>
                (case GetContract L P [opt] (world k d) of
                   (d1, PANIC p) \<Rightarrow> Some (d1, Panicked p)
                 | (d1, ERR e) \<Rightarrow> Some (d1, Status Code_Internal ''could not get contract'')
                 | (d1, OK cn1) \<Rightarrow>
                     if checks_terminated \<and> n_state cn1 = C_TERMINATED
                     then Some (d1, Status Code_Aborted ''contract negotiation terminated'')
                     else wait_finalized L P world rl checks_terminated (Suc k) cn1 d1)))"

partial_function (option) wait_started :: "'a lib_scheme \<Rightarrow> backend \<Rightarrow> world \<Rightarrow> go_context \<Rightarrow> request_option \<Rightarrow> nat
    \<Rightarrow> transfer_request \<Rightarrow> db \<Rightarrow> (db \<times> transfer_request grpc_result) option" where
  "wait_started L P world ctx opt k tr d =
     (if r_state tr = T_STARTED then Some (d, Reply (Some tr))
      else (case GetTransfer L P [opt] (world k d) of
              (d1, PANIC p) \<Rightarrow> Some (d1, Panicked p)
            | (d1, ERR e) \<Rightarrow> Some (d1, Status Code_Internal ''could not get consumer contract with PID'')
            | (d1, OK tr1) \<Rightarrow>
                (case CheckRequesterInfo ctx (r_requesterInfo tr1) of
                   PANIC p \<Rightarrow> Some (d1, Panicked p)
                 | ERR e \<Rightarrow> Some (d1, Returned e)
                 | OK _ \<Rightarrow>
                     if r_state tr1 = T_TERMINATED
                     then Some (d1, Status Code_Aborted ''transfer negotiation terminated'')
                     else wait_started L P world ctx opt (Suc k) tr1 d1)))"

text \<open>The upload looks through all transfers for a started one of the agreement; a negotiation without
  an agreement is dereferenced as soon as there is a transfer.\<close>

fun find_started :: "'a lib_scheme \<Rightarrow> Agreement option \<Rightarrow> transfer_request list \<Rightarrow> transfer_request option outcome" where
  "find_started L ag [] = OK None"
| "find_started L None (t # ts) = PANIC ''nil pointer dereference''"
| "find_started L (Some ag) (t # ts) =
     (if r_state t = T_STARTED \<and> uuid_String L (r_agreementID t) = TrimPrefix (ag_ID ag) ''urn:uuid:''
      then OK (Some t) else find_started L (Some ag) ts)"

partial_function (option) wait_transfer :: "'a lib_scheme \<Rightarrow> backend \<Rightarrow> world \<Rightarrow> Agreement option \<Rightarrow> nat \<Rightarrow> db
    \<Rightarrow> (db \<times> transfer_request grpc_result) option" where
  "wait_transfer L P world ag k d =
     (case GetTransfers L P [] d of
        (d1, PANIC p) \<Rightarrow> Some (d1, Panicked p)
      | (d1, ERR e) \<Rightarrow> Some (d1, Returned e)
      | (d1, OK ts) \<Rightarrow>
          (case find_started L ag ts of
             PANIC p \<Rightarrow> Some (d1, Panicked p)
           | ERR e \<Rightarrow> Some (d1, Returned e)
           | OK (Some t) \<Rightarrow> Some (d1, Reply (Some t))
           | OK None \<Rightarrow> wait_transfer L P world ag (Suc k) (world k d1)))"

section \<open>Downloading and uploading\<close>

text \<open>Storing a new negotiation, taking it back and queueing its first message; then reading it.\<close>

definition open_negotiation :: "'a lib_scheme \<Rightarrow> control_server \<Rightarrow> go_context \<Rightarrow> uuid \<Rightarrow> int \<Rightarrow> negotiation
    \<Rightarrow> tsys \<Rightarrow> tsys \<times> negotiation grpc_result" where
  "open_negotiation L sv ctx fresh now new s =
     (let P = ct_backend sv in
      andthen (on_db (PutContract L P new) (or_status Code_Internal ''couldn't store contract negotiation'') s) (\<lambda>s _.
      andthen (s, or_return (n_GetLocalPID new)) (\<lambda>s pid.
      andthen (s, or_return (WithRolePID pid (n_role new))) (\<lambda>s opt.
      andthen (on_db (GetContract L P [opt, WithRW]) (or_status Code_Internal ''couldn't retrieve contract negotiation'') s) (\<lambda>s cn.
      andthen (s, or_return (n_GetLogFields L cn ''_contract_negotiation'')) (\<lambda>s _.
      case contract_Send L (ct_deps sv) ctx fresh now cn of
        (cn1, PANIC p) \<Rightarrow> (s, Panicked p)
      | (cn1, ERR e) \<Rightarrow> (s, Status Code_Internal ''Couldn't generate inital contract request.'')
      | (cn1, OK apply) \<Rightarrow>
          andthen (on_db (PutContract L P cn1) (or_status Code_Internal ''Couldn't store contract negotiation'') s) (\<lambda>s _.
          (case run_apply L (ct_deps sv) cn1 apply (s_effects s) of
             (e, PANIC p) \<Rightarrow> (s\<lparr>s_effects := e\<rparr>, Panicked p)
           | (e, _) \<Rightarrow>
               if \<not> snd (n_TryLocalPID cn1)
               then (s\<lparr>s_effects := e\<rparr>, Status Code_Internal ''negotiation has an invalid role'')
               else andthen (s\<lparr>s_effects := e\<rparr>, or_return (WithRolePID (fst (n_TryLocalPID cn1)) (n_role new))) (\<lambda>s opt.
                    on_db (GetContract L P [opt]) (or_status Code_Internal ''could not get contract'') s)))))))))"

definition dataset_offer :: "'a lib_scheme \<Rightarrow> uuid \<Rightarrow> Permission list \<Rightarrow> string \<Rightarrow> Offer" where
  "dataset_offer L offerID permissions datasetId = \<lparr>offer_message =
     \<lparr>mo_policy = zero_policy\<lparr>pol_ID := uuid_URN L offerID, pol_Permission := permissions\<rparr>, mo_Type = ''odrl:Offer'',
      mo_Target = IDToURN L datasetId\<rparr>\<rparr>"

record fresh_ids =
  fi_negotiation :: uuid
  fi_offer :: uuid
  fi_agreement :: uuid
  fi_transfer :: uuid
  fi_now :: int

text \<open>Continuing after a wait.\<close>

fun waited :: "(db \<times> 'a grpc_result) option \<Rightarrow> tsys \<Rightarrow> (tsys \<Rightarrow> 'a \<Rightarrow> (tsys \<times> 'b grpc_result) option)
    \<Rightarrow> (tsys \<times> 'b grpc_result) option" where
  "waited None s k = None"
| "waited (Some (d, Reply (Some x))) s k = k (s\<lparr>s_db := d\<rparr>) x"
| "waited (Some (d, r)) s k = Some (s\<lparr>s_db := d\<rparr>, as_failure r)"

text \<open>The transfer that follows a finalised negotiation.\<close>

definition download_transfer :: "'a lib_scheme \<Rightarrow> control_server \<Rightarrow> go_context \<Rightarrow> TraceInfo \<Rightarrow> uuid \<Rightarrow> url \<Rightarrow> url
    \<Rightarrow> negotiation \<Rightarrow> tsys \<Rightarrow> tsys \<times> transfer_request grpc_result" where
  "download_transfer L sv ctx trace transferPID providerURL self cn s =
     (let P = ct_backend sv in
      case n_agreement cn of
        None \<Rightarrow> (s, Panicked ''nil pointer dereference'')
      | Some ag \<Rightarrow>
          (case uuid_Parse L (ag_ID ag) of
             None \<Rightarrow> (s, Panicked ''uuid: Parse'')
           | Some agreementID \<Rightarrow>
      andthen (on_db (GetAgreement L P (Some agreementID)) (or_status Code_Internal ''could not get agreement with ID'') s)
        (\<lambda>s agreement.
      andthen (s, or_return (New_transfer L trace transferPID (Some agreement) ''HTTP_PULL'' providerURL self
          DataspaceConsumer T_INITIAL None (Some (local_requester (ExtractAuthorization ctx))))) (\<lambda>s new.
      andthen (open_transfer L sv ctx (\<lambda>e. Status Code_Unauthenticated (err_msg e)) new s) (\<lambda>s _.
      andthen (on_db (GetTransfer L P [T_WithConsumerPID transferPID])
          (or_status Code_Internal ''could not get consumer transfer with PID'') s) (\<lambda>s tr.
      andthen (s, or_return (CheckRequesterInfo ctx (r_requesterInfo tr))) (\<lambda>s _.
      andthen (s, or_return (r_GetLogFields L tr ''_transfer_requsts'')) (\<lambda>s _.
      (s, Reply (Some tr))))))))))"

definition GetProviderDatasetDownloadInformation :: "'a lib_scheme \<Rightarrow> control_server \<Rightarrow> go_context \<Rightarrow> TraceInfo
    \<Rightarrow> fresh_ids \<Rightarrow> world \<Rightarrow> world \<Rightarrow> string \<Rightarrow> string \<Rightarrow> tsys
    \<Rightarrow> (tsys \<times> (PublishInfo option \<times> string) grpc_result) option" where
  "GetProviderDatasetDownloadInformation L sv ctx trace fi w1 w2 providerUrl datasetId s =
     (case getProviderURL L sv providerUrl of
        Reply (Some providerURL) \<Rightarrow>
          (case obind (MustParseURL L (url_String L (ct_selfURL sv))) (\<lambda>u.
                  let self = with_path u [''callback''] in
                  obind (New_negotiation trace emptyUUID (fi_negotiation fi) C_INITIAL
                    (dataset_offer L (fi_offer fi) [] datasetId) providerURL self DataspaceConsumer
                    (d_c (ct_deps sv) = None) (Some (local_requester (ExtractAuthorization ctx)))) (\<lambda>new. OK (self, new))) of
             PANIC p \<Rightarrow> Some (s, Panicked p)
           | ERR e \<Rightarrow> Some (s, Returned e)
           | OK (self, new) \<Rightarrow>
               (case open_negotiation L sv ctx (fi_agreement fi) (fi_now fi) new s of
                  (s1, Reply (Some cn)) \<Rightarrow>
                    waited (wait_finalized L (ct_backend sv) w1 DataspaceConsumer True 0 cn (s_db s1)) s1 (\<lambda>s2 cn1.
                    (case download_transfer L sv ctx trace (fi_transfer fi) providerURL self cn1 s2 of
                       (s3, Reply (Some tr)) \<Rightarrow>
                         waited (wait_started L (ct_backend sv) w2 ctx (T_WithConsumerPID (fi_transfer fi)) 0 tr (s_db s3)) s3
                           (\<lambda>s4 tr1. Some (s4, Reply (Some (r_publishInfo tr1, uuid_String L (r_consumerPID tr1)))))
                     | (s3, r) \<Rightarrow> Some (s3, as_failure r)))
                | (s1, r) \<Rightarrow> Some (s1, as_failure r)))
      | r \<Rightarrow> Some (s, as_failure r))"

definition copy_permission :: Permission where
  "copy_permission = \<lparr>perm_rule = zero_rule, perm_Action = ''odrl:copy'', perm_Constraint = [], perm_Duty = zero_duty\<rparr>"

definition GetProviderDatasetUploadInformation :: "'a lib_scheme \<Rightarrow> control_server \<Rightarrow> go_context \<Rightarrow> TraceInfo
    \<Rightarrow> fresh_ids \<Rightarrow> world \<Rightarrow> world \<Rightarrow> string \<Rightarrow> string \<Rightarrow> tsys
    \<Rightarrow> (tsys \<times> (PublishInfo option \<times> string) grpc_result) option" where
  "GetProviderDatasetUploadInformation L sv ctx trace fi w1 w2 providerUrl datasetId s =
     (case getProviderURL L sv providerUrl of
        Reply (Some providerURL) \<Rightarrow>
          (case obind (MustParseURL L (url_String L (ct_selfURL sv))) (\<lambda>self.
                  New_negotiation trace (fi_negotiation fi) emptyUUID C_INITIAL
                    (dataset_offer L (fi_offer fi) [copy_permission] datasetId) providerURL self DataspaceProvider
                    (d_c (ct_deps sv) = None) (Some (local_requester (ExtractAuthorization ctx)))) of
             PANIC p \<Rightarrow> Some (s, Panicked p)
           | ERR e \<Rightarrow> Some (s, Returned e)
           | OK new \<Rightarrow>
               (case open_negotiation L sv ctx (fi_agreement fi) (fi_now fi) new s of
                  (s1, Reply (Some cn)) \<Rightarrow>
                    waited (wait_finalized L (ct_backend sv) w1 DataspaceProvider False 0 cn (s_db s1)) s1 (\<lambda>s2 cn1.
                    waited (wait_transfer L (ct_backend sv) w2 (n_agreement cn1) 0 (s_db s2)) s2
                      (\<lambda>s3 tr. Some (s3, Reply (Some (r_publishInfo tr, uuid_String L (r_providerPID tr))))))
                | (s1, r) \<Rightarrow> Some (s1, as_failure r)))
      | r \<Rightarrow> Some (s, as_failure r))"

end
