(* ===== verification/Control_Transfer_Facts.thy ===== *)
theory Control_Transfer_Facts
  imports Control_Transfer Control_Facts Transfer_Handlers_Facts
begin

text \<open>
  What the transfer methods of the control service do and do not: signalling the completion of a
  transfer, and when the methods that wait for the peer come back.
\<close>

section \<open>Looking up a transfer\<close>

text \<open>The rows of a database but for who holds them.\<close>

definition unlocked_rows :: "db \<Rightarrow> contract_row list \<times> transfer_row list \<times> agreement_row list" where
  "unlocked_rows d = (map (\<lambda>r. r\<lparr>c_Locked := False\<rparr>) (contracts d), map (\<lambda>r. r\<lparr>t_Locked := False\<rparr>) (transfers d),
     agreements d)"

lemma unlocked_rows_clock [simp]: "unlocked_rows (d\<lparr>clock := k\<rparr>) = unlocked_rows d"
  by (simp add: unlocked_rows_def)

lemma unlocked_lock_transfers: "unlocked_rows (fst (lock_transfers L q d)) = unlocked_rows d"
  by (simp add: lock_transfers_def lock_rows_def unlocked_rows_def update_where_def)

lemma lock_loop_rows:
  assumes "\<And>d. unlocked_rows (fst (upd d)) = unlocked_rows d" and "\<And>r d. unlocked_rows (fst (fin r d)) = unlocked_rows d"
  shows "unlocked_rows (fst (lock_loop (quiet P) upd fin n d)) = unlocked_rows d"
proof (induction n arbitrary: d)
  case (Suc n)
  obtain d1 o1 where e: "exec (quiet P) upd d = (d1, o1)" by force
  then have "unlocked_rows d1 = unlocked_rows d"
    using assms(1)[of "d\<lparr>clock := Suc (clock d)\<rparr>"] by (auto simp: exec_def Let_def split: if_splits)
  then show ?case using assms(2) Suc.IH by (cases o1) (auto simp: e)
qed simp

lemma GetTransfer_unlocked: "unlocked_rows (fst (GetTransfer L (quiet P) opts d)) = unlocked_rows d"
proof -
  have fin: "unlocked_rows (fst (finish_transfer L (quiet P) r d)) = unlocked_rows d" for r d
    by (auto simp: finish_transfer_def exec_def Let_def split: outcome.split option.split)
  have "unlocked_rows (fst (getTransferLocked L (quiet P) q d)) = unlocked_rows d" for q
    using lock_loop_rows[of "lock_transfers L q" "finish_transfer L (quiet P)", OF unlocked_lock_transfers fin]
    by (auto simp: getTransferLocked_def exec_def Let_def)
  then show ?thesis by (auto simp: GetTransfer_def exec_def Let_def)
qed

lemma ReleaseTransfer_unlocked: "unlocked_rows (fst (ReleaseTransfer L P tr d)) = unlocked_rows d"
  by (auto simp: ReleaseTransfer_def exec_def Let_def unlocked_rows_def update_where_def split: outcome.split)

lemma signal_loop_unlocked: "unlocked_rows (fst (signal_loop L (quiet P) i rls d)) = unlocked_rows d"
proof (induction rls arbitrary: d)
  case (Cons rl rls)
  show ?case
  proof (cases "T_WithRolePID i rl")
    case (OK opt)
    obtain d1 o1 where g: "GetTransfer L (quiet P) [opt, T_WithRW] d = (d1, o1)" by force
    have d1: "unlocked_rows d1 = unlocked_rows d" using GetTransfer_unlocked[of L P "[opt, T_WithRW]" d] g by simp
    show ?thesis
    proof (cases o1)
      case (OK tr)
      obtain d2 o2 where r: "ReleaseTransfer L (quiet P) tr d1 = (d2, o2)" by force
      show ?thesis using ReleaseTransfer_unlocked[of L "quiet P" tr d1] d1 by (cases o2) (simp_all add: g r OK \<open>T_WithRolePID i rl = OK opt\<close>)
    qed (use OK g d1 Cons in simp_all)
  qed simp_all
qed simp

lemma signal_loop_reply: "signal_loop L P i rls d = (d', Reply x) \<Longrightarrow>
    x = None \<and> (\<exists>rl opt d0 d1 tr. rl \<in> set rls \<and> T_WithRolePID i rl = OK opt
      \<and> GetTransfer L P [opt, T_WithRW] d0 = (d1, OK tr))"
proof (induction rls arbitrary: d)
  case (Cons rl rls)
  obtain opt where opt: "T_WithRolePID i rl = OK opt" using Cons.prems by (cases rl) auto
  obtain d1 o1 where g: "GetTransfer L P [opt, T_WithRW] d = (d1, o1)" by force
  show ?case
  proof (cases o1)
    case (OK tr)
    obtain d2 o2 where "ReleaseTransfer L P tr d1 = (d2, o2)" by force
    then have "x = None" using Cons.prems opt g OK by (cases o2) auto
    then show ?thesis using opt g OK by (meson list.set_intros(1))
  next
    case (ERR e)
    then have "signal_loop L P i rls d1 = (d', Reply x)" using Cons.prems opt g by simp
    then show ?thesis using Cons.IH[of d1] by (meson list.set_intros(2))
  qed (use Cons.prems opt g in simp)
qed simp

section \<open>Waiting\<close>

text \<open>What the \<open>n\<close>-th reading of the negotiation answers.\<close>

fun poll :: "'a lib_scheme \<Rightarrow> backend \<Rightarrow> world \<Rightarrow> negotiation_option \<Rightarrow> nat \<Rightarrow> db \<Rightarrow> nat \<Rightarrow> db \<times> negotiation outcome" where
  "poll L P w opt k d 0 = GetContract L P [opt] (w k d)"
| "poll L P w opt k d (Suc n) = poll L P w opt (Suc k) (fst (GetContract L P [opt] (w k d))) n"

fun ends_wait :: "bool \<Rightarrow> negotiation outcome \<Rightarrow> bool" where
  "ends_wait checks (OK cn) \<longleftrightarrow> n_state cn = C_FINALIZED \<or> checks \<and> n_state cn = C_TERMINATED"
| "ends_wait checks _ \<longleftrightarrow> True"

text \<open>The readings are of one negotiation.\<close>

definition same_negotiation :: "'a lib_scheme \<Rightarrow> backend \<Rightarrow> world \<Rightarrow> negotiation_option \<Rightarrow> uuid \<Rightarrow> nat \<Rightarrow> db \<Rightarrow> bool" where
  "same_negotiation L P w opt pid k d \<longleftrightarrow> (\<forall>n c. snd (poll L P w opt k d n) = OK c \<longrightarrow> n_TryLocalPID c = (pid, True))"

lemma same_negotiation_Suc:
  "same_negotiation L P w opt pid k d \<Longrightarrow> GetContract L P [opt] (w k d) = (d1, r) \<Longrightarrow>
     same_negotiation L P w opt pid (Suc k) d1"
  unfolding same_negotiation_def by (metis fst_conv poll.simps(2))

lemma same_negotiation_now:
  "same_negotiation L P w opt pid k d \<Longrightarrow> GetContract L P [opt] (w k d) = (d1, OK c) \<Longrightarrow> n_TryLocalPID c = (pid, True)"
  unfolding same_negotiation_def by (metis poll.simps(1) snd_conv)

lemma wait_step:
  assumes "GetContract L P [opt] (w k d) = (d1, r)" and "WithRolePID pid rl = OK opt" and "n_TryLocalPID cn = (pid, True)"
  shows "wait_finalized L P w rl checks k cn d =
    (if n_state cn = C_FINALIZED then Some (d, Reply (Some cn))
     else case r of
        PANIC p \<Rightarrow> Some (d1, Panicked p)
      | ERR e \<Rightarrow> Some (d1, Status Code_Internal ''could not get contract'')
      | OK cn1 \<Rightarrow> if checks \<and> n_state cn1 = C_TERMINATED
          then Some (d1, Status Code_Aborted ''contract negotiation terminated'')
          else wait_finalized L P w rl checks (Suc k) cn1 d1)"
  using assms by (subst wait_finalized.simps) (simp del: n_TryLocalPID.simps split: outcome.split)

lemma wait_ends:
  assumes "WithRolePID pid rl = OK opt"
  shows "n_TryLocalPID cn = (pid, True) \<Longrightarrow> same_negotiation L P w opt pid k d \<Longrightarrow>
    ends_wait checks (snd (poll L P w opt k d n)) \<Longrightarrow> \<exists>r. wait_finalized L P w rl checks k cn d = Some r"
proof (induction n arbitrary: k cn d)
  case 0
  obtain d1 r where g: "GetContract L P [opt] (w k d) = (d1, r)" by force
  obtain d2 r2 where g2: "GetContract L P [opt] (w (Suc k) d1) = (d2, r2)" by force
  show ?case
  proof (cases r)
    case (OK c)
    have "n_TryLocalPID c = (pid, True)" using same_negotiation_now[OF "0.prems"(2)] g OK by simp
    then show ?thesis
      using "0.prems"(3) g OK wait_step[where w = w and k = k and d = d, OF g assms "0.prems"(1), of checks] wait_step[where w = w and k = "Suc k" and d = d1, OF g2 assms, of c checks]
      by (auto simp del: n_TryLocalPID.simps)
  qed (use wait_step[where w = w and k = k and d = d, OF g assms "0.prems"(1), of checks] in \<open>auto simp del: n_TryLocalPID.simps\<close>)
next
  case (Suc n)
  obtain d1 r where g: "GetContract L P [opt] (w k d) = (d1, r)" by force
  show ?case
  proof (cases r)
    case (OK c)
    have c: "n_TryLocalPID c = (pid, True)" using same_negotiation_now[OF Suc.prems(2)] g OK by simp
    have "\<exists>r. wait_finalized L P w rl checks (Suc k) c d1 = Some r"
      using Suc.IH[OF c same_negotiation_Suc[OF Suc.prems(2) g]] Suc.prems(3) g by simp
    then show ?thesis
      using wait_step[where w = w and k = k and d = d, OF g assms Suc.prems(1), of checks] OK by (auto simp del: n_TryLocalPID.simps)
  qed (use wait_step[where w = w and k = k and d = d, OF g assms Suc.prems(1), of checks] in \<open>auto simp del: n_TryLocalPID.simps\<close>)
qed

text \<open>By induction on the run that returned.\<close>

lemma wait_returned:
  assumes "wait_finalized L P w rl checks k cn d = Some res"
  shows "WithRolePID pid rl = OK opt \<longrightarrow> n_TryLocalPID cn = (pid, True) \<longrightarrow> same_negotiation L P w opt pid k d \<longrightarrow>
    n_state cn \<noteq> C_FINALIZED \<longrightarrow> (\<exists>n. ends_wait checks (snd (poll L P w opt k d n)))"
proof (rule wait_finalized.raw_induct[where Pa = "\<lambda>(((((((L, P), w), rl), checks), k), cn), d) res.
    WithRolePID pid rl = OK opt \<longrightarrow> n_TryLocalPID cn = (pid, True) \<longrightarrow> same_negotiation L P w opt pid k d \<longrightarrow>
    n_state cn \<noteq> C_FINALIZED \<longrightarrow> (\<exists>n. ends_wait checks (snd (poll L P w opt k d n)))",
    OF _ assms, unfolded prod.case], intro impI, goal_cases)
  case (1 f L P w rl checks k cn d res)
  obtain d1 r where g: "GetContract L P [opt] (w k d) = (d1, r)" by force
  show ?case
  proof (cases "ends_wait checks r")
    case True
    then show ?thesis using g by (intro exI[of _ 0]) simp
  next
    case False
    then obtain c where c: "r = OK c" "n_state c \<noteq> C_FINALIZED" "\<not> (checks \<and> n_state c = C_TERMINATED)"
      by (cases r) auto
    have "n_TryLocalPID c = (pid, True)" "same_negotiation L P w opt pid (Suc k) d1"
      using same_negotiation_now[OF 1(5)] same_negotiation_Suc[OF 1(5) g] g c(1) by simp_all
    moreover have "f L P w rl checks (Suc k) c d1 = Some res"
      using 1(2-4,6) g c by (simp del: n_TryLocalPID.simps)
    ultimately obtain n where "ends_wait checks (snd (poll L P w opt (Suc k) d1 n))"
      using 1(1)[of L P w rl checks "Suc k" c d1 res] 1(3) c(2) by blast
    then show ?thesis using g by (intro exI[of _ "Suc n"]) simp
  qed
qed

section \<open>Properties\<close>

text \<open>Signalling that a transfer is complete completes nothing: whatever the transfer and its state, no
  call is made and no message queued, and the rows are what they were but for locks; yet when a
  transfer of that identifier is found the caller gets an empty response and no error.\<close>

theorem signal_completes_nothing:
  assumes "ct_backend sv = quiet P" and "SignalTransferComplete L sv transferId s = (s', r)"
  shows "s_effects s' = s_effects s \<and> s_provider s' = s_provider s \<and> unlocked_rows (s_db s') = unlocked_rows (s_db s)
    \<and> (\<forall>x. r = Reply x \<longrightarrow> x = None \<and> (\<exists>i rl opt d0 d1 tr. uuid_Parse L transferId = Some i \<and> T_WithRolePID i rl = OK opt
         \<and> GetTransfer L (quiet P) [opt, T_WithRW] d0 = (d1, OK tr)))"
proof (cases "uuid_Parse L transferId")
  case None
  then show ?thesis using assms(2) by (auto simp: SignalTransferComplete_def)
next
  case (Some i)
  obtain d r' where l: "signal_loop L (quiet P) i [DataspaceConsumer, DataspaceProvider] (s_db s) = (d, r')" by force
  then have "s' = s\<lparr>s_db := d\<rparr>" "r = r'"
    using assms Some by (auto simp: SignalTransferComplete_def simp del: signal_loop.simps)
  then show ?thesis
    using l signal_loop_unlocked[of L P i "[DataspaceConsumer, DataspaceProvider]" "s_db s"] Some
      signal_loop_reply[of L "quiet P" i _ "s_db s" d] by fastforce
qed

text \<open>C26: the wait for a finalised negotiation returns exactly when it need not wait or some reading ends
  it: a reading that fails, that finds the negotiation finalised, or, where that is checked, one
  that finds it terminated.\<close>

theorem wait_returns_iff:
  assumes "WithRolePID pid rl = OK opt" and "n_TryLocalPID cn = (pid, True)"
    and "\<forall>n c. snd (poll L P w opt k d n) = OK c \<longrightarrow> n_TryLocalPID c = (pid, True)"
  shows "(\<exists>res. wait_finalized L P w rl checks k cn d = Some res) \<longleftrightarrow>
    n_state cn = C_FINALIZED \<or> (\<exists>n. ends_wait checks (snd (poll L P w opt k d n)))"
proof -
  have same: "same_negotiation L P w opt pid k d" using assms(3) by (simp add: same_negotiation_def)
  show ?thesis
  proof
    assume "\<exists>res. wait_finalized L P w rl checks k cn d = Some res"
    then obtain res where res: "wait_finalized L P w rl checks k cn d = Some res" ..
    then show "n_state cn = C_FINALIZED \<or> (\<exists>n. ends_wait checks (snd (poll L P w opt k d n)))"
      using wait_returned[OF res] assms(1,2) same by blast
  next
    assume "n_state cn = C_FINALIZED \<or> (\<exists>n. ends_wait checks (snd (poll L P w opt k d n)))"
    then show "\<exists>res. wait_finalized L P w rl checks k cn d = Some res"
    proof
      assume "n_state cn = C_FINALIZED"
      then show ?thesis by (subst wait_finalized.simps) simp
    qed (use wait_ends[OF assms(1,2) same] in blast)
  qed
qed

text \<open>A terminated negotiation ends the wait of a download at once, with \<open>Aborted\<close>, and the wait of
  an upload never.\<close>

theorem upload_waits_for_terminated:
  assumes "WithRolePID pid rl = OK opt" and "n_TryLocalPID cn = (pid, True)" and "n_state cn \<noteq> C_FINALIZED"
    and "\<forall>n. \<exists>c. snd (poll L P w opt k d n) = OK c \<and> n_TryLocalPID c = (pid, True) \<and> n_state c = C_TERMINATED"
  shows "wait_finalized L P w rl False k cn d = None
    \<and> (\<exists>d'. wait_finalized L P w rl True k cn d = Some (d', Status Code_Aborted ''contract negotiation terminated''))"
proof -
  have same: "same_negotiation L P w opt pid k d"
    unfolding same_negotiation_def using assms(4) by (metis outcome.inject(1))
  have "\<not> ends_wait False (snd (poll L P w opt k d n))" for n
    using assms(4)[rule_format, of n] by auto
  then have "wait_finalized L P w rl False k cn d = None"
    using wait_returned[of L P w rl False k cn d] assms(1-3) same by (cases "wait_finalized L P w rl False k cn d") blast+
  moreover obtain d1 r where g: "GetContract L P [opt] (w k d) = (d1, r)" by force
  moreover obtain c where "r = OK c" "n_state c = C_TERMINATED" using assms(4)[rule_format, of 0] g by auto
  ultimately show ?thesis
    using wait_step[where w = w and k = k and d = d, OF g assms(1,2), of True] assms(3) by simp
qed

section \<open>Examples\<close>

definition terminated_world :: world where
  "terminated_world _ d = d\<lparr>contracts := [agreed_row\<lparr>c_State := ''dspace:TERMINATED''\<rparr>]\<rparr>"

lemma read_terminated:
  "GetContract sample_lib (quiet New_backend) [WithProviderPID 2] (terminated_world k d) =
     ((terminated_world k d)\<lparr>clock := Suc (clock d)\<rparr>,
      OK (agreed_negotiation\<lparr>n_ro := True, n_locked := False, n_state := C_TERMINATED\<rparr>))"
proof -
  let ?r = "agreed_row\<lparr>c_State := ''dspace:TERMINATED''\<rparr>" and ?d = "(terminated_world k d)\<lparr>clock := Suc (clock d)\<rparr>"
  have rows: "contracts ?d = [?r]" "clock (terminated_world k d) = clock d" by (simp_all add: terminated_world_def)
  have "contract_where sample_lib (newNegotiationParamBuilder [WithProviderPID 2]) None ?r"
    by (simp add: contract_where_def newNegotiationParamBuilder_def when_set_def agreed_row_def sample_row_def)
  moreover have state: "contract_ParseState (ArgString ''dspace:TERMINATED'') = OK C_TERMINATED"
    using ParseState_String(1)[of C_TERMINATED] by simp
  moreover have "n_FromModel sample_lib (join_agreement ?d ?r) True =
      OK (agreed_negotiation\<lparr>n_ro := True, n_locked := False, n_state := C_TERMINATED\<rparr>)"
    by (simp add: join_agreement_def agreed_row_def sample_row_def n_FromModel_def parse_pid_def state
        ParseRole_Role_String[of DataspaceProvider] opt_read_def agreed_negotiation_def sample_negotiation_def root_url_def)
  moreover have "q_role (newNegotiationParamBuilder [WithProviderPID 2]) = None" "\<not> q_RW (newNegotiationParamBuilder [WithProviderPID 2])"
    by (simp_all add: newNegotiationParamBuilder_def)
  ultimately show ?thesis
    using rows by (simp add: GetContract_def Let_def first_row_def New_backend_reliable)
qed

lemma poll_terminated: "snd (poll sample_lib (quiet New_backend) terminated_world (WithProviderPID 2) k d n) =
    OK (agreed_negotiation\<lparr>n_ro := True, n_locked := False, n_state := C_TERMINATED\<rparr>)"
  by (induction n arbitrary: k d) (simp_all add: read_terminated)

lemma agreed_local: "n_TryLocalPID agreed_negotiation = (2, True)"
  "n_TryLocalPID (agreed_negotiation\<lparr>n_ro := True, n_locked := False, n_state := C_TERMINATED\<rparr>) = (2, True)"
  by (simp_all add: agreed_negotiation_def sample_negotiation_def)

lemma upload_waits_for_terminated_witness:
  "wait_finalized sample_lib (quiet New_backend) terminated_world DataspaceProvider False 0 agreed_negotiation empty_db = None"
  using upload_waits_for_terminated[of 2 DataspaceProvider "WithProviderPID 2" agreed_negotiation sample_lib
      "quiet New_backend" terminated_world 0 empty_db] poll_terminated agreed_local
  by (simp add: agreed_fields del: n_TryLocalPID.simps)

lemma wait_returns_iff_witness:
  "(\<exists>res. wait_finalized sample_lib (quiet New_backend) terminated_world DataspaceProvider True 0 agreed_negotiation
      empty_db = Some res)
   \<and> \<not> (\<exists>res. wait_finalized sample_lib (quiet New_backend) terminated_world DataspaceProvider False 0 agreed_negotiation
      empty_db = Some res)"
  using wait_returns_iff[of 2 DataspaceProvider "WithProviderPID 2" agreed_negotiation sample_lib
      "quiet New_backend" terminated_world 0 empty_db] poll_terminated agreed_local
  by (simp add: agreed_fields del: n_TryLocalPID.simps)

lemma signal_completes_nothing_witness:
  "let s' = fst (SignalTransferComplete sample_lib sample_control (uuid_String sample_lib 2) started_sys) in
     s_provider s' = [] \<and> map t_State (transfers (s_db s')) = [''dspace:STARTED'']"
proof -
  obtain s' r where s': "SignalTransferComplete sample_lib sample_control (uuid_String sample_lib 2) started_sys = (s', r)" by force
  have "s_provider s' = []" and rows: "unlocked_rows (s_db s') = unlocked_rows started_db"
    using signal_completes_nothing[OF _ s', of New_backend] by simp_all
  from rows have "map (\<lambda>r. r\<lparr>t_Locked := False\<rparr>) (transfers (s_db s')) = [started_row]"
    by (simp add: unlocked_rows_def started_db_def started_row_def)
  then have "map t_State (map (\<lambda>r. r\<lparr>t_Locked := False\<rparr>) (transfers (s_db s'))) = [''dspace:STARTED'']"
    by (simp only: list.map) (simp add: started_row_def)
  then show ?thesis using s' \<open>s_provider s' = []\<close> by (simp add: comp_def)
qed

end
