(* ===== verification/Catalog.thy ===== *)
theory Catalog
  imports Control
begin

text \<open>
  The catalogue: its messages (\<open>dsp/shared/catalog_types.go\<close>), the handlers that serve it
  (\<open>dsp/catalog_handlers.go\<close>), the common handlers and the translation of gRPC errors
  (\<open>dsp/common_handlers.go\<close>), and the two methods of the control service that read a provider's
  catalogue (\<open>dsp/control/control.go\<close>).
\<close>

section \<open>Messages\<close>

record dcat_Reference =
  dref_ID :: string

record Resource =
  res_ID :: string
  res_Type :: string
  Keyword :: "string list"
  Theme :: "dcat_Reference list"
  ConformsTo :: string
  Creator :: string
  res_Description :: "Multilanguage list"
  Identifier :: string
  Issued :: string
  Modified :: string
  Title :: string

record Checksum =
  Algorithm :: string
  cs_Value :: string

text \<open>A dataset has distributions, which are accessed by services, which serve datasets.\<close>

datatype Dataset = Dataset (ds_Resource: Resource) (HasPolicy: "Offer list") (ds_Distribution: "Distribution list")
  and Distribution = Distribution (dist_Type: string) (dist_Format: string) (dist_Title: string)
    (dist_Description: "Multilanguage list") (dist_Issued: string) (dist_Modified: string) (dist_HasPolicy: "Offer list")
    (AccessService: "DataService list") (License: string) (AccessRights: string) (Rights: string) (ByteSize: int)
    (MediaType: string) (CompressFormat: string) (PackageFormat: string) (dist_Checksum: "Checksum option")
  and DataService = DataService (svc_Resource: Resource) (EndpointDescription: string) (EndpointURL: string)
    (ServesDataset: "Dataset list")

text \<open>A request has a filter too, of a form the protocol leaves open; the code never fills or reads it.\<close>

record CatalogRequestMessage =
  catm_Context :: Context
  catm_Type :: string

record DatasetRequestMessage =
  dsm_Context :: Context
  dsm_Type :: string
  dsm_Dataset :: string

record CatalogAcknowledgement =
  cack_Context :: Context
  cack_Dataset :: Dataset
  Datasets :: "Dataset list"
  Service :: "DataService list"
  ParticipantID :: string
  Homepage :: string

text \<open>Embedded structures are validated, the elements of lists are not.\<close>

definition valid_Resource :: "Resource \<Rightarrow> bool" where
  "valid_Resource r = (required (res_ID r) \<and> required (res_Type r))"

definition valid_Dataset :: "Dataset \<Rightarrow> bool" where
  "valid_Dataset d = valid_Resource (ds_Resource d)"

definition valid_CatalogRequest :: "CatalogRequestMessage \<Rightarrow> bool" where
  "valid_CatalogRequest m = (catm_Type m = ''dspace:CatalogRequestMessage'')"

definition valid_DatasetRequest :: "DatasetRequestMessage \<Rightarrow> bool" where
  "valid_DatasetRequest m = (dsm_Type m = ''dspace:DatasetRequestMessage'' \<and> required (dsm_Dataset m))"

definition valid_CatalogAcknowledgement :: "CatalogAcknowledgement \<Rightarrow> bool" where
  "valid_CatalogAcknowledgement m = (valid_Dataset (cack_Dataset m) \<and> 1 \<le> length (Service m))"

text \<open>What a Go literal leaves out.\<close>

definition zero_resource :: Resource where
  "zero_resource = \<lparr>res_ID = [], res_Type = [], Keyword = [], Theme = [], ConformsTo = [], Creator = [],
     res_Description = [], Identifier = [], Issued = [], Modified = [], Title = []\<rparr>"

section \<open>Datasets of the provider service\<close>

text \<open>The generated types the code reads; a time is seconds and nanoseconds since the epoch.\<close>

record timestamp =
  ts_seconds :: int
  ts_nanos :: int

record rpc_dataset =
  rd_Id :: string
  rd_Title :: string
  rd_AccessMethods :: string
  rd_Description :: "Multilanguage list"
  rd_Keywords :: "string list"
  rd_Creator :: "string option"
  rd_Issued :: timestamp
  rd_Modified :: timestamp
  rd_MediaType :: string
  rd_ByteSize :: int
  rd_License :: string
  rd_AccessRights :: string
  rd_Rights :: string
  rd_CompressFormat :: string
  rd_PackageFormat :: string
  rd_Checksum :: "Checksum option"

definition epoch :: timestamp where
  "epoch = \<lparr>ts_seconds = 0, ts_nanos = 0\<rparr>"

text \<open>\<open>time.Format\<close> and \<open>time.Parse\<close> with the layout RFC 3339, in UTC.\<close>

record time_pkg =
  time_Format :: "timestamp \<Rightarrow> string"
  time_Parse :: "string \<Rightarrow> timestamp option"

definition processProviderDataset :: "'a uuid_pkg_scheme \<Rightarrow> time_pkg \<Rightarrow> rpc_dataset \<Rightarrow> DataService \<Rightarrow> Dataset" where
  "processProviderDataset P T pds service =
     Dataset
       (zero_resource\<lparr>res_ID := IDToURN P (rd_Id pds), res_Type := ''dcat:Dataset'', Title := rd_Title pds,
          Issued := time_Format T (rd_Issued pds), Modified := time_Format T (rd_Modified pds),
          Keyword := rd_Keywords pds, Creator := (case rd_Creator pds of None \<Rightarrow> [] | Some c \<Rightarrow> c)\<rparr>)
       []
       [Distribution ''dcat:Distribution'' [] [] (rd_Description pds) [] [] [] [service] (rd_License pds)
          (rd_AccessRights pds) (rd_Rights pds) (rd_ByteSize pds) (rd_MediaType pds) (rd_CompressFormat pds)
          (rd_PackageFormat pds) (rd_Checksum pds)]"

definition processProviderCatalogue :: "'a uuid_pkg_scheme \<Rightarrow> time_pkg \<Rightarrow> rpc_dataset list \<Rightarrow> DataService \<Rightarrow> Dataset list" where
  "processProviderCatalogue P T gdc service = map (\<lambda>f. processProviderDataset P T f service) gdc"

section \<open>Errors\<close>

record CatalogError =
  cate_status :: nat
  cate_dspCode :: string
  cate_reason :: string
  cate_err :: string

definition catalogError :: "string \<Rightarrow> nat \<Rightarrow> string \<Rightarrow> string \<Rightarrow> CatalogError" where
  "catalogError err statusCode dspCode reason =
     \<lparr>cate_status = statusCode, cate_dspCode = dspCode, cate_reason = reason, cate_err = err\<rparr>"

definition cate_ErrorType :: string where
  "cate_ErrorType = ''dspace:CatalogError''"

text \<open>An error of a gRPC call: its code and its message.\<close>

datatype 'a rpc_answer = RpcOK 'a | RpcError grpc_code string

definition grpcErrorHandler :: "grpc_code \<Rightarrow> string \<Rightarrow> CatalogError" where
  "grpcErrorHandler code err =
     (case code of
        Code_Unauthenticated \<Rightarrow> catalogError err 403 ''403'' ''Not authenticated''
      | Code_PermissionDenied \<Rightarrow> catalogError err 401 ''401'' ''Permission denied''
      | Code_InvalidArgument \<Rightarrow> catalogError err 400 ''400'' ''Invalid argument''
      | Code_NotFound \<Rightarrow> catalogError err 404 ''404'' ''Not found''
      | _ \<Rightarrow> catalogError err 500 ''500'' ''Internal server error'')"

text \<open>What the error wrapper sends for it.\<close>

definition catalog_error_response :: "CatalogError \<Rightarrow> DSPError http_response" where
  "catalog_error_response ce = EncodeValid (\<lambda>_. True) (cate_status ce)
     \<lparr>de_Context = GetDSPContext, de_Type = cate_ErrorType, de_ProviderPID = [], de_ConsumerPID = [],
      de_Code = cate_dspCode ce, de_Reason = [\<lparr>ml_Value = cate_reason ce, ml_Language = ''en''\<rparr>],
      de_Description = []\<rparr>"

section \<open>Handlers\<close>

text \<open>The part of the provider service the catalogue needs, and what it said of itself at the start.\<close>

record catalog_server =
  ca_catalogue :: "RequesterInfo \<Rightarrow> rpc_dataset list rpc_answer"
  ca_dataset :: "string \<Rightarrow> RequesterInfo \<Rightarrow> rpc_dataset rpc_answer"
  ca_time :: time_pkg
  dataserviceID :: string
  dataserviceEndpoint :: string

definition getDataService :: "catalog_server \<Rightarrow> DataService" where
  "getDataService dh =
     DataService
       (zero_resource\<lparr>res_ID := (if dataserviceID dh = [] then ''urn:uuid:09a761b1-8ab5-4d53-a57a-df52080298b4''
                               else dataserviceID dh), res_Type := ''dcat:DataService''\<rparr>)
       [] (if dataserviceEndpoint dh = [] then ''http://unknown.example.org'' else dataserviceEndpoint dh) []"

definition catalog_resource :: Resource where
  "catalog_resource = zero_resource\<lparr>res_ID := ''urn:uuid:3afeadd8-ed2d-569e-d634-8394a8836d57'',
     res_Type := ''dcat:Catalog'', Keyword := [''dataspace'', ''run-dsp'']\<rparr>"

definition catalogRequestHandler :: "'a uuid_pkg_scheme \<Rightarrow> catalog_server \<Rightarrow> go_context \<Rightarrow> CatalogRequestMessage option
    \<Rightarrow> (CatalogError, CatalogAcknowledgement) handler_result" where
  "catalogRequestHandler P ch ctx body =
     (case DecodeValid valid_CatalogRequest body of
        OK _ \<Rightarrow>
          (case ExtractRequesterInfo ctx of
             OK ri \<Rightarrow>
               (case ca_catalogue ch ri of
                  RpcError code err \<Rightarrow> Failed (grpcErrorHandler code err)
                | RpcOK datasets \<Rightarrow> Responded (EncodeValid valid_CatalogAcknowledgement 200
                    \<lparr>cack_Context = GetDSPContext, cack_Dataset = Dataset catalog_resource [] [],
                     Datasets = processProviderCatalogue P (ca_time ch) datasets (getDataService ch),
                     Service = [getDataService ch], ParticipantID = [], Homepage = []\<rparr>))
           | PANIC p \<Rightarrow> Crashed p
           | ERR e \<Rightarrow> Crashed (err_msg e))
      | _ \<Rightarrow> Failed (catalogError ''request did not validate'' 400 ''400'' ''Invalid request''))"

definition datasetRequestHandler :: "'a uuid_pkg_scheme \<Rightarrow> catalog_server \<Rightarrow> go_context \<Rightarrow> string
    \<Rightarrow> DatasetRequestMessage option \<Rightarrow> (CatalogError, Dataset) handler_result" where
  "datasetRequestHandler P ch ctx paramID body =
     (if paramID = [] then Failed (catalogError ''no ID in path'' 400 ''400'' ''No ID given in path'')
      else case DecodeValid valid_DatasetRequest body of
        OK _ \<Rightarrow>
          (case ExtractRequesterInfo ctx of
             OK ri \<Rightarrow>
               (case ca_dataset ch paramID ri of
                  RpcError code err \<Rightarrow> Failed (grpcErrorHandler code err)
                | RpcOK dataset \<Rightarrow> Responded (EncodeValid valid_Dataset 200
                    (processProviderDataset P (ca_time ch) dataset (getDataService ch))))
           | PANIC p \<Rightarrow> Crashed p
           | ERR e \<Rightarrow> Crashed (err_msg e))
      | ERR e \<Rightarrow> Failed (catalogError (err_msg e) 400 ''400'' ''Invalid dataset request'')
      | PANIC p \<Rightarrow> Crashed p)"

definition APIPath :: string where "APIPath = ''/run-dsp/v2024-1''"

definition version_response :: VersionResponse where
  "version_response = \<lparr>vr_Context = GetDSPContext,
     ProtocolVersions = [\<lparr>pv_Version = DSPVersion, pv_Path = APIPath\<rparr>]\<rparr>"

definition dspaceVersionHandler :: "(goerror, VersionResponse) handler_result" where
  "dspaceVersionHandler = (case ValidateAndMarshal valid_VersionResponse version_response of
     OK v \<Rightarrow> Responded \<lparr>status_code = 200, resp_body = Some v\<rparr>
   | ERR e \<Rightarrow> Failed e
   | PANIC p \<Rightarrow> Crashed p)"

definition routeNotImplemented :: "string \<Rightarrow> string \<Rightarrow> string http_response" where
  "routeNotImplemented meth path =
     \<lparr>status_code = 501, resp_body = Some (meth @ '' '' @ path @ '' has not been implemented'')\<rparr>"

section \<open>Reading a provider's catalogue\<close>

text \<open>A request is encoded, sent and its answer decoded.\<close>

definition encodeRequestDecode :: "('b \<Rightarrow> bool) \<Rightarrow> ('r \<Rightarrow> bool) \<Rightarrow> (url \<Rightarrow> 'b \<Rightarrow> 'r peer_answer) \<Rightarrow> url \<Rightarrow> 'b \<Rightarrow> 'r grpc_result" where
  "encodeRequestDecode valid_req valid_resp request u body =
     (case ValidateAndMarshal valid_req body of
        PANIC p \<Rightarrow> Panicked p
      | ERR e \<Rightarrow> Status Code_Internal ''could not encode requst body''
      | OK reqBody \<Rightarrow>
          (case SendHTTPRequest (request u reqBody) of
             PANIC p \<Rightarrow> Panicked p
           | ERR e \<Rightarrow> Status Code_Unavailable ''could not request''
           | OK respBody \<Rightarrow>
               (case UnmarshalAndValidate valid_resp respBody of
                  PANIC p \<Rightarrow> Panicked p
                | ERR e \<Rightarrow> Status Code_FailedPrecondition ''could not decode response''
                | OK resp \<Rightarrow> Reply (Some resp))))"

definition parse_time :: "time_pkg \<Rightarrow> string \<Rightarrow> timestamp" where
  "parse_time T s = (case time_Parse T s of None \<Rightarrow> epoch | Some t \<Rightarrow> t)"

text \<open>The prefix is cut with a format verb in it.\<close>

definition processDataset :: "time_pkg \<Rightarrow> Dataset \<Rightarrow> rpc_dataset" where
  "processDataset T dsp =
     (let r = ds_Resource dsp;
          base = \<lparr>rd_Id = TrimPrefix (res_ID r) ''urn:uuid:%s'', rd_Title = Title r, rd_AccessMethods = [],
            rd_Description = [], rd_Keywords = Keyword r, rd_Creator = Some (Creator r),
            rd_Issued = parse_time T (Issued r), rd_Modified = parse_time T (Modified r), rd_MediaType = [],
            rd_ByteSize = 0, rd_License = [], rd_AccessRights = [], rd_Rights = [], rd_CompressFormat = [],
            rd_PackageFormat = [], rd_Checksum = None\<rparr>
      in case ds_Distribution dsp of
           [] \<Rightarrow> base
         | d # _ \<Rightarrow> base\<lparr>rd_AccessMethods := dist_Format d, rd_Description := dist_Description d,
             rd_MediaType := MediaType d, rd_ByteSize := ByteSize d, rd_Checksum := dist_Checksum d\<rparr>)"

definition processCatalogue :: "time_pkg \<Rightarrow> Dataset list \<Rightarrow> rpc_dataset list" where
  "processCatalogue T cat = map (processDataset T) cat"

definition GetProviderCatalogue :: "'a lib_scheme \<Rightarrow> control_server \<Rightarrow> time_pkg
    \<Rightarrow> (url \<Rightarrow> CatalogRequestMessage \<Rightarrow> CatalogAcknowledgement peer_answer) \<Rightarrow> string \<Rightarrow> rpc_dataset list grpc_result" where
  "GetProviderCatalogue L sv T request providerUri =
     (case getProviderURL L sv providerUri of
        Reply (Some u) \<Rightarrow>
          (case encodeRequestDecode valid_CatalogRequest valid_CatalogAcknowledgement request
                  (with_path u [''catalog'', ''request''])
                  \<lparr>catm_Context = GetDSPContext, catm_Type = ''dspace:CatalogRequestMessage''\<rparr> of
             Reply (Some resp) \<Rightarrow> Reply (Some (processCatalogue T (Datasets resp)))
           | Reply None \<Rightarrow> Panicked ''nil pointer dereference''
           | Status c m \<Rightarrow> Status c m | Returned e \<Rightarrow> Returned e | Panicked p \<Rightarrow> Panicked p)
      | Reply None \<Rightarrow> Panicked ''nil pointer dereference''
      | Status c m \<Rightarrow> Status c m | Returned e \<Rightarrow> Returned e | Panicked p \<Rightarrow> Panicked p)"

definition GetProviderDataset :: "'a lib_scheme \<Rightarrow> control_server \<Rightarrow> time_pkg
    \<Rightarrow> (url \<Rightarrow> DatasetRequestMessage \<Rightarrow> Dataset peer_answer) \<Rightarrow> string \<Rightarrow> string \<Rightarrow> (string \<times> rpc_dataset) grpc_result" where
  "GetProviderDataset L sv T request providerUrl datasetId =
     (case getProviderURL L sv providerUrl of
        Reply (Some u) \<Rightarrow>
          (case encodeRequestDecode valid_DatasetRequest valid_Dataset request
                  (with_path u [''catalog'', ''datasets'', datasetId])
                  \<lparr>dsm_Context = GetDSPContext, dsm_Type = ''dspace:DatasetRequestMessage'',
                   dsm_Dataset = IDToURN L datasetId\<rparr> of
             Reply (Some resp) \<Rightarrow> Reply (Some (providerUrl, processDataset T resp))
           | Reply None \<Rightarrow> Panicked ''nil pointer dereference''
           | Status c m \<Rightarrow> Status c m | Returned e \<Rightarrow> Returned e | Panicked p \<Rightarrow> Panicked p)
      | Reply None \<Rightarrow> Panicked ''nil pointer dereference''
      | Status c m \<Rightarrow> Status c m | Returned e \<Rightarrow> Returned e | Panicked p \<Rightarrow> Panicked p)"

end
