(* ===== verification/Routing.thy ===== *)
theory Routing
  imports Contract_Handlers Transfer_Handlers
begin

text \<open>
  The route tables of \<open>dsp/routing.go\<close> and how \<open>internal/server/command.go\<close> mounts them, with the
  standard library's \<open>ServeMux\<close> as far as the program uses it: a pattern is a method and segments,
  a segment in braces matches any one segment and names it. A handler is its constructor here; the
  contract handlers are then applied to what the mux gives them. Last, the URLs the state machine
  builds for its messages, and where a peer routes them.
\<close>

section \<open>Patterns\<close>

datatype segment = Lit string | Wild string

datatype endpoint =
    DspaceVersion | RouteNotImplemented
  | CatalogRequest | CatalogDataset
  | ProviderContractState | ProviderContractRequest | ProviderContractSpecificRequest | ProviderContractEvent
  | ProviderContractVerification | ContractTermination | ConsumerContractOffer | ConsumerContractSpecificOffer
  | ConsumerContractAgreement | ConsumerContractEvent
  | ProviderTransferProcess | ProviderTransferRequest | ProviderTransferStart | ProviderTransferCompletion
  | ProviderTransferTermination | ProviderTransferSuspension
  | ConsumerTransferStart | ConsumerTransferCompletion | ConsumerTransferTermination | ConsumerTransferSuspension

record route =
  rt_method :: string
  rt_segments :: "segment list"
  rt_endpoint :: endpoint

definition HandleFunc :: "string \<Rightarrow> segment list \<Rightarrow> endpoint \<Rightarrow> route" where
  "HandleFunc m segs ep = \<lparr>rt_method = m, rt_segments = segs, rt_endpoint = ep\<rparr>"

definition GetWellKnownRoutes :: "route list" where
  "GetWellKnownRoutes =
    [HandleFunc ''GET'' [Lit ''dspace-version''] DspaceVersion,
     HandleFunc ''GET'' [Lit ''dspace-trust''] RouteNotImplemented]"

definition setupCatalogEndpoints :: "route list" where
  "setupCatalogEndpoints =
    [HandleFunc ''POST'' [Lit ''catalog'', Lit ''request''] CatalogRequest,
     HandleFunc ''GET'' [Lit ''catalog'', Lit ''datasets'', Wild ''id''] CatalogDataset]"

definition setupContractEndpoints :: "route list" where
  "setupContractEndpoints =
    [HandleFunc ''GET'' [Lit ''negotiations'', Wild ''providerPID''] ProviderContractState,
     HandleFunc ''POST'' [Lit ''negotiations'', Lit ''request''] ProviderContractRequest,
     HandleFunc ''POST'' [Lit ''negotiations'', Wild ''providerPID'', Lit ''request''] ProviderContractSpecificRequest,
     HandleFunc ''POST'' [Lit ''negotiations'', Wild ''providerPID'', Lit ''events''] ProviderContractEvent,
     HandleFunc ''POST'' [Lit ''negotiations'', Wild ''providerPID'', Lit ''agreement'', Lit ''verification'']
       ProviderContractVerification,
     HandleFunc ''POST'' [Lit ''negotiations'', Wild ''PID'', Lit ''termination''] ContractTermination,
     HandleFunc ''POST'' [Lit ''negotiations'', Lit ''offers''] ConsumerContractOffer,
     HandleFunc ''POST'' [Lit ''callback'', Lit ''negotiations'', Wild ''consumerPID'', Lit ''offers'']
       ConsumerContractSpecificOffer,
     HandleFunc ''POST'' [Lit ''callback'', Lit ''negotiations'', Wild ''consumerPID'', Lit ''agreement'']
       ConsumerContractAgreement,
     HandleFunc ''POST'' [Lit ''callback'', Lit ''negotiations'', Wild ''consumerPID'', Lit ''events'']
       ConsumerContractEvent,
     HandleFunc ''POST'' [Lit ''callback'', Lit ''negotiations'', Wild ''PID'', Lit ''termination''] ContractTermination]"

definition setupTransferEndpoints :: "route list" where
  "setupTransferEndpoints =
    [HandleFunc ''GET'' [Lit ''transfers'', Wild ''providerPID''] ProviderTransferProcess,
     HandleFunc ''POST'' [Lit ''transfers'', Lit ''request''] ProviderTransferRequest,
     HandleFunc ''POST'' [Lit ''transfers'', Wild ''providerPID'', Lit ''start''] ProviderTransferStart,
     HandleFunc ''POST'' [Lit ''transfers'', Wild ''providerPID'', Lit ''completion''] ProviderTransferCompletion,
     HandleFunc ''POST'' [Lit ''transfers'', Wild ''providerPID'', Lit ''termination''] ProviderTransferTermination,
     HandleFunc ''POST'' [Lit ''transfers'', Wild ''providerPID'', Lit ''suspension''] ProviderTransferSuspension,
     HandleFunc ''POST'' [Lit ''callback'', Lit ''transfers'', Wild ''consumerPID'', Lit ''start''] ConsumerTransferStart,
     HandleFunc ''POST'' [Lit ''callback'', Lit ''transfers'', Wild ''consumerPID'', Lit ''completion'']
       ConsumerTransferCompletion,
     HandleFunc ''POST'' [Lit ''callback'', Lit ''transfers'', Wild ''consumerPID'', Lit ''termination'']
       ConsumerTransferTermination,
     HandleFunc ''POST'' [Lit ''callback'', Lit ''transfers'', Wild ''consumerPID'', Lit ''suspension'']
       ConsumerTransferSuspension]"

definition GetDSPRoutes :: "route list" where
  "GetDSPRoutes = setupCatalogEndpoints @ setupContractEndpoints @ setupTransferEndpoints"

section \<open>Matching\<close>

text \<open>A pattern for GET also serves HEAD. The values of the wildcards are by name.\<close>

definition method_matches :: "string \<Rightarrow> string \<Rightarrow> bool" where
  "method_matches pattern meth \<longleftrightarrow> meth = pattern \<or> pattern = ''GET'' \<and> meth = ''HEAD''"

fun match_segments :: "segment list \<Rightarrow> string list \<Rightarrow> (string \<times> string) list option" where
  "match_segments [] [] = Some []"
| "match_segments (Lit l # ps) (w # ws) = (if l = w then match_segments ps ws else None)"
| "match_segments (Wild x # ps) (w # ws) = map_option (\<lambda>vs. (x, w) # vs) (match_segments ps ws)"
| "match_segments _ _ = None"

definition match_route :: "string \<Rightarrow> string list \<Rightarrow> route \<Rightarrow> (endpoint \<times> (string \<times> string) list) option" where
  "match_route meth ws r =
     (if method_matches (rt_method r) meth
      then map_option (\<lambda>vs. (rt_endpoint r, vs)) (match_segments (rt_segments r) ws) else None)"

fun first_match :: "string \<Rightarrow> string list \<Rightarrow> route list \<Rightarrow> (endpoint \<times> (string \<times> string) list) option" where
  "first_match meth ws [] = None"
| "first_match meth ws (r # rs) = (case match_route meth ws r of Some x \<Rightarrow> Some x | None \<Rightarrow> first_match meth ws rs)"

text \<open>
  The whole server: the well-known routes and, under the API path, the protocol's. A path that is not
  rooted and clean is redirected or unknown to the mux and reaches no handler.
\<close>

definition ServeHTTP :: "string \<Rightarrow> string \<Rightarrow> (endpoint \<times> (string \<times> string) list) option" where
  "ServeHTTP meth path =
     (case Split CHR ''/'' path of
        w # ws \<Rightarrow>
          if w \<noteq> [] \<or> \<not> list_all plain_seg ws then None
          else (case ws of
             s1 # rest \<Rightarrow>
               if s1 = ''.well-known'' then first_match meth rest GetWellKnownRoutes
               else (case rest of
                  s2 # rest2 \<Rightarrow>
                    if s1 = ''run-dsp'' \<and> s2 = ''v2024-1'' then first_match meth rest2 GetDSPRoutes else None
                | [] \<Rightarrow> None)
           | [] \<Rightarrow> None)
      | [] \<Rightarrow> None)"

section \<open>Serving a contract message\<close>

text \<open>A body decodes as the message type its handler expects, or does not decode.\<close>

fun as_ContractRequest where "as_ContractRequest (MContractRequest m) = Some m" | "as_ContractRequest _ = None"
fun as_ContractOffer where "as_ContractOffer (MContractOffer m) = Some m" | "as_ContractOffer _ = None"
fun as_ContractAgreement where "as_ContractAgreement (MContractAgreement m) = Some m" | "as_ContractAgreement _ = None"
fun as_ContractVerification where
  "as_ContractVerification (MContractVerification m) = Some m" | "as_ContractVerification _ = None"
fun as_ContractEvent where "as_ContractEvent (MContractEvent m) = Some m" | "as_ContractEvent _ = None"
fun as_ContractTermination where
  "as_ContractTermination (MContractTermination m) = Some m" | "as_ContractTermination _ = None"

text \<open>What the connector does with a message that arrives for its contract routes, \<open>None\<close> when no such
  route is there.\<close>

definition serve_contract :: "'a lib_scheme \<Rightarrow> server \<Rightarrow> go_context \<Rightarrow> fresh_values \<Rightarrow> string \<Rightarrow> string \<Rightarrow> message
    \<Rightarrow> sys \<Rightarrow> (sys \<times> contract_result) option" where
  "serve_contract L sv ctx fv meth path msg s =
     (case ServeHTTP meth path of
        None \<Rightarrow> None
      | Some (ep, vs) \<Rightarrow>
          (case ep of
             ProviderContractState \<Rightarrow> Some (providerContractStateHandler L sv (PathValue (map_of vs) ''providerPID'') s)
           | ProviderContractRequest \<Rightarrow> Some (providerContractRequestHandler L sv ctx fv (as_ContractRequest msg) s)
           | ProviderContractSpecificRequest \<Rightarrow> Some (providerContractSpecificRequestHandler L sv ctx fv
               (PathValue (map_of vs) ''providerPID'') (as_ContractRequest msg) s)
           | ProviderContractEvent \<Rightarrow> Some (providerContractEventHandler L sv ctx fv
               (PathValue (map_of vs) ''providerPID'') (as_ContractEvent msg) s)
           | ProviderContractVerification \<Rightarrow> Some (providerContractVerificationHandler L sv ctx fv
               (PathValue (map_of vs) ''providerPID'') (as_ContractVerification msg) s)
           | ContractTermination \<Rightarrow> Some (contractTerminationHandler L sv ctx fv
               (PathValue (map_of vs) ''PID'') (as_ContractTermination msg) s)
           | ConsumerContractOffer \<Rightarrow> Some (consumerContractOfferHandler L sv ctx fv (as_ContractOffer msg) s)
           | ConsumerContractSpecificOffer \<Rightarrow> Some (consumerContractSpecificOfferHandler L sv ctx fv
               (PathValue (map_of vs) ''consumerPID'') (as_ContractOffer msg) s)
           | ConsumerContractAgreement \<Rightarrow> Some (consumerContractAgreementHandler L sv ctx fv
               (PathValue (map_of vs) ''consumerPID'') (as_ContractAgreement msg) s)
           | ConsumerContractEvent \<Rightarrow> Some (consumerContractEventHandler L sv ctx fv
               (PathValue (map_of vs) ''consumerPID'') (as_ContractEvent msg) s)
           | _ \<Rightarrow> None))"

end
