(* ===== verification/Routing_Facts.thy ===== *)
theory Routing_Facts
  imports Routing Control_Facts
begin

text \<open>
  Facts on the routes: no two patterns match the same request, and where the messages of the contract
  state machine go. A consumer is reached under \<open>/callback\<close>, and only there.
\<close>

section \<open>At most one pattern matches\<close>

fun overlap :: "segment list \<Rightarrow> segment list \<Rightarrow> bool" where
  "overlap [] [] = True"
| "overlap (Lit a # ps) (Lit b # qs) = (a = b \<and> overlap ps qs)"
| "overlap (p # ps) (q # qs) = overlap ps qs"
| "overlap _ _ = False"

fun_cases match_NilE: "match_segments [] ws = Some x"
fun_cases match_LitE: "match_segments (Lit l # ps) ws = Some x"
fun_cases match_WildE: "match_segments (Wild l # ps) ws = Some x"

lemmas match_elims = match_NilE match_LitE match_WildE

lemma match_overlap: "match_segments ps ws = Some x \<Longrightarrow> match_segments qs ws = Some y \<Longrightarrow> overlap ps qs"
proof (induction ws arbitrary: ps qs x y)
  case Nil
  then have "ps = []" "qs = []" by (cases ps rule: match_segments.cases[of "(ps, [])" for ps]; auto elim: match_segments.elims)+
  then show ?case by simp
next
  case (Cons w ws)
  then show ?case
    by (cases ps; cases qs; cases "hd ps"; cases "hd qs") (auto elim!: match_elims split: if_splits)
qed

definition apart :: "route \<Rightarrow> route \<Rightarrow> bool" where
  "apart r r' \<longleftrightarrow> rt_method r \<noteq> rt_method r' \<or> \<not> overlap (rt_segments r) (rt_segments r')"

lemmas route_tables = GetDSPRoutes_def setupCatalogEndpoints_def setupContractEndpoints_def setupTransferEndpoints_def
  HandleFunc_def

fun pairwise_apart :: "route list \<Rightarrow> bool" where
  "pairwise_apart [] = True"
| "pairwise_apart (r # rs) = (list_all (apart r) rs \<and> pairwise_apart rs)"

lemma routes_apart: "pairwise_apart GetDSPRoutes"
  by (simp add: route_tables apart_def)

lemma routes_methods: "list_all (\<lambda>r. rt_method r = ''GET'' \<or> rt_method r = ''POST'') GetDSPRoutes"
  by (simp add: route_tables)

lemma apart_sym: "apart r r' \<Longrightarrow> apart r' r"
proof -
  have "overlap ps qs = overlap qs ps" for ps qs
    by (induction ps qs rule: overlap.induct) (auto elim: overlap.elims)
  then show "apart r r' \<Longrightarrow> apart r' r" by (auto simp: apart_def)
qed

lemma pairwise_apartD: "pairwise_apart rs \<Longrightarrow> r \<in> set rs \<Longrightarrow> r' \<in> set rs \<Longrightarrow> r = r' \<or> apart r r'"
  by (induction rs) (auto simp: list_all_iff intro: apart_sym)

lemma match_unique:
  assumes "r \<in> set GetDSPRoutes" and "r' \<in> set GetDSPRoutes"
    and "match_route m ws r = Some x" and "match_route m ws r' = Some y"
  shows "r = r'"
proof -
  have "rt_method r = rt_method r'" using assms routes_methods
    by (auto simp: match_route_def method_matches_def list_all_iff split: if_splits)
  moreover have "overlap (rt_segments r) (rt_segments r')"
    using assms(3,4) by (auto simp: match_route_def split: if_splits intro: match_overlap)
  ultimately show ?thesis using pairwise_apartD[OF routes_apart assms(1,2)] by (simp add: apart_def)
qed

lemma distinct_at_most_one:
  "distinct xs \<Longrightarrow> (\<And>x y. x \<in> set xs \<Longrightarrow> y \<in> set xs \<Longrightarrow> x = y) \<Longrightarrow> length xs \<le> 1"
proof (cases xs rule: remdups_adj.cases)
  case (3 x y zs)
  assume "distinct xs" and "\<And>x y. x \<in> set xs \<Longrightarrow> y \<in> set xs \<Longrightarrow> x = y"
  from this(1) this(2)[of x y] 3 show ?thesis by simp
qed simp_all

lemma distinct_routes: "distinct GetDSPRoutes"
  by (simp add: route_tables)

lemma first_match_Some: "first_match m ws rs = Some x \<Longrightarrow> \<exists>r\<in>set rs. match_route m ws r = Some x"
  by (induction rs) (auto split: option.splits)

lemma first_match_None: "first_match m ws rs = None \<longleftrightarrow> (\<forall>r\<in>set rs. match_route m ws r = None)"
  by (induction rs) (auto split: option.splits)

text \<open>C31: no request matches two patterns of the protocol's routes, so registering them never panics
  and the answer does not depend on their order: any arrangement of the same routes dispatches
  every request as this one does.\<close>

theorem routes_unambiguous:
  assumes "set rs = set GetDSPRoutes"
  shows "first_match m ws rs = first_match m ws GetDSPRoutes
    \<and> length (filter (\<lambda>r. match_route m ws r \<noteq> None) GetDSPRoutes) \<le> 1"
proof -
  have "first_match m ws rs = first_match m ws GetDSPRoutes"
  proof (cases "first_match m ws GetDSPRoutes")
    case None
    then show ?thesis using assms by (metis first_match_None)
  next
    case (Some x)
    then obtain r where r: "r \<in> set GetDSPRoutes" "match_route m ws r = Some x" using first_match_Some by blast
    show ?thesis
    proof (cases "first_match m ws rs")
      case None
      then show ?thesis using r assms by (auto simp: first_match_None)
    next
      case (Some y)
      then obtain r' where "r' \<in> set rs" "match_route m ws r' = Some y" using first_match_Some by blast
      then show ?thesis using match_unique[OF r(1) _ r(2)] assms Some r(2) \<open>first_match m ws GetDSPRoutes = Some x\<close> by auto
    qed
  qed
  moreover have "length (filter (\<lambda>r. match_route m ws r \<noteq> None) GetDSPRoutes) \<le> 1"
  proof (rule distinct_at_most_one)
    fix r r' assume "r \<in> set (filter (\<lambda>r. match_route m ws r \<noteq> None) GetDSPRoutes)"
      "r' \<in> set (filter (\<lambda>r. match_route m ws r \<noteq> None) GetDSPRoutes)"
    then show "r = r'" using match_unique[of r r' m ws] by auto
  qed (simp add: distinct_routes)
  ultimately show ?thesis by blast
qed

lemma routes_unambiguous_witness:
  "first_match ''POST'' [''negotiations'', ''7'', ''events''] (rev GetDSPRoutes) =
     Some (ProviderContractEvent, [(''providerPID'', ''7'')])"
  using conjunct1[OF routes_unambiguous[of "rev GetDSPRoutes" "''POST''" "[''negotiations'', ''7'', ''events'']"]]
  by (simp add: route_tables match_route_def method_matches_def)

section \<open>Paths below the API\<close>

definition api_path :: "string list \<Rightarrow> string" where
  "api_path ws = CHR ''/'' # Join CHR ''/'' ([''run-dsp'', ''v2024-1''] @ ws)"

lemma api_path_simps:
  "api_path [] = ''/run-dsp/v2024-1''" "api_path [''callback''] = ''/run-dsp/v2024-1/callback''"
  by (simp_all add: api_path_def)

lemma plain_names [simp]:
  "plain_seg ''run-dsp''" "plain_seg ''v2024-1''" "plain_seg ''callback''" "plain_seg ''negotiations''"
  "plain_seg ''request''" "plain_seg ''offers''" "plain_seg ''agreement''" "plain_seg ''verification''"
  "plain_seg ''events''" "plain_seg ''termination''" "plain_seg ''catalog''" "plain_seg ''datasets''"
  by (simp_all add: plain_seg_def)

lemma with_path_api:
  assumes "uPath u = api_path us" "list_all plain_seg us" "list_all plain_seg ws" "ws \<noteq> []"
  shows "uPath (with_path u ws) = api_path (us @ ws)"
  using path_Join_rooted_plain[of "[''run-dsp'', ''v2024-1''] @ us" ws] assms
  by (simp add: with_path_def api_path_def)

lemma ServeHTTP_api:
  assumes "list_all plain_seg ws"
  shows "ServeHTTP m (api_path ws) = first_match m ws GetDSPRoutes"
proof -
  have "Split CHR ''/'' (api_path ws) = [] # [''run-dsp'', ''v2024-1''] @ ws"
    using Split_cons_sep[of "CHR ''/''" "[]"] Split_Join_plain[of "[''run-dsp'', ''v2024-1''] @ ws"] assms
    by (simp add: api_path_def)
  then show ?thesis using assms by (simp add: ServeHTTP_def)
qed

lemmas dispatch_simps = route_tables match_route_def method_matches_def

section \<open>Where messages go\<close>

text \<open>The path a contract message is sent to, below the callback of the negotiation that sends it.\<close>

fun message_path :: "'a lib_scheme \<Rightarrow> negotiation \<Rightarrow> message \<Rightarrow> string list" where
  "message_path L cn (MContractRequest t) = (if n_providerPID cn \<noteq> emptyUUID
     then [''negotiations'', uuid_String L (n_providerPID cn), ''request''] else [''negotiations'', ''request''])"
| "message_path L cn (MContractOffer t) = (if n_consumerPID cn \<noteq> emptyUUID
     then [''negotiations'', uuid_String L (n_consumerPID cn), ''offers''] else [''negotiations'', ''offers''])"
| "message_path L cn (MContractAgreement t) = [''negotiations'', uuid_String L (n_consumerPID cn), ''agreement'']"
| "message_path L cn (MContractVerification t) =
     [''negotiations'', uuid_String L (n_providerPID cn), ''agreement'', ''verification'']"
| "message_path L cn (MContractEvent t) =
     [''negotiations'', uuid_String L (if n_state cn = C_OFFERED then n_providerPID cn else n_consumerPID cn), ''events'']"
| "message_path L cn _ = []"

text \<open>The role that sends in a state, once the negotiation has begun.\<close>

fun sender :: "cstate \<Rightarrow> role" where
  "sender C_OFFERED = DataspaceConsumer"
| "sender C_AGREED = DataspaceConsumer"
| "sender _ = DataspaceProvider"

fun to_consumer :: "message \<Rightarrow> bool" where
  "to_consumer (MContractOffer t) = True"
| "to_consumer (MContractAgreement t) = True"
| "to_consumer (MContractEvent t) = (cem_EventType t = ''dspace:FINALIZED'')"
| "to_consumer _ = False"

lemma sent_entry:
  assumes "contract_Send L d ctx fresh now cn = (cn', OK (ApAdd e))" and "url_ok L (n_callback cn)"
  shows "Method e = ''POST'' \<and> URL e = with_path (n_callback cn) (message_path L cn (Body e)) \<and> valid_message (Body e)
    \<and> message_path L cn (Body e) \<noteq> []
    \<and> (n_state cn \<noteq> C_INITIAL \<longrightarrow> to_consumer (Body e) = (sender (n_state cn) = DataspaceProvider))
    \<and> (n_state cn = C_INITIAL \<longrightarrow> (if n_consumerPID cn \<noteq> emptyUUID
         then n_providerPID cn = emptyUUID \<and> (\<exists>t. Body e = MContractRequest t)
         else n_providerPID cn \<noteq> emptyUUID \<and> (\<exists>t. Body e = MContractOffer t)))"
  using assms
  by (cases "n_state cn") (auto simp: Initial_Send_def Requested_Send_def Offered_Send_def n_UnsetInitial_def
      sendContractRequest_def sendContractOffer_def sendContractAgreement_def sendContractEvent_def
      sendContractVerification_def send_simps split: if_splits)

text \<open>What a message is meant for: a first message for the handler that opens a negotiation, every later
  one for the peer's negotiation, in the peer's role and under the peer's PID.\<close>

fun peer_role :: "role \<Rightarrow> role" where
  "peer_role DataspaceConsumer = DataspaceProvider"
| "peer_role DataspaceProvider = DataspaceConsumer"
| "peer_role r = r"

definition peer_pid :: "negotiation \<Rightarrow> uuid" where
  "peer_pid cn = (if n_role cn = DataspaceConsumer then n_providerPID cn else n_consumerPID cn)"

fun intended_handler :: "'a lib_scheme \<Rightarrow> server \<Rightarrow> go_context \<Rightarrow> fresh_values \<Rightarrow> negotiation \<Rightarrow> message
    \<Rightarrow> sys \<Rightarrow> sys \<times> contract_result" where
  "intended_handler L sv ctx fv cn msg s =
     (case (n_state cn, msg) of
        (C_INITIAL, MContractRequest t) \<Rightarrow> providerContractRequestHandler L sv ctx fv (Some t) s
      | (C_INITIAL, MContractOffer t) \<Rightarrow> consumerContractOfferHandler L sv ctx fv (Some t) s
      | _ \<Rightarrow> processMessage L sv ctx fv (peer_role (n_role cn)) (peer_pid cn) msg s)"

text \<open>A consumer is reached under \<open>/callback\<close> once it has a PID.\<close>

definition callback_base :: "negotiation \<Rightarrow> string list" where
  "callback_base cn = (if n_state cn \<noteq> C_INITIAL \<and> n_role cn = DataspaceProvider then [''callback''] else [])"

definition knows_both :: "negotiation \<Rightarrow> bool" where
  "knows_both cn \<longleftrightarrow> n_providerPID cn \<noteq> emptyUUID \<and> n_consumerPID cn \<noteq> emptyUUID"

lemma progress_processMessage:
  assumes "uuid_laws L" and "ExtractRequesterInfo ctx = OK ri"
  shows "progressContractState L sv ctx fv rl (uuid_String L pid) (OK msg) s = processMessage L sv ctx fv rl pid msg s"
proof -
  have "SetRequesterInfo ctx ri = ctx"
    using assms(2) by (cases ctx) (auto simp: ExtractRequesterInfo_def SetRequesterInfo_def split: option.splits)
  then show ?thesis using assms by (simp add: progressContractState_def uuid_lawsD(1))
qed

lemma plain_message_path:
  "uuid_laws L \<Longrightarrow> list_all plain_seg (message_path L cn msg)"
  by (cases "(L, cn, msg)" rule: message_path.cases) (simp_all add: uuid_lawsD(5))

lemma served_api:
  assumes "uuid_laws L" and "uPath u = api_path us" and "list_all plain_seg us" and "message_path L cn msg \<noteq> []"
  shows "ServeHTTP m (uPath (with_path u (message_path L cn msg))) = first_match m (us @ message_path L cn msg) GetDSPRoutes"
  using assms plain_message_path[OF assms(1), of cn msg] by (simp add: with_path_api ServeHTTP_api)

text \<open>Every message of a contract negotiation reaches the handler it is meant for, on the negotiation it
  is meant for: what a negotiation sends in a state in which it is its role's turn, to a peer whose
  callback address is the API, or the API's \<open>/callback\<close> when the peer is the consumer, is routed by
  the peer to the handler for that message, which takes the peer's own PID from the path and
  decodes the body.\<close>

theorem message_reaches_handler:
  assumes "contract_Send L d sctx fresh now cn = (cn', OK (ApAdd e))" and "uuid_laws L" and "url_ok L (n_callback cn)"
    and "ExtractRequesterInfo ctx = OK ri" and "uPath (n_callback cn) = api_path (callback_base cn)"
    and "n_state cn \<noteq> C_INITIAL \<Longrightarrow> n_role cn = sender (n_state cn) \<and> knows_both cn"
  shows "serve_contract L sv ctx fv (Method e) (uPath (URL e)) (Body e) s = Some (intended_handler L sv ctx fv cn (Body e) s)"
proof -
  note sent = sent_entry[OF assms(1,3)]
  have plain: "list_all plain_seg (callback_base cn)" by (simp add: callback_base_def)
  note prog = progress_processMessage[OF assms(2,4)]
  note simps = dispatch_simps PathValue_def decode_as_def callback_base_def peer_pid_def
    knows_both_def providerContractSpecificRequestHandler_def providerContractEventHandler_def
    providerContractVerificationHandler_def consumerContractSpecificOfferHandler_def
    consumerContractAgreementHandler_def consumerContractEventHandler_def DecodeValid_def valid_message_def prog
  have "message_path L cn (Body e) \<noteq> []" using sent by blast
  then have routed: "ServeHTTP (Method e) (uPath (URL e)) =
      first_match ''POST'' (callback_base cn @ message_path L cn (Body e)) GetDSPRoutes"
    using sent served_api[OF assms(2,5) plain, of cn "Body e" "''POST''"] by simp
  have "recv_target (n_state cn) (Body e) \<noteq> None" using contract_Send_OK[OF assms(1)] by auto
  with sent assms(6) show ?thesis unfolding serve_contract_def routed
    by (cases "n_state cn"; cases "Body e") (auto simp: simps split: if_splits)
qed

text \<open>A negotiation started through the control service is started with the API itself as its callback
  address, not its \<open>/callback\<close>. Whatever the provider it asked then sends it as an offer or an
  agreement is for a path the consumer's connector does not serve, while the same message sent to
  a negotiation of a download would be served.\<close>

theorem control_request_unreachable:
  assumes "start_negotiation L sv trace emptyUUID pid DataspaceConsumer req s = (s', Reply (Some cn))"
    and "uuid_laws L" and "url_ok L (ct_selfURL sv)" and "uPath (ct_selfURL sv) = api_path []"
    and "contract_Send L d1 ctx1 f1 t1 cn = (cn1, OK (ApAdd e1))" and "Body e1 = MContractRequest m"
    and "url_Parse L (crm_CallbackAddress m) = Some cb"
    and "n_callback pn = cb" and "n_role pn = DataspaceProvider" and "knows_both pn"
    and "n_state pn \<in> {C_REQUESTED, C_ACCEPTED}" and "contract_Send L d2 ctx2 f2 t2 pn = (pn', OK (ApAdd e))"
  shows "serve_contract L peer ctx fv (Method e) (uPath (URL e)) (Body e) sys = None"
proof -
  have self: "n_self cn = ct_selfURL sv"
    using assms(1,3) by (auto simp: start_negotiation_def MustParseURL_def url_ok_def outcome_simps
        split: outcome.splits grpc_result.splits option.splits prod.splits dest!: New_negotiation_OK)
  moreover have "crm_CallbackAddress m = url_String L (n_self cn)"
    using assms(5,6) by (cases "n_state cn") (auto simp: Initial_Send_def Requested_Send_def Offered_Send_def n_UnsetInitial_def
      sendContractRequest_def sendContractOffer_def sendContractAgreement_def sendContractEvent_def
      sendContractVerification_def send_simps split: if_splits)
  ultimately have cb: "cb = ct_selfURL sv" using assms(3,7) by (simp add: url_ok_def)
  have ok: "url_ok L (n_callback pn)" using assms(3,8) cb by simp
  note sent = sent_entry[OF assms(12) ok]
  have "uPath (n_callback pn) = api_path []" using cb assms(4,8) by simp
  then have routed: "ServeHTTP (Method e) (uPath (URL e)) = first_match ''POST'' (message_path L pn (Body e)) GetDSPRoutes"
    using sent served_api[OF assms(2), of "n_callback pn" "[]" pn "Body e" "''POST''"] by simp
  have "recv_target (n_state pn) (Body e) \<noteq> None" using contract_Send_OK[OF assms(12)] assms(11) by auto
  moreover have "message_path L pn (Body e) \<noteq> []" using sent by blast
  ultimately have "(\<exists>t. Body e = MContractOffer t) \<or> (\<exists>t. Body e = MContractAgreement t)"
    using assms(11) by (cases "Body e") auto
  moreover have apart: "\<not> (''offers'' = w \<and> ''request'' = w)" for w :: string by simp blast
  ultimately have "first_match ''POST'' (message_path L pn (Body e)) GetDSPRoutes = None"
    using assms(10) apart by (auto simp: dispatch_simps knows_both_def)
  then show ?thesis by (simp add: serve_contract_def routed)
qed

section \<open>Examples\<close>

definition api_url :: url where
  "api_url = \<lparr>uPath = api_path [], uRest = []\<rparr>"

definition callback_url :: url where
  "callback_url = \<lparr>uPath = api_path [''callback''], uRest = []\<rparr>"

lemma sample_url_ok [simp]: "url_ok sample_lib \<lparr>uPath = p, uRest = []\<rparr>"
  by (simp add: url_ok_def)

text \<open>A provider that sends an agreement to a consumer's callback address.\<close>

definition agreeing :: "url \<Rightarrow> negotiation" where
  "agreeing cb = sample_negotiation DataspaceProvider C_ACCEPTED\<lparr>n_callback := cb\<rparr>"

lemma agreeing_simps [simp]:
  "n_callback (agreeing cb) = cb" "n_state (agreeing cb) = C_ACCEPTED" "n_role (agreeing cb) = DataspaceProvider"
  "n_consumerPID (agreeing cb) = 3" "n_providerPID (agreeing cb) = 2"
  by (simp_all add: agreeing_def)

lemma agreeing_sends:
  assumes "url_ok sample_lib cb"
  shows "\<exists>cn' e. contract_Send sample_lib sample_deps sample_ctx 7 0 (agreeing cb) = (cn', OK (ApAdd e))
     \<and> (\<exists>t. Body e = MContractAgreement t)"
proof -
  have "valid_Agreement \<lparr>ag_policy = zero_policy, ag_Type = ''odrl:Agreement'', ag_ID = uuid_URN sample_lib 7,
      ag_Target = mo_Target (offer_message sample_offer), ag_Timestamp = 0\<rparr>"
    by (simp add: valid_Agreement_def valid_zero_policy required_def sample_offer_def sample_message_offer_def use_offer_def)
  then show ?thesis using assms
    by (simp add: agreeing_def sendContractAgreement_def n_SetAgreement_def n_panicRO_def n_modify_def
      ValidateAndMarshal_def valid_ContractAgreement_def required_def makeContractRequestFunction_def makeRequestFunction_def
      root_url_def)
qed

lemma message_reaches_handler_witness:
  "\<exists>(e :: ReconciliationEntry) t. Body e = MContractAgreement t \<and>
     serve_contract sample_lib sample_server sample_ctx sample_fresh (Method e) (uPath (URL e)) (Body e) agreed_sys =
       Some (processMessage sample_lib sample_server sample_ctx sample_fresh DataspaceConsumer 3 (Body e) agreed_sys)"
proof -
  obtain cn' e t where e: "contract_Send sample_lib sample_deps sample_ctx 7 0 (agreeing callback_url) = (cn', OK (ApAdd e))"
      "Body e = MContractAgreement t"
    using agreeing_sends[of callback_url] by (auto simp: callback_url_def)
  have "ExtractRequesterInfo sample_ctx = OK sample_requester" by (simp add: sample_ctx_def)
  note r = message_reaches_handler[OF e(1) sample_lib_laws _ this, of sample_server sample_fresh agreed_sys]
  have served: "serve_contract sample_lib sample_server sample_ctx sample_fresh (Method e) (uPath (URL e)) (Body e) agreed_sys =
      Some (processMessage sample_lib sample_server sample_ctx sample_fresh DataspaceConsumer 3 (Body e) agreed_sys)"
    using r e(2) by (simp add: callback_url_def callback_base_def knows_both_def peer_pid_def)
  show ?thesis by (intro exI conjI) (fact e(2), fact served)
qed

definition api_control :: control_server where
  "api_control = sample_control\<lparr>ct_selfURL := api_url\<rparr>"

definition sample_contract_request :: contract_request where
  "sample_contract_request = \<lparr>cr_offer = ''{}'', cr_pid = [], cr_address = ''/dsp'', cr_autoAccept = True\<rparr>"

lemma sample_provider_url:
  "getProviderURL sample_lib api_control ''/dsp'' =
     Reply (Some (with_path \<lparr>uPath = ''/dsp'', uRest = []\<rparr> [''/run-dsp/v2024-1'']))"
  by (simp add: getProviderURL_def api_control_def sample_control_def SendHTTPRequest_def UnmarshalAndValidate_def
      DecodeValid_def valid_VersionResponse_def required_def DSPVersion_def MustParseURL_def)

lemma api_control_simps [simp]:
  "ct_backend api_control = quiet New_backend" "ct_selfURL api_control = api_url"
  by (simp_all add: api_control_def)

lemma control_starts:
  "\<exists>s' cn. start_negotiation sample_lib api_control zero_trace emptyUUID 3 DataspaceConsumer sample_contract_request
      \<lparr>s_db = empty_db, s_effects = no_effects\<rparr> = (s', Reply (Some cn))
    \<and> n_state cn = C_INITIAL \<and> n_consumerPID cn = 3 \<and> n_providerPID cn = emptyUUID \<and> n_offer cn = sample_offer
    \<and> n_self cn = api_url"
  by (simp add: start_negotiation_def sample_contract_request_def sample_provider_url MustParseURL_def api_url_def
      New_negotiation_def PutContract_def n_ToModel_def opt_read_def upsert_contract_def upsert_rows_def empty_db_def)

lemma sample_request_sends:
  assumes "n_state cn = C_INITIAL" "n_consumerPID cn = 3" "n_providerPID cn = emptyUUID" "n_offer cn = sample_offer"
    "n_self cn = api_url"
  shows "\<exists>cn' e m. contract_Send sample_lib sample_deps sample_ctx 7 0 cn = (cn', OK (ApAdd e)) \<and> Body e = MContractRequest m
     \<and> crm_CallbackAddress m = api_path []"
  using assms by (simp add: Initial_Send_def sendContractRequest_def ValidateAndMarshal_def valid_ContractRequest_def
      required_def api_url_def sample_offer_def makeContractRequestFunction_def makeRequestFunction_def cloneURL_def api_path_def)

lemma control_request_unreachable_witness:
  "\<exists>(e :: ReconciliationEntry) t. Body e = MContractAgreement t \<and>
     serve_contract sample_lib sample_server sample_ctx sample_fresh (Method e) (uPath (URL e)) (Body e) agreed_sys = None"
proof -
  obtain s' cn where start: "start_negotiation sample_lib api_control zero_trace emptyUUID 3 DataspaceConsumer
      sample_contract_request \<lparr>s_db = empty_db, s_effects = no_effects\<rparr> = (s', Reply (Some cn))"
    "n_state cn = C_INITIAL" "n_consumerPID cn = 3" "n_providerPID cn = emptyUUID" "n_offer cn = sample_offer" "n_self cn = api_url"
    using control_starts by blast
  obtain cn1 e1 m where sent: "contract_Send sample_lib sample_deps sample_ctx 7 0 cn = (cn1, OK (ApAdd e1))"
    "Body e1 = MContractRequest m" "crm_CallbackAddress m = api_path []"
    using sample_request_sends[OF start(2-6)] by blast
  obtain cn' e t where e: "contract_Send sample_lib sample_deps sample_ctx 7 0 (agreeing api_url) = (cn', OK (ApAdd e))"
    "Body e = MContractAgreement t"
    using agreeing_sends[of api_url] by (auto simp: api_url_def)
  have "url_Parse sample_lib (crm_CallbackAddress m) = Some api_url" by (simp add: sent(3) api_url_def)
  from control_request_unreachable[OF start(1) sample_lib_laws _ _ sent(1,2) this _ _ _ _ e(1)]
  have unserved: "serve_contract sample_lib sample_server sample_ctx sample_fresh (Method e) (uPath (URL e)) (Body e) agreed_sys = None"
    by (simp add: api_url_def knows_both_def)
  show ?thesis by (intro exI conjI) (fact e(2), fact unserved)
qed

end
