(* ===== verification/Catalog_Facts.thy ===== *)
theory Catalog_Facts
  imports Catalog Routing_Facts
begin

text \<open>
  Reading a peer's catalogue, end to end: the control service of one connector finds the address of
  another through its version document, asks for its catalogue or a dataset, and gets what the
  other's provider service holds, in the form it survives the two translations.
\<close>

section \<open>What of a dataset survives\<close>

text \<open>Documented of RFC 3339 in the \<open>time\<close> package: a time of the years 1 to 9999, which is what a
  timestamp may be, is read back to the second.\<close>

definition valid_timestamp :: "timestamp \<Rightarrow> bool" where
  "valid_timestamp t \<longleftrightarrow> - 62135596800 \<le> ts_seconds t \<and> ts_seconds t \<le> 253402300799 \<and> 0 \<le> ts_nanos t \<and> ts_nanos t < 1000000000"

definition rfc3339 :: "time_pkg \<Rightarrow> bool" where
  "rfc3339 T \<longleftrightarrow> (\<forall>t. valid_timestamp t \<longrightarrow> time_Parse T (time_Format T t) = Some (t\<lparr>ts_nanos := 0\<rparr>))"

text \<open>The prefix that the reader cuts has a format verb in it, so it is that of no URN made here; an
  identifier that does begin so would lose it.\<close>

definition listable :: "'a uuid_pkg_scheme \<Rightarrow> rpc_dataset \<Rightarrow> bool" where
  "listable P ds \<longleftrightarrow> valid_timestamp (rd_Issued ds) \<and> valid_timestamp (rd_Modified ds)
     \<and> \<not> HasPrefix (IDToURN P (rd_Id ds)) ''urn:uuid:%s''"

text \<open>A dataset as the other side sees it: under its URN, issued and modified to the second, without
  its access methods, its licence and rights, and its formats.\<close>

definition as_listed :: "'a uuid_pkg_scheme \<Rightarrow> rpc_dataset \<Rightarrow> rpc_dataset" where
  "as_listed P ds = ds\<lparr>rd_Id := IDToURN P (rd_Id ds), rd_AccessMethods := [],
     rd_Creator := Some (case rd_Creator ds of None \<Rightarrow> [] | Some c \<Rightarrow> c),
     rd_Issued := (rd_Issued ds)\<lparr>ts_nanos := 0\<rparr>, rd_Modified := (rd_Modified ds)\<lparr>ts_nanos := 0\<rparr>,
     rd_License := [], rd_AccessRights := [], rd_Rights := [], rd_CompressFormat := [], rd_PackageFormat := []\<rparr>"

lemma processDataset_provider:
  "rfc3339 T \<Longrightarrow> listable P ds \<Longrightarrow> processDataset T (processProviderDataset P T ds svc) = as_listed P ds"
  by (cases ds) (simp add: processDataset_def processProviderDataset_def as_listed_def parse_time_def
      rfc3339_def listable_def TrimPrefix_def zero_resource_def)

section \<open>The connector that is asked\<close>

text \<open>The path as it stands in the request, and a handler's answer on the wire; a panic is recovered as
  an internal error.\<close>

definition wire_path :: "url \<Rightarrow> string" where
  "wire_path u = (if HasPrefix (uPath u) ''/'' then uPath u else CHR ''/'' # uPath u)"

fun answer_of :: "('e \<Rightarrow> nat) \<Rightarrow> ('e, 'r) handler_result \<Rightarrow> 'r peer_answer" where
  "answer_of code (Responded r) = OK (status_code r, resp_body r)"
| "answer_of code (Failed e) = OK (code e, None)"
| "answer_of code (Crashed p) = OK (500, None)"

definition serve_version :: "url \<Rightarrow> VersionResponse peer_answer" where
  "serve_version u = (case ServeHTTP ''GET'' (wire_path u) of
     Some (DspaceVersion, vs) \<Rightarrow> answer_of (\<lambda>_. 500) dspaceVersionHandler | _ \<Rightarrow> OK (404, None))"

definition serve_catalogue :: "'a uuid_pkg_scheme \<Rightarrow> catalog_server \<Rightarrow> go_context \<Rightarrow> url \<Rightarrow> CatalogRequestMessage
    \<Rightarrow> CatalogAcknowledgement peer_answer" where
  "serve_catalogue P ch ctx u m = (case ServeHTTP ''POST'' (wire_path u) of
     Some (CatalogRequest, vs) \<Rightarrow> answer_of cate_status (catalogRequestHandler P ch ctx (Some m)) | _ \<Rightarrow> OK (404, None))"

definition serve_dataset :: "'a uuid_pkg_scheme \<Rightarrow> catalog_server \<Rightarrow> go_context \<Rightarrow> url \<Rightarrow> DatasetRequestMessage
    \<Rightarrow> Dataset peer_answer" where
  "serve_dataset P ch ctx u m = (case ServeHTTP ''GET'' (wire_path u) of
     Some (CatalogDataset, vs) \<Rightarrow>
       answer_of cate_status (datasetRequestHandler P ch ctx (PathValue (map_of vs) ''id'') (Some m))
   | _ \<Rightarrow> OK (404, None))"

lemma served_version_url:
  "url_Parse L uri = Some u \<Longrightarrow> uPath u = [] \<or> uPath u = ''/'' \<Longrightarrow> ct_version sv = serve_version \<Longrightarrow>
     \<exists>du. getProviderURL L sv uri = Reply (Some du) \<and> uPath du = api_path []"
  by (auto simp: getProviderURL_def serve_version_def wire_path_def with_path_def path_Join_def path_Clean_def HasPrefix_def
      ServeHTTP_def GetWellKnownRoutes_def HandleFunc_def match_route_def method_matches_def dspaceVersionHandler_def
      ValidateAndMarshal_def version_response_def valid_VersionResponse_def required_def SendHTTPRequest_def
      UnmarshalAndValidate_def DecodeValid_def APIPath_def DSPVersion_def MustParseURL_def api_path_def plain_seg_def)

lemma served_path:
  assumes "uPath du = api_path []" and "list_all plain_seg ws" and "ws \<noteq> []"
  shows "ServeHTTP m (wire_path (with_path du ws)) = first_match m ws GetDSPRoutes"
  using with_path_api[OF assms(1) _ assms(2,3)] ServeHTTP_api[OF assms(2)]
  by (simp add: wire_path_def) (simp add: api_path_def HasPrefix_def)

lemma ack_valid: "valid_CatalogAcknowledgement \<lparr>cack_Context = c, cack_Dataset = Dataset catalog_resource [] [],
    Datasets = ds, Service = [svc], ParticipantID = x, Homepage = y\<rparr>"
  by (simp add: valid_CatalogAcknowledgement_def valid_Dataset_def valid_Resource_def catalog_resource_def zero_resource_def
      required_def)

lemma catalogue_served:
  assumes "uPath du = api_path []" and "ExtractRequesterInfo ctx = OK ri" and "valid_CatalogRequest m"
  shows "SendHTTPRequest (serve_catalogue P ch ctx (with_path du [''catalog'', ''request'']) m) =
     (case ca_catalogue ch ri of
        RpcOK datasets \<Rightarrow> OK (Some \<lparr>cack_Context = GetDSPContext, cack_Dataset = Dataset catalog_resource [] [],
            Datasets = processProviderCatalogue P (ca_time ch) datasets (getDataService ch), Service = [getDataService ch],
            ParticipantID = [], Homepage = []\<rparr>)
      | RpcError c e \<Rightarrow> ERR (Errorf ''received a non-200 status code'' []))"
  using assms by (simp add: serve_catalogue_def served_path dispatch_simps catalogRequestHandler_def DecodeValid_def
      EncodeValid_def ack_valid SendHTTPRequest_def grpcErrorHandler_def catalogError_def split: rpc_answer.splits grpc_code.splits)

text \<open>Reading a catalogue and a dataset, with the identifier that names the dataset as an element of a path.\<close>

lemma provider_dataset_valid: "uuid_laws P \<Longrightarrow> valid_Dataset (processProviderDataset P T ds svc)"
  using IDToURN_is_urn[of P "rd_Id ds"]
  by (auto simp: valid_Dataset_def valid_Resource_def processProviderDataset_def zero_resource_def required_def
      HasPrefix_def ToLower_def)

lemma dataset_served:
  assumes "uPath du = api_path []" and "ExtractRequesterInfo ctx = OK ri" and "valid_DatasetRequest m" and "plain_seg i"
    and "uuid_laws P"
  shows "SendHTTPRequest (serve_dataset P ch ctx (with_path du [''catalog'', ''datasets'', i]) m) =
     (case ca_dataset ch i ri of
        RpcOK ds \<Rightarrow> OK (Some (processProviderDataset P (ca_time ch) ds (getDataService ch)))
      | RpcError c e \<Rightarrow> ERR (Errorf ''received a non-200 status code'' []))"
  using assms by (simp add: serve_dataset_def served_path dispatch_simps datasetRequestHandler_def DecodeValid_def PathValue_def
      provider_dataset_valid EncodeValid_def SendHTTPRequest_def grpcErrorHandler_def catalogError_def plain_seg_def split: rpc_answer.splits grpc_code.splits)

section \<open>Properties\<close>

text \<open>Asking a connector for its catalogue through the control service of another gives exactly the
  datasets its provider service lists for the requester, in order, in the form \<open>as_listed\<close>: every
  description, keyword, size and checksum survives, but not the licence, the rights, the formats,
  the access methods and the parts of a second. Whatever error the provider service answers, the
  caller only sees that the provider is unavailable.\<close>

theorem catalogue_arrives:
  assumes "url_Parse L uri = Some u" and "uPath u = [] \<or> uPath u = ''/''" and "ct_version sv = serve_version"
    and "ExtractRequesterInfo ctx = OK ri" and "rfc3339 T" and "ca_time ch = T"
    and "\<And>ds. ca_catalogue ch ri = RpcOK ds \<Longrightarrow> list_all (listable P) ds"
  shows "GetProviderCatalogue L sv T (serve_catalogue P ch ctx) uri =
    (case ca_catalogue ch ri of
       RpcOK ds \<Rightarrow> Reply (Some (map (as_listed P) ds))
     | RpcError c e \<Rightarrow> Status Code_Unavailable ''could not request'')"
proof -
  obtain du where du: "getProviderURL L sv uri = Reply (Some du)" "uPath du = api_path []"
    using served_version_url[OF assms(1-3)] by blast
  have "map (processDataset T) (map (\<lambda>f. processProviderDataset P T f (getDataService ch)) ds) = map (as_listed P) ds"
    if "ca_catalogue ch ri = RpcOK ds" for ds
    using assms(7)[OF that] by (simp add: list_all_iff processDataset_provider[OF assms(5)])
  then show ?thesis
    using catalogue_served[OF du(2) assms(4), of "\<lparr>catm_Context = GetDSPContext, catm_Type = ''dspace:CatalogRequestMessage''\<rparr>" P ch]
    by (cases "ca_catalogue ch ri") (simp_all add: GetProviderCatalogue_def du(1) encodeRequestDecode_def ValidateAndMarshal_def
        valid_CatalogRequest_def UnmarshalAndValidate_def DecodeValid_def ack_valid processCatalogue_def
        processProviderCatalogue_def assms(6))
qed

text \<open>Asking for a dataset asks the peer's provider service for exactly that identifier, and gives its
  answer in the same form. The identifier a catalogue lists is the URN made of the service's own,
  so asking for a listed dataset asks the service for the URN and not for the identifier it knows.\<close>

theorem dataset_arrives:
  assumes "url_Parse L uri = Some u" and "uPath u = [] \<or> uPath u = ''/''" and "ct_version sv = serve_version"
    and "ExtractRequesterInfo ctx = OK ri" and "rfc3339 T" and "ca_time ch = T" and "uuid_laws L" and "plain_seg i"
    and "\<And>ds. ca_dataset ch i ri = RpcOK ds \<Longrightarrow> listable L ds"
  shows "GetProviderDataset L sv T (serve_dataset L ch ctx) uri i =
    (case ca_dataset ch i ri of
       RpcOK ds \<Rightarrow> Reply (Some (uri, as_listed L ds))
     | RpcError c e \<Rightarrow> Status Code_Unavailable ''could not request'')"
proof -
  obtain du where du: "getProviderURL L sv uri = Reply (Some du)" "uPath du = api_path []"
    using served_version_url[OF assms(1-3)] by blast
  have "IDToURN L i \<noteq> []" using IDToURN_is_urn[OF assms(7), of i] by (auto simp: HasPrefix_def ToLower_def)
  then have valid: "valid_DatasetRequest \<lparr>dsm_Context = GetDSPContext, dsm_Type = ''dspace:DatasetRequestMessage'',
      dsm_Dataset = IDToURN L i\<rparr>"
    by (simp add: valid_DatasetRequest_def required_def)
  show ?thesis
    using dataset_served[OF du(2) assms(4) valid assms(8,7), of ch] assms(9)
    by (cases "ca_dataset ch i ri") (simp_all add: processDataset_provider[OF assms(5)] GetProviderDataset_def du(1) encodeRequestDecode_def ValidateAndMarshal_def
        valid UnmarshalAndValidate_def DecodeValid_def provider_dataset_valid[OF assms(7)] assms(6))
qed

text \<open>An error of the provider service is answered with a protocol error that has the code of the
  status it is sent with; a caller that is not authenticated is told it is forbidden (403), and one
  that is not permitted that it is not authorised (401): the two codes are exchanged.\<close>

lemma status_texts: "show_nat 400 = ''400''" "show_nat 401 = ''401''" "show_nat 403 = ''403''" "show_nat 404 = ''404''"
  "show_nat 500 = ''500''"
  by code_simp+

theorem grpc_errors_mapped:
  "catalog_error_response (grpcErrorHandler code err) = \<lparr>status_code = st, resp_body = Some de\<rparr> \<Longrightarrow>
     de_Type de = ''dspace:CatalogError'' \<and> de_Code de = show_nat st \<and> de_Reason de \<noteq> []
     \<and> (st = 403 \<longleftrightarrow> code = Code_Unauthenticated) \<and> (st = 401 \<longleftrightarrow> code = Code_PermissionDenied)
     \<and> (st = 400 \<longleftrightarrow> code = Code_InvalidArgument) \<and> (st = 404 \<longleftrightarrow> code = Code_NotFound) \<and> st \<in> {400, 401, 403, 404, 500}"
  by (cases code) (auto simp: catalog_error_response_def grpcErrorHandler_def catalogError_def cate_ErrorType_def EncodeValid_def
      status_texts)

section \<open>Examples\<close>

text \<open>Times written as their seconds, in a year after the epoch.\<close>

definition sample_time :: time_pkg where
  "sample_time = \<lparr>time_Format = (\<lambda>t. show_nat (nat (ts_seconds t + 62135596800))),
     time_Parse = (\<lambda>s. Some \<lparr>ts_seconds = int (read_nat s) - 62135596800, ts_nanos = 0\<rparr>)\<rparr>"

lemma sample_time_laws: "rfc3339 sample_time"
  by (auto simp: rfc3339_def sample_time_def valid_timestamp_def)

definition sample_dataset :: rpc_dataset where
  "sample_dataset = \<lparr>rd_Id = ''7'', rd_Title = ''Wind'', rd_AccessMethods = ''http'', rd_Description = [],
     rd_Keywords = [''wind''], rd_Creator = None, rd_Issued = \<lparr>ts_seconds = 100, ts_nanos = 5\<rparr>, rd_Modified = epoch,
     rd_MediaType = ''text/csv'', rd_ByteSize = 42, rd_License = ''MIT'', rd_AccessRights = [], rd_Rights = [],
     rd_CompressFormat = [], rd_PackageFormat = [], rd_Checksum = None\<rparr>"

definition sample_catalog :: catalog_server where
  "sample_catalog = \<lparr>ca_catalogue = (\<lambda>_. RpcOK [sample_dataset]), ca_dataset = (\<lambda>i _. if i = ''7'' then RpcOK sample_dataset
     else RpcError Code_NotFound ''no dataset''), ca_time = sample_time, dataserviceID = [], dataserviceEndpoint = []\<rparr>"

lemma sample_listable: "listable sample_lib sample_dataset"
  by (simp add: listable_def sample_dataset_def valid_timestamp_def epoch_def) code_simp

lemma catalogue_arrives_witness:
  "GetProviderCatalogue sample_lib (sample_control\<lparr>ct_version := serve_version\<rparr>) sample_time
     (serve_catalogue sample_lib sample_catalog sample_ctx) ''/'' = Reply (Some [as_listed sample_lib sample_dataset])"
  using catalogue_arrives[of sample_lib "''/''" "\<lparr>uPath = ''/'', uRest = []\<rparr>" "sample_control\<lparr>ct_version := serve_version\<rparr>"
      sample_ctx sample_requester sample_time sample_catalog sample_lib] sample_listable
  by (simp add: sample_time_laws sample_catalog_def sample_ctx_def)

lemma dataset_arrives_witness:
  "GetProviderDataset sample_lib (sample_control\<lparr>ct_version := serve_version\<rparr>) sample_time
     (serve_dataset sample_lib sample_catalog sample_ctx) ''/'' ''7'' = Reply (Some (''/'', as_listed sample_lib sample_dataset))"
  using dataset_arrives[of sample_lib "''/''" "\<lparr>uPath = ''/'', uRest = []\<rparr>" "sample_control\<lparr>ct_version := serve_version\<rparr>"
      sample_ctx sample_requester sample_time sample_catalog "''7''"] sample_listable
  by (simp add: sample_time_laws sample_catalog_def sample_ctx_def plain_seg_def)

end
