(* ===== verification/Auth_Forwarder.thy ===== *)
theory Auth_Forwarder
  imports Samples
begin

text \<open>
  The rest of \<open>internal/authforwarder\<close>: the gRPC interceptors that carry the content of the
  authorisation header from one process of a participant to the next (\<open>grpcinjector.go\<close>), and the
  round tripper that signs outgoing HTTP requests (\<open>httpmiddleware.go\<close>); then what a request's
  authorisation becomes along a whole hop. The metadata package of gRPC and the authentication
  service are parameters.
\<close>

section \<open>gRPC calls\<close>

text \<open>
  What the interceptors use of gRPC's metadata: adding a pair to what goes out with a call, and what the
  callee finds of it, \<open>None\<close> when there is none at all. Documented of them: a pair that was added is
  found behind the values its key had, and no other key is touched.
\<close>

record 'm grpc_metadata =
  AppendToOutgoingContext :: "'m \<Rightarrow> string \<Rightarrow> string \<Rightarrow> 'm"
  FromIncomingContext :: "'m \<Rightarrow> (string \<Rightarrow> string list) option"

definition incoming_values :: "'m grpc_metadata \<Rightarrow> 'm \<Rightarrow> string \<Rightarrow> string list" where
  "incoming_values G m k = (case FromIncomingContext G m of None \<Rightarrow> [] | Some f \<Rightarrow> f k)"

definition metadata_laws :: "'m grpc_metadata \<Rightarrow> bool" where
  "metadata_laws G \<longleftrightarrow> (\<forall>m k v.
     FromIncomingContext G (AppendToOutgoingContext G m k v) \<noteq> None \<and>
     (\<forall>k'. incoming_values G (AppendToOutgoingContext G m k v) k' =
        incoming_values G m k' @ (if k' = k then [v] else [])))"

definition UnaryClientInterceptor :: "'m grpc_metadata \<Rightarrow> go_context \<Rightarrow> 'm \<Rightarrow> ('m \<Rightarrow> 'r) \<Rightarrow> 'r" where
  "UnaryClientInterceptor G ctx m invoker = invoker (AppendToOutgoingContext G m ''authorization'' (ExtractAuthorization ctx))"

definition StreamClientInterceptor :: "'m grpc_metadata \<Rightarrow> go_context \<Rightarrow> 'm \<Rightarrow> ('m \<Rightarrow> 'r) \<Rightarrow> 'r" where
  "StreamClientInterceptor G ctx m streamer = streamer (AppendToOutgoingContext G m ''authorization'' (ExtractAuthorization ctx))"

definition errMissingMetadata :: goerror where
  "errMissingMetadata = Errorf ''missing metadata'' []"

definition first_authorization :: "(string \<Rightarrow> string list) \<Rightarrow> string" where
  "first_authorization md = (case md ''authorization'' of [] \<Rightarrow> [] | ac # _ \<Rightarrow> ac)"

definition UnaryInterceptor :: "'m grpc_metadata \<Rightarrow> go_context \<Rightarrow> 'm \<Rightarrow> (go_context \<Rightarrow> 'r outcome) \<Rightarrow> 'r outcome" where
  "UnaryInterceptor G ctx m handler =
     (case FromIncomingContext G m of
        None \<Rightarrow> ERR errMissingMetadata
      | Some md \<Rightarrow> handler (InjectAuthorization ctx (first_authorization md)))"

text \<open>The handler of a stream finds the new context in the stream.\<close>

record 's server_stream =
  ServerStream :: 's
  stream_ctx :: go_context

definition StreamInterceptor :: "'m grpc_metadata \<Rightarrow> 's server_stream \<Rightarrow> 'm \<Rightarrow> ('s server_stream \<Rightarrow> 'r outcome) \<Rightarrow> 'r outcome" where
  "StreamInterceptor G ss m handler =
     (case FromIncomingContext G m of
        None \<Rightarrow> ERR errMissingMetadata
      | Some md \<Rightarrow> handler (ss\<lparr>stream_ctx := InjectAuthorization (stream_ctx ss) (first_authorization md)\<rparr>))"

section \<open>HTTP requests\<close>

text \<open>
  The URL of a request, in the parts the standard library treats differently: scheme and host, the
  escaped path, and the query with its question mark. The header is the list of its fields in order;
  \<open>Get\<close> answers the first value, \<open>Add\<close> appends one.
\<close>

record http_url =
  hu_Origin :: string
  hu_Path :: string
  hu_Query :: string

definition URL_String :: "http_url \<Rightarrow> string" where
  "URL_String u = hu_Origin u @ hu_Path u @ hu_Query u"

record http_request =
  rq_Method :: string
  rq_URL :: http_url
  rq_Header :: "(string \<times> string) list"

definition Header_Add :: "string \<Rightarrow> string \<Rightarrow> http_request \<Rightarrow> http_request" where
  "Header_Add k v rq = rq\<lparr>rq_Header := rq_Header rq @ [(k, v)]\<rparr>"

record RequestInfo =
  ri_Method :: string
  ri_Url :: string
  AuthenticationHeaderValue :: string

text \<open>
  The authentication service: it signs what goes out and verifies what comes in. Each call may fail.
\<close>

record authn_service =
  Sign :: "RequestInfo \<Rightarrow> string outcome"
  Verify :: "RequestInfo \<Rightarrow> RequesterInfo outcome"

definition RoundTrip :: "authn_service option \<Rightarrow> go_context \<Rightarrow> http_request \<Rightarrow> (http_request \<Rightarrow> 'r outcome) \<Rightarrow> 'r outcome" where
  "RoundTrip service ctx rq proxied =
     (case service of
        None \<Rightarrow> proxied rq
      | Some authn \<Rightarrow>
          (case Sign authn \<lparr>ri_Method = rq_Method rq, ri_Url = URL_String (rq_URL rq),
                            AuthenticationHeaderValue = ExtractAuthorization ctx\<rparr> of
             PANIC p \<Rightarrow> PANIC p
           | ERR e \<Rightarrow> ERR (wrapf ''could not sign outgoing request: %w'' e)
           | OK authVal \<Rightarrow> proxied (Header_Add ''Authorization'' authVal rq)))"

text \<open>
  A request passes both middlewares before its handler, on the context of its connection. The URL that
  is verified is the one the middleware finds in the request, not the one the sender asked for.
\<close>

definition received :: "authn_service option \<Rightarrow> http_request \<Rightarrow> http_answer outcome" where
  "received service rq =
     NewAuthNMiddleware
       (map_option (\<lambda>authn header. Verify authn \<lparr>ri_Method = rq_Method rq, ri_Url = URL_String (rq_URL rq),
          AuthenticationHeaderValue = header\<rparr>) service)
       (HTTPMiddleware (map_of (rq_Header rq) ''Authorization'') background)"

section \<open>Facts\<close>

lemma ExtractAuthorization_Inject [simp]: "ExtractAuthorization (InjectAuthorization ctx v) = v"
  by (simp add: ExtractAuthorization_def InjectAuthorization_def)

lemma ExtractAuthorization_HTTP [simp]:
  "ExtractAuthorization (HTTPMiddleware h ctx) = (case h of None \<Rightarrow> [] | Some v \<Rightarrow> v)"
  by (simp add: ExtractAuthorization_def HTTPMiddleware_def split: option.splits)

lemma first_authorization_appended:
  assumes "metadata_laws G" and "incoming_values G m ''authorization'' = []"
  obtains md where "FromIncomingContext G (AppendToOutgoingContext G m ''authorization'' v) = Some md"
    and "first_authorization md = v"
proof -
  obtain md where md: "FromIncomingContext G (AppendToOutgoingContext G m ''authorization'' v) = Some md"
    using assms(1) unfolding metadata_laws_def by blast
  have "md ''authorization'' = incoming_values G (AppendToOutgoingContext G m ''authorization'' v) ''authorization''"
    by (simp add: incoming_values_def md)
  also have "\<dots> = [v]" using assms unfolding metadata_laws_def by simp
  finally show thesis using that[OF md] by (simp add: first_authorization_def)
qed

text \<open>The authorisation of a request crosses a call between two processes unchanged: behind the two
  interceptors the callee's handler has in its context exactly what the caller had, for calls and
  for streams, and its own requester is untouched; so an HTTP request's header, empty when it has
  none, reaches the services the handler calls.\<close>

theorem authorization_crosses_call:
  assumes "metadata_laws G" and "incoming_values G m ''authorization'' = []"
  shows "UnaryClientInterceptor G ctx m (\<lambda>m'. UnaryInterceptor G callee m' handler) =
      handler (InjectAuthorization callee (ExtractAuthorization ctx))
    \<and> StreamClientInterceptor G ctx m (\<lambda>m'. StreamInterceptor G ss m' shandler) =
      shandler (ss\<lparr>stream_ctx := InjectAuthorization (stream_ctx ss) (ExtractAuthorization ctx)\<rparr>)
    \<and> UnaryClientInterceptor G (HTTPMiddleware header background) m
        (\<lambda>m'. UnaryInterceptor G callee m' (\<lambda>c. OK (ExtractAuthorization c, ctx_requester c))) =
      OK (case header of None \<Rightarrow> [] | Some v \<Rightarrow> v, ctx_requester callee)"
proof -
  have unary: "UnaryClientInterceptor G c m (\<lambda>m'. UnaryInterceptor G callee m' h) =
      h (InjectAuthorization callee (ExtractAuthorization c))" for c and h :: "go_context \<Rightarrow> 'x outcome"
    by (rule first_authorization_appended[OF assms, of "ExtractAuthorization c"])
      (simp add: UnaryClientInterceptor_def UnaryInterceptor_def)
  have "StreamClientInterceptor G ctx m (\<lambda>m'. StreamInterceptor G ss m' shandler) =
      shandler (ss\<lparr>stream_ctx := InjectAuthorization (stream_ctx ss) (ExtractAuthorization ctx)\<rparr>)"
    by (rule first_authorization_appended[OF assms, of "ExtractAuthorization ctx"])
      (simp add: StreamClientInterceptor_def StreamInterceptor_def)
  then show ?thesis by (simp add: unary) (simp add: InjectAuthorization_def)
qed

text \<open>Metadata that is the list of its pairs.\<close>

definition pair_metadata :: "(string \<times> string) list grpc_metadata" where
  "pair_metadata = \<lparr>AppendToOutgoingContext = (\<lambda>m k v. m @ [(k, v)]),
     FromIncomingContext = (\<lambda>m. Some (\<lambda>k. map snd (filter (\<lambda>p. fst p = k) m)))\<rparr>"

lemma pair_metadata_laws: "metadata_laws pair_metadata"
  by (simp add: metadata_laws_def incoming_values_def pair_metadata_def)

lemma authorization_crosses_call_witness:
  "UnaryClientInterceptor pair_metadata (HTTPMiddleware (Some ''Bearer x'') background) [(''trace'', ''1'')]
     (\<lambda>m. UnaryInterceptor pair_metadata background m (\<lambda>c. OK (ExtractAuthorization c, ctx_requester c))) =
   OK (''Bearer x'', None)"
proof -
  have "incoming_values pair_metadata [(''trace'', ''1'')] ''authorization'' = []"
    by (simp add: incoming_values_def pair_metadata_def)
  note r = authorization_crosses_call[OF pair_metadata_laws this, of background background
      "\<lambda>c. OK ()" "\<lparr>ServerStream = (), stream_ctx = background\<rparr>" "\<lambda>s. OK ()" "Some ''Bearer x''"]
  show ?thesis using r by (simp add: background_def)
qed

end
