(* ===== verification/Server.thy ===== *)
theory Server
  imports Catalog Routing
begin

text \<open>
  The start of a connector, \<open>internal/server/command.go\<close> with \<open>internal/cfg\<close>: the settings and the
  flags that are bound to them, the validation of a configuration, the TLS credentials, and the
  order in which the services are set up. The operating system, gRPC, SQLite and OpenTelemetry are
  one record of parameters; a \<open>viper\<close> is what the configuration library reads for each key.
\<close>

section \<open>The environment\<close>

text \<open>What the program asks of its surroundings. A file is read as a text; \<open>Stat\<close> tells whether a path is
  a directory; a pair of certificate and key is loaded from two files.\<close>

record environment =
  Listen_tcp :: "string \<Rightarrow> unit outcome"
  Dial_tcp :: "string \<Rightarrow> unit outcome"
  Stat :: "string \<Rightarrow> bool outcome"
  ReadFile :: "string \<Rightarrow> string outcome"
  AppendCertsFromPEM :: "string \<Rightarrow> bool"
  LoadX509KeyPair :: "string \<Rightarrow> string \<Rightarrow> string outcome"
  grpc_NewClient :: "string \<Rightarrow> unit outcome"
  ProviderPing :: "string \<Rightarrow> (string \<times> string) outcome"
  ContractConfigure :: "string \<Rightarrow> string \<Rightarrow> unit outcome"
  sql_Open :: "string \<Rightarrow> unit outcome"
  sql_Migrate :: "string \<Rightarrow> unit outcome"
  otel_Resource :: "string \<Rightarrow> unit outcome"
  otel_Exporter :: "bool \<Rightarrow> string \<Rightarrow> unit outcome"

definition host_port :: "string \<Rightarrow> int \<Rightarrow> string" where
  "host_port address port = address @ '':'' @ FormatInt port"

section \<open>Checks\<close>

definition CheckListenPort :: "environment \<Rightarrow> string \<Rightarrow> int \<Rightarrow> unit outcome" where
  "CheckListenPort E address port =
     (case Listen_tcp E (host_port address port) of ERR e \<Rightarrow> ERR (wrapf ''can't listen'' e) | r \<Rightarrow> r)"

definition CheckConnectAddr :: "environment \<Rightarrow> string \<Rightarrow> unit outcome" where
  "CheckConnectAddr E address =
     (case Dial_tcp E address of ERR e \<Rightarrow> ERR (wrapf ''can't connect'' e) | r \<Rightarrow> r)"

fun CheckFilesExist :: "environment \<Rightarrow> string list \<Rightarrow> unit outcome" where
  "CheckFilesExist E [] = OK ()"
| "CheckFilesExist E (f # files) =
     (if f = [] then ERR (Errorf ''provided file name is empty'' [])
      else (case Stat E f of
          PANIC p \<Rightarrow> PANIC p
        | ERR e \<Rightarrow> ERR (wrapf ''could not read file'' e)
        | OK is_dir \<Rightarrow> if is_dir then ERR (Errorf ''file is a directory'' []) else CheckFilesExist E files))"

section \<open>Settings and flags\<close>

datatype any_value = AnyInt int | AnyString string | AnyBool bool | AnyOther string

text \<open>The flags of the command by name, the flag each setting is bound to, and the settings' defaults.\<close>

record flag_set =
  flags :: "(string \<times> any_value) list"
  bindings :: "(string \<times> string) list"
  defaults :: "(string \<times> any_value) list"

text \<open>Defining a flag twice panics in the flag library.\<close>

definition define_flag :: "string \<Rightarrow> any_value \<Rightarrow> flag_set \<Rightarrow> flag_set outcome" where
  "define_flag flag v st =
     (if map_of (flags st) flag \<noteq> None then PANIC ''flag redefined''
      else OK (st\<lparr>flags := (flag, v) # flags st\<rparr>))"

definition AddPersistentFlag :: "string \<Rightarrow> string \<Rightarrow> any_value \<Rightarrow> flag_set \<Rightarrow> flag_set outcome" where
  "AddPersistentFlag configKey flag def st =
     obind (case def of AnyOther t \<Rightarrow> PANIC ''Unsupported type'' | _ \<Rightarrow> define_flag flag def st) (\<lambda>st1.
     OK (st1\<lparr>bindings := (configKey, flag) # bindings st1, defaults := (configKey, def) # defaults st1\<rparr>))"

fun add_flags :: "(string \<times> string \<times> any_value) list \<Rightarrow> flag_set \<Rightarrow> flag_set outcome" where
  "add_flags [] st = OK st"
| "add_flags ((k, f, v) # rest) st = obind (AddPersistentFlag k f v st) (add_flags rest)"

definition dsp_flags :: "(string \<times> string \<times> any_value) list" where
  "dsp_flags =
    [(''server.dsp.address'', ''dsp-address'', AnyString ''0.0.0.0''),
     (''server.dsp.port'', ''dsp-port'', AnyInt 8080),
     (''server.tracing.enabled'', ''tracing-enabled'', AnyBool False),
     (''server.tracing.grpc'', ''tracing-grpc'', AnyBool False),
     (''server.tracing.endpointUrl'', ''tracing-endpoint-url'', AnyString ''http://localhost:4318/v1/traces''),
     (''server.tracing.serviceName'', ''tracing-service-name'', AnyString ''run-dsp''),
     (''server.prometheusAddress'', ''otel-service-name'', AnyString ''run-dsp''),
     (''server.prometheusEnabled'', ''prometheus-enabled'', AnyBool False),
     (''server.prometheusAddress'', ''prometheus-address'', AnyString ''0.0.0.0''),
     (''server.prometheusPort'', ''prometheus-port'', AnyInt 8082),
     (''server.dsp.externalURL'', ''external-url'', AnyString '''')]"

definition service_flags :: "(string \<times> string \<times> any_value) list" where
  "service_flags =
    [(''server.provider.address'', ''provider-address'', AnyString ''''),
     (''server.provider.insecure'', ''provider-insecure'', AnyBool False),
     (''server.provider.caCert'', ''provider-ca-cert'', AnyString ''''),
     (''server.provider.clientCert'', ''provider-client-cert'', AnyString ''''),
     (''server.provider.clientCertKey'', ''provider-client-cert-key'', AnyString ''''),
     (''server.contractService.enabled'', ''contract-service-enabled'', AnyBool False),
     (''server.contractService.address'', ''contract-service-address'', AnyString ''''),
     (''server.contractService.insecure'', ''contract-service-insecure'', AnyBool False),
     (''server.contractService.caCert'', ''contract-service-ca-cert'', AnyString ''''),
     (''server.contractService.clientCert'', ''contract-service-client-cert'', AnyString ''''),
     (''server.contractService.clientCertKey'', ''contract-service-client-cert-key'', AnyString ''''),
     (''server.authnService.enabled'', ''authn-service-enabled'', AnyBool False),
     (''server.authnService.address'', ''authn-service-address'', AnyString ''''),
     (''server.authnService.insecure'', ''authn-service-insecure'', AnyBool False),
     (''server.authnService.caCert'', ''authn-service-ca-cert'', AnyString ''''),
     (''server.authnService.clientCert'', ''authn-service-client-cert'', AnyString ''''),
     (''server.authnService.clientCertKey'', ''authn-service-client-cert-key'', AnyString '''')]"

definition control_flags :: "(string \<times> string \<times> any_value) list" where
  "control_flags =
    [(''server.control.address'', ''control-address'', AnyString ''0.0.0.0''),
     (''server.control.port'', ''control-port'', AnyInt 8081),
     (''server.control.externalAddress'', ''control-external-address'', AnyString ''0.0.0.0:8081''),
     (''server.control.insecure'', ''control-insecure'', AnyBool False),
     (''server.control.cert'', ''control-cert'', AnyString ''''),
     (''server.control.certKey'', ''control-cert-key'', AnyString ''''),
     (''server.control.verifyClientCerts'', ''control-verify-client-certs'', AnyBool False),
     (''server.control.clientCACert'', ''control-client-ca-cert'', AnyString '''')]"

definition persistence_flags :: "(string \<times> string \<times> any_value) list" where
  "persistence_flags =
    [(''server.persistence.backend'', ''persistence-backend'', AnyString ''sqlite''),
     (''server.persistence.sqlite.memory'', ''sqlite-in-memory'', AnyBool True),
     (''server.persistence.sqlite.dbPath'', ''sqlite-dbpath'', AnyString '''')]"

definition all_flags :: "(string \<times> string \<times> any_value) list" where
  "all_flags = dsp_flags @ service_flags @ control_flags @ persistence_flags"

definition init_flags :: "flag_set outcome" where
  "init_flags = add_flags all_flags \<lparr>flags = [], bindings = [], defaults = []\<rparr>"

text \<open>
  What viper reads for a key: the flag bound to it when that was given, else what the environment or
  the configuration file has for it, else the default. A value of another type is cast; a value
  that has the type asked for is taken as it is.
\<close>

record caster =
  cast_string :: "any_value \<Rightarrow> string"
  cast_int :: "any_value \<Rightarrow> int"
  cast_bool :: "any_value \<Rightarrow> bool"

definition cast_laws :: "caster \<Rightarrow> bool" where
  "cast_laws C \<longleftrightarrow> (\<forall>s. cast_string C (AnyString s) = s) \<and> (\<forall>i. cast_int C (AnyInt i) = i)
     \<and> (\<forall>b. cast_bool C (AnyBool b) = b)"

definition viper_find :: "flag_set \<Rightarrow> (string \<Rightarrow> any_value option) \<Rightarrow> (string \<Rightarrow> any_value option) \<Rightarrow> string
    \<Rightarrow> any_value option" where
  "viper_find st given config key =
     (case (case map_of (bindings st) key of None \<Rightarrow> None | Some flag \<Rightarrow> given flag) of
        Some v \<Rightarrow> Some v
      | None \<Rightarrow> (case config key of Some v \<Rightarrow> Some v | None \<Rightarrow> map_of (defaults st) key))"

record viper =
  GetString :: "string \<Rightarrow> string"
  GetInt :: "string \<Rightarrow> int"
  GetBool :: "string \<Rightarrow> bool"

definition viper_of :: "caster \<Rightarrow> flag_set \<Rightarrow> (string \<Rightarrow> any_value option) \<Rightarrow> (string \<Rightarrow> any_value option) \<Rightarrow> viper" where
  "viper_of C st given config = \<lparr>
     GetString = (\<lambda>k. case viper_find st given config k of None \<Rightarrow> [] | Some v \<Rightarrow> cast_string C v),
     GetInt = (\<lambda>k. case viper_find st given config k of None \<Rightarrow> 0 | Some v \<Rightarrow> cast_int C v),
     GetBool = (\<lambda>k. case viper_find st given config k of None \<Rightarrow> False | Some v \<Rightarrow> cast_bool C v)\<rparr>"

section \<open>Validation\<close>

definition fail_if :: "bool \<Rightarrow> string \<Rightarrow> unit outcome" where
  "fail_if c msg = (if c then ERR (Errorf msg []) else OK ())"

definition check_provider :: "environment \<Rightarrow> viper \<Rightarrow> unit outcome" where
  "check_provider E V =
     (let ca = GetString V ''server.provider.caCert''; cert = GetString V ''server.provider.clientCert'';
          key = GetString V ''server.provider.clientCertKey'' in
      obind (CheckConnectAddr E (GetString V ''server.provider.address'')) (\<lambda>_.
      if GetBool V ''server.provider.insecure'' then OK ()
      else obind (fail_if (ca = []) ''provider service CA cert path is empty'') (\<lambda>_.
           obind (fail_if (cert = []) ''provider service cert path is empty'') (\<lambda>_.
           obind (fail_if (key = []) ''provider service cert key path is empty'') (\<lambda>_.
           CheckFilesExist E [ca, cert, key])))))"

definition check_contract_service :: "environment \<Rightarrow> viper \<Rightarrow> unit outcome" where
  "check_contract_service E V =
     (let ca = GetString V ''server.contractService.caCert''; cert = GetString V ''server.contractService.clientCert'';
          key = GetString V ''server.contractService.clientCertKey'' in
      if \<not> GetBool V ''server.contractService.enabled'' then OK ()
      else obind (CheckConnectAddr E (GetString V ''server.contractService.address'')) (\<lambda>_.
      if GetBool V ''server.contractService.insecure'' then OK ()
      else obind (fail_if (cert = []) ''contract service cert path is empty'') (\<lambda>_.
           obind (fail_if (key = []) ''contract service cert key path is empty'') (\<lambda>_.
           obind (CheckFilesExist E [cert, key]) (\<lambda>_.
           if ca \<noteq> [] then CheckFilesExist E [ca] else OK ())))))"

definition check_control :: "environment \<Rightarrow> viper \<Rightarrow> unit outcome" where
  "check_control E V =
     (let cert = GetString V ''server.control.cert''; key = GetString V ''server.control.certKey'';
          ca = GetString V ''server.control.clientCACert'' in
      obind (CheckListenPort E (GetString V ''server.control.address'') (GetInt V ''server.control.port'')) (\<lambda>_.
      if GetBool V ''server.control.insecure'' then OK ()
      else obind (fail_if (cert = []) ''control cert path is empty'') (\<lambda>_.
           obind (fail_if (key = []) ''control cert key path is empty'') (\<lambda>_.
           obind (CheckFilesExist E [cert, key]) (\<lambda>_.
           if GetBool V ''server.control.verifyClientCerts''
           then obind (fail_if (ca = []) ''control CA cert path is empty'') (\<lambda>_. CheckFilesExist E [ca])
           else OK ())))))"

definition check_persistence :: "viper \<Rightarrow> unit outcome" where
  "check_persistence V =
     (if GetString V ''server.persistence.backend'' = ''sqlite''
      then fail_if (GetBool V ''server.persistence.sqlite.memory'' \<and> GetString V ''server.persistence.sqlite.dbPath'' \<noteq> [])
             ''in-memory database is mutually exclusive with a database path''
      else ERR (Errorf ''invalid persistence backend'' []))"

definition PersistentPreRunE :: "'a lib_scheme \<Rightarrow> environment \<Rightarrow> viper \<Rightarrow> unit outcome" where
  "PersistentPreRunE L E V =
     (case url_Parse L (GetString V ''server.dsp.externalURL'') of
        None \<Rightarrow> ERR (Errorf ''invalid external URL'' [])
      | Some _ \<Rightarrow>
          obind (CheckListenPort E (GetString V ''server.dsp.address'') (GetInt V ''server.dsp.port'')) (\<lambda>_.
          obind (check_provider E V) (\<lambda>_.
          obind (check_contract_service E V) (\<lambda>_.
          obind (check_control E V) (\<lambda>_. check_persistence V)))))"

section \<open>The command\<close>

record tlsConfig =
  tls_Insecure :: bool
  CACert :: string
  ClientCert :: string
  ClientCertKey :: string

record server_command =
  ListenAddr :: string
  Port :: int
  OtelEnabled :: bool
  OtelGRPC :: bool
  OtelEndpointUrl :: string
  OtelServiceName :: string
  PrometheusEnabled :: bool
  PrometheusAddr :: string
  PrometheusPort :: int
  ExternalURL :: url
  ProviderAddress :: string
  ProviderTLSConfig :: tlsConfig
  ContractServiceEnabled :: bool
  ContractServiceAddress :: string
  ContractServiceTLSConfig :: tlsConfig
  AuthNServiceEnabled :: bool
  AuthNServiceAddress :: string
  AuthNServiceTLSConfig :: tlsConfig
  ControlListenAddr :: string
  ControlPort :: int
  ControlExternalAddr :: string
  ControlInsecure :: bool
  ControlCert :: string
  ControlCertKey :: string
  ControlVerifyClientCertificates :: bool
  ControlClientCACert :: string
  PersistenceBackend :: string
  SQLiteMemoryDB :: bool
  SQLiteDBPath :: string

text \<open>The command that is run, from the settings.\<close>

definition command_of :: "'a lib_scheme \<Rightarrow> viper \<Rightarrow> server_command outcome" where
  "command_of L V =
     (case url_Parse L (GetString V ''server.dsp.externalURL'') of
        None \<Rightarrow> PANIC ''invalid URL''
      | Some u \<Rightarrow> OK \<lparr>
          ListenAddr = GetString V ''server.dsp.address'',
          Port = GetInt V ''server.dsp.port'',
          OtelEnabled = GetBool V ''server.tracing.enabled'',
          OtelGRPC = GetBool V ''server.tracing.grpc'',
          OtelEndpointUrl = GetString V ''server.tracing.endpointUrl'',
          OtelServiceName = GetString V ''server.tracing.serviceName'',
          PrometheusEnabled = GetBool V ''server.prometheusEnabled'',
          PrometheusAddr = GetString V ''server.prometheusAddress'',
          PrometheusPort = GetInt V ''server.prometheusPort'',
          ExternalURL = u,
          ProviderAddress = GetString V ''server.provider.address'',
          ProviderTLSConfig = \<lparr>tls_Insecure = GetBool V ''server.provider.insecure'', CACert = GetString V ''server.provider.caCert'',
            ClientCert = GetString V ''server.provider.clientCert'', ClientCertKey = GetString V ''server.provider.clientCertKey''\<rparr>,
          ContractServiceEnabled = GetBool V ''server.contractService.enabled'',
          ContractServiceAddress = GetString V ''server.contractService.address'',
          ContractServiceTLSConfig = \<lparr>tls_Insecure = GetBool V ''server.contractService.insecure'',
            CACert = GetString V ''server.contractService.caCert'', ClientCert = GetString V ''server.contractService.clientCert'',
            ClientCertKey = GetString V ''server.contractService.clientCertKey''\<rparr>,
          AuthNServiceEnabled = GetBool V ''server.authnService.enabled'',
          AuthNServiceAddress = GetString V ''server.authnService.address'',
          AuthNServiceTLSConfig = \<lparr>tls_Insecure = GetBool V ''server.authnService.insecure'',
            CACert = GetString V ''server.authnService.caCert'', ClientCert = GetString V ''server.authnService.clientCert'',
            ClientCertKey = GetString V ''server.authnService.clientCertKey''\<rparr>,
          ControlListenAddr = GetString V ''server.control.address'',
          ControlPort = GetInt V ''server.control.port'',
          ControlExternalAddr = GetString V ''server.control.externalAddress'',
          ControlInsecure = GetBool V ''server.control.insecure'',
          ControlCert = GetString V ''server.control.cert'',
          ControlCertKey = GetString V ''server.control.certKey'',
          ControlVerifyClientCertificates = GetBool V ''server.control.verifyClientCerts'',
          ControlClientCACert = GetString V ''server.control.clientCACert'',
          PersistenceBackend = GetString V ''server.persistence.backend'',
          SQLiteMemoryDB = GetBool V ''server.persistence.sqlite.memory'',
          SQLiteDBPath = GetString V ''server.persistence.sqlite.dbPath''\<rparr>)"

section \<open>Credentials\<close>

datatype client_auth = NoClientCert | RequireAndVerifyClientCert

record tls_settings =
  MinVersion :: nat
  Certificates :: "string list"
  RootCAs :: "string option"
  ClientAuth :: client_auth
  ClientCAs :: "string option"

datatype credentials = InsecureCredentials | TLSCredentials tls_settings

definition VersionTLS12 :: nat where "VersionTLS12 = 0x0303"

text \<open>A pool is the file it was made of.\<close>

definition load_pool :: "environment \<Rightarrow> string \<Rightarrow> string outcome" where
  "load_pool E file =
     (case ReadFile E file of
        PANIC p \<Rightarrow> PANIC p
      | ERR e \<Rightarrow> ERR (wrapf ''couldn't read CA file'' e)
      | OK pem \<Rightarrow> if AppendCertsFromPEM E pem then OK pem else ERR (Errorf ''failed to add server CA certificate'' []))"

definition loadTLSCredentials :: "environment \<Rightarrow> tlsConfig \<Rightarrow> credentials outcome" where
  "loadTLSCredentials E t =
     (if tls_Insecure t then OK InsecureCredentials
      else (let config = \<lparr>MinVersion = VersionTLS12, Certificates = [], RootCAs = None, ClientAuth = NoClientCert, ClientCAs = None\<rparr> in
        obind (if CACert t \<noteq> [] then obind (load_pool E (CACert t)) (\<lambda>pool. OK (config\<lparr>RootCAs := Some pool\<rparr>)) else OK config) (\<lambda>config1.
        obind (if ClientCert t \<noteq> [] then obind (LoadX509KeyPair E (ClientCert t) (ClientCertKey t)) (\<lambda>pair.
            OK (config1\<lparr>Certificates := [pair]\<rparr>)) else OK config1) (\<lambda>config2.
        OK (TLSCredentials config2)))))"

definition loadControlTLSCredentials :: "environment \<Rightarrow> server_command \<Rightarrow> credentials outcome" where
  "loadControlTLSCredentials E c =
     (if ControlInsecure c then OK InsecureCredentials
      else obind (LoadX509KeyPair E (ControlCert c) (ControlCertKey c)) (\<lambda>pair.
        (let config = \<lparr>MinVersion = VersionTLS12, Certificates = [pair], RootCAs = None, ClientAuth = NoClientCert, ClientCAs = None\<rparr> in
         obind (if ControlVerifyClientCertificates c
            then obind (load_pool E (ControlClientCACert c)) (\<lambda>pool.
              OK (config\<lparr>ClientAuth := RequireAndVerifyClientCert, ClientCAs := Some pool\<rparr>))
            else OK config) (\<lambda>config1. OK (TLSCredentials config1)))))"

section \<open>Connections to services\<close>

record grpc_conn =
  conn_Address :: string
  conn_Creds :: credentials

definition getGRPCClient :: "environment \<Rightarrow> string \<Rightarrow> tlsConfig \<Rightarrow> grpc_conn outcome" where
  "getGRPCClient E address tlsc =
     obind (loadTLSCredentials E tlsc) (\<lambda>creds.
     case grpc_NewClient E address of
       PANIC p \<Rightarrow> PANIC p
     | ERR e \<Rightarrow> ERR (wrapf ''could not connect to the provider'' e)
     | OK _ \<Rightarrow> OK \<lparr>conn_Address = address, conn_Creds = creds\<rparr>)"

definition getProvider :: "environment \<Rightarrow> server_command \<Rightarrow> (grpc_conn \<times> string \<times> string) outcome" where
  "getProvider E c =
     obind (getGRPCClient E (ProviderAddress c) (ProviderTLSConfig c)) (\<lambda>conn.
     case ProviderPing E (ProviderAddress c) of
       PANIC p \<Rightarrow> PANIC p
     | ERR e \<Rightarrow> ERR (wrapf ''could not ping provider'' e)
     | OK ping \<Rightarrow> OK (conn, ping))"

definition optional_client :: "environment \<Rightarrow> bool \<Rightarrow> string \<Rightarrow> tlsConfig \<Rightarrow> grpc_conn option outcome" where
  "optional_client E enabled address tlsc =
     (if enabled then obind (getGRPCClient E address tlsc) (\<lambda>conn. OK (Some conn)) else OK None)"

definition getContractService :: "environment \<Rightarrow> server_command \<Rightarrow> grpc_conn option outcome" where
  "getContractService E c = optional_client E (ContractServiceEnabled c) (ContractServiceAddress c) (ContractServiceTLSConfig c)"

definition getAuthNService :: "environment \<Rightarrow> server_command \<Rightarrow> grpc_conn option outcome" where
  "getAuthNService E c = optional_client E (AuthNServiceEnabled c) (AuthNServiceAddress c) (AuthNServiceTLSConfig c)"

definition sqlite_path :: "bool \<Rightarrow> string \<Rightarrow> string" where
  "sqlite_path inMemory dbPath = (if inMemory then ''file::memory:?cache=shared'' else dbPath)"

definition getStorageProvider :: "environment \<Rightarrow> server_command \<Rightarrow> string outcome" where
  "getStorageProvider E c =
     (if PersistenceBackend c \<noteq> ''sqlite'' then ERR (Errorf ''invalid backend'' [])
      else (let path = sqlite_path (SQLiteMemoryDB c) (SQLiteDBPath c) in
        obind (sql_Open E path) (\<lambda>_. obind (sql_Migrate E path) (\<lambda>_. OK path))))"

section \<open>Setting up\<close>

text \<open>What setting up has started when it ends, also when it fails.\<close>

datatype started = StoreOpened string | ReconcilerRuns | ControlListens string | ControlServes string credentials
  | ContractServiceConfigured string

type_synonym 'a starting = "started list \<times> 'a outcome"

definition quietly :: "'a outcome \<Rightarrow> 'a starting" where
  "quietly r = ([], r)"

definition start :: "started \<Rightarrow> unit starting" where
  "start x = ([x], OK ())"

fun then_start :: "'a starting \<Rightarrow> ('a \<Rightarrow> 'b starting) \<Rightarrow> 'b starting" where
  "then_start (xs, OK x) k = (xs @ fst (k x), snd (k x))"
| "then_start (xs, ERR e) k = (xs, ERR e)"
| "then_start (xs, PANIC p) k = (xs, PANIC p)"

definition startControl :: "environment \<Rightarrow> server_command \<Rightarrow> credentials starting" where
  "startControl E c =
     (let address = host_port (ControlListenAddr c) (ControlPort c) in
      then_start (quietly (case Listen_tcp E address of ERR e \<Rightarrow> ERR (Errorf ''control: couldn't listen on port'' []) | r \<Rightarrow> r)) (\<lambda>_.
      then_start (start (ControlListens address)) (\<lambda>_.
      then_start (quietly (case loadControlTLSCredentials E c of
          ERR e \<Rightarrow> ERR (wrapf ''could not load TLS credentials'' e) | r \<Rightarrow> r)) (\<lambda>creds.
      then_start (start (ControlServes address creds)) (\<lambda>_.
      quietly (OK creds))))))"

definition configureContractService :: "environment \<Rightarrow> server_command \<Rightarrow> unit starting" where
  "configureContractService E c =
     then_start (quietly (ContractConfigure E (ContractServiceAddress c) (ControlExternalAddr c))) (\<lambda>_.
     start (ContractServiceConfigured (ControlExternalAddr c)))"

text \<open>The HTTP servers. The one for the protocol has the connector's own URL and what the provider said of
  itself when it was pinged; the routes are those of \<open>GetDSPRoutes\<close>.\<close>

datatype http_server = DataspaceServer string url string string | MetricsServer string

definition getDataspaceServer :: "server_command \<Rightarrow> url \<Rightarrow> string \<times> string \<Rightarrow> http_server" where
  "getDataspaceServer c selfURL ping =
     DataspaceServer (host_port (ListenAddr c) (Port c)) selfURL (fst ping) (snd ping)"

definition getMetricsServer :: "server_command \<Rightarrow> http_server" where
  "getMetricsServer c = MetricsServer (host_port (PrometheusAddr c) (PrometheusPort c))"

record services =
  grpcConnections :: "grpc_conn list"
  httpServices :: "http_server list"
  svc_store :: string
  svc_selfURL :: url
  svc_authn :: "grpc_conn option"
  svc_contract :: "grpc_conn option"
  svc_control :: credentials

definition self_url :: "'a lib_scheme \<Rightarrow> server_command \<Rightarrow> url outcome" where
  "self_url L c = obind (cloneURL L (ExternalURL c)) (\<lambda>u. OK (with_path u [APIPath]))"

definition setupServices :: "'a lib_scheme \<Rightarrow> environment \<Rightarrow> server_command \<Rightarrow> services starting" where
  "setupServices L E c =
     then_start (quietly (getProvider E c)) (\<lambda>(conn, ping).
     then_start (quietly (getStorageProvider E c)) (\<lambda>store.
     then_start (start (StoreOpened store)) (\<lambda>_.
     then_start (quietly (getAuthNService E c)) (\<lambda>authn.
     then_start (start ReconcilerRuns) (\<lambda>_.
     then_start (quietly (self_url L c)) (\<lambda>selfURL.
     then_start (quietly (getContractService E c)) (\<lambda>contract.
     then_start (startControl E c) (\<lambda>control.
     then_start (if contract \<noteq> None then configureContractService E c else quietly (OK ())) (\<lambda>_.
     quietly (OK \<lparr>
       grpcConnections = [conn] @ (case authn of None \<Rightarrow> [] | Some a \<Rightarrow> [a]) @ (case contract of None \<Rightarrow> [] | Some a \<Rightarrow> [a]),
       httpServices = [getDataspaceServer c selfURL ping] @ (if PrometheusEnabled c then [getMetricsServer c] else []),
       svc_store = store, svc_selfURL = selfURL, svc_authn = authn, svc_contract = contract, svc_control = control\<rparr>))))))))))"

section \<open>Telemetry\<close>

datatype exporter = NullExporter | OtlpGRPC string | OtlpHTTP string

record tracer_provider =
  tp_Batcher :: exporter
  tp_ServiceName :: "string option"

definition newTracerProvider :: "environment \<Rightarrow> bool \<Rightarrow> bool \<Rightarrow> string \<Rightarrow> string \<Rightarrow> tracer_provider outcome" where
  "newTracerProvider E enabled grpc endpointUrl serviceName =
     obind (otel_Resource E serviceName) (\<lambda>_.
     if \<not> enabled then OK \<lparr>tp_Batcher = NullExporter, tp_ServiceName = None\<rparr>
     else obind (otel_Exporter E grpc endpointUrl) (\<lambda>_.
       OK \<lparr>tp_Batcher = (if grpc then OtlpGRPC endpointUrl else OtlpHTTP endpointUrl), tp_ServiceName = Some serviceName\<rparr>))"

text \<open>The providers that shutting telemetry down shuts down; it is done once.\<close>

definition setupOTelSDK :: "environment \<Rightarrow> bool \<Rightarrow> bool \<Rightarrow> string \<Rightarrow> string \<Rightarrow> tracer_provider list outcome" where
  "setupOTelSDK E enabled grpc endpointUrl serviceName =
     obind (newTracerProvider E enabled grpc endpointUrl serviceName) (\<lambda>tp. OK [tp])"

definition otel_shutdown :: "(tracer_provider \<Rightarrow> unit outcome) \<Rightarrow> tracer_provider list \<Rightarrow> tracer_provider list \<times> goerror list" where
  "otel_shutdown Shutdown shutdownFuncs =
     ([], concat (map (\<lambda>tp. case Shutdown tp of ERR e \<Rightarrow> [e] | _ \<Rightarrow> []) shutdownFuncs))"

section \<open>Running\<close>

text \<open>
  Running the command up to the point where its servers accept requests; \<open>None\<close> when it ends before
  that without an error, as it does when telemetry can not be set up.
\<close>

definition Run :: "'a lib_scheme \<Rightarrow> environment \<Rightarrow> server_command \<Rightarrow> services option starting" where
  "Run L E c =
     (case setupOTelSDK E (OtelEnabled c) (OtelGRPC c) (OtelEndpointUrl c) (OtelServiceName c) of
        PANIC p \<Rightarrow> ([], PANIC p)
      | ERR e \<Rightarrow> ([], OK None)
      | OK _ \<Rightarrow> then_start (setupServices L E c) (\<lambda>sv. quietly (OK (Some sv))))"

text \<open>The command as a whole: validated, then run.\<close>

definition run_command :: "'a lib_scheme \<Rightarrow> environment \<Rightarrow> viper \<Rightarrow> services option starting" where
  "run_command L E V =
     then_start (quietly (PersistentPreRunE L E V)) (\<lambda>_.
     then_start (quietly (command_of L V)) (\<lambda>c. Run L E c))"

section \<open>Requests\<close>

text \<open>The middleware in front of every route: the handler, or an answer 400 when the request has a length
  and is not JSON. Headers are asked for by name; one that is missing is empty.\<close>

definition jsonHeaderMiddleware :: "(string \<Rightarrow> string) \<Rightarrow> 'r \<Rightarrow> (nat \<times> string) + 'r" where
  "jsonHeaderMiddleware header answer =
     (if header ''Content-Length'' \<noteq> [] \<and>
         header ''Content-Type'' \<notin> {''application/json'', ''application/json; charset=utf-8''}
      then Inl (400, ''Unsupported content-type: '' @ header ''Content-Type'') else Inr answer)"

end
