(* ===== verification/Server_Facts.thy ===== *)
theory Server_Facts
  imports Server Routing_Facts
begin

text \<open>
  What starting a connector guarantees: which flag sets which setting, that a configuration that was
  accepted starts, which connections are encrypted, and where the connector is reached.
\<close>

section \<open>Flags\<close>

lemma add_flags_OK:
  assumes "distinct (map (\<lambda>r. fst (snd r)) rs @ map fst (flags st))"
    and "list_all (\<lambda>r. case snd (snd r) of AnyOther t \<Rightarrow> False | _ \<Rightarrow> True) rs"
  shows "add_flags rs st = OK \<lparr>flags = rev (map snd rs) @ flags st,
     bindings = rev (map (\<lambda>r. (fst r, fst (snd r))) rs) @ bindings st,
     defaults = rev (map (\<lambda>r. (fst r, snd (snd r))) rs) @ defaults st\<rparr>"
  using assms
proof (induction rs arbitrary: st)
  case (Cons r rs)
  obtain k f v where r: "r = (k, f, v)" by (cases r) auto
  have "map_of (flags st) f = None" using Cons.prems(1) r by (auto simp: map_of_eq_None_iff)
  then have "AddPersistentFlag k f v st = OK (st\<lparr>flags := (f, v) # flags st, bindings := (k, f) # bindings st,
      defaults := (k, v) # defaults st\<rparr>)"
    using Cons.prems(2) r by (auto simp: AddPersistentFlag_def define_flag_def split: any_value.splits)
  then show ?case using Cons r by simp
qed simp

lemmas flag_tables = all_flags_def dsp_flags_def service_flags_def control_flags_def persistence_flags_def

lemma flags_distinct: "distinct (map (\<lambda>r. fst (snd r)) all_flags)"
  by (simp add: flag_tables)

text \<open>One setting is registered twice, with the flag of another; the later registration is the one that
  counts.\<close>

definition misplaced :: "string \<times> string \<times> any_value" where
  "misplaced = (''server.prometheusAddress'', ''otel-service-name'', AnyString ''run-dsp'')"

lemma flags_split:
  obtains A B where "all_flags = A @ [misplaced] @ B" and "distinct (map fst (A @ B))"
    and "fst misplaced \<in> set (map fst B)" and "''otel-service-name'' \<notin> set (map (\<lambda>r. fst (snd r)) (A @ B))"
proof
  let ?A = "take 6 all_flags" and ?B = "drop 7 all_flags"
  have "all_flags ! 6 = misplaced" "6 < length all_flags" by (simp_all add: flag_tables misplaced_def)
  then show "all_flags = ?A @ [misplaced] @ ?B" using id_take_nth_drop[of 6 all_flags] by simp
  show "distinct (map fst (?A @ ?B))" by (simp add: flag_tables)
  show "fst misplaced \<in> set (map fst ?B)" by (simp add: flag_tables misplaced_def)
  show "''otel-service-name'' \<notin> set (map (\<lambda>r. fst (snd r)) (?A @ ?B))" by (simp add: flag_tables)
qed

lemma map_of_rev: "distinct (map fst xs) \<Longrightarrow> map_of (rev xs) = map_of xs"
  by (rule map_of_inject_set[THEN iffD2]) (simp_all add: rev_map[symmetric])

lemma map_of_shadowed:
  assumes "distinct (map fst (A @ B))" and "k0 \<in> set (map fst B)"
  shows "map_of (rev (A @ [(k0, x)] @ B)) = map_of (A @ B)"
proof
  fix k
  have rev: "map_of (rev A) = map_of A" "map_of (rev B) = map_of B" using assms(1) by (simp_all add: map_of_rev)
  show "map_of (rev (A @ [(k0, x)] @ B)) k = map_of (A @ B) k"
  proof (cases "map_of B k")
    case None
    then have "k \<noteq> k0" using assms(2) by (auto simp: map_of_eq_None_iff)
    then show ?thesis using None rev by (simp add: map_add_def split: option.splits)
  next
    case (Some y)
    then have "k \<in> set (map fst B)" by (force dest: map_of_SomeD)
    then have "map_of A k = None" using assms(1) by (auto simp: map_of_eq_None_iff)
    then show ?thesis using Some rev by (simp add: map_add_def)
  qed
qed

lemma map_of_third:
  assumes "distinct (map fst rs)" and "(k, f, v) \<in> set rs"
  shows "map_of (map (\<lambda>r. (fst r, fst (snd r))) rs) k = Some f" "map_of (map (\<lambda>r. (fst r, snd (snd r))) rs) k = Some v"
  using assms by (auto intro!: map_of_is_SomeI simp: comp_def image_iff; force)+

lemma settings_of_flags:
  "\<exists>st. init_flags = OK st
    \<and> (\<forall>k f v given config. (k, f, v) \<in> set all_flags \<longrightarrow> f \<noteq> ''otel-service-name'' \<longrightarrow>
        viper_find st given config k = (case given f of Some x \<Rightarrow> Some x
          | None \<Rightarrow> (case config k of Some x \<Rightarrow> Some x | None \<Rightarrow> Some v)))
    \<and> (\<forall>given config x. viper_find st (given(''otel-service-name'' := x)) config = viper_find st given config)"
proof -
  obtain A B where AB: "all_flags = A @ [misplaced] @ B" "distinct (map fst (A @ B))" "fst misplaced \<in> set (map fst B)"
    "''otel-service-name'' \<notin> set (map (\<lambda>r. fst (snd r)) (A @ B))" by (rule flags_split)
  let ?bind = "\<lambda>r :: string \<times> string \<times> any_value. (fst r, fst (snd r))" and ?def = "\<lambda>r :: string \<times> string \<times> any_value. (fst r, snd (snd r))"
  obtain st where st: "init_flags = OK st" "bindings st = rev (map ?bind all_flags)" "defaults st = rev (map ?def all_flags)"
    unfolding init_flags_def using add_flags_OK[of all_flags "\<lparr>flags = [], bindings = [], defaults = []\<rparr>"] flags_distinct
    by (auto simp: flag_tables)
  note st' = st(2,3)[unfolded AB(1)]
  have b: "map_of (bindings st) = map_of (map ?bind (A @ B))"
    using map_of_shadowed[of "map ?bind A" "map ?bind B" "fst misplaced" "fst (snd misplaced)"] AB(2,3)
    by (simp add: st' comp_def del: map_of_append)
  have d: "map_of (defaults st) = map_of (map ?def (A @ B))"
    using map_of_shadowed[of "map ?def A" "map ?def B" "fst misplaced" "snd (snd misplaced)"] AB(2,3)
    by (simp add: st' comp_def del: map_of_append)
  have "map_of (bindings st) k = Some f \<and> map_of (defaults st) k = Some v"
    if "(k, f, v) \<in> set all_flags" "f \<noteq> ''otel-service-name''" for k f v
    using map_of_third[OF AB(2), of k f v] that b d by (simp add: AB(1) misplaced_def)
  moreover have "map_of (bindings st) k \<noteq> Some ''otel-service-name''" for k
    using AB(4) b by (auto dest!: map_of_SomeD)
  ultimately show ?thesis using st(1) by (auto simp: viper_find_def fun_eq_iff split: option.splits)
qed

text \<open>Registering the flags does not panic, and every setting has a flag of its own: its value is what the
  flag was given, else what the configuration has, else the flag's default. Only the flag
  \<open>otel-service-name\<close> sets nothing: whether and how it is given, every setting is the same.\<close>

theorem flag_sets_setting:
  shows "\<exists>st. init_flags = OK st
    \<and> (\<forall>k f v given config. (k, f, v) \<in> set all_flags \<longrightarrow> f \<noteq> ''otel-service-name'' \<longrightarrow>
        viper_find st given config k = (case given f of Some x \<Rightarrow> Some x
          | None \<Rightarrow> (case config k of Some x \<Rightarrow> Some x | None \<Rightarrow> Some v)))
    \<and> (\<forall>given config x. viper_find st (given(''otel-service-name'' := x)) config = viper_find st given config)"
  by (rule settings_of_flags)

section \<open>Starting\<close>

lemma then_start_OK: "snd (then_start m k) = OK y \<longleftrightarrow> (\<exists>x. snd m = OK x \<and> snd (k x) = OK y)"
  by (cases m; cases "snd m") auto

lemma then_start_eq: "then_start m k = (case snd m of OK x \<Rightarrow> (fst m @ fst (k x), snd (k x)) | ERR e \<Rightarrow> (fst m, ERR e)
    | PANIC p \<Rightarrow> (fst m, PANIC p))"
  by (cases m; cases "snd m") auto

lemma quietly_simps: "then_start (quietly (OK x)) k = k x" "fst (quietly r) = []" "snd (quietly r) = r"
  by (simp_all add: quietly_def)

lemma CheckFilesExist_OK: "CheckFilesExist E fs = OK () \<longleftrightarrow> (\<forall>f\<in>set fs. f \<noteq> [] \<and> Stat E f = OK False)"
  by (induction fs) (auto split: outcome.splits)

lemma fail_if_OK: "fail_if c msg = OK () \<longleftrightarrow> \<not> c"
  by (simp add: fail_if_def)

lemma wrap_OK: "(case r of ERR e \<Rightarrow> ERR (f e) | x \<Rightarrow> x) = OK y \<longleftrightarrow> r = OK y"
  by (cases r) auto

text \<open>A file that is there can be read and holds certificates, two that are there load as a pair.\<close>

definition good_files :: "environment \<Rightarrow> bool" where
  "good_files E \<longleftrightarrow> (\<forall>f. Stat E f = OK False \<longrightarrow> (\<exists>pem. ReadFile E f = OK pem \<and> AppendCertsFromPEM E pem))
     \<and> (\<forall>c k. Stat E c = OK False \<longrightarrow> Stat E k = OK False \<longrightarrow> (\<exists>p. LoadX509KeyPair E c k = OK p))"

text \<open>The files a TLS configuration names are there.\<close>

definition tls_files :: "environment \<Rightarrow> tlsConfig \<Rightarrow> bool" where
  "tls_files E t \<longleftrightarrow> tls_Insecure t \<or>
     ((CACert t = [] \<or> Stat E (CACert t) = OK False)
      \<and> (ClientCert t = [] \<or> Stat E (ClientCert t) = OK False \<and> Stat E (ClientCertKey t) = OK False))"

lemma load_pool_OK: "good_files E \<Longrightarrow> Stat E f = OK False \<Longrightarrow> \<exists>pem. load_pool E f = OK pem"
  by (fastforce simp: good_files_def load_pool_def)

lemma loadTLS_loads:
  assumes "good_files E" and "tls_files E t"
  shows "\<exists>c. loadTLSCredentials E t = OK c"
proof (cases "tls_Insecure t")
  case False
  have ca: "CACert t = [] \<or> (\<exists>pem. load_pool E (CACert t) = OK pem)"
    using assms False load_pool_OK by (auto simp: tls_files_def)
  have pair: "ClientCert t = [] \<or> (\<exists>p. LoadX509KeyPair E (ClientCert t) (ClientCertKey t) = OK p)"
    using assms False by (auto simp: tls_files_def good_files_def)
  show ?thesis using ca pair False by (auto simp: loadTLSCredentials_def Let_def)
qed (simp add: loadTLSCredentials_def)

lemma getGRPCClient_connects:
  assumes "good_files E" and "tls_files E t" and "grpc_NewClient E a = OK ()"
  shows "\<exists>conn. getGRPCClient E a t = OK conn"
  using loadTLS_loads[OF assms(1,2)] assms(3) by (auto simp: getGRPCClient_def)

lemma optional_client_connects:
  assumes "good_files E" and "enabled \<Longrightarrow> tls_files E t" and "grpc_NewClient E a = OK ()"
  shows "\<exists>x. optional_client E enabled a t = OK x \<and> (x \<noteq> None \<longleftrightarrow> enabled)"
  using getGRPCClient_connects[OF assms(1) _ assms(3)] assms(2) by (cases enabled) (fastforce simp: optional_client_def)+

text \<open>What the validation has found out of the settings.\<close>

lemma validated:
  assumes "PersistentPreRunE L E V = OK ()" and "command_of L V = OK c"
  shows "tls_files E (ProviderTLSConfig c)"
    and "\<not> tls_Insecure (ProviderTLSConfig c) \<Longrightarrow> CACert (ProviderTLSConfig c) \<noteq> [] \<and> ClientCert (ProviderTLSConfig c) \<noteq> []"
    and "ContractServiceEnabled c \<Longrightarrow> tls_files E (ContractServiceTLSConfig c)"
    and "ContractServiceEnabled c \<Longrightarrow> \<not> tls_Insecure (ContractServiceTLSConfig c) \<Longrightarrow> ClientCert (ContractServiceTLSConfig c) \<noteq> []"
    and "Listen_tcp E (host_port (ControlListenAddr c) (ControlPort c)) = OK ()"
    and "\<not> ControlInsecure c \<Longrightarrow> Stat E (ControlCert c) = OK False \<and> Stat E (ControlCertKey c) = OK False"
    and "\<not> ControlInsecure c \<Longrightarrow> ControlVerifyClientCertificates c \<Longrightarrow> Stat E (ControlClientCACert c) = OK False"
    and "PersistenceBackend c = ''sqlite''" and "SQLiteMemoryDB c \<Longrightarrow> SQLiteDBPath c = []"
proof -
  have ok: "check_provider E V = OK ()" "check_contract_service E V = OK ()" "check_control E V = OK ()"
    "check_persistence V = OK ()"
    using assms(1) by (auto simp: PersistentPreRunE_def outcome_simps split: option.splits)
  note checks = CheckFilesExist_OK fail_if_OK outcome_simps Let_def
  obtain u where c: "url_Parse L (GetString V ''server.dsp.externalURL'') = Some u"
    using assms(2) by (auto simp: command_of_def split: option.splits)
  note c = assms(2)[unfolded command_of_def c option.case outcome.inject, symmetric]
  show "tls_files E (ProviderTLSConfig c)"
    "\<not> tls_Insecure (ProviderTLSConfig c) \<Longrightarrow> CACert (ProviderTLSConfig c) \<noteq> [] \<and> ClientCert (ProviderTLSConfig c) \<noteq> []"
    using ok(1) by (auto simp: check_provider_def checks c tls_files_def simp del: CheckFilesExist.simps)
  show "ContractServiceEnabled c \<Longrightarrow> tls_files E (ContractServiceTLSConfig c)"
    "ContractServiceEnabled c \<Longrightarrow> \<not> tls_Insecure (ContractServiceTLSConfig c) \<Longrightarrow> ClientCert (ContractServiceTLSConfig c) \<noteq> []"
    using ok(2) by (auto simp: check_contract_service_def checks c tls_files_def simp del: CheckFilesExist.simps split: if_splits)
  show "Listen_tcp E (host_port (ControlListenAddr c) (ControlPort c)) = OK ()"
    "\<not> ControlInsecure c \<Longrightarrow> Stat E (ControlCert c) = OK False \<and> Stat E (ControlCertKey c) = OK False"
    "\<not> ControlInsecure c \<Longrightarrow> ControlVerifyClientCertificates c \<Longrightarrow> Stat E (ControlClientCACert c) = OK False"
    using ok(3) by (auto simp: check_control_def CheckListenPort_def wrap_OK checks c simp del: CheckFilesExist.simps)
  show "PersistenceBackend c = ''sqlite''" "SQLiteMemoryDB c \<Longrightarrow> SQLiteDBPath c = []"
    using ok(4) by (auto simp: check_persistence_def fail_if_OK c split: if_splits)
qed

lemma loadControlTLS_loads:
  assumes "PersistentPreRunE L E V = OK ()" and "command_of L V = OK c" and "good_files E"
  shows "\<exists>creds. loadControlTLSCredentials E c = OK creds"
proof (cases "ControlInsecure c")
  case False
  obtain pair where "LoadX509KeyPair E (ControlCert c) (ControlCertKey c) = OK pair"
    using validated(6)[OF assms(1,2) False] assms(3) unfolding good_files_def by blast
  moreover have "ControlVerifyClientCertificates c \<Longrightarrow> \<exists>pem. load_pool E (ControlClientCACert c) = OK pem"
    using validated(7)[OF assms(1,2) False] load_pool_OK[OF assms(3)] by blast
  ultimately show ?thesis using False by (auto simp: loadControlTLSCredentials_def Let_def)
qed (simp add: loadControlTLSCredentials_def)

text \<open>The services around the connector are up, and the authentication service, which the validation does
  not look at, is off or has its files.\<close>

definition surroundings_up :: "environment \<Rightarrow> server_command \<Rightarrow> bool" where
  "surroundings_up E c \<longleftrightarrow> (\<forall>a. grpc_NewClient E a = OK ()) \<and> is_OK (ProviderPing E (ProviderAddress c))
     \<and> (ContractServiceEnabled c \<longrightarrow> ContractConfigure E (ContractServiceAddress c) (ControlExternalAddr c) = OK ())
     \<and> (let path = sqlite_path (SQLiteMemoryDB c) (SQLiteDBPath c) in sql_Open E path = OK () \<and> sql_Migrate E path = OK ())
     \<and> is_OK (setupOTelSDK E (OtelEnabled c) (OtelGRPC c) (OtelEndpointUrl c) (OtelServiceName c))
     \<and> (AuthNServiceEnabled c \<longrightarrow> tls_files E (AuthNServiceTLSConfig c))"

lemma services_set_up:
  assumes "PersistentPreRunE L E V = OK ()" and "command_of L V = OK c" and "url_ok L (ExternalURL c)"
    and "good_files E" and "surroundings_up E c"
  shows "\<exists>sv. setupServices L E c =
      ([StoreOpened (svc_store sv), ReconcilerRuns, ControlListens (host_port (ControlListenAddr c) (ControlPort c)),
        ControlServes (host_port (ControlListenAddr c) (ControlPort c)) (svc_control sv)]
       @ (if ContractServiceEnabled c then [ContractServiceConfigured (ControlExternalAddr c)] else []), OK sv)
    \<and> svc_selfURL sv = with_path (ExternalURL c) [APIPath]
    \<and> (svc_authn sv \<noteq> None \<longleftrightarrow> AuthNServiceEnabled c) \<and> (svc_contract sv \<noteq> None \<longleftrightarrow> ContractServiceEnabled c)"
proof -
  note up = assms(5)[unfolded surroundings_up_def Let_def]
  note ok = validated[OF assms(1,2)]
  obtain conn where conn: "getGRPCClient E (ProviderAddress c) (ProviderTLSConfig c) = OK conn"
    using getGRPCClient_connects[OF assms(4) ok(1)] up by blast
  obtain ping where ping: "ProviderPing E (ProviderAddress c) = OK ping" using up by (auto simp: is_OK_iff)
  have "\<exists>a. getAuthNService E c = OK a \<and> (a \<noteq> None \<longleftrightarrow> AuthNServiceEnabled c)"
    unfolding getAuthNService_def by (rule optional_client_connects[OF assms(4)]) (use up in simp_all)
  then obtain an where an: "getAuthNService E c = OK an" "an \<noteq> None \<longleftrightarrow> AuthNServiceEnabled c" by blast
  have "\<exists>a. getContractService E c = OK a \<and> (a \<noteq> None \<longleftrightarrow> ContractServiceEnabled c)"
    unfolding getContractService_def by (rule optional_client_connects[OF assms(4)]) (use up ok(3) in simp_all)
  then obtain cs where cs: "getContractService E c = OK cs" "cs \<noteq> None \<longleftrightarrow> ContractServiceEnabled c" by blast
  obtain creds where creds: "loadControlTLSCredentials E c = OK creds" using loadControlTLS_loads[OF assms(1,2,4)] by blast
  have store: "getStorageProvider E c = OK (sqlite_path (SQLiteMemoryDB c) (SQLiteDBPath c))"
    using up ok(8) by (simp add: getStorageProvider_def)
  have self: "self_url L c = OK (with_path (ExternalURL c) [APIPath])" using assms(3) by (simp add: self_url_def)
  let ?a = "host_port (ControlListenAddr c) (ControlPort c)" and ?s = "sqlite_path (SQLiteMemoryDB c) (SQLiteDBPath c)"
  have provider: "getProvider E c = OK (conn, ping)" using conn ping by (simp add: getProvider_def)
  have control: "startControl E c = ([ControlListens ?a, ControlServes ?a creds], OK creds)"
    using ok(5) creds by (simp add: startControl_def Let_def quietly_def start_def)
  have configured: "(if cs \<noteq> None then configureContractService E c else quietly (OK ())) =
      (if ContractServiceEnabled c then [ContractServiceConfigured (ControlExternalAddr c)] else [], OK ())"
    using cs(2) up by (simp add: configureContractService_def quietly_def start_def)
  obtain sv where "setupServices L E c = ([StoreOpened ?s, ReconcilerRuns, ControlListens ?a, ControlServes ?a creds]
        @ (if ContractServiceEnabled c then [ContractServiceConfigured (ControlExternalAddr c)] else []), OK sv)"
      "svc_store sv = ?s" "svc_control sv = creds" "svc_selfURL sv = with_path (ExternalURL c) [APIPath]" "svc_authn sv = an" "svc_contract sv = cs"
    unfolding setupServices_def provider store an(1) self cs(1) control
    by (simp add: start_def quietly_simps configured del: not_None_eq)
  then show ?thesis using an(2) cs(2) by (intro exI[of _ sv]) simp
qed

lemma run_command_set_up:
  assumes "PersistentPreRunE L E V = OK ()" and "command_of L V = OK c" and "surroundings_up E c"
    and "setupServices L E c = (xs, OK sv)"
  shows "run_command L E V = (xs, OK (Some sv))"
  using assms by (auto simp: run_command_def Run_def quietly_def surroundings_up_def is_OK_iff)

text \<open>C27: a connector whose configuration was accepted starts, when the files that were found are good and
  the services it needs are up: it opens its store, runs the reconciler, then serves the control
  service, and tells an enabled contract service where that is; its own URL is the external one
  extended by the path of the API. The authentication service is not looked at by the validation,
  so that its files are there is a condition.\<close>

theorem validated_server_starts:
  assumes "PersistentPreRunE L E V = OK ()" and "command_of L V = OK c" and "url_ok L (ExternalURL c)"
    and "good_files E" and "surroundings_up E c"
  shows "\<exists>sv. run_command L E V =
      ([StoreOpened (svc_store sv), ReconcilerRuns, ControlListens (host_port (ControlListenAddr c) (ControlPort c)),
        ControlServes (host_port (ControlListenAddr c) (ControlPort c)) (svc_control sv)]
       @ (if ContractServiceEnabled c then [ContractServiceConfigured (ControlExternalAddr c)] else []), OK (Some sv))
    \<and> svc_selfURL sv = with_path (ExternalURL c) [APIPath]
    \<and> (svc_authn sv \<noteq> None \<longleftrightarrow> AuthNServiceEnabled c) \<and> (svc_contract sv \<noteq> None \<longleftrightarrow> ContractServiceEnabled c)"
  using services_set_up[OF assms] run_command_set_up[OF assms(1,2,5)] by fastforce

section \<open>Encryption\<close>

lemma loadTLS_OK:
  assumes "loadTLSCredentials E t = OK creds"
  shows "tls_Insecure t \<and> creds = InsecureCredentials
    \<or> \<not> tls_Insecure t \<and> (\<exists>s. creds = TLSCredentials s \<and> MinVersion s = VersionTLS12
        \<and> (CACert t \<noteq> [] \<longrightarrow> (\<exists>pem. RootCAs s = Some pem \<and> ReadFile E (CACert t) = OK pem))
        \<and> (ClientCert t \<noteq> [] \<longrightarrow> (\<exists>p. Certificates s = [p] \<and> LoadX509KeyPair E (ClientCert t) (ClientCertKey t) = OK p)))"
  using assms by (auto simp: loadTLSCredentials_def load_pool_def Let_def outcome_simps split: if_splits outcome.splits)

lemma loadControlTLS_OK:
  assumes "loadControlTLSCredentials E c = OK creds"
  shows "ControlInsecure c \<and> creds = InsecureCredentials
    \<or> \<not> ControlInsecure c \<and> (\<exists>s p. creds = TLSCredentials s \<and> MinVersion s = VersionTLS12 \<and> Certificates s = [p]
        \<and> LoadX509KeyPair E (ControlCert c) (ControlCertKey c) = OK p
        \<and> (ControlVerifyClientCertificates c \<longrightarrow> ClientAuth s = RequireAndVerifyClientCert
             \<and> (\<exists>pem. ClientCAs s = Some pem \<and> ReadFile E (ControlClientCACert c) = OK pem)))"
  using assms by (auto simp: loadControlTLSCredentials_def load_pool_def Let_def outcome_simps split: if_splits outcome.splits)

lemma getGRPCClient_OK: "getGRPCClient E a t = OK conn \<Longrightarrow> conn_Address conn = a \<and> loadTLSCredentials E t = OK (conn_Creds conn)"
  by (cases "loadTLSCredentials E t"; cases "grpc_NewClient E a") (auto simp: getGRPCClient_def)

lemma optional_client_OK:
  "optional_client E enabled a t = OK (Some conn) \<Longrightarrow> enabled \<and> conn_Address conn = a \<and> loadTLSCredentials E t = OK (conn_Creds conn)"
  by (auto simp: optional_client_def outcome_simps dest: getGRPCClient_OK split: if_splits)

lemma startControl_OK: "snd (startControl E c) = OK creds \<Longrightarrow> loadControlTLSCredentials E c = OK creds"
  by (auto simp: startControl_def Let_def then_start_OK quietly_def start_def wrap_OK)

lemma getProvider_OK: "getProvider E c = OK (conn, ping) \<Longrightarrow> getGRPCClient E (ProviderAddress c) (ProviderTLSConfig c) = OK conn"
  by (cases "ProviderPing E (ProviderAddress c)") (auto simp: getProvider_def outcome_simps)

lemma setupServices_OK:
  assumes "snd (setupServices L E c) = OK sv"
  shows "\<exists>conn. getGRPCClient E (ProviderAddress c) (ProviderTLSConfig c) = OK conn \<and> hd (grpcConnections sv) = conn"
    and "getAuthNService E c = OK (svc_authn sv)" and "getContractService E c = OK (svc_contract sv)"
    and "loadControlTLSCredentials E c = OK (svc_control sv)" and "self_url L c = OK (svc_selfURL sv)"
    and "getStorageProvider E c = OK (svc_store sv)"
  using assms
  by (auto simp: setupServices_def then_start_OK quietly_def start_def dest!: startControl_OK getProvider_OK)

lemma run_command_OK:
  assumes "run_command L E V = (ev, OK (Some sv))"
  shows "\<exists>c. PersistentPreRunE L E V = OK () \<and> command_of L V = OK c \<and> snd (setupServices L E c) = OK sv"
proof -
  have "snd (run_command L E V) = OK (Some sv)" using assms by simp
  then obtain c where c: "PersistentPreRunE L E V = OK ()" "command_of L V = OK c" "snd (Run L E c) = OK (Some sv)"
    by (auto simp: run_command_def then_start_OK quietly_def)
  then show ?thesis
    by (cases "setupOTelSDK E (OtelEnabled c) (OtelGRPC c) (OtelEndpointUrl c) (OtelServiceName c)")
      (auto simp: Run_def then_start_OK quietly_def)
qed

text \<open>TLS of at least version 1.2 under which a client certificate is presented.\<close>

definition presents_certificate :: "credentials \<Rightarrow> bool" where
  "presents_certificate creds = (case creds of InsecureCredentials \<Rightarrow> False
     | TLSCredentials s \<Rightarrow> VersionTLS12 \<le> MinVersion s \<and> Certificates s \<noteq> [])"

lemma certificate_loaded:
  assumes "loadTLSCredentials E t = OK creds" and "\<not> tls_Insecure t" and "ClientCert t \<noteq> []"
  shows "presents_certificate creds"
  using loadTLS_OK[OF assms(1)] assms(2,3) by (auto simp: presents_certificate_def)

text \<open>C28: in a connector that runs, the connections to the provider and to the contract service and the
  control service use TLS of at least version 1.2 with a certificate of the connector, unless the
  setting that turns TLS off was given for that very service; with client verification on, the
  control service requires certificates issued by the configured authority. The authentication
  service is encrypted on the same condition, but perhaps without a certificate.\<close>

theorem services_are_encrypted:
  assumes "run_command L E V = (ev, OK (Some sv))"
  shows "(GetBool V ''server.provider.insecure'' \<or> presents_certificate (conn_Creds (hd (grpcConnections sv))))
    \<and> (\<forall>conn. svc_contract sv = Some conn \<longrightarrow> GetBool V ''server.contractService.insecure'' \<or> presents_certificate (conn_Creds conn))
    \<and> (\<forall>conn. svc_authn sv = Some conn \<longrightarrow> GetBool V ''server.authnService.insecure'' \<or> conn_Creds conn \<noteq> InsecureCredentials)
    \<and> (GetBool V ''server.control.insecure'' \<or> presents_certificate (svc_control sv)
        \<and> (GetBool V ''server.control.verifyClientCerts'' \<longrightarrow> (\<exists>s pem. svc_control sv = TLSCredentials s
            \<and> ClientAuth s = RequireAndVerifyClientCert \<and> ClientCAs s = Some pem
            \<and> ReadFile E (GetString V ''server.control.clientCACert'') = OK pem)))"
proof -
  obtain c where run: "PersistentPreRunE L E V = OK ()" "command_of L V = OK c" "snd (setupServices L E c) = OK sv"
    using run_command_OK[OF assms] by blast
  have c: "tls_Insecure (ProviderTLSConfig c) = GetBool V ''server.provider.insecure''"
    "tls_Insecure (ContractServiceTLSConfig c) = GetBool V ''server.contractService.insecure''"
    "tls_Insecure (AuthNServiceTLSConfig c) = GetBool V ''server.authnService.insecure''"
    "ControlInsecure c = GetBool V ''server.control.insecure''"
    "ControlVerifyClientCertificates c = GetBool V ''server.control.verifyClientCerts''"
    "ControlClientCACert c = GetString V ''server.control.clientCACert''"
    using run(2) by (auto simp: command_of_def split: option.splits)
  note ok = validated[OF run(1,2)] and sv = setupServices_OK[OF run(3)]
  have "GetBool V ''server.provider.insecure'' \<or> presents_certificate (conn_Creds (hd (grpcConnections sv)))"
    using sv(1) ok(2) c(1) getGRPCClient_OK certificate_loaded by metis
  moreover have "GetBool V ''server.contractService.insecure'' \<or> presents_certificate (conn_Creds conn)" if "svc_contract sv = Some conn" for conn
    using sv(3) that ok(4) c(2) optional_client_OK certificate_loaded unfolding getContractService_def by metis
  moreover have "GetBool V ''server.authnService.insecure'' \<or> conn_Creds conn \<noteq> InsecureCredentials" if "svc_authn sv = Some conn" for conn
    using sv(2) that c(3) optional_client_OK loadTLS_OK unfolding getAuthNService_def by (metis credentials.distinct(1))
  moreover have "GetBool V ''server.control.insecure'' \<or> presents_certificate (svc_control sv)
      \<and> (GetBool V ''server.control.verifyClientCerts'' \<longrightarrow> (\<exists>s pem. svc_control sv = TLSCredentials s
          \<and> ClientAuth s = RequireAndVerifyClientCert \<and> ClientCAs s = Some pem
          \<and> ReadFile E (GetString V ''server.control.clientCACert'') = OK pem))"
    using loadControlTLS_OK[OF sv(4)] c(4-6) by (auto simp: presents_certificate_def)
  ultimately show ?thesis by blast
qed

section \<open>Where the connector is reached\<close>

text \<open>A connector whose external URL has no path is its own API: whatever is sent to a path under its own
  URL is dispatched along its routes.\<close>

theorem self_url_served:
  assumes "run_command L E V = (ev, OK (Some sv))" and "command_of L V = OK c" and "url_ok L (ExternalURL c)"
    and "uPath (ExternalURL c) = [] \<or> uPath (ExternalURL c) = ''/''" and "list_all plain_seg ws"
  shows "uPath (svc_selfURL sv) = api_path []
    \<and> (ws \<noteq> [] \<longrightarrow> ServeHTTP m (uPath (with_path (svc_selfURL sv) ws)) = first_match m ws GetDSPRoutes)"
proof -
  have "snd (setupServices L E c) = OK sv" using run_command_OK[OF assms(1)] assms(2) by auto
  then have "self_url L c = OK (svc_selfURL sv)" by (rule setupServices_OK(5))
  then have self: "svc_selfURL sv = with_path (ExternalURL c) [APIPath]" using assms(3) by (simp add: self_url_def)
  have path: "uPath (svc_selfURL sv) = api_path []"
    using assms(4) by (auto simp: self with_path_def APIPath_def api_path_simps; code_simp)
  then show ?thesis using with_path_api[OF path _ assms(5)] assms(5) by (auto simp: ServeHTTP_api)
qed

section \<open>Examples\<close>

definition sample_env :: environment where
  "sample_env = \<lparr>Listen_tcp = (\<lambda>_. OK ()), Dial_tcp = (\<lambda>_. OK ()), Stat = (\<lambda>f. OK (f = ''/etc'')),
     ReadFile = (\<lambda>f. OK f), AppendCertsFromPEM = (\<lambda>_. True), LoadX509KeyPair = (\<lambda>c k. OK (c @ k)),
     grpc_NewClient = (\<lambda>_. OK ()), ProviderPing = (\<lambda>_. OK (''id'', ''http://provider'')),
     ContractConfigure = (\<lambda>_ _. OK ()), sql_Open = (\<lambda>_. OK ()), sql_Migrate = (\<lambda>_. OK ()),
     otel_Resource = (\<lambda>_. OK ()), otel_Exporter = (\<lambda>_ _. OK ())\<rparr>"

text \<open>Certificates everywhere, and the clients of the control service have to present theirs.\<close>

definition sample_viper :: viper where
  "sample_viper = \<lparr>
     GetString = (\<lambda>k. if k = ''server.persistence.backend'' then ''sqlite''
        else if k = ''server.dsp.externalURL'' then ''/'' else if k = ''server.persistence.sqlite.dbPath'' then [] else ''/tls/'' @ k),
     GetInt = (\<lambda>_. 8080),
     GetBool = (\<lambda>k. k \<in> {''server.contractService.enabled'', ''server.control.verifyClientCerts'', ''server.persistence.sqlite.memory''})\<rparr>"

lemma sample_start_simps:
  "Listen_tcp sample_env a = OK ()" "Dial_tcp sample_env a = OK ()" "Stat sample_env f = OK (f = ''/etc'')"
  "grpc_NewClient sample_env a = OK ()" "ProviderPing sample_env a = OK (''id'', ''http://provider'')"
  "ContractConfigure sample_env a b = OK ()" "sql_Open sample_env a = OK ()" "sql_Migrate sample_env a = OK ()"
  "otel_Resource sample_env a = OK ()" "otel_Exporter sample_env g a = OK ()"
  by (simp_all add: sample_env_def)

lemma sample_valid: "PersistentPreRunE sample_lib sample_env sample_viper = OK ()"
  by (simp add: PersistentPreRunE_def CheckListenPort_def check_provider_def CheckConnectAddr_def check_contract_service_def
      check_control_def check_persistence_def fail_if_def Let_def sample_start_simps sample_viper_def)

definition sample_command :: server_command where
  "sample_command = (case command_of sample_lib sample_viper of OK c \<Rightarrow> c)"

lemma sample_command_of: "command_of sample_lib sample_viper = OK sample_command"
  by (simp add: sample_command_def command_of_def)

lemma sample_command_simps:
  "ExternalURL sample_command = \<lparr>uPath = ''/'', uRest = []\<rparr>" "ContractServiceEnabled sample_command"
  "\<not> AuthNServiceEnabled sample_command" "ControlVerifyClientCertificates sample_command" "\<not> ControlInsecure sample_command"
  by (simp_all add: sample_command_def command_of_def sample_viper_def)

lemma sample_surroundings: "surroundings_up sample_env sample_command"
  by (simp add: surroundings_up_def Let_def sample_start_simps setupOTelSDK_def newTracerProvider_def sample_command_simps)

lemma sample_files: "good_files sample_env"
  by (simp add: good_files_def sample_env_def)

lemma validated_server_starts_witness:
  "\<exists>sv. snd (run_command sample_lib sample_env sample_viper) = OK (Some sv) \<and> svc_contract sv \<noteq> None \<and> svc_authn sv = None"
  using validated_server_starts[OF sample_valid sample_command_of _ sample_files sample_surroundings]
  by (fastforce simp: sample_command_simps)

lemma services_are_encrypted_witness:
  "\<exists>ev sv. run_command sample_lib sample_env sample_viper = (ev, OK (Some sv))
     \<and> presents_certificate (conn_Creds (hd (grpcConnections sv))) \<and> presents_certificate (svc_control sv)"
proof -
  have "\<not> GetBool sample_viper ''server.provider.insecure''" "\<not> GetBool sample_viper ''server.control.insecure''"
    by (simp_all add: sample_viper_def)
  moreover obtain sv ev where "run_command sample_lib sample_env sample_viper = (ev, OK (Some sv))"
    using services_set_up[OF sample_valid sample_command_of _ sample_files sample_surroundings]
      run_command_set_up[OF sample_valid sample_command_of sample_surroundings] by (auto simp: sample_command_simps)
  ultimately show ?thesis using services_are_encrypted[of sample_lib sample_env sample_viper] by blast
qed

end
