(* ===== verification/Protocol.thy ===== *)
theory Protocol
  imports Routing_Facts
begin

text \<open>
  Two connectors that negotiate with each other: the consumer's negotiation, the provider's, and the
  messages each has queued for the other. A step is a call of the control service on one side, the
  delivery of a queued message, or the end of a connector's process, with which its queue is gone.
  In a delivery the sender's reconciler takes its negotiation and sets the state the
  message leads to, the peer's handler receives the message, stores its negotiation and may queue a message of its
  own, and the sender learns what the acknowledgement tells it and commits. A message the peer refuses changes
  nothing. But the peer stores its negotiation before it calls its contract service, and before the sender has the answer:
  when the service fails, the agreement can not be stored after the negotiation, or the answer is lost or the sender can not commit,
  the peer has moved and the sender has not (\<open>unanswered_delivery\<close>). The steps are built from the functions of the state
  machine, the handlers, the control service and the reconciler; rows and locks are left to the storage.

  An opening message is for no negotiation of the peer in particular: the peer's handler makes one and stores it before it
  takes the message. An exchange begins with the opening message whose delivery is answered. When that delivery is not answered
  none begins: the peer keeps the negotiation it made, and refuses the message each time it is sent again, since
  the PID it names is taken. What such a negotiation may send to the side that opens is not among the steps.
\<close>

record exchange =
  consumer :: negotiation
  provider :: negotiation
  from_consumer :: "ReconciliationEntry list"
  from_provider :: "ReconciliationEntry list"

text \<open>What a session reads back of a stored negotiation: the marks of the last session are gone.\<close>

definition session :: "negotiation \<Rightarrow> negotiation" where
  "session cn = cn\<lparr>n_initial := False, n_ro := False, n_modified := False, n_newAgreement := False\<rparr>"

text \<open>The entry an applied function adds to its reconciler's queue.\<close>

fun entries :: "apply_func \<Rightarrow> ReconciliationEntry list" where
  "entries (ApAdd e) = [e]"
| "entries _ = []"

text \<open>An answered delivery: the negotiations of its sender and of the peer afterwards, and what the peer
  queued. A peer whose contract service fails answers with an error, and is left to \<open>unanswered_delivery\<close>.\<close>

definition deliver :: "'a lib_scheme \<Rightarrow> deps \<Rightarrow> go_context \<Rightarrow> fresh_values \<Rightarrow> ReconciliationEntry \<Rightarrow> negotiation
    \<Rightarrow> negotiation \<Rightarrow> (negotiation \<times> negotiation \<times> ReconciliationEntry list) option" where
  "deliver L d ctx fv e own peer =
     (case obind (contract_ParseState (ArgString (TargetState e))) (\<lambda>st. n_SetState st (session own)) of
        OK s1 \<Rightarrow>
          (case recv_and_send L d ctx fv (Body e) (session peer) of
             (r, Inr af) \<Rightarrow>
               (case negotiation_ApplyResponse L
                   (resp_body (EncodeValid valid_ContractNegotiation 200 (GetContractNegotiation_message L r))) s1 of
                  OK s2 \<Rightarrow> Some (s2, r, entries af)
                | _ \<Rightarrow> None)
           | _ \<Rightarrow> None)
      | _ \<Rightarrow> None)"

record parties =
  consumer_deps :: deps
  provider_deps :: deps

inductive delivery :: "'a lib_scheme \<Rightarrow> parties \<Rightarrow> exchange \<Rightarrow> exchange \<Rightarrow> bool" for L :: "'a lib_scheme" and W :: parties where
  to_provider:
    "e \<in> set (from_consumer x) \<Longrightarrow> fv_recv fv \<noteq> emptyUUID \<Longrightarrow>
     deliver L (provider_deps W) ctx fv e (consumer x) (provider x) = Some (c, p, es) \<Longrightarrow>
     delivery L W x \<lparr>consumer = c, provider = p, from_consumer = remove1 e (from_consumer x),
                from_provider = from_provider x @ es\<rparr>"
| to_consumer:
    "e \<in> set (from_provider x) \<Longrightarrow> fv_recv fv \<noteq> emptyUUID \<Longrightarrow>
     deliver L (consumer_deps W) ctx fv e (provider x) (consumer x) = Some (p, c, es) \<Longrightarrow>
     delivery L W x \<lparr>consumer = c, provider = p, from_consumer = from_consumer x @ es,
                from_provider = remove1 e (from_provider x)\<rparr>"

text \<open>What the peer of a delivery makes of the message, whatever becomes of the answer: the sender must be able to set
  the state, or nothing is sent.\<close>

definition peer_moves :: "'a lib_scheme \<Rightarrow> deps \<Rightarrow> go_context \<Rightarrow> fresh_values \<Rightarrow> ReconciliationEntry \<Rightarrow> negotiation
    \<Rightarrow> negotiation \<Rightarrow> (negotiation \<times> ReconciliationEntry list) option" where
  "peer_moves L d ctx fv e own peer =
     (case obind (contract_ParseState (ArgString (TargetState e))) (\<lambda>st. n_SetState st (session own)) of
        OK s1 \<Rightarrow>
          (case recv_and_send L d ctx fv (Body e) (session peer) of
             (r, Inr af) \<Rightarrow> Some (r, entries af)
           | _ \<Rightarrow> None)
      | _ \<Rightarrow> None)"

text \<open>What storing and applying leaves behind: the negotiation with what it queued; the negotiation alone, when applying failed;
  or the negotiation without the agreement it made or was sent, when that could not be stored.\<close>

definition left_behind :: "negotiation \<Rightarrow> ReconciliationEntry list \<Rightarrow> negotiation \<Rightarrow> ReconciliationEntry list \<Rightarrow> bool" where
  "left_behind r es r' es' \<longleftrightarrow> r' = r \<and> (es' = es \<or> es' = [])
     \<or> n_newAgreement r \<and> r' = r\<lparr>n_agreement := None\<rparr> \<and> es' = []"

text \<open>The peer has moved, the sender has not, and its message stays queued.\<close>

inductive unanswered_delivery :: "'a lib_scheme \<Rightarrow> parties \<Rightarrow> exchange \<Rightarrow> exchange \<Rightarrow> bool" for L :: "'a lib_scheme" and W :: parties where
  provider_moves:
    "e \<in> set (from_consumer x) \<Longrightarrow> n_state (provider x) \<noteq> C_INITIAL \<Longrightarrow>
     peer_moves L (provider_deps W) ctx fv e (consumer x) (provider x) = Some (r, es) \<Longrightarrow> left_behind r es p es' \<Longrightarrow>
     unanswered_delivery L W x (x\<lparr>provider := p, from_provider := from_provider x @ es'\<rparr>)"
| consumer_moves:
    "e \<in> set (from_provider x) \<Longrightarrow> n_state (consumer x) \<noteq> C_INITIAL \<Longrightarrow>
     peer_moves L (consumer_deps W) ctx fv e (provider x) (consumer x) = Some (r, es) \<Longrightarrow> left_behind r es c es' \<Longrightarrow>
     unanswered_delivery L W x (x\<lparr>consumer := c, from_consumer := from_consumer x @ es'\<rparr>)"

inductive control_call :: "'a lib_scheme \<Rightarrow> parties \<Rightarrow> exchange \<Rightarrow> exchange \<Rightarrow> bool" for L :: "'a lib_scheme" and W :: parties where
  consumer_sends:
    "n_state (consumer x) \<noteq> C_INITIAL \<Longrightarrow> sender (n_state (consumer x)) = DataspaceConsumer \<Longrightarrow>
     contract_Send L (consumer_deps W) ctx fresh now (flagged initial auto (session (consumer x))) = (r, OK af) \<Longrightarrow>
     left_behind r (entries af) c es \<Longrightarrow>
     control_call L W x (x\<lparr>consumer := c, from_consumer := from_consumer x @ es\<rparr>)"
| provider_sends:
    "n_state (provider x) \<noteq> C_INITIAL \<Longrightarrow> sender (n_state (provider x)) = DataspaceProvider \<Longrightarrow>
     contract_Send L (provider_deps W) ctx fresh now (flagged initial auto (session (provider x))) = (r, OK af) \<Longrightarrow>
     left_behind r (entries af) p es \<Longrightarrow>
     control_call L W x (x\<lparr>provider := p, from_provider := from_provider x @ es\<rparr>)"
| consumer_terminates:
    "termination_entry L ctx (consumer x) (termination_message L (consumer x) code reasons) = OK e \<Longrightarrow>
     control_call L W x (x\<lparr>from_consumer := from_consumer x @ [e]\<rparr>)"
| provider_terminates:
    "termination_entry L ctx (provider x) (termination_message L (provider x) code reasons) = OK e \<Longrightarrow>
     control_call L W x (x\<lparr>from_provider := from_provider x @ [e]\<rparr>)"

text \<open>The queues are in memory: a connector that ends, in a panic or not, has lost them.\<close>

inductive restart :: "exchange \<Rightarrow> exchange \<Rightarrow> bool" where
  consumer_restarts: "restart x (x\<lparr>from_consumer := []\<rparr>)"
| provider_restarts: "restart x (x\<lparr>from_provider := []\<rparr>)"

text \<open>The steps, with or without the deliveries that are not answered.\<close>

definition step :: "bool \<Rightarrow> 'a lib_scheme \<Rightarrow> parties \<Rightarrow> exchange \<Rightarrow> exchange \<Rightarrow> bool" where
  "step lossy L W x y \<longleftrightarrow> delivery L W x y \<or> control_call L W x y \<or> restart x y \<or> lossy \<and> unanswered_delivery L W x y"

text \<open>
  How an exchange begins: one side has made a negotiation and queued its opening message, and the
  peer's is the one that its handler makes of that message. The peer's PID is not yet known to the
  side that opens.
\<close>

definition opened_by_consumer :: "'a lib_scheme \<Rightarrow> exchange \<Rightarrow> bool" where
  "opened_by_consumer L x \<longleftrightarrow>
     n_state (consumer x) = C_INITIAL \<and> n_state (provider x) = C_INITIAL
     \<and> n_role (consumer x) = DataspaceConsumer \<and> n_role (provider x) = DataspaceProvider
     \<and> n_consumerPID (consumer x) \<noteq> emptyUUID \<and> n_consumerPID (provider x) = n_consumerPID (consumer x)
     \<and> n_providerPID (consumer x) = emptyUUID \<and> from_provider x = []
     \<and> (\<exists>d ctx fresh now c e. contract_Send L d ctx fresh now (consumer x) = (c, OK (ApAdd e)) \<and> from_consumer x = [e])"

definition opened_by_provider :: "'a lib_scheme \<Rightarrow> exchange \<Rightarrow> bool" where
  "opened_by_provider L x \<longleftrightarrow>
     n_state (consumer x) = C_INITIAL \<and> n_state (provider x) = C_INITIAL
     \<and> n_role (consumer x) = DataspaceConsumer \<and> n_role (provider x) = DataspaceProvider
     \<and> n_providerPID (provider x) \<noteq> emptyUUID \<and> n_providerPID (consumer x) = n_providerPID (provider x)
     \<and> n_consumerPID (provider x) = emptyUUID \<and> from_consumer x = []
     \<and> (\<exists>d ctx fresh now p e. contract_Send L d ctx fresh now (provider x) = (p, OK (ApAdd e)) \<and> from_provider x = [e])"

inductive reachable :: "bool \<Rightarrow> 'a lib_scheme \<Rightarrow> parties \<Rightarrow> exchange \<Rightarrow> bool"
  for lossy :: bool and L :: "'a lib_scheme" and W :: parties where
  start: "opened_by_consumer L x \<or> opened_by_provider L x \<Longrightarrow> reachable lossy L W x"
| step: "reachable lossy L W x \<Longrightarrow> step lossy L W x y \<Longrightarrow> reachable lossy L W y"

text \<open>The steps with which a provider that still has a message outstanding makes no agreement.\<close>

definition calm :: "exchange \<Rightarrow> exchange \<Rightarrow> bool" where
  "calm x y \<longleftrightarrow> from_provider x \<noteq> [] \<longrightarrow> n_agreement (provider y) = n_agreement (provider x)"

inductive calmly_reachable :: "'a lib_scheme \<Rightarrow> parties \<Rightarrow> exchange \<Rightarrow> bool" for L :: "'a lib_scheme" and W :: parties where
  calm_start: "opened_by_consumer L x \<or> opened_by_provider L x \<Longrightarrow> calmly_reachable L W x"
| calm_step: "calmly_reachable L W x \<Longrightarrow> step True L W x y \<Longrightarrow> calm x y \<Longrightarrow> calmly_reachable L W y"

end
