(* ===== verification/Protocol_Facts.thy ===== *)
theory Protocol_Facts
  imports Protocol
begin

text \<open>
  What two connectors agree on: in every state they can reach they know the same negotiation by the same PIDs and are in the same
  state, or, where a delivery was not answered, one side is the one message behind that its peer has already taken. When a provider
  makes no agreement while it has a message outstanding, both hold the same agreement whenever both have agreed.
\<close>

section \<open>Entries and deliveries\<close>

text \<open>A message alone determines the state it leads to.\<close>

fun msg_target :: "message \<Rightarrow> cstate option" where
  "msg_target (MContractRequest t) = Some C_REQUESTED"
| "msg_target (MContractOffer t) = Some C_OFFERED"
| "msg_target (MContractAgreement t) = Some C_AGREED"
| "msg_target (MContractVerification t) = Some C_VERIFIED"
| "msg_target (MContractEvent t) = (if cem_EventType t = ''dspace:ACCEPTED'' then Some C_ACCEPTED
     else if cem_EventType t = ''dspace:FINALIZED'' then Some C_FINALIZED else None)"
| "msg_target (MContractTermination t) = Some C_TERMINATED"
| "msg_target _ = None"

lemma recv_target_msg_target: "recv_target st m = Some t \<Longrightarrow> msg_target m = Some t"
  by (cases "(st, m)" rule: recv_target.cases) (auto split: if_splits)

definition entry_ok :: "ReconciliationEntry \<Rightarrow> bool" where
  "entry_ok e \<longleftrightarrow> (\<exists>st. TargetState e = cstate_String st \<and> msg_target (Body e) = Some st)"

lemma session_simps [simp]:
  "n_state (session cn) = n_state cn" "n_role (session cn) = n_role cn" "n_providerPID (session cn) = n_providerPID cn"
  "n_consumerPID (session cn) = n_consumerPID cn" "n_agreement (session cn) = n_agreement cn"
  "n_callback (session cn) = n_callback cn" "n_self (session cn) = n_self cn" "n_offer (session cn) = n_offer cn"
  "n_autoAccept (session cn) = n_autoAccept cn" "\<not> n_ro (session cn)" "\<not> n_initial (session cn)"
  "\<not> n_newAgreement (session cn)"
  by (simp_all add: session_def)

lemma flagged_simps [simp]:
  "n_state (flagged i a cn) = n_state cn" "n_role (flagged i a cn) = n_role cn" "n_agreement (flagged i a cn) = n_agreement cn"
  "n_providerPID (flagged i a cn) = n_providerPID cn" "n_consumerPID (flagged i a cn) = n_consumerPID cn"
  by (simp_all add: flagged_def n_SetInitial_def n_SetAutoAccept_def)

text \<open>What sending does to a negotiation: nothing but its agreement, which is the one it sends.\<close>

lemma Send_effect:
  assumes "contract_Send L d ctx fresh now cn = (cn', OK af)"
  shows "n_state cn' = n_state cn \<and> n_role cn' = n_role cn \<and> n_providerPID cn' = n_providerPID cn
    \<and> n_consumerPID cn' = n_consumerPID cn
    \<and> (\<forall>e \<in> set (entries af). entry_ok e \<and> recv_target (n_state cn) (Body e) \<noteq> None
        \<and> (\<forall>t. Body e = MContractAgreement t \<longrightarrow> n_agreement cn' = Some (cam_Agreement t))
        \<and> ((\<forall>t. Body e \<noteq> MContractAgreement t) \<longrightarrow> n_agreement cn' = n_agreement cn))
    \<and> (entries af = [] \<longrightarrow> n_agreement cn' = n_agreement cn)"
proof -
  have frame: "send_frame cn cn'" using contract_Send_OK[OF assms] by blast
  have "\<forall>e \<in> set (entries af). entry_ok e \<and> recv_target (n_state cn) (Body e) \<noteq> None"
    using contract_Send_OK[OF assms] by (auto simp: entry_ok_def entry_for_def dest: recv_target_msg_target)
  moreover have "(\<forall>e \<in> set (entries af). (\<forall>t. Body e = MContractAgreement t \<longrightarrow> n_agreement cn' = Some (cam_Agreement t))
      \<and> ((\<forall>t. Body e \<noteq> MContractAgreement t) \<longrightarrow> n_agreement cn' = n_agreement cn))
      \<and> (entries af = [] \<longrightarrow> n_agreement cn' = n_agreement cn)"
    using assms by (cases "n_state cn") (auto simp: Initial_Send_def Requested_Send_def Offered_Send_def n_UnsetInitial_def
      Let_def outcome_simps dest!: sendContractRequest_OK sendContractOffer_OK sendContractAgreement_OK sendContractEvent_OK
      sendContractVerification_OK split: if_splits)
  ultimately show ?thesis using frame by (auto simp: send_frame_def recv_frame_def)
qed

text \<open>Receiving queues nothing itself, learns the agreement a message carries, and keeps known PIDs.\<close>

lemma Recv_entries: "contract_Recv L d ctx fresh msg cn = (cn', OK af) \<Longrightarrow> entries af = []"
  by (cases "n_state cn"; cases msg) (auto simp: processContractRequest_def processContractOffer_def recv_simps
      split: outcome.splits if_splits)

lemma Recv_agreement:
  "contract_Recv L d ctx fresh msg cn = (cn', OK af) \<Longrightarrow>
     n_agreement cn' = (case msg of MContractAgreement t \<Rightarrow> Some (cam_Agreement t) | _ \<Rightarrow> n_agreement cn)"
  by (cases "n_state cn"; cases msg) (auto simp: processContractRequest_def processContractOffer_def recv_simps
      n_SetInitial_def dest!: learn_provider_OK learn_consumer_OK split: outcome.splits if_splits)

text \<open>What was queued by a negotiation that is now \<open>c\<close>.\<close>

definition queued_by :: "negotiation \<Rightarrow> ReconciliationEntry \<Rightarrow> bool" where
  "queued_by c e \<longleftrightarrow> entry_ok e \<and> recv_target (n_state c) (Body e) \<noteq> None
     \<and> (\<forall>t. Body e = MContractAgreement t \<longrightarrow> n_agreement c = Some (cam_Agreement t))"

definition received_agreement :: "message \<Rightarrow> negotiation \<Rightarrow> Agreement option" where
  "received_agreement msg cn = (case msg of MContractAgreement t \<Rightarrow> Some (cam_Agreement t) | _ \<Rightarrow> n_agreement cn)"

lemma recv_and_send_effect:
  assumes "recv_and_send L d ctx fv msg cn = (c, Inr af)"
  obtains c1 a1 where "contract_Recv L d ctx (fv_recv fv) msg cn = (c1, OK a1)" and "n_state c = n_state c1"
    and "n_role c = n_role cn" and "n_providerPID c = n_providerPID c1" and "n_consumerPID c = n_consumerPID c1"
    and "list_all (queued_by c) (entries af)"
    and "n_agreement c = received_agreement msg cn \<or> (\<exists>e t. e \<in> set (entries af) \<and> Body e = MContractAgreement t)"
proof -
  obtain c1 o1 where r1: "contract_Recv L d ctx (fv_recv fv) msg cn = (c1, o1)" by force
  obtain c2 o2 where r2: "contract_Send L d ctx (fv_agreement fv) (fv_now fv) c1 = (c2, o2)" by force
  obtain a1 where o1: "o1 = OK a1" using assms by (cases o1) (auto simp: recv_and_send_def r1 simp del: contract_Recv.simps)
  have role: "n_role c1 = n_role cn" using contract_Recv_OK[OF r1[unfolded o1]] by (simp add: recv_frame_def)
  have ag: "n_agreement c1 = received_agreement msg cn"
    using Recv_agreement[OF r1[unfolded o1]] by (simp add: received_agreement_def)
  show thesis
  proof (cases "n_autoAccept c1 \<or> d_c d = None")
    case True
    then obtain a2 where a2: "o2 = OK a2" "c = c2" "af = a2"
      using assms by (cases o2) (auto simp: recv_and_send_def r1 o1 r2 simp del: contract_Recv.simps contract_Send.simps)
    note eff = Send_effect[OF r2[unfolded a2(1)]]
    show thesis
    proof (rule that[OF r1[unfolded o1]])
      show "list_all (queued_by c) (entries af)" using eff a2 by (simp add: list_all_iff queued_by_def)
      show "n_agreement c = received_agreement msg cn \<or> (\<exists>e t. e \<in> set (entries af) \<and> Body e = MContractAgreement t)"
      proof (cases "entries af")
        case Nil then show ?thesis using eff a2 ag by simp
      next
        case (Cons e es) then show ?thesis using eff a2 ag by (cases "\<exists>t. Body e = MContractAgreement t") (simp, metis list.set_intros(1), simp)
      qed
    qed (use eff a2 role in simp_all)
  next
    case False
    then have "c = c1" "af = a1" using assms by (auto simp: recv_and_send_def r1 o1 simp del: contract_Recv.simps)
    with that[OF r1[unfolded o1]] role ag Recv_entries[OF r1[unfolded o1]] show thesis by simp
  qed
qed

lemma ApplyResponse_frame:
  "negotiation_ApplyResponse L body n = OK n' \<Longrightarrow> n_state n' = n_state n \<and> n_role n' = n_role n \<and> n_agreement n' = n_agreement n"
  by (auto simp: negotiation_ApplyResponse_def outcome_simps split: option.splits if_splits)

text \<open>An agreement is new where one was received or sent in this session.\<close>

lemma Recv_newAgreement:
  "contract_Recv L d ctx fresh msg cn = (cn', OK af) \<Longrightarrow> n_newAgreement cn' \<Longrightarrow> n_newAgreement cn \<or> (\<exists>t. msg = MContractAgreement t)"
  by (cases "n_state cn"; cases msg) (auto simp: processContractRequest_def processContractOffer_def recv_simps
      n_SetInitial_def dest!: learn_provider_OK learn_consumer_OK split: outcome.splits if_splits)

lemma Send_newAgreement:
  "contract_Send L d ctx fresh now cn = (cn', OK af) \<Longrightarrow> n_newAgreement cn' \<Longrightarrow>
     n_newAgreement cn \<or> (\<exists>e t. e \<in> set (entries af) \<and> Body e = MContractAgreement t)"
  by (cases "n_state cn") (auto simp: Initial_Send_def Requested_Send_def Offered_Send_def n_UnsetInitial_def
      Let_def outcome_simps dest!: sendContractRequest_OK sendContractOffer_OK sendContractAgreement_OK sendContractEvent_OK
      sendContractVerification_OK split: if_splits)

lemma recv_and_send_newAgreement:
  assumes "recv_and_send L d ctx fv msg cn = (c, Inr af)" and "n_newAgreement c" and "\<not> n_newAgreement cn"
  shows "(\<exists>t. msg = MContractAgreement t) \<or> (\<exists>e t. e \<in> set (entries af) \<and> Body e = MContractAgreement t)"
proof -
  obtain c1 o1 where r1: "contract_Recv L d ctx (fv_recv fv) msg cn = (c1, o1)" by force
  obtain c2 o2 where r2: "contract_Send L d ctx (fv_agreement fv) (fv_now fv) c1 = (c2, o2)" by force
  obtain a1 where o1: "o1 = OK a1" using assms by (cases o1) (auto simp: recv_and_send_def r1 simp del: contract_Recv.simps)
  have "n_newAgreement c1 \<Longrightarrow> \<exists>t. msg = MContractAgreement t" using Recv_newAgreement[OF r1[unfolded o1]] assms(3) by blast
  moreover have "n_newAgreement c1 \<or> (\<exists>e t. e \<in> set (entries af) \<and> Body e = MContractAgreement t)"
  proof (cases "n_autoAccept c1 \<or> d_c d = None")
    case True
    then obtain a2 where a2: "o2 = OK a2" "c = c2" "af = a2"
      using assms by (cases o2) (auto simp: recv_and_send_def r1 o1 r2 simp del: contract_Recv.simps contract_Send.simps)
    then show ?thesis using Send_newAgreement[OF r2[unfolded a2(1)]] assms(2) by simp
  next
    case False
    then show ?thesis using assms by (auto simp: recv_and_send_def r1 o1 simp del: contract_Recv.simps)
  qed
  ultimately show ?thesis by blast
qed

text \<open>What becomes of the peer: it moves to the state of the message, which its sender can move to.\<close>

lemma peer_moves_effect:
  assumes "peer_moves L d ctx fv e own peer = Some (peer', es)" and "entry_ok e"
  shows "recv_target (n_state peer) (Body e) = Some (n_state peer') \<and> n_state peer' \<in> set (validTransitions (n_state own))
    \<and> n_role peer' = n_role peer \<and> list_all (queued_by peer') es
    \<and> (n_agreement peer' = received_agreement (Body e) peer \<or> (\<exists>e' t. e' \<in> set es \<and> Body e' = MContractAgreement t))
    \<and> (n_newAgreement peer' \<longrightarrow> (\<exists>t. Body e = MContractAgreement t) \<or> (\<exists>e' t. e' \<in> set es \<and> Body e' = MContractAgreement t))"
proof -
  obtain st where st: "TargetState e = cstate_String st" "msg_target (Body e) = Some st"
    using assms(2) by (auto simp: entry_ok_def)
  obtain s1 af where d: "n_SetState st (session own) = OK s1" "recv_and_send L d ctx fv (Body e) (session peer) = (peer', Inr af)"
      "es = entries af"
    using assms(1) by (auto simp: peer_moves_def st(1) split: outcome.splits prod.splits sum.splits)
  have own: "st \<in> set (validTransitions (n_state own))" using d(1) by (auto simp: outcome_simps)
  obtain c1 a1 where r: "contract_Recv L d ctx (fv_recv fv) (Body e) (session peer) = (c1, OK a1)" "n_state peer' = n_state c1"
    "n_role peer' = n_role (session peer)" "list_all (queued_by peer') (entries af)"
    "n_agreement peer' = received_agreement (Body e) (session peer) \<or> (\<exists>e' t. e' \<in> set (entries af) \<and> Body e' = MContractAgreement t)"
    by (rule recv_and_send_effect[OF d(2)]) blast
  have tgt: "recv_target (n_state peer) (Body e) = Some (n_state peer')"
    using contract_Recv_OK[OF r(1)] r(2) by simp
  have "received_agreement (Body e) (session peer) = received_agreement (Body e) peer"
    by (simp add: received_agreement_def split: message.splits)
  then show ?thesis using tgt recv_target_msg_target[OF tgt] st own r d(3) recv_and_send_newAgreement[OF d(2)] by simp
qed

lemma deliver_peer_moves:
  "deliver L d ctx fv e own peer = Some (own', peer', es) \<Longrightarrow> peer_moves L d ctx fv e own peer = Some (peer', es)"
  by (auto simp: deliver_def peer_moves_def split: outcome.splits prod.splits sum.splits)

text \<open>An answered delivery moves both sides to the state of the message.\<close>

lemma deliver_effect:
  assumes "deliver L d ctx fv e own peer = Some (own', peer', es)" and "entry_ok e"
  shows "n_state own' = n_state peer' \<and> recv_target (n_state peer) (Body e) = Some (n_state peer')
    \<and> n_state peer' \<in> set (validTransitions (n_state own))
    \<and> n_role own' = n_role own \<and> n_role peer' = n_role peer \<and> list_all (queued_by peer') es
    \<and> n_agreement own' = n_agreement own
    \<and> (n_agreement peer' = received_agreement (Body e) peer \<or> (\<exists>e' t. e' \<in> set es \<and> Body e' = MContractAgreement t))"
proof -
  note eff = peer_moves_effect[OF deliver_peer_moves[OF assms(1)] assms(2)]
  obtain st where st: "TargetState e = cstate_String st" "msg_target (Body e) = Some st"
    using assms(2) by (auto simp: entry_ok_def)
  obtain s1 where d: "n_SetState st (session own) = OK s1"
      "negotiation_ApplyResponse L (resp_body (EncodeValid valid_ContractNegotiation 200
         (GetContractNegotiation_message L peer'))) s1 = OK own'"
    using assms(1) by (auto simp: deliver_def st(1) split: outcome.splits prod.splits sum.splits)
  have "n_state s1 = st" "n_role s1 = n_role own" "n_agreement s1 = n_agreement own" using d(1) by (auto simp: outcome_simps)
  moreover have "n_state peer' = st" using eff st(2) recv_target_msg_target by fastforce
  ultimately show ?thesis using eff ApplyResponse_frame[OF d(2)] by simp
qed

lemma deliver_parts:
  assumes "deliver L d ctx fv e own peer = Some (own', peer', es)"
  obtains st s1 c1 a1 where "n_SetState st (session own) = OK s1"
    and "contract_Recv L d ctx (fv_recv fv) (Body e) (session peer) = (c1, OK a1)"
    and "n_state peer' = n_state c1" and "n_providerPID peer' = n_providerPID c1" and "n_consumerPID peer' = n_consumerPID c1"
    and "negotiation_ApplyResponse L (resp_body (EncodeValid valid_ContractNegotiation 200
         (GetContractNegotiation_message L peer'))) s1 = OK own'"
proof -
  obtain st s1 af where "n_SetState st (session own) = OK s1" and r: "recv_and_send L d ctx fv (Body e) (session peer) = (peer', Inr af)"
      and "negotiation_ApplyResponse L (resp_body (EncodeValid valid_ContractNegotiation 200
         (GetContractNegotiation_message L peer'))) s1 = OK own'"
    using assms by (auto simp: deliver_def outcome_simps split: outcome.splits prod.splits sum.splits)
  with that show thesis by (rule_tac recv_and_send_effect[OF r]) blast
qed

lemma peer_moves_pids:
  assumes "peer_moves L d ctx fv e own peer = Some (peer', es)" and "n_state peer \<noteq> C_INITIAL" and "knows_both peer"
  shows "n_providerPID peer' = n_providerPID peer \<and> n_consumerPID peer' = n_consumerPID peer"
proof -
  obtain af where r: "recv_and_send L d ctx fv (Body e) (session peer) = (peer', Inr af)"
    using assms(1) by (auto simp: peer_moves_def outcome_simps split: outcome.splits prod.splits sum.splits)
  show ?thesis
  proof (rule recv_and_send_effect[OF r])
    fix c1 a1
    assume p: "contract_Recv L d ctx (fv_recv fv) (Body e) (session peer) = (c1, OK a1)"
      "n_providerPID peer' = n_providerPID c1" "n_consumerPID peer' = n_consumerPID c1"
    show ?thesis using contract_Recv_OK[OF p(1)] p(2,3) assms(2,3) by (auto simp: recv_step_def knows_both_def)
  qed
qed

lemma deliver_known_pids:
  assumes "deliver L d ctx fv e own peer = Some (own', peer', es)" and "n_state peer \<noteq> C_INITIAL"
    and "knows_both own" and "n_providerPID peer = n_providerPID own" and "n_consumerPID peer = n_consumerPID own"
  shows "knows_both own' \<and> n_providerPID own' = n_providerPID own \<and> n_consumerPID own' = n_consumerPID own
    \<and> n_providerPID peer' = n_providerPID own \<and> n_consumerPID peer' = n_consumerPID own"
proof (rule deliver_parts[OF assms(1)])
  fix st s1 c1 a1
  assume p: "n_SetState st (session own) = OK s1"
    "contract_Recv L d ctx (fv_recv fv) (Body e) (session peer) = (c1, OK a1)"
    "n_providerPID peer' = n_providerPID c1" "n_consumerPID peer' = n_consumerPID c1"
    "negotiation_ApplyResponse L (resp_body (EncodeValid valid_ContractNegotiation 200
         (GetContractNegotiation_message L peer'))) s1 = OK own'"
  have "n_providerPID c1 = n_providerPID peer" "n_consumerPID c1 = n_consumerPID peer"
    using contract_Recv_OK[OF p(2)] assms(2-5) by (auto simp: recv_step_def knows_both_def)
  moreover have "n_providerPID own' = n_providerPID own \<and> n_consumerPID own' = n_consumerPID own"
    using p(1,5) assms(3) by (auto simp: outcome_simps knows_both_def negotiation_ApplyResponse_def split: option.splits if_splits)
  ultimately show ?thesis using p(3,4) assms(3-5) by (simp add: knows_both_def)
qed

text \<open>The acknowledgement of a negotiation that knows both PIDs is valid and tells them.\<close>

lemma ack_parsed:
  assumes "uuid_laws L"
  shows "parseNegotiationAck L (resp_body (EncodeValid valid_ContractNegotiation 200 (GetContractNegotiation_message L r))) =
    Some (n_providerPID r, n_consumerPID r)"
proof -
  have "cstate_String (n_state r) \<noteq> []" by (cases "n_state r") simp_all
  then show ?thesis using assms by (simp add: EncodeValid_def valid_ContractNegotiation_def GetContractNegotiation_message_def
      required_def uuid_URN_nonempty parseNegotiationAck_def uuid_lawsD(2))
qed

lemma deliver_opening_pids:
  assumes "deliver L d ctx fv e own peer = Some (own', peer', es)" and "n_state peer = C_INITIAL" and "uuid_laws L"
    and "fv_recv fv \<noteq> emptyUUID"
  shows "(\<exists>t. Body e = MContractRequest t) \<and> n_consumerPID own = n_consumerPID peer \<and> n_consumerPID own \<noteq> emptyUUID
      \<and> n_providerPID own = emptyUUID \<or>
    (\<exists>t. Body e = MContractOffer t) \<and> n_providerPID own = n_providerPID peer \<and> n_providerPID own \<noteq> emptyUUID
      \<and> n_consumerPID own = emptyUUID
    \<Longrightarrow> knows_both own' \<and> n_providerPID peer' = n_providerPID own' \<and> n_consumerPID peer' = n_consumerPID own'"
proof (rule deliver_parts[OF assms(1)])
  fix st s1 c1 a1
  assume p: "n_SetState st (session own) = OK s1"
    "contract_Recv L d ctx (fv_recv fv) (Body e) (session peer) = (c1, OK a1)"
    "n_providerPID peer' = n_providerPID c1" "n_consumerPID peer' = n_consumerPID c1"
    "negotiation_ApplyResponse L (resp_body (EncodeValid valid_ContractNegotiation 200
         (GetContractNegotiation_message L peer'))) s1 = OK own'"
  assume o: "(\<exists>t. Body e = MContractRequest t) \<and> n_consumerPID own = n_consumerPID peer \<and> n_consumerPID own \<noteq> emptyUUID
      \<and> n_providerPID own = emptyUUID \<or>
    (\<exists>t. Body e = MContractOffer t) \<and> n_providerPID own = n_providerPID peer \<and> n_providerPID own \<noteq> emptyUUID
      \<and> n_consumerPID own = emptyUUID"
  have s1: "n_providerPID s1 = n_providerPID own" "n_consumerPID s1 = n_consumerPID own" using p(1) by (auto simp: outcome_simps)
  have "n_state (session peer) = C_INITIAL" using assms(2) by simp
  from Recv_opening[OF p(2) this] show ?thesis
    using p(3-5) o s1 assms(4) unfolding negotiation_ApplyResponse_def ack_parsed[OF assms(3)]
    by (auto simp: outcome_simps knows_both_def split: if_splits)
qed

section \<open>The two sides agree\<close>

definition terminates :: "ReconciliationEntry \<Rightarrow> bool" where
  "terminates e \<longleftrightarrow> (\<exists>t. Body e = MContractTermination t)"

text \<open>Before the opening message was delivered one side does not know the other's PID.\<close>

definition beginning :: "exchange \<Rightarrow> bool" where
  "beginning x \<longleftrightarrow>
     n_consumerPID (consumer x) \<noteq> emptyUUID \<and> n_consumerPID (provider x) = n_consumerPID (consumer x)
       \<and> n_providerPID (consumer x) = emptyUUID \<and> list_all terminates (from_provider x)
       \<and> list_all (\<lambda>e. terminates e \<or> (\<exists>t. Body e = MContractRequest t)) (from_consumer x)
   \<or> n_providerPID (provider x) \<noteq> emptyUUID \<and> n_providerPID (consumer x) = n_providerPID (provider x)
       \<and> n_consumerPID (provider x) = emptyUUID \<and> list_all terminates (from_consumer x)
       \<and> list_all (\<lambda>e. terminates e \<or> (\<exists>t. Body e = MContractOffer t)) (from_provider x)"

text \<open>Only the provider sends offers, agreements and the event of the end, only the consumer the other messages.\<close>

fun from_provider_body :: "message \<Rightarrow> bool" where
  "from_provider_body (MContractTermination t) = True"
| "from_provider_body m = to_consumer m"

definition paired :: "exchange \<Rightarrow> bool" where
  "paired x \<longleftrightarrow> n_role (consumer x) = DataspaceConsumer \<and> n_role (provider x) = DataspaceProvider
     \<and> list_all entry_ok (from_consumer x) \<and> list_all entry_ok (from_provider x)
     \<and> list_all (\<lambda>e. \<not> to_consumer (Body e)) (from_consumer x) \<and> list_all (\<lambda>e. from_provider_body (Body e)) (from_provider x)
     \<and> (n_state (consumer x) = C_INITIAL \<longleftrightarrow> n_state (provider x) = C_INITIAL)
     \<and> (if n_state (consumer x) = C_INITIAL then beginning x
        else knows_both (consumer x) \<and> n_providerPID (provider x) = n_providerPID (consumer x)
          \<and> n_consumerPID (provider x) = n_consumerPID (consumer x))"

text \<open>One side has already taken a message of the other, which that other side does not know of.\<close>

definition consumer_behind :: "exchange \<Rightarrow> bool" where
  "consumer_behind x \<longleftrightarrow> n_state (consumer x) \<noteq> C_INITIAL
     \<and> (\<exists>m. \<not> to_consumer m \<and> recv_target (n_state (consumer x)) m = Some (n_state (provider x)))"

definition provider_behind :: "exchange \<Rightarrow> bool" where
  "provider_behind x \<longleftrightarrow> n_state (provider x) \<noteq> C_INITIAL
     \<and> (\<exists>m. from_provider_body m \<and> recv_target (n_state (provider x)) m = Some (n_state (consumer x)))"

definition in_step :: "exchange \<Rightarrow> bool" where
  "in_step x \<longleftrightarrow> paired x \<and> n_state (consumer x) = n_state (provider x)"

definition one_apart :: "exchange \<Rightarrow> bool" where
  "one_apart x \<longleftrightarrow> consumer_behind x \<or> provider_behind x"

lemma not_initial_again: "recv_target s m = Some t \<Longrightarrow> t \<noteq> C_INITIAL"
  by (cases "(s, m)" rule: recv_target.cases) (auto split: if_splits)

text \<open>The moves of the protocol, by who sends the message.\<close>

lemma consumer_moves_to:
  "recv_target a m = Some b \<Longrightarrow> a \<noteq> C_INITIAL \<Longrightarrow> \<not> to_consumer m \<Longrightarrow> (\<exists>u. m = MContractTermination u) \<and> b = C_TERMINATED
     \<or> a = C_OFFERED \<and> (b = C_REQUESTED \<or> b = C_ACCEPTED) \<or> a = C_AGREED \<and> b = C_VERIFIED"
  by (cases "(a, m)" rule: recv_target.cases) (auto split: if_splits)

lemma provider_moves_to:
  "recv_target a m = Some b \<Longrightarrow> a \<noteq> C_INITIAL \<Longrightarrow> from_provider_body m \<Longrightarrow> (\<exists>u. m = MContractTermination u) \<and> b = C_TERMINATED
     \<or> a = C_REQUESTED \<and> (b = C_OFFERED \<or> b = C_AGREED) \<or> a = C_ACCEPTED \<and> b = C_AGREED \<or> a = C_VERIFIED \<and> b = C_FINALIZED"
  by (cases "(a, m)" rule: recv_target.cases) (auto split: if_splits)

text \<open>When a side is behind, its peer takes nothing from it any more but a termination, and it takes nothing from its peer but one.\<close>

lemma behind_only_terminates:
  assumes "recv_target a m0 = Some b" and "a \<noteq> C_INITIAL"
  shows "\<not> to_consumer m0 \<Longrightarrow> \<not> to_consumer m \<Longrightarrow> recv_target b m = Some t \<Longrightarrow> \<exists>u. m = MContractTermination u"
    and "\<not> to_consumer m0 \<Longrightarrow> from_provider_body m \<Longrightarrow> recv_target a m = Some t \<Longrightarrow> t \<in> set (validTransitions b) \<Longrightarrow>
      \<exists>u. m = MContractTermination u"
    and "from_provider_body m0 \<Longrightarrow> from_provider_body m \<Longrightarrow> recv_target b m = Some t \<Longrightarrow> \<exists>u. m = MContractTermination u"
    and "from_provider_body m0 \<Longrightarrow> \<not> to_consumer m \<Longrightarrow> recv_target a m = Some t \<Longrightarrow> t \<in> set (validTransitions b) \<Longrightarrow>
      \<exists>u. m = MContractTermination u"
proof -
  have b: "b \<noteq> C_INITIAL" using not_initial_again[OF assms(1)] .
  show "\<exists>u. m = MContractTermination u" if "\<not> to_consumer m0" "\<not> to_consumer m" "recv_target b m = Some t"
    using consumer_moves_to[OF assms that(1)] consumer_moves_to[OF that(3) b that(2)] by auto
  show "\<exists>u. m = MContractTermination u"
    if "\<not> to_consumer m0" "from_provider_body m" "recv_target a m = Some t" "t \<in> set (validTransitions b)"
    using consumer_moves_to[OF assms that(1)] provider_moves_to[OF that(3) assms(2) that(2)] that(4) by auto
  show "\<exists>u. m = MContractTermination u" if "from_provider_body m0" "from_provider_body m" "recv_target b m = Some t"
    using provider_moves_to[OF assms that(1)] provider_moves_to[OF that(3) b that(2)] by auto
  show "\<exists>u. m = MContractTermination u"
    if "from_provider_body m0" "\<not> to_consumer m" "recv_target a m = Some t" "t \<in> set (validTransitions b)"
    using provider_moves_to[OF assms that(1)] consumer_moves_to[OF that(3) assms(2) that(2)] that(4) by auto
qed

lemma termination_entry_ok:
  "termination_entry L ctx cn (termination_message L cn code reasons) = OK e \<Longrightarrow> entry_ok e \<and> terminates e"
  by (auto simp: termination_entry_def outcome_simps entry_ok_def terminates_def split: option.splits)

lemma queued_by_ok: "list_all (queued_by c) es \<Longrightarrow> list_all entry_ok es"
  by (auto simp: list_all_iff queued_by_def)

lemma opened_entry:
  "opened_by_consumer L x \<Longrightarrow> \<exists>e t. from_consumer x = [e] \<and> Body e = MContractRequest t \<and> entry_ok e"
  "opened_by_provider L x \<Longrightarrow> \<exists>e t. from_provider x = [e] \<and> Body e = MContractOffer t \<and> entry_ok e"
proof -
  assume o: "opened_by_consumer L x"
  then obtain d ctx fresh now c e where e: "contract_Send L d ctx fresh now (consumer x) = (c, OK (ApAdd e))" "from_consumer x = [e]"
    by (auto simp: opened_by_consumer_def)
  have "\<exists>t. Body e = MContractRequest t" using e(1) o
    by (auto simp: opened_by_consumer_def Initial_Send_def split: if_splits dest!: sendContractRequest_OK)
  moreover have "entry_ok e" using Send_effect[OF e(1)] by simp
  ultimately show "\<exists>e t. from_consumer x = [e] \<and> Body e = MContractRequest t \<and> entry_ok e" using e(2) by blast
next
  assume o: "opened_by_provider L x"
  then obtain d ctx fresh now c e where e: "contract_Send L d ctx fresh now (provider x) = (c, OK (ApAdd e))" "from_provider x = [e]"
    by (auto simp: opened_by_provider_def)
  have "\<exists>t. Body e = MContractOffer t" using e(1) o
    by (auto simp: opened_by_provider_def Initial_Send_def outcome_simps split: if_splits dest!: sendContractOffer_OK)
  moreover have "entry_ok e" using Send_effect[OF e(1)] by simp
  ultimately show "\<exists>e t. from_provider x = [e] \<and> Body e = MContractOffer t \<and> entry_ok e" using e(2) by blast
qed

lemma opened_in_step: "opened_by_consumer L x \<or> opened_by_provider L x \<Longrightarrow> in_step x"
proof (elim disjE)
  assume o: "opened_by_consumer L x"
  from opened_entry(1)[OF o] show ?thesis using o by (auto simp: opened_by_consumer_def in_step_def paired_def beginning_def)
next
  assume o: "opened_by_provider L x"
  from opened_entry(2)[OF o] show ?thesis using o by (auto simp: opened_by_provider_def in_step_def paired_def beginning_def)
qed

text \<open>What both directions of a delivery share.\<close>

lemma deliver_in_step:
  assumes "deliver L d ctx fv e own peer = Some (own', peer', es)" and "entry_ok e" and "uuid_laws L" and "fv_recv fv \<noteq> emptyUUID"
    and "n_state peer = C_INITIAL \<Longrightarrow> terminates e \<or>
      (\<exists>t. Body e = MContractRequest t) \<and> n_consumerPID own = n_consumerPID peer \<and> n_consumerPID own \<noteq> emptyUUID
        \<and> n_providerPID own = emptyUUID \<or>
      (\<exists>t. Body e = MContractOffer t) \<and> n_providerPID own = n_providerPID peer \<and> n_providerPID own \<noteq> emptyUUID
        \<and> n_consumerPID own = emptyUUID"
    and "n_state peer \<noteq> C_INITIAL \<Longrightarrow> knows_both own \<and> n_providerPID peer = n_providerPID own \<and> n_consumerPID peer = n_consumerPID own"
  shows "n_state own' = n_state peer' \<and> n_state peer' \<noteq> C_INITIAL \<and> n_role own' = n_role own \<and> n_role peer' = n_role peer
    \<and> list_all entry_ok es \<and> knows_both own' \<and> knows_both peer' \<and> n_providerPID peer' = n_providerPID own' \<and> n_consumerPID peer' = n_consumerPID own'"
proof -
  note eff = deliver_effect[OF assms(1,2)]
  have "n_state peer' \<noteq> C_INITIAL" using eff not_initial_again by blast
  moreover have "knows_both own' \<and> n_providerPID peer' = n_providerPID own' \<and> n_consumerPID peer' = n_consumerPID own'"
  proof (cases "n_state peer = C_INITIAL")
    case True
    have "\<not> terminates e" using eff True by (auto simp: terminates_def)
    then show ?thesis using deliver_opening_pids[OF assms(1) True assms(3,4)] assms(5)[OF True] by blast
  next
    case False
    then show ?thesis using deliver_known_pids[OF assms(1) False] assms(6)[OF False] by auto
  qed
  ultimately show ?thesis using eff queued_by_ok by (auto simp: knows_both_def)
qed

lemma list_all_remove1: "list_all P xs \<Longrightarrow> list_all P (remove1 x xs)"
  by (induction xs) auto

lemma turn_bodies:
  "recv_target st m = Some t \<Longrightarrow> sender st = DataspaceConsumer \<Longrightarrow> \<not> to_consumer m"
  "recv_target st m = Some t \<Longrightarrow> sender st = DataspaceProvider \<Longrightarrow> st \<noteq> C_INITIAL \<Longrightarrow> from_provider_body m"
  by (cases "(st, m)" rule: recv_target.cases; auto split: if_splits)+

definition agreed_state :: "cstate \<Rightarrow> bool" where
  "agreed_state st \<longleftrightarrow> st = C_AGREED \<or> st = C_VERIFIED \<or> st = C_FINALIZED"

lemma received_by_provider:
  "recv_target st m = Some t \<Longrightarrow> \<not> to_consumer m \<Longrightarrow> t \<noteq> C_INITIAL \<and> sender t = DataspaceProvider
     \<and> (agreed_state t \<longrightarrow> st = C_AGREED \<and> t = C_VERIFIED)"
  by (cases "(st, m)" rule: recv_target.cases) (auto simp: agreed_state_def split: if_splits)

lemma received_by_consumer:
  "recv_target st m = Some t \<Longrightarrow> from_provider_body m \<Longrightarrow>
     (sender t = DataspaceConsumer \<or> contract_final t)
     \<and> (agreed_state t \<longrightarrow> (\<exists>a. m = MContractAgreement a) \<or> st = C_VERIFIED \<and> t = C_FINALIZED)
     \<and> ((\<exists>a. m = MContractAgreement a) \<longrightarrow> t = C_AGREED)"
  by (cases "(st, m)" rule: recv_target.cases) (auto simp: agreed_state_def contract_final_def split: if_splits)

lemma final_recv: "contract_final st \<Longrightarrow> recv_target st m = None"
  by (cases "(st, m)" rule: recv_target.cases) (auto simp: contract_final_def split: if_splits)

text \<open>What the peer queues goes the other way.\<close>

lemma provider_answers:
  "recv_target st m = Some (n_state p) \<Longrightarrow> \<not> to_consumer m \<Longrightarrow> list_all (queued_by p) es \<Longrightarrow>
     list_all (\<lambda>e. from_provider_body (Body e)) es"
  using received_by_provider[of st m "n_state p"] turn_bodies(2)[of "n_state p"] by (auto simp: list_all_iff queued_by_def)

lemma consumer_answers:
  "recv_target st m = Some (n_state c) \<Longrightarrow> from_provider_body m \<Longrightarrow> list_all (queued_by c) es \<Longrightarrow>
     list_all (\<lambda>e. \<not> to_consumer (Body e)) es"
  using received_by_consumer[of st m "n_state c"] final_recv[of "n_state c"] turn_bodies(1)[of "n_state c"]
  by (auto simp: list_all_iff queued_by_def)

lemma left_behind_frame:
  "left_behind r es r' es' \<Longrightarrow> n_state r' = n_state r \<and> n_role r' = n_role r \<and> n_providerPID r' = n_providerPID r
     \<and> n_consumerPID r' = n_consumerPID r \<and> set es' \<subseteq> set es"
  by (auto simp: left_behind_def)

lemma list_all_subset: "set es' \<subseteq> set es \<Longrightarrow> list_all P es \<Longrightarrow> list_all P es'"
  by (auto simp: list_all_iff)

lemma sends_keeps:
  assumes "contract_Send L d ctx fresh now (flagged initial auto (session cn)) = (r, OK af)" and "left_behind r (entries af) c es"
  shows "n_state c = n_state cn \<and> n_role c = n_role cn \<and> n_providerPID c = n_providerPID cn \<and> n_consumerPID c = n_consumerPID cn
    \<and> list_all entry_ok es \<and> (\<forall>e \<in> set es. recv_target (n_state cn) (Body e) \<noteq> None)"
  using Send_effect[OF assms(1)] left_behind_frame[OF assms(2)] by (auto simp: list_all_iff)

lemma paired_known:
  "paired x \<Longrightarrow> n_state (provider x) \<noteq> C_INITIAL \<Longrightarrow> knows_both (consumer x) \<and> knows_both (provider x)
     \<and> n_providerPID (provider x) = n_providerPID (consumer x) \<and> n_consumerPID (provider x) = n_consumerPID (consumer x)"
  by (auto simp: paired_def knows_both_def)

lemma control_call_paired:
  assumes "control_call L W x y" and "paired x"
  shows "paired y \<and> n_state (consumer y) = n_state (consumer x) \<and> n_state (provider y) = n_state (provider x)"
  using assms(1)
proof cases
  case (consumer_sends ctx fresh now initial auto r af c es)
  note k = sends_keeps[OF consumer_sends(4,5)]
  have "list_all (\<lambda>e. \<not> to_consumer (Body e)) es"
    using k consumer_sends(3) by (auto simp: list_all_iff dest: turn_bodies(1))
  then show ?thesis using k assms(2) consumer_sends(1,2) by (auto simp: paired_def knows_both_def)
next
  case (provider_sends ctx fresh now initial auto r af p es)
  note k = sends_keeps[OF provider_sends(4,5)]
  have "list_all (\<lambda>e. from_provider_body (Body e)) es"
    using k provider_sends(2,3) by (auto simp: list_all_iff dest: turn_bodies(2))
  then show ?thesis using k assms(2) provider_sends(1,2) by (auto simp: paired_def knows_both_def)
next
  case (consumer_terminates ctx code reasons e)
  then show ?thesis using termination_entry_ok[OF consumer_terminates(2)] assms(2)
    by (auto simp: paired_def beginning_def terminates_def)
next
  case (provider_terminates ctx code reasons e)
  then show ?thesis using termination_entry_ok[OF provider_terminates(2)] assms(2)
    by (auto simp: paired_def beginning_def terminates_def)
qed

lemma restart_paired:
  "restart x y \<Longrightarrow> paired x \<Longrightarrow> paired y \<and> n_state (consumer y) = n_state (consumer x) \<and> n_state (provider y) = n_state (provider x)"
  by (erule restart.cases) (auto simp: paired_def beginning_def)

lemma delivery_in_step:
  assumes "delivery L W x y" and "uuid_laws L" and "paired x"
  shows "in_step y"
  using assms(1)
proof cases
  case (to_provider e fv ctx c p es)
  have e: "entry_ok e" "\<not> to_consumer (Body e)" using to_provider(2) assms(3) by (auto simp: paired_def list_all_iff)
  note after = deliver_in_step[OF to_provider(4) e(1) assms(2) to_provider(3)]
  have "n_state c = n_state p \<and> n_state p \<noteq> C_INITIAL \<and> n_role c = n_role (consumer x) \<and> n_role p = n_role (provider x)
    \<and> list_all entry_ok es \<and> knows_both c \<and> knows_both p \<and> n_providerPID p = n_providerPID c \<and> n_consumerPID p = n_consumerPID c"
    by (rule after) (use to_provider(2) assms(3) in \<open>auto simp: paired_def beginning_def list_all_iff split: if_splits\<close>)
  moreover have "list_all (\<lambda>e. from_provider_body (Body e)) es"
    using provider_answers[OF _ e(2)] deliver_effect[OF to_provider(4) e(1)] by blast
  ultimately show ?thesis using assms(3) unfolding to_provider(1) by (simp add: in_step_def paired_def list_all_remove1)
next
  case (to_consumer e fv ctx p c es)
  have e: "entry_ok e" "from_provider_body (Body e)" using to_consumer(2) assms(3) by (auto simp: paired_def list_all_iff)
  note after = deliver_in_step[OF to_consumer(4) e(1) assms(2) to_consumer(3)]
  have "n_state p = n_state c \<and> n_state c \<noteq> C_INITIAL \<and> n_role p = n_role (provider x) \<and> n_role c = n_role (consumer x)
    \<and> list_all entry_ok es \<and> knows_both p \<and> knows_both c \<and> n_providerPID c = n_providerPID p \<and> n_consumerPID c = n_consumerPID p"
    by (rule after) (use to_consumer(2) assms(3) in \<open>auto simp: paired_def beginning_def list_all_iff knows_both_def split: if_splits\<close>)
  moreover have "list_all (\<lambda>e. \<not> Routing_Facts.to_consumer (Body e)) es"
    using consumer_answers[OF _ e(2)] deliver_effect[OF to_consumer(4) e(1)] by blast
  ultimately show ?thesis using assms(3) unfolding to_consumer(1) by (simp add: in_step_def paired_def list_all_remove1)
qed

text \<open>A side from which a message was taken is behind by that message, or, when it was behind before, by a termination.\<close>

lemma can_terminate: "t \<in> set (validTransitions s) \<Longrightarrow> s \<noteq> C_INITIAL \<Longrightarrow> recv_target s (MContractTermination u) = Some C_TERMINATED"
  by (cases s) auto

lemma unanswered_delivery_apart:
  assumes "unanswered_delivery L W x y" and "paired x" and "n_state (consumer x) = n_state (provider x) \<or> one_apart x"
  shows "paired y \<and> one_apart y"
  using assms(1)
proof cases
  case (provider_moves e ctx fv r es p es')
  have e: "entry_ok e" "\<not> to_consumer (Body e)" using provider_moves(2) assms(2) by (auto simp: paired_def list_all_iff)
  note eff = peer_moves_effect[OF provider_moves(4) e(1)] and left = left_behind_frame[OF provider_moves(5)]
  note known = paired_known[OF assms(2) provider_moves(3)]
  have pids: "n_providerPID r = n_providerPID (provider x)" "n_consumerPID r = n_consumerPID (provider x)"
    using peer_moves_pids[OF provider_moves(4,3)] known by simp_all
  have init: "n_state (consumer x) \<noteq> C_INITIAL" "n_state p \<noteq> C_INITIAL"
    using assms(2) provider_moves(3) eff left not_initial_again by (auto simp: paired_def)
  have new: "list_all entry_ok es'" "list_all (\<lambda>e. from_provider_body (Body e)) es'"
    using eff left provider_answers[OF _ e(2)] queued_by_ok list_all_subset by blast+
  have "n_role p = DataspaceProvider" using eff left assms(2) by (simp add: paired_def)
  then have paired: "paired y" unfolding provider_moves(1) using assms(2) new known pids left init by (simp add: paired_def)
  have m: "recv_target (n_state (provider x)) (Body e) = Some (n_state p)" "n_state p \<in> set (validTransitions (n_state (consumer x)))"
    using eff left by simp_all
  have "consumer_behind y"
  proof (cases "\<exists>u. Body e = MContractTermination u")
    case True
    then have "n_state p = C_TERMINATED" using m(1) recv_target_msg_target by fastforce
    then show ?thesis using True e(2) m(2) init(1) can_terminate unfolding provider_moves(1) by (auto simp: consumer_behind_def)
  next
    case False
    have "\<not> one_apart x"
      using behind_only_terminates(1)[OF _ init(1) _ e(2) m(1)] behind_only_terminates(4)[OF _ provider_moves(3) _ e(2) m] False
      by (auto simp: one_apart_def consumer_behind_def provider_behind_def)
    then show ?thesis using assms(3) m e(2) provider_moves(3) unfolding provider_moves(1) by (auto simp: consumer_behind_def)
  qed
  then show ?thesis using paired by (simp add: one_apart_def)
next
  case (consumer_moves e ctx fv r es c es')
  have e: "entry_ok e" "from_provider_body (Body e)" using consumer_moves(2) assms(2) by (auto simp: paired_def list_all_iff)
  note eff = peer_moves_effect[OF consumer_moves(4) e(1)] and left = left_behind_frame[OF consumer_moves(5)]
  have init: "n_state (provider x) \<noteq> C_INITIAL" "n_state c \<noteq> C_INITIAL"
    using assms(2) consumer_moves(3) eff left not_initial_again by (auto simp: paired_def)
  note known = paired_known[OF assms(2) init(1)]
  have pids: "n_providerPID r = n_providerPID (consumer x)" "n_consumerPID r = n_consumerPID (consumer x)"
    using peer_moves_pids[OF consumer_moves(4,3)] known by simp_all
  have new: "list_all entry_ok es'" "list_all (\<lambda>e. \<not> to_consumer (Body e)) es'"
    using eff left consumer_answers[OF _ e(2)] queued_by_ok list_all_subset by blast+
  have "n_role c = DataspaceConsumer" using eff left assms(2) by (simp add: paired_def)
  then have paired: "paired y" unfolding consumer_moves(1) using assms(2) new known pids left init
    by (simp add: paired_def knows_both_def)
  have m: "recv_target (n_state (consumer x)) (Body e) = Some (n_state c)" "n_state c \<in> set (validTransitions (n_state (provider x)))"
    using eff left by simp_all
  have "provider_behind y"
  proof (cases "\<exists>u. Body e = MContractTermination u")
    case True
    then have "n_state c = C_TERMINATED" using m(1) recv_target_msg_target by fastforce
    then show ?thesis using True e(2) m(2) init(1) can_terminate unfolding consumer_moves(1) by (auto simp: provider_behind_def)
  next
    case False
    have "\<not> one_apart x"
      using behind_only_terminates(3)[OF _ init(1) _ e(2) m(1)] behind_only_terminates(2)[OF _ consumer_moves(3) _ e(2) m] False
      by (auto simp: one_apart_def consumer_behind_def provider_behind_def)
    then show ?thesis using assms(3) m e(2) consumer_moves(3) unfolding consumer_moves(1) by (auto simp: provider_behind_def)
  qed
  then show ?thesis using paired by (simp add: one_apart_def)
qed

lemma in_step_paired: "in_step x \<Longrightarrow> paired x"
  by (simp add: in_step_def)

lemma one_apart_cong:
  "one_apart x \<Longrightarrow> n_state (consumer y) = n_state (consumer x) \<Longrightarrow> n_state (provider y) = n_state (provider x) \<Longrightarrow> one_apart y"
  by (simp add: one_apart_def consumer_behind_def provider_behind_def)

lemma step_in_step:
  assumes "step False L W x y" and "uuid_laws L" and "in_step x"
  shows "in_step y"
  using assms by (auto simp: step_def in_step_def dest: control_call_paired restart_paired delivery_in_step)

lemma step_paired:
  assumes "step lossy L W x y" and "uuid_laws L" and "paired x" and "n_state (consumer x) = n_state (provider x) \<or> one_apart x"
  shows "paired y \<and> (n_state (consumer y) = n_state (provider y) \<or> one_apart y)"
  using assms(1) unfolding step_def
proof (elim disjE conjE)
  assume "delivery L W x y"
  then show ?thesis using delivery_in_step[OF _ assms(2,3)] by (simp add: in_step_def)
next
  assume "control_call L W x y"
  then show ?thesis using control_call_paired[OF _ assms(3)] assms(4) one_apart_cong by metis
next
  assume "restart x y"
  then show ?thesis using restart_paired[OF _ assms(3)] assms(4) one_apart_cong by metis
next
  assume "unanswered_delivery L W x y"
  from unanswered_delivery_apart[OF this assms(3,4)] show ?thesis by simp
qed

text \<open>C1: two connectors that negotiate do not drift apart. In every state they can reach, by any calls of
  the control service, any deliveries in any order, answered or not, messages that were queued twice or that
  another one overtook, and restarts that lose the queues, both know the negotiation by the same two PIDs once the opening message was
  delivered; and both are in the same state, or one side is behind by exactly one message, one that the other has
  taken without its sender having had the answer. Where every delivery that the peer takes is answered both
  are always in the same state. An exchange begins with the opening message whose delivery is answered.\<close>

theorem peers_agree:
  assumes "reachable lossy L W x" and "uuid_laws L"
  shows "(n_state (consumer x) = C_INITIAL \<longleftrightarrow> n_state (provider x) = C_INITIAL)
    \<and> (n_state (consumer x) \<noteq> C_INITIAL \<longrightarrow> n_providerPID (consumer x) = n_providerPID (provider x)
        \<and> n_consumerPID (consumer x) = n_consumerPID (provider x)
        \<and> n_providerPID (provider x) \<noteq> emptyUUID \<and> n_consumerPID (consumer x) \<noteq> emptyUUID)
    \<and> (n_state (consumer x) = n_state (provider x) \<or> consumer_behind x \<or> provider_behind x)
    \<and> (\<not> lossy \<longrightarrow> n_state (consumer x) = n_state (provider x))"
proof -
  from assms(1) have pair: "paired x \<and> (n_state (consumer x) = n_state (provider x) \<or> one_apart x)"
    by induction (use opened_in_step in_step_def step_paired[OF _ assms(2)] in blast)+
  have "in_step x" if "\<not> lossy"
    using assms(1) by induction (use that opened_in_step step_in_step[OF _ assms(2)] in auto)
  with pair show ?thesis by (auto simp: in_step_def one_apart_def paired_def knows_both_def)
qed

section \<open>The agreement\<close>

text \<open>The agreement the provider has sent is the one it holds.\<close>

definition holds_sent :: "negotiation \<Rightarrow> ReconciliationEntry \<Rightarrow> bool" where
  "holds_sent p e \<longleftrightarrow> (\<forall>t. Body e = MContractAgreement t \<longrightarrow> n_agreement p = Some (cam_Agreement t))"

definition agreement_kept :: "exchange \<Rightarrow> bool" where
  "agreement_kept x \<longleftrightarrow> list_all (holds_sent (provider x)) (from_provider x)
     \<and> (agreed_state (n_state (consumer x)) \<and> agreed_state (n_state (provider x)) \<longrightarrow>
          n_agreement (consumer x) = n_agreement (provider x) \<and> n_agreement (provider x) \<noteq> None)"

text \<open>What a side leaves behind that sends no agreement and receives none, and what one does that may send one.\<close>

lemma left_behind_agreement:
  assumes "left_behind r es r' es'" and "n_newAgreement r \<Longrightarrow> \<exists>e t. e \<in> set es \<and> Body e = MContractAgreement t"
    and "n_agreement r = a \<or> (\<exists>e t. e \<in> set es \<and> Body e = MContractAgreement t)"
  shows "n_agreement r' = a \<or> (\<exists>e t. e \<in> set es \<and> Body e = MContractAgreement t)"
  using assms by (auto simp: left_behind_def)

lemma sent_agreement_turn:
  "list_all (queued_by p) es \<Longrightarrow> \<exists>e t. e \<in> set es \<and> Body e = MContractAgreement t \<Longrightarrow> \<not> agreed_state (n_state p)"
  by (auto simp: list_all_iff queued_by_def agreed_state_def)

text \<open>The provider's queue after it may have sent something, when it made no agreement with a message outstanding.\<close>

lemma provider_queue:
  assumes "list_all (holds_sent p) q" and "list_all (queued_by r) es" and "left_behind r es p' es'"
    and "q \<noteq> [] \<longrightarrow> n_agreement p' = n_agreement p"
  shows "list_all (holds_sent p') (q @ es')"
proof -
  have "list_all (holds_sent p') es'"
    using assms(2,3) by (auto simp: left_behind_def list_all_iff queued_by_def holds_sent_def)
  moreover have "list_all (holds_sent p') q" using assms(1,4) by (cases q) (auto simp: list_all_iff holds_sent_def)
  ultimately show ?thesis by simp
qed

lemma left_behind_refl: "left_behind r es r es"
  by (simp add: left_behind_def)

lemma sends_agreement:
  assumes "contract_Send L d ctx fresh now (flagged initial auto (session cn)) = (r, OK af)" and "left_behind r (entries af) c es"
  shows "list_all (queued_by r) (entries af)
    \<and> (n_agreement c = n_agreement cn \<or> (\<exists>e t. e \<in> set (entries af) \<and> Body e = MContractAgreement t))"
proof -
  note eff = Send_effect[OF assms(1)]
  have "\<not> n_newAgreement (flagged initial auto (session cn))"
    by (simp add: flagged_def n_SetInitial_def n_SetAutoAccept_def session_def Let_def)
  then have new: "n_newAgreement r \<Longrightarrow> \<exists>e t. e \<in> set (entries af) \<and> Body e = MContractAgreement t"
    using Send_newAgreement[OF assms(1)] by blast
  have "n_agreement r = n_agreement cn \<or> (\<exists>e t. e \<in> set (entries af) \<and> Body e = MContractAgreement t)"
    using eff by (cases "entries af") (auto simp del: contract_Send.simps)
  from left_behind_agreement[OF assms(2) new this] show ?thesis using eff by (auto simp: list_all_iff queued_by_def)
qed

lemma received_by_consumer_none:
  "list_all (\<lambda>e. \<not> to_consumer (Body e)) es \<Longrightarrow> \<not> (\<exists>e t. e \<in> set es \<and> Body e = MContractAgreement t)"
  by (auto simp: list_all_iff)

lemma no_agreement_received: "\<not> to_consumer m \<Longrightarrow> received_agreement m cn = n_agreement cn"
  by (auto simp: received_agreement_def split: message.splits)

lemma control_call_agreement:
  assumes "control_call L W x y" and "paired x" and "agreement_kept x" and "calm x y"
  shows "agreement_kept y"
  using assms(1)
proof cases
  case (consumer_sends ctx fresh now initial auto r af c es)
  note k = sends_keeps[OF consumer_sends(4,5)] and a = sends_agreement[OF consumer_sends(4,5)]
  have "\<not> (\<exists>e t. e \<in> set (entries af) \<and> Body e = MContractAgreement t)"
    using a Send_effect[OF consumer_sends(4)] consumer_sends(3) turn_bodies(1) by fastforce
  then show ?thesis using a k assms(3) consumer_sends(1) by (auto simp: agreement_kept_def)
next
  case (provider_sends ctx fresh now initial auto r af p es)
  note k = sends_keeps[OF provider_sends(4,5)] and a = sends_agreement[OF provider_sends(4,5)]
  have "list_all (holds_sent p) (from_provider x @ es)"
    by (rule provider_queue[OF _ conjunct1[OF a] provider_sends(5)])
      (use assms(3,4) provider_sends(1) in \<open>auto simp: agreement_kept_def calm_def\<close>)
  moreover have "n_state r = n_state (provider x)" using Send_effect[OF provider_sends(4)] by simp
  then have "agreed_state (n_state (provider x)) \<longrightarrow> n_agreement p = n_agreement (provider x)"
    using a sent_agreement_turn[of r "entries af"] by auto
  ultimately show ?thesis using k assms(3) provider_sends(1) by (auto simp: agreement_kept_def)
next
  case (consumer_terminates ctx code reasons e)
  then show ?thesis using assms(3) by (auto simp: agreement_kept_def)
next
  case (provider_terminates ctx code reasons e)
  then show ?thesis using termination_entry_ok[OF provider_terminates(2)] assms(3)
    by (auto simp: agreement_kept_def terminates_def holds_sent_def)
qed

lemma restart_agreement: "restart x y \<Longrightarrow> agreement_kept x \<Longrightarrow> agreement_kept y"
  by (erule restart.cases) (auto simp: agreement_kept_def)

text \<open>The states from which the other side can be brought to agreed states.\<close>

lemma into_agreed:
  "t \<in> set (validTransitions s) \<Longrightarrow> t = C_VERIFIED \<or> t = C_FINALIZED \<Longrightarrow> agreed_state s"
  "t \<in> set (validTransitions s) \<Longrightarrow> t = C_AGREED \<Longrightarrow> \<not> agreed_state s"
  by (cases s; auto simp: agreed_state_def)+

text \<open>What the two sides make of a message, answered or not.\<close>

lemma provider_moves_agreement:
  assumes "peer_moves L d ctx fv e c p = Some (r, es)" and "left_behind r es p' es'" and "entry_ok e" and "\<not> to_consumer (Body e)"
    and "list_all (holds_sent p) q" and "q \<noteq> [] \<longrightarrow> n_agreement p' = n_agreement p"
  shows "list_all (holds_sent p') (q @ es')
    \<and> (agreed_state (n_state p') \<longrightarrow> n_agreement p' = n_agreement p \<and> agreed_state (n_state p) \<and> agreed_state (n_state c))"
proof -
  note eff = peer_moves_effect[OF assms(1,3)] and left = left_behind_frame[OF assms(2)]
  have queued: "list_all (queued_by r) es" using eff by blast
  have "n_newAgreement r \<Longrightarrow> \<exists>e t. e \<in> set es \<and> Body e = MContractAgreement t" using eff assms(4) by auto
  moreover have "n_agreement r = n_agreement p \<or> (\<exists>e t. e \<in> set es \<and> Body e = MContractAgreement t)"
    using eff no_agreement_received[OF assms(4)] by simp
  ultimately have "n_agreement p' = n_agreement p \<or> (\<exists>e t. e \<in> set es \<and> Body e = MContractAgreement t)"
    by (rule left_behind_agreement[OF assms(2)])
  then have "agreed_state (n_state p') \<longrightarrow> n_agreement p' = n_agreement p"
    using sent_agreement_turn[OF queued] left by auto
  moreover have "recv_target (n_state p) (Body e) = Some (n_state p')" "n_state p' \<in> set (validTransitions (n_state c))"
    using eff left by simp_all
  then have "agreed_state (n_state p') \<longrightarrow> agreed_state (n_state p) \<and> agreed_state (n_state c)"
    using received_by_provider[OF _ assms(4)] into_agreed(1) by (auto simp: agreed_state_def)
  ultimately show ?thesis using provider_queue[OF assms(5) queued assms(2,6)] by blast
qed

lemma consumer_moves_agreement:
  assumes "peer_moves L d ctx fv e p c = Some (r, es)" and "left_behind r es c' es'" and "entry_ok e" and "from_provider_body (Body e)"
    and "agreed_state (n_state c')"
  shows "(\<exists>t. Body e = MContractAgreement t \<and> n_agreement r = Some (cam_Agreement t)) \<and> \<not> agreed_state (n_state p)
    \<or> n_agreement c' = n_agreement c \<and> agreed_state (n_state c) \<and> agreed_state (n_state p)"
proof -
  note eff = peer_moves_effect[OF assms(1,3)] and left = left_behind_frame[OF assms(2)]
  have m: "recv_target (n_state c) (Body e) = Some (n_state c')" "n_state c' \<in> set (validTransitions (n_state p))"
    using eff left by simp_all
  have "list_all (\<lambda>e. \<not> to_consumer (Body e)) es" using consumer_answers[OF _ assms(4)] eff by blast
  note none = received_by_consumer_none[OF this]
  have ag: "n_agreement r = received_agreement (Body e) c" using eff none by blast
  note received_by_consumer[OF m(1) assms(4)]
  then consider t where "Body e = MContractAgreement t" "n_state c' = C_AGREED" | "n_state c = C_VERIFIED" "n_state c' = C_FINALIZED"
      "\<not> (\<exists>t. Body e = MContractAgreement t)" using assms(5) by fastforce
  then show ?thesis
  proof cases
    case 1
    then show ?thesis using ag m(2) into_agreed(2) by (simp add: received_agreement_def)
  next
    case 2
    then have "n_agreement c' = n_agreement c"
      using ag none eff assms(2) by (auto simp: left_behind_def received_agreement_def split: message.splits)
    then show ?thesis using 2 m(2) into_agreed(1) by (simp add: agreed_state_def)
  qed
qed

lemma delivery_agreement:
  assumes "delivery L W x y" and "paired x" and "agreement_kept x" and "calm x y"
  shows "agreement_kept y"
  using assms(1)
proof cases
  case (to_provider e fv ctx c p es)
  have e: "entry_ok e" "\<not> to_consumer (Body e)" using to_provider(2) assms(2) by (auto simp: paired_def list_all_iff)
  note eff = deliver_effect[OF to_provider(4) e(1)]
  have "list_all (holds_sent p) (from_provider x @ es) \<and> (agreed_state (n_state p) \<longrightarrow> n_agreement p = n_agreement (provider x)
      \<and> agreed_state (n_state (provider x)) \<and> agreed_state (n_state (consumer x)))"
    by (rule provider_moves_agreement[OF deliver_peer_moves[OF to_provider(4)] left_behind_refl e])
      (use assms(3,4) to_provider(1) in \<open>auto simp: agreement_kept_def calm_def\<close>)
  then show ?thesis using assms(3) eff unfolding to_provider(1) by (auto simp: agreement_kept_def)
next
  case (to_consumer e fv ctx p c es)
  have e: "entry_ok e" "from_provider_body (Body e)" using to_consumer(2) assms(2) by (auto simp: paired_def list_all_iff)
  note eff = deliver_effect[OF to_consumer(4) e(1)]
  note moved = consumer_moves_agreement[OF deliver_peer_moves[OF to_consumer(4)] left_behind_refl e]
  have "holds_sent (provider x) e" using to_consumer(2) assms(3) by (auto simp: agreement_kept_def list_all_iff)
  then have "agreed_state (n_state c) \<longrightarrow> n_agreement c = n_agreement (provider x) \<and> n_agreement (provider x) \<noteq> None"
    using moved assms(3) by (auto simp: agreement_kept_def holds_sent_def)
  moreover have "n_agreement p = n_agreement (provider x)" using eff by blast
  moreover from this have "list_all (holds_sent p) (remove1 e (from_provider x))"
    using assms(3) by (intro list_all_remove1) (auto simp: agreement_kept_def holds_sent_def list_all_iff)
  ultimately show ?thesis unfolding to_consumer(1) by (auto simp: agreement_kept_def)
qed

lemma unanswered_delivery_agreement:
  assumes "unanswered_delivery L W x y" and "paired x" and "agreement_kept x" and "calm x y"
  shows "agreement_kept y"
  using assms(1)
proof cases
  case (provider_moves e ctx fv r es p es')
  have e: "entry_ok e" "\<not> to_consumer (Body e)" using provider_moves(2) assms(2) by (auto simp: paired_def list_all_iff)
  have "list_all (holds_sent p) (from_provider x @ es') \<and> (agreed_state (n_state p) \<longrightarrow> n_agreement p = n_agreement (provider x)
      \<and> agreed_state (n_state (provider x)) \<and> agreed_state (n_state (consumer x)))"
    by (rule provider_moves_agreement[OF provider_moves(4,5) e])
      (use assms(3,4) provider_moves(1) in \<open>auto simp: agreement_kept_def calm_def\<close>)
  then show ?thesis using assms(3) unfolding provider_moves(1) by (auto simp: agreement_kept_def)
next
  case (consumer_moves e ctx fv r es c es')
  have e: "entry_ok e" "from_provider_body (Body e)" using consumer_moves(2) assms(2) by (auto simp: paired_def list_all_iff)
  note moved = consumer_moves_agreement[OF consumer_moves(4,5) e]
  show ?thesis using moved assms(3) unfolding consumer_moves(1) by (auto simp: agreement_kept_def)
qed

lemma step_agreement:
  "step lossy L W x y \<Longrightarrow> paired x \<Longrightarrow> agreement_kept x \<Longrightarrow> calm x y \<Longrightarrow> agreement_kept y"
  unfolding step_def
  by (elim disjE conjE) (blast intro: delivery_agreement control_call_agreement restart_agreement unanswered_delivery_agreement)+

lemma opened_agreement:
  assumes "opened_by_consumer L x \<or> opened_by_provider L x"
  shows "agreement_kept x"
proof -
  have "n_state (consumer x) = C_INITIAL" using assms by (auto simp: opened_by_consumer_def opened_by_provider_def)
  moreover have "list_all (holds_sent (provider x)) (from_provider x)"
    using assms
  proof (elim disjE)
    assume "opened_by_consumer L x"
    then show ?thesis by (simp add: opened_by_consumer_def)
  next
    assume "opened_by_provider L x"
    from opened_entry(2)[OF this] show ?thesis by (auto simp: holds_sent_def)
  qed
  ultimately show ?thesis by (simp add: agreement_kept_def agreed_state_def)
qed

lemma calmly_reachable_kept:
  assumes "calmly_reachable L W x" and "uuid_laws L"
  shows "paired x \<and> (n_state (consumer x) = n_state (provider x) \<or> one_apart x) \<and> agreement_kept x"
  using assms(1)
  by induction (use opened_in_step in_step_def opened_agreement step_paired[OF _ assms(2)] step_agreement in blast)+

text \<open>C12: when a provider makes no agreement while a message of its own is still outstanding, the two sides agree on what
  they agreed on: in every state they can reach, whatever deliveries stay unanswered and whatever agreements can not be stored, if
  each side's negotiation is agreed, verified or finalised then both hold an agreement, and it is the same one.\<close>

theorem agreements_match:
  assumes "calmly_reachable L W x" and "uuid_laws L" and "agreed_state (n_state (consumer x))" and "agreed_state (n_state (provider x))"
  shows "n_agreement (consumer x) = n_agreement (provider x) \<and> n_agreement (consumer x) \<noteq> None"
  using calmly_reachable_kept[OF assms(1,2)] assms(3,4) by (auto simp: agreement_kept_def)

end
