(* ===== verification/Protocol_Runs.thy ===== *)
theory Protocol_Runs
  imports Protocol_Facts
begin

text \<open>
  Runs of two connectors: when both negotiations accept automatically, the opening request of a
  consumer is enough, and six deliveries finalise both. And a run, with two agreements in
  flight, after which they hold different ones.
\<close>

section \<open>Deliveries that succeed\<close>

definition learned :: "negotiation \<Rightarrow> negotiation \<Rightarrow> negotiation" where
  "learned r n =
     (if n_providerPID n = emptyUUID \<and> n_consumerPID r = n_consumerPID n \<and> n_providerPID r \<noteq> emptyUUID
      then n\<lparr>n_providerPID := n_providerPID r, n_modified := True\<rparr>
      else if n_consumerPID n = emptyUUID \<and> n_providerPID r = n_providerPID n \<and> n_consumerPID r \<noteq> emptyUUID
      then n\<lparr>n_consumerPID := n_consumerPID r, n_modified := True\<rparr> else n)"

lemma deliver_eq:
  assumes "uuid_laws L" and "TargetState e = cstate_String st" and "st \<in> set (validTransitions (n_state own))"
    and "recv_and_send L d ctx fv (Body e) (session peer) = (r, Inr af)"
  shows "deliver L d ctx fv e own peer =
    Some (learned r ((session own)\<lparr>n_state := st, n_modified := True\<rparr>), r, entries af)"
proof -
  have "n_SetState st (session own) = OK ((session own)\<lparr>n_state := st, n_modified := True\<rparr>)"
    using assms(3) by (simp add: outcome_simps)
  then show ?thesis
    by (simp add: deliver_def assms(2,4) negotiation_ApplyResponse_def ack_parsed[OF assms(1)] learned_def n_setters_rw)
qed

lemma learned_known: "knows_both n \<Longrightarrow> learned r n = n"
  by (simp add: learned_def knows_both_def)

section \<open>Negotiations that accept automatically\<close>

definition live :: "'a lib_scheme \<Rightarrow> negotiation \<Rightarrow> bool" where
  "live L cn \<longleftrightarrow> n_autoAccept cn \<and> url_ok L (n_callback cn) \<and> url_ok L (n_self cn) \<and> url_String L (n_self cn) \<noteq> []
     \<and> valid_MessageOffer (offer_message (n_offer cn)) \<and> offer_target cn \<noteq> [] \<and> (\<exists>t. Marshal_offer L (n_offer cn) = OK t)"

text \<open>A message the peer can take, as far as it depends on the sender.\<close>

definition takeable :: "'a lib_scheme \<Rightarrow> negotiation \<Rightarrow> ReconciliationEntry \<Rightarrow> cstate \<Rightarrow> bool" where
  "takeable L cn e st \<longleftrightarrow> TargetState e = cstate_String st \<and> recv_target (n_state cn) (Body e) = Some st
     \<and> msg_provider (Body e) = uuid_URN L (n_providerPID cn) \<and> msg_consumer (Body e) = uuid_URN L (n_consumerPID cn)
     \<and> (\<forall>peer. url_ok L (n_callback peer) \<longrightarrow> (\<exists>cb. url_Parse L (msg_callback L peer (Body e)) = Some cb \<and> url_ok L cb))"

fun next_state :: "cstate \<Rightarrow> bool \<Rightarrow> cstate" where
  "next_state C_REQUESTED initial = (if initial then C_OFFERED else C_AGREED)"
| "next_state C_OFFERED initial = (if initial then C_REQUESTED else C_ACCEPTED)"
| "next_state C_ACCEPTED initial = C_AGREED"
| "next_state C_AGREED initial = C_VERIFIED"
| "next_state C_VERIFIED initial = C_FINALIZED"
| "next_state st initial = st"

lemma live_fields:
  "n_autoAccept cn' = n_autoAccept cn \<Longrightarrow> n_self cn' = n_self cn \<Longrightarrow> n_offer cn' = n_offer cn \<Longrightarrow>
     url_ok L (n_callback cn') \<Longrightarrow> live L cn \<Longrightarrow> live L cn'"
  by (simp add: live_def offer_target_def)

lemma Send_live:
  assumes "live L cn" and "knows_both cn" and "uuid_laws L" and "n_state cn \<noteq> C_INITIAL" and "\<not> contract_final (n_state cn)"
    and "\<not> n_ro cn"
  obtains cn' e where "contract_Send L d ctx fresh now cn = (cn', OK (ApAdd e))"
    and "takeable L cn e (next_state (n_state cn) (n_initial cn))" and "live L cn'"
proof -
  have offer: "valid_MessageOffer (offer_message (n_offer cn))" "mo_Target (offer_message (n_offer cn)) \<noteq> []"
    using assms(1) by (simp_all add: live_def offer_target_def)
  have urls: "url_ok L (n_callback cn)" "url_Parse L (url_String L (n_self cn)) = Some (n_self cn)" "url_ok L (n_self cn)"
    "url_String L (n_self cn) \<noteq> []" using assms(1) by (simp_all add: live_def url_ok_def)
  note clone = cloneURL_ok[OF urls(1)]
  have pids: "n_providerPID cn \<noteq> emptyUUID" "n_consumerPID cn \<noteq> emptyUUID" using assms(2) by (simp_all add: knows_both_def)
  have ag: "valid_Agreement \<lparr>ag_policy = zero_policy, ag_Type = ''odrl:Agreement'', ag_ID = uuid_URN L fresh,
      ag_Target = mo_Target (offer_message (n_offer cn)), ag_Timestamp = now\<rparr>"
    using offer assms(3) by (simp add: valid_Agreement_def valid_zero_policy required_def uuid_URN_nonempty)
  note simps = Requested_Send_def Offered_Send_def sendContractRequest_def sendContractOffer_def sendContractAgreement_def
    sendContractEvent_def sendContractVerification_def ValidateAndMarshal_def required_def Let_def n_UnsetInitial_def
    valid_ContractRequest_def valid_ContractOffer_def valid_ContractAgreement_def valid_ContractEvent_def
    valid_ContractVerification_def makeContractRequestFunction_def makeRequestFunction_def n_setters_rw takeable_def
    uuid_URN_nonempty[OF assms(3)] assms(6) offer urls clone pids ag
  have "\<exists>cn' e. contract_Send L d ctx fresh now cn = (cn', OK (ApAdd e))
      \<and> takeable L cn e (next_state (n_state cn) (n_initial cn))"
    using assms(4,5) by (cases "n_state cn") (simp_all add: simps url_ok_def contract_final_def)
  then obtain cn' e where s: "contract_Send L d ctx fresh now cn = (cn', OK (ApAdd e))"
    "takeable L cn e (next_state (n_state cn) (n_initial cn))" by blast
  have "live L cn'" using contract_Send_OK[OF s(1)] urls(1) assms(1)
    by (intro live_fields[of cn' cn]) (auto simp: send_frame_def recv_frame_def)
  with that s show thesis by blast
qed

lemma Recv_initial:
  "contract_Recv L d ctx fresh msg cn = (cn', OK af) \<Longrightarrow> n_state cn \<noteq> C_INITIAL \<Longrightarrow> n_initial cn' = n_initial cn"
  by (cases "n_state cn"; cases msg) (auto simp: recv_simps dest!: learn_provider_OK learn_consumer_OK split: if_splits)

lemma live_session [simp]: "live L (session cn) = live L cn"
  by (simp add: live_def offer_target_def)

lemma Recv_live:
  assumes "takeable L own e st" and "live L peer" and "uuid_laws L" and "knows_both own" and "n_state peer = n_state own"
    and "n_state own \<noteq> C_INITIAL" and "n_providerPID peer = n_providerPID own" and "n_consumerPID peer = n_consumerPID own"
  obtains c1 a1 where "contract_Recv L d ctx fresh (Body e) (session peer) = (c1, OK a1)" and "n_state c1 = st"
    and "live L c1" and "\<not> n_initial c1" and "\<not> n_ro c1" and "knows_both c1"
proof -
  have t: "recv_target (n_state own) (Body e) = Some st" "msg_provider (Body e) = uuid_URN L (n_providerPID own)"
    "msg_consumer (Body e) = uuid_URN L (n_consumerPID own)"
    using assms(1) by (simp_all add: takeable_def)
  have "url_ok L (n_callback (session peer))" using assms(2) by (simp add: live_def)
  then obtain cb where cb: "url_Parse L (msg_callback L (session peer) (Body e)) = Some cb" "url_ok L cb"
    using assms(1) unfolding takeable_def by blast
  obtain off where off: "Marshal_offer L (n_offer (session peer)) = OK off" using assms(2) by (auto simp: live_def)
  obtain c1 a1 where r: "contract_Recv L d ctx fresh (Body e) (session peer) = (c1, OK a1)" "n_state c1 = st" "n_callback c1 = cb"
    using contract_Recv_complete[of "session peer" "Body e" st L cb off d ctx fresh] t cb off assms(3-8)
    by (auto simp: knows_both_def uuid_URN_lower)
  note ok = contract_Recv_OK[OF r(1)]
  show thesis
  proof (rule that[OF r(1,2)])
    show "live L c1" using ok r(3) cb(2) assms(2) by (intro live_fields[of c1 peer]) (auto simp: recv_frame_def)
    show "\<not> n_initial c1" using Recv_initial[OF r(1)] assms(5,6) by simp
    show "\<not> n_ro c1" using ok by (simp add: recv_frame_def)
    show "knows_both c1" using ok assms(4-8) by (auto simp: recv_step_def knows_both_def)
  qed
qed

lemma recv_and_send_auto:
  assumes "contract_Recv L d ctx (fv_recv fv) msg cn = (c1, OK a1)" and "n_autoAccept c1"
    and "contract_Send L d ctx (fv_agreement fv) (fv_now fv) c1 = (c2, OK a2)"
  shows "recv_and_send L d ctx fv msg cn = (c2, Inr a2)"
  using assms by (simp add: recv_and_send_def del: contract_Recv.simps contract_Send.simps)

text \<open>A delivery to a peer that accepts automatically succeeds, and unless it was the last the peer queues
  the next message.\<close>

lemma deliver_live:
  assumes "takeable L own e st" and "live L peer" and "uuid_laws L" and "knows_both own" and "n_state peer = n_state own"
    and "n_state own \<noteq> C_INITIAL" and "n_providerPID peer = n_providerPID own" and "n_consumerPID peer = n_consumerPID own"
  obtains r es where "deliver L d ctx fv e own peer = Some ((session own)\<lparr>n_state := st, n_modified := True\<rparr>, r, es)"
    and "live L r" and "if contract_final st then es = [] else \<exists>e'. es = [e'] \<and> takeable L r e' (next_state st False)"
proof -
  obtain c1 a1 where r: "contract_Recv L d ctx (fv_recv fv) (Body e) (session peer) = (c1, OK a1)" "n_state c1 = st"
      "live L c1" "\<not> n_initial c1" "\<not> n_ro c1" "knows_both c1"
    by (rule Recv_live[OF assms])
  have auto: "n_autoAccept c1" using r(3) by (simp add: live_def)
  have known: "knows_both ((session own)\<lparr>n_state := st, n_modified := True\<rparr>)" using assms(4) by (simp add: knows_both_def)
  have t: "TargetState e = cstate_String st" "st \<in> set (validTransitions (n_state own))"
    using assms(1) recv_target_valid by (auto simp: takeable_def)
  note eq = deliver_eq[OF assms(3) t, where d = d and ctx = ctx and fv = fv and peer = peer]
  show thesis
  proof (cases "contract_final st")
    case True
    then have "contract_Send L d ctx (fv_agreement fv) (fv_now fv) c1 = (c1, OK ApNoop)"
      using r(2) by (auto simp: contract_final_def)
    from eq[OF recv_and_send_auto[OF r(1) auto this]] that r(3) True show thesis
      by (simp add: learned_known[OF known])
  next
    case False
    have "st \<noteq> C_INITIAL" using assms(1) not_initial_again by (auto simp: takeable_def)
    then obtain c2 e' where s: "contract_Send L d ctx (fv_agreement fv) (fv_now fv) c1 = (c2, OK (ApAdd e'))"
      "takeable L c1 e' (next_state st False)" "live L c2"
      using Send_live[OF r(3,6) assms(3), of d ctx "fv_agreement fv" "fv_now fv"] r(2,4,5) False by metis
    have "takeable L c2 e' (next_state st False)"
      using s(2) Send_effect[OF s(1)] by (simp add: takeable_def)
    with eq[OF recv_and_send_auto[OF r(1) auto s(1)]] that s(3) False show thesis
      by (simp add: learned_known[OF known])
  qed
qed

section \<open>Running to the end\<close>

text \<open>One message is under way, and leads to \<open>st\<close>.\<close>

definition underway :: "'a lib_scheme \<Rightarrow> exchange \<Rightarrow> cstate \<Rightarrow> bool" where
  "underway L x st \<longleftrightarrow> live L (consumer x) \<and> live L (provider x) \<and> n_state (consumer x) \<noteq> C_INITIAL \<and>
     (\<exists>e. from_consumer x = [e] \<and> from_provider x = [] \<and> takeable L (consumer x) e st
        \<or> from_provider x = [e] \<and> from_consumer x = [] \<and> takeable L (provider x) e st)"

definition finished :: "exchange \<Rightarrow> bool" where
  "finished x \<longleftrightarrow> n_state (consumer x) = C_FINALIZED \<and> n_state (provider x) = C_FINALIZED
     \<and> from_consumer x = [] \<and> from_provider x = []"

fun distance :: "cstate \<Rightarrow> nat" where
  "distance C_REQUESTED = 5"
| "distance C_OFFERED = 4"
| "distance C_ACCEPTED = 3"
| "distance C_AGREED = 2"
| "distance C_VERIFIED = 1"
| "distance _ = 0"

lemma next_nearer:
  "\<not> contract_final st \<Longrightarrow> st \<noteq> C_INITIAL \<Longrightarrow> distance (next_state st False) < distance st \<and> next_state st False \<noteq> C_TERMINATED"
  by (cases st) (simp_all add: contract_final_def)

lemma live_state: "live L (cn\<lparr>n_state := st, n_modified := m\<rparr>) = live L cn"
  by (simp add: live_def offer_target_def)

lemma underway_step:
  assumes "underway L x st" and "in_step x" and "uuid_laws L" and "st \<noteq> C_TERMINATED" and "fv_recv (fv :: fresh_values) \<noteq> emptyUUID"
  shows "\<exists>y. delivery L W x y \<and> calm x y \<and> (if st = C_FINALIZED then finished y else underway L y (next_state st False))"
proof -
  have x: "live L (consumer x)" "live L (provider x)" "n_state (consumer x) \<noteq> C_INITIAL" "n_state (provider x) = n_state (consumer x)"
    "knows_both (consumer x)" "knows_both (provider x)"
    "n_providerPID (provider x) = n_providerPID (consumer x)" "n_consumerPID (provider x) = n_consumerPID (consumer x)"
    using assms(1,2) by (auto simp: underway_def in_step_def paired_def knows_both_def split: if_splits)
  from assms(1) obtain e where e: "from_consumer x = [e] \<and> from_provider x = [] \<and> takeable L (consumer x) e st
        \<or> from_provider x = [e] \<and> from_consumer x = [] \<and> takeable L (provider x) e st"
    by (auto simp: underway_def)
  have st: "st \<noteq> C_INITIAL" "contract_final st \<longleftrightarrow> st = C_FINALIZED"
    using e assms(4) not_initial_again by (auto simp: takeable_def contract_final_def)
  from e show ?thesis
  proof (elim disjE conjE)
    assume q: "from_consumer x = [e]" "from_provider x = []" and t: "takeable L (consumer x) e st"
    obtain r es where d: "deliver L (provider_deps W) sample_ctx fv e (consumer x) (provider x)
        = Some ((session (consumer x))\<lparr>n_state := st, n_modified := True\<rparr>, r, es)" "live L r"
      "if contract_final st then es = [] else \<exists>e'. es = [e'] \<and> takeable L r e' (next_state st False)"
      by (rule deliver_live[OF t x(2) assms(3) x(5,4,3,7,8)])
    let ?y = "\<lparr>consumer = (session (consumer x))\<lparr>n_state := st, n_modified := True\<rparr>, provider = r,
        from_consumer = remove1 e (from_consumer x), from_provider = from_provider x @ es\<rparr>"
    have "delivery L W x ?y" using delivery.to_provider[OF _ assms(5) d(1)] q by simp
    moreover have "entry_ok e" using assms(2) q by (simp add: in_step_def paired_def)
    then have "n_state r = st" using deliver_effect[OF d(1)] by simp
    ultimately show ?thesis using d(2,3) st x(1) q
      by (intro exI[of _ ?y]) (auto simp: calm_def finished_def underway_def live_state)
  next
    assume q: "from_provider x = [e]" "from_consumer x = []" and t: "takeable L (provider x) e st"
    obtain r es where d: "deliver L (consumer_deps W) sample_ctx fv e (provider x) (consumer x)
        = Some ((session (provider x))\<lparr>n_state := st, n_modified := True\<rparr>, r, es)" "live L r"
      "if contract_final st then es = [] else \<exists>e'. es = [e'] \<and> takeable L r e' (next_state st False)"
      by (rule deliver_live[OF t x(1) assms(3) x(6)]) (use x in auto)
    let ?y = "\<lparr>consumer = r, provider = (session (provider x))\<lparr>n_state := st, n_modified := True\<rparr>,
        from_consumer = from_consumer x @ es, from_provider = remove1 e (from_provider x)\<rparr>"
    have "delivery L W x ?y" using delivery.to_consumer[OF _ assms(5) d(1)] q by simp
    moreover have "entry_ok e" using assms(2) q by (simp add: in_step_def paired_def)
    then have "n_state r = st" using deliver_effect[OF d(1)] by simp
    ultimately show ?thesis using d(2,3) st x(2) q
      by (intro exI[of _ ?y]) (auto simp: calm_def finished_def underway_def live_state)
  qed
qed

lemma delivery_step: "delivery L W x y \<Longrightarrow> step lossy L W x y"
  by (simp add: step_def)

lemma underway_finishes:
  assumes "uuid_laws L" and "fv_recv (fv :: fresh_values) \<noteq> emptyUUID"
  shows "calmly_reachable L W x \<Longrightarrow> in_step x \<Longrightarrow> underway L x st \<Longrightarrow> st \<noteq> C_TERMINATED \<Longrightarrow>
     \<exists>y n. n \<le> Suc (distance st) \<and> (delivery L W ^^ n) x y \<and> calmly_reachable L W y \<and> finished y"
proof (induction "distance st" arbitrary: x st rule: less_induct)
  case less
  obtain y where y: "delivery L W x y" "calm x y" "if st = C_FINALIZED then finished y else underway L y (next_state st False)"
    using underway_step[OF less.prems(3,2) assms(1) less.prems(4) assms(2)] by blast
  have reach: "calmly_reachable L W y" "in_step y"
    using calmly_reachable.calm_step[OF less.prems(1) delivery_step[OF y(1)] y(2)]
      delivery_in_step[OF y(1) assms(1) in_step_paired[OF less.prems(2)]] by simp_all
  show ?case
  proof (cases "st = C_FINALIZED")
    case True
    then show ?thesis using y(1,3) reach by (intro exI[of _ y] exI[of _ 1]) auto
  next
    case False
    obtain e cn where "takeable L cn e st" using less.prems(3) by (auto simp: underway_def)
    then have "st \<noteq> C_INITIAL" using not_initial_again by (auto simp: takeable_def)
    then have nearer: "distance (next_state st False) < distance st" "next_state st False \<noteq> C_TERMINATED"
      using next_nearer[of st] False less.prems(4) by (auto simp: contract_final_def)
    have "underway L y (next_state st False)" using y(3) False by simp
    from less.hyps[OF nearer(1) reach this nearer(2)] obtain z n where
      "n \<le> Suc (distance (next_state st False))" "(delivery L W ^^ n) y z" "calmly_reachable L W z" "finished z" by blast
    moreover from y(1) this(2) have "(delivery L W ^^ Suc n) x z" by (rule relpowp_Suc_I2)
    ultimately show ?thesis using nearer(1) by (intro exI[of _ z] exI[of _ "Suc n"]) simp
  qed
qed

lemma live_learned: "live L (learned r cn) = live L cn"
  by (simp add: learned_def live_def offer_target_def)

text \<open>The opening request, delivered to a provider that has the dataset.\<close>

lemma opening_delivered:
  assumes "opened_by_consumer L x" and "uuid_laws L" and "live L (consumer x)" and "live L (provider x)"
    and "URNtoRawID (offer_target (provider x)) = OK target"
    and "needs_dataset (n_offer (provider x)) \<Longrightarrow> GetDataset (d_p (provider_deps W)) target ri = OK ()"
  shows "\<exists>y. delivery L W x y \<and> calm x y \<and> underway L y C_OFFERED"
proof -
  let ?p = "session (provider x)" and ?fv = sample_fresh and ?ctx = "SetRequesterInfo background ri"
  obtain d ctx fresh now c e where e: "contract_Send L d ctx fresh now (consumer x) = (c, OK (ApAdd e))" "from_consumer x = [e]"
    and x: "n_state (consumer x) = C_INITIAL" "n_state (provider x) = C_INITIAL" "n_consumerPID (consumer x) \<noteq> emptyUUID"
      "n_consumerPID (provider x) = n_consumerPID (consumer x)" "n_providerPID (consumer x) = emptyUUID" "from_provider x = []"
    using assms(1) by (auto simp: opened_by_consumer_def)
  obtain t where body: "Body e = MContractRequest t" and tgt: "TargetState e = cstate_String C_REQUESTED"
    using e(1) x by (auto simp: Initial_Send_def entry_for_def split: if_splits dest!: sendContractRequest_OK)
  obtain off where off: "Marshal_offer L (n_offer (provider x)) = OK off" using assms(4) by (auto simp: live_def)
  define c1 where "c1 = ?p\<lparr>n_state := C_REQUESTED, n_modified := True, n_providerPID := fv_recv ?fv, n_initial := True\<rparr>"
  have auto: "n_autoAccept (provider x)" using assms(4) by (simp add: live_def)
  have target: "URNtoRawID (offer_target ?p) = OK target" using assms(5) by (simp add: offer_target_def)
  have table: "C_REQUESTED \<in> set (validTransitions C_INITIAL)" by simp
  have recv: "contract_Recv L (provider_deps W) ?ctx (fv_recv ?fv) (Body e) ?p = (c1, OK ApNoop)"
    using assms(6) table by (simp add: body x(2) processContractRequest_def target c1_def n_SetState_def n_panicRO_def n_modify_def
        n_setters_rw n_SetInitial_def off auto)
  have known: "knows_both c1" using x(3,4) by (simp add: c1_def knows_both_def sample_fresh_def)
  have "live L c1" using assms(4) by (simp add: c1_def live_def offer_target_def)
  then obtain c2 e' where s: "contract_Send L (provider_deps W) ?ctx (fv_agreement ?fv) (fv_now ?fv) c1 = (c2, OK (ApAdd e'))"
      "takeable L c1 e' C_OFFERED" "live L c2"
    using Send_live[OF _ known assms(2), of "provider_deps W" ?ctx "fv_agreement ?fv" "fv_now ?fv"]
    by (auto simp: c1_def contract_final_def)
  have c2: "n_state c2 = C_REQUESTED" "takeable L c2 e' C_OFFERED"
    using s(2) Send_effect[OF s(1)] by (simp_all add: takeable_def c1_def)
  have "n_autoAccept c1" using auto by (simp add: c1_def)
  note both = recv_and_send_auto[OF recv this s(1)]
  have "C_REQUESTED \<in> set (validTransitions (n_state (consumer x)))" by (simp add: x(1))
  note d = deliver_eq[OF assms(2) tgt this both]
  let ?c = "learned c2 ((session (consumer x))\<lparr>n_state := C_REQUESTED, n_modified := True\<rparr>)"
  let ?y = "\<lparr>consumer = ?c, provider = c2, from_consumer = remove1 e (from_consumer x),
      from_provider = from_provider x @ entries (ApAdd e')\<rparr>"
  have "delivery L W x ?y" using delivery.to_provider[OF _ _ d] e(2) by (simp add: sample_fresh_def)
  moreover have "n_state ?c = C_REQUESTED" by (simp add: learned_def)
  moreover have "live L ?c" using assms(3) by (simp add: live_learned live_state)
  ultimately show ?thesis using e(2) x(6) s(3) c2
    by (intro exI[of _ ?y]) (simp add: calm_def underway_def)
qed

lemma auto_run:
  assumes "opened_by_consumer L x" and "uuid_laws L" and "live L (consumer x)" and "live L (provider x)"
    and "URNtoRawID (offer_target (provider x)) = OK target"
    and "needs_dataset (n_offer (provider x)) \<Longrightarrow> GetDataset (d_p (provider_deps W)) target ri = OK ()"
  shows "\<exists>y n. n \<le> 6 \<and> (delivery L W ^^ n) x y \<and> calmly_reachable L W y \<and> finished y"
proof -
  obtain y where y: "delivery L W x y" "calm x y" "underway L y C_OFFERED" using opening_delivered[OF assms] by blast
  have start: "calmly_reachable L W x" "in_step x"
    using assms(1) by (auto intro: calmly_reachable.calm_start opened_in_step)
  have "calmly_reachable L W y" "in_step y"
    using calmly_reachable.calm_step[OF start(1) delivery_step[OF y(1)] y(2)]
      delivery_in_step[OF y(1) assms(2) in_step_paired[OF start(2)]] by simp_all
  then obtain z n where z: "n \<le> 5" "(delivery L W ^^ n) y z" "calmly_reachable L W z" "finished z"
    using underway_finishes[OF assms(2), of sample_fresh W y C_OFFERED] y(3) by (auto simp: sample_fresh_def)
  moreover from y(1) z(2) have "(delivery L W ^^ Suc n) x z" by (rule relpowp_Suc_I2)
  ultimately show ?thesis by (intro exI[of _ z] exI[of _ "Suc n"]) simp
qed


section \<open>Two agreements in flight\<close>

lemma agreement_sent:
  assumes "contract_Send L d ctx fresh now cn = (cn', OK (ApAdd e))" and "n_state cn = C_REQUESTED \<or> n_state cn = C_ACCEPTED"
    and "\<not> n_initial cn"
  shows "\<exists>t. Body e = MContractAgreement t \<and> n_agreement cn' = Some (cam_Agreement t)
    \<and> ag_ID (cam_Agreement t) = uuid_URN L fresh"
  using assms by (auto simp: Requested_Send_def sendContractAgreement_def outcome_simps makeContractRequestFunction_def
      makeRequestFunction_def)

lemma live_flagged: "live L cn \<Longrightarrow> live L (flagged i a cn)"
  by (simp add: live_def flagged_def n_SetInitial_def n_SetAutoAccept_def Let_def offer_target_def)

text \<open>The condition of \<open>agreements_match\<close> is needed: a provider that is told to agree twice before its first
  agreement is delivered has made a second one, and when the first arrives the two sides have agreed
  on different agreements.\<close>

theorem two_agreements_differ:
  assumes "reachable False L W x" and "uuid_laws L" and "live L (consumer x)" and "live L (provider x)"
    and "n_state (provider x) = C_REQUESTED \<or> n_state (provider x) = C_ACCEPTED"
  shows "\<exists>y. reachable False L W y \<and> n_state (consumer y) = C_AGREED \<and> n_state (provider y) = C_AGREED
    \<and> n_agreement (consumer y) \<noteq> n_agreement (provider y)"
proof -
  let ?p = "provider x" and ?c = "consumer x"
  have "in_step x" using assms(1) by induction (use opened_in_step step_in_step[OF _ assms(2)] in blast)+
  then have x: "n_state ?c = n_state ?p" "knows_both ?p" "n_providerPID ?c = n_providerPID ?p" "n_consumerPID ?c = n_consumerPID ?p"
    using assms(5) by (auto simp: in_step_def paired_def knows_both_def split: if_splits)
  have st: "n_state ?p \<noteq> C_INITIAL" "sender (n_state ?p) = DataspaceProvider" "\<not> contract_final (n_state ?p)"
    "next_state (n_state ?p) False = C_AGREED"
    using assms(5) by (auto simp: contract_final_def)
  have flag: "\<not> n_initial (flagged False False (session cn))" "flagged False False (session cn) = session cn" for cn
    by (simp_all add: flagged_def)
  obtain p1 e1 where s1: "contract_Send L (provider_deps W) sample_ctx 20 0 (session ?p) = (p1, OK (ApAdd e1))"
      "takeable L (session ?p) e1 C_AGREED" "live L p1"
    using Send_live[of L "session ?p" "provider_deps W" sample_ctx 20 0] assms(2,4) x(2) st
    by (auto simp: knows_both_def simp del: contract_Send.simps)
  have k1: "n_state p1 = n_state ?p" "n_providerPID p1 = n_providerPID ?p" "n_consumerPID p1 = n_consumerPID ?p"
    using Send_effect[OF s1(1)] by simp_all
  obtain p2 e2 where s2: "contract_Send L (provider_deps W) sample_ctx 21 0 (session p1) = (p2, OK (ApAdd e2))"
      "takeable L (session p1) e2 C_AGREED" "live L p2"
    using Send_live[of L "session p1" "provider_deps W" sample_ctx 21 0] assms(2) s1(3) k1 x(2) st
    by (auto simp: knows_both_def simp del: contract_Send.simps)
  have k2: "n_state p2 = n_state ?p" "n_providerPID p2 = n_providerPID ?p" "n_consumerPID p2 = n_consumerPID ?p"
    using Send_effect[OF s2(1)] k1 by simp_all
  obtain t1 where t1: "Body e1 = MContractAgreement t1" "ag_ID (cam_Agreement t1) = uuid_URN L 20"
    using agreement_sent[OF s1(1)] assms(5) by auto
  obtain g2 where g2: "n_agreement p2 = Some g2" "ag_ID g2 = uuid_URN L 21"
    using agreement_sent[OF s2(1)] assms(5) k1 by auto
  let ?x1 = "x\<lparr>provider := p1, from_provider := from_provider x @ [e1]\<rparr>"
  let ?x2 = "?x1\<lparr>provider := p2, from_provider := from_provider ?x1 @ [e2]\<rparr>"
  have sends: "reachable False L W y \<Longrightarrow> n_state (provider y) = n_state ?p \<Longrightarrow>
      contract_Send L (provider_deps W) sample_ctx fresh 0 (session (provider y)) = (p, OK (ApAdd e)) \<Longrightarrow>
      reachable False L W (y\<lparr>provider := p, from_provider := from_provider y @ [e]\<rparr>)" for y fresh p e
    using reachable.step[of False L W y] control_call.provider_sends[of y L W sample_ctx fresh 0 False False p "ApAdd e" p "[e]"]
      st(1,2) by (simp add: step_def flag(2) left_behind_refl del: contract_Send.simps)
  have r1: "reachable False L W ?x1" using sends[OF assms(1) _ s1(1)] by simp
  have r2: "reachable False L W ?x2" using sends[OF r1] k1 s2(1) by (simp del: contract_Send.simps)
  have "takeable L p2 e1 C_AGREED" using s1(2) k2 by (simp add: takeable_def)
  then obtain r es where d: "deliver L (consumer_deps W) sample_ctx sample_fresh e1 p2 ?c
        = Some ((session p2)\<lparr>n_state := C_AGREED, n_modified := True\<rparr>, r, es)"
    by (rule deliver_live[OF _ assms(3,2)]) (use k2 x st in \<open>auto simp: knows_both_def\<close>)
  have "entry_ok e1" using s1(2) recv_target_msg_target by (auto simp: takeable_def entry_ok_def)
  note eff = deliver_effect[OF d this]
  have agreed: "n_state r = C_AGREED" using eff by simp
  moreover have "n_agreement r = Some (cam_Agreement t1)"
    using eff agreed t1(1) by (auto simp: received_agreement_def list_all_iff queued_by_def)
  moreover have "cam_Agreement t1 \<noteq> g2"
    using t1(2) g2(2) uuid_URN_inj[OF assms(2), of 20 21] by auto
  ultimately show ?thesis
    using reachable.step[OF r2 delivery_step[OF delivery.to_consumer[of e1 ?x2 sample_fresh L W sample_ctx _ r es]]] d g2(1)
    by (fastforce simp: sample_fresh_def)
qed

section \<open>Examples\<close>

definition asking :: negotiation where
  "asking = sample_negotiation DataspaceConsumer C_INITIAL\<lparr>n_providerPID := emptyUUID\<rparr>"

definition asked :: negotiation where
  "asked = sample_negotiation DataspaceProvider C_INITIAL"

definition sample_parties :: parties where
  "sample_parties = \<lparr>consumer_deps = sample_deps, provider_deps = sample_deps\<rparr>"

lemma asking_sends: "\<exists>e. contract_Send sample_lib sample_deps sample_ctx 7 0 asking = (asking, OK (ApAdd e))"
  by (simp add: asking_def Initial_Send_def sendContractRequest_def ValidateAndMarshal_def valid_ContractRequest_def
      required_def sample_offer_def makeContractRequestFunction_def makeRequestFunction_def cloneURL_def root_url_def)

definition begun :: "ReconciliationEntry \<Rightarrow> exchange" where
  "begun e = \<lparr>consumer = asking, provider = asked, from_consumer = [e], from_provider = []\<rparr>"

lemma begun_opened:
  "contract_Send sample_lib sample_deps sample_ctx 7 0 asking = (asking, OK (ApAdd e)) \<Longrightarrow> opened_by_consumer sample_lib (begun e)"
  unfolding opened_by_consumer_def begun_def by (intro conjI exI[of _ e] exI) (auto simp: asking_def asked_def)

lemma sample_live: "live sample_lib asking" "live sample_lib asked"
  by (simp_all add: live_def asking_def asked_def offer_target_def sample_offer_def)
    (simp_all add: sample_message_offer_def use_offer_def root_url_def)

lemma asked_target: "\<exists>target. URNtoRawID (offer_target asked) = OK target"
proof -
  have "URNtoRawID ''urn:uuid:1'' = OK ''1''" by code_simp
  then show ?thesis by (simp add: asked_def offer_target_def sample_offer_def sample_message_offer_def use_offer_def)
qed

lemma sample_dataset_found: "GetDataset (d_p (provider_deps sample_parties)) target ri = OK ()"
  by (simp add: sample_parties_def sample_deps_def)


lemma calmly_reachable_reachable: "calmly_reachable L W x \<Longrightarrow> reachable True L W x"
  by (induction rule: calmly_reachable.induct) (auto intro: reachable.intros)

lemma sample_finished: "\<exists>y. calmly_reachable sample_lib sample_parties y \<and> finished y"
proof -
  obtain e where "contract_Send sample_lib sample_deps sample_ctx 7 0 asking = (asking, OK (ApAdd e))" using asking_sends by blast
  then have o: "opened_by_consumer sample_lib (begun e)" by (rule begun_opened)
  obtain target where t: "URNtoRawID (offer_target asked) = OK target" using asked_target by blast
  show ?thesis
    using auto_run[OF o sample_lib_laws _ _ _ sample_dataset_found] sample_live t
    by (fastforce simp: begun_def)
qed

lemma peers_agree_witness:
  "\<exists>y. reachable True sample_lib sample_parties y \<and> n_state (consumer y) = C_FINALIZED \<and> n_state (provider y) = C_FINALIZED
     \<and> n_providerPID (consumer y) = n_providerPID (provider y)"
proof -
  obtain y where y: "calmly_reachable sample_lib sample_parties y" "finished y" using sample_finished by blast
  then show ?thesis using peers_agree[OF calmly_reachable_reachable[OF y(1)] sample_lib_laws] calmly_reachable_reachable[OF y(1)]
    by (auto simp: finished_def)
qed

lemma agreements_match_witness:
  "\<exists>y a. calmly_reachable sample_lib sample_parties y \<and> n_agreement (consumer y) = Some a \<and> n_agreement (provider y) = Some a"
proof -
  obtain y where y: "calmly_reachable sample_lib sample_parties y" "finished y" using sample_finished by blast
  then obtain a where "n_agreement (consumer y) = Some a" "n_agreement (provider y) = Some a"
    using agreements_match[OF y(1) sample_lib_laws] by (cases "n_agreement (consumer y)") (auto simp: finished_def agreed_state_def)
  with y(1) show ?thesis by blast
qed

end
