(* ===== verification/Transfer_Protocol.thy ===== *)
theory Transfer_Protocol
  imports Transfer_Handlers_Facts Protocol
begin

text \<open>
  A transfer between two connectors, as \<open>Protocol\<close> has a negotiation: the consumer's transfer with its
  request in the queue, and the one the provider's handler makes of that request. After that the
  program only delivers: the handlers answer a request with a start of their own accord, and no
  method of the control service sends anything for a transfer that is under way. A delivery is one
  step with its answer; a message the peer refuses changes nothing. The consumer may also take the start
  while the provider never has the answer (\<open>start_taken\<close>), and a connector that ends loses its queue.
  An exchange begins with the request whose delivery is answered: one that is taken without an answer is sent again, and makes
  another transfer at the provider, which is not part of the exchange, nor is the start it sends.
  It is shown where a transfer ends up and what its two sides then know.
\<close>

section \<open>Exchanges\<close>

record transfer_exchange =
  t_consumer :: transfer_request
  t_provider :: transfer_request
  t_from_consumer :: "ReconciliationEntry list"
  t_from_provider :: "ReconciliationEntry list"

definition reread :: "transfer_request \<Rightarrow> transfer_request" where
  "reread tr = tr\<lparr>r_ro := False, r_modified := False\<rparr>"

text \<open>The handler of a start message does not go on to send, the others do.\<close>

fun progresses :: "message \<Rightarrow> bool" where
  "progresses (MTransferStart t) = False"
| "progresses _ = True"

definition deliver_transfer :: "'a lib_scheme \<Rightarrow> deps \<Rightarrow> go_context \<Rightarrow> uuid \<Rightarrow> ReconciliationEntry \<Rightarrow> transfer_request
    \<Rightarrow> transfer_request \<Rightarrow> (transfer_request \<times> transfer_request \<times> ReconciliationEntry list) option" where
  "deliver_transfer L d ctx fresh e own peer =
     (case obind (transfer_ParseState (ArgString (TargetState e))) (\<lambda>st. r_SetState st (reread own)) of
        OK s1 \<Rightarrow>
          (case recv_and_progress L d ctx fresh (progresses (Body e)) (Body e) (reread peer, []) of
             ((r, calls), Inr af) \<Rightarrow> Some (s1, r, entries af)
           | _ \<Rightarrow> None)
      | _ \<Rightarrow> None)"

text \<open>The transfer a provider's handler makes of a request, with the PID it draws for it.\<close>

definition made_of_request :: "'a lib_scheme \<Rightarrow> TransferRequestMessage \<Rightarrow> TraceInfo \<Rightarrow> Agreement \<Rightarrow> url \<Rightarrow> RequesterInfo
    \<Rightarrow> uuid \<Rightarrow> transfer_request outcome" where
  "made_of_request L m trace ag self ri pid =
     obind (of_option ''Invalid consumer ID'' (uuid_Parse L (trm_ConsumerPID m))) (\<lambda>consumerPID.
     obind (of_option ''Invalid callback URL'' (url_Parse L (trm_CallbackAddress m))) (\<lambda>cbURL.
     obind (request_publish_info m) (\<lambda>info.
     obind (New_transfer L trace consumerPID (Some ag) (trm_Format m) cbURL self DataspaceProvider T_INITIAL info (Some ri))
       (r_SetProviderPID pid))))"

definition transfer_opened :: "'a lib_scheme \<Rightarrow> transfer_exchange \<Rightarrow> bool" where
  "transfer_opened L x \<longleftrightarrow>
     (\<exists>trace cpid ag fmt cb self info ri. New_transfer L trace cpid (Some ag) fmt cb self DataspaceConsumer T_INITIAL info ri = OK (t_consumer x))
     \<and> (\<exists>d ctx cs c e m trace ag self ri pid. transfer_Send L d ctx (t_consumer x, cs) = (c, OK (ApAdd e))
          \<and> Body e = MTransferRequest m \<and> t_from_consumer x = [e] \<and> t_from_provider x = []
          \<and> made_of_request L m trace ag self ri pid = OK (t_provider x) \<and> pid \<noteq> emptyUUID)"

inductive transfer_step :: "'a lib_scheme \<Rightarrow> parties \<Rightarrow> transfer_exchange \<Rightarrow> transfer_exchange \<Rightarrow> bool"
  for L :: "'a lib_scheme" and W :: parties where
  to_provider:
    "e \<in> set (t_from_consumer x) \<Longrightarrow>
     deliver_transfer L (provider_deps W) ctx fresh e (t_consumer x) (t_provider x) = Some (c, p, es) \<Longrightarrow>
     transfer_step L W x \<lparr>t_consumer = c, t_provider = p, t_from_consumer = remove1 e (t_from_consumer x),
                          t_from_provider = t_from_provider x @ es\<rparr>"
| to_consumer:
    "e \<in> set (t_from_provider x) \<Longrightarrow>
     deliver_transfer L (consumer_deps W) ctx fresh e (t_provider x) (t_consumer x) = Some (p, c, es) \<Longrightarrow>
     transfer_step L W x \<lparr>t_consumer = c, t_provider = p, t_from_consumer = t_from_consumer x @ es,
                          t_from_provider = remove1 e (t_from_provider x)\<rparr>"

text \<open>The consumer has taken a message, and its sender has not had the answer.\<close>

inductive transfer_unanswered :: "'a lib_scheme \<Rightarrow> parties \<Rightarrow> transfer_exchange \<Rightarrow> transfer_exchange \<Rightarrow> bool"
  for L :: "'a lib_scheme" and W :: parties where
  start_taken:
    "e \<in> set (t_from_provider x) \<Longrightarrow>
     deliver_transfer L (consumer_deps W) ctx fresh e (t_provider x) (t_consumer x) = Some (p, c, es) \<Longrightarrow>
     transfer_unanswered L W x (x\<lparr>t_consumer := c, t_from_consumer := t_from_consumer x @ es\<rparr>)"

inductive transfer_restart :: "transfer_exchange \<Rightarrow> transfer_exchange \<Rightarrow> bool" where
  consumer_ends: "transfer_restart x (x\<lparr>t_from_consumer := []\<rparr>)"
| provider_ends: "transfer_restart x (x\<lparr>t_from_provider := []\<rparr>)"

inductive transfer_reachable :: "bool \<Rightarrow> 'a lib_scheme \<Rightarrow> parties \<Rightarrow> transfer_exchange \<Rightarrow> bool"
  for lossy :: bool and L :: "'a lib_scheme" and W :: parties where
  opened: "transfer_opened L x \<Longrightarrow> transfer_reachable lossy L W x"
| stepped: "transfer_reachable lossy L W x \<Longrightarrow> transfer_step L W x y \<Longrightarrow> transfer_reachable lossy L W y"
| unanswered: "transfer_reachable lossy L W x \<Longrightarrow> lossy \<Longrightarrow> transfer_unanswered L W x y \<Longrightarrow> transfer_reachable lossy L W y"
| restarted: "transfer_reachable lossy L W x \<Longrightarrow> transfer_restart x y \<Longrightarrow> transfer_reachable lossy L W y"

inductive_cases transfer_stepE: "transfer_step L W x y"

section \<open>Phases\<close>

text \<open>What the consumer and the provider hold of the place the data is at: in a push the consumer's own
  and what the provider has read of it, in a pull nothing before the start.\<close>

definition read_of :: "PublishInfo option \<Rightarrow> PublishInfo option \<Rightarrow> bool" where
  "read_of own peer \<longleftrightarrow> (\<exists>da info. publishInfoToDataAddress own = OK da \<and> DataAddressToPublishInfo (Some da) = OK info \<and> peer = Some info)"

definition same_pull :: "transfer_exchange \<Rightarrow> bool" where
  "same_pull x \<longleftrightarrow> r_transferDirection (t_provider x) = r_transferDirection (t_consumer x)
     \<and> r_consumerPID (t_provider x) = r_consumerPID (t_consumer x) \<and> r_providerPID (t_provider x) \<noteq> emptyUUID
     \<and> r_role (t_consumer x) = DataspaceConsumer \<and> r_role (t_provider x) = DataspaceProvider"

definition before_start :: "transfer_exchange \<Rightarrow> bool" where
  "before_start x \<longleftrightarrow> same_pull x \<and> r_providerPID (t_consumer x) = emptyUUID \<and>
     (case r_transferDirection (t_consumer x) of
        DirectionPull \<Rightarrow> r_publishInfo (t_consumer x) = None
      | DirectionPush \<Rightarrow> read_of (r_publishInfo (t_consumer x)) (r_publishInfo (t_provider x))
      | _ \<Rightarrow> False)"

definition phase_opened :: "'a lib_scheme \<Rightarrow> transfer_exchange \<Rightarrow> bool" where
  "phase_opened L x \<longleftrightarrow> before_start x \<and> r_state (t_consumer x) = T_INITIAL \<and> r_state (t_provider x) = T_INITIAL
     \<and> t_from_provider x = [] \<and> (\<exists>e m. t_from_consumer x = [e] \<and> Body e = MTransferRequest m
       \<and> TargetState e = tstate_String T_REQUESTED \<and> trm_ConsumerPID m = uuid_URN L (r_consumerPID (t_consumer x)))"

definition phase_requested :: "'a lib_scheme \<Rightarrow> transfer_exchange \<Rightarrow> bool" where
  "phase_requested L x \<longleftrightarrow> before_start x \<and> r_state (t_consumer x) = T_REQUESTED \<and> r_state (t_provider x) = T_REQUESTED
     \<and> t_from_consumer x = [] \<and> (\<exists>e m da. t_from_provider x = [e] \<and> Body e = MTransferStart m \<and> TargetState e = tstate_String T_STARTED
       \<and> publishInfoToDataAddress (r_publishInfo (t_provider x)) = OK da \<and> tsm_DataAddress m = Some da
       \<and> tsm_ProviderPID m = uuid_URN L (r_providerPID (t_provider x)) \<and> tsm_ConsumerPID m = uuid_URN L (r_consumerPID (t_provider x)))"

definition phase_started :: "transfer_exchange \<Rightarrow> bool" where
  "phase_started x \<longleftrightarrow> same_pull x \<and> r_state (t_consumer x) = T_STARTED \<and> r_state (t_provider x) = T_STARTED
     \<and> t_from_consumer x = [] \<and> t_from_provider x = [] \<and> r_providerPID (t_consumer x) = r_providerPID (t_provider x)
     \<and> (case r_transferDirection (t_consumer x) of
        DirectionPull \<Rightarrow> read_of (r_publishInfo (t_provider x)) (r_publishInfo (t_consumer x))
      | DirectionPush \<Rightarrow> read_of (r_publishInfo (t_consumer x)) (r_publishInfo (t_provider x))
      | _ \<Rightarrow> False)"

lemma no_address [simp]: "publishInfoToDataAddress None \<noteq> OK da"
  by (simp add: publishInfoToDataAddress_def)

lemma read_of_carried: "read_of (Some info) peer \<Longrightarrow> carried info \<Longrightarrow> peer = Some info"
  unfolding read_of_def using address_carries by fastforce

lemma reread_simps [simp]:
  "r_state (reread tr) = r_state tr" "r_providerPID (reread tr) = r_providerPID tr" "r_consumerPID (reread tr) = r_consumerPID tr"
  "r_role (reread tr) = r_role tr" "r_publishInfo (reread tr) = r_publishInfo tr" "\<not> r_ro (reread tr)"
  "r_transferDirection (reread tr) = r_transferDirection tr" "r_format (reread tr) = r_format tr" "r_target (reread tr) = r_target tr"
  "r_callback (reread tr) = r_callback tr"
  by (simp_all add: reread_def)

lemma request_address:
  assumes "sendTransferRequest L ctx tr = OK (ApAdd e)" and "Body e = MTransferRequest m"
  shows "trm_ConsumerPID m = uuid_URN L (r_consumerPID tr) \<and>
     (r_transferDirection tr = DirectionPush \<and> (\<exists>da. publishInfoToDataAddress (r_publishInfo tr) = OK da \<and> trm_DataAddress m = Some da)
      \<or> r_transferDirection tr \<noteq> DirectionPush \<and> trm_DataAddress m = None)"
  using assms by (auto simp: sendTransferRequest_def makeTransferRequestFunction_def send_simps split: if_splits)

lemma New_transfer_direction:
  "New_transfer L tr cp ag fmt cb self rl st info ri = OK t \<Longrightarrow>
    r_transferDirection t = (if info = None then DirectionPull else DirectionPush) \<and> r_state t = st \<and> r_role t = rl
    \<and> r_consumerPID t = cp \<and> r_providerPID t = emptyUUID \<and> r_publishInfo t = info"
  by (cases rl) (auto simp: New_transfer_def split: outcome.splits option.splits)

lemma opened_phase:
  assumes "transfer_opened L x" and "uuid_laws L"
  shows "phase_opened L x"
proof -
  obtain d ctx cs c e m trace ag self ri pid where x: "transfer_Send L d ctx (t_consumer x, cs) = (c, OK (ApAdd e))"
      "Body e = MTransferRequest m" "t_from_consumer x = [e]" "t_from_provider x = []"
      "made_of_request L m trace ag self ri pid = OK (t_provider x)" "pid \<noteq> emptyUUID"
    using assms(1) by (auto simp: transfer_opened_def)
  obtain info where c: "r_transferDirection (t_consumer x) = (if info = None then DirectionPull else DirectionPush)"
      "r_state (t_consumer x) = T_INITIAL" "r_role (t_consumer x) = DataspaceConsumer" "r_providerPID (t_consumer x) = emptyUUID"
      "r_publishInfo (t_consumer x) = info"
    using assms(1) New_transfer_direction unfolding transfer_opened_def by blast
  have send: "sendTransferRequest L ctx (t_consumer x) = OK (ApAdd e)" using x(1) c(2) by simp
  have target: "TargetState e = tstate_String T_REQUESTED" using sendTransferRequest_OK[OF send] by auto
  note m = request_address[OF send x(2)]
  obtain info' new where p: "request_publish_info m = OK info'" "t_provider x = new\<lparr>r_providerPID := pid, r_modified := True\<rparr>"
      "r_transferDirection new = (if info' = None then DirectionPull else DirectionPush)" "r_state new = T_INITIAL"
      "r_role new = DataspaceProvider" "r_consumerPID new = r_consumerPID (t_consumer x)" "r_publishInfo new = info'"
    using x(5) m uuid_lawsD(2)[OF assms(2)] by (auto simp: made_of_request_def outcome_simps dest!: New_transfer_direction)
  have "before_start x"
    using p c m x(6)
    by (cases info) (fastforce simp: before_start_def same_pull_def read_of_def request_publish_info_def outcome_simps split: option.splits if_splits)+
  then show ?thesis using p c x target m by (auto simp: phase_opened_def)
qed

lemma recv_and_progress_parts:
  assumes "recv_and_progress L d ctx fresh auto msg s = (s', Inr af)"
  shows "\<exists>s1 k. transfer_Recv L d ctx fresh msg s = (s1, OK k) \<and>
    (if auto then transfer_Send L d ctx s1 = (s', OK af) else s' = s1 \<and> af = ApNoop)"
  using assms
  by (cases "transfer_Recv L d ctx fresh msg s"; cases "snd (transfer_Recv L d ctx fresh msg s)")
    (auto simp: recv_and_progress_def transferError_def simp del: transfer_Recv.simps transfer_Send.simps
      split: option.splits outcome.splits if_splits prod.splits)

lemma deliver_transfer_parts:
  assumes "deliver_transfer L d ctx fresh e own peer = Some (own', peer', es)" and "TargetState e = tstate_String st"
  shows "own' = (reread own)\<lparr>r_state := st, r_modified := True\<rparr> \<and> st \<in> set (validTransferTransitions (r_state own))
    \<and> (\<exists>calls af. recv_and_progress L d ctx fresh (progresses (Body e)) (Body e) (reread peer, []) = ((peer', calls), Inr af)
        \<and> es = entries af)"
  using assms by (auto simp: deliver_transfer_def outcome_simps split: outcome.splits prod.splits sum.splits)

lemma request_delivered:
  assumes "phase_opened L x" and "transfer_step L W x y"
  shows "phase_requested L y"
  using assms(2)
proof cases
  case (to_provider e ctx fresh c p es)
  obtain m where e: "t_from_consumer x = [e]" "Body e = MTransferRequest m" "TargetState e = tstate_String T_REQUESTED"
    using assms(1) to_provider(2) by (auto simp: phase_opened_def)
  obtain calls af where d: "c = (reread (t_consumer x))\<lparr>r_state := T_REQUESTED, r_modified := True\<rparr>"
      "recv_and_progress L (provider_deps W) ctx fresh True (Body e) (reread (t_provider x), []) = ((p, calls), Inr af)" "es = entries af"
    using deliver_transfer_parts[OF to_provider(3) e(3)] e(2) by auto
  obtain s1 k where r: "transfer_Recv L (provider_deps W) ctx fresh (Body e) (reread (t_provider x), []) = (s1, OK k)"
      "transfer_Send L (provider_deps W) ctx s1 = ((p, calls), OK af)"
    using recv_and_progress_parts[OF d(2)] by auto
  have s1: "r_state (fst s1) = T_REQUESTED" "transfer_frame (reread (t_provider x)) (fst s1)"
    using transfer_Recv_OK[OF r(1)] e(2) assms(1) by (auto simp: phase_opened_def)
  have "T_Requested_Send L (provider_deps W) ctx s1 = ((p, calls), OK af)" using r(2) s1(1) by simp
  from T_Requested_Send_OK[OF this] have p: "sendTransferStart L ctx p = OK af"
      "p = fst s1 \<or> r_transferDirection (fst s1) = DirectionPull \<and> (\<exists>i. p = (fst s1)\<lparr>r_publishInfo := i, r_modified := True\<rparr>)"
    by simp_all
  obtain e' t da where e': "af = ApAdd e'" "Body e' = MTransferStart t" "publishInfoToDataAddress (r_publishInfo p) = OK da"
      "tsm_DataAddress t = Some da" "tsm_ProviderPID t = uuid_URN L (r_providerPID p)" "tsm_ConsumerPID t = uuid_URN L (r_consumerPID p)"
      "TargetState e' = tstate_String T_STARTED"
    using sendTransferStart_OK[OF p(1)] by auto
  have b: "before_start x" "t_from_provider x = []" using assms(1) by (simp_all add: phase_opened_def)
  have "before_start \<lparr>t_consumer = c, t_provider = p, t_from_consumer = [], t_from_provider = [e']\<rparr>"
    using b s1(2) p(2) d(1)
    by (auto simp: before_start_def same_pull_def transfer_frame_def read_of_def split: direction.splits)
  moreover have "r_state p = T_REQUESTED" using p(2) s1(1) by auto
  ultimately show ?thesis using to_provider(1) e(1) b(2) d(1,3) e' by (simp add: phase_requested_def before_start_def same_pull_def)
next
  case (to_consumer e ctx fresh p c es)
  then show ?thesis using assms(1) by (simp add: phase_opened_def)
qed

lemma start_delivered:
  assumes "phase_requested L x" and "transfer_step L W x y" and "uuid_laws L"
  shows "phase_started y"
  using assms(2)
proof cases
  case (to_provider e ctx fresh c p es)
  then show ?thesis using assms(1) by (simp add: phase_requested_def)
next
  case (to_consumer e ctx fresh p c es)
  let ?c = "t_consumer x" and ?p = "t_provider x"
  obtain m da where e: "t_from_provider x = [e]" "Body e = MTransferStart m" "TargetState e = tstate_String T_STARTED"
      "publishInfoToDataAddress (r_publishInfo ?p) = OK da" "tsm_DataAddress m = Some da" "tsm_ProviderPID m = uuid_URN L (r_providerPID ?p)"
    using assms(1) to_consumer(2) by (auto simp: phase_requested_def)
  obtain calls af where d: "p = (reread ?p)\<lparr>r_state := T_STARTED, r_modified := True\<rparr>"
      "recv_and_progress L (consumer_deps W) ctx fresh False (Body e) (reread ?c, []) = ((c, calls), Inr af)" "es = entries af"
    using deliver_transfer_parts[OF to_consumer(3) e(3)] e(2) by auto
  obtain k where r: "transfer_Recv L (consumer_deps W) ctx fresh (Body e) (reread ?c, []) = ((c, calls), OK k)" "af = ApNoop"
    using recv_and_progress_parts[OF d(2)] by auto
  have b: "before_start x" "r_state ?c = T_REQUESTED" "t_from_consumer x = []" using assms(1) by (simp_all add: phase_requested_def)
  then have "T_Requested_Recv L (MTransferStart m) (reread ?c, []) = ((c, calls), OK k)" using r(1) e(2) by simp
  then obtain s1 s2 u1 u2 where t: "take_provider L (tsm_ProviderPID m) (reread ?c, []) = (s1, OK u1)"
      "take_publish (tsm_DataAddress m) s1 = (s2, OK u2)" "r_state c = T_STARTED" "c = (fst s2)\<lparr>r_state := T_STARTED, r_modified := True\<rparr>"
    by (auto simp: outcome_simps)
  have s1: "r_providerPID (fst s1) = r_providerPID ?p" "r_publishInfo (fst s1) = r_publishInfo ?c" "transfer_frame (reread ?c) (fst s1)"
    using take_provider_OK[OF t(1)] b(1) e(6) uuid_lawsD(2)[OF assms(3)] by (simp_all add: before_start_def)
  have s2: "r_providerPID (fst s2) = r_providerPID ?p" "transfer_frame (fst s1) (fst s2)"
      "r_publishInfo ?c = None \<Longrightarrow> \<exists>i. DataAddressToPublishInfo (Some da) = OK i \<and> r_publishInfo (fst s2) = Some i"
    using take_publish_OK[OF t(2)] s1 e(5) by simp_all
  have "same_pull \<lparr>t_consumer = c, t_provider = p, t_from_consumer = [], t_from_provider = []\<rparr>"
    using b(1) d(1) s1(3) s2(2) t(4) by (simp add: before_start_def same_pull_def transfer_frame_def)
  moreover have "case r_transferDirection c of DirectionPull \<Rightarrow> read_of (r_publishInfo p) (r_publishInfo c)
      | DirectionPush \<Rightarrow> read_of (r_publishInfo c) (r_publishInfo p) | _ \<Rightarrow> False"
    using b(1) d(1) s1(2,3) s2(2,3) t(4) e(4)
    by (auto simp: before_start_def same_pull_def transfer_frame_def read_of_def split: direction.splits)
  ultimately show ?thesis using to_consumer(1) e(1) b(3) d(1,3) r(2) t(3) s2(1) t(4) by (simp add: phase_started_def cong: direction.case_cong)
qed

lemma started_stays: "phase_started x \<Longrightarrow> \<not> transfer_step L W x y"
  by (auto simp: phase_started_def elim: transfer_stepE)

text \<open>The consumer has started and the provider, without the answer, has not: it sends the start again, which is refused.\<close>

definition phase_start_taken :: "transfer_exchange \<Rightarrow> bool" where
  "phase_start_taken x \<longleftrightarrow> r_state (t_provider x) = T_REQUESTED \<and> t_from_consumer x = []
     \<and> (\<exists>e m. t_from_provider x = [e] \<and> Body e = MTransferStart m)
     \<and> (\<exists>z. phase_started z \<and> t_consumer z = t_consumer x
          \<and> t_provider z = (reread (t_provider x))\<lparr>r_state := T_STARTED, r_modified := True\<rparr>)"

definition in_phase :: "bool \<Rightarrow> 'a lib_scheme \<Rightarrow> transfer_exchange \<Rightarrow> bool" where
  "in_phase lossy L x \<longleftrightarrow> phase_opened L x \<or> phase_requested L x \<or> phase_started x \<or> lossy \<and> phase_start_taken x"

definition without_messages :: "transfer_exchange \<Rightarrow> transfer_exchange" where
  "without_messages x = x\<lparr>t_from_consumer := [], t_from_provider := []\<rparr>"

lemma start_refused:
  assumes "r_state peer = T_STARTED" and "Body e = MTransferStart m"
  shows "deliver_transfer L d ctx fresh e own peer = None"
proof -
  have "transfer_Recv L d ctx fresh (Body e) (reread peer, []) = ((reread peer, []), ERR (Errorf ''invalid message type'' []))"
    using assms by simp
  then show ?thesis
    by (auto simp: deliver_transfer_def recv_and_progress_def simp del: transfer_Recv.simps split: outcome.splits)
qed

lemma unanswered_start:
  assumes "phase_requested L x" and "transfer_unanswered L W x y" and "uuid_laws L"
  shows "phase_start_taken y"
  using assms(2)
proof cases
  case (start_taken e ctx fresh p c es)
  let ?z = "\<lparr>t_consumer = c, t_provider = p, t_from_consumer = t_from_consumer x @ es, t_from_provider = remove1 e (t_from_provider x)\<rparr>"
  have "transfer_step L W x ?z" using transfer_step.to_consumer[OF start_taken(2,3)] .
  then have z: "phase_started ?z" using start_delivered[OF assms(1) _ assms(3)] by blast
  obtain m where e: "t_from_provider x = [e]" "Body e = MTransferStart m" "TargetState e = tstate_String T_STARTED"
    using assms(1) start_taken(2) by (auto simp: phase_requested_def)
  have "p = (reread (t_provider x))\<lparr>r_state := T_STARTED, r_modified := True\<rparr>"
    using deliver_transfer_parts[OF start_taken(3) e(3)] by simp
  moreover have "t_from_consumer x @ es = []" using z by (simp add: phase_started_def)
  moreover have "r_state (t_provider x) = T_REQUESTED" using assms(1) by (simp add: phase_requested_def)
  ultimately show ?thesis unfolding start_taken(1) phase_start_taken_def using z e(1,2) by force
qed

lemma start_taken_stays:
  assumes "phase_start_taken x"
  shows "\<not> transfer_step L W x y" and "\<not> transfer_unanswered L W x y"
proof -
  have "r_state (t_consumer x) = T_STARTED" using assms by (auto simp: phase_start_taken_def phase_started_def)
  moreover obtain e m where e: "t_from_consumer x = []" "t_from_provider x = [e]" "Body e = MTransferStart m"
    using assms by (auto simp: phase_start_taken_def)
  ultimately have none: "deliver_transfer L d ctx fresh e (t_provider x) (t_consumer x) = None" for d ctx fresh
    using start_refused by blast
  show "\<not> transfer_step L W x y" using e none by (auto elim!: transfer_stepE)
  show "\<not> transfer_unanswered L W x y" using e none by (auto elim!: transfer_unanswered.cases)
qed

lemma without_messages_stays: "\<not> transfer_step L W (without_messages x) y" "\<not> transfer_unanswered L W (without_messages x) y"
  by (auto simp: without_messages_def elim!: transfer_stepE transfer_unanswered.cases)

lemma restart_without_messages:
  assumes "transfer_restart x y"
  shows "in_phase lossy L x \<Longrightarrow> y = x \<or> y = without_messages x" and "x = without_messages z \<Longrightarrow> y = x"
  using assms
  by (auto simp: in_phase_def phase_opened_def phase_requested_def phase_started_def phase_start_taken_def without_messages_def
      elim!: transfer_restart.cases)

lemma reachable_phase:
  assumes "transfer_reachable lossy L W x" and "uuid_laws L"
  shows "\<exists>y. in_phase lossy L y \<and> (x = y \<or> x = without_messages y)"
  using assms(1)
proof induction
  case (opened x)
  then show ?case using opened_phase assms(2) by (auto simp: in_phase_def)
next
  case (stepped x y)
  then have "in_phase lossy L x" using without_messages_stays(1) by blast
  then have "in_phase lossy L y"
    using stepped(2) request_delivered start_delivered[OF _ _ assms(2)] started_stays start_taken_stays(1) unfolding in_phase_def by blast
  then show ?case by blast
next
  case (unanswered x y)
  then have "in_phase lossy L x" using without_messages_stays(2) by blast
  moreover have "\<not> phase_opened L x" "\<not> phase_started x"
    using unanswered(3) by (auto simp: phase_opened_def phase_started_def elim!: transfer_unanswered.cases)
  ultimately have "phase_requested L x" using unanswered(3) start_taken_stays(2) unfolding in_phase_def by blast
  from unanswered_start[OF this unanswered(3) assms(2)] show ?case using unanswered(2) by (auto simp: in_phase_def)
next
  case (restarted x y)
  then show ?case using restart_without_messages by blast
qed

text \<open>What one side has told the other of the place of the data.\<close>

definition told :: "PublishInfo option \<Rightarrow> PublishInfo option \<Rightarrow> bool" where
  "told own peer \<longleftrightarrow> (\<exists>source. own = Some source \<and> (carried source \<longrightarrow> peer = Some source))"

definition place_told :: "transfer_request \<Rightarrow> transfer_request \<Rightarrow> bool" where
  "place_told c p \<longleftrightarrow> (case r_transferDirection c of
     DirectionPull \<Rightarrow> told (r_publishInfo p) (r_publishInfo c)
   | DirectionPush \<Rightarrow> told (r_publishInfo c) (r_publishInfo p)
   | _ \<Rightarrow> False)"

lemma read_of_told:
  assumes "read_of own peer"
  shows "told own peer"
proof -
  obtain source where "own = Some source" using assms by (cases own) (auto simp: read_of_def)
  then show ?thesis using assms read_of_carried unfolding told_def by blast
qed

lemma started_facts:
  assumes "phase_started x"
  shows "r_providerPID (t_consumer x) = r_providerPID (t_provider x) \<and> r_providerPID (t_provider x) \<noteq> emptyUUID
    \<and> r_consumerPID (t_consumer x) = r_consumerPID (t_provider x)
    \<and> place_told (t_consumer x) (t_provider x)"
  using assms by (cases "r_transferDirection (t_consumer x)") (simp_all add: phase_started_def same_pull_def read_of_told place_told_def)

lemma start_taken_facts:
  assumes "phase_start_taken x"
  shows "r_state (t_consumer x) = T_STARTED \<and> r_state (t_provider x) = T_REQUESTED
    \<and> r_providerPID (t_consumer x) = r_providerPID (t_provider x) \<and> r_providerPID (t_provider x) \<noteq> emptyUUID
    \<and> r_consumerPID (t_consumer x) = r_consumerPID (t_provider x)
    \<and> place_told (t_consumer x) (t_provider x)"
proof -
  obtain z where z: "phase_started z" "t_consumer z = t_consumer x" "r_state (t_provider x) = T_REQUESTED"
      "t_provider z = (reread (t_provider x))\<lparr>r_state := T_STARTED, r_modified := True\<rparr>"
    using assms by (auto simp: phase_start_taken_def)
  have "place_told (t_consumer x) (t_provider z) = place_told (t_consumer x) (t_provider x)" by (cases "r_transferDirection (t_consumer x)") (simp_all add: place_told_def z(3,4))
  then show ?thesis using started_facts[OF z(1)] z by (simp add: phase_started_def)
qed

lemma phase_facts:
  assumes "in_phase lossy L x"
  shows "r_consumerPID (t_consumer x) = r_consumerPID (t_provider x)
    \<and> (r_state (t_consumer x) = r_state (t_provider x) \<and> r_state (t_consumer x) \<in> {T_INITIAL, T_REQUESTED, T_STARTED}
       \<or> lossy \<and> r_state (t_consumer x) = T_STARTED \<and> r_state (t_provider x) = T_REQUESTED)
    \<and> (r_state (t_consumer x) = T_STARTED \<longrightarrow> r_providerPID (t_consumer x) = r_providerPID (t_provider x)
        \<and> r_providerPID (t_provider x) \<noteq> emptyUUID
        \<and> place_told (t_consumer x) (t_provider x))"
  using assms unfolding in_phase_def
proof (elim disjE conjE)
  assume "phase_opened L x"
  then show ?thesis by (simp add: phase_opened_def before_start_def same_pull_def)
next
  assume "phase_requested L x"
  then show ?thesis by (simp add: phase_requested_def before_start_def same_pull_def)
next
  assume p: "phase_started x"
  then show ?thesis using started_facts[OF p] by (simp add: phase_started_def)
next
  assume lossy "phase_start_taken x"
  then show ?thesis using start_taken_facts by simp
qed

text \<open>C3: the two sides of a transfer do not drift apart. In every state they can reach by deliveries in any order, answered
  or not, and restarts that lose the queues, both transfers name the same consumer and are in the same state, initial, requested or started; or the
  consumer, having taken a start whose answer the provider did not get, is started and the provider still requested. Once the consumer is started both
  name the same provider, and the place of the data is known where it is needed: in a pull the consumer
  holds exactly what the provider has published, in a push the provider exactly what the consumer
  has, provided it is publish information that a data address can carry (\<open>carried\<close>). Once both are started the program delivers
  nothing more. An exchange begins with the request whose delivery is answered.\<close>

theorem transfer_peers_agree:
  assumes "transfer_reachable lossy L W x" and "uuid_laws L"
  shows "r_consumerPID (t_consumer x) = r_consumerPID (t_provider x)
    \<and> (r_state (t_consumer x) = r_state (t_provider x) \<and> r_state (t_consumer x) \<in> {T_INITIAL, T_REQUESTED, T_STARTED}
       \<or> lossy \<and> r_state (t_consumer x) = T_STARTED \<and> r_state (t_provider x) = T_REQUESTED)
    \<and> (r_state (t_consumer x) = T_STARTED \<longrightarrow> r_providerPID (t_consumer x) = r_providerPID (t_provider x)
        \<and> r_providerPID (t_provider x) \<noteq> emptyUUID
        \<and> place_told (t_consumer x) (t_provider x))
    \<and> (r_state (t_provider x) = T_STARTED \<longrightarrow> (\<forall>y. \<not> transfer_step L W x y))"
proof -
  obtain y where y: "in_phase lossy L y" "x = y \<or> x = without_messages y" using reachable_phase[OF assms] by blast
  have same: "t_consumer x = t_consumer y" "t_provider x = t_provider y" using y(2) by (auto simp: without_messages_def)
  have "phase_started y" if "r_state (t_provider y) = T_STARTED"
    using y(1) that by (auto simp: in_phase_def phase_opened_def phase_requested_def phase_start_taken_def)
  then have "r_state (t_provider x) = T_STARTED \<longrightarrow> (\<forall>z. \<not> transfer_step L W x z)"
    using y(2) started_stays[of y L W] without_messages_stays(1)[of L W y] same(2) by auto
  then show ?thesis using phase_facts[OF y(1)] unfolding same by simp
qed

section \<open>Reaching the start\<close>

text \<open>A data address can be made of the information, and read.\<close>

definition addressable :: "PublishInfo option \<Rightarrow> bool" where
  "addressable source \<longleftrightarrow> (\<exists>da i. publishInfoToDataAddress source = OK da \<and> valid_DataAddress da
     \<and> DataAddressToPublishInfo (Some da) = OK i)"

text \<open>The provider service has what is pulled and publishes it.\<close>

definition provider_ready :: "'a lib_scheme \<Rightarrow> deps \<Rightarrow> RequesterInfo \<Rightarrow> transfer_request \<Rightarrow> bool" where
  "provider_ready L d ri tr \<longleftrightarrow> url_ok L (r_callback tr)
     \<and> (r_format tr = ''HTTP_PULL'' \<longrightarrow> GetDataset (d_p d) (r_target tr) ri = OK ())
     \<and> (case r_transferDirection tr of
          DirectionPull \<Rightarrow> \<exists>info. PublishDataset (d_p d) (r_target tr) (uuid_String L (r_providerPID tr)) ri = OK info \<and> addressable info
        | DirectionPush \<Rightarrow> addressable (r_publishInfo tr)
        | _ \<Rightarrow> False)"

lemma sendTransferStart_goes:
  assumes "addressable (r_publishInfo tr)" and "url_ok L (r_callback tr)" and "uuid_laws L"
  shows "\<exists>e. sendTransferStart L ctx tr = OK (ApAdd e)"
  using assms uuid_URN_nonempty[OF assms(3)]
  by (cases "r_publishInfo tr")
    (auto simp: addressable_def sendTransferStart_def ValidateAndMarshal_def valid_TransferStart_def required_def
      valid_opt_DataAddress_def makeTransferRequestFunction_def makeRequestFunction_def)

lemma provider_answers_start:
  assumes "provider_ready L d ri p" and "uuid_laws L" and "r_state p = T_INITIAL" and "\<not> r_ro p" and "r_providerPID p \<noteq> emptyUUID"
    and "trm_ConsumerPID m = uuid_URN L (r_consumerPID p)" and "ExtractRequesterInfo ctx = OK ri"
  shows "\<exists>p' calls e. recv_and_progress L d ctx fresh True (MTransferRequest m) (p, []) = ((p', calls), Inr (ApAdd e))
    \<and> addressable (r_publishInfo p')"
proof -
  let ?p1 = "p\<lparr>r_state := T_REQUESTED, r_modified := True\<rparr>"
  have ready: "r_format p = ''HTTP_PULL'' \<Longrightarrow> GetDataset (d_p d) (r_target p) ri = OK ()" "url_ok L (r_callback p)"
    using assms(1) by (simp_all add: provider_ready_def)
  obtain cs where recv: "transfer_Recv L d ctx fresh (MTransferRequest m) (p, []) = ((?p1, cs), OK T_REQUESTED)"
    using ready assms(3-7) uuid_URN_lower[OF assms(2)]
    by (cases "r_format p = ''HTTP_PULL''") (simp_all add: check_target_def draw_provider_def verifyAndTransformTransfer_def
      GetTransferRequestNegotiation_def r_SetState_def r_panicRO_def r_modify_def)
  have "\<exists>p2 cs2 e. T_Requested_Send L d ctx (?p1, cs) = ((p2, cs2), OK (ApAdd e)) \<and> addressable (r_publishInfo p2)"
  proof (cases "r_transferDirection p")
    case DirectionPull
    then obtain info where info: "PublishDataset (d_p d) (r_target p) (uuid_String L (r_providerPID p)) ri = OK info" "addressable info"
      using assms(1) by (auto simp: provider_ready_def)
    have "\<exists>e. sendTransferStart L ctx (?p1\<lparr>r_publishInfo := info, r_modified := True\<rparr>) = OK (ApAdd e)"
      by (rule sendTransferStart_goes) (use info ready(2) assms(2) in simp_all)
    then show ?thesis using DirectionPull info assms(4,7) by (auto simp: T_Requested_Send_def r_setters_rw)
  next
    case DirectionPush
    have "\<exists>e. sendTransferStart L ctx ?p1 = OK (ApAdd e)"
      by (rule sendTransferStart_goes) (use assms(1,2) DirectionPush in \<open>simp_all add: provider_ready_def\<close>)
    then show ?thesis using DirectionPush assms(1) by (auto simp: T_Requested_Send_def provider_ready_def)
  qed (use assms(1) in \<open>simp_all add: provider_ready_def\<close>)
  then show ?thesis using recv by (auto simp: recv_and_progress_def simp del: transfer_Recv.simps)
qed

lemma sent_state: "TargetState e = tstate_String st \<Longrightarrow> transfer_ParseState (ArgString (TargetState e)) = OK st"
  by (simp del: tstate_String_simps)

lemma request_goes_through:
  assumes "phase_opened L x" and "provider_ready L (provider_deps W) ri (t_provider x)" and "uuid_laws L"
  shows "\<exists>y. transfer_step L W x y \<and> addressable (r_publishInfo (t_provider y))"
proof -
  let ?c = "t_consumer x" and ?p = "t_provider x" and ?ctx = "SetRequesterInfo background ri"
  obtain e m where e: "t_from_consumer x = [e]" "Body e = MTransferRequest m" "TargetState e = tstate_String T_REQUESTED"
      "trm_ConsumerPID m = uuid_URN L (r_consumerPID ?p)"
    using assms(1) by (auto simp: phase_opened_def before_start_def same_pull_def)
  have st: "r_state ?c = T_INITIAL" "r_state ?p = T_INITIAL" "r_providerPID ?p \<noteq> emptyUUID"
    using assms(1) by (simp_all add: phase_opened_def before_start_def same_pull_def)
  have "provider_ready L (provider_deps W) ri (reread ?p)"
    using assms(2) by (simp add: provider_ready_def cong: direction.case_cong)
  from provider_answers_start[OF this assms(3), of m ?ctx 0] e(4) st
  obtain p calls e' where p: "recv_and_progress L (provider_deps W) ?ctx 0 True (Body e) (reread ?p, []) = ((p, calls), Inr (ApAdd e'))"
      "addressable (r_publishInfo p)"
    by (auto simp: e(2))
  have "deliver_transfer L (provider_deps W) ?ctx 0 e ?c ?p = Some ((reread ?c)\<lparr>r_state := T_REQUESTED, r_modified := True\<rparr>, p, [e'])"
    using p(1) e(2) st(1) sent_state[OF e(3)] by (simp add: deliver_transfer_def r_SetState_def r_panicRO_def r_modify_def)
  then show ?thesis using p(2) e(1) transfer_step.to_provider[of e x L W ?ctx 0] by fastforce
qed

lemma start_goes_through:
  assumes "phase_requested L x" and "addressable (r_publishInfo (t_provider x))" and "uuid_laws L"
  shows "\<exists>y. transfer_step L W x y"
proof -
  let ?c = "t_consumer x" and ?p = "t_provider x"
  obtain e m da where e: "t_from_provider x = [e]" "Body e = MTransferStart m" "TargetState e = tstate_String T_STARTED"
      "publishInfoToDataAddress (r_publishInfo ?p) = OK da" "tsm_DataAddress m = Some da"
      "tsm_ProviderPID m = uuid_URN L (r_providerPID ?p)" "tsm_ConsumerPID m = uuid_URN L (r_consumerPID ?c)"
    using assms(1) by (auto simp: phase_requested_def before_start_def same_pull_def)
  have st: "r_state ?c = T_REQUESTED" "r_state ?p = T_REQUESTED" "r_providerPID ?c = emptyUUID" "r_providerPID ?p \<noteq> emptyUUID"
    using assms(1) by (simp_all add: phase_requested_def before_start_def same_pull_def)
  obtain info where info: "DataAddressToPublishInfo (Some da) = OK info" using assms(2) e(4) by (auto simp: addressable_def)
  have "\<exists>c calls. T_Requested_Recv L (MTransferStart m) (reread ?c, []) = ((c, calls), OK T_STARTED)"
    using st info by (cases "r_publishInfo ?c")
      (simp_all add: e take_provider_def take_publish_def r_setters_rw r_SetState_def r_panicRO_def
        r_modify_def verifyAndTransformTransfer_def GetTransferRequestNegotiation_def uuid_lawsD(2)[OF assms(3)] uuid_URN_lower[OF assms(3)])
  then obtain c calls where "recv_and_progress L (consumer_deps W) background 0 False (Body e) (reread ?c, []) = ((c, calls), Inr ApNoop)"
    using e(2) st(1) by (auto simp: recv_and_progress_def)
  then have "deliver_transfer L (consumer_deps W) background 0 e ?p ?c = Some ((reread ?p)\<lparr>r_state := T_STARTED, r_modified := True\<rparr>, c, [])"
    using e(2) st(2) sent_state[OF e(3)] by (simp add: deliver_transfer_def r_SetState_def r_panicRO_def r_modify_def)
  then show ?thesis using e(1) transfer_step.to_consumer[of e x L W background 0] by fastforce
qed

text \<open>C4: a transfer the consumer has requested starts: if the provider service has what is
  pulled and publishes it (or, for a push, the consumer gave an address that can be used), two
  deliveries bring both sides to the started state with nothing left to send.\<close>

theorem transfer_starts:
  assumes "transfer_opened L x" and "provider_ready L (provider_deps W) ri (t_provider x)" and "uuid_laws L"
  shows "\<exists>y. (transfer_step L W ^^ 2) x y \<and> r_state (t_consumer y) = T_STARTED \<and> r_state (t_provider y) = T_STARTED
    \<and> t_from_consumer y = [] \<and> t_from_provider y = []"
proof -
  have opened: "phase_opened L x" using assms(1,3) by (rule opened_phase)
  obtain y where y: "transfer_step L W x y" "addressable (r_publishInfo (t_provider y))"
    using request_goes_through[OF opened assms(2,3)] by blast
  have requested: "phase_requested L y" using opened y(1) by (rule request_delivered)
  obtain z where z: "transfer_step L W y z" using start_goes_through[OF requested y(2) assms(3)] by blast
  have "phase_started z" using requested z assms(3) by (rule start_delivered)
  moreover have "(transfer_step L W ^^ 2) x z" using y(1) z by (auto simp: numeral_2_eq_2)
  ultimately show ?thesis by (auto simp: phase_started_def)
qed

section \<open>Examples\<close>

definition pull_of :: "role \<Rightarrow> uuid \<Rightarrow> transfer_request" where
  "pull_of rl pid = \<lparr>r_state = T_INITIAL, r_providerPID = pid, r_consumerPID = 3, r_agreementID = 7, r_target = ''1'',
     r_format = ''HTTP_PULL'', r_callback = root_url, r_self = root_url, r_role = rl, r_publishInfo = None,
     r_requesterInfo = Some sample_requester, r_transferDirection = DirectionPull, r_ro = False, r_modified = True,
     r_traceInfo = zero_trace, r_internal_id = 0, r_locked = False\<rparr>"

definition pull_request :: TransferRequestMessage where
  "pull_request = \<lparr>trm_Context = GetDSPContext, trm_Type = ''dspace:TransferRequestMessage'', trm_AgreementID = uuid_URN sample_lib 7,
     trm_Format = ''HTTP_PULL'', trm_DataAddress = None, trm_CallbackAddress = ''/dsp'', trm_ConsumerPID = uuid_URN sample_lib 3\<rparr>"

definition two_samples :: parties where
  "two_samples = \<lparr>consumer_deps = sample_deps, provider_deps = sample_deps\<rparr>"

definition pulled :: "ReconciliationEntry \<Rightarrow> transfer_exchange" where
  "pulled e = \<lparr>t_consumer = pull_of DataspaceConsumer emptyUUID, t_provider = pull_of DataspaceProvider 2,
     t_from_consumer = [e], t_from_provider = []\<rparr>"

lemma sample_target_raw: "URNtoRawID ''urn:uuid:1'' = OK ''1''"
  by code_simp

lemma pull_made:
  "rl \<in> {DataspaceConsumer, DataspaceProvider} \<Longrightarrow> New_transfer sample_lib zero_trace 3 (Some sample_agreement) ''HTTP_PULL'' root_url root_url rl
     T_INITIAL None (Some sample_requester) = OK (pull_of rl emptyUUID)"
  by (auto simp: New_transfer_def sample_agreement_def sample_target_raw pull_of_def)

lemma pull_sends:
  "\<exists>e. transfer_Send sample_lib sample_deps sample_ctx (pull_of DataspaceConsumer emptyUUID, []) =
     ((pull_of DataspaceConsumer emptyUUID, []), OK (ApAdd e)) \<and> Body e = MTransferRequest pull_request"
  by (simp add: pull_of_def sendTransferRequest_def ValidateAndMarshal_def valid_TransferRequest_def required_def
      pull_request_def makeTransferRequestFunction_def makeRequestFunction_def cloneURL_def root_url_def
      valid_opt_DataAddress_def)

lemma two_pid: "(2 :: uuid) \<noteq> emptyUUID"
  by code_simp

lemma pulled_opened: "\<exists>e. transfer_opened sample_lib (pulled e)"
proof -
  obtain e where e: "transfer_Send sample_lib sample_deps sample_ctx (pull_of DataspaceConsumer emptyUUID, []) =
      ((pull_of DataspaceConsumer emptyUUID, []), OK (ApAdd e))" "Body e = MTransferRequest pull_request"
    using pull_sends by blast
  have "made_of_request sample_lib pull_request zero_trace sample_agreement root_url sample_requester 2 = OK (pull_of DataspaceProvider 2)"
    using pull_made[of DataspaceProvider]
    by (simp add: made_of_request_def pull_request_def request_publish_info_def root_url_def[symmetric])
      (simp add: pull_of_def r_setters_rw)
  moreover have "New_transfer sample_lib zero_trace 3 (Some sample_agreement) ''HTTP_PULL'' root_url root_url DataspaceConsumer
      T_INITIAL None (Some sample_requester) = OK (pull_of DataspaceConsumer emptyUUID)"
    by (rule pull_made) simp
  ultimately show ?thesis
    unfolding transfer_opened_def pulled_def
    by (intro exI[of _ e] conjI exI, use e in \<open>simp_all del: transfer_Send.simps\<close>) (rule two_pid)
qed

lemma pulled_ready: "provider_ready sample_lib (provider_deps two_samples) sample_requester (t_provider (pulled e))"
  using sample_address address_carries carried_sample
  by (fastforce simp: provider_ready_def pulled_def pull_of_def two_samples_def sample_deps_def addressable_def)

lemma transfer_starts_witness:
  "\<exists>e y. (transfer_step sample_lib two_samples ^^ 2) (pulled e) y
     \<and> r_state (t_consumer y) = T_STARTED \<and> r_state (t_provider y) = T_STARTED"
proof -
  obtain e where "transfer_opened sample_lib (pulled e)" using pulled_opened by blast
  from transfer_starts[OF this pulled_ready] show ?thesis by auto
qed

lemma transfer_peers_agree_witness:
  "\<exists>y. transfer_reachable True sample_lib two_samples y \<and> r_state (t_consumer y) = T_STARTED
     \<and> r_consumerPID (t_consumer y) = r_consumerPID (t_provider y)"
proof -
  obtain e where e: "transfer_opened sample_lib (pulled e)" using pulled_opened by blast
  then have p: "phase_opened sample_lib (pulled e)" by (rule opened_phase) simp
  have ready: "provider_ready sample_lib (provider_deps two_samples) sample_requester (t_provider (pulled e))" by (rule pulled_ready)
  obtain y where y: "transfer_step sample_lib two_samples (pulled e) y" "addressable (r_publishInfo (t_provider y))"
    using request_goes_through[OF p ready] by auto
  have q: "phase_requested sample_lib y" using p y(1) by (rule request_delivered)
  obtain z where z: "transfer_step sample_lib two_samples y z" using start_goes_through[OF q y(2)] by auto
  have "phase_started z" using q z by (rule start_delivered) simp
  moreover have "transfer_reachable True sample_lib two_samples z" using e y(1) z by (blast intro: transfer_reachable.intros)
  ultimately show ?thesis using transfer_peers_agree[of True sample_lib two_samples z] by (auto simp: phase_started_def)
qed

end
