(* ===== verification/Reconciler_Workers.thy ===== *)
theory Reconciler_Workers
  imports Reconciler_Facts "HOL-Library.Multiset"
begin

text \<open>
  The goroutines of the reconciler: \<open>Run\<close>, \<open>manager\<close> and \<open>worker\<close> of
  \<open>dsp/statemachine/reconciler.go\<close>, with the queue behind its mutex, the unbuffered channel between
  them, the context that ends them and the wait group the server waits for. A goroutine moves by
  itself between two operations others can see; an attempt is one step, in which \<open>reconcileEntry\<close>
  meets the queue and the database as they are then. It is shown that no message is lost or doubled
  on the way, that a tick of \<open>manager_tick\<close> is a run of these goroutines, and when they end.
\<close>

section \<open>Goroutines\<close>

datatype manager_state =
    Selecting
  | Popped reconciliationOperation
  | Handing reconciliationOperation
  | Manager_Gone

datatype worker_state =
    Receiving
  | Working reconciliationOperation
  | Worker_Gone

definition workers :: nat where "workers = 1"

record pool =
  pl_rec :: reconciler
  pl_manager :: manager_state
  pl_workers :: "worker_state list"
  pl_done :: bool
  pl_waits :: nat
  pl_crashed :: bool

definition NewReconciler :: "db \<Rightarrow> reconciler" where
  "NewReconciler d = \<lparr>rc_queue = [], rc_db = d, rc_sent = []\<rparr>"

definition reconciler_Run :: "reconciler \<Rightarrow> pool" where
  "reconciler_Run s = \<lparr>pl_rec = s, pl_manager = Selecting, pl_workers = replicate workers Receiving,
     pl_done = False, pl_waits = 1 + workers, pl_crashed = False\<rparr>"

text \<open>What a step shows outside: a message taken from the program, one that was delivered and whose new
  state was stored, one that was given up, or nothing.\<close>

datatype pool_event =
    Accepts ReconciliationEntry
  | Delivers ReconciliationEntry
  | Abandons ReconciliationEntry
  | Internal

text \<open>One turn of the manager's \<open>select\<close> when the ticker fires, up to the point where it looks at the
  clock, and the rest of the turn.\<close>

definition manager_pop :: "pool \<Rightarrow> pool" where
  "manager_pop p = (case rc_queue (pl_rec p) of
      [] \<Rightarrow> p
    | op # q \<Rightarrow> p\<lparr>pl_rec := (pl_rec p)\<lparr>rc_queue := q\<rparr>, pl_manager := Popped op\<rparr>)"

definition manager_look :: "int \<Rightarrow> reconciliationOperation \<Rightarrow> pool \<Rightarrow> pool" where
  "manager_look now op p = (if NextAttempt op < now
     then p\<lparr>pl_manager := Handing (op\<lparr>Attempts := Attempts op + 1\<rparr>)\<rparr>
     else p\<lparr>pl_manager := Selecting, pl_rec := (pl_rec p)\<lparr>rc_queue := rc_queue (pl_rec p) @ [op]\<rparr>\<rparr>)"

text \<open>An attempt by a worker. A panic in a goroutine ends the program.\<close>

definition worker_attempt :: "'a lib_scheme \<Rightarrow> backend \<Rightarrow> ContractNegotiation option outcome \<Rightarrow> int \<Rightarrow> rat \<Rightarrow> nat
    \<Rightarrow> reconciliationOperation \<Rightarrow> pool \<Rightarrow> pool" where
  "worker_attempt L P answer now rand i op p =
     (case reconcileEntry L P answer now rand op (pl_rec p) of
        (s, PANIC m) \<Rightarrow> p\<lparr>pl_rec := s, pl_crashed := True\<rparr>
      | (s, _) \<Rightarrow> p\<lparr>pl_rec := s, pl_workers := (pl_workers p)[i := Receiving]\<rparr>)"

text \<open>What became of an attempt is judged by what happened to it, not by the queue. It failed when the
  record could not be taken, the request was not answered or the new state could not be stored;
  else the message is delivered. A failed message is given up when its error is fatal, it was tried
  \<open>maxAttempts\<close> times or its next attempt would come later than \<open>maxDuration\<close> after it was accepted
  (\<open>gives_up\<close>); else it is still on its way.\<close>

definition attempt_error :: "'a lib_scheme \<Rightarrow> backend \<Rightarrow> ContractNegotiation option outcome
    \<Rightarrow> reconciliationOperation \<Rightarrow> reconciler \<Rightarrow> goerror option" where
  "attempt_error L P answer op s =
     (case getStateUpdater L P (op_Entry op) (TargetState (op_Entry op)) (rc_db s) of
        (d1, PANIC m) \<Rightarrow> None
      | (d1, ERR e) \<Rightarrow> Some (wrapf ''could not acquire record'' e)
      | (d1, OK u) \<Rightarrow>
          (case answer of
             PANIC m \<Rightarrow> None
           | ERR e \<Rightarrow> Some e
           | OK body \<Rightarrow>
               (case updater_ApplyResponse L body u of
                  OK u' \<Rightarrow> (case snd (updater_Commit L P u' d1) of
                              ERR e \<Rightarrow> Some (wrapf ''could not update state'' e) | _ \<Rightarrow> None)
                | _ \<Rightarrow> None)))"

definition attempt_event :: "'a lib_scheme \<Rightarrow> backend \<Rightarrow> ContractNegotiation option outcome \<Rightarrow> int \<Rightarrow> rat
    \<Rightarrow> reconciliationOperation \<Rightarrow> pool \<Rightarrow> pool \<Rightarrow> pool_event" where
  "attempt_event L P answer now rand op p p' =
     (if pl_crashed p' then Internal
      else case attempt_error L P answer op (pl_rec p) of
             None \<Rightarrow> Delivers (op_Entry op)
           | Some e \<Rightarrow> if gives_up now rand op e then Abandons (op_Entry op) else Internal)"

inductive pool_step :: "'a lib_scheme \<Rightarrow> backend \<Rightarrow> pool \<Rightarrow> pool_event \<Rightarrow> pool \<Rightarrow> bool"
  for L :: "'a lib_scheme" and P :: backend where
  add: "\<not> pl_crashed p \<Longrightarrow> pool_step L P p (Accepts e) (p\<lparr>pl_rec := reconciler_Add now e (pl_rec p)\<rparr>)"
| cancel: "\<not> pl_crashed p \<Longrightarrow> pool_step L P p Internal (p\<lparr>pl_done := True\<rparr>)"
| others: "\<not> pl_crashed p \<Longrightarrow> pool_step L P p Internal (p\<lparr>pl_rec := (pl_rec p)\<lparr>rc_db := d\<rparr>\<rparr>)"
| tick: "\<not> pl_crashed p \<Longrightarrow> pl_manager p = Selecting \<Longrightarrow> pool_step L P p Internal (manager_pop p)"
| look: "\<not> pl_crashed p \<Longrightarrow> pl_manager p = Popped op \<Longrightarrow> pool_step L P p Internal (manager_look now op p)"
| manager_ends: "\<not> pl_crashed p \<Longrightarrow> pl_manager p = Selecting \<Longrightarrow> pl_done p \<Longrightarrow>
    pool_step L P p Internal (p\<lparr>pl_manager := Manager_Gone, pl_waits := pl_waits p - 1\<rparr>)"
| hand_over: "\<not> pl_crashed p \<Longrightarrow> pl_manager p = Handing op \<Longrightarrow> i < length (pl_workers p) \<Longrightarrow> pl_workers p ! i = Receiving \<Longrightarrow>
    pool_step L P p Internal (p\<lparr>pl_manager := Selecting, pl_workers := (pl_workers p)[i := Working op]\<rparr>)"
| attempt: "\<not> pl_crashed p \<Longrightarrow> i < length (pl_workers p) \<Longrightarrow> pl_workers p ! i = Working op \<Longrightarrow>
    p' = worker_attempt L P answer now rand i op p \<Longrightarrow> pool_step L P p (attempt_event L P answer now rand op p p') p'"
| worker_ends: "\<not> pl_crashed p \<Longrightarrow> i < length (pl_workers p) \<Longrightarrow> pl_workers p ! i = Receiving \<Longrightarrow> pl_done p \<Longrightarrow>
    pool_step L P p Internal (p\<lparr>pl_workers := (pl_workers p)[i := Worker_Gone], pl_waits := pl_waits p - 1\<rparr>)"

inductive pool_run :: "'a lib_scheme \<Rightarrow> backend \<Rightarrow> pool \<Rightarrow> pool_event list \<Rightarrow> pool \<Rightarrow> bool"
  for L :: "'a lib_scheme" and P :: backend where
  start: "pool_run L P p [] p"
| go_on: "pool_run L P p es q \<Longrightarrow> pool_step L P q e r \<Longrightarrow> pool_run L P p (es @ [e]) r"

inductive_cases pool_stepE: "pool_step L P p e q"

lemma run_step: "pool_step L P p e q \<Longrightarrow> pool_run L P p [e] q"
  using pool_run.go_on[OF pool_run.start] by fastforce

lemma run_trans: "pool_run L P q fs r \<Longrightarrow> pool_run L P p es q \<Longrightarrow> pool_run L P p (es @ fs) r"
  by (induction rule: pool_run.induct) (simp, metis append_assoc pool_run.go_on)

section \<open>Every message is accounted for\<close>

fun accepted_in :: "pool_event list \<Rightarrow> ReconciliationEntry multiset" where
  "accepted_in [] = {#}"
| "accepted_in (Accepts e # es) = add_mset e (accepted_in es)"
| "accepted_in (_ # es) = accepted_in es"

fun delivered_in :: "pool_event list \<Rightarrow> ReconciliationEntry multiset" where
  "delivered_in [] = {#}"
| "delivered_in (Delivers e # es) = add_mset e (delivered_in es)"
| "delivered_in (_ # es) = delivered_in es"

fun abandoned_in :: "pool_event list \<Rightarrow> ReconciliationEntry multiset" where
  "abandoned_in [] = {#}"
| "abandoned_in (Abandons e # es) = add_mset e (abandoned_in es)"
| "abandoned_in (_ # es) = abandoned_in es"

abbreviation settled_in :: "pool_event list \<Rightarrow> ReconciliationEntry multiset" where
  "settled_in es \<equiv> delivered_in es + abandoned_in es"

fun manager_holds :: "manager_state \<Rightarrow> ReconciliationEntry multiset" where
  "manager_holds (Popped op) = {#op_Entry op#}"
| "manager_holds (Handing op) = {#op_Entry op#}"
| "manager_holds _ = {#}"

fun worker_holds :: "worker_state \<Rightarrow> ReconciliationEntry multiset" where
  "worker_holds (Working op) = {#op_Entry op#}"
| "worker_holds _ = {#}"

definition queued :: "pool \<Rightarrow> ReconciliationEntry multiset" where
  "queued p = mset (map op_Entry (rc_queue (pl_rec p)))"

definition held :: "pool \<Rightarrow> ReconciliationEntry multiset" where
  "held p = queued p + manager_holds (pl_manager p) + sum_list (map worker_holds (pl_workers p))"

lemma accepted_append [simp]: "accepted_in (es @ fs) = accepted_in es + accepted_in fs"
  by (induction es rule: accepted_in.induct) simp_all

lemma delivered_append [simp]: "delivered_in (es @ fs) = delivered_in es + delivered_in fs"
  by (induction es rule: delivered_in.induct) simp_all

lemma abandoned_append [simp]: "abandoned_in (es @ fs) = abandoned_in es + abandoned_in fs"
  by (induction es rule: abandoned_in.induct) simp_all

lemma worker_changes:
  "i < length ws \<Longrightarrow> sum_list (map worker_holds (ws[i := w])) + worker_holds (ws ! i) = sum_list (map worker_holds ws) + worker_holds w"
  by (induction ws arbitrary: i) (auto split: nat.splits simp: algebra_simps)

lemma gone_hold: "\<forall>w \<in> set ws. w = Worker_Gone \<Longrightarrow> sum_list (map worker_holds ws) = {#}"
  by (induction ws) auto

lemma requeued_entry [simp]: "op_Entry (requeued now rand op) = op_Entry op"
  by (simp add: requeued_def)

text \<open>What an attempt leaves in the queue and among the requests sent.\<close>

lemma ApplyResponse_no_error [simp]: "updater_ApplyResponse L body u \<noteq> ERR e"
  by (cases u) (auto simp: negotiation_ApplyResponse_def n_SetProviderPID_def n_SetConsumerPID_def n_panicRO_def
      outcome_simps split: option.splits if_splits)

lemma rollback_result:
  assumes "rollback_deferred L P u r = (s', x)" and "\<not> is_PANIC x"
  shows "rc_queue s' = rc_queue (fst r) \<and> rc_sent s' = rc_sent (fst r) \<and> snd r = x"
proof -
  obtain d y where "updater_Rollback L P u (rc_db (fst r)) = (d, y)" by force
  then show ?thesis using assms by (cases r; cases y) (auto simp: rollback_deferred_def)
qed

lemma handleError_result:
  "\<not> is_PANIC (snd (handleError L P now rand op e s)) \<Longrightarrow>
    rc_queue (fst (handleError L P now rand op e s)) =
        rc_queue s @ (if gives_up now rand op e then [] else [requeued now rand op])
    \<and> rc_sent (fst (handleError L P now rand op e s)) = rc_sent s"
  by (auto simp: handleError_cases split: if_splits prod.splits)

lemma attempt_result:
  assumes "reconcileEntry L P answer now rand op s = (s', x)" and "\<not> is_PANIC x"
  shows "case attempt_error L P answer op s of
      None \<Rightarrow> rc_queue s' = rc_queue s \<and> rc_sent s' = rc_sent s @ [op_Entry op]
    | Some e \<Rightarrow> rc_queue s' = rc_queue s @ (if gives_up now rand op e then [] else [requeued now rand op])
        \<and> (\<exists>t. rc_sent s' = rc_sent s @ t)"
proof -
  note [dest!] = rollback_result and [simp] = handleError_result
  obtain d1 o1 where g: "getStateUpdater L P (op_Entry op) (TargetState (op_Entry op)) (rc_db s) = (d1, o1)" by force
  show ?thesis
  proof (cases o1)
    case (OK u)
    note o1 = this
    show ?thesis
    proof (cases answer)
      case (OK body)
      note body = this
      show ?thesis
      proof (cases "updater_ApplyResponse L body u")
        case (OK u')
        obtain d2 o2 where c: "updater_Commit L P u' d1 = (d2, o2)" by force
        show ?thesis
          using assms by (cases o2; auto simp: reconcileEntry_def attempt_error_def g o1 body OK c Let_def)
      qed (use assms in \<open>auto simp: reconcileEntry_def attempt_error_def g o1 body Let_def\<close>)
    qed (use assms in \<open>auto simp: reconcileEntry_def attempt_error_def g o1 Let_def\<close>)
  next
    case (ERR e)
    then have "(s', x) = handleError L P now rand op (wrapf ''could not acquire record'' e) (s\<lparr>rc_db := d1\<rparr>)"
      using assms(1) by (simp add: reconcileEntry_def g Let_def)
    then show ?thesis
      using handleError_result[of L P now rand op "wrapf ''could not acquire record'' e" "s\<lparr>rc_db := d1\<rparr>"] assms(2) ERR
      by (cases "handleError L P now rand op (wrapf ''could not acquire record'' e) (s\<lparr>rc_db := d1\<rparr>)")
        (simp add: attempt_error_def g)
  qed (use assms in \<open>auto simp: reconcileEntry_def attempt_error_def g Let_def\<close>)
qed

lemma attempt_held:
  assumes "i < length (pl_workers p)" and "pl_workers p ! i = Working op" and "q = worker_attempt L P answer now rand i op p"
    and "\<not> pl_crashed q" and "e = attempt_event L P answer now rand op p q"
  shows "held q + settled_in [e] = held p + accepted_in [e] \<and> (\<exists>t. rc_sent (pl_rec q) = rc_sent (pl_rec p) @ t \<and> delivered_in [e] \<subseteq># mset t)"
proof -
  obtain s x where s: "reconcileEntry L P answer now rand op (pl_rec p) = (s, x)" "\<not> is_PANIC x"
      "q = p\<lparr>pl_rec := s, pl_workers := (pl_workers p)[i := Receiving]\<rparr>"
    using assms(3,4) by (auto simp: worker_attempt_def split: prod.splits outcome.splits)
  have "sum_list (map worker_holds (pl_workers p)) = add_mset (op_Entry op) (sum_list (map worker_holds (pl_workers q)))"
    using worker_changes[OF assms(1), of Receiving] assms(2) s(3) by simp
  then show ?thesis
    using attempt_result[OF s(1,2)] s(3) assms(4,5)
    by (auto simp: attempt_event_def held_def queued_def split: option.splits)
qed

lemma step_held:
  assumes "pool_step L P p e q" and "\<not> pl_crashed q"
  shows "held q + settled_in [e] = held p + accepted_in [e] \<and> (\<exists>t. rc_sent (pl_rec q) = rc_sent (pl_rec p) @ t \<and> delivered_in [e] \<subseteq># mset t)"
  using assms
proof cases
  case (hand_over op i)
  then show ?thesis using worker_changes[of i "pl_workers p" "Working op"] by (simp add: held_def queued_def)
next
  case (attempt i op answer now rand)
  then show ?thesis using attempt_held[OF attempt(3-5)] attempt(1) assms(2) by simp
next
  case (worker_ends i)
  then show ?thesis using worker_changes[of i "pl_workers p" Worker_Gone] by (simp add: held_def queued_def)
qed (auto simp: held_def queued_def reconciler_Add_def manager_pop_def manager_look_def split: list.splits)

lemma run_held:
  "pool_run L P p es q \<Longrightarrow> \<not> pl_crashed q \<Longrightarrow> held q + settled_in es = held p + accepted_in es
    \<and> (\<exists>t. rc_sent (pl_rec q) = rc_sent (pl_rec p) @ t \<and> delivered_in es \<subseteq># mset t)"
proof (induction rule: pool_run.induct)
  case (go_on p es q e r)
  then have "\<not> pl_crashed q" by (auto elim: pool_stepE)
  then obtain t where ih: "held q + settled_in es = held p + accepted_in es" "rc_sent (pl_rec q) = rc_sent (pl_rec p) @ t"
      "delivered_in es \<subseteq># mset t" using go_on by blast
  obtain u where st: "held r + settled_in [e] = held q + accepted_in [e]" "rc_sent (pl_rec r) = rc_sent (pl_rec q) @ u"
      "delivered_in [e] \<subseteq># mset u" using step_held[OF go_on(2,4)] by blast
  have "held r + settled_in (es @ [e]) = (held r + settled_in [e]) + settled_in es" by (simp add: ac_simps)
  also have "\<dots> = held p + accepted_in (es @ [e])" using ih(1) st(1) by (simp add: ac_simps)
  finally show ?case using ih(2,3) st(2,3) by (simp add: subset_mset.add_mono)
qed simp

text \<open>Who is still there is what the wait group counts.\<close>

definition counted :: "pool \<Rightarrow> bool" where
  "counted p \<longleftrightarrow> pl_waits p = (if pl_manager p = Manager_Gone then 0 else 1) + length (filter (\<lambda>w. w \<noteq> Worker_Gone) (pl_workers p))"

lemma filter_update:
  "i < length ws \<Longrightarrow> length (filter Q (ws[i := w])) + (if Q (ws ! i) then 1 else 0) = length (filter Q ws) + (if Q w then 1 else 0)"
  by (induction ws arbitrary: i) (fastforce split: nat.splits if_splits)+

lemma step_counted:
  assumes "pool_step L P p e q" and "counted p"
  shows "counted q"
  using assms
proof cases
  case (hand_over op i)
  then show ?thesis using assms(2) filter_update[of i "pl_workers p" "\<lambda>w. w \<noteq> Worker_Gone" "Working op"] by (simp add: counted_def)
next
  case (attempt i op answer now rand)
  then show ?thesis using assms(2) filter_update[of i "pl_workers p" "\<lambda>w. w \<noteq> Worker_Gone" Receiving]
    by (simp add: counted_def worker_attempt_def split: prod.split outcome.split)
next
  case (worker_ends i)
  then show ?thesis using assms(2) filter_update[of i "pl_workers p" "\<lambda>w. w \<noteq> Worker_Gone" Worker_Gone] by (simp add: counted_def)
qed (use assms(2) in \<open>auto simp: counted_def manager_pop_def manager_look_def split: list.splits\<close>)

lemma run_counted: "pool_run L P p es q \<Longrightarrow> counted p \<Longrightarrow> counted q"
  by (induction rule: pool_run.induct) (auto intro: step_counted)

lemma Run_counted [simp]: "counted (reconciler_Run s)"
  by (simp add: counted_def reconciler_Run_def)

section \<open>Ending\<close>

text \<open>The manager sends outside of any \<open>select\<close>: with nobody left to receive it stays where it is.\<close>

definition stuck :: "pool \<Rightarrow> bool" where
  "stuck p \<longleftrightarrow> (\<exists>op. pl_manager p = Handing op) \<and> (\<forall>i < length (pl_workers p). pl_workers p ! i = Worker_Gone)"

lemma stuck_stays:
  assumes "pool_run L P p es q" and "stuck p" and "\<not> pl_crashed p"
  shows "stuck q \<and> \<not> pl_crashed q"
  using assms
  by (induction rule: pool_run.induct) (auto simp: stuck_def elim!: pool_stepE)

lemma stuck_counts:
  assumes "stuck p" and "counted p"
  shows "0 < pl_waits p"
  using assms by (auto simp: stuck_def counted_def)

text \<open>How far the goroutines are from their end.\<close>

fun manager_left :: "manager_state \<Rightarrow> nat" where
  "manager_left (Handing op) = 4"
| "manager_left (Popped op) = 2"
| "manager_left Selecting = 1"
| "manager_left Manager_Gone = 0"

fun worker_left :: "worker_state \<Rightarrow> nat" where
  "worker_left (Working op) = 2"
| "worker_left Receiving = 1"
| "worker_left Worker_Gone = 0"

definition left :: "pool \<Rightarrow> nat" where
  "left p = manager_left (pl_manager p) + sum_list (map worker_left (pl_workers p))"

lemma left_update:
  "i < length ws \<Longrightarrow> sum_list (map worker_left (ws[i := w])) + worker_left (ws ! i) = sum_list (map worker_left ws) + worker_left w"
  by (induction ws arbitrary: i) (auto split: nat.splits simp: algebra_simps)

lemma one_further:
  assumes "pl_done p" and "\<not> pl_crashed p" and "\<not> stuck p" and "counted p" and "pl_waits p \<noteq> 0"
  shows "\<exists>e q. pool_step L P p e q \<and> (pl_crashed q \<or> left q < left p \<and> pl_done q \<and> \<not> pl_crashed q \<and> \<not> stuck q)"
proof -
  have attempt: ?thesis if w: "i < length (pl_workers p)" "pl_workers p ! i = Working op" for i op
  proof -
    let ?q = "worker_attempt L P (OK None) 0 0 i op p"
    have "pl_crashed ?q \<or> pl_manager ?q = pl_manager p \<and> pl_workers ?q = (pl_workers p)[i := Receiving] \<and> pl_done ?q \<and> \<not> pl_crashed ?q"
      using assms(1,2) by (simp add: worker_attempt_def split: prod.split outcome.split)
    then show ?thesis
      using pool_step.attempt[OF assms(2) w refl, of L P "OK None" 0 0] left_update[OF w(1), of Receiving] w
      by (fastforce simp: left_def stuck_def)
  qed
  show ?thesis
  proof (cases "pl_manager p")
    case Selecting
    then show ?thesis using pool_step.manager_ends[OF assms(2), of L P] assms(1,2) by (fastforce simp: left_def stuck_def)
  next
    case (Popped op)
    then show ?thesis using pool_step.look[OF assms(2) Popped, of L P "NextAttempt op"] assms(1,2)
      by (fastforce simp: left_def stuck_def manager_look_def)
  next
    case (Handing op)
    then obtain i where i: "i < length (pl_workers p)" "pl_workers p ! i \<noteq> Worker_Gone" using assms(3) by (auto simp: stuck_def)
    show ?thesis
    proof (cases "pl_workers p ! i")
      case Receiving
      then show ?thesis
        using pool_step.hand_over[OF assms(2) Handing i(1), of L P] left_update[OF i(1), of "Working op"] assms(1,2) Handing
        by (fastforce simp: left_def stuck_def)
    qed (use i attempt in auto)
  next
    case Manager_Gone
    then have "filter (\<lambda>w. w \<noteq> Worker_Gone) (pl_workers p) \<noteq> []" using assms(4,5) by (auto simp: counted_def)
    then obtain i where i: "i < length (pl_workers p)" "pl_workers p ! i \<noteq> Worker_Gone"
      by (auto simp: filter_empty_conv in_set_conv_nth)
    show ?thesis
    proof (cases "pl_workers p ! i")
      case Receiving
      then show ?thesis
        using pool_step.worker_ends[OF assms(2) i(1), of L P] left_update[OF i(1), of Worker_Gone] assms(1,2) Manager_Gone
        by (fastforce simp: left_def stuck_def)
    qed (use i attempt in auto)
  qed
qed

lemma comes_to_end:
  "pl_done p \<Longrightarrow> \<not> pl_crashed p \<Longrightarrow> \<not> stuck p \<Longrightarrow> counted p \<Longrightarrow>
    \<exists>es q. pool_run L P p es q \<and> (pl_waits q = 0 \<or> pl_crashed q)"
proof (induction "left p" arbitrary: p rule: less_induct)
  case less
  show ?case
  proof (cases "pl_waits p = 0")
    case False
    then obtain e q where q: "pool_step L P p e q"
        "pl_crashed q \<or> left q < left p \<and> pl_done q \<and> \<not> pl_crashed q \<and> \<not> stuck q"
      using one_further[OF less(2-5)] by blast
    have "counted q" using step_counted q(1) less(5) by blast
    then show ?thesis using q less(1)[of q] run_step[OF q(1)] run_trans by blast
  qed (blast intro: pool_run.start)
qed

section \<open>A tick\<close>

text \<open>What \<open>manager_tick\<close> does in one step the goroutines do in up to four.\<close>

lemma tick_is_run:
  assumes "manager_tick L P answer now rand s = (s', r)" and "\<not> is_PANIC r"
    and "p = (reconciler_Run s)\<lparr>pl_done := dn, pl_waits := w\<rparr>"
  shows "\<exists>es. pool_run L P p es (p\<lparr>pl_rec := s'\<rparr>)"
proof -
  have p: "\<not> pl_crashed p" "pl_manager p = Selecting" "pl_workers p = [Receiving]" "pl_rec p = s"
    using assms(3) by (simp_all add: reconciler_Run_def workers_def)
  note tick = run_step[OF pool_step.tick[OF p(1,2)], of L P]
  show ?thesis
  proof (cases "rc_queue s")
    case Nil
    then have "p = p\<lparr>pl_rec := s'\<rparr>" using assms(1) p(4) by (simp add: manager_tick_def)
    then show ?thesis using pool_run.start[of L P p] by metis
  next
    case (Cons op q)
    let ?p1 = "manager_pop p"
    have p1: "\<not> pl_crashed ?p1" "pl_manager ?p1 = Popped op" using p Cons by (simp_all add: manager_pop_def)
    note look = run_trans[OF run_step[OF pool_step.look[OF p1, of L P now]] tick]
    show ?thesis
    proof (cases "NextAttempt op < now")
      case False
      then have "manager_look now op ?p1 = p\<lparr>pl_rec := s'\<rparr>"
        using assms(1) Cons p by (simp add: manager_tick_def manager_look_def manager_pop_def)
      then show ?thesis using look by auto
    next
      case True
      let ?op = "op\<lparr>Attempts := Attempts op + 1\<rparr>" and ?p2 = "manager_look now op ?p1"
      let ?p3 = "?p2\<lparr>pl_manager := Selecting, pl_workers := (pl_workers ?p2)[0 := Working ?op]\<rparr>"
      have p2: "\<not> pl_crashed ?p2" "pl_manager ?p2 = Handing ?op" "0 < length (pl_workers ?p2)" "pl_workers ?p2 ! 0 = Receiving"
        using True p Cons by (simp_all add: manager_look_def manager_pop_def)
      note hand = run_trans[OF run_step[OF pool_step.hand_over[OF p2, of L P]] look]
      have p3: "\<not> pl_crashed ?p3" "0 < length (pl_workers ?p3)" "pl_workers ?p3 ! 0 = Working ?op"
        using p True Cons by (simp_all add: manager_look_def manager_pop_def)
      note attempt = run_trans[OF run_step[OF pool_step.attempt[OF p3 refl, of L P answer now rand]] hand]
      have "worker_attempt L P answer now rand 0 ?op ?p3 = p\<lparr>pl_rec := s'\<rparr>"
        using assms(1,2) True Cons p
        by (cases r) (simp_all add: worker_attempt_def manager_look_def manager_pop_def manager_tick_def)
      then show ?thesis using attempt by auto
    qed
  qed
qed

section \<open>Properties\<close>

text \<open>C13: no message is lost and none is sent as two: however the program, the manager, the workers and
  the other users of the database interleave, the messages accepted so far are, each once, those
  that were delivered and whose state was stored, those that were given up (at their deadline, after
  their last attempt or for a fatal error), those in the queue, the one the manager has in hand and
  those being tried. Every delivered message is among the requests sent, once for each time it was
  accepted. Once the goroutines have ended, what is neither delivered nor given up is still in the
  queue, and goes with the program.\<close>

theorem no_message_lost:
  assumes "pool_run L P (reconciler_Run (NewReconciler d)) es p" and "\<not> pl_crashed p"
  shows "accepted_in es = delivered_in es + abandoned_in es + queued p + manager_holds (pl_manager p)
        + sum_list (map worker_holds (pl_workers p))
    \<and> delivered_in es \<subseteq># mset (rc_sent (pl_rec p))
    \<and> (pl_waits p = 0 \<longrightarrow> accepted_in es = delivered_in es + abandoned_in es + queued p)"
proof -
  have "held (reconciler_Run (NewReconciler d)) = {#}" "rc_sent (pl_rec (reconciler_Run (NewReconciler d))) = []"
    by (simp_all add: held_def queued_def reconciler_Run_def NewReconciler_def workers_def)
  then have all: "accepted_in es = settled_in es + queued p + manager_holds (pl_manager p) + sum_list (map worker_holds (pl_workers p))"
    and sent: "delivered_in es \<subseteq># mset (rc_sent (pl_rec p))"
    using run_held[OF assms] by (auto simp: held_def ac_simps)
  have "counted p" using run_counted[OF assms(1)] by simp
  then have "pl_waits p = 0 \<Longrightarrow> manager_holds (pl_manager p) + sum_list (map worker_holds (pl_workers p)) = {#}"
    by (auto simp: counted_def filter_empty_conv gone_hold split: if_splits)
  then show ?thesis using all sent by (simp add: add.assoc)
qed

text \<open>C19: when the context is done the goroutines can come to their end, which the server waits for,
  exactly if the manager is not holding a message for workers that have all ended. Then it never
  ends: the send is not part of a \<open>select\<close>.\<close>

theorem shutdown_ends_iff:
  assumes "pool_run L P (reconciler_Run s) es p" and "pl_done p" and "\<not> pl_crashed p"
  shows "(\<exists>fs q. pool_run L P p fs q \<and> (pl_waits q = 0 \<or> pl_crashed q))
    \<longleftrightarrow> \<not> ((\<exists>op. pl_manager p = Handing op) \<and> set (pl_workers p) \<subseteq> {Worker_Gone})"
proof -
  have c: "counted p" using run_counted[OF assms(1)] by simp
  have "(\<exists>op. pl_manager p = Handing op) \<and> set (pl_workers p) \<subseteq> {Worker_Gone} \<longleftrightarrow> stuck p"
    by (auto simp: stuck_def set_conv_nth)
  moreover have "stuck q \<and> \<not> pl_crashed q \<and> 0 < pl_waits q" if "stuck p" "pool_run L P p fs q" for fs q
    using stuck_stays[OF that(2,1) assms(3)] stuck_counts[of q] run_counted[OF that(2) c] by simp
  ultimately show ?thesis using comes_to_end[OF assms(2,3) _ c] by fastforce
qed

section \<open>Examples\<close>

lemma no_message_lost_witness:
  "\<exists>es p. pool_run sample_lib (quiet New_backend) (reconciler_Run (NewReconciler sample_db)) es p
     \<and> accepted_in es = {#sample_entry#} \<and> settled_in es + held p = {#sample_entry#}"
proof -
  let ?p = "reconciler_Run (NewReconciler sample_db)"
  let ?q = "?p\<lparr>pl_rec := reconciler_Add 0 sample_entry (pl_rec ?p)\<rparr>"
  have "pool_step sample_lib (quiet New_backend) ?p (Accepts sample_entry) ?q"
    by (rule pool_step.add) (simp add: reconciler_Run_def)
  then have run: "pool_run sample_lib (quiet New_backend) ?p [Accepts sample_entry] ?q" by (rule run_step)
  have c: "\<not> pl_crashed ?q" by (simp add: reconciler_Run_def)
  have "pool_run sample_lib (quiet New_backend) ?p ([Accepts sample_entry] @ [Internal]) (manager_pop ?q)"
    by (rule pool_run.go_on[OF run pool_step.tick]) (simp_all add: reconciler_Run_def)
  moreover have "\<not> pl_crashed (manager_pop ?q)"
    by (simp add: manager_pop_def reconciler_Add_def reconciler_Run_def NewReconciler_def)
  ultimately show ?thesis
    using no_message_lost[of sample_lib "quiet New_backend" sample_db "[Accepts sample_entry] @ [Internal]" "manager_pop ?q"]
    by (intro exI[of _ "[Accepts sample_entry] @ [Internal]"] exI[of _ "manager_pop ?q"]) (simp add: held_def add.assoc)
qed

text \<open>The context ends, the worker with it, and the manager takes the tick that is due as well.\<close>

definition left_alone :: pool where
  "left_alone = \<lparr>pl_rec = sample_reconciler, pl_manager = Handing (sample_op 1), pl_workers = [Worker_Gone],
     pl_done = True, pl_waits = 1, pl_crashed = False\<rparr>"

lemma left_alone_reached:
  "\<exists>es. pool_run sample_lib (quiet New_backend) (reconciler_Run (NewReconciler sample_db)) es left_alone"
proof -
  note [simp] = reconciler_Run_def NewReconciler_def workers_def reconciler_Add_def manager_pop_def manager_look_def
  let ?run = "pool_run sample_lib (quiet New_backend)"
  let ?p = "reconciler_Run (NewReconciler sample_db)"
  let ?p1 = "?p\<lparr>pl_rec := reconciler_Add 0 sample_entry (pl_rec ?p)\<rparr>"
  let ?p2 = "?p1\<lparr>pl_done := True\<rparr>"
  let ?p3 = "?p2\<lparr>pl_workers := (pl_workers ?p2)[0 := Worker_Gone], pl_waits := pl_waits ?p2 - 1\<rparr>"
  have "?run ?p [Accepts sample_entry] ?p1" by (rule run_step, rule pool_step.add) simp
  then have "?run ?p ([Accepts sample_entry] @ [Internal]) ?p2" by (rule pool_run.go_on) (rule pool_step.cancel, simp)
  then have "?run ?p (([Accepts sample_entry] @ [Internal]) @ [Internal]) ?p3"
    by (rule pool_run.go_on) (rule pool_step.worker_ends, simp_all)
  then have "?run ?p ((([Accepts sample_entry] @ [Internal]) @ [Internal]) @ [Internal]) (manager_pop ?p3)"
    by (rule pool_run.go_on) (rule pool_step.tick, simp_all)
  then have "?run ?p (((([Accepts sample_entry] @ [Internal]) @ [Internal]) @ [Internal]) @ [Internal])
      (manager_look 1 (sample_op 0) (manager_pop ?p3))"
    by (rule pool_run.go_on) (rule pool_step.look, simp_all add: sample_op_def)
  moreover have "manager_look 1 (sample_op 0) (manager_pop ?p3) = left_alone"
    by (simp add: left_alone_def sample_reconciler_def sample_op_def)
  ultimately show ?thesis by metis
qed

lemma shutdown_ends_iff_witness:
  "\<nexists>fs q. pool_run sample_lib (quiet New_backend) left_alone fs q \<and> (pl_waits q = 0 \<or> pl_crashed q)"
  using left_alone_reached
    shutdown_ends_iff[of sample_lib "quiet New_backend" "NewReconciler sample_db" _ left_alone]
  by (auto simp: left_alone_def)

end
