(* ===== verification/Delivery.thy ===== *)
theory Delivery
  imports Protocol
begin

text \<open>
  What a delivery does to two databases: the reconciler of one connector takes a negotiation out of
  its database, the handler of the other processes the message with its own, and the answer goes
  back. It is shown that this is the step \<open>deliver\<close> of \<open>Protocol\<close>, between the negotiations the two
  databases hold, so that what is shown there of exchanges holds of what is stored.
\<close>

section \<open>What an operation leaves in the row it has taken\<close>

text \<open>The rows of negotiations after the one with a key has been replaced.\<close>

definition replace_row :: "int \<Rightarrow> contract_row \<Rightarrow> contract_row list \<Rightarrow> contract_row list" where
  "replace_row i m = update_where (\<lambda>r. c_ID r = i) (\<lambda>_. m)"

text \<open>The row is written as the negotiation says, whatever was there: the columns an upsert does not
  write have the values they would be given.\<close>

lemma put_taken:
  assumes "GetContract L (quiet P) [WithRW, opt] d = (d1, OK cn)" and "wf_db d" and "WithRolePID pid rl = OK opt"
    and "same_identity cn c" and "n_modified c" and "PutContract L (quiet P) c d1 = (d2, OK u)"
  shows "\<exists>m. n_ToModel L c = OK m \<and> contracts d2 = replace_row (n_internal_id cn) m (contracts d)"
proof -
  obtain r k where r: "filter (contract_where L (newNegotiationParamBuilder [WithRW, opt]) None) (contracts d) = [r]"
      "\<not> c_Locked r" "d1 = lock_contract_row r k d" "n_FromModel L (join_agreement d (r\<lparr>c_Locked := True\<rparr>)) False = OK cn"
    using assms(1) by (auto simp: rolePID_RW[OF assms(3)] elim: getContractLocked_OK[OF _ assms(2)])
  have mem: "r \<in> set (contracts d)" using filter_eq_singleton_mem[OF r(1)] by simp
  have cn: "n_internal_id cn = c_ID r" "ParseRole (c_Role r) = OK (n_role cn)"
    using r(4) by (auto simp: n_FromModel_def outcome_simps join_agreement_def)
  have dist: "distinct (map c_ID (contracts d))" using assms(2) by (simp add: wf_db_def wf_rows_def)
  have "wf_db d1" using wf_GetContract[OF _ assms(2), of "quiet P" L "[WithRW, opt]"] assms(1) by simp
  moreover have "r\<lparr>c_Locked := True\<rparr> \<in> set (contracts d1)" using mem r(3) by (auto simp: lock_contract_row_def set_update_where)
  moreover have "c_ID (r\<lparr>c_Locked := True\<rparr>) = n_internal_id c" using cn(1) assms(4) by (simp add: same_identity_def)
  ultimately obtain m where m: "n_ToModel L c = OK m"
      "contracts d2 = update_where (\<lambda>x. c_ID x = n_internal_id c) (contract_excluded m) (contracts d1)"
    using put_existing_row[OF _ _ _ assms(5,6)] by metis
  have f: "c_ID m = c_ID r" "c_Role m = c_Role r" "c_Agreement m = None"
    using n_ToModel_fields[OF m(1)] cn assms(4) ParseRole_OK[OF cn(2)] by (simp_all add: same_identity_def)
  have "contract_excluded m (x\<lparr>c_Locked := True\<rparr>) = m" if "x \<in> set (contracts d)" "c_ID x = c_ID r" for x
  proof -
    have "x = r" using that mem dist by (metis distinct_map inj_onD)
    then show ?thesis using f by (cases m) (simp add: contract_excluded_def)
  qed
  then have "contracts d2 = replace_row (n_internal_id cn) m (contracts d)"
    using m(2) cn(1) assms(4) r(3)
    by (simp add: replace_row_def update_where_def lock_contract_row_def same_identity_def)
  then show ?thesis using m(1) by blast
qed

lemma taken_session: "GetContract L (quiet P) [WithRW, opt] d = (d1, OK cn) \<Longrightarrow> wf_db d \<Longrightarrow> WithRolePID pid rl = OK opt \<Longrightarrow> session cn = cn"
  by (auto simp: rolePID_RW session_def elim!: getContractLocked_OK dest!: n_FromModel_fields)

section \<open>The peer's side\<close>

lemma run_apply_added:
  "run_apply L d cn af e = (e', OK u) \<Longrightarrow> added e' = added e @ entries af"
  by (cases af) (auto simp: call_with_def call_service_def outcome_simps split: outcome.splits option.splits prod.splits)

lemma processMessage_receives:
  assumes "taken L sv P rl pid s opt d1 cn" and "processMessage L sv ctx fv rl pid msg s = (s', Responded resp)"
  shows "\<exists>c af m. recv_and_send L (sv_deps sv) ctx fv msg cn = (c, Inr af)
    \<and> resp = EncodeValid valid_ContractNegotiation 200 (GetContractNegotiation_message L c)
    \<and> n_ToModel L c = OK m \<and> contracts (s_db s') = replace_row (n_internal_id cn) m (contracts (s_db s))
    \<and> added (s_effects s') = added (s_effects s) @ entries af"
proof -
  note t = takenD[OF assms(1)]
  obtain c r where rs: "recv_and_send L (sv_deps sv) ctx fv msg cn = (c, r)" by force
  have "\<exists>af. r = Inr af"
    using assms(2) rs by (cases r) (auto simp: processMessage_def t(1,5,6) recv_and_send_def split: outcome.splits prod.splits if_splits)
  then obtain af where af: "r = Inr af" ..
  obtain d2 st where sn: "storeNegotiation L (quiet P) c d1 = (d2, st)" by force
  have st: "st = None"
    using assms(2) sn by (cases st) (auto simp: processMessage_def t(1,5,6) rs af storeNegotiation_def
        split: outcome.splits option.splits prod.splits if_splits)
  obtain e u where ap: "run_apply L (sv_deps sv) c af (s_effects s) = (e, OK u)" "s' = s\<lparr>s_db := d2, s_effects := e\<rparr>"
      "resp = EncodeValid valid_ContractNegotiation 200 (GetContractNegotiation_message L c)"
    using assms(2) by (auto simp: processMessage_def t(1,5,6) rs af sn st split: outcome.splits prod.splits)
  obtain d3 where d3: "PutContract L (quiet P) c d1 = (d3, OK ())" "contracts d2 = contracts d3"
    using storeNegotiation_put sn st by blast
  obtain m where "n_ToModel L c = OK m" "contracts d3 = replace_row (n_internal_id cn) m (contracts (s_db s))"
    using put_taken[OF t(6,4,5) recv_and_send_identity[OF rs] _ d3(1)] recv_and_send_OK[OF rs[unfolded af]] by blast
  then show ?thesis using rs af ap d3(2) run_apply_added[OF ap(1)] by (intro exI[of _ c] exI[of _ af] exI[of _ m]) simp
qed

section \<open>The sender's side\<close>

lemma reconcile_sends:
  assumes "session_db L P (rc_db s)" and "re_Type (op_Entry op) = ReconciliationContract"
    and "WithRolePID (EntityID (op_Entry op)) (re_Role (op_Entry op)) = OK opt"
    and "GetContract L (quiet P) [WithRW, opt] (rc_db s) = (d1, OK own)"
    and "n_SetState st own = OK own1" and "contract_ParseState (ArgString (TargetState (op_Entry op))) = OK st"
    and "reconcileEntry L (quiet P) (OK body) now rand op s = (s', OK x)" and "rc_queue s' = rc_queue s"
  shows "\<exists>own2 m. negotiation_ApplyResponse L body own1 = OK own2 \<and> n_ToModel L own2 = OK m
    \<and> contracts (rc_db s') = replace_row (n_internal_id own) m (contracts (rc_db s))
    \<and> rc_sent s' = rc_sent s @ [op_Entry op]"
proof -
  have acq: "acquire_target L (quiet P) (op_Entry op) (rc_db s) = (d1, OK (NegotiationUpdater own1))"
    using assms(2-6) by (simp add: getStateUpdater_OK newNegotiationUpdater_OK del: n_SetState_OK)
  from reconcile_commits[OF assms(1) acq assms(7,8)]
  obtain u' d2 where c: "updater_ApplyResponse L body (NegotiationUpdater own1) = OK u'" "updater_kin (NegotiationUpdater own1) u'"
      "updater_Commit L (quiet P) u' d1 = (d2, OK ())" "s' = s\<lparr>rc_db := d2, rc_sent := rc_sent s @ [op_Entry op]\<rparr>"
    by blast
  obtain own2 where own2: "u' = NegotiationUpdater own2" "negotiation_ApplyResponse L body own1 = OK own2"
    using c(1) by (auto simp: outcome_simps)
  have "PutContract L (quiet P) own2 d1 = (d2, OK ())" using c(3) own2(1) by (simp add: outcome_simps)
  moreover have "same_identity own own2" "n_modified own2"
    using c(2) own2(1) assms(5) by (auto simp: same_identity_def outcome_simps)
  ultimately obtain m where "n_ToModel L own2 = OK m" "contracts d2 = replace_row (n_internal_id own) m (contracts (rc_db s))"
    using put_taken[OF assms(4) _ assms(3)] assms(1) by (auto simp: session_db_def)
  then show ?thesis using own2(2) c(4) by simp
qed

text \<open>A message that was sent had its record taken first.\<close>

lemma handleError_sent: "rc_sent (fst (handleError L P now rand op er s)) = rc_sent s"
  by (auto simp: handleError_def Let_def split: prod.splits)

lemma sent_acquired:
  assumes "reconcileEntry L P answer now rand op s = (s', OK x)" and "rc_sent s' = rc_sent s @ [op_Entry op]"
  shows "\<exists>d1 u. acquire_target L P (op_Entry op) (rc_db s) = (d1, OK u)"
proof (cases "acquire_target L P (op_Entry op) (rc_db s)")
  case (Pair d1 r)
  show ?thesis
  proof (cases r)
    case (ERR e)
    then have "rc_sent s' = rc_sent s"
      using assms(1) Pair handleError_sent[of L P now rand op "wrapf ''could not acquire record'' e" "s\<lparr>rc_db := d1\<rparr>"]
      by (simp add: reconcileEntry_def Let_def)
    then show ?thesis using assms(2) by simp
  qed (use assms(1) Pair in \<open>auto simp: reconcileEntry_def Let_def\<close>)
qed

section \<open>A delivery\<close>

text \<open>A negotiation and the database it is stored in.\<close>

definition holds_negotiation :: "'a lib_scheme \<Rightarrow> backend \<Rightarrow> db \<Rightarrow> role \<Rightarrow> uuid \<Rightarrow> negotiation \<Rightarrow> bool" where
  "holds_negotiation L P d rl pid cn \<longleftrightarrow> session_db L P d
     \<and> (\<exists>opt d1. WithRolePID pid rl = OK opt \<and> GetContract L (quiet P) [WithRW, opt] d = (d1, OK cn))"

text \<open>C14: delivering a message is the step of the protocol: if the sender's database holds \<open>own\<close> and the
  receiver's \<open>peer\<close>, the message is sent and answered, and the attempt then succeeds without queueing it
  again, then
  \<open>deliver\<close> takes \<open>own\<close> and \<open>peer\<close> to two negotiations that are exactly what the two rows now say,
  every other row is as it was, and what \<open>deliver\<close> lets the peer send is what its reconciler was
  given.\<close>

theorem delivery_refines_step:
  assumes "holds_negotiation L P (rc_db s) (re_Role e) (EntityID e) own" and "holds_negotiation L Q (s_db t) rl pid peer"
    and "op_Entry op = e" and "re_Type e = ReconciliationContract" and "sv_backend sv = quiet Q"
    and "processMessage L sv ctx fv rl pid (Body e) t = (t', Responded resp)"
    and "reconcileEntry L (quiet P) (OK (resp_body resp)) now rand op s = (s', OK x)"
    and "rc_sent s' = rc_sent s @ [e]" and "rc_queue s' = rc_queue s"
  shows "\<exists>own' peer' es m1 m2. deliver L (sv_deps sv) ctx fv e own peer = Some (own', peer', es)
    \<and> n_ToModel L own' = OK m1 \<and> contracts (rc_db s') = replace_row (n_internal_id own) m1 (contracts (rc_db s))
    \<and> n_ToModel L peer' = OK m2 \<and> contracts (s_db t') = replace_row (n_internal_id peer) m2 (contracts (s_db t))
    \<and> added (s_effects t') = added (s_effects t) @ es"
proof -
  obtain opt d1 where own: "session_db L P (rc_db s)" "WithRolePID (EntityID e) (re_Role e) = OK opt"
      "GetContract L (quiet P) [WithRW, opt] (rc_db s) = (d1, OK own)"
    using assms(1) by (auto simp: holds_negotiation_def)
  obtain opt' d1' where "taken L sv Q rl pid t opt' d1' peer"
    using assms(2,5) by (auto simp: holds_negotiation_def session_db_def taken_def)
  note peer = takenD[OF this] and taken = this
  obtain c af m where c: "recv_and_send L (sv_deps sv) ctx fv (Body e) peer = (c, Inr af)"
      "resp = EncodeValid valid_ContractNegotiation 200 (GetContractNegotiation_message L c)" "n_ToModel L c = OK m"
      "contracts (s_db t') = replace_row (n_internal_id peer) m (contracts (s_db t))"
      "added (s_effects t') = added (s_effects t) @ entries af"
    using processMessage_receives[OF taken assms(6)] by blast
  obtain st own1 where st: "contract_ParseState (ArgString (TargetState e)) = OK st" "n_SetState st own = OK own1"
  proof -
    obtain d u where acq: "acquire_target L (quiet P) e (rc_db s) = (d, OK u)"
      using sent_acquired[OF assms(7)] assms(3,8) by auto
    from acquire_contract[OF own(1) acq assms(4)] show thesis
    proof cases
      case (1 opt2 cs con n)
      then have "con = own" using own(2,3) by simp
      then show ?thesis using that[of cs n] 1 by (simp add: outcome_simps)
    qed
  qed
  obtain own2 m1 where own2: "negotiation_ApplyResponse L (resp_body resp) own1 = OK own2" "n_ToModel L own2 = OK m1"
      "contracts (rc_db s') = replace_row (n_internal_id own) m1 (contracts (rc_db s))"
    using reconcile_sends[OF own(1) _ _ own(3) st(2) _ assms(7,9)] assms(3,4) own(2) st(1) by auto
  have "session own = own" "session peer = peer"
    using taken_session own peer(4-6) by (auto simp: session_db_def)
  then have "deliver L (sv_deps sv) ctx fv e own peer = Some (own2, c, entries af)"
    using st c(1,2) own2(1) by (simp add: deliver_def del: n_SetState_OK)
  then show ?thesis using own2 c by blast
qed

section \<open>Examples\<close>

text \<open>The consumer of the agreed negotiation sends its verification.\<close>

definition verifying_row :: contract_row where
  "verifying_row = agreed_row\<lparr>c_Role := ''Consumer''\<rparr>"

definition verifying :: negotiation where
  "verifying = agreed_negotiation\<lparr>n_role := DataspaceConsumer\<rparr>"

definition verification_op :: reconciliationOperation where
  "verification_op = \<lparr>Submitted = 0, NextAttempt = 0, Attempts = 1,
     op_Entry = sample_entry\<lparr>EntityID := 3, re_Role := DataspaceConsumer, TargetState := ''dspace:VERIFIED'', Body := sample_verification\<rparr>,
     CurrentInterval = initialRetry\<rparr>"

definition verifying_reconciler :: reconciler where
  "verifying_reconciler = \<lparr>rc_queue = [], rc_db = sample_db\<lparr>contracts := [verifying_row]\<rparr>, rc_sent = []\<rparr>"

lemma verifying_wf: "wf_db (rc_db verifying_reconciler)"
  using agreed_sys_wf by (simp add: agreed_sys_def verifying_reconciler_def wf_db_def wf_rows_def verifying_row_def agreed_row_def)

lemma verifying_take:
  "GetContract sample_lib (quiet New_backend) [WithRW, WithConsumerPID 3] (rc_db verifying_reconciler)
     = (lock_contract_row verifying_row 3 (rc_db verifying_reconciler), OK verifying)"
proof -
  have one: "filter (contract_where sample_lib (newNegotiationParamBuilder [WithRW, WithConsumerPID 3]) None)
      (contracts (rc_db verifying_reconciler)) = [verifying_row]"
    using rolePID_builder[of 3 DataspaceConsumer "WithConsumerPID 3" sample_lib verifying_row]
    by (simp add: verifying_reconciler_def verifying_row_def agreed_row_def sample_row_def)
  have state: "contract_ParseState (ArgString ''dspace:AGREED'') = OK C_AGREED"
    using ParseState_String(1)[of C_AGREED] by simp
  have "n_FromModel sample_lib (join_agreement (lock_contract_row verifying_row 3 (rc_db verifying_reconciler))
      (verifying_row\<lparr>c_Locked := True\<rparr>)) False = OK verifying"
    by (simp add: join_agreement_def verifying_row_def agreed_row_def sample_row_def n_FromModel_def parse_pid_def state
        ParseRole_Role_String[of DataspaceConsumer] opt_read_def verifying_def agreed_negotiation_def sample_negotiation_def root_url_def)
  moreover have "\<not> c_Locked verifying_row" "c_AgreementID verifying_row = None" "clock (rc_db verifying_reconciler) = 1"
    by (simp_all add: verifying_row_def agreed_row_def sample_row_def verifying_reconciler_def sample_db_def)
  ultimately show ?thesis
    using getContractLocked_reliable[OF New_backend_reliable verifying_wf one]
      rolePID_RW[of 3 DataspaceConsumer "WithConsumerPID 3" sample_lib "quiet New_backend" "rc_db verifying_reconciler"]
    by (simp add: finish_contract_reliable eval_nat_numeral)
qed

text \<open>There is nothing to learn for a negotiation that knows both PIDs.\<close>

lemma knows_both_learns_nothing:
  "n_providerPID n \<noteq> emptyUUID \<Longrightarrow> n_consumerPID n \<noteq> emptyUUID \<Longrightarrow> negotiation_ApplyResponse L body n = OK n"
  by (auto simp: negotiation_ApplyResponse_def split: option.split)

lemma verification_sent:
  "\<exists>s'. reconcileEntry sample_lib (quiet New_backend) (OK body) 1 0 verification_op verifying_reconciler = (s', OK ())
     \<and> rc_sent s' = [op_Entry verification_op] \<and> rc_queue s' = []"
proof -
  let ?v = "verifying\<lparr>n_state := C_VERIFIED, n_modified := True\<rparr>"
  have acq: "getStateUpdater sample_lib (quiet New_backend) (op_Entry verification_op) ''dspace:VERIFIED'' (rc_db verifying_reconciler)
      = (lock_contract_row verifying_row 3 (rc_db verifying_reconciler), OK (NegotiationUpdater ?v))"
    using verifying_take ParseState_String(1)[of C_VERIFIED]
    by (simp add: getStateUpdater_OK newNegotiationUpdater_OK verification_op_def sample_entry_def)
      (simp add: verifying_def agreed_negotiation_def n_SetState_def n_panicRO_def n_modify_def)
  obtain d2 where put: "PutContract sample_lib (quiet New_backend) ?v (lock_contract_row verifying_row 3 (rc_db verifying_reconciler)) = (d2, OK ())"
    by (auto simp: PutContract_def verifying_def agreed_negotiation_def n_ToModel_def opt_read_def upsert_contract_def
        upsert_rows_def lock_contract_row_def verifying_reconciler_def sample_db_def verifying_row_def agreed_row_def sample_row_def)
  have "n_providerPID ?v \<noteq> emptyUUID" "n_consumerPID ?v \<noteq> emptyUUID" by (simp_all add: verifying_def agreed_negotiation_def)
  then have "negotiation_ApplyResponse sample_lib body ?v = OK ?v" by (rule knows_both_learns_nothing)
  then have "reconcileEntry sample_lib (quiet New_backend) (OK body) 1 0 verification_op verifying_reconciler =
      (verifying_reconciler\<lparr>rc_db := d2, rc_sent := [op_Entry verification_op]\<rparr>, OK ())"
    using acq put by (simp add: reconcileEntry_def Let_def verification_op_def verifying_reconciler_def)
  then show ?thesis by (simp add: verifying_reconciler_def)
qed

lemma delivery_refines_step_witness:
  "\<exists>(s' :: reconciler) t' own' peer' m1 m2. n_ToModel sample_lib own' = OK m1 \<and> n_ToModel sample_lib peer' = OK m2
     \<and> contracts (rc_db s') = replace_row 1 m1 [verifying_row] \<and> contracts (s_db t') = replace_row 1 m2 [agreed_row]
     \<and> fst (processMessage sample_lib sample_server sample_ctx sample_fresh DataspaceProvider 2 sample_verification agreed_sys) = t'"
proof -
  let ?e = "op_Entry verification_op"
  obtain t' resp where r: "processMessage sample_lib sample_server sample_ctx sample_fresh DataspaceProvider 2 (Body ?e) agreed_sys
      = (t', Responded resp)"
    using agreed_verify by (auto simp: verification_op_def)
  obtain s' where s: "reconcileEntry sample_lib (quiet New_backend) (OK (resp_body resp)) 1 0 verification_op verifying_reconciler = (s', OK ())"
      "rc_sent s' = [?e]" "rc_queue s' = []"
    using verification_sent by blast
  have holds: "holds_negotiation sample_lib New_backend (rc_db verifying_reconciler) (re_Role ?e) (EntityID ?e) verifying"
      "holds_negotiation sample_lib New_backend (s_db agreed_sys) DataspaceProvider 2 agreed_negotiation"
    using verifying_take verifying_wf agreed_take by (simp_all add: holds_negotiation_def session_db_def verification_op_def)
  have "re_Type ?e = ReconciliationContract" "rc_sent s' = rc_sent verifying_reconciler @ [?e]" "rc_queue s' = rc_queue verifying_reconciler"
      "n_internal_id verifying = 1" "n_internal_id agreed_negotiation = 1"
      "contracts (rc_db verifying_reconciler) = [verifying_row]" "contracts (s_db agreed_sys) = [agreed_row]"
    using s by (simp_all add: verification_op_def sample_entry_def verifying_reconciler_def verifying_def agreed_negotiation_def agreed_sys_def)
  note facts = this
  from delivery_refines_step[OF holds refl facts(1) sample_server_backend r s(1) facts(2,3)]
  obtain own' peer' m1 m2 where "n_ToModel sample_lib own' = OK m1" "n_ToModel sample_lib peer' = OK m2"
      "contracts (rc_db s') = replace_row 1 m1 [verifying_row]" "contracts (s_db t') = replace_row 1 m2 [agreed_row]"
    unfolding facts(4-7) by blast
  moreover have "fst (processMessage sample_lib sample_server sample_ctx sample_fresh DataspaceProvider 2 sample_verification agreed_sys) = t'"
    using r by (simp add: verification_op_def)
  ultimately show ?thesis by blast
qed

end
