(* ===== verification/Store_Types.thy ===== *)
theory Store_Types
  imports Control_Facts Transfer_Handlers_Facts
begin

text \<open>
  Types of stored rows. A column is text, a row is a value of the program only if every column can
  be read: PIDs, state, URLs, role, direction and the JSON columns. It is shown that whatever the
  program does to the database, rows that can be read stay so and the ones it adds can be read
  (preservation), and that reading such a row only fails for reasons of the query (progress).
\<close>

section \<open>Typed rows\<close>

definition typed_contract :: "'a lib_scheme \<Rightarrow> contract_row \<Rightarrow> bool" where
  "typed_contract L r \<longleftrightarrow>
     is_OK (parse_pid L (c_ProviderPID r)) \<and> is_OK (parse_pid L (c_ConsumerPID r))
     \<and> is_OK (contract_ParseState (ArgString (c_State r))) \<and> is_OK (Unmarshal_offer L (c_Offer r))
     \<and> url_Parse L (c_CallbackURL r) \<noteq> None \<and> url_Parse L (c_SelfURL r) \<noteq> None \<and> is_OK (ParseRole (c_Role r))
     \<and> (c_TraceInfo r \<noteq> [] \<longrightarrow> is_OK (Unmarshal_trace L (c_TraceInfo r)))
     \<and> is_OK (opt_read (Unmarshal_requester L) (c_RequesterInfo r))"

definition typed_transfer :: "'a lib_scheme \<Rightarrow> transfer_row \<Rightarrow> bool" where
  "typed_transfer L r \<longleftrightarrow>
     is_OK (transfer_ParseState (ArgString (t_State r))) \<and> is_OK (parse_pid L (t_ProviderPID r))
     \<and> is_OK (parse_pid L (t_ConsumerPID r)) \<and> url_Parse L (t_CallbackURL r) \<noteq> None
     \<and> url_Parse L (t_SelfURL r) \<noteq> None \<and> is_OK (ParseRole (t_Role r))
     \<and> is_OK (opt_read (Unmarshal_publish L) (t_PublishInfo r)) \<and> is_OK (Unmarshal_trace L (t_TraceInfo r))
     \<and> is_OK (opt_read (Unmarshal_requester L) (t_RequesterInfo r)) \<and> is_OK (ParseDirection (t_Direction r))"

definition typed_agreement :: "'a lib_scheme \<Rightarrow> agreement_row \<Rightarrow> bool" where
  "typed_agreement L a \<longleftrightarrow> uuid_Parse L (a_ID a) \<noteq> None \<and> is_OK (ToODRLAgreement L a)"

definition typed_db :: "'a lib_scheme \<Rightarrow> db \<Rightarrow> bool" where
  "typed_db L d \<longleftrightarrow> list_all (typed_contract L) (contracts d) \<and> list_all (typed_transfer L) (transfers d)
     \<and> list_all (typed_agreement L) (agreements d)"

text \<open>What the text forms have to do for that: what was written is read, though not as what.\<close>

definition reads_what_it_writes :: "('x \<Rightarrow> string outcome) \<Rightarrow> (string \<Rightarrow> 'x outcome) \<Rightarrow> bool" where
  "reads_what_it_writes m u \<longleftrightarrow> (\<forall>x t. m x = OK t \<longrightarrow> is_OK (u t))"

definition typed_lib :: "'a lib_scheme \<Rightarrow> bool" where
  "typed_lib L \<longleftrightarrow> uuid_laws L \<and> (\<forall>u. url_Parse L (url_String L u) \<noteq> None)
     \<and> reads_what_it_writes (Marshal_offer L) (Unmarshal_offer L)
     \<and> reads_what_it_writes (Marshal_agreement L) (Unmarshal_agreement L)
     \<and> reads_what_it_writes (Marshal_requester L) (Unmarshal_requester L)
     \<and> reads_what_it_writes (Marshal_publish L) (Unmarshal_publish L)
     \<and> reads_what_it_writes (Marshal_trace L) (Unmarshal_trace L)"

lemma read_written: "reads_what_it_writes m u \<Longrightarrow> m x = OK t \<Longrightarrow> \<exists>y. u t = OK y"
  unfolding reads_what_it_writes_def is_OK_iff by blast

lemma opt_read_written:
  "reads_what_it_writes m u \<Longrightarrow> opt_read m c = OK t \<Longrightarrow> \<exists>y. opt_read u t = OK y"
  by (auto simp: opt_read_def outcome_simps split: option.splits dest: read_written)

lemma typed_locked [simp]:
  "typed_contract L (r\<lparr>c_Locked := b\<rparr>) = typed_contract L r" "typed_transfer L (t\<lparr>t_Locked := b\<rparr>) = typed_transfer L t"
  "typed_contract L (r\<lparr>c_ID := i\<rparr>) = typed_contract L r" "typed_transfer L (t\<lparr>t_ID := i\<rparr>) = typed_transfer L t"
  by (simp_all add: typed_contract_def typed_transfer_def)

lemma n_ToModel_typed:
  assumes "typed_lib L" and "n_ToModel L cn = OK m"
  shows "typed_contract L m"
proof -
  have "is_OK (Unmarshal_offer L (c_Offer m))" "is_OK (opt_read (Unmarshal_requester L) (c_RequesterInfo m))"
      "is_OK (Unmarshal_trace L (c_TraceInfo m))"
    using assms by (auto simp: typed_lib_def n_ToModel_def outcome_simps intro: read_written opt_read_written)
  moreover have "is_OK (ParseRole (c_Role m))"
    using n_ToModel_fields[OF assms(2)] by (auto simp: is_OK_iff dest: ParseRole_Role_String)
  moreover have "c_SelfURL m = url_String L (n_self cn)" using assms(2) by (auto simp: n_ToModel_def outcome_simps)
  ultimately show ?thesis
    using assms(1) n_ToModel_fields[OF assms(2)]
    by (simp add: typed_contract_def typed_lib_def parse_pid_column is_OK_iff del: cstate_String_simps)
qed

lemma r_ToModel_typed:
  assumes "typed_lib L" and "r_ToModel L tr = OK m"
  shows "typed_transfer L m"
proof -
  have "is_OK (opt_read (Unmarshal_publish L) (t_PublishInfo m))" "is_OK (opt_read (Unmarshal_requester L) (t_RequesterInfo m))"
      "is_OK (Unmarshal_trace L (t_TraceInfo m))"
    using assms by (auto simp: typed_lib_def r_ToModel_def outcome_simps intro: read_written opt_read_written)
  moreover have "is_OK (ParseRole (t_Role m))" "is_OK (ParseDirection (t_Direction m))"
    using assms(2) by (auto simp: r_ToModel_def outcome_simps is_OK_iff dest: ParseRole_Role_String ParseDirection_String)
  moreover have "t_ProviderPID m = pid_column L (r_providerPID tr)" "t_ConsumerPID m = pid_column L (r_consumerPID tr)"
      "t_State m = tstate_String (r_state tr)" "t_CallbackURL m = url_String L (r_callback tr)" "t_SelfURL m = url_String L (r_self tr)"
    using assms(2) by (auto simp: r_ToModel_def outcome_simps)
  ultimately show ?thesis
    using assms(1) by (simp add: typed_transfer_def typed_lib_def parse_pid_column is_OK_iff del: tstate_String_simps)
qed

lemma FromODRLAgreement_typed: "typed_lib L \<Longrightarrow> FromODRLAgreement L ag = OK a \<Longrightarrow> typed_agreement L a"
  by (auto simp: typed_lib_def typed_agreement_def FromODRLAgreement_def ToODRLAgreement_def outcome_simps
      uuid_lawsD(2) intro: read_written)

section \<open>Preservation\<close>

lemma typed_clock [simp]: "typed_db L (d\<lparr>clock := k\<rparr>) = typed_db L d"
  by (simp add: typed_db_def)

lemma all_update_where: "list_all T rs \<Longrightarrow> (\<And>r. T r \<Longrightarrow> T (f r)) \<Longrightarrow> list_all T (update_where p f rs)"
  by (auto simp: list_all_iff set_update_where)

lemma all_upsert:
  "upsert_rows rid set_id conflict excluded m (rs, next) = OK (rs', next') \<Longrightarrow> list_all T rs \<Longrightarrow> T m \<Longrightarrow>
     (\<And>i. T (set_id i m)) \<Longrightarrow> (\<And>r. T r \<Longrightarrow> T (excluded m r)) \<Longrightarrow> list_all T rs'"
  by (auto simp: upsert_rows_def Let_def all_update_where split: if_splits)

lemma typed_excluded:
  "typed_contract L m \<Longrightarrow> typed_contract L r \<Longrightarrow> typed_contract L (contract_excluded m r)"
  "typed_transfer L n \<Longrightarrow> typed_transfer L t \<Longrightarrow> typed_transfer L (transfer_excluded n t)"
  by (simp_all add: typed_contract_def contract_excluded_def typed_transfer_def transfer_excluded_def)

lemma upsert_typed:
  "typed_db L d \<Longrightarrow> typed_contract L m \<Longrightarrow> typed_db L (fst (upsert_contract m d))"
  "typed_db L d \<Longrightarrow> typed_transfer L n \<Longrightarrow> typed_db L (fst (upsert_transfer n d))"
  by (auto simp: upsert_contract_def upsert_transfer_def typed_db_def typed_excluded split: outcome.split elim: all_upsert)

text \<open>A backend whose other users keep the rows typed.\<close>

definition typed_backend :: "'a lib_scheme \<Rightarrow> backend \<Rightarrow> bool" where
  "typed_backend L P \<longleftrightarrow> typed_lib L \<and> (\<forall>n d. typed_db L d \<longrightarrow> typed_db L (others P n d))"

lemma lock_typed:
  "typed_db L d \<Longrightarrow> typed_db L (fst (lock_contracts L q d))" "typed_db L d \<Longrightarrow> typed_db L (fst (lock_transfers L t d))"
  by (simp_all add: lock_contracts_def lock_transfers_def lock_rows_def typed_db_def all_update_where)

lemma finish_typed [simp]:
  "typed_db L (fst (finish_contract L P r d)) = typed_db L d" "typed_db L (fst (finish_transfer L P t d)) = typed_db L d"
  using finish_contract_db[of L P r d] finish_transfer_db[of L P t d] by (metis typed_clock)+

lemma lock_loop_typed:
  assumes "typed_backend L P" and "typed_db L d"
  shows "typed_db L (fst (lock_loop P (lock_contracts L q) (finish_contract L P) n d))"
    "typed_db L (fst (lock_loop P (lock_transfers L t) (finish_transfer L P) n d))"
  using assms by (auto intro!: lock_loop_inv[where I = "typed_db L"] simp: lock_typed typed_backend_def)

lemma get_typed:
  assumes "typed_backend L P" and "typed_db L d"
  shows "typed_db L (fst (GetContract L P opts d))" "typed_db L (fst (GetTransfer L P ropts d))"
  using assms lock_loop_typed[OF assms(1)]
  by (auto simp: GetContract_def GetTransfer_def getContractLocked_def getTransferLocked_def exec_def Let_def split: outcome.split)

lemma release_typed:
  "typed_db L d \<Longrightarrow> typed_db L (fst (ReleaseContract L P c d))" "typed_db L d \<Longrightarrow> typed_db L (fst (ReleaseTransfer L P t d))"
  by (auto simp: ReleaseContract_def ReleaseTransfer_def exec_def Let_def typed_db_def intro!: all_update_where split: outcome.split)

lemma put_typed:
  assumes "typed_lib L" and "typed_db L d"
  shows "typed_db L (fst (PutContract L P c d))" "typed_db L (fst (PutTransfer L P t d))" "typed_db L (fst (PutAgreement L P ag d))"
proof -
  show "typed_db L (fst (PutContract L P c d))"
    using assms
    by (auto simp: PutContract_def exec_def Let_def intro!: release_typed(1) upsert_typed(1) intro: n_ToModel_typed split: outcome.split)
  show "typed_db L (fst (PutTransfer L P t d))"
    using assms
    by (auto simp: PutTransfer_def exec_def Let_def intro!: release_typed(2) upsert_typed(2) intro: r_ToModel_typed split: outcome.split)
  show "typed_db L (fst (PutAgreement L P ag d))"
    using assms FromODRLAgreement_typed[OF assms(1)]
    by (auto simp: PutAgreement_def exec_def Let_def typed_db_def split: outcome.split)
qed

section \<open>Everything that holds of the database through its operations\<close>

text \<open>
  The handlers, the control service and the reconciler reach the database only through the savers,
  so what these keep the program keeps.
\<close>

locale kept_by_savers =
  fixes L :: "'a lib_scheme" and P :: backend and I :: "db \<Rightarrow> bool"
  assumes contract_get: "I d \<Longrightarrow> I (fst (GetContract L P opts d))"
    and transfer_get: "I d \<Longrightarrow> I (fst (GetTransfer L P ropts d))"
    and agreement_get: "I d \<Longrightarrow> I (fst (GetAgreement L P i d))"
    and contract_put: "I d \<Longrightarrow> I (fst (PutContract L P c d))"
    and transfer_put: "I d \<Longrightarrow> I (fst (PutTransfer L P t d))"
    and agreement_put: "I d \<Longrightarrow> I (fst (PutAgreement L P ag d))"
    and contract_release: "I d \<Longrightarrow> I (fst (ReleaseContract L P c d))"
    and transfer_release: "I d \<Longrightarrow> I (fst (ReleaseTransfer L P t d))"
begin

lemmas kept = contract_get transfer_get agreement_get contract_put transfer_put agreement_put contract_release transfer_release

lemma kept_eqs:
  "GetContract L P opts d = (d', o1) \<Longrightarrow> I d \<Longrightarrow> I d'" "GetTransfer L P ropts d = (d', o2) \<Longrightarrow> I d \<Longrightarrow> I d'"
  "PutContract L P c d = (d', o3) \<Longrightarrow> I d \<Longrightarrow> I d'" "PutTransfer L P t d = (d', o3) \<Longrightarrow> I d \<Longrightarrow> I d'"
  "PutAgreement L P ag d = (d', o3) \<Longrightarrow> I d \<Longrightarrow> I d'" "ReleaseContract L P c d = (d', o3) \<Longrightarrow> I d \<Longrightarrow> I d'"
  "GetAgreement L P i d = (d', o4) \<Longrightarrow> I d \<Longrightarrow> I d'"
  by (metis kept fst_conv)+

lemma released: "I d \<Longrightarrow> I (release_deferred L P c d)"
  by (simp add: release_deferred_def kept)

lemma stored: "storeNegotiation L P c d = (d', r) \<Longrightarrow> I d \<Longrightarrow> I d'"
  by (auto simp: storeNegotiation_def dest: kept_eqs split: prod.splits outcome.splits option.splits if_splits)

lemma message_kept:
  assumes "sv_backend sv = P" and "I (s_db s)"
  shows "I (s_db (fst (processMessage L sv ctx fv rl pid msg s)))"
  using assms(2)
  by (auto simp: processMessage_def assms(1) Let_def store_db_def split: outcome.split prod.split sum.split option.split
      dest: kept_eqs(1) stored intro: released)

lemma transfer_message_kept:
  assumes "sv_backend sv = P" and "I (s_db s)"
  shows "I (s_db (fst (processTransferMessage L sv ctx fresh rl pid auto msg s)))"
  using assms(2)
  by (auto simp: processTransferMessage_def storeRequest_def assms(1) Let_def split: outcome.splits prod.splits sum.splits
      option.splits dest: kept_eqs(2,4))

lemma set_or_release_kept: "I d \<Longrightarrow> I (fst rel) \<Longrightarrow> I (fst (set_or_release r rel d))"
  by (auto simp: set_or_release_def split: outcome.split prod.split)

lemma updater_kept: "I d \<Longrightarrow> I (fst (getStateUpdater L P e st d))"
  by (auto simp: getStateUpdater_def newNegotiationUpdater_def newRequestUpdater_def fst_seq_m kept set_or_release_kept
      split: reconciliation_type.split outcome.split)

lemma commit_kept: "I d \<Longrightarrow> I (fst (updater_Commit L P u d))" "I d \<Longrightarrow> I (fst (updater_Rollback L P u d))"
  by (cases u; simp add: kept)+

lemma terminate_kept: "I d \<Longrightarrow> I (fst (terminate_loop L P e n d))"
proof (induction n arbitrary: d)
  case (Suc n)
  have "I (fst (terminateAttempt L P e d))"
    using Suc.prems by (auto simp: terminateAttempt_def fst_seq_m updater_kept commit_kept split: prod.split outcome.split)
      (metis commit_kept updater_kept fst_conv)+
  then show ?case using Suc.IH by (auto split: prod.split outcome.split) 
qed simp

lemma handled_kept: "I (rc_db s) \<Longrightarrow> I (rc_db (fst (handleError L P now rand op er s)))"
  using terminate_kept[of "rc_db s" "op_Entry op" 10]
  by (auto simp: handleError_def terminate_def Let_def split: prod.split)

lemma rolled_back_kept: "I (rc_db (fst r)) \<Longrightarrow> I (rc_db (fst (rollback_deferred L P u r)))"
  by (auto simp: rollback_deferred_def commit_kept split: prod.split)

lemma attempt_kept: "I (rc_db s) \<Longrightarrow> I (rc_db (fst (reconcileEntry L P answer now rand op s)))"
  using updater_kept[of "rc_db s" "op_Entry op" "TargetState (op_Entry op)"] commit_kept(1)
  by (auto simp: reconcileEntry_def Let_def split: prod.split outcome.split intro!: rolled_back_kept handled_kept)
    (metis commit_kept(1) fst_conv)+

lemma attempt_tick_kept: "I (rc_db s) \<Longrightarrow> I (rc_db (fst (manager_tick L P answer now rand s)))"
  by (auto simp: manager_tick_def attempt_kept split: list.split)

text \<open>The handlers.\<close>

lemma progress_kept:
  assumes "sv_backend sv = P" and "I (s_db s)"
  shows "I (s_db (fst (progressContractState L sv ctx fv rl raw decoded s)))"
  using assms message_kept by (auto simp: progressContractState_def split: option.split outcome.split)

lemma termination_kept:
  assumes "sv_backend sv = P" and "I (s_db s)"
  shows "I (s_db (fst (contractTerminationHandler L sv ctx fv raw body s)))"
  using assms(2)
  by (auto simp: contractTerminationHandler_def assms(1) store_db_def Let_def split: option.split outcome.split prod.split
      dest: kept_eqs(1) intro!: progress_kept[OF assms(1)])

lemma request_kept:
  assumes "sv_backend sv = P" and "I (s_db s)"
  shows "I (s_db (fst (providerContractRequestHandler L sv ctx fv body s)))"
    "I (s_db (fst (consumerContractOfferHandler L sv ctx fv offer s)))"
  using assms(2)
  by (auto simp: providerContractRequestHandler_def consumerContractOfferHandler_def assms(1) store_db_def
      split: option.split outcome.split prod.split dest: stored intro!: message_kept[OF assms(1)])

lemma transfer_progress_kept:
  assumes "sv_backend sv = P" and "I (s_db s)"
  shows "I (s_db (fst (progressTransferState L sv ctx fresh rl raw auto decoded s)))"
  using assms transfer_message_kept by (auto simp: progressTransferState_def split: option.split outcome.split)

lemma transfer_request_kept:
  assumes "sv_backend sv = P" and "I (s_db s)"
  shows "I (s_db (fst (providerTransferRequestHandler L sv ctx trace pid fresh body s)))"
  using assms(2)
  by (auto simp: providerTransferRequestHandler_def storeRequest_def assms(1) split: option.splits outcome.splits prod.splits
      dest: kept_eqs(4,7) intro!: transfer_message_kept[OF assms(1)])

text \<open>The control service.\<close>

lemma store_and_apply_kept:
  assumes "ct_backend sv = P" and "I d"
  shows "I (s_db (fst (store_and_apply L sv cn af d s)))"
  using assms(2)
  by (auto simp: store_and_apply_def assms(1) Let_def store_db_def split: outcome.splits prod.splits option.splits dest: kept_eqs(3,5))

lemma control_kept:
  assumes "ct_backend sv = P" and "I (s_db s)"
  shows "I (s_db (fst (sendContractMessage L sv ctx fresh now froms raw rl initial auto s)))"
    "I (s_db (fst (start_negotiation L sv trace ppid cpid rl req s)))"
  using assms(2)
  by (auto simp: sendContractMessage_def start_negotiation_def assms(1) Let_def store_db_def
      split: option.split outcome.split prod.split grpc_result.split dest: kept_eqs(1,3,6)
      intro!: store_and_apply_kept[OF assms(1)])

lemma found_kept: "I d \<Longrightarrow> I (fst (find_by_roles L P pid rls d))"
proof (induction rls arbitrary: d)
  case (Cons rl rls)
  have "I (fst (GetContract L P [opt] d))" for opt using kept(1) Cons.prems .
  then show ?case
    using Cons by (auto simp: fst_seq_m split: outcome.split prod.split) (metis fst_conv)+
qed simp

lemma terminate_call_kept:
  assumes "ct_backend sv = P" and "I (s_db s)"
  shows "I (s_db (fst (ContractTerminate L sv ctx raw code reasons s)))"
proof (cases "uuid_Parse L raw")
  case (Some pid)
  obtain d1 r where f: "find_by_roles L P pid [DataspaceConsumer, DataspaceProvider] (s_db s) = (d1, r)" by force
  then have "I d1" using found_kept[OF assms(2)] by (metis fst_conv)
  then show ?thesis
    using Some by (auto simp: ContractTerminate_def assms(1) f store_db_def simp del: find_by_roles.simps
        split: outcome.split prod.split)
qed (use assms in \<open>simp add: ContractTerminate_def\<close>)

end

text \<open>Types are kept by the savers: the hypotheses on the library and the other users are part of what is kept.\<close>

interpretation ty: kept_by_savers L P "\<lambda>d. typed_backend L P \<longrightarrow> typed_db L d" for L P
  by unfold_locales
    (auto simp: get_typed release_typed put_typed typed_backend_def GetAgreement_def exec_def Let_def split: option.split)

section \<open>Progress\<close>

lemma typed_contract_reads:
  "typed_contract L r \<Longrightarrow> is_OK (opt_read (ToODRLAgreement L) (c_Agreement r)) \<Longrightarrow> \<exists>n. n_FromModel L r ro = OK n"
  by (auto simp: typed_contract_def n_FromModel_def is_OK_iff split: if_splits)

lemma typed_transfer_reads:
  "typed_transfer L r \<Longrightarrow> uuid_Parse L (a_ID (t_Agreement r)) \<noteq> None \<Longrightarrow> \<exists>t. r_FromModel L r ro = OK t"
  by (auto simp: typed_transfer_def r_FromModel_def is_OK_iff)

lemma found_agreement: "typed_db L d \<Longrightarrow> find_agreement d i = Some a \<Longrightarrow> typed_agreement L a"
  by (auto simp: typed_db_def find_agreement_def list_all_iff find_Some_iff)

lemma joined_reads:
  assumes "typed_db L d" and "\<forall>i. c_AgreementID r = Some i \<longrightarrow> find_agreement d i \<noteq> None"
  shows "is_OK (opt_read (ToODRLAgreement L) (c_Agreement (join_agreement d r)))"
proof (cases "c_AgreementID r")
  case (Some i)
  then obtain a where a: "find_agreement d i = Some a" using assms(2) by auto
  then obtain ag where "ToODRLAgreement L a = OK ag"
    using found_agreement[OF assms(1) a] by (auto simp: typed_agreement_def is_OK_iff)
  then show ?thesis using a Some by (simp add: join_agreement_def opt_read_def)
qed (simp add: join_agreement_def opt_read_def)

lemma taken_reads:
  assumes "typed_db L d" and "wf_db d" and "reliable P" and "WithRolePID pid rl = OK opt"
    and "filter (contract_where L (newNegotiationParamBuilder [WithRW, opt]) None) (contracts d) = [r]" and "\<not> c_Locked r"
    and "\<forall>i. c_AgreementID r = Some i \<longrightarrow> find_agreement d i \<noteq> None"
  shows "\<exists>d1 cn. GetContract L (quiet P) [WithRW, opt] d = (d1, OK cn)"
proof -
  let ?r = "r\<lparr>c_Locked := True\<rparr>" and ?d = "lock_contract_row r (Suc (Suc (clock d))) d"
  have "r \<in> set (contracts d)" using filter_eq_singleton_mem[OF assms(5)] by simp
  then have "typed_contract L (join_agreement d ?r)"
    using assms(1) by (simp add: typed_db_def list_all_iff join_agreement_def typed_contract_def)
  moreover have "is_OK (opt_read (ToODRLAgreement L) (c_Agreement (join_agreement d ?r)))"
    by (rule joined_reads) (use assms(1,7) in simp_all)
  ultimately obtain cn where "n_FromModel L (join_agreement d ?r) False = OK cn" using typed_contract_reads by blast
  then show ?thesis
    using assms(7) by (auto simp: rolePID_RW[OF assms(4)] getContractLocked_reliable[OF assms(3,2,5,6)]
        finish_contract_reliable[OF assms(3)] split: option.split)
qed

section \<open>Properties\<close>

text \<open>C18: the columns of stored rows stay well-typed: if every row can be read as the value it stands for, then
  after any handler, any contract method of the control service or any attempt of the reconciler,
  with whatever the peer, the services and the other users of a well-behaved backend do, every row
  can still be read.\<close>

theorem rows_stay_typed:
  assumes "typed_backend L P" and "sv_backend sv = P" and "ct_backend ct = P"
    and "typed_db L (s_db s)" and "typed_db L (s_db t)" and "typed_db L (rc_db rc)"
  shows "typed_db L (s_db (fst (progressContractState L sv ctx fv rl raw decoded s)))
    \<and> typed_db L (s_db (fst (providerContractRequestHandler L sv ctx fv req s)))
    \<and> typed_db L (s_db (fst (consumerContractOfferHandler L sv ctx fv offer s)))
    \<and> typed_db L (s_db (fst (contractTerminationHandler L sv ctx fv raw term s)))
    \<and> typed_db L (s_db (fst (providerTransferRequestHandler L sv ctx trace pid fresh treq t)))
    \<and> typed_db L (s_db (fst (progressTransferState L sv ctx fresh rl raw auto decoded t)))
    \<and> typed_db L (s_db (fst (sendContractMessage L ct ctx fresh now froms raw rl initial auto s)))
    \<and> typed_db L (s_db (fst (start_negotiation L ct trace ppid cpid rl creq s)))
    \<and> typed_db L (s_db (fst (ContractTerminate L ct ctx raw code reasons s)))
    \<and> typed_db L (rc_db (fst (reconcileEntry L P answer now rand op rc)))"
  using assms(1,4-6) ty.progress_kept[of sv P L s] ty.request_kept[of sv P L s] ty.termination_kept[of sv P L s]
    ty.transfer_request_kept[of sv P L t] ty.transfer_progress_kept[of sv P L t] ty.control_kept[of ct P L s]
    ty.terminate_call_kept[of ct P L s] ty.attempt_kept[of L P rc] assms(2,3)
  by simp

text \<open>In a well-typed database a free negotiation can be taken: if exactly one row has the PID and is
  not locked, and its agreement, if it names one, is stored, reading it for writing succeeds; it can
  not fail on the contents of the row.\<close>

theorem typed_row_is_taken:
  assumes "typed_db L d" and "wf_db d" and "reliable P" and "WithRolePID pid rl = OK opt"
    and "filter (\<lambda>r. (if rl = DataspaceConsumer then c_ConsumerPID r else c_ProviderPID r) = Some (uuid_URN L pid)) (contracts d) = [r]"
    and "\<not> c_Locked r" and "\<forall>i. c_AgreementID r = Some i \<longrightarrow> find_agreement d i \<noteq> None"
  shows "\<exists>d1 cn. GetContract L (quiet P) [WithRW, opt] d = (d1, OK cn) \<and> n_internal_id cn = c_ID r
    \<and> contract_ParseState (ArgString (c_State r)) = OK (n_state cn)"
proof -
  have one: "filter (contract_where L (newNegotiationParamBuilder [WithRW, opt]) None) (contracts d) = [r]"
    using assms(5) by (simp only: rolePID_builder[OF assms(4), abs_def])
  obtain d1 cn where cn: "GetContract L (quiet P) [WithRW, opt] d = (d1, OK cn)"
    using taken_reads[OF assms(1-4) one assms(6,7)] by blast
  then show ?thesis using GetContract_row[OF cn assms(2,4)] one by auto
qed

section \<open>Examples\<close>

lemma sample_typed_lib: "typed_lib sample_lib"
  by (simp add: typed_lib_def reads_what_it_writes_def)

lemma sample_typed_backend: "typed_backend sample_lib (quiet New_backend)"
  by (simp add: typed_backend_def sample_typed_lib)

lemma sample_typed_db: "typed_db sample_lib sample_db"
proof -
  have "typed_db sample_lib (fst (PutContract sample_lib (quiet New_backend) sample_new empty_db))"
    by (rule put_typed(1)[OF sample_typed_lib]) (simp add: typed_db_def empty_db_def)
  then show ?thesis by (simp add: sample_put)
qed

definition idle_sys :: tsys where
  "idle_sys = \<lparr>s_db = sample_db, s_effects = no_effects, s_provider = []\<rparr>"

lemma rows_stay_typed_witness:
  "typed_db sample_lib (s_db (fst (progressContractState sample_lib sample_server sample_ctx sample_fresh DataspaceProvider
      ''2'' (OK sample_counter_offer) agreed_sys)))
   \<and> typed_db sample_lib (rc_db (fst (reconcileEntry sample_lib (quiet New_backend) (ERR refused) 1 0 (sample_op 1) sample_reconciler)))"
proof -
  have ct: "ct_backend sample_control = quiet New_backend" by simp
  have "typed_db sample_lib (s_db agreed_sys)"
    using sample_typed_db ParseState_String(1)[of C_AGREED]
    by (simp add: agreed_sys_def agreed_row_def sample_db_def typed_db_def typed_contract_def is_OK_iff)
  from rows_stay_typed[OF sample_typed_backend sample_server_backend ct this, of idle_sys sample_reconciler] show ?thesis
    using sample_typed_db by (simp add: idle_sys_def)
qed

lemma typed_row_is_taken_witness:
  "\<exists>d1 cn. GetContract sample_lib (quiet New_backend) [WithRW, WithProviderPID 2] sample_db = (d1, OK cn) \<and> n_internal_id cn = c_ID sample_row"
proof -
  have row: "contracts sample_db = [sample_row]" "c_ProviderPID sample_row = Some (uuid_URN sample_lib 2)" "\<not> c_Locked sample_row"
      "c_AgreementID sample_row = None"
    by (simp_all add: sample_db_def sample_row_def)
  show ?thesis
    using typed_row_is_taken[OF sample_typed_db sample_db_wf New_backend_reliable, of 2 DataspaceProvider "WithProviderPID 2" sample_row]
    by (auto simp: row)
qed

end
