(* ===== verification/Migrations.thy ===== *)
theory Migrations
  imports Store
begin

text \<open>
  The schema of the store: the tables as \<open>dsp/persistence/backends/sqlite/models/models.go\<close> tags
  them, the initial migration of \<open>migrations/20260128162801_init_db.go\<close> that creates them, and
  \<open>Migrate\<close> of \<open>provider.go\<close> around it. How bun names a column after a field is a parameter, and so
  is its migrator. A statement may fail, as in \<open>Store\<close>.
\<close>

section \<open>Models\<close>

text \<open>A field of a model: its name, the column name where a tag gives one, and the tags of the column.\<close>

datatype column_tag = PK | NotNull | Unique

record column =
  col_field :: string
  col_name :: "string option"
  col_tags :: "column_tag list"

definition col :: "string \<Rightarrow> column_tag list \<Rightarrow> column" where
  "col f tags = \<lparr>col_field = f, col_name = None, col_tags = tags\<rparr>"

definition Agreement_columns :: "column list" where
  "Agreement_columns = [col ''ID'' [PK, NotNull, Unique], col ''ODRL'' [NotNull], col ''Created'' [NotNull]]"

definition ContractNegotiation_columns :: "column list" where
  "ContractNegotiation_columns =
     [col ''ID'' [PK], col ''ProviderPID'' [Unique], col ''ConsumerPID'' [Unique],
      \<lparr>col_field = ''AgreementID'', col_name = Some ''agreement_id'', col_tags = [Unique]\<rparr>,
      col ''Offer'' [NotNull], col ''State'' [NotNull], col ''CallbackURL'' [NotNull], col ''SelfURL'' [NotNull],
      col ''Role'' [NotNull], col ''AutoAccept'' [NotNull], col ''RequesterInfo'' [], col ''TraceInfo'' [],
      col ''Locked'' [NotNull], col ''Created'' [NotNull], col ''Modified'' [NotNull]]"

definition TransferRequest_columns :: "column list" where
  "TransferRequest_columns =
     [col ''ID'' [PK], col ''ProviderPID'' [Unique], col ''ConsumerPID'' [Unique],
      \<lparr>col_field = ''AgreementID'', col_name = Some ''agreement_id'', col_tags = [NotNull]\<rparr>,
      col ''Target'' [NotNull], col ''Format'' [NotNull], col ''PublishInfo'' [], col ''Direction'' [],
      col ''State'' [NotNull], col ''CallbackURL'' [NotNull], col ''SelfURL'' [NotNull], col ''Role'' [NotNull],
      col ''RequesterInfo'' [], col ''TraceInfo'' [NotNull], col ''Locked'' [NotNull], col ''Created'' [NotNull],
      col ''Modified'' [NotNull]]"

text \<open>The name of a column: the tag's, or what bun makes of the field.\<close>

definition column_name :: "(string \<Rightarrow> string) \<Rightarrow> column \<Rightarrow> string" where
  "column_name naming c = (case col_name c of Some n \<Rightarrow> n | None \<Rightarrow> naming (col_field c))"

text \<open>bun documents that a column is the field's name in snake case.\<close>

definition snake_case :: "(string \<Rightarrow> string) \<Rightarrow> bool" where
  "snake_case naming \<longleftrightarrow> naming ''ProviderPID'' = ''provider_pid'' \<and> naming ''ConsumerPID'' = ''consumer_pid''
     \<and> naming ''CallbackURL'' = ''callback_url'' \<and> naming ''Role'' = ''role'' \<and> naming ''State'' = ''state''"

section \<open>Statements\<close>

record index =
  ix_table :: string
  ix_name :: string
  ix_column :: string

record schema =
  sc_tables :: "(string \<times> string list) list"
  sc_indexes :: "index list"

definition no_schema :: schema where
  "no_schema = \<lparr>sc_tables = [], sc_indexes = []\<rparr>"

definition create_table :: "(string \<Rightarrow> string) \<Rightarrow> string \<Rightarrow> column list \<Rightarrow> schema \<Rightarrow> schema \<times> unit outcome" where
  "create_table naming name columns s =
     (if name \<in> fst ` set (sc_tables s) then (s, OK ())
      else (s\<lparr>sc_tables := sc_tables s @ [(name, map (column_name naming) columns)]\<rparr>, OK ()))"

definition has_column :: "schema \<Rightarrow> string \<Rightarrow> string \<Rightarrow> bool" where
  "has_column s table column \<longleftrightarrow> (case map_of (sc_tables s) table of None \<Rightarrow> False | Some cs \<Rightarrow> column \<in> set cs)"

definition create_index :: "index \<Rightarrow> schema \<Rightarrow> schema \<times> unit outcome" where
  "create_index ix s =
     (if ix_name ix \<in> ix_name ` set (sc_indexes s) then (s, ERR (Errorf (''index '' @ ix_name ix @ '' already exists'') []))
      else if \<not> has_column s (ix_table ix) (ix_column ix) then (s, ERR (Errorf ''no such column'' []))
      else (s\<lparr>sc_indexes := sc_indexes s @ [ix]\<rparr>, OK ()))"

text \<open>Statements in a row, each of which the database may refuse; the first error is returned.\<close>

fun run_all :: "(nat \<Rightarrow> bool) \<Rightarrow> nat \<Rightarrow> (schema \<Rightarrow> schema \<times> unit outcome) list \<Rightarrow> schema \<Rightarrow> schema \<times> unit outcome" where
  "run_all fails n [] s = (s, OK ())"
| "run_all fails n (stmt # stmts) s =
     (if fails n then (s, ERR driver_error)
      else (case stmt s of (s1, OK x) \<Rightarrow> run_all fails (Suc n) stmts s1 | (s1, r) \<Rightarrow> (s1, r)))"

section \<open>The initial migration\<close>

definition init_indexes :: "index list" where
  "init_indexes =
     (let cn = (\<lambda>name column. \<lparr>ix_table = ''contract_negotiations'', ix_name = name, ix_column = column\<rparr>);
          tr = (\<lambda>name column. \<lparr>ix_table = ''transfer_requests'', ix_name = name, ix_column = column\<rparr>)
      in [cn ''idx_cn_provider_pid'' ''provider_pid'', cn ''idx_cn_consumer_pid'' ''consumer_pid'',
          cn ''idx_cn_agreement_id'' ''agreement_id'', cn ''idx_cn_callback_url'' ''callback_url'',
          cn ''idx_cn_role'' ''role'', cn ''idx_cn_state'' ''state'',
          tr ''idx_tr_provider_pid'' ''provider_pid'', tr ''idx_tr_consumer_pid'' ''consumer_pid'',
          tr ''idx_tr_agreement_id'' ''agreement_id'', tr ''idx_tr_callback_url'' ''callback_url'',
          tr ''idx_tr_role'' ''role'', tr ''idx_tr_state'' ''state''])"

definition init_tables :: "(string \<times> column list) list" where
  "init_tables = [(''agreements'', Agreement_columns), (''contract_negotiations'', ContractNegotiation_columns),
     (''transfer_requests'', TransferRequest_columns)]"

definition init_up :: "(string \<Rightarrow> string) \<Rightarrow> (nat \<Rightarrow> bool) \<Rightarrow> schema \<Rightarrow> schema \<times> unit outcome" where
  "init_up naming fails s =
     run_all fails 0 (map (\<lambda>(name, columns). create_table naming name columns) init_tables @ map create_index init_indexes) s"

text \<open>The tables are not removed.\<close>

definition init_down :: "schema \<Rightarrow> schema \<times> unit outcome" where
  "init_down s = (s, OK ())"

section \<open>Running migrations\<close>

text \<open>The migrator of bun: its own tables, its lock, and the migrations it has not yet applied; the
  result of a run says whether there were any.\<close>

record 'm migrator =
  mg_Init :: "'m \<Rightarrow> 'm \<times> unit outcome"
  mg_Lock :: "'m \<Rightarrow> 'm \<times> unit outcome"
  mg_Unlock :: "'m \<Rightarrow> 'm \<times> unit outcome"
  mg_Migrate :: "'m \<Rightarrow> 'm \<times> bool outcome"

text \<open>The unlock is deferred from the moment the lock is held.\<close>

definition Migrate :: "('m, 'z) migrator_scheme \<Rightarrow> 'm \<Rightarrow> 'm \<times> unit outcome" where
  "Migrate M s =
     (case mg_Init M s of
        (s1, ERR e) \<Rightarrow> (s1, ERR e)
      | (s1, PANIC p) \<Rightarrow> (s1, PANIC p)
      | (s1, OK _) \<Rightarrow>
     (case mg_Lock M s1 of
        (s2, ERR e) \<Rightarrow> (s2, ERR e)
      | (s2, PANIC p) \<Rightarrow> (s2, PANIC p)
      | (s2, OK _) \<Rightarrow>
     (case mg_Migrate M s2 of (s3, r) \<Rightarrow>
     (case mg_Unlock M s3 of
        (s4, ERR e) \<Rightarrow> (s4, PANIC (''Could not unlock migrator and database: '' @ err_msg e))
      | (s4, PANIC p) \<Rightarrow> (s4, PANIC p)
      | (s4, OK _) \<Rightarrow> (s4, case r of OK _ \<Rightarrow> OK () | ERR e \<Rightarrow> ERR e | PANIC p \<Rightarrow> PANIC p)))))"

section \<open>Facts\<close>

lemma run_all_append:
  "run_all fails n (xs @ ys) s =
     (case run_all fails n xs s of (s1, OK x) \<Rightarrow> run_all fails (n + length xs) ys s1 | r \<Rightarrow> r)"
  by (induction fails n xs s rule: run_all.induct) (auto split: prod.split outcome.split)

lemma indexes_made:
  "run_all fails n (map create_index ixs) s = (s', r) \<Longrightarrow> \<exists>k. sc_indexes s' = sc_indexes s @ take k ixs \<and> sc_tables s' = sc_tables s"
proof (induction ixs arbitrary: n s)
  case (Cons ix ixs)
  show ?case
  proof (cases "fails n \<or> snd (create_index ix s) \<noteq> OK ()")
    case True
    then have "s' = s" using Cons.prems by (auto simp: create_index_def split: if_splits)
    then show ?thesis by (intro exI[of _ 0]) simp
  next
    case False
    then have "create_index ix s = (s\<lparr>sc_indexes := sc_indexes s @ [ix]\<rparr>, OK ())"
      by (auto simp: create_index_def split: if_splits)
    then obtain k where "sc_indexes s' = (sc_indexes s @ [ix]) @ take k ixs" "sc_tables s' = sc_tables s"
      using Cons.IH[of "Suc n" "s\<lparr>sc_indexes := sc_indexes s @ [ix]\<rparr>"] Cons.prems False by auto
    then show ?thesis by (intro exI[of _ "Suc k"]) simp
  qed
qed (auto intro: exI[of _ 0])

definition table_stmts :: "(string \<Rightarrow> string) \<Rightarrow> (schema \<Rightarrow> schema \<times> unit outcome) list" where
  "table_stmts naming = map (\<lambda>(name, columns). create_table naming name columns) init_tables"

definition first_tables :: "(string \<Rightarrow> string) \<Rightarrow> nat \<Rightarrow> schema" where
  "first_tables naming k = \<lparr>sc_tables = map (\<lambda>(name, columns). (name, map (column_name naming) columns)) (take k init_tables),
     sc_indexes = []\<rparr>"

lemma first_tables_simps:
  "first_tables naming 0 = no_schema"
  "create_table naming ''agreements'' Agreement_columns no_schema = (first_tables naming 1, OK ())"
  "0 < k \<Longrightarrow> create_table naming ''agreements'' Agreement_columns (first_tables naming k) = (first_tables naming k, OK ())"
  "create_table naming ''contract_negotiations'' ContractNegotiation_columns (first_tables naming 1) = (first_tables naming 2, OK ())"
  "1 < k \<Longrightarrow> create_table naming ''contract_negotiations'' ContractNegotiation_columns (first_tables naming k) = (first_tables naming k, OK ())"
  "create_table naming ''transfer_requests'' TransferRequest_columns (first_tables naming 2) = (first_tables naming 3, OK ())"
  "create_table naming ''transfer_requests'' TransferRequest_columns (first_tables naming 3) = (first_tables naming 3, OK ())"
  by (auto simp: first_tables_def no_schema_def create_table_def init_tables_def take_Cons' eval_nat_numeral split: nat.split)

lemma tables_made:
  "run_all fails 0 (table_stmts naming) no_schema =
     (if fails 0 then (first_tables naming 0, ERR driver_error)
      else if fails 1 then (first_tables naming 1, ERR driver_error)
      else if fails 2 then (first_tables naming 2, ERR driver_error)
      else (first_tables naming 3, OK ()))"
  by (simp add: table_stmts_def init_tables_def first_tables_simps[simplified] numeral_2_eq_2[symmetric])

lemma tables_without_fault:
  assumes "k \<le> 3"
  shows "run_all (\<lambda>_. False) n (table_stmts naming) (first_tables naming k) = (first_tables naming 3, OK ())"
proof -
  have "k = 0 \<or> k = 1 \<or> k = 2 \<or> k = 3" using assms by auto
  then show ?thesis
    by (elim disjE) (simp_all add: table_stmts_def init_tables_def first_tables_simps[simplified])
qed

lemma init_up_parts:
  "init_up naming fails s = (case run_all fails 0 (table_stmts naming) s of
     (s1, OK x) \<Rightarrow> run_all fails 3 (map create_index init_indexes) s1 | r \<Rightarrow> r)"
proof -
  have "length (table_stmts naming) = 3" by (simp add: table_stmts_def init_tables_def)
  then show ?thesis by (simp add: init_up_def run_all_append table_stmts_def[symmetric] split: prod.split outcome.split)
qed

lemma all_indexes:
  assumes "snake_case naming"
  shows "run_all (\<lambda>_. False) n (map create_index init_indexes) (first_tables naming 3) =
    ((first_tables naming 3)\<lparr>sc_indexes := init_indexes\<rparr>, OK ())"
  using assms
  by (simp add: init_indexes_def create_index_def has_column_def first_tables_def init_tables_def Let_def eval_nat_numeral
      ContractNegotiation_columns_def TransferRequest_columns_def Agreement_columns_def col_def column_name_def snake_case_def)

definition full_schema :: "(string \<Rightarrow> string) \<Rightarrow> schema" where
  "full_schema naming = (first_tables naming 3)\<lparr>sc_indexes := init_indexes\<rparr>"

lemma goes_on:
  assumes "snake_case naming" and "k \<le> 3"
  shows "init_up naming (\<lambda>_. False) (first_tables naming k) = (full_schema naming, OK ())"
  by (simp add: init_up_parts tables_without_fault[OF assms(2)] all_indexes[OF assms(1)] full_schema_def)

text \<open>With the first index there, no later run gets past it.\<close>

lemma first_index_blocks:
  assumes "sc_indexes s = take k init_indexes" and "k \<noteq> 0" and "sc_tables s = sc_tables (first_tables naming 3)"
  shows "snd (init_up naming fails s) \<noteq> OK ()"
proof -
  obtain ix ixs where ix: "init_indexes = ix # ixs" by (simp add: init_indexes_def Let_def)
  have there: "ix_name ix \<in> ix_name ` set (sc_indexes s)" unfolding assms(1) ix using assms(2) by (cases k) auto
  have skip: "create_table naming n cs s = (s, OK ())" if "(n, cs) \<in> set init_tables" for n cs
    using that assms(3) by (auto simp: create_table_def first_tables_def init_tables_def)
  then have "fst (run_all fails 0 (table_stmts naming) s) = s"
    by (auto simp: table_stmts_def init_tables_def)
  then show ?thesis
    using there by (cases "run_all fails 0 (table_stmts naming) s"; cases "snd (run_all fails 0 (table_stmts naming) s)")
      (auto simp: init_up_parts ix create_index_def)
qed

section \<open>Properties\<close>

text \<open>On an empty database the initial migration makes the three tables with the columns of the models,
  and an index for every column by which negotiations and transfers are looked up but the direction.\<close>

theorem initial_schema:
  assumes "snake_case naming"
  shows "\<exists>s. init_up naming (\<lambda>_. False) no_schema = (s, OK ())
    \<and> map_of (sc_tables s) ''contract_negotiations'' = Some (map (column_name naming) ContractNegotiation_columns)
    \<and> map_of (sc_tables s) ''transfer_requests'' = Some (map (column_name naming) TransferRequest_columns)
    \<and> map_of (sc_tables s) ''agreements'' = Some (map (column_name naming) Agreement_columns)
    \<and> (\<forall>f \<in> {''ProviderPID'', ''ConsumerPID'', ''CallbackURL'', ''Role'', ''State''}.
          \<forall>t \<in> {''contract_negotiations'', ''transfer_requests''}.
            \<exists>ix \<in> set (sc_indexes s). ix_table ix = t \<and> ix_column ix = naming f)"
proof -
  have "init_up naming (\<lambda>_. False) no_schema = (full_schema naming, OK ())"
    using goes_on[OF assms, of 0] by (simp add: first_tables_simps)
  then show ?thesis
    using assms by (simp add: full_schema_def first_tables_def init_tables_def init_indexes_def Let_def snake_case_def)
qed

text \<open>C40: an initial migration that was interrupted can be run again to its end exactly if it had made no
  index yet: the tables are made \<open>IF NOT EXISTS\<close>, the indexes are not, so after the first one every
  further run fails on it.\<close>

theorem interrupted_migration_resumes_iff:
  assumes "snake_case naming" and "init_up naming fails no_schema = (s, ERR e)"
  shows "(\<exists>fails'. snd (init_up naming fails' s) = OK ()) \<longleftrightarrow> sc_indexes s = []"
proof (cases "fails 0 \<or> fails 1 \<or> fails 2")
  case True
  then obtain k where "s = first_tables naming k" "k \<le> 3"
    using assms(2) by (auto simp: init_up_parts tables_made split: if_splits)
  then have "sc_indexes s = []" "snd (init_up naming (\<lambda>_. False) s) = OK ()"
    using goes_on[OF assms(1)] by (simp_all add: first_tables_def)
  then show ?thesis by blast
next
  case False
  then have "run_all fails 3 (map create_index init_indexes) (first_tables naming 3) = (s, ERR e)"
    using assms(2) by (simp add: init_up_parts tables_made)
  from indexes_made[OF this] obtain k where k: "sc_indexes s = take k init_indexes" "sc_tables s = sc_tables (first_tables naming 3)"
    by (auto simp: first_tables_def)
  show ?thesis
  proof (cases "k = 0")
    case True
    then have "s = first_tables naming 3" using k by (simp add: first_tables_def)
    then have "sc_indexes s = []" "snd (init_up naming (\<lambda>_. False) s) = OK ()"
      using goes_on[OF assms(1), of 3] by (simp_all add: first_tables_def)
    then show ?thesis by blast
  next
    case False
    moreover have "sc_indexes s \<noteq> []" using k(1) False by (auto simp: init_indexes_def Let_def)
    ultimately show ?thesis using first_index_blocks[OF k(1) _ k(2)] by auto
  qed
qed

text \<open>Whatever the migrations do, the lock of the migrator is given back.\<close>

lemma Migrate_unlocks:
  assumes "\<And>s s'. mg_Lock M s = (s', OK ()) \<Longrightarrow> held s'" and "\<And>s. \<not> held s \<Longrightarrow> \<not> held (fst (mg_Init M s))"
    and "\<And>s s' e. mg_Lock M s = (s', ERR e) \<Longrightarrow> \<not> held s \<Longrightarrow> \<not> held s'" and "\<And>s s'. mg_Unlock M s = (s', OK ()) \<Longrightarrow> \<not> held s'"
    and "\<not> held s" and "Migrate M s = (s', r)" and "\<not> is_PANIC r"
  shows "\<not> held s'"
proof -
  obtain s1 r1 where i: "mg_Init M s = (s1, r1)" "\<not> held s1" using assms(2,5) by (metis surj_pair fst_conv)
  show ?thesis
    using assms(3,4,6,7) i by (auto simp: Migrate_def split: prod.splits outcome.splits)
qed

section \<open>Examples\<close>

definition sample_naming :: "string \<Rightarrow> string" where
  "sample_naming f = (case map_of [(''ProviderPID'', ''provider_pid''), (''ConsumerPID'', ''consumer_pid''),
     (''CallbackURL'', ''callback_url''), (''Role'', ''role''), (''State'', ''state'')] f of Some n \<Rightarrow> n | None \<Rightarrow> f)"

lemma sample_snake_case: "snake_case sample_naming"
  by (simp add: snake_case_def sample_naming_def)

lemma initial_schema_witness: "\<exists>s. init_up sample_naming (\<lambda>_. False) no_schema = (s, OK ())"
  using initial_schema[OF sample_snake_case] by blast

lemma interrupted_migration_resumes_iff_witness:
  "\<exists>s e. init_up sample_naming (\<lambda>n. n = 4) no_schema = (s, ERR e) \<and> (\<forall>fails'. snd (init_up sample_naming fails' s) \<noteq> OK ())"
proof -
  have run: "init_up sample_naming (\<lambda>n. n = 4) no_schema = ((first_tables sample_naming 3)\<lparr>sc_indexes := take 1 init_indexes\<rparr>, ERR driver_error)"
    by (simp add: init_up_parts tables_made init_indexes_def create_index_def has_column_def first_tables_def init_tables_def
        Let_def ContractNegotiation_columns_def col_def column_name_def sample_naming_def)
  have "sc_indexes ((first_tables sample_naming 3)\<lparr>sc_indexes := take 1 init_indexes\<rparr>) \<noteq> []" by (simp add: init_indexes_def Let_def)
  then show ?thesis using interrupted_migration_resumes_iff[OF sample_snake_case run] run by blast
qed

end
