(* ===== verification/Server_Run.thy ===== *)
theory Server_Run
  imports Server
begin

text \<open>
  How the server ends: the second half of \<open>Run\<close> of \<open>internal/server/command.go\<close> and the goroutines it
  and \<open>startControl\<close> leave behind. There is one for each HTTP server, which serves until that fails or
  is shut down, and one that stops the control service when the context is done; a wait group
  counts them, and they share the error variable of \<open>Run\<close>. What the servers answer and in which order
  the goroutines move is open.
\<close>

section \<open>Goroutines\<close>

datatype main_phase = Spawned | Awaits_Reconciler | Shuts_Down nat | Awaits_Servers | Returned "unit outcome"

record server_run =
  sr_count :: int
  sr_control :: bool
  sr_serving :: "bool list"
  sr_main :: main_phase
  sr_err :: "unit outcome"
  sr_done :: bool
  sr_panicked :: bool

text \<open>After the loop that starts the HTTP servers: only \<open>startControl\<close> has added to the wait group.\<close>

definition spawned :: "nat \<Rightarrow> server_run" where
  "spawned n = \<lparr>sr_count = 1, sr_control = True, sr_serving = replicate n True, sr_main = Spawned, sr_err = OK (),
     sr_done = False, sr_panicked = False\<rparr>"

text \<open>A negative counter panics.\<close>

definition wg_Done :: "server_run \<Rightarrow> server_run" where
  "wg_Done r = r\<lparr>sr_count := sr_count r - 1, sr_panicked := sr_count r - 1 < 0\<rparr>"

definition http_ends :: "nat \<Rightarrow> goerror \<Rightarrow> server_run \<Rightarrow> server_run" where
  "http_ends i e r = wg_Done (r\<lparr>sr_serving := (sr_serving r)[i := False], sr_err := ERR e\<rparr>)"

definition shut_down_next :: "(nat \<Rightarrow> unit outcome) \<Rightarrow> nat \<Rightarrow> server_run \<Rightarrow> server_run" where
  "shut_down_next Shutdown i r =
     (if i = length (sr_serving r) then r\<lparr>sr_main := Awaits_Servers\<rparr>
      else (case Shutdown i of
              OK _ \<Rightarrow> r\<lparr>sr_main := Shuts_Down (Suc i), sr_err := OK ()\<rparr>
            | e \<Rightarrow> r\<lparr>sr_main := Returned e, sr_err := e\<rparr>))"

inductive run_step :: "(nat \<Rightarrow> unit outcome) \<Rightarrow> server_run \<Rightarrow> server_run \<Rightarrow> bool" for Shutdown :: "nat \<Rightarrow> unit outcome" where
  interrupt: "\<not> sr_panicked r \<Longrightarrow> run_step Shutdown r (r\<lparr>sr_done := True\<rparr>)"
| http: "\<not> sr_panicked r \<Longrightarrow> i < length (sr_serving r) \<Longrightarrow> sr_serving r ! i \<Longrightarrow> run_step Shutdown r (http_ends i e r)"
| control: "\<not> sr_panicked r \<Longrightarrow> sr_done r \<Longrightarrow> sr_control r \<Longrightarrow> run_step Shutdown r (wg_Done (r\<lparr>sr_control := False\<rparr>))"
| add: "\<not> sr_panicked r \<Longrightarrow> sr_main r = Spawned \<Longrightarrow>
    run_step Shutdown r (r\<lparr>sr_main := Awaits_Reconciler, sr_count := sr_count r + int (length (sr_serving r))\<rparr>)"
| reconciler_over: "\<not> sr_panicked r \<Longrightarrow> sr_main r = Awaits_Reconciler \<Longrightarrow> sr_done r \<Longrightarrow> run_step Shutdown r (r\<lparr>sr_main := Shuts_Down 0\<rparr>)"
| shut_down: "\<not> sr_panicked r \<Longrightarrow> sr_main r = Shuts_Down i \<Longrightarrow> run_step Shutdown r (shut_down_next Shutdown i r)"
| returns: "\<not> sr_panicked r \<Longrightarrow> sr_main r = Awaits_Servers \<Longrightarrow> sr_count r = 0 \<Longrightarrow> run_step Shutdown r (r\<lparr>sr_main := Returned (sr_err r)\<rparr>)"

abbreviation run_steps :: "(nat \<Rightarrow> unit outcome) \<Rightarrow> server_run \<Rightarrow> server_run \<Rightarrow> bool" where
  "run_steps Shutdown \<equiv> (run_step Shutdown)\<^sup>*\<^sup>*"

section \<open>The counter\<close>

definition serving_count :: "bool list \<Rightarrow> int" where
  "serving_count bs = int (length (filter (\<lambda>b. b) bs))"

lemma serving_count_ends: "i < length bs \<Longrightarrow> bs ! i \<Longrightarrow> serving_count (bs[i := False]) = serving_count bs - 1"
proof (induction bs arbitrary: i)
  case (Cons b bs)
  then show ?case by (cases i) (auto simp: serving_count_def)
qed simp

lemma serving_count_bounds: "0 \<le> serving_count bs" "serving_count bs \<le> int (length bs)"
  by (simp_all add: serving_count_def)

text \<open>Before the servers are counted the counter lacks all of them.\<close>

definition counter_ok :: "server_run \<Rightarrow> bool" where
  "counter_ok r \<longleftrightarrow> sr_count r = (if sr_control r then 1 else 0) + serving_count (sr_serving r)
       - (if sr_main r = Spawned then int (length (sr_serving r)) else 0)
     \<and> (sr_panicked r \<longleftrightarrow> sr_count r < 0)"

lemma spawned_counter: "counter_ok (spawned n)"
  by (simp add: counter_ok_def spawned_def serving_count_def)

lemma step_counter:
  assumes "run_step S r r'" and "counter_ok r"
  shows "counter_ok r'"
  using assms
proof cases
  case (http i e)
  then show ?thesis using assms(2) serving_count_ends[of i "sr_serving r"]
    by (simp add: counter_ok_def http_ends_def wg_Done_def)
next
  case (shut_down i)
  then show ?thesis using assms(2) by (auto simp: counter_ok_def shut_down_next_def split: outcome.split)
qed (use assms(2) serving_count_bounds(1)[of "sr_serving r"] in \<open>auto simp: counter_ok_def wg_Done_def split: if_splits\<close>)

lemma reachable_counter: "run_steps S (spawned n) r \<Longrightarrow> counter_ok r"
  by (induction rule: rtranclp_induct) (auto intro: step_counter spawned_counter)

section \<open>Ending\<close>

text \<open>Once \<open>Run\<close> has waited for them, nothing it started goes on.\<close>

definition all_ended :: "server_run \<Rightarrow> bool" where
  "all_ended r \<longleftrightarrow> \<not> sr_control r \<and> (\<forall>b \<in> set (sr_serving r). \<not> b)"

lemma zero_counter: "counter_ok r \<Longrightarrow> sr_main r \<noteq> Spawned \<Longrightarrow> sr_count r = 0 \<longleftrightarrow> all_ended r"
  using serving_count_bounds(1)[of "sr_serving r"]
  by (auto simp: counter_ok_def all_ended_def serving_count_def filter_empty_conv split: if_splits)

definition shutdown_refused :: "(nat \<Rightarrow> unit outcome) \<Rightarrow> nat \<Rightarrow> unit outcome \<Rightarrow> bool" where
  "shutdown_refused S i v \<longleftrightarrow> S i = v \<and> v \<noteq> OK () \<and> (\<forall>j < i. S j = OK ())"

definition returned_ok :: "(nat \<Rightarrow> unit outcome) \<Rightarrow> server_run \<Rightarrow> bool" where
  "returned_ok S r \<longleftrightarrow> (\<forall>v. sr_main r = Returned v \<longrightarrow> all_ended r \<or> (\<exists>i. shutdown_refused S i v))
     \<and> (\<forall>i. sr_main r = Shuts_Down i \<longrightarrow> (\<forall>j < i. S j = OK ()))
     \<and> (sr_main r \<notin> {Spawned, Awaits_Reconciler} \<longrightarrow> sr_done r)"

lemma all_ended_mono:
  "all_ended r \<Longrightarrow> sr_serving r' = (sr_serving r)[i := False] \<Longrightarrow> sr_control r' = sr_control r \<Longrightarrow> all_ended r'"
  using set_update_subset_insert[of "sr_serving r" i False] by (auto simp: all_ended_def)

lemma step_returned:
  assumes "run_step S r r'" and "returned_ok S r" and "counter_ok r"
  shows "returned_ok S r'"
  using assms(1)
proof cases
  case returns
  then show ?thesis using assms(2,3) zero_counter[of r] by (auto simp: returned_ok_def all_ended_def)
next
  case (http i e)
  have "all_ended r \<Longrightarrow> all_ended r'"
    by (rule all_ended_mono[of r r' i]) (simp_all add: http http_ends_def wg_Done_def)
  then show ?thesis using assms(2) http(1) by (auto simp: returned_ok_def http_ends_def wg_Done_def)
next
  case (shut_down i)
  have before: "\<forall>j < i. S j = OK ()" and over: "sr_done r" using assms(2) shut_down by (simp_all add: returned_ok_def)
  show ?thesis
  proof (cases "S i")
    case (OK x)
    then show ?thesis using shut_down before over by (auto simp: returned_ok_def shut_down_next_def less_Suc_eq)
  next
    case (ERR e)
    then have "shutdown_refused S i (ERR e)" using before by (simp add: shutdown_refused_def)
    then show ?thesis using shut_down ERR over by (auto simp: returned_ok_def shut_down_next_def)
  next
    case (PANIC e)
    then have "shutdown_refused S i (PANIC e)" using before by (simp add: shutdown_refused_def)
    then show ?thesis using shut_down PANIC over by (auto simp: returned_ok_def shut_down_next_def)
  qed
qed (use assms(2) in \<open>auto simp: returned_ok_def all_ended_def wg_Done_def\<close>)

lemma reachable_returned:
  assumes "run_steps S (spawned n) r"
  shows "returned_ok S r"
  using assms
proof (induction rule: rtranclp_induct)
  case (step r r')
  then show ?case using step_returned reachable_counter by blast
qed (simp add: returned_ok_def spawned_def)

lemma reachable_panic:
  assumes "counter_ok r" and "sr_panicked r"
  shows "sr_main r = Spawned \<and> (\<exists>b \<in> set (sr_serving r). \<not> b)"
proof -
  have neg: "sr_count r < 0" using assms by (simp add: counter_ok_def)
  then have main: "sr_main r = Spawned"
    using assms(1) serving_count_bounds(1)[of "sr_serving r"] by (auto simp: counter_ok_def split: if_splits)
  have "serving_count (sr_serving r) < int (length (sr_serving r))"
    using assms(1) neg main by (auto simp: counter_ok_def split: if_splits)
  then have "filter (\<lambda>b. b) (sr_serving r) \<noteq> sr_serving r" by (auto simp: serving_count_def)
  then show ?thesis using main by (auto simp: filter_id_conv)
qed

section \<open>Properties\<close>

text \<open>C29: \<open>Run\<close> returns, and calls \<open>Shutdown\<close>, only after the interrupt. It returns when nothing it started
  goes on, the control service is stopped and every HTTP server has ended, or else with the error of
  the first HTTP server that could not be shut down. The wait group can panic, but only if a server
  ends before \<open>Run\<close> has counted it.\<close>

theorem run_returns_last:
  assumes "run_steps S (spawned n) r"
  shows "(\<forall>v. sr_main r = Returned v \<longrightarrow> sr_done r
       \<and> (\<not> sr_control r \<and> (\<forall>b \<in> set (sr_serving r). \<not> b) \<or> (\<exists>i. S i = v \<and> v \<noteq> OK () \<and> (\<forall>j < i. S j = OK ()))))
    \<and> (\<forall>i. sr_main r = Shuts_Down i \<longrightarrow> sr_done r)
    \<and> (sr_panicked r \<longrightarrow> sr_main r = Spawned \<and> (\<exists>b \<in> set (sr_serving r). \<not> b))"
  using reachable_returned[OF assms] reachable_panic[OF reachable_counter[OF assms]]
  by (auto simp: returned_ok_def shutdown_refused_def all_ended_def)

text \<open>\<open>Shutdown\<close> is given the context that is done by then, so for a server that is busy it answers the
  context's error at once, and \<open>Run\<close> returns with the server and the control service still going.\<close>

lemma busy_server_left:
  "run_steps (\<lambda>_. ERR e) (spawned n) \<lparr>sr_count = 1 + int n, sr_control = True, sr_serving = replicate n True, sr_main = Returned (ERR e),
     sr_err = ERR e, sr_done = True, sr_panicked = False\<rparr>" if "0 < n"
proof -
  let ?S = "\<lambda>_. ERR e :: unit outcome"
  let ?r = "\<lambda>k m v. \<lparr>sr_count = k, sr_control = True, sr_serving = replicate n True, sr_main = m, sr_err = v, sr_done = True, sr_panicked = False\<rparr>"
  have "run_step ?S (spawned n) (?r 1 Spawned (OK ()))"
    using run_step.interrupt[of "spawned n" ?S] by (simp add: spawned_def)
  moreover have "run_step ?S (?r 1 Spawned (OK ())) (?r (1 + int n) Awaits_Reconciler (OK ()))"
    using run_step.add[of "?r 1 Spawned (OK ())" ?S] by simp
  moreover have "run_step ?S (?r (1 + int n) Awaits_Reconciler (OK ())) (?r (1 + int n) (Shuts_Down 0) (OK ()))"
    using run_step.reconciler_over[of "?r (1 + int n) Awaits_Reconciler (OK ())" ?S] by simp
  moreover have "run_step ?S (?r (1 + int n) (Shuts_Down 0) (OK ())) (?r (1 + int n) (Returned (ERR e)) (ERR e))"
    using run_step.shut_down[of "?r (1 + int n) (Shuts_Down 0) (OK ())" 0 ?S] that by (simp add: shut_down_next_def)
  ultimately show ?thesis by (meson rtranclp.rtrancl_into_rtrancl rtranclp.rtrancl_refl)
qed

text \<open>The error \<open>Run\<close> returns is whichever was assigned last: with the error that \<open>ListenAndServe\<close> answers to a
  shutdown, a clean shutdown can end in an error, or in none.\<close>

definition server_closed :: goerror where
  "server_closed = Errorf ''http: Server closed'' []"

lemma shutdown_run:
  "run_steps (\<lambda>_. OK ()) (spawned 1) \<lparr>sr_count = 0, sr_control = False, sr_serving = [False], sr_main = Returned v, sr_err = v,
     sr_done = True, sr_panicked = False\<rparr>" if "v \<in> {OK (), ERR server_closed}"
proof -
  let ?S = "\<lambda>_. OK () :: unit outcome"
  let ?r = "\<lambda>k c b m e. \<lparr>sr_count = k, sr_control = c, sr_serving = [b], sr_main = m, sr_err = e, sr_done = True, sr_panicked = False\<rparr>"
  let ?closed = "ERR server_closed :: unit outcome"
  have start: "run_steps ?S (spawned 1) (?r 2 True True Awaits_Reconciler (OK ()))"
    using run_step.interrupt[of "spawned 1" ?S] run_step.add[of "(spawned 1)\<lparr>sr_done := True\<rparr>" ?S]
    by (auto simp: spawned_def intro: rtranclp.rtrancl_into_rtrancl rtranclp.rtrancl_refl)
  have s1: "run_step ?S (?r 2 True True Awaits_Reconciler (OK ())) (?r 2 True True (Shuts_Down 0) (OK ()))"
    using run_step.reconciler_over[of "?r 2 True True Awaits_Reconciler (OK ())" ?S] by simp
  have shut: "run_step ?S (?r k c b (Shuts_Down 0) e) (?r k c b (Shuts_Down 1) (OK ()))" for k c b e
    using run_step.shut_down[of "?r k c b (Shuts_Down 0) e" 0 ?S] by (simp add: shut_down_next_def)
  have over: "run_step ?S (?r k c b (Shuts_Down 1) e) (?r k c b Awaits_Servers e)" for k c b e
    using run_step.shut_down[of "?r k c b (Shuts_Down 1) e" 1 ?S] by (simp add: shut_down_next_def)
  have ends: "run_step ?S (?r 2 True True m e) (?r 1 True False m ?closed)" for m e
    using run_step.http[of "?r 2 True True m e" 0 ?S server_closed] by (simp add: http_ends_def wg_Done_def)
  have stop: "run_step ?S (?r 1 True False m e) (?r 0 False False m e)" for m e
    using run_step.control[of "?r 1 True False m e" ?S] by (simp add: wg_Done_def)
  have ret: "run_step ?S (?r 0 False False Awaits_Servers e) (?r 0 False False (Returned e) e)" for e
    using run_step.returns[of "?r 0 False False Awaits_Servers e" ?S] by simp
  note steps = rtranclp.rtrancl_into_rtrancl
  show ?thesis
  proof (cases "v = OK ()")
    case True
    show ?thesis unfolding True
      by (rule steps[OF steps[OF steps[OF steps[OF steps[OF steps[OF start s1] ends] shut] over] stop] ret])
  next
    case False
    then have v: "v = ?closed" using that by simp
    show ?thesis unfolding v
      by (rule steps[OF steps[OF steps[OF steps[OF steps[OF steps[OF start s1] shut] over] ends] stop] ret])
  qed
qed

lemma run_returns_last_witness:
  "\<exists>r. run_steps (\<lambda>_. OK ()) (spawned 1) r \<and> sr_main r = Returned (ERR server_closed) \<and> \<not> sr_control r"
proof -
  let ?r = "\<lparr>sr_count = 0, sr_control = False, sr_serving = [False], sr_main = Returned (ERR server_closed), sr_err = ERR server_closed,
     sr_done = True, sr_panicked = False\<rparr>"
  have "run_steps (\<lambda>_. OK ()) (spawned 1) ?r" by (rule shutdown_run) simp
  then show ?thesis using run_returns_last[of "\<lambda>_. OK ()" 1 ?r] by (intro exI[of _ ?r]) simp
qed

end
