(* ===== verification/Command.thy ===== *)
theory Command
  imports Server_Facts
begin

text \<open>
  The program itself: \<open>cmd/root/command.go\<close> with its flags, its configuration file and its hook,
  \<open>logging/logger.go\<close>, and how the root command, the server command and the exit status are tied
  together. The environment variables, the files viper can read and the flags given are parameters.
\<close>

section \<open>Logging\<close>

datatype log_level = LevelDebug | LevelInfo | LevelWarn | LevelError

datatype log_handler = JSONHandler | CharmHandler

record logger =
  lg_Level :: log_level
  lg_Handler :: log_handler

definition logging_New :: "string \<Rightarrow> bool \<Rightarrow> logger outcome" where
  "logging_New requestedLevel humanReadable =
     obind (if requestedLevel = ''debug'' then OK LevelDebug
            else if requestedLevel = ''info'' then OK LevelInfo
            else if requestedLevel = ''warn'' then OK LevelWarn
            else if requestedLevel = ''error'' then OK LevelError
            else PANIC ''unknown log level'') (\<lambda>level.
     OK \<lparr>lg_Level = level, lg_Handler = (if humanReadable then CharmHandler else JSONHandler)\<rparr>)"

definition validLogLevels :: "string list" where
  "validLogLevels = [''debug'', ''info'', ''warn'', ''error'']"

section \<open>Flags and configuration\<close>

text \<open>The flags of the root command are a set of their own, but their settings go where those of the
  server are. A command also has the flags of its parents that it does not define itself.\<close>

definition root_flags :: "(string \<times> any_value) list" where
  "root_flags = [(''config'', AnyString ''''), (''human-readable'', AnyBool False), (''log-level'', AnyString ''info'')]"

fun define_flags :: "(string \<times> any_value) list \<Rightarrow> flag_set \<Rightarrow> flag_set outcome" where
  "define_flags [] st = OK st"
| "define_flags ((f, v) # rest) st = obind (define_flag f v st) (define_flags rest)"

definition root_init :: "flag_set \<Rightarrow> flag_set outcome" where
  "root_init st =
     obind (define_flags root_flags (st\<lparr>flags := []\<rparr>)) (\<lambda>st1.
     OK \<lparr>flags = flags st @ flags st1,
         bindings = [(''logLevel'', ''log-level''), (''humanReadable'', ''human-readable'')] @ bindings st1,
         defaults = [(''logLevel'', AnyString ''info''), (''humanReadable'', AnyBool False)] @ defaults st1\<rparr>)"

definition init_all :: "flag_set outcome" where
  "init_all = obind init_flags root_init"

text \<open>Where viper looks for the configuration: in the file given, or for a name in some directories.\<close>

datatype config_source = ConfigFile string | ConfigSearch "string list" string string

definition config_source_of :: "string \<Rightarrow> config_source" where
  "config_source_of cfgFile =
     (if cfgFile \<noteq> [] then ConfigFile cfgFile
      else ConfigSearch [''/etc/run-dsp'', ''$HOME/.config/run-dsp''] ''toml'' ''run-dsp.toml'')"

record host =
  Getenv :: "string \<Rightarrow> string"
  ReadInConfig :: "config_source \<Rightarrow> (string \<times> (string \<Rightarrow> any_value option)) option"

definition upper_char :: "char \<Rightarrow> char" where
  "upper_char c = (if 97 \<le> (of_char c :: nat) \<and> (of_char c :: nat) \<le> 122 then char_of ((of_char c :: nat) - 32) else c)"

text \<open>An environment variable that is empty counts as missing.\<close>

definition AutomaticEnv :: "host \<Rightarrow> string \<Rightarrow> any_value option" where
  "AutomaticEnv H key = (let v = Getenv H (map upper_char key) in if v = [] then None else Some (AnyString v))"

text \<open>The lines printed, and what there is for a key apart from flags and defaults.\<close>

definition initConfig :: "host \<Rightarrow> string \<Rightarrow> string list \<times> (string \<Rightarrow> any_value option)" where
  "initConfig H cfgFile =
     (case ReadInConfig H (config_source_of cfgFile) of
        Some (used, file) \<Rightarrow> ([''Using config file: '' @ used], \<lambda>k. case AutomaticEnv H k of Some v \<Rightarrow> Some v | None \<Rightarrow> file k)
      | None \<Rightarrow> ([], AutomaticEnv H))"

section \<open>The root command\<close>

text \<open>The logger goes into the context that the server command asks for.\<close>

definition root_PersistentPreRunE :: "viper \<Rightarrow> logger outcome" where
  "root_PersistentPreRunE V =
     (let logLevel = GetString V ''logLevel'' in
      if logLevel \<notin> set validLogLevels then ERR (Errorf (''invalid log level '' @ logLevel) [])
      else logging_New logLevel (GetBool V ''humanReadable''))"

definition server_RunE :: "'a lib_scheme \<Rightarrow> environment \<Rightarrow> viper \<Rightarrow> logger option \<Rightarrow> services option starting" where
  "server_RunE L E V initCTX =
     then_start (quietly (command_of L V)) (\<lambda>c.
     case initCTX of
       None \<Rightarrow> quietly (ERR (Errorf ''couldn't fetch initial context'' []))
     | Some lg \<Rightarrow> Run L E c)"

text \<open>With traversal the hooks of all parents run, the root's first; else only that of the command itself.\<close>

definition rootCmd :: "bool \<Rightarrow> 'a lib_scheme \<Rightarrow> environment \<Rightarrow> viper \<Rightarrow> services option starting" where
  "rootCmd EnableTraverseRunHooks L E V =
     then_start (quietly (if EnableTraverseRunHooks then obind (root_PersistentPreRunE V) (\<lambda>lg. OK (Some lg)) else OK None)) (\<lambda>ctx.
     then_start (quietly (PersistentPreRunE L E V)) (\<lambda>_.
     server_RunE L E V ctx))"

text \<open>How the program ends, if it does: the status and what is printed. A panic is status 2.\<close>

definition ui_Error :: "string \<Rightarrow> string" where
  "ui_Error message = '' ERROR  '' @ message"

definition Execute :: "'b outcome \<Rightarrow> string list \<times> nat" where
  "Execute r = (case r of OK _ \<Rightarrow> ([], 0) | ERR e \<Rightarrow> ([ui_Error (err_msg e)], 1) | PANIC p \<Rightarrow> ([p], 2))"

text \<open>The server command, called with flags. What it has started, what it printed and the status; the
  services keep it going when there are any.\<close>

definition cfgFile_of :: "(string \<Rightarrow> any_value option) \<Rightarrow> string" where
  "cfgFile_of given = (case given ''config'' of Some (AnyString f) \<Rightarrow> f | _ \<Rightarrow> [])"

definition main_server :: "'a lib_scheme \<Rightarrow> environment \<Rightarrow> host \<Rightarrow> caster \<Rightarrow> (string \<Rightarrow> any_value option)
    \<Rightarrow> started list \<times> string list \<times> nat" where
  "main_server L E H C given =
     (case init_all of
        PANIC p \<Rightarrow> ([], [p], 2)
      | ERR e \<Rightarrow> ([], [err_msg e], 2)
      | OK st \<Rightarrow>
          (case initConfig H (cfgFile_of given) of (printed, config) \<Rightarrow>
           (case rootCmd True L E (viper_of C st given config) of (begun, r) \<Rightarrow>
              (begun, printed @ fst (Execute r), snd (Execute r)))))"

section \<open>Facts\<close>

text \<open>The hook lets exactly the levels pass that the logger knows.\<close>

lemma logging_New_panics_iff: "is_PANIC (logging_New l h) \<longleftrightarrow> l \<notin> set validLogLevels"
  by (auto simp: logging_New_def validLogLevels_def)

lemma root_hook:
  "GetString V ''logLevel'' \<in> set validLogLevels \<Longrightarrow> \<exists>lg. root_PersistentPreRunE V = OK lg"
  "GetString V ''logLevel'' \<notin> set validLogLevels \<Longrightarrow> \<exists>e. root_PersistentPreRunE V = ERR e"
  by (auto simp: root_PersistentPreRunE_def logging_New_def validLogLevels_def)

lemma root_init_OK:
  "root_init st = OK \<lparr>flags = flags st @ rev root_flags,
     bindings = [(''logLevel'', ''log-level''), (''humanReadable'', ''human-readable'')] @ bindings st,
     defaults = [(''logLevel'', AnyString ''info''), (''humanReadable'', AnyBool False)] @ defaults st\<rparr>"
  by (simp add: root_init_def root_flags_def define_flag_def)

lemma root_keys: "(k, f, v) \<in> set all_flags \<Longrightarrow> k \<noteq> ''logLevel'' \<and> k \<noteq> ''humanReadable''"
proof -
  have "list_all (\<lambda>r. fst r \<noteq> ''logLevel'' \<and> fst r \<noteq> ''humanReadable'') all_flags" by (simp add: flag_tables)
  then show "(k, f, v) \<in> set all_flags \<Longrightarrow> k \<noteq> ''logLevel'' \<and> k \<noteq> ''humanReadable''" by (auto simp: list_all_iff)
qed

text \<open>What a setting is: the flag, else the configuration, else the default.\<close>

definition setting_value :: "(string \<Rightarrow> any_value option) \<Rightarrow> (string \<Rightarrow> any_value option) \<Rightarrow> string \<times> string \<times> any_value \<Rightarrow> any_value" where
  "setting_value given config = (\<lambda>(key, flag, def).
     case given flag of Some x \<Rightarrow> x | None \<Rightarrow> (case config key of Some x \<Rightarrow> x | None \<Rightarrow> def))"

definition root_settings :: "(string \<times> string \<times> any_value) list" where
  "root_settings = [(''logLevel'', ''log-level'', AnyString ''info''), (''humanReadable'', ''human-readable'', AnyBool False)]"

lemma all_settings:
  "\<exists>st. init_all = OK st \<and> (\<forall>r \<in> set (root_settings @ all_flags). fst (snd r) \<noteq> ''otel-service-name'' \<longrightarrow>
     (\<forall>given config. viper_find st given config (fst r) = Some (setting_value given config r)))"
proof -
  obtain st0 where st0: "init_flags = OK st0" "\<And>k f v given config. (k, f, v) \<in> set all_flags \<Longrightarrow> f \<noteq> ''otel-service-name'' \<Longrightarrow>
      viper_find st0 given config k = Some (setting_value given config (k, f, v))"
    using settings_of_flags by (fastforce simp: setting_value_def split: option.split)
  obtain st where st2: "root_init st0 = OK st" using root_init_OK by blast
  have st: "init_all = OK st" "root_init st0 = OK st" using st2 by (simp_all add: init_all_def st0(1))
  have old: "viper_find st given config k = viper_find st0 given config k" if "k \<noteq> ''logLevel''" "k \<noteq> ''humanReadable''" for given config k
  proof -
    have "map_of (bindings st) k = map_of (bindings st0) k" "map_of (defaults st) k = map_of (defaults st0) k"
      using st(2) that by (auto simp: root_init_OK)
    then show ?thesis by (simp add: viper_find_def split: option.split)
  qed
  have new: "viper_find st given config (fst r) = Some (setting_value given config r)" if "r \<in> set root_settings" for r given config
    using st(2) that by (auto simp: root_init_OK viper_find_def root_settings_def setting_value_def split: option.split)
  have "viper_find st given config (fst r) = Some (setting_value given config r)"
    if r: "r \<in> set (root_settings @ all_flags)" "fst (snd r) \<noteq> ''otel-service-name''" for r given config
  proof (cases "r \<in> set root_settings")
    case False
    then have mem: "(fst r, fst (snd r), snd (snd r)) \<in> set all_flags" using r by simp
    have "viper_find st given config (fst r) = viper_find st0 given config (fst r)"
      using root_keys[OF mem] by (intro old) blast+
    then show ?thesis using st0(2)[OF mem r(2), of given config] by simp
  qed (rule new)
  then show ?thesis using st(1) by blast
qed

lemma rootCmd_known:
  assumes "GetString V ''logLevel'' \<in> set validLogLevels"
  shows "rootCmd True L E V = run_command L E V"
  using root_hook(1)[OF assms] by (auto simp: rootCmd_def run_command_def server_RunE_def quietly_simps)

lemma rootCmd_unknown:
  assumes "GetString V ''logLevel'' \<notin> set validLogLevels"
  shows "\<exists>e. rootCmd True L E V = ([], ERR e)"
  using root_hook(2)[OF assms] by (auto simp: rootCmd_def quietly_def)

text \<open>The context is made by the root's hook, so nothing is started if only the nearest hook runs.\<close>

lemma no_traversal_no_start: "fst (rootCmd False L E V) = [] \<and> \<not> is_OK (snd (rootCmd False L E V))"
  by (cases "PersistentPreRunE L E V"; cases "command_of L V") (simp_all add: rootCmd_def server_RunE_def quietly_def)

text \<open>A setting of the server that is not valid ends the program before it has started anything.\<close>

lemma backend_refused:
  assumes "GetString V ''server.persistence.backend'' \<noteq> ''sqlite''"
  shows "fst (rootCmd True L E V) = [] \<and> \<not> is_OK (snd (rootCmd True L E V))"
proof (cases "GetString V ''logLevel'' \<in> set validLogLevels")
  case True
  have "check_persistence V \<noteq> OK ()" using assms by (simp add: check_persistence_def)
  then have "PersistentPreRunE L E V \<noteq> OK ()"
    by (auto simp: PersistentPreRunE_def obind_OK_iff split: option.splits)
  then show ?thesis unfolding rootCmd_known[OF True]
    by (cases "PersistentPreRunE L E V") (auto simp: run_command_def quietly_def)
next
  case False
  then show ?thesis using rootCmd_unknown[OF False, of L E] by auto
qed

section \<open>Properties\<close>

text \<open>C30: with every setting read from its flag, else from the environment or the configuration file, else
  its default, the program starts what the server command starts and ends with the status of its
  result; but with a log level the logger does not know it starts nothing and ends with status 1.\<close>

theorem program_is_server:
  "\<exists>V. (\<forall>r \<in> set (root_settings @ all_flags). fst (snd r) \<noteq> ''otel-service-name'' \<longrightarrow>
         (let x = setting_value given (snd (initConfig H (cfgFile_of given))) r in
          GetString V (fst r) = cast_string C x \<and> GetInt V (fst r) = cast_int C x \<and> GetBool V (fst r) = cast_bool C x))
     \<and> (case main_server L E H C given of (begun, printed, status) \<Rightarrow>
          if GetString V ''logLevel'' \<in> set validLogLevels
          then begun = fst (run_command L E V) \<and> status = snd (Execute (snd (run_command L E V)))
          else begun = [] \<and> status = 1)"
proof -
  obtain st where st: "init_all = OK st" "\<And>r given config. r \<in> set (root_settings @ all_flags) \<Longrightarrow> fst (snd r) \<noteq> ''otel-service-name'' \<Longrightarrow>
      viper_find st given config (fst r) = Some (setting_value given config r)" using all_settings by blast
  obtain printed config where c: "initConfig H (cfgFile_of given) = (printed, config)" by fastforce
  let ?V = "viper_of C st given config"
  have "case main_server L E H C given of (begun, printed, status) \<Rightarrow>
      if GetString ?V ''logLevel'' \<in> set validLogLevels
      then begun = fst (run_command L E ?V) \<and> status = snd (Execute (snd (run_command L E ?V)))
      else begun = [] \<and> status = 1"
  proof (cases "GetString ?V ''logLevel'' \<in> set validLogLevels")
    case True
    show ?thesis by (cases "run_command L E ?V") (simp add: main_server_def st(1) c True rootCmd_known[OF True])
  next
    case False
    then obtain e where "rootCmd True L E ?V = ([], ERR e)" using rootCmd_unknown by blast
    then show ?thesis by (simp add: main_server_def st(1) c False Execute_def)
  qed
  then show ?thesis using c st(2) by (intro exI[of _ ?V]) (auto simp: viper_of_def Let_def)
qed

text \<open>The reference configuration names a backend there is not, so it is refused, whatever else it says.\<close>

lemma reference_configuration_refused:
  assumes "cast_laws C" and "ReadInConfig H (config_source_of (cfgFile_of given)) = Some (used, file)"
    and "file ''server.persistence.backend'' = Some (AnyString ''badger'')"
    and "given ''persistence-backend'' = None" and "AutomaticEnv H ''server.persistence.backend'' = None"
  shows "fst (main_server L E H C given) = [] \<and> snd (snd (main_server L E H C given)) \<noteq> 0"
proof -
  obtain st where st: "init_all = OK st" "\<And>r given config. r \<in> set (root_settings @ all_flags) \<Longrightarrow> fst (snd r) \<noteq> ''otel-service-name'' \<Longrightarrow>
      viper_find st given config (fst r) = Some (setting_value given config r)" using all_settings by blast
  obtain printed config where c: "initConfig H (cfgFile_of given) = (printed, config)" by fastforce
  have "(''server.persistence.backend'', ''persistence-backend'', AnyString ''sqlite'') \<in> set all_flags" by (simp add: flag_tables)
  then have "viper_find st given config ''server.persistence.backend'' = Some (AnyString ''badger'')"
    using st(2)[of "(''server.persistence.backend'', ''persistence-backend'', AnyString ''sqlite'')" given config] assms(2-5) c
    by (auto simp: setting_value_def initConfig_def)
  then have "GetString (viper_of C st given config) ''server.persistence.backend'' \<noteq> ''sqlite''"
    using assms(1) by (simp add: viper_of_def cast_laws_def)
  from backend_refused[OF this, of L E] show ?thesis
    by (auto simp: main_server_def st(1) c Execute_def split: prod.split outcome.split)
qed

section \<open>Examples\<close>

definition sample_caster :: caster where
  "sample_caster = \<lparr>cast_string = (\<lambda>v. case v of AnyString s \<Rightarrow> s | _ \<Rightarrow> []), cast_int = (\<lambda>v. case v of AnyInt i \<Rightarrow> i | _ \<Rightarrow> 0),
     cast_bool = (\<lambda>v. case v of AnyBool b \<Rightarrow> b | _ \<Rightarrow> False)\<rparr>"

definition sample_host :: host where
  "sample_host = \<lparr>Getenv = (\<lambda>_. []), ReadInConfig = (\<lambda>_. None)\<rparr>"

lemma program_is_server_witness:
  "let r = main_server sample_lib sample_env sample_host sample_caster ((\<lambda>_. None)(''log-level'' := Some (AnyString ''trace'')))
   in fst r = [] \<and> snd (snd r) = 1"
  using program_is_server[of "(\<lambda>_. None)(''log-level'' := Some (AnyString ''trace''))" sample_host sample_caster sample_lib sample_env]
proof (elim exE conjE, goal_cases)
  case (1 V)
  have "GetString V ''logLevel'' = ''trace''"
    using 1(1)[rule_format, of "(''logLevel'', ''log-level'', AnyString ''info'')"]
    by (simp add: root_settings_def setting_value_def sample_caster_def Let_def)
  then have "GetString V ''logLevel'' \<notin> set validLogLevels" by (simp add: validLogLevels_def)
  then show ?case using 1(2) by (simp add: case_prod_beta Let_def)
qed

end
