(* ===== verification/Http_Chain.thy ===== *)
theory Http_Chain
  imports Server Auth_Forwarder
begin

text \<open>
  An HTTP request from one connector to the other, end to end: \<open>SendHTTPRequest\<close> of
  \<open>dsp/shared/http.go\<close> over the signing round tripper; the server, which of the sender's URL gets
  only the path and the query; the prefix and the chain of middlewares that \<open>getDataspaceServer\<close> of
  \<open>internal/server/command.go\<close> puts before the routes; and the metrics around every handler of
  \<open>dsp/metrics_middleware.go\<close>. What the trace propagator adds to a header is a parameter; a body is
  what it decodes as.
\<close>

section \<open>Sending\<close>

definition NewRequest :: "string \<Rightarrow> http_url \<Rightarrow> http_request" where
  "NewRequest meth url = \<lparr>rq_Method = meth, rq_URL = url, rq_Header = []\<rparr>"

definition Inject :: "(string \<times> string) list \<Rightarrow> http_request \<Rightarrow> http_request" where
  "Inject trace rq = fold (\<lambda>(k, v). Header_Add k v) trace rq"

text \<open>
  The transport gives a request that has a body its length, and writes no more of the URL into the
  request line than its path, \<open>/\<close> if there is none, and query; the server's request has the URL that
  line parses as.
\<close>

definition request_line :: "http_url \<Rightarrow> http_url" where
  "request_line u = \<lparr>hu_Origin = [], hu_Path = (if hu_Path u = [] then ''/'' else hu_Path u), hu_Query = hu_Query u\<rparr>"

definition on_the_wire :: "http_request \<Rightarrow> http_request" where
  "on_the_wire rq = rq\<lparr>rq_URL := request_line (rq_URL rq)\<rparr>"

definition transport :: "'b option \<Rightarrow> ('b \<Rightarrow> nat) \<Rightarrow> (http_request \<Rightarrow> 'b option \<Rightarrow> 'r peer_answer) \<Rightarrow> http_request \<Rightarrow> 'r peer_answer" where
  "transport reqBody bytes peer rq =
     (case reqBody of
        None \<Rightarrow> peer (on_the_wire rq) None
      | Some b \<Rightarrow> peer (on_the_wire (Header_Add ''Content-Length'' (show_nat (bytes b)) rq)) (Some b))"

definition HTTPRequester_Send :: "authn_service option \<Rightarrow> (string \<times> string) list \<Rightarrow> ('b \<Rightarrow> nat)
    \<Rightarrow> (http_request \<Rightarrow> 'b option \<Rightarrow> 'r peer_answer) \<Rightarrow> go_context \<Rightarrow> string \<Rightarrow> http_url \<Rightarrow> 'b option \<Rightarrow> 'r option outcome" where
  "HTTPRequester_Send service trace bytes peer ctx meth url reqBody =
     (let rq = Inject trace (Header_Add ''Accept'' ''application/json''
                 (Header_Add ''Content-Type'' ''application/json'' (NewRequest meth url)))
      in SendHTTPRequest (RoundTrip service ctx rq (transport reqBody bytes peer)))"

section \<open>Metrics\<close>

text \<open>What is kept for a combination of labels: method, status, name of the route and host.\<close>

type_synonym labels = "string \<times> string \<times> string \<times> string"

record samples =
  requestsTotal :: nat
  requestDuration :: "int list"
  requestSize :: "int list"
  responseSize :: "nat list"

type_synonym metrics = "labels \<Rightarrow> samples"

definition no_samples :: samples where
  "no_samples = \<lparr>requestsTotal = 0, requestDuration = [], requestSize = [], responseSize = []\<rparr>"

record metered_request =
  mr_Method :: string
  mr_Host :: string
  mr_ContentLength :: int

text \<open>What a handler writes; a status of 0 stands for one that has not been written.\<close>

record written =
  wr_Status :: nat
  wr_Size :: nat

text \<open>Nothing is recorded of a handler that panics.\<close>

definition WrapHandlerWithMetrics :: "string \<Rightarrow> metered_request \<Rightarrow> int \<Rightarrow> 's \<times> written outcome \<Rightarrow> metrics \<Rightarrow> ('s \<times> written outcome) \<times> metrics" where
  "WrapHandlerWithMetrics path r elapsed handled m =
     (case handled of
        (s, OK lrw) \<Rightarrow>
          (let labelsValues = (mr_Method r, show_nat (wr_Status lrw), path, mr_Host r); x = m labelsValues
           in ((s, OK lrw), m(labelsValues := \<lparr>requestsTotal = requestsTotal x + 1, requestDuration = requestDuration x @ [elapsed],
                 requestSize = requestSize x @ [mr_ContentLength r], responseSize = responseSize x @ [wr_Size lrw]\<rparr>)))
      | (s, e) \<Rightarrow> ((s, e), m))"

section \<open>Receiving\<close>

definition Header_Get :: "http_request \<Rightarrow> string \<Rightarrow> string" where
  "Header_Get rq k = (case map_of (rq_Header rq) k of None \<Rightarrow> [] | Some v \<Rightarrow> v)"

text \<open>A panic below the recovery becomes an internal error.\<close>

fun Recovery :: "'r peer_answer \<Rightarrow> 'r peer_answer" where
  "Recovery (PANIC p) = OK (500, None)"
| "Recovery r = r"

text \<open>\<open>http.StripPrefix\<close>: the handler below sees the rest of the path, and no other path reaches it.\<close>

definition StripPrefix :: "string \<Rightarrow> (http_request \<Rightarrow> 'b option \<Rightarrow> 'r peer_answer) \<Rightarrow> http_request \<Rightarrow> 'b option \<Rightarrow> 'r peer_answer" where
  "StripPrefix pre h rq body =
     (let p = hu_Path (rq_URL rq); q = drop (length pre) p
      in if take (length pre) p = pre \<and> length q < length p
         then h (rq\<lparr>rq_URL := (rq_URL rq)\<lparr>hu_Path := q\<rparr>\<rparr>) body
         else OK (404, None))"

definition dsp_chain :: "authn_service option \<Rightarrow> (go_context \<Rightarrow> http_request \<Rightarrow> 'b option \<Rightarrow> 'r peer_answer)
    \<Rightarrow> http_request \<Rightarrow> 'b option \<Rightarrow> 'r peer_answer" where
  "dsp_chain service routes = StripPrefix APIPath (\<lambda>rq body.
     Recovery (case jsonHeaderMiddleware (Header_Get rq) (received service rq) of
        Inl (code, msg) \<Rightarrow> OK (code, None)
      | Inr r \<Rightarrow>
          (case r of
             PANIC p \<Rightarrow> PANIC p
           | ERR e \<Rightarrow> ERR e
           | OK (HttpError code) \<Rightarrow> OK (code, None)
           | OK (Served ctx) \<Rightarrow> routes ctx rq body)))"

section \<open>Facts\<close>

lemma Header_Add_simps [simp]:
  "rq_Method (Header_Add k v rq) = rq_Method rq" "rq_URL (Header_Add k v rq) = rq_URL rq"
  "rq_Header (Header_Add k v rq) = rq_Header rq @ [(k, v)]"
  by (simp_all add: Header_Add_def)

lemma Inject_simps [simp]:
  "rq_Method (Inject trace rq) = rq_Method rq" "rq_URL (Inject trace rq) = rq_URL rq"
  "rq_Header (Inject trace rq) = rq_Header rq @ trace"
  unfolding Inject_def by (induction trace arbitrary: rq) auto

lemma looked_up:
  "map_of (rq_Header (Header_Add k v rq)) k' = (case map_of (rq_Header rq) k' of Some x \<Rightarrow> Some x | None \<Rightarrow> if k' = k then Some v else None)"
  by (simp add: map_add_def split: option.split)

text \<open>Every request a connector makes is JSON to the other.\<close>

lemma json_request:
  "map_of (rq_Header rq) ''Content-Type'' = Some ''application/json'' \<Longrightarrow> jsonHeaderMiddleware (Header_Get rq) r = Inr r"
  by (simp add: jsonHeaderMiddleware_def Header_Get_def)

definition made :: "(string \<times> string) list \<Rightarrow> string \<Rightarrow> http_url \<Rightarrow> http_request" where
  "made trace meth url = Inject trace (Header_Add ''Accept'' ''application/json''
     (Header_Add ''Content-Type'' ''application/json'' (NewRequest meth url)))"

text \<open>What the middlewares see of a request for a path of the API.\<close>

definition arriving :: "'b option \<Rightarrow> ('b \<Rightarrow> nat) \<Rightarrow> string \<Rightarrow> http_request \<Rightarrow> http_request" where
  "arriving body bytes path rq =
     (let r = (case body of None \<Rightarrow> rq | Some b \<Rightarrow> Header_Add ''Content-Length'' (show_nat (bytes b)) rq)
      in r\<lparr>rq_URL := \<lparr>hu_Origin = [], hu_Path = path, hu_Query = hu_Query (rq_URL rq)\<rparr>\<rparr>)"

lemma made_simps:
  "rq_Method (made trace meth url) = meth" "rq_URL (made trace meth url) = url"
  "map_of (rq_Header (made trace meth url)) ''Content-Type'' = Some ''application/json''"
  "''Authorization'' \<notin> fst ` set trace \<Longrightarrow> map_of (rq_Header (made trace meth url)) ''Authorization'' = None"
  by (auto simp: made_def NewRequest_def map_of_eq_None_iff)

lemma arriving_simps:
  "rq_Method (arriving body bytes path rq) = rq_Method rq"
  "rq_URL (arriving body bytes path rq) = \<lparr>hu_Origin = [], hu_Path = path, hu_Query = hu_Query (rq_URL rq)\<rparr>"
  "k \<noteq> ''Content-Length'' \<Longrightarrow> map_of (rq_Header (arriving body bytes path rq)) k = map_of (rq_Header rq) k"
  by (auto simp: arriving_def Let_def map_add_def split: option.split)

lemma StripPrefix_eq:
  "hu_Path (rq_URL rq) = pre @ path \<Longrightarrow> pre \<noteq> [] \<Longrightarrow>
    StripPrefix pre h rq body = h (rq\<lparr>rq_URL := (rq_URL rq)\<lparr>hu_Path := path\<rparr>\<rparr>) body"
  by (simp add: StripPrefix_def)

text \<open>A request for a path of the API, seen from behind the prefix.\<close>

lemma passes_chain:
  assumes "hu_Path (rq_URL rq) = APIPath @ path" and "map_of (rq_Header rq) ''Content-Type'' = Some ''application/json''"
  shows "transport body bytes (dsp_chain service routes) rq = Recovery (case received service (arriving body bytes path rq) of
      PANIC p \<Rightarrow> PANIC p | ERR e \<Rightarrow> ERR e | OK (HttpError code) \<Rightarrow> OK (code, None)
    | OK (Served c) \<Rightarrow> routes c (arriving body bytes path rq) body)"
proof -
  let ?r = "(case body of None \<Rightarrow> rq | Some b \<Rightarrow> Header_Add ''Content-Length'' (show_nat (bytes b)) rq)"
  have "APIPath @ path \<noteq> []" "APIPath \<noteq> []" by (simp_all add: APIPath_def)
  then have wire: "on_the_wire ?r\<lparr>rq_URL := (rq_URL (on_the_wire ?r))\<lparr>hu_Path := path\<rparr>\<rparr> = arriving body bytes path rq"
      "hu_Path (rq_URL (on_the_wire ?r)) = APIPath @ path"
    using assms(1) by (auto simp: on_the_wire_def request_line_def arriving_def split: option.split)
  have json: "map_of (rq_Header (arriving body bytes path rq)) ''Content-Type'' = Some ''application/json''"
    using assms(2) by (simp add: arriving_simps)
  have "transport body bytes (dsp_chain service routes) rq = dsp_chain service routes (on_the_wire ?r) body"
    by (simp add: transport_def split: option.split)
  also have "\<dots> = Recovery (case jsonHeaderMiddleware (Header_Get (arriving body bytes path rq))
        (received service (arriving body bytes path rq)) of
      Inl (code, msg) \<Rightarrow> OK (code, None)
    | Inr r \<Rightarrow> (case r of PANIC p \<Rightarrow> PANIC p | ERR e \<Rightarrow> ERR e | OK (HttpError code) \<Rightarrow> OK (code, None)
        | OK (Served c) \<Rightarrow> routes c (arriving body bytes path rq) body))"
    unfolding dsp_chain_def StripPrefix_eq[OF wire(2) \<open>APIPath \<noteq> []\<close>] wire(1) ..
  finally show ?thesis unfolding json_request[OF json] by simp
qed

lemma Send_eq: "HTTPRequester_Send service trace bytes peer ctx meth url body =
    SendHTTPRequest (RoundTrip service ctx (made trace meth url) (transport body bytes peer))"
  by (simp add: HTTPRequester_Send_def made_def)

text \<open>The samples grow by the requests that were answered, and what is answered is untouched.\<close>

fun metered :: "(string \<times> metered_request \<times> int \<times> written outcome) list \<Rightarrow> metrics \<Rightarrow> metrics" where
  "metered [] m = m"
| "metered ((path, r, elapsed, h) # rest) m = metered rest (snd (WrapHandlerWithMetrics path r elapsed ((), h) m))"

lemma metrics_transparent: "fst (WrapHandlerWithMetrics path r elapsed handled m) = handled"
  by (simp add: WrapHandlerWithMetrics_def Let_def split: prod.split outcome.split)

definition labels_of :: "string \<times> metered_request \<times> int \<times> written outcome \<Rightarrow> labels option" where
  "labels_of = (\<lambda>(path, r, elapsed, h). case h of OK w \<Rightarrow> Some (mr_Method r, show_nat (wr_Status w), path, mr_Host r) | _ \<Rightarrow> None)"

lemma metered_counts: "requestsTotal (metered rs m l) = requestsTotal (m l) + length (filter (\<lambda>r. labels_of r = Some l) rs)"
  by (induction rs m rule: metered.induct)
    (auto simp: WrapHandlerWithMetrics_def labels_of_def Let_def split: outcome.splits)

text \<open>Who a request with a given authorisation is for the handlers: who the service says, asked about the
  method and URL of the server's request; nobody without an authorisation.\<close>

definition anonymous :: RequesterInfo where
  "anonymous = \<lparr>AuthenticationStatus = AUTHENTICATION_STATUS_UNAUTHENTICATED, ri_Identifier = [], ExternalId = []\<rparr>"

lemma received_cases:
  assumes "map_of (rq_Header rq) ''Authorization'' = v"
  shows "received (Some verifier) rq =
    (let ctx = HTTPMiddleware v background; auth = (case v of None \<Rightarrow> [] | Some a \<Rightarrow> a)
     in case (if auth = [] then OK anonymous
              else Verify verifier \<lparr>ri_Method = rq_Method rq, ri_Url = URL_String (rq_URL rq), AuthenticationHeaderValue = auth\<rparr>) of
          OK who \<Rightarrow> OK (Served (SetRequesterInfo ctx who)) | ERR e \<Rightarrow> OK (HttpError 401) | PANIC m \<Rightarrow> PANIC m)"
  using assms by (simp add: received_def NewAuthNMiddleware_def anonymous_def Let_def)

text \<open>The caller's answer is what the routes answer, called once for that requester and that URL.\<close>

definition reaches :: "(go_context \<Rightarrow> http_request \<Rightarrow> 'b option \<Rightarrow> 'r peer_answer) \<Rightarrow> RequesterInfo \<Rightarrow> string \<Rightarrow> http_url
    \<Rightarrow> 'b option \<Rightarrow> 'r option outcome \<Rightarrow> bool" where
  "reaches routes who meth url body answer \<longleftrightarrow> (\<exists>c rq. ExtractRequesterInfo c = OK who \<and> rq_Method rq = meth \<and> rq_URL rq = url
     \<and> answer = SendHTTPRequest (Recovery (routes c rq body)))"

text \<open>How a request with authorisation \<open>v\<close> is answered behind the prefix.\<close>

lemma answered:
  assumes "map_of (rq_Header rq) ''Authorization'' = v" and "map_of (rq_Header rq) ''Content-Type'' = Some ''application/json''"
    and "hu_Path (rq_URL rq) = APIPath @ path" and "auth = (case v of None \<Rightarrow> [] | Some a \<Rightarrow> a)"
  shows "case (if auth = [] then OK anonymous else Verify verifier \<lparr>ri_Method = rq_Method rq,
        ri_Url = path @ hu_Query (rq_URL rq), AuthenticationHeaderValue = auth\<rparr>) of
      OK who \<Rightarrow> reaches routes who (rq_Method rq) \<lparr>hu_Origin = [], hu_Path = path, hu_Query = hu_Query (rq_URL rq)\<rparr> body
          (SendHTTPRequest (transport body bytes (dsp_chain (Some verifier) routes) rq))
    | _ \<Rightarrow> SendHTTPRequest (transport body bytes (dsp_chain (Some verifier) routes) rq) =
           ERR (Errorf ''received a non-200 status code'' [])"
proof -
  let ?rq = "arriving body bytes path rq"
  have v: "map_of (rq_Header ?rq) ''Authorization'' = v" using assms(1) by (simp add: arriving_simps)
  have url: "URL_String (rq_URL ?rq) = path @ hu_Query (rq_URL rq)" by (simp add: arriving_simps URL_String_def)
  let ?V = "if auth = [] then OK anonymous else Verify verifier \<lparr>ri_Method = rq_Method rq,
        ri_Url = path @ hu_Query (rq_URL rq), AuthenticationHeaderValue = auth\<rparr>"
  note t = passes_chain[OF assms(3,2), of body bytes "Some verifier" routes, unfolded received_cases[OF v] url Let_def
      assms(4)[symmetric] arriving_simps(1)]
  show ?thesis
  proof (cases ?V)
    case (OK who)
    have "transport body bytes (dsp_chain (Some verifier) routes) rq =
        Recovery (routes (SetRequesterInfo (HTTPMiddleware v background) who) ?rq body)"
      unfolding t OK by simp
    then show ?thesis unfolding OK
      by (auto simp: reaches_def arriving_simps intro!: exI[of _ "SetRequesterInfo (HTTPMiddleware v background) who"] exI[of _ ?rq])
  next
    case (ERR e)
    have "transport body bytes (dsp_chain (Some verifier) routes) rq = OK (401, None)" unfolding t ERR by simp
    then show ?thesis unfolding ERR by (simp add: SendHTTPRequest_def)
  next
    case (PANIC m)
    have "transport body bytes (dsp_chain (Some verifier) routes) rq = OK (500, None)" unfolding t PANIC by simp
    then show ?thesis unfolding PANIC by (simp add: SendHTTPRequest_def)
  qed
qed

section \<open>Properties\<close>

text \<open>C25: a request for a path of the API. If the sender's service signs it, for the full URL, the peer's service is
  asked about the authorisation with the method and the URL its middleware sees, which is what is left
  of the path behind the prefix of the API, and the query. Whom the service then names, and nobody
  else, is the requester the routes are called with, for that rest of the URL, and the caller is
  answered what they answer: a body for a status of the 200s, else an error, also when a handler
  panics. If the service does not accept the authorisation, no route is called. Without an
  authorisation the routes are called for an unauthenticated requester; if signing fails nothing is sent.\<close>

theorem request_is_served:
  fixes routes :: "go_context \<Rightarrow> http_request \<Rightarrow> 'b option \<Rightarrow> 'r peer_answer"
  assumes "hu_Path u = APIPath @ ''/'' @ p" and "\<forall>k \<in> fst ` set trace. k \<notin> {''Authorization'', ''Content-Type'', ''Content-Length''}"
  shows "(case Sign signer \<lparr>ri_Method = meth, ri_Url = URL_String u, AuthenticationHeaderValue = ExtractAuthorization ctx\<rparr> of
        OK v \<Rightarrow>
          (case (if v = [] then OK anonymous else Verify verifier
                  \<lparr>ri_Method = meth, ri_Url = ''/'' @ p @ hu_Query u, AuthenticationHeaderValue = v\<rparr>) of
             OK who \<Rightarrow> reaches routes who meth \<lparr>hu_Origin = [], hu_Path = ''/'' @ p, hu_Query = hu_Query u\<rparr> body
                 (HTTPRequester_Send (Some signer) trace bytes (dsp_chain (Some verifier) routes) ctx meth u body)
           | _ \<Rightarrow> HTTPRequester_Send (Some signer) trace bytes (dsp_chain (Some verifier) routes) ctx meth u body =
                 ERR (Errorf ''received a non-200 status code'' []))
      | ERR e \<Rightarrow> HTTPRequester_Send (Some signer) trace bytes peer ctx meth u body = ERR (wrapf ''could not sign outgoing request: %w'' e)
      | PANIC m \<Rightarrow> HTTPRequester_Send (Some signer) trace bytes peer ctx meth u body = PANIC m)
    \<and> reaches routes anonymous meth \<lparr>hu_Origin = [], hu_Path = ''/'' @ p, hu_Query = hu_Query u\<rparr> body
        (HTTPRequester_Send None trace bytes (dsp_chain (Some verifier) routes) ctx meth u body)"
proof -
  let ?rq = "made trace meth u"
  have none: "map_of (rq_Header ?rq) ''Authorization'' = None" using assms(2) by (intro made_simps(4)) auto
  have path: "hu_Path (rq_URL ?rq) = APIPath @ (''/'' @ p)" using assms(1) by (simp add: made_simps)
  have signed: "map_of (rq_Header (Header_Add ''Authorization'' v ?rq)) ''Authorization'' = Some v"
    "map_of (rq_Header (Header_Add ''Authorization'' v ?rq)) ''Content-Type'' = Some ''application/json''"
    "hu_Path (rq_URL (Header_Add ''Authorization'' v ?rq)) = APIPath @ (''/'' @ p)" for v
    using path unfolding looked_up none by (simp_all add: made_simps)
  note plain = answered[OF none made_simps(3) path refl, where verifier = verifier and body = body and bytes = bytes
      and routes = routes, simplified made_simps option.case simp_thms if_True outcome.case]
  note auth = answered[OF signed refl, where verifier = verifier and body = body and bytes = bytes and routes = routes,
      simplified made_simps option.case Header_Add_simps]
  show ?thesis
  proof (cases "Sign signer \<lparr>ri_Method = meth, ri_Url = URL_String u, AuthenticationHeaderValue = ExtractAuthorization ctx\<rparr>")
    case (OK v)
    then have send: "HTTPRequester_Send (Some signer) trace bytes peer ctx meth u body =
        SendHTTPRequest (transport body bytes peer (Header_Add ''Authorization'' v ?rq))" for peer :: "http_request \<Rightarrow> 'b option \<Rightarrow> 'r peer_answer"
      by (simp add: Send_eq RoundTrip_def made_simps)
    have none: "HTTPRequester_Send None trace bytes peer ctx meth u body = SendHTTPRequest (transport body bytes peer ?rq)"
      for peer :: "http_request \<Rightarrow> 'b option \<Rightarrow> 'r peer_answer" by (simp add: Send_eq RoundTrip_def)
    show ?thesis using auth[of v] plain by (simp only: OK outcome.case send none append_assoc)
  qed (use plain in \<open>simp_all add: Send_eq RoundTrip_def made_simps SendHTTPRequest_def\<close>)
qed

text \<open>So services that bind a signature to the full URL, as the sender gives it, never accept each other.\<close>

lemma bound_signature_refused:
  assumes "hu_Path u = APIPath @ ''/'' @ p" and "\<forall>k \<in> fst ` set trace. k \<notin> {''Authorization'', ''Content-Type'', ''Content-Length''}"
    and "\<And>r v. Sign signer r = OK v \<Longrightarrow> v \<noteq> [] \<and> signed_for v = ri_Url r"
    and "\<And>r who. Verify verifier r = OK who \<Longrightarrow> signed_for (AuthenticationHeaderValue r) = ri_Url r"
    and "Sign signer \<lparr>ri_Method = meth, ri_Url = URL_String u, AuthenticationHeaderValue = ExtractAuthorization ctx\<rparr> = OK v"
  shows "\<exists>e. SendHTTPRequest (transport body bytes (dsp_chain (Some verifier) routes)
      (Header_Add ''Authorization'' v (made trace meth u))) = ERR e"
proof -
  have none: "map_of (rq_Header (made trace meth u)) ''Authorization'' = None" using assms(2) by (intro made_simps(4)) auto
  have signed: "map_of (rq_Header (Header_Add ''Authorization'' v (made trace meth u))) ''Authorization'' = Some v"
    "map_of (rq_Header (Header_Add ''Authorization'' v (made trace meth u))) ''Content-Type'' = Some ''application/json''"
    "hu_Path (rq_URL (Header_Add ''Authorization'' v (made trace meth u))) = APIPath @ (''/'' @ p)"
    using assms(1) unfolding looked_up none by (simp_all add: made_simps)
  have v: "v \<noteq> []" "signed_for v = URL_String u" using assms(3)[OF assms(5)] by simp_all
  have "length (URL_String u) \<noteq> length (''/'' @ p @ hu_Query u)" using assms(1) by (simp add: URL_String_def APIPath_def)
  then have "Verify verifier \<lparr>ri_Method = meth, ri_Url = ''/'' @ p @ hu_Query u, AuthenticationHeaderValue = v\<rparr> \<noteq> OK who" for who
    using assms(4)[of "\<lparr>ri_Method = meth, ri_Url = ''/'' @ p @ hu_Query u, AuthenticationHeaderValue = v\<rparr>" who] v(2) by auto
  then show ?thesis
    using answered[OF signed refl, where verifier = verifier and body = body and bytes = bytes and routes = routes] v(1)
    by (cases "Verify verifier \<lparr>ri_Method = meth, ri_Url = ''/'' @ p @ hu_Query u, AuthenticationHeaderValue = v\<rparr>")
      (auto simp: made_simps)
qed

section \<open>Examples\<close>

text \<open>A service that signs the URL and verifies the signature of the same URL, and one that verifies only
  who signed.\<close>

definition sample_signer :: authn_service where
  "sample_signer = \<lparr>Sign = (\<lambda>r. OK (CHR ''s'' # ri_Url r)), Verify = (\<lambda>r. if AuthenticationHeaderValue r = CHR ''s'' # ri_Url r
     then OK (sample_requester\<lparr>AuthenticationStatus := AUTHENTICATION_STATUS_AUTHENTICATED, ri_Identifier := ''peer''\<rparr>)
     else ERR (Errorf ''bad signature'' []))\<rparr>"

definition token_verifier :: authn_service where
  "token_verifier = sample_signer\<lparr>Verify := (\<lambda>r. if take 1 (AuthenticationHeaderValue r) = ''s''
     then OK (sample_requester\<lparr>AuthenticationStatus := AUTHENTICATION_STATUS_AUTHENTICATED, ri_Identifier := ''peer''\<rparr>)
     else ERR (Errorf ''bad signature'' []))\<rparr>"

definition sample_url :: http_url where
  "sample_url = \<lparr>hu_Origin = ''http://peer'', hu_Path = APIPath @ ''/negotiations/request'', hu_Query = []\<rparr>"

lemma request_is_served_witness:
  "HTTPRequester_Send (Some sample_signer) [(''Traceparent'', ''1'')] length
      (dsp_chain (Some token_verifier) (\<lambda>c rq b. OK (200, Some (ExtractRequesterInfo c, URL_String (rq_URL rq)))))
      background ''POST'' sample_url (Some ''{}'') =
     OK (Some (OK (sample_requester\<lparr>AuthenticationStatus := AUTHENTICATION_STATUS_AUTHENTICATED, ri_Identifier := ''peer''\<rparr>),
       ''/negotiations/request''))
   \<and> HTTPRequester_Send (Some sample_signer) [(''Traceparent'', ''1'')] length
      (dsp_chain (Some sample_signer) (\<lambda>c rq b. OK (200, b))) background ''POST'' sample_url (Some ''{}'') =
     ERR (Errorf ''received a non-200 status code'' [])"
proof -
  have path: "hu_Path sample_url = APIPath @ ''/'' @ ''negotiations/request''" by (simp add: sample_url_def)
  have trace: "\<forall>k \<in> fst ` set [(''Traceparent'', ''1'')]. k \<notin> {''Authorization'', ''Content-Type'', ''Content-Length''}" by simp
  have sign: "Sign sample_signer r = OK (CHR ''s'' # ri_Url r)" for r by (simp add: sample_signer_def)
  note served = request_is_served[where signer = sample_signer and meth = "''POST''" and ctx = background and bytes = length
      and body = "Some ''{}''", OF path trace, unfolded sign outcome.case]
  show ?thesis
    using served[where verifier = token_verifier and routes = "\<lambda>c rq b. OK (200, Some (ExtractRequesterInfo c, URL_String (rq_URL rq)))"]
      served[where verifier = sample_signer and routes = "\<lambda>c rq b. OK (200, b)"]
    by (auto simp: reaches_def token_verifier_def sample_signer_def SendHTTPRequest_def URL_String_def sample_url_def APIPath_def)
qed

end
