(* ===== verification/Wire.thy ===== *)
theory Wire
  imports Contract_Machine
begin

text \<open>
  The messages as JSON documents: how \<open>encoding/json\<close> writes and reads the structs of
  \<open>odrl/types.go\<close>, \<open>dsp/shared/contract_types.go\<close>, \<open>transfer_types.go\<close> and \<open>common_types.go\<close> by
  their tags. A struct is written member by member, a member tagged \<open>omitempty\<close> only when it
  is not empty; it is read field by field, from every member whose key is the name of the field up
  to case, the later ones over the earlier. An embedded struct is its members.
\<close>

section \<open>The library\<close>

text \<open>
  What is left open: the text form of a time; what a value becomes that is read without a type, as
  the maps and numbers of Go; and how an empty slice is written, which is \<open>null\<close> for one that was
  never made, a difference the model does not keep.
\<close>

record wire_pkg =
  time_Marshal :: "int \<Rightarrow> string outcome"
  time_Unmarshal :: "string \<Rightarrow> int outcome"
  zero_time :: int
  as_any :: "json \<Rightarrow> json"
  empty_slice :: json

definition writable :: "wire_pkg \<Rightarrow> int \<Rightarrow> bool" where
  "writable W t \<longleftrightarrow> (\<exists>s. time_Marshal W t = OK s \<and> time_Unmarshal W s = OK t)"

text \<open>Documented: a time that was read can be written, and is read again; so can the zero time. A value
  read without a type is written as a document that is read as the same value.\<close>

definition wire_laws :: "wire_pkg \<Rightarrow> bool" where
  "wire_laws W \<longleftrightarrow> empty_slice W \<in> {JNull, JList []} \<and> writable W (zero_time W)
     \<and> (\<forall>s t. time_Unmarshal W s = OK t \<longrightarrow> writable W t)
     \<and> (\<forall>j. as_any W (as_any W j) = as_any W j) \<and> (\<forall>ms. \<exists>ms'. as_any W (JObject ms) = JObject ms')"

section \<open>Members and fields\<close>

type_synonym members = "(string \<times> json) list"

definition omit_string :: "string \<Rightarrow> string \<Rightarrow> members" where
  "omit_string n s = (if s = [] then [] else [(n, JString s)])"

definition omit_slice :: "string \<Rightarrow> ('a \<Rightarrow> json) \<Rightarrow> 'a list \<Rightarrow> members" where
  "omit_slice n enc xs = (if xs = [] then [] else [(n, JList (map enc xs))])"

definition slice_member :: "wire_pkg \<Rightarrow> string \<Rightarrow> ('a \<Rightarrow> json) \<Rightarrow> 'a list \<Rightarrow> members" where
  "slice_member W n enc xs = [(n, if xs = [] then empty_slice W else JList (map enc xs))]"

definition omit_pointer :: "string \<Rightarrow> ('a \<Rightarrow> json) \<Rightarrow> 'a option \<Rightarrow> members" where
  "omit_pointer n enc p = (case p of None \<Rightarrow> [] | Some x \<Rightarrow> [(n, enc x)])"

definition same_key :: "string \<Rightarrow> string \<Rightarrow> bool" where
  "same_key k n \<longleftrightarrow> ToLower k = ToLower n"

fun read_field :: "('v \<Rightarrow> json \<Rightarrow> 'v outcome) \<Rightarrow> string \<Rightarrow> 'v \<Rightarrow> members \<Rightarrow> 'v outcome" where
  "read_field dec n v [] = OK v"
| "read_field dec n v ((k, j) # ms) =
     (if same_key k n then obind (dec v j) (\<lambda>w. read_field dec n w ms) else read_field dec n v ms)"

abbreviation read_string :: "string \<Rightarrow> string \<Rightarrow> members \<Rightarrow> string outcome" where
  "read_string \<equiv> read_field Unmarshal_string"

text \<open>Reading into a value that is there: \<open>null\<close> leaves a struct alone, empties a slice, clears a pointer.
  The elements of a slice are read anew; what Go keeps of earlier elements, when a key occurs twice in one
  object, is not followed.\<close>

definition Unmarshal_struct :: "('a \<Rightarrow> members \<Rightarrow> 'a outcome) \<Rightarrow> 'a \<Rightarrow> json \<Rightarrow> 'a outcome" where
  "Unmarshal_struct read old j = (case j of JObject ms \<Rightarrow> read old ms | JNull \<Rightarrow> OK old | _ \<Rightarrow> bad_json ''cannot unmarshal into struct'')"

definition Unmarshal_slice :: "('a \<Rightarrow> json \<Rightarrow> 'a outcome) \<Rightarrow> 'a \<Rightarrow> 'a list \<Rightarrow> json \<Rightarrow> 'a list outcome" where
  "Unmarshal_slice dec zero old j =
     (case j of JList js \<Rightarrow> omap (dec zero) js | JNull \<Rightarrow> OK [] | _ \<Rightarrow> bad_json ''cannot unmarshal into slice'')"

definition Unmarshal_pointer :: "('a \<Rightarrow> json \<Rightarrow> 'a outcome) \<Rightarrow> 'a \<Rightarrow> 'a option \<Rightarrow> json \<Rightarrow> 'a option outcome" where
  "Unmarshal_pointer dec zero old j =
     (if j = JNull then OK None
      else obind (dec (case old of None \<Rightarrow> zero | Some x \<Rightarrow> x) j) (\<lambda>x. OK (Some x)))"

definition Unmarshal_any :: "wire_pkg \<Rightarrow> json \<Rightarrow> json \<Rightarrow> json outcome" where
  "Unmarshal_any W old j = OK (as_any W j)"

definition Unmarshal_any_map :: "wire_pkg \<Rightarrow> json \<Rightarrow> json \<Rightarrow> json outcome" where
  "Unmarshal_any_map W old j =
     (case j of JObject ms \<Rightarrow> OK (as_any W j) | JNull \<Rightarrow> OK JNull | _ \<Rightarrow> bad_json ''cannot unmarshal into map'')"

definition Unmarshal_time :: "wire_pkg \<Rightarrow> int \<Rightarrow> json \<Rightarrow> int outcome" where
  "Unmarshal_time W old j = (case j of JString s \<Rightarrow> time_Unmarshal W s | JNull \<Rightarrow> OK old | _ \<Rightarrow> bad_json ''not a time'')"

text \<open>A context that is read as a map keeps the root contexts that were there.\<close>

definition zero_context :: Context where
  "zero_context = \<lparr>rootContexts = [], namedContexts = []\<rparr>"

definition Unmarshal_context :: "Context \<Rightarrow> json \<Rightarrow> Context outcome" where
  "Unmarshal_context old j =
     obind (Context_UnmarshalJSON j) (\<lambda>c. OK (if is_OK (Unmarshal_entry_map j) then c\<lparr>rootContexts := rootContexts old\<rparr> else c))"

section \<open>Policies\<close>

definition rule_members :: "AbstractPolicyRule \<Rightarrow> members" where
  "rule_members r = omit_string ''odrl:assigner'' (Assigner r) @ omit_string ''odrl:assignee'' (Assignee r)"

definition rule_read :: "AbstractPolicyRule \<Rightarrow> members \<Rightarrow> AbstractPolicyRule outcome" where
  "rule_read r ms =
     obind (read_string ''odrl:assigner'' (Assigner r) ms) (\<lambda>a.
     obind (read_string ''odrl:assignee'' (Assignee r) ms) (\<lambda>b. OK \<lparr>Assigner = a, Assignee = b\<rparr>))"

definition Reference_json :: "Reference \<Rightarrow> json" where
  "Reference_json r = JObject (omit_string ''@id'' (ref_ID r))"

definition Reference_read :: "Reference \<Rightarrow> members \<Rightarrow> Reference outcome" where
  "Reference_read r ms = obind (read_string ''@id'' (ref_ID r) ms) (\<lambda>i. OK \<lparr>ref_ID = i\<rparr>)"

definition zero_reference :: Reference where "zero_reference = \<lparr>ref_ID = []\<rparr>"

definition Constraint_json :: "Constraint \<Rightarrow> json" where
  "Constraint_json c = JObject [
     (''odrl:rightOperand'', JString (RightOperand c)),
     (''odrl:rightOperandReference'', Reference_json (RightOperandReference c)),
     (''odrl:leftOperand'', JString (LeftOperand c)),
     (''odrl:operator'', JString (con_Operator c))]"

definition Constraint_read :: "Constraint \<Rightarrow> members \<Rightarrow> Constraint outcome" where
  "Constraint_read c ms =
     obind (read_string ''odrl:rightOperand'' (RightOperand c) ms) (\<lambda>ro.
     obind (read_field (Unmarshal_struct Reference_read) ''odrl:rightOperandReference'' (RightOperandReference c) ms) (\<lambda>rr.
     obind (read_string ''odrl:leftOperand'' (LeftOperand c) ms) (\<lambda>lo.
     obind (read_string ''odrl:operator'' (con_Operator c) ms) (\<lambda>op.
     OK \<lparr>RightOperand = ro, RightOperandReference = rr, LeftOperand = lo, con_Operator = op\<rparr>))))"

definition zero_constraint :: Constraint where
  "zero_constraint = \<lparr>RightOperand = [], RightOperandReference = zero_reference, LeftOperand = [], con_Operator = []\<rparr>"

abbreviation Unmarshal_constraints :: "Constraint list \<Rightarrow> json \<Rightarrow> Constraint list outcome" where
  "Unmarshal_constraints \<equiv> Unmarshal_slice (Unmarshal_struct Constraint_read) zero_constraint"

definition Duty_json :: "Duty \<Rightarrow> json" where
  "Duty_json d = JObject (rule_members (duty_rule d) @ omit_string ''@id'' (duty_ID d)
     @ omit_string ''action'' (duty_Action d) @ omit_slice ''constraint'' Constraint_json (duty_Constraint d))"

definition Duty_read :: "Duty \<Rightarrow> members \<Rightarrow> Duty outcome" where
  "Duty_read d ms =
     obind (rule_read (duty_rule d) ms) (\<lambda>r.
     obind (read_string ''@id'' (duty_ID d) ms) (\<lambda>i.
     obind (read_string ''action'' (duty_Action d) ms) (\<lambda>a.
     obind (read_field Unmarshal_constraints ''constraint'' (duty_Constraint d) ms) (\<lambda>cs.
     OK \<lparr>duty_rule = r, duty_ID = i, duty_Action = a, duty_Constraint = cs\<rparr>))))"

definition Permission_json :: "Permission \<Rightarrow> json" where
  "Permission_json p = JObject (rule_members (perm_rule p) @ [(''action'', JString (perm_Action p))]
     @ omit_slice ''constraint'' Constraint_json (perm_Constraint p) @ [(''duty'', Duty_json (perm_Duty p))])"

definition Permission_read :: "Permission \<Rightarrow> members \<Rightarrow> Permission outcome" where
  "Permission_read p ms =
     obind (rule_read (perm_rule p) ms) (\<lambda>r.
     obind (read_string ''action'' (perm_Action p) ms) (\<lambda>a.
     obind (read_field Unmarshal_constraints ''constraint'' (perm_Constraint p) ms) (\<lambda>cs.
     obind (read_field (Unmarshal_struct Duty_read) ''duty'' (perm_Duty p) ms) (\<lambda>d.
     OK \<lparr>perm_rule = r, perm_Action = a, perm_Constraint = cs, perm_Duty = d\<rparr>))))"

definition zero_permission :: Permission where
  "zero_permission = \<lparr>perm_rule = zero_rule, perm_Action = [], perm_Constraint = [], perm_Duty = zero_duty\<rparr>"

text \<open>The members of a policy. In an agreement the identifier is the agreement's own: of two fields with one
  name the less embedded one is written and read, and the other is left alone.\<close>

definition policy_members :: "wire_pkg \<Rightarrow> bool \<Rightarrow> PolicyClass \<Rightarrow> members" where
  "policy_members W shows_id p =
     rule_members (pol_rule p) @ (if shows_id then [(''@id'', JString (pol_ID p))] else [])
     @ omit_string ''dspace:providerId'' (ProviderID p)
     @ omit_slice ''odrl:profile'' Reference_json (pol_Profile p)
     @ omit_slice ''odrl:permission'' Permission_json (pol_Permission p)
     @ omit_slice ''odrl:obligation'' Duty_json (Obligation p)
     @ slice_member W ''odrl:prohibition'' (\<lambda>j. j) (Prohibition p)"

definition policy_read :: "wire_pkg \<Rightarrow> bool \<Rightarrow> PolicyClass \<Rightarrow> members \<Rightarrow> PolicyClass outcome" where
  "policy_read W shows_id p ms =
     obind (rule_read (pol_rule p) ms) (\<lambda>r.
     obind (if shows_id then read_string ''@id'' (pol_ID p) ms else OK (pol_ID p)) (\<lambda>i.
     obind (read_string ''dspace:providerId'' (ProviderID p) ms) (\<lambda>pr.
     obind (read_field (Unmarshal_slice (Unmarshal_struct Reference_read) zero_reference) ''odrl:profile'' (pol_Profile p) ms) (\<lambda>prof.
     obind (read_field (Unmarshal_slice (Unmarshal_struct Permission_read) zero_permission) ''odrl:permission'' (pol_Permission p) ms) (\<lambda>perms.
     obind (read_field (Unmarshal_slice (Unmarshal_struct Duty_read) zero_duty) ''odrl:obligation'' (Obligation p) ms) (\<lambda>obl.
     obind (read_field (Unmarshal_slice (Unmarshal_any W) JNull) ''odrl:prohibition'' (Prohibition p) ms) (\<lambda>proh.
     OK \<lparr>pol_rule = r, pol_ID = i, ProviderID = pr, pol_Profile = prof, pol_Permission = perms, Obligation = obl,
        Prohibition = proh\<rparr>)))))))"

definition MessageOffer_json :: "wire_pkg \<Rightarrow> MessageOffer \<Rightarrow> json" where
  "MessageOffer_json W m = JObject (policy_members W True (mo_policy m)
     @ [(''@type'', JString (mo_Type m)), (''odrl:target'', JString (mo_Target m))])"

definition MessageOffer_read :: "wire_pkg \<Rightarrow> MessageOffer \<Rightarrow> members \<Rightarrow> MessageOffer outcome" where
  "MessageOffer_read W m ms =
     obind (policy_read W True (mo_policy m) ms) (\<lambda>p.
     obind (read_string ''@type'' (mo_Type m) ms) (\<lambda>ty.
     obind (read_string ''odrl:target'' (mo_Target m) ms) (\<lambda>tg.
     OK \<lparr>mo_policy = p, mo_Type = ty, mo_Target = tg\<rparr>)))"

definition zero_message_offer :: MessageOffer where
  "zero_message_offer = \<lparr>mo_policy = zero_policy, mo_Type = [], mo_Target = []\<rparr>"

text \<open>An offer that is stored is the message's offer, embedded.\<close>

definition Offer_json :: "wire_pkg \<Rightarrow> Offer \<Rightarrow> json" where
  "Offer_json W f = MessageOffer_json W (offer_message f)"

definition Offer_read :: "wire_pkg \<Rightarrow> Offer \<Rightarrow> members \<Rightarrow> Offer outcome" where
  "Offer_read W f ms = obind (MessageOffer_read W (offer_message f) ms) (\<lambda>m. OK \<lparr>offer_message = m\<rparr>)"

definition zero_offer :: Offer where "zero_offer = \<lparr>offer_message = zero_message_offer\<rparr>"

definition Agreement_json :: "wire_pkg \<Rightarrow> Agreement \<Rightarrow> json outcome" where
  "Agreement_json W a = obind (time_Marshal W (ag_Timestamp a)) (\<lambda>t.
     OK (JObject (policy_members W False (ag_policy a)
       @ [(''@type'', JString (ag_Type a)), (''@id'', JString (ag_ID a)), (''odrl:target'', JString (ag_Target a)),
          (''dspace:timestamp'', JString t)])))"

definition Agreement_read :: "wire_pkg \<Rightarrow> Agreement \<Rightarrow> members \<Rightarrow> Agreement outcome" where
  "Agreement_read W a ms =
     obind (policy_read W False (ag_policy a) ms) (\<lambda>p.
     obind (read_string ''@type'' (ag_Type a) ms) (\<lambda>ty.
     obind (read_string ''@id'' (ag_ID a) ms) (\<lambda>i.
     obind (read_string ''odrl:target'' (ag_Target a) ms) (\<lambda>tg.
     obind (read_field (Unmarshal_time W) ''dspace:timestamp'' (ag_Timestamp a) ms) (\<lambda>ts.
     OK \<lparr>ag_policy = p, ag_Type = ty, ag_ID = i, ag_Target = tg, ag_Timestamp = ts\<rparr>)))))"

definition zero_agreement :: "wire_pkg \<Rightarrow> Agreement" where
  "zero_agreement W = \<lparr>ag_policy = zero_policy, ag_Type = [], ag_ID = [], ag_Target = [], ag_Timestamp = zero_time W\<rparr>"

section \<open>Values of the messages\<close>

definition Multilanguage_json :: "Multilanguage \<Rightarrow> json" where
  "Multilanguage_json m = JObject [(''@value'', JString (ml_Value m)), (''@language'', JString (ml_Language m))]"

definition Multilanguage_read :: "Multilanguage \<Rightarrow> members \<Rightarrow> Multilanguage outcome" where
  "Multilanguage_read m ms =
     obind (read_string ''@value'' (ml_Value m) ms) (\<lambda>v.
     obind (read_string ''@language'' (ml_Language m) ms) (\<lambda>l. OK \<lparr>ml_Value = v, ml_Language = l\<rparr>))"

definition zero_multilanguage :: Multilanguage where
  "zero_multilanguage = \<lparr>ml_Value = [], ml_Language = []\<rparr>"

definition EndpointProperty_json :: "EndpointProperty \<Rightarrow> json" where
  "EndpointProperty_json p = JObject (omit_string ''@type'' (ep_Type p)
     @ [(''dspace:name'', JString (ep_Name p)), (''dspace:value'', JString (ep_Value p))])"

definition EndpointProperty_read :: "EndpointProperty \<Rightarrow> members \<Rightarrow> EndpointProperty outcome" where
  "EndpointProperty_read p ms =
     obind (read_string ''@type'' (ep_Type p) ms) (\<lambda>t.
     obind (read_string ''dspace:name'' (ep_Name p) ms) (\<lambda>n.
     obind (read_string ''dspace:value'' (ep_Value p) ms) (\<lambda>v. OK \<lparr>ep_Type = t, ep_Name = n, ep_Value = v\<rparr>)))"

definition zero_property :: EndpointProperty where
  "zero_property = \<lparr>ep_Type = [], ep_Name = [], ep_Value = []\<rparr>"

definition DataAddress_json :: "wire_pkg \<Rightarrow> DataAddress \<Rightarrow> json" where
  "DataAddress_json W d = JObject (omit_string ''@type'' (da_Type d)
     @ [(''endpointType'', JString (EndpointType d)), (''endpoint'', JString (Endpoint d))]
     @ slice_member W ''endpointProperties'' EndpointProperty_json (EndpointProperties d))"

definition DataAddress_read :: "DataAddress \<Rightarrow> members \<Rightarrow> DataAddress outcome" where
  "DataAddress_read d ms =
     obind (read_string ''@type'' (da_Type d) ms) (\<lambda>t.
     obind (read_string ''endpointType'' (EndpointType d) ms) (\<lambda>et.
     obind (read_string ''endpoint'' (Endpoint d) ms) (\<lambda>e.
     obind (read_field (Unmarshal_slice (Unmarshal_struct EndpointProperty_read) zero_property) ''endpointProperties''
        (EndpointProperties d) ms) (\<lambda>ps.
     OK \<lparr>da_Type = t, EndpointType = et, Endpoint = e, EndpointProperties = ps\<rparr>))))"

definition zero_data_address :: DataAddress where
  "zero_data_address = \<lparr>da_Type = [], EndpointType = [], Endpoint = [], EndpointProperties = []\<rparr>"

section \<open>Contract messages\<close>

text \<open>A document is read into a message that is empty.\<close>

definition read_document :: "(members \<Rightarrow> 'a outcome) \<Rightarrow> json \<Rightarrow> 'a outcome" where
  "read_document read j = (case j of JObject ms \<Rightarrow> read ms | JNull \<Rightarrow> read [] | _ \<Rightarrow> bad_json ''cannot unmarshal into struct'')"

definition ContractRequest_json :: "wire_pkg \<Rightarrow> ContractRequestMessage \<Rightarrow> json" where
  "ContractRequest_json W m = JObject (
     [(''@context'', Context_MarshalJSON (crm_Context m)), (''@type'', JString (crm_Type m))] @
     omit_string ''dspace:providerPid'' (crm_ProviderPID m) @
     [(''dspace:consumerPid'', JString (crm_ConsumerPID m)),
      (''dspace:offer'', MessageOffer_json W (crm_Offer m)),
      (''dspace:callbackAddress'', JString (crm_CallbackAddress m))])"

definition ContractRequest_read :: "wire_pkg \<Rightarrow> members \<Rightarrow> ContractRequestMessage outcome" where
  "ContractRequest_read W ms =
     obind (read_field Unmarshal_context ''@context'' zero_context ms) (\<lambda>x0.
     obind (read_string ''@type'' [] ms) (\<lambda>x1.
     obind (read_string ''dspace:providerPid'' [] ms) (\<lambda>x2.
     obind (read_string ''dspace:consumerPid'' [] ms) (\<lambda>x3.
     obind (read_field (Unmarshal_struct (MessageOffer_read W)) ''dspace:offer'' zero_message_offer ms) (\<lambda>x4.
     obind (read_string ''dspace:callbackAddress'' [] ms) (\<lambda>x5.
     OK \<lparr>crm_Context = x0, crm_Type = x1, crm_ProviderPID = x2, crm_ConsumerPID = x3, crm_Offer = x4,
        crm_CallbackAddress = x5\<rparr>))))))"

definition ContractOffer_json :: "wire_pkg \<Rightarrow> ContractOfferMessage \<Rightarrow> json" where
  "ContractOffer_json W m = JObject (
     [(''@context'', Context_MarshalJSON (com_Context m)), (''@type'', JString (com_Type m)),
      (''dspace:providerPid'', JString (com_ProviderPID m)),
      (''dspace:consumerPid'', JString (com_ConsumerPID m)),
      (''dspace:offer'', MessageOffer_json W (com_Offer m)),
      (''dspace:callbackAddress'', JString (com_CallbackAddress m))])"

definition ContractOffer_read :: "wire_pkg \<Rightarrow> members \<Rightarrow> ContractOfferMessage outcome" where
  "ContractOffer_read W ms =
     obind (read_field Unmarshal_context ''@context'' zero_context ms) (\<lambda>x0.
     obind (read_string ''@type'' [] ms) (\<lambda>x1.
     obind (read_string ''dspace:providerPid'' [] ms) (\<lambda>x2.
     obind (read_string ''dspace:consumerPid'' [] ms) (\<lambda>x3.
     obind (read_field (Unmarshal_struct (MessageOffer_read W)) ''dspace:offer'' zero_message_offer ms) (\<lambda>x4.
     obind (read_string ''dspace:callbackAddress'' [] ms) (\<lambda>x5.
     OK \<lparr>com_Context = x0, com_Type = x1, com_ProviderPID = x2, com_ConsumerPID = x3, com_Offer = x4,
        com_CallbackAddress = x5\<rparr>))))))"

definition ContractAgreement_json :: "wire_pkg \<Rightarrow> ContractAgreementMessage \<Rightarrow> json outcome" where
  "ContractAgreement_json W m = obind (Agreement_json W (cam_Agreement m)) (\<lambda>a. OK (JObject (
     [(''@context'', Context_MarshalJSON (cam_Context m)), (''@type'', JString (cam_Type m)),
      (''dspace:providerPid'', JString (cam_ProviderPID m)),
      (''dspace:consumerPid'', JString (cam_ConsumerPID m)), (''dspace:agreement'', a),
      (''dspace:callbackAddress'', JString (cam_CallbackAddress m))])))"

definition ContractAgreement_read :: "wire_pkg \<Rightarrow> members \<Rightarrow> ContractAgreementMessage outcome" where
  "ContractAgreement_read W ms =
     obind (read_field Unmarshal_context ''@context'' zero_context ms) (\<lambda>x0.
     obind (read_string ''@type'' [] ms) (\<lambda>x1.
     obind (read_string ''dspace:providerPid'' [] ms) (\<lambda>x2.
     obind (read_string ''dspace:consumerPid'' [] ms) (\<lambda>x3.
     obind (read_field (Unmarshal_struct (Agreement_read W)) ''dspace:agreement'' (zero_agreement W) ms) (\<lambda>x4.
     obind (read_string ''dspace:callbackAddress'' [] ms) (\<lambda>x5.
     OK \<lparr>cam_Context = x0, cam_Type = x1, cam_ProviderPID = x2, cam_ConsumerPID = x3, cam_Agreement = x4,
        cam_CallbackAddress = x5\<rparr>))))))"

definition ContractVerification_json :: "ContractAgreementVerificationMessage \<Rightarrow> json" where
  "ContractVerification_json m = JObject (
     [(''@context'', Context_MarshalJSON (cvm_Context m)), (''@type'', JString (cvm_Type m)),
      (''dspace:providerPid'', JString (cvm_ProviderPID m)),
      (''dspace:consumerPid'', JString (cvm_ConsumerPID m))])"

definition ContractVerification_read :: "members \<Rightarrow> ContractAgreementVerificationMessage outcome" where
  "ContractVerification_read ms =
     obind (read_field Unmarshal_context ''@context'' zero_context ms) (\<lambda>x0.
     obind (read_string ''@type'' [] ms) (\<lambda>x1.
     obind (read_string ''dspace:providerPid'' [] ms) (\<lambda>x2.
     obind (read_string ''dspace:consumerPid'' [] ms) (\<lambda>x3.
     OK \<lparr>cvm_Context = x0, cvm_Type = x1, cvm_ProviderPID = x2, cvm_ConsumerPID = x3\<rparr>))))"

definition ContractEvent_json :: "ContractNegotiationEventMessage \<Rightarrow> json" where
  "ContractEvent_json m = JObject (
     [(''@context'', Context_MarshalJSON (cem_Context m)), (''@type'', JString (cem_Type m)),
      (''dspace:providerPid'', JString (cem_ProviderPID m)),
      (''dspace:consumerPid'', JString (cem_ConsumerPID m)),
      (''dspace:eventType'', JString (cem_EventType m))])"

definition ContractEvent_read :: "members \<Rightarrow> ContractNegotiationEventMessage outcome" where
  "ContractEvent_read ms =
     obind (read_field Unmarshal_context ''@context'' zero_context ms) (\<lambda>x0.
     obind (read_string ''@type'' [] ms) (\<lambda>x1.
     obind (read_string ''dspace:providerPid'' [] ms) (\<lambda>x2.
     obind (read_string ''dspace:consumerPid'' [] ms) (\<lambda>x3.
     obind (read_string ''dspace:eventType'' [] ms) (\<lambda>x4.
     OK \<lparr>cem_Context = x0, cem_Type = x1, cem_ProviderPID = x2, cem_ConsumerPID = x3, cem_EventType = x4\<rparr>)))))"

definition ContractTermination_json :: "wire_pkg \<Rightarrow> ContractNegotiationTerminationMessage \<Rightarrow> json" where
  "ContractTermination_json W m = JObject (
     [(''@context'', Context_MarshalJSON (ctm_Context m)), (''@type'', JString (ctm_Type m)),
      (''dspace:providerPid'', JString (ctm_ProviderPID m)),
      (''dspace:consumerPid'', JString (ctm_ConsumerPID m)), (''dspace:code'', JString (ctm_Code m))] @
     slice_member W ''dspace:reason'' Multilanguage_json (ctm_Reason m))"

definition ContractTermination_read :: "members \<Rightarrow> ContractNegotiationTerminationMessage outcome" where
  "ContractTermination_read ms =
     obind (read_field Unmarshal_context ''@context'' zero_context ms) (\<lambda>x0.
     obind (read_string ''@type'' [] ms) (\<lambda>x1.
     obind (read_string ''dspace:providerPid'' [] ms) (\<lambda>x2.
     obind (read_string ''dspace:consumerPid'' [] ms) (\<lambda>x3.
     obind (read_string ''dspace:code'' [] ms) (\<lambda>x4.
     obind (read_field (Unmarshal_slice (Unmarshal_struct Multilanguage_read) zero_multilanguage) ''dspace:reason'' [] ms) (\<lambda>x5.
     OK \<lparr>ctm_Context = x0, ctm_Type = x1, ctm_ProviderPID = x2, ctm_ConsumerPID = x3, ctm_Code = x4,
        ctm_Reason = x5\<rparr>))))))"

definition ContractNegotiation_json :: "ContractNegotiation \<Rightarrow> json" where
  "ContractNegotiation_json m = JObject (
     [(''@context'', Context_MarshalJSON (cn_Context m)), (''@type'', JString (cn_Type m)),
      (''dspace:providerPid'', JString (cn_ProviderPID m)),
      (''dspace:consumerPid'', JString (cn_ConsumerPID m)), (''dspace:state'', JString (cn_State m))])"

definition ContractNegotiation_read :: "members \<Rightarrow> ContractNegotiation outcome" where
  "ContractNegotiation_read ms =
     obind (read_field Unmarshal_context ''@context'' zero_context ms) (\<lambda>x0.
     obind (read_string ''@type'' [] ms) (\<lambda>x1.
     obind (read_string ''dspace:providerPid'' [] ms) (\<lambda>x2.
     obind (read_string ''dspace:consumerPid'' [] ms) (\<lambda>x3.
     obind (read_string ''dspace:state'' [] ms) (\<lambda>x4.
     OK \<lparr>cn_Context = x0, cn_Type = x1, cn_ProviderPID = x2, cn_ConsumerPID = x3, cn_State = x4\<rparr>)))))"

section \<open>Versions and errors\<close>

definition ProtocolVersion_json :: "ProtocolVersion \<Rightarrow> json" where
  "ProtocolVersion_json v = JObject [(''version'', JString (pv_Version v)), (''path'', JString (pv_Path v))]"

definition ProtocolVersion_read :: "ProtocolVersion \<Rightarrow> members \<Rightarrow> ProtocolVersion outcome" where
  "ProtocolVersion_read v ms =
     obind (read_string ''version'' (pv_Version v) ms) (\<lambda>n.
     obind (read_string ''path'' (pv_Path v) ms) (\<lambda>p. OK \<lparr>pv_Version = n, pv_Path = p\<rparr>))"

definition zero_version :: ProtocolVersion where
  "zero_version = \<lparr>pv_Version = [], pv_Path = []\<rparr>"

definition VersionResponse_json :: "wire_pkg \<Rightarrow> VersionResponse \<Rightarrow> json" where
  "VersionResponse_json W m = JObject ((''@context'', Context_MarshalJSON (vr_Context m))
     # slice_member W ''protocolVersions'' ProtocolVersion_json (ProtocolVersions m))"

definition VersionResponse_read :: "members \<Rightarrow> VersionResponse outcome" where
  "VersionResponse_read ms =
     obind (read_field Unmarshal_context ''@context'' zero_context ms) (\<lambda>x0.
     obind (read_field (Unmarshal_slice (Unmarshal_struct ProtocolVersion_read) zero_version) ''protocolVersions'' [] ms) (\<lambda>x1.
     OK \<lparr>vr_Context = x0, ProtocolVersions = x1\<rparr>))"

definition DSPError_json :: "DSPError \<Rightarrow> json" where
  "DSPError_json m = JObject (
     [(''@context'', Context_MarshalJSON (de_Context m)), (''@type'', JString (de_Type m))] @
     omit_string ''dspace:providerPid'' (de_ProviderPID m) @
     omit_string ''dspace:consumerPid'' (de_ConsumerPID m) @
     omit_string ''dspace:code'' (de_Code m) @
     omit_slice ''dspace:reason'' Multilanguage_json (de_Reason m) @
     omit_slice ''dct:description'' Multilanguage_json (de_Description m))"

definition DSPError_read :: "members \<Rightarrow> DSPError outcome" where
  "DSPError_read ms =
     obind (read_field Unmarshal_context ''@context'' zero_context ms) (\<lambda>x0.
     obind (read_string ''@type'' [] ms) (\<lambda>x1.
     obind (read_string ''dspace:providerPid'' [] ms) (\<lambda>x2.
     obind (read_string ''dspace:consumerPid'' [] ms) (\<lambda>x3.
     obind (read_string ''dspace:code'' [] ms) (\<lambda>x4.
     obind (read_field (Unmarshal_slice (Unmarshal_struct Multilanguage_read) zero_multilanguage) ''dspace:reason'' [] ms) (\<lambda>x5.
     obind (read_field (Unmarshal_slice (Unmarshal_struct Multilanguage_read) zero_multilanguage) ''dct:description'' [] ms) (\<lambda>x6.
     OK \<lparr>de_Context = x0, de_Type = x1, de_ProviderPID = x2, de_ConsumerPID = x3, de_Code = x4, de_Reason = x5,
        de_Description = x6\<rparr>)))))))"

section \<open>Transfer messages\<close>

definition TransferRequest_json :: "wire_pkg \<Rightarrow> TransferRequestMessage \<Rightarrow> json" where
  "TransferRequest_json W m = JObject (
     [(''@context'', Context_MarshalJSON (trm_Context m))] @
     omit_string ''@type'' (trm_Type m) @
     [(''dspace:agreementID'', JString (trm_AgreementID m)), (''dct:format'', JString (trm_Format m))] @
     omit_pointer ''dspace:dataAddress'' (DataAddress_json W) (trm_DataAddress m) @
     [(''dspace:callbackAddress'', JString (trm_CallbackAddress m)),
      (''dspace:consumerPid'', JString (trm_ConsumerPID m))])"

definition TransferRequest_read :: "members \<Rightarrow> TransferRequestMessage outcome" where
  "TransferRequest_read ms =
     obind (read_field Unmarshal_context ''@context'' zero_context ms) (\<lambda>x0.
     obind (read_string ''@type'' [] ms) (\<lambda>x1.
     obind (read_string ''dspace:agreementID'' [] ms) (\<lambda>x2.
     obind (read_string ''dct:format'' [] ms) (\<lambda>x3.
     obind (read_field (Unmarshal_pointer (Unmarshal_struct DataAddress_read) zero_data_address) ''dspace:dataAddress'' None ms) (\<lambda>x4.
     obind (read_string ''dspace:callbackAddress'' [] ms) (\<lambda>x5.
     obind (read_string ''dspace:consumerPid'' [] ms) (\<lambda>x6.
     OK \<lparr>trm_Context = x0, trm_Type = x1, trm_AgreementID = x2, trm_Format = x3, trm_DataAddress = x4,
        trm_CallbackAddress = x5, trm_ConsumerPID = x6\<rparr>)))))))"

definition TransferStart_json :: "wire_pkg \<Rightarrow> TransferStartMessage \<Rightarrow> json" where
  "TransferStart_json W m = JObject (
     [(''@context'', Context_MarshalJSON (tsm_Context m))] @
     omit_string ''@type'' (tsm_Type m) @
     [(''dspace:providerPid'', JString (tsm_ProviderPID m)),
      (''dspace:consumerPid'', JString (tsm_ConsumerPID m))] @
     omit_pointer ''dspace:dataAddress'' (DataAddress_json W) (tsm_DataAddress m))"

definition TransferStart_read :: "members \<Rightarrow> TransferStartMessage outcome" where
  "TransferStart_read ms =
     obind (read_field Unmarshal_context ''@context'' zero_context ms) (\<lambda>x0.
     obind (read_string ''@type'' [] ms) (\<lambda>x1.
     obind (read_string ''dspace:providerPid'' [] ms) (\<lambda>x2.
     obind (read_string ''dspace:consumerPid'' [] ms) (\<lambda>x3.
     obind (read_field (Unmarshal_pointer (Unmarshal_struct DataAddress_read) zero_data_address) ''dspace:dataAddress'' None ms) (\<lambda>x4.
     OK \<lparr>tsm_Context = x0, tsm_Type = x1, tsm_ProviderPID = x2, tsm_ConsumerPID = x3, tsm_DataAddress = x4\<rparr>)))))"

definition TransferSuspension_json :: "TransferSuspensionMessage \<Rightarrow> json" where
  "TransferSuspension_json m = JObject (
     [(''@context'', Context_MarshalJSON (tum_Context m))] @
     omit_string ''@type'' (tum_Type m) @
     omit_string ''dspace:providerPid'' (tum_ProviderPID m) @
     omit_string ''dspace:consumerPid'' (tum_ConsumerPID m) @
     omit_string ''code'' (tum_Code m) @
     omit_slice ''reason'' (\<lambda>j. j) (tum_Reason m))"

definition TransferSuspension_read :: "wire_pkg \<Rightarrow> members \<Rightarrow> TransferSuspensionMessage outcome" where
  "TransferSuspension_read W ms =
     obind (read_field Unmarshal_context ''@context'' zero_context ms) (\<lambda>x0.
     obind (read_string ''@type'' [] ms) (\<lambda>x1.
     obind (read_string ''dspace:providerPid'' [] ms) (\<lambda>x2.
     obind (read_string ''dspace:consumerPid'' [] ms) (\<lambda>x3.
     obind (read_string ''code'' [] ms) (\<lambda>x4.
     obind (read_field (Unmarshal_slice (Unmarshal_any_map W) JNull) ''reason'' [] ms) (\<lambda>x5.
     OK \<lparr>tum_Context = x0, tum_Type = x1, tum_ProviderPID = x2, tum_ConsumerPID = x3, tum_Code = x4,
        tum_Reason = x5\<rparr>))))))"

definition TransferCompletion_json :: "TransferCompletionMessage \<Rightarrow> json" where
  "TransferCompletion_json m = JObject (
     [(''@context'', Context_MarshalJSON (tcm_Context m))] @
     omit_string ''@type'' (tcm_Type m) @
     omit_string ''dspace:providerPid'' (tcm_ProviderPID m) @
     omit_string ''dspace:consumerPid'' (tcm_ConsumerPID m))"

definition TransferCompletion_read :: "members \<Rightarrow> TransferCompletionMessage outcome" where
  "TransferCompletion_read ms =
     obind (read_field Unmarshal_context ''@context'' zero_context ms) (\<lambda>x0.
     obind (read_string ''@type'' [] ms) (\<lambda>x1.
     obind (read_string ''dspace:providerPid'' [] ms) (\<lambda>x2.
     obind (read_string ''dspace:consumerPid'' [] ms) (\<lambda>x3.
     OK \<lparr>tcm_Context = x0, tcm_Type = x1, tcm_ProviderPID = x2, tcm_ConsumerPID = x3\<rparr>))))"

definition TransferTermination_json :: "TransferTerminationMessage \<Rightarrow> json" where
  "TransferTermination_json m = JObject (
     [(''@context'', Context_MarshalJSON (ttm_Context m))] @
     omit_string ''@type'' (ttm_Type m) @
     omit_string ''dspace:providerPid'' (ttm_ProviderPID m) @
     omit_string ''dspace:consumerPid'' (ttm_ConsumerPID m) @
     omit_string ''code'' (ttm_Code m) @
     omit_slice ''reason'' (\<lambda>j. j) (ttm_Reason m))"

definition TransferTermination_read :: "wire_pkg \<Rightarrow> members \<Rightarrow> TransferTerminationMessage outcome" where
  "TransferTermination_read W ms =
     obind (read_field Unmarshal_context ''@context'' zero_context ms) (\<lambda>x0.
     obind (read_string ''@type'' [] ms) (\<lambda>x1.
     obind (read_string ''dspace:providerPid'' [] ms) (\<lambda>x2.
     obind (read_string ''dspace:consumerPid'' [] ms) (\<lambda>x3.
     obind (read_string ''code'' [] ms) (\<lambda>x4.
     obind (read_field (Unmarshal_slice (Unmarshal_any_map W) JNull) ''reason'' [] ms) (\<lambda>x5.
     OK \<lparr>ttm_Context = x0, ttm_Type = x1, ttm_ProviderPID = x2, ttm_ConsumerPID = x3, ttm_Code = x4,
        ttm_Reason = x5\<rparr>))))))"

definition TransferProcess_json :: "TransferProcess \<Rightarrow> json" where
  "TransferProcess_json m = JObject (
     [(''@context'', Context_MarshalJSON (tp_Context m))] @
     omit_string ''@type'' (tp_Type m) @
     omit_string ''dspace:providerPid'' (tp_ProviderPID m) @
     omit_string ''dspace:consumerPid'' (tp_ConsumerPID m) @
     [(''dspace:state'', JString (tp_State m))])"

definition TransferProcess_read :: "members \<Rightarrow> TransferProcess outcome" where
  "TransferProcess_read ms =
     obind (read_field Unmarshal_context ''@context'' zero_context ms) (\<lambda>x0.
     obind (read_string ''@type'' [] ms) (\<lambda>x1.
     obind (read_string ''dspace:providerPid'' [] ms) (\<lambda>x2.
     obind (read_string ''dspace:consumerPid'' [] ms) (\<lambda>x3.
     obind (read_string ''dspace:state'' [] ms) (\<lambda>x4.
     OK \<lparr>tp_Context = x0, tp_Type = x1, tp_ProviderPID = x2, tp_ConsumerPID = x3, tp_State = x4\<rparr>)))))"

section \<open>Any message\<close>

fun message_json :: "wire_pkg \<Rightarrow> message \<Rightarrow> json outcome" where
  "message_json W (MContractRequest t) = OK (ContractRequest_json W t)"
| "message_json W (MContractOffer t) = OK (ContractOffer_json W t)"
| "message_json W (MContractAgreement t) = ContractAgreement_json W t"
| "message_json W (MContractVerification t) = OK (ContractVerification_json t)"
| "message_json W (MContractEvent t) = OK (ContractEvent_json t)"
| "message_json W (MContractTermination t) = OK (ContractTermination_json W t)"
| "message_json W (MTransferRequest t) = OK (TransferRequest_json W t)"
| "message_json W (MTransferStart t) = OK (TransferStart_json W t)"
| "message_json W (MTransferSuspension t) = OK (TransferSuspension_json t)"
| "message_json W (MTransferCompletion t) = OK (TransferCompletion_json t)"
| "message_json W (MTransferTermination t) = OK (TransferTermination_json t)"

text \<open>The handler of a message decides as what a document is read.\<close>

datatype message_kind = KContractRequest | KContractOffer | KContractAgreement | KContractVerification | KContractEvent
  | KContractTermination | KTransferRequest | KTransferStart | KTransferSuspension | KTransferCompletion | KTransferTermination

fun kind_of :: "message \<Rightarrow> message_kind" where
  "kind_of (MContractRequest t) = KContractRequest"
| "kind_of (MContractOffer t) = KContractOffer"
| "kind_of (MContractAgreement t) = KContractAgreement"
| "kind_of (MContractVerification t) = KContractVerification"
| "kind_of (MContractEvent t) = KContractEvent"
| "kind_of (MContractTermination t) = KContractTermination"
| "kind_of (MTransferRequest t) = KTransferRequest"
| "kind_of (MTransferStart t) = KTransferStart"
| "kind_of (MTransferSuspension t) = KTransferSuspension"
| "kind_of (MTransferCompletion t) = KTransferCompletion"
| "kind_of (MTransferTermination t) = KTransferTermination"

fun read_as :: "wire_pkg \<Rightarrow> message_kind \<Rightarrow> json \<Rightarrow> message outcome" where
  "read_as W KContractRequest j = obind (read_document (ContractRequest_read W) j) (\<lambda>t. OK (MContractRequest t))"
| "read_as W KContractOffer j = obind (read_document (ContractOffer_read W) j) (\<lambda>t. OK (MContractOffer t))"
| "read_as W KContractAgreement j = obind (read_document (ContractAgreement_read W) j) (\<lambda>t. OK (MContractAgreement t))"
| "read_as W KContractVerification j = obind (read_document ContractVerification_read j) (\<lambda>t. OK (MContractVerification t))"
| "read_as W KContractEvent j = obind (read_document ContractEvent_read j) (\<lambda>t. OK (MContractEvent t))"
| "read_as W KContractTermination j = obind (read_document ContractTermination_read j) (\<lambda>t. OK (MContractTermination t))"
| "read_as W KTransferRequest j = obind (read_document TransferRequest_read j) (\<lambda>t. OK (MTransferRequest t))"
| "read_as W KTransferStart j = obind (read_document TransferStart_read j) (\<lambda>t. OK (MTransferStart t))"
| "read_as W KTransferSuspension j = obind (read_document (TransferSuspension_read W) j) (\<lambda>t. OK (MTransferSuspension t))"
| "read_as W KTransferCompletion j = obind (read_document TransferCompletion_read j) (\<lambda>t. OK (MTransferCompletion t))"
| "read_as W KTransferTermination j = obind (read_document (TransferTermination_read W) j) (\<lambda>t. OK (MTransferTermination t))"

end
