(* ===== verification/Wire_Facts.thy ===== *)
theory Wire_Facts
  imports Wire
begin

text \<open>
  What of a message arrives: every message is read back as it was written, but for the identifier an
  agreement's policy may have besides its own, and what was read once is written and read again without
  change. A document is valid as at most one kind of message.
\<close>

section \<open>Names\<close>

lemma lower_names:
  "ToLower ''@context'' = ''@context''" "ToLower ''@id'' = ''@id''" "ToLower ''@type'' = ''@type''"
  "ToLower ''@value'' = ''@value''" "ToLower ''@language'' = ''@language''"
  "ToLower ''action'' = ''action''" "ToLower ''constraint'' = ''constraint''" "ToLower ''duty'' = ''duty''"
  "ToLower ''code'' = ''code''" "ToLower ''reason'' = ''reason''"
  "ToLower ''endpointType'' = ''endpointtype''" "ToLower ''endpoint'' = ''endpoint''"
  "ToLower ''endpointProperties'' = ''endpointproperties''"
  "ToLower ''dct:format'' = ''dct:format''" "ToLower ''odrl:assigner'' = ''odrl:assigner''"
  "ToLower ''odrl:assignee'' = ''odrl:assignee''" "ToLower ''odrl:rightOperand'' = ''odrl:rightoperand''"
  "ToLower ''odrl:rightOperandReference'' = ''odrl:rightoperandreference''"
  "ToLower ''odrl:leftOperand'' = ''odrl:leftoperand''" "ToLower ''odrl:operator'' = ''odrl:operator''"
  "ToLower ''odrl:profile'' = ''odrl:profile''" "ToLower ''odrl:permission'' = ''odrl:permission''"
  "ToLower ''odrl:obligation'' = ''odrl:obligation''" "ToLower ''odrl:prohibition'' = ''odrl:prohibition''"
  "ToLower ''odrl:target'' = ''odrl:target''" "ToLower ''dspace:timestamp'' = ''dspace:timestamp''"
  "ToLower ''dspace:providerId'' = ''dspace:providerid''" "ToLower ''dspace:providerPid'' = ''dspace:providerpid''"
  "ToLower ''dspace:consumerPid'' = ''dspace:consumerpid''" "ToLower ''dspace:offer'' = ''dspace:offer''"
  "ToLower ''dspace:agreement'' = ''dspace:agreement''" "ToLower ''dspace:callbackAddress'' = ''dspace:callbackaddress''"
  "ToLower ''dspace:eventType'' = ''dspace:eventtype''" "ToLower ''dspace:code'' = ''dspace:code''"
  "ToLower ''dspace:reason'' = ''dspace:reason''" "ToLower ''dspace:state'' = ''dspace:state''"
  "ToLower ''dspace:agreementID'' = ''dspace:agreementid''" "ToLower ''dspace:dataAddress'' = ''dspace:dataaddress''"
  "ToLower ''version'' = ''version''" "ToLower ''path'' = ''path''" "ToLower ''protocolVersions'' = ''protocolversions''"
  "ToLower ''dct:description'' = ''dct:description''"
  "ToLower ''dspace:name'' = ''dspace:name''" "ToLower ''dspace:value'' = ''dspace:value''"
  by code_simp+

lemma same_key_refl [simp]: "same_key n n"
  by (simp add: same_key_def)

named_theorems wire_simps \<open>reading what was written\<close>

lemmas [wire_simps] = same_key_def lower_names

section \<open>Reading members\<close>

lemma read_field_append [wire_simps]:
  "read_field dec n v (xs @ ys) = obind (read_field dec n v xs) (\<lambda>w. read_field dec n w ys)"
  by (induction dec n v xs rule: read_field.induct) (auto simp: obind_assoc intro: obind_cong)

lemma read_own_string [wire_simps]: "read_field Unmarshal_string n [] (omit_string n s) = OK s"
  by (simp add: omit_string_def)

lemma read_others [wire_simps]:
  "ToLower k \<noteq> ToLower n \<Longrightarrow> read_field dec n v (omit_string k s) = OK v"
  "ToLower k \<noteq> ToLower n \<Longrightarrow> read_field dec n v (omit_slice k enc xs) = OK v"
  "ToLower k \<noteq> ToLower n \<Longrightarrow> read_field dec n v (slice_member W k enc xs) = OK v"
  "ToLower k \<noteq> ToLower n \<Longrightarrow> read_field dec n v (omit_pointer k enc' p) = OK v"
  by (auto simp: same_key_def omit_string_def omit_slice_def slice_member_def omit_pointer_def split: option.split)

lemma omap_back: "(\<And>x. x \<in> set xs \<Longrightarrow> dec (enc x) = OK x) \<Longrightarrow> omap dec (map enc xs) = OK xs"
  by (induction xs) auto

lemma read_slice_member:
  assumes "empty_slice W \<in> {JNull, JList []}" and "\<And>x. x \<in> set xs \<Longrightarrow> dec zero (enc x) = OK x"
  shows "read_field (Unmarshal_slice dec zero) n old (slice_member W n enc xs) = OK xs"
  using assms omap_back[of xs "dec zero" enc] by (auto simp: slice_member_def Unmarshal_slice_def)

lemma read_omit_slice:
  assumes "\<And>x. x \<in> set xs \<Longrightarrow> dec zero (enc x) = OK x"
  shows "read_field (Unmarshal_slice dec zero) n [] (omit_slice n enc xs) = OK xs"
  using assms omap_back[of xs "dec zero" enc] by (simp add: omit_slice_def Unmarshal_slice_def)

lemma read_omit_pointer:
  assumes "\<And>x. p = Some x \<Longrightarrow> dec zero (enc x) = OK x \<and> enc x \<noteq> JNull"
  shows "read_field (Unmarshal_pointer dec zero) n None (omit_pointer n enc p) = OK p"
  using assms by (simp add: omit_pointer_def Unmarshal_pointer_def split: option.split)

text \<open>A struct all of whose values are read back: it is as a member, as an element and behind a pointer.\<close>

locale struct_codec =
  fixes enc :: "'a \<Rightarrow> json" and read :: "'a \<Rightarrow> members \<Rightarrow> 'a outcome" and zero :: 'a
  assumes reads_back: "\<exists>ms. enc x = JObject ms \<and> read zero ms = OK x"
begin

lemma struct: "Unmarshal_struct read zero (enc x) = OK x"
  using reads_back[of x] by (auto simp: Unmarshal_struct_def)

lemma slice: "read_field (Unmarshal_slice (Unmarshal_struct read) zero) n [] (omit_slice n enc xs) = OK xs"
  by (rule read_omit_slice) (rule struct)

lemma made_slice:
  "empty_slice W \<in> {JNull, JList []} \<Longrightarrow>
     read_field (Unmarshal_slice (Unmarshal_struct read) zero) n old (slice_member W n enc xs) = OK xs"
  by (rule read_slice_member) (simp_all add: struct)

lemma pointer: "read_field (Unmarshal_pointer (Unmarshal_struct read) zero) n None (omit_pointer n enc p) = OK p"
proof (rule read_omit_pointer)
  show "Unmarshal_struct read zero (enc x) = OK x \<and> enc x \<noteq> JNull" for x using reads_back[of x] by (auto simp: struct)
qed

end

interpretation ref: struct_codec Reference_json Reference_read zero_reference
  by unfold_locales (simp add: Reference_json_def Reference_read_def zero_reference_def wire_simps)

interpretation con: struct_codec Constraint_json Constraint_read zero_constraint
  by unfold_locales (simp add: Constraint_json_def Constraint_read_def zero_constraint_def ref.struct wire_simps)

lemma rule_read_back [wire_simps]:
  "read_string ''odrl:assigner'' (Assigner r) ms = OK (Assigner r) \<Longrightarrow> read_string ''odrl:assignee'' (Assignee r) ms = OK (Assignee r) \<Longrightarrow>
     rule_read zero_rule (rule_members r @ ms) = OK r"
  by (simp add: rule_read_def rule_members_def zero_rule_def wire_simps)

lemma rule_others [wire_simps]:
  "ToLower n \<noteq> ''odrl:assigner'' \<Longrightarrow> ToLower n \<noteq> ''odrl:assignee'' \<Longrightarrow> read_field dec n v (rule_members r) = OK v"
  by (auto simp: rule_members_def omit_string_def wire_simps)

interpretation duty: struct_codec Duty_json Duty_read zero_duty
  by unfold_locales (simp add: Duty_json_def Duty_read_def zero_duty_def con.slice wire_simps)

interpretation perm: struct_codec Permission_json Permission_read zero_permission
  by unfold_locales (simp add: Permission_json_def Permission_read_def zero_permission_def con.slice duty.struct wire_simps)

interpretation ml: struct_codec Multilanguage_json Multilanguage_read zero_multilanguage
  by unfold_locales (simp add: Multilanguage_json_def Multilanguage_read_def zero_multilanguage_def wire_simps)

interpretation ver: struct_codec ProtocolVersion_json ProtocolVersion_read zero_version
  by unfold_locales (simp add: ProtocolVersion_json_def ProtocolVersion_read_def zero_version_def wire_simps)

interpretation ep: struct_codec EndpointProperty_json EndpointProperty_read zero_property
  by unfold_locales (simp add: EndpointProperty_json_def EndpointProperty_read_def zero_property_def wire_simps)

section \<open>What arrives\<close>

lemma wire_lawsD:
  assumes "wire_laws W"
  shows "empty_slice W \<in> {JNull, JList []}" "writable W (zero_time W)" "time_Unmarshal W s = OK t \<Longrightarrow> writable W t"
    "as_any W (as_any W j) = as_any W j" "\<exists>ms'. as_any W (JObject ms) = JObject ms'"
  using assms by (auto simp: wire_laws_def)

text \<open>A value without a type is fit when it is as the library reads it, a reason when it is such an object or
  \<open>null\<close>.\<close>

definition fit_any :: "wire_pkg \<Rightarrow> json \<Rightarrow> bool" where
  "fit_any W j \<longleftrightarrow> as_any W j = j"

definition fit_reason :: "wire_pkg \<Rightarrow> json \<Rightarrow> bool" where
  "fit_reason W j \<longleftrightarrow> j = JNull \<or> (\<exists>ms. j = JObject ms) \<and> fit_any W j"

definition fit_offer :: "wire_pkg \<Rightarrow> MessageOffer \<Rightarrow> bool" where
  "fit_offer W m \<longleftrightarrow> list_all (fit_any W) (Prohibition (mo_policy m))"

definition fit_agreement :: "wire_pkg \<Rightarrow> Agreement \<Rightarrow> bool" where
  "fit_agreement W a \<longleftrightarrow> list_all (fit_any W) (Prohibition (ag_policy a)) \<and> writable W (ag_Timestamp a)"

definition forget_policy_id :: "Agreement \<Rightarrow> Agreement" where
  "forget_policy_id a = a\<lparr>ag_policy := (ag_policy a)\<lparr>pol_ID := []\<rparr>\<rparr>"

lemma prohibitions_back:
  assumes "wire_laws W" and "list_all (fit_any W) js"
  shows "read_field (Unmarshal_slice (Unmarshal_any W) JNull) n [] (slice_member W n (\<lambda>j. j) js) = OK js"
  using assms by (intro read_slice_member wire_lawsD(1)) (simp_all add: Unmarshal_any_def fit_any_def list_all_iff)

lemma reasons_back:
  assumes "list_all (fit_reason W) js"
  shows "read_field (Unmarshal_slice (Unmarshal_any_map W) JNull) n [] (omit_slice n (\<lambda>j. j) js) = OK js"
  using assms by (intro read_omit_slice) (auto simp: Unmarshal_any_map_def fit_reason_def fit_any_def list_all_iff)

lemma context_back:
  assumes "wf_Context c"
  shows "Unmarshal_context zero_context (Context_MarshalJSON c) = OK c"
proof (cases "namedContexts c = []")
  case True
  then have "\<not> is_OK (Unmarshal_entry_map (Context_MarshalJSON c))"
    using assms by (auto simp: Context_MarshalJSON_def ContextEntry_MarshalJSON_def wf_Context_def bad_json_def split: list.split)
  then show ?thesis using context_roundtrip_aux[OF assms] by (simp add: Unmarshal_context_def)
next
  case False
  then have "rootContexts c = []" using assms by (auto simp: wf_Context_def)
  then show ?thesis using context_roundtrip_aux[OF assms] by (cases c) (simp add: Unmarshal_context_def zero_context_def)
qed

lemma policy_back:
  assumes "wire_laws W" and "list_all (fit_any W) (Prohibition p)"
    and "\<And>n dec (v :: string). n \<in> {''odrl:assigner'', ''odrl:assignee'', ''dspace:providerId''} \<Longrightarrow> read_string n v ms = OK v"
    and "shows_id \<Longrightarrow> \<forall>v. read_string ''@id'' v ms = OK v"
    and "\<And>v. read_field (Unmarshal_slice (Unmarshal_struct Reference_read) zero_reference) ''odrl:profile'' v ms = OK v"
    and "\<And>v. read_field (Unmarshal_slice (Unmarshal_struct Permission_read) zero_permission) ''odrl:permission'' v ms = OK v"
    and "\<And>v. read_field (Unmarshal_slice (Unmarshal_struct Duty_read) zero_duty) ''odrl:obligation'' v ms = OK v"
    and "\<And>v. read_field (Unmarshal_slice (Unmarshal_any W) JNull) ''odrl:prohibition'' v ms = OK v"
  shows "policy_read W shows_id zero_policy (policy_members W shows_id p @ ms) = OK (if shows_id then p else p\<lparr>pol_ID := []\<rparr>)"
  using assms(3-8)
  by (cases shows_id) (simp_all add: policy_read_def policy_members_def zero_policy_def wire_simps ref.slice perm.slice duty.slice
      prohibitions_back[OF assms(1,2)])

lemma policy_others [wire_simps]:
  "ToLower n \<notin> set [''odrl:assigner'', ''odrl:assignee'', ''dspace:providerid'', ''odrl:profile'', ''odrl:permission'',
      ''odrl:obligation'', ''odrl:prohibition''] \<Longrightarrow> \<not> shows_id \<or> ToLower n \<noteq> ''@id'' \<Longrightarrow>
     read_field dec n v (policy_members W shows_id p) = OK v"
  by (auto simp: policy_members_def wire_simps)

lemma offer_back:
  assumes "wire_laws W" and "fit_offer W m"
  shows "Unmarshal_struct (MessageOffer_read W) zero_message_offer (MessageOffer_json W m) = OK m"
proof -
  have "policy_read W True zero_policy (policy_members W True (mo_policy m)
      @ [(''@type'', JString (mo_Type m)), (''odrl:target'', JString (mo_Target m))]) = OK (mo_policy m)"
    using assms(2) by (subst policy_back[OF assms(1)]) (auto simp: fit_offer_def wire_simps)
  then show ?thesis
    by (simp add: Unmarshal_struct_def MessageOffer_json_def MessageOffer_read_def zero_message_offer_def wire_simps)
qed

lemma agreement_back:
  assumes "wire_laws W" and "fit_agreement W a"
  shows "\<exists>j. Agreement_json W a = OK j \<and> Unmarshal_struct (Agreement_read W) (zero_agreement W) j = OK (forget_policy_id a)"
proof -
  obtain t where t: "time_Marshal W (ag_Timestamp a) = OK t" "time_Unmarshal W t = OK (ag_Timestamp a)"
    using assms(2) by (auto simp: fit_agreement_def writable_def)
  have "policy_read W False zero_policy (policy_members W False (ag_policy a)
      @ [(''@type'', JString (ag_Type a)), (''@id'', JString (ag_ID a)), (''odrl:target'', JString (ag_Target a)),
         (''dspace:timestamp'', JString t)]) = OK ((ag_policy a)\<lparr>pol_ID := []\<rparr>)"
    using assms(2) by (subst policy_back[OF assms(1)]) (auto simp: fit_agreement_def wire_simps)
  then show ?thesis using t
    by (simp add: Unmarshal_struct_def Agreement_json_def Agreement_read_def zero_agreement_def Unmarshal_time_def
        forget_policy_id_def wire_simps)
qed

lemma address_back:
  assumes "wire_laws W"
  shows "Unmarshal_struct DataAddress_read zero_data_address (DataAddress_json W d) = OK d"
  using ep.made_slice[OF wire_lawsD(1)[OF assms]]
  by (simp add: Unmarshal_struct_def DataAddress_json_def DataAddress_read_def zero_data_address_def wire_simps)

lemma addresses_back:
  assumes "wire_laws W"
  shows "read_field (Unmarshal_pointer (Unmarshal_struct DataAddress_read) zero_data_address) n None
     (omit_pointer n (DataAddress_json W) p) = OK p"
  by (rule read_omit_pointer) (simp add: address_back[OF assms], simp add: DataAddress_json_def)

section \<open>Messages\<close>

fun message_context :: "message \<Rightarrow> Context" where
  "message_context (MContractRequest t) = crm_Context t"
| "message_context (MContractOffer t) = com_Context t"
| "message_context (MContractAgreement t) = cam_Context t"
| "message_context (MContractVerification t) = cvm_Context t"
| "message_context (MContractEvent t) = cem_Context t"
| "message_context (MContractTermination t) = ctm_Context t"
| "message_context (MTransferRequest t) = trm_Context t"
| "message_context (MTransferStart t) = tsm_Context t"
| "message_context (MTransferSuspension t) = tum_Context t"
| "message_context (MTransferCompletion t) = tcm_Context t"
| "message_context (MTransferTermination t) = ttm_Context t"

fun fit_body :: "wire_pkg \<Rightarrow> message \<Rightarrow> bool" where
  "fit_body W (MContractRequest t) = fit_offer W (crm_Offer t)"
| "fit_body W (MContractOffer t) = fit_offer W (com_Offer t)"
| "fit_body W (MContractAgreement t) = fit_agreement W (cam_Agreement t)"
| "fit_body W (MTransferSuspension t) = list_all (fit_reason W) (tum_Reason t)"
| "fit_body W (MTransferTermination t) = list_all (fit_reason W) (ttm_Reason t)"
| "fit_body W _ = True"

definition fit_message :: "wire_pkg \<Rightarrow> message \<Rightarrow> bool" where
  "fit_message W m \<longleftrightarrow> wf_Context (message_context m) \<and> fit_body W m"

fun forget_message :: "message \<Rightarrow> message" where
  "forget_message (MContractAgreement t) = MContractAgreement (t\<lparr>cam_Agreement := forget_policy_id (cam_Agreement t)\<rparr>)"
| "forget_message m = m"

lemmas message_codecs = ContractRequest_json_def ContractRequest_read_def ContractOffer_json_def ContractOffer_read_def
  ContractAgreement_json_def ContractAgreement_read_def ContractVerification_json_def ContractVerification_read_def
  ContractEvent_json_def ContractEvent_read_def ContractTermination_json_def ContractTermination_read_def
  TransferRequest_json_def TransferRequest_read_def TransferStart_json_def TransferStart_read_def
  TransferSuspension_json_def TransferSuspension_read_def TransferCompletion_json_def TransferCompletion_read_def
  TransferTermination_json_def TransferTermination_read_def

lemma message_back:
  assumes "wire_laws W" and "fit_message W m"
  shows "\<exists>j. message_json W m = OK j \<and> read_as W (kind_of m) j = OK (forget_message m)"
proof -
  have ctx: "Unmarshal_context zero_context (Context_MarshalJSON (message_context m)) = OK (message_context m)"
    using assms(2) by (intro context_back) (simp add: fit_message_def)
  have agr: "\<exists>j. Agreement_json W (cam_Agreement t) = OK j \<and>
      Unmarshal_struct (Agreement_read W) (zero_agreement W) j = OK (forget_policy_id (cam_Agreement t))" if "m = MContractAgreement t" for t
    using assms that by (intro agreement_back) (auto simp: fit_message_def)
  note rules = wire_simps read_document_def offer_back[OF assms(1)] ml.made_slice[OF wire_lawsD(1)[OF assms(1)]]
    addresses_back[OF assms(1)] reasons_back
  show ?thesis
    using assms(2) ctx agr by (cases m) (auto simp: message_codecs rules fit_message_def)
qed

section \<open>Answers\<close>

text \<open>What a handler answers is what its caller reads: the state of a negotiation or a transfer, the versions, an error.\<close>

lemma answers_back:
  "wf_Context (cn_Context a) \<Longrightarrow> read_document ContractNegotiation_read (ContractNegotiation_json a) = OK a"
  "wf_Context (tp_Context b) \<Longrightarrow> read_document TransferProcess_read (TransferProcess_json b) = OK b"
  "wire_laws W \<Longrightarrow> wf_Context (vr_Context v) \<Longrightarrow> read_document VersionResponse_read (VersionResponse_json W v) = OK v"
  "wf_Context (de_Context e) \<Longrightarrow> read_document DSPError_read (DSPError_json e) = OK e"
  using context_back[of "cn_Context a"] context_back[of "tp_Context b"] context_back[of "vr_Context v"]
    context_back[of "de_Context e"] ver.made_slice[OF wire_lawsD(1)[of W]]
  by (simp_all add: read_document_def ContractNegotiation_json_def ContractNegotiation_read_def TransferProcess_json_def
      TransferProcess_read_def VersionResponse_json_def VersionResponse_read_def DSPError_json_def DSPError_read_def
      ml.slice wire_simps)

section \<open>What was read\<close>

lemma read_field_inv:
  assumes "read_field dec n v ms = OK w" and "P v" and "\<And>v j w. P v \<Longrightarrow> dec v j = OK w \<Longrightarrow> P w"
  shows "P w"
  using assms by (induction dec n v ms rule: read_field.induct) (auto simp: outcome_simps split: if_splits)

lemma read_field_once:
  assumes "read_field dec n v ms = OK w" and "length (filter (\<lambda>m. same_key (fst m) n) ms) \<le> 1"
  shows "w = v \<or> (\<exists>j. dec v j = OK w)"
proof -
  have none: "filter (\<lambda>m. same_key (fst m) n) ms = [] \<Longrightarrow> read_field dec n v ms = OK v" for v ms
    by (induction dec n v ms rule: read_field.induct) (auto split: if_splits)
  show ?thesis
    using assms
  proof (induction ms arbitrary: v)
    case (Cons m ms)
    then show ?case using none[of ms] by (cases m) (auto simp: outcome_simps split: if_splits)
  qed simp
qed

lemma omap_fit: "omap f js = OK xs \<Longrightarrow> (\<And>j x. f j = OK x \<Longrightarrow> P x) \<Longrightarrow> list_all P xs"
  by (induction js arbitrary: xs) (auto simp: outcome_simps)

lemma read_prohibitions:
  assumes "wire_laws W" and "read_field (Unmarshal_slice (Unmarshal_any W) JNull) n v ms = OK js" and "list_all (fit_any W) v"
  shows "list_all (fit_any W) js"
proof (rule read_field_inv[where P = "list_all (fit_any W)", OF assms(2,3)])
  show "list_all (fit_any W) w" if "Unmarshal_slice (Unmarshal_any W) JNull v j = OK w" for v j w
    using that omap_fit[of "Unmarshal_any W JNull" _ w "fit_any W"] wire_lawsD(4)[OF assms(1)]
    by (auto simp: Unmarshal_slice_def bad_json_def Unmarshal_any_def fit_any_def split: json.splits)
qed

lemma read_reasons:
  assumes "wire_laws W" and "read_field (Unmarshal_slice (Unmarshal_any_map W) JNull) n [] ms = OK js"
  shows "list_all (fit_reason W) js"
proof (rule read_field_inv[where P = "list_all (fit_reason W)", OF assms(2)])
  have elem: "fit_reason W x" if "Unmarshal_any_map W JNull j = OK x" for j x
    using that wire_lawsD(4,5)[OF assms(1)]
    by (auto simp: Unmarshal_any_map_def bad_json_def fit_reason_def fit_any_def split: json.splits)
  show "list_all (fit_reason W) w" if "Unmarshal_slice (Unmarshal_any_map W) JNull v j = OK w" for v j w
    using that omap_fit[of "Unmarshal_any_map W JNull" _ w "fit_reason W"] elem
    by (auto simp: Unmarshal_slice_def bad_json_def split: json.splits)
qed simp

lemma read_policy:
  assumes "wire_laws W" and "policy_read W shows_id p ms = OK q" and "list_all (fit_any W) (Prohibition p)"
  shows "list_all (fit_any W) (Prohibition q) \<and> (\<not> shows_id \<longrightarrow> pol_ID q = pol_ID p)"
  using assms(2) read_prohibitions[OF assms(1) _ assms(3)] by (cases shows_id) (auto simp: policy_read_def outcome_simps)

lemma read_offer:
  assumes "wire_laws W" and "read_field (Unmarshal_struct (MessageOffer_read W)) n v ms = OK m" and "fit_offer W v"
  shows "fit_offer W m"
proof (rule read_field_inv[where P = "fit_offer W", OF assms(2,3)])
  show "fit_offer W w" if "fit_offer W v" "Unmarshal_struct (MessageOffer_read W) v j = OK w" for v j w
    using that read_policy[OF assms(1), of True "mo_policy v"]
    by (auto simp: Unmarshal_struct_def MessageOffer_read_def fit_offer_def bad_json_def outcome_simps split: json.splits)
qed

lemma read_time:
  assumes "wire_laws W" and "read_field (Unmarshal_time W) n v ms = OK t" and "writable W v"
  shows "writable W t"
  by (rule read_field_inv[where P = "writable W", OF assms(2,3)])
    (auto simp: Unmarshal_time_def bad_json_def wire_lawsD(3)[OF assms(1)] split: json.splits)

lemma read_agreement:
  assumes "wire_laws W" and "read_field (Unmarshal_struct (Agreement_read W)) n (zero_agreement W) ms = OK a"
  shows "fit_agreement W a \<and> forget_policy_id a = a"
proof -
  have "fit_agreement W a \<and> pol_ID (ag_policy a) = []"
  proof (rule read_field_inv[OF assms(2)])
    show "fit_agreement W (zero_agreement W) \<and> pol_ID (ag_policy (zero_agreement W)) = []"
      using wire_lawsD(2)[OF assms(1)] by (simp add: fit_agreement_def zero_agreement_def zero_policy_def)
    show "fit_agreement W w \<and> pol_ID (ag_policy w) = []"
      if "fit_agreement W v \<and> pol_ID (ag_policy v) = []" "Unmarshal_struct (Agreement_read W) v j = OK w" for v j w
      using that read_policy[OF assms(1), of False "ag_policy v"] read_time[OF assms(1), of "''dspace:timestamp''" "ag_Timestamp v"]
      by (auto simp: Unmarshal_struct_def Agreement_read_def fit_agreement_def bad_json_def outcome_simps split: json.splits)
  qed
  then show ?thesis by (simp add: forget_policy_id_def)
qed

definition one_context :: "json \<Rightarrow> bool" where
  "one_context j \<longleftrightarrow> (case j of JObject ms \<Rightarrow> length (filter (\<lambda>m. same_key (fst m) ''@context'') ms) \<le> 1 | _ \<Rightarrow> True)"

lemma read_context:
  assumes "read_field Unmarshal_context ''@context'' zero_context ms = OK c" and "one_context (JObject ms)"
  shows "wf_Context c"
proof -
  have "c = zero_context \<or> (\<exists>j. Unmarshal_context zero_context j = OK c)"
    using read_field_once[OF assms(1)] assms(2) by (simp add: one_context_def)
  moreover have "wf_Context c'" if "Unmarshal_context zero_context j = OK c'" for j c'
    using that Unmarshal_wf[of j]
    by (auto simp: Unmarshal_context_def zero_context_def wf_Context_def outcome_simps split: if_splits)
  ultimately show ?thesis by (auto simp: zero_context_def wf_Context_def)
qed

lemma read_document_OK:
  assumes "read_document read j = OK m"
  obtains ms where "read ms = OK m" and "one_context j \<Longrightarrow> one_context (JObject ms)"
  using assms by (auto simp: read_document_def bad_json_def one_context_def split: json.splits)

lemma read_message:
  assumes "wire_laws W" and "read_as W k j = OK m" and "one_context j"
  shows "fit_message W m \<and> forget_message m = m \<and> kind_of m = k"
proof -
  have zero: "fit_offer W zero_message_offer" by (simp add: fit_offer_def zero_message_offer_def zero_policy_def)
  note rules = read_offer[OF assms(1) _ zero] read_agreement[OF assms(1), THEN conjunct1]
    read_agreement[OF assms(1), THEN conjunct2] read_reasons[OF assms(1)]
  have doc: "wf_Context (message_context m) \<and> fit_body W m \<and> forget_message m = m \<and> kind_of m = k"
    by (insert assms(2,3))
      (cases k; (auto simp: outcome_simps message_codecs elim!: read_document_OK; (erule rules | erule (1) read_context)))
  then show ?thesis by (simp add: fit_message_def)
qed

text \<open>The value of a document's type, by which the validation tells the messages apart.\<close>

fun type_name :: "message_kind \<Rightarrow> string" where
  "type_name KContractRequest = ''dspace:ContractRequestMessage''"
| "type_name KContractOffer = ''dspace:ContractOfferMessage''"
| "type_name KContractAgreement = ''dspace:ContractAgreementMessage''"
| "type_name KContractVerification = ''dspace:ContractAgreementVerificationMessage''"
| "type_name KContractEvent = ''dspace:ContractNegotiationEventMessage''"
| "type_name KContractTermination = ''dspace:ContractNegotiationTerminationMessage''"
| "type_name KTransferRequest = ''dspace:TransferRequestMessage''"
| "type_name KTransferStart = ''dspace:TransferStartMessage''"
| "type_name KTransferSuspension = ''dspace:TransferSuspensionMessage''"
| "type_name KTransferCompletion = ''dspace:TransferCompletionMessage''"
| "type_name KTransferTermination = ''dspace:TransferTerminationMessage''"

lemma type_name_inj: "type_name k = type_name l \<Longrightarrow> k = l"
  by (cases k; cases l) simp_all

lemma valid_type:
  assumes "read_as W k j = OK m" and "valid_message m"
  shows "read_document (read_string ''@type'' []) j = OK (type_name k)"
proof -
  have doc: "read_document r j = OK x \<Longrightarrow> (\<And>ms. r ms = OK x \<Longrightarrow> q ms = OK y) \<Longrightarrow> read_document q j = OK y" for r x q y
    by (auto simp: read_document_def bad_json_def split: json.splits)
  show ?thesis
    using assms
    by (cases k) (auto simp: outcome_simps message_codecs valid_message_def valid_ContractRequest_def valid_ContractOffer_def
      valid_ContractAgreement_def valid_ContractVerification_def valid_ContractEvent_def valid_ContractTermination_def
      valid_TransferRequest_def valid_TransferStart_def valid_TransferSuspension_def valid_TransferCompletion_def
      valid_TransferTermination_def elim!: doc)
qed

end
