(* ===== verification/Wire_Roundtrip.thy ===== *)
theory Wire_Roundtrip
  imports Wire_Facts
begin

text \<open>
  The round trip of every message between its value and its document, and the columns that hold offers and
  agreements as JSON text.
\<close>

section \<open>Messages\<close>

lemma wf_DSPContext [simp]: "wf_Context GetDSPContext"
  by (simp add: GetDSPContext_def NewRootContext_def wf_Context_def)

text \<open>C7: the documents say what the messages say. Every message whose context is well-formed, whose values
  without a type are as the library reads them and whose time can be written is written as a document that
  is read, as its type, as the same message, but for the identifier of an agreement's policy, which the
  agreement's own hides. And whatever was read from a document that gives its context at most once is such a
  message, and has lost nothing more: written and read again it is the same.\<close>

theorem wire_roundtrip:
  assumes "wire_laws W"
  shows "(fit_message W m \<longrightarrow> (\<exists>j. message_json W m = OK j \<and> read_as W (kind_of m) j = OK (forget_message m)))
    \<and> (read_as W k j = OK m \<and> one_context j \<longrightarrow> (\<exists>j'. message_json W m = OK j' \<and> read_as W k j' = OK m))"
  using message_back[OF assms, of m] read_message[OF assms, of k j m] by fastforce

section \<open>Columns\<close>

text \<open>The columns that hold an offer or an agreement as JSON text, with \<open>encoding/json\<close> between documents and
  text left open. For the program's own documents they read what was written, as the rows ask.\<close>

record text_pkg =
  show_json :: "json \<Rightarrow> string"
  parse_json :: "string \<Rightarrow> json outcome"

definition text_ok :: "text_pkg \<Rightarrow> json \<Rightarrow> bool" where
  "text_ok T j \<longleftrightarrow> parse_json T (show_json T j) = OK j"

definition with_columns :: "wire_pkg \<Rightarrow> text_pkg \<Rightarrow> 'a lib_scheme \<Rightarrow> 'a lib_scheme" where
  "with_columns W T L = L\<lparr>
     Marshal_offer := (\<lambda>f. OK (show_json T (Offer_json W f))),
     Unmarshal_offer := (\<lambda>t. obind (parse_json T t) (read_document (Offer_read W zero_offer))),
     Marshal_agreement := (\<lambda>a. obind (Agreement_json W a) (\<lambda>j. OK (show_json T j))),
     Unmarshal_agreement := (\<lambda>t. obind (parse_json T t) (read_document (Agreement_read W (zero_agreement W))))\<rparr>"

lemma offer_column:
  assumes "wire_laws W" and "fit_offer W (offer_message f)" and "text_ok T (Offer_json W f)"
  shows "\<exists>t. Marshal_offer (with_columns W T L) f = OK t \<and> Unmarshal_offer (with_columns W T L) t = OK f"
  using offer_back[OF assms(1,2)] assms(3)
  by (cases f) (auto simp: with_columns_def text_ok_def Offer_json_def Offer_read_def zero_offer_def read_document_def
      Unmarshal_struct_def MessageOffer_json_def)

lemma agreement_column:
  assumes "wire_laws W" and "fit_agreement W a" and "\<And>j. Agreement_json W a = OK j \<Longrightarrow> text_ok T j"
    and "uuid_Parse L (ag_ID a) = Some i"
  shows "obind (FromODRLAgreement (with_columns W T L) a) (ToODRLAgreement (with_columns W T L)) = OK (forget_policy_id a)"
proof -
  obtain j where j: "Agreement_json W a = OK j" "Unmarshal_struct (Agreement_read W) (zero_agreement W) j = OK (forget_policy_id a)"
    using agreement_back[OF assms(1,2)] by blast
  then have "read_document (Agreement_read W (zero_agreement W)) j = OK (forget_policy_id a)"
    by (auto simp: Agreement_json_def read_document_def Unmarshal_struct_def outcome_simps)
  then show ?thesis using j(1) assms(3)[OF j(1)] assms(4)
    by (simp add: FromODRLAgreement_def ToODRLAgreement_def with_columns_def text_ok_def)
qed

text \<open>So a negotiation whose offer arrived in a document is a row that says it, whatever holds its other columns.\<close>

lemma negotiation_columns:
  assumes "wire_laws W" and "fit_offer W (offer_message (n_offer cn))" and "text_ok T (Offer_json W (n_offer cn))"
    and "n_forms_ok L cn"
  shows "n_forms_ok (with_columns W T L) cn"
proof -
  have "url_Parse (with_columns W T L) = url_Parse L" "url_String (with_columns W T L) = url_String L"
    "Marshal_trace (with_columns W T L) = Marshal_trace L" "Unmarshal_trace (with_columns W T L) = Unmarshal_trace L"
    "Marshal_requester (with_columns W T L) = Marshal_requester L" "Unmarshal_requester (with_columns W T L) = Unmarshal_requester L"
    by (simp_all add: with_columns_def)
  then show ?thesis using offer_column[OF assms(1-3), of L] assms(4) by (simp add: n_forms_ok_def url_ok_def split: option.splits)
qed

section \<open>Examples\<close>

definition sample_wire :: wire_pkg where
  "sample_wire = \<lparr>time_Marshal = (\<lambda>t. if 0 \<le> t \<and> t < 2 ^ 63 then OK (FormatInt t) else ERR (Errorf ''year outside of range'' [])),
     time_Unmarshal = (\<lambda>s. obind (ParseInt64 s) (\<lambda>t. if 0 \<le> t then OK t else ERR (Errorf ''not a time'' []))),
     zero_time = 0, as_any = (\<lambda>j. j), empty_slice = JNull\<rparr>"

lemma sample_writable [simp]: "0 \<le> t \<Longrightarrow> t < 2 ^ 63 \<Longrightarrow> writable sample_wire t"
  by (simp add: writable_def sample_wire_def ParseInt64_FormatInt_nonneg)

lemma sample_wire_laws [simp]: "wire_laws sample_wire"
proof -
  have "writable sample_wire t" if "time_Unmarshal sample_wire s = OK t" for s t
    using that ParseInt64_OK_bounds[of s t] by (intro sample_writable) (auto simp: sample_wire_def outcome_simps split: if_splits)
  moreover have "zero_time sample_wire = 0" "empty_slice sample_wire = JNull" "as_any sample_wire = (\<lambda>j. j)"
    by (simp_all add: sample_wire_def)
  ultimately show ?thesis by (auto simp: wire_laws_def)
qed

lemma sample_fit_any [simp]: "fit_any sample_wire j"
  by (simp add: fit_any_def sample_wire_def)

text \<open>An agreement whose policy has an identifier of its own.\<close>

definition sample_agreement_message :: message where
  "sample_agreement_message = MContractAgreement \<lparr>cam_Context = GetDSPContext, cam_Type = ''dspace:ContractAgreementMessage'',
     cam_ProviderPID = ''2'', cam_ConsumerPID = ''3'',
     cam_Agreement = sample_agreement\<lparr>ag_policy := zero_policy\<lparr>pol_ID := ''policy'', Prohibition := [JString ''none'']\<rparr>\<rparr>,
     cam_CallbackAddress = ''/dsp''\<rparr>"

lemma wire_roundtrip_witness:
  "\<exists>j. message_json sample_wire sample_agreement_message = OK j
     \<and> read_as sample_wire KContractAgreement j = OK (forget_message sample_agreement_message)
     \<and> forget_message sample_agreement_message \<noteq> sample_agreement_message"
proof -
  have "fit_message sample_wire sample_agreement_message"
    by (simp add: sample_agreement_message_def fit_message_def fit_agreement_def sample_agreement_def
        GetDSPContext_def NewRootContext_def wf_Context_def)
  moreover have "forget_message sample_agreement_message \<noteq> sample_agreement_message"
    by (simp add: sample_agreement_message_def forget_policy_id_def sample_agreement_def zero_policy_def)
  moreover have "kind_of sample_agreement_message = KContractAgreement" by (simp add: sample_agreement_message_def)
  ultimately show ?thesis using wire_roundtrip[OF sample_wire_laws, of sample_agreement_message] by metis
qed

end
