(* ===== verification/Transfer_Routing.thy ===== *)
theory Transfer_Routing
  imports Routing_Facts
begin

text \<open>
  The transfer routes of \<open>dsp/routing.go\<close>: what the connector does with a request for one of them, and
  where the messages of the transfer state machine go. As for negotiations, a consumer is reached under
  \<open>/callback\<close>.
\<close>

section \<open>Serving a transfer message\<close>

fun as_TransferRequest where "as_TransferRequest (MTransferRequest m) = Some m" | "as_TransferRequest _ = None"
fun as_TransferStart where "as_TransferStart (MTransferStart m) = Some m" | "as_TransferStart _ = None"
fun as_TransferSuspension where "as_TransferSuspension (MTransferSuspension m) = Some m" | "as_TransferSuspension _ = None"
fun as_TransferCompletion where "as_TransferCompletion (MTransferCompletion m) = Some m" | "as_TransferCompletion _ = None"
fun as_TransferTermination where "as_TransferTermination (MTransferTermination m) = Some m" | "as_TransferTermination _ = None"

text \<open>\<open>None\<close> when no transfer route is there. The identifiers are those a new transfer draws.\<close>

definition serve_transfer :: "'a lib_scheme \<Rightarrow> server \<Rightarrow> go_context \<Rightarrow> TraceInfo \<Rightarrow> uuid \<Rightarrow> uuid \<Rightarrow> string \<Rightarrow> string
    \<Rightarrow> message \<Rightarrow> tsys \<Rightarrow> (tsys \<times> transfer_result) option" where
  "serve_transfer L sv ctx trace pid fresh meth path msg s =
     (case ServeHTTP meth path of
        None \<Rightarrow> None
      | Some (ep, vs) \<Rightarrow>
          (let pv = map_of vs in
           case ep of
             ProviderTransferProcess \<Rightarrow> Some (providerTransferProcessHandler L sv (PathValue pv ''providerPID'') s)
           | ProviderTransferRequest \<Rightarrow>
               Some (providerTransferRequestHandler L sv ctx trace pid fresh (as_TransferRequest msg) s)
           | ProviderTransferStart \<Rightarrow>
               Some (providerTransferStartHandler L sv ctx fresh (PathValue pv ''providerPID'') (as_TransferStart msg) s)
           | ProviderTransferCompletion \<Rightarrow> Some (providerTransferCompletionHandler L sv ctx fresh
               (PathValue pv ''providerPID'') (as_TransferCompletion msg) s)
           | ProviderTransferTermination \<Rightarrow> Some (providerTransferTerminationHandler L sv ctx fresh
               (PathValue pv ''providerPID'') (as_TransferTermination msg) s)
           | ProviderTransferSuspension \<Rightarrow> Some (s, providerTransferSuspensionHandler pv (as_TransferSuspension msg))
           | ConsumerTransferStart \<Rightarrow>
               Some (consumerTransferStartHandler L sv ctx fresh (PathValue pv ''consumerPID'') (as_TransferStart msg) s)
           | ConsumerTransferCompletion \<Rightarrow> Some (consumerTransferCompletionHandler L sv ctx fresh
               (PathValue pv ''consumerPID'') (as_TransferCompletion msg) s)
           | ConsumerTransferTermination \<Rightarrow> Some (consumerTransferTerminationHandler L sv ctx fresh
               (PathValue pv ''consumerPID'') (as_TransferTermination msg) s)
           | ConsumerTransferSuspension \<Rightarrow> Some (s, consumerTransferSuspensionHandler pv (as_TransferSuspension msg))
           | _ \<Rightarrow> None))"

section \<open>Where messages go\<close>

fun transfer_path :: "'a lib_scheme \<Rightarrow> transfer_request \<Rightarrow> message \<Rightarrow> string list" where
  "transfer_path L tr (MTransferRequest t) = [''transfers'', ''request'']"
| "transfer_path L tr (MTransferStart t) = [''transfers'', Transfer_Machine.peer_pid L tr, ''start'']"
| "transfer_path L tr (MTransferCompletion t) = [''transfers'', Transfer_Machine.peer_pid L tr, ''completion'']"
| "transfer_path L tr _ = []"

lemma sent_where:
  assumes "url_ok L (r_callback tr)"
  shows "sendTransferRequest L sctx tr = OK (ApAdd e) \<Longrightarrow> Method e = ''POST'' \<and> (\<exists>t. Body e = MTransferRequest t)
      \<and> URL e = with_path (r_callback tr) [''transfers'', ''request'']"
    and "sendTransferStart L sctx tr = OK (ApAdd e) \<Longrightarrow> Method e = ''POST'' \<and> (\<exists>t. Body e = MTransferStart t)
      \<and> URL e = with_path (r_callback tr) [''transfers'', Transfer_Machine.peer_pid L tr, ''start'']"
    and "sendTransferCompletion L sctx tr = OK (ApAdd e) \<Longrightarrow> Method e = ''POST'' \<and> (\<exists>t. Body e = MTransferCompletion t)
      \<and> URL e = with_path (r_callback tr) [''transfers'', Transfer_Machine.peer_pid L tr, ''completion'']"
  using assms
  by (auto simp: sendTransferRequest_def sendTransferStart_def sendTransferCompletion_def makeTransferRequestFunction_def
      makeRequestFunction_def outcome_simps)

lemma transfer_sent_entry:
  assumes "transfer_Send L d sctx (tr, cs) = (s', OK (ApAdd e))" and "url_ok L (r_callback tr)"
  shows "Method e = ''POST'' \<and> URL e = with_path (r_callback tr) (transfer_path L tr (Body e)) \<and> valid_message (Body e)
    \<and> (case r_state tr of T_INITIAL \<Rightarrow> \<exists>t. Body e = MTransferRequest t | T_REQUESTED \<Rightarrow> \<exists>t. Body e = MTransferStart t
       | _ \<Rightarrow> \<exists>t. Body e = MTransferCompletion t)"
proof -
  have valid: "valid_message (Body e)" using transfer_Send_OK[OF assms(1)] by (auto simp: transfer_final_def)
  show ?thesis
  proof (cases "r_state tr")
    case T_INITIAL
    then show ?thesis using assms(1) sent_where(1)[OF assms(2), of sctx e] valid by auto
  next
    case T_REQUESTED
    then obtain tr2 where t: "sendTransferStart L sctx tr2 = OK (ApAdd e)" "r_callback tr2 = r_callback tr"
        "Transfer_Machine.peer_pid L tr2 = Transfer_Machine.peer_pid L tr"
      using assms(1) by (cases "r_transferDirection tr")
        (auto simp: T_Requested_Send_def outcome_simps Transfer_Machine.peer_pid_def simp del: call_provider.simps)
    then show ?thesis using sent_where(2)[of L tr2 sctx e] assms(2) T_REQUESTED valid by auto
  next
    case T_STARTED
    then obtain s1 u where "unpublishTransfer L d sctx (tr, cs) = (s1, OK u)" "sendTransferCompletion L sctx (fst s1) = OK (ApAdd e)"
      using assms(1) by (auto simp: T_Started_Send_def outcome_simps)
    then show ?thesis using unpublish_OK sent_where(3)[OF assms(2), of sctx e] T_STARTED valid by fastforce
  qed (use assms(1) in auto)
qed

text \<open>The place a transfer's peer is called at: below the API, or its \<open>/callback\<close> once the peer is a consumer.\<close>

definition transfer_base :: "transfer_request \<Rightarrow> string list" where
  "transfer_base tr = (if r_state tr \<noteq> T_INITIAL \<and> r_role tr = DataspaceProvider then [''callback''] else [])"

fun intended_transfer_handler :: "'a lib_scheme \<Rightarrow> server \<Rightarrow> go_context \<Rightarrow> TraceInfo \<Rightarrow> uuid \<Rightarrow> uuid \<Rightarrow> transfer_request
    \<Rightarrow> message \<Rightarrow> tsys \<Rightarrow> tsys \<times> transfer_result" where
  "intended_transfer_handler L sv ctx trace pid fresh tr msg s =
     (case msg of
        MTransferRequest t \<Rightarrow> providerTransferRequestHandler L sv ctx trace pid fresh (Some t) s
      | _ \<Rightarrow> processTransferMessage L sv ctx fresh (peer_role (r_role tr))
               (if r_role tr = DataspaceConsumer then r_providerPID tr else r_consumerPID tr)
               (\<exists>t. msg = MTransferCompletion t) msg s)"

lemma plain_transfer_names [simp]:
  "plain_seg ''transfers''" "plain_seg ''start''" "plain_seg ''completion''"
  by (simp_all add: plain_seg_def)

lemma transfer_message_reaches_handler:
  assumes "transfer_Send L d sctx (tr, cs) = (s', OK (ApAdd e))" and "uuid_laws L" and "url_ok L (r_callback tr)"
    and "uPath (r_callback tr) = api_path (transfer_base tr)" and "r_role tr \<in> {DataspaceConsumer, DataspaceProvider}"
  shows "serve_transfer L sv ctx trace pid fresh (Method e) (uPath (URL e)) (Body e) s =
    Some (intended_transfer_handler L sv ctx trace pid fresh tr (Body e) s)"
proof -
  note sent = transfer_sent_entry[OF assms(1,3)]
  have plain: "list_all plain_seg (transfer_base tr)" "list_all plain_seg (transfer_path L tr (Body e))"
    by (simp add: transfer_base_def, cases "Body e") (simp_all add: Transfer_Machine.peer_pid_def uuid_lawsD(5)[OF assms(2)])
  have "transfer_path L tr (Body e) \<noteq> []" using sent by (auto split: tstate.splits)
  then have routed: "ServeHTTP (Method e) (uPath (URL e)) =
      first_match ''POST'' (transfer_base tr @ transfer_path L tr (Body e)) GetDSPRoutes"
    using sent plain assms(4) by (simp add: with_path_api ServeHTTP_api)
  note simps = dispatch_simps PathValue_def decode_as_def transfer_base_def Transfer_Machine.peer_pid_def Let_def
    providerTransferStartHandler_def providerTransferCompletionHandler_def consumerTransferStartHandler_def
    consumerTransferCompletionHandler_def progressTransferState_def DecodeValid_def valid_message_def uuid_lawsD(1)[OF assms(2)]
  show ?thesis unfolding serve_transfer_def routed
    using sent assms(5) by (cases "r_state tr") (auto simp: simps)
qed

end
