(* ===== verification/Wire_Delivery.thy ===== *)
theory Wire_Delivery
  imports Wire_Roundtrip Transfer_Routing Transfer_Handlers_Facts
begin

text \<open>
  The connector with documents: each route reads the body of a request as the message type of its
  handler. A document that is a valid message is served by every route as that message; so what a
  negotiation or a transfer queues, written as JSON, arrives at the handler it is meant for as the message
  that was sent, and the acknowledgement is read back by the sender's reconciler.
\<close>

section \<open>Serving a document\<close>

definition body_as :: "wire_pkg \<Rightarrow> message_kind \<Rightarrow> (message \<Rightarrow> 't option) \<Rightarrow> json \<Rightarrow> 't option" where
  "body_as W k sel doc = (case read_as W k doc of OK m \<Rightarrow> sel m | _ \<Rightarrow> None)"

definition serve_contract_document :: "'a lib_scheme \<Rightarrow> wire_pkg \<Rightarrow> server \<Rightarrow> go_context \<Rightarrow> fresh_values \<Rightarrow> string \<Rightarrow> string
    \<Rightarrow> json \<Rightarrow> sys \<Rightarrow> (sys \<times> contract_result) option" where
  "serve_contract_document L W sv ctx fv meth path doc s =
     (case ServeHTTP meth path of
        None \<Rightarrow> None
      | Some (ep, vs) \<Rightarrow>
          (let pid = PathValue (map_of vs); request = body_as W KContractRequest as_ContractRequest doc;
               offer = body_as W KContractOffer as_ContractOffer doc; event = body_as W KContractEvent as_ContractEvent doc
           in case ep of
             ProviderContractState \<Rightarrow> Some (providerContractStateHandler L sv (pid ''providerPID'') s)
           | ProviderContractRequest \<Rightarrow> Some (providerContractRequestHandler L sv ctx fv request s)
           | ProviderContractSpecificRequest \<Rightarrow>
               Some (providerContractSpecificRequestHandler L sv ctx fv (pid ''providerPID'') request s)
           | ProviderContractEvent \<Rightarrow> Some (providerContractEventHandler L sv ctx fv (pid ''providerPID'') event s)
           | ProviderContractVerification \<Rightarrow> Some (providerContractVerificationHandler L sv ctx fv (pid ''providerPID'')
               (body_as W KContractVerification as_ContractVerification doc) s)
           | ContractTermination \<Rightarrow> Some (contractTerminationHandler L sv ctx fv (pid ''PID'')
               (body_as W KContractTermination as_ContractTermination doc) s)
           | ConsumerContractOffer \<Rightarrow> Some (consumerContractOfferHandler L sv ctx fv offer s)
           | ConsumerContractSpecificOffer \<Rightarrow>
               Some (consumerContractSpecificOfferHandler L sv ctx fv (pid ''consumerPID'') offer s)
           | ConsumerContractAgreement \<Rightarrow> Some (consumerContractAgreementHandler L sv ctx fv (pid ''consumerPID'')
               (body_as W KContractAgreement as_ContractAgreement doc) s)
           | ConsumerContractEvent \<Rightarrow> Some (consumerContractEventHandler L sv ctx fv (pid ''consumerPID'') event s)
           | _ \<Rightarrow> None))"

definition serve_transfer_document :: "'a lib_scheme \<Rightarrow> wire_pkg \<Rightarrow> server \<Rightarrow> go_context \<Rightarrow> TraceInfo \<Rightarrow> uuid \<Rightarrow> uuid
    \<Rightarrow> string \<Rightarrow> string \<Rightarrow> json \<Rightarrow> tsys \<Rightarrow> (tsys \<times> transfer_result) option" where
  "serve_transfer_document L W sv ctx trace pid fresh meth path doc s =
     (case ServeHTTP meth path of
        None \<Rightarrow> None
      | Some (ep, vs) \<Rightarrow>
          (let pv = map_of vs; start = body_as W KTransferStart as_TransferStart doc;
               suspension = body_as W KTransferSuspension as_TransferSuspension doc;
               completion = body_as W KTransferCompletion as_TransferCompletion doc;
               termination = body_as W KTransferTermination as_TransferTermination doc
           in case ep of
             ProviderTransferProcess \<Rightarrow> Some (providerTransferProcessHandler L sv (PathValue pv ''providerPID'') s)
           | ProviderTransferRequest \<Rightarrow> Some (providerTransferRequestHandler L sv ctx trace pid fresh
               (body_as W KTransferRequest as_TransferRequest doc) s)
           | ProviderTransferStart \<Rightarrow>
               Some (providerTransferStartHandler L sv ctx fresh (PathValue pv ''providerPID'') start s)
           | ProviderTransferCompletion \<Rightarrow>
               Some (providerTransferCompletionHandler L sv ctx fresh (PathValue pv ''providerPID'') completion s)
           | ProviderTransferTermination \<Rightarrow>
               Some (providerTransferTerminationHandler L sv ctx fresh (PathValue pv ''providerPID'') termination s)
           | ProviderTransferSuspension \<Rightarrow> Some (s, providerTransferSuspensionHandler pv suspension)
           | ConsumerTransferStart \<Rightarrow>
               Some (consumerTransferStartHandler L sv ctx fresh (PathValue pv ''consumerPID'') start s)
           | ConsumerTransferCompletion \<Rightarrow>
               Some (consumerTransferCompletionHandler L sv ctx fresh (PathValue pv ''consumerPID'') completion s)
           | ConsumerTransferTermination \<Rightarrow>
               Some (consumerTransferTerminationHandler L sv ctx fresh (PathValue pv ''consumerPID'') termination s)
           | ConsumerTransferSuspension \<Rightarrow> Some (s, consumerTransferSuspensionHandler pv suspension)
           | _ \<Rightarrow> None))"

section \<open>An invalid body is no body\<close>

definition valid_body :: "('t \<Rightarrow> bool) \<Rightarrow> 't option \<Rightarrow> 't option" where
  "valid_body valid b = (case b of Some t \<Rightarrow> if valid t then Some t else None | None \<Rightarrow> None)"

lemma progress_valid: "progressContractState L sv ctx fv rl pid (decode_as con valid (valid_body valid b)) s =
    progressContractState L sv ctx fv rl pid (decode_as con valid b) s"
  by (cases b) (simp_all add: valid_body_def decode_as_def DecodeValid_def progressContractState_def split: option.split)

lemma progress_transfer_valid: "progressTransferState L sv ctx fresh rl pid auto (decode_as con valid (valid_body valid b)) s =
    progressTransferState L sv ctx fresh rl pid auto (decode_as con valid b) s"
  by (cases b) (simp_all add: valid_body_def decode_as_def DecodeValid_def progressTransferState_def split: option.split)

lemma valid_contract_bodies:
  "providerContractRequestHandler L sv ctx fv (valid_body valid_ContractRequest b) s = providerContractRequestHandler L sv ctx fv b s"
  "consumerContractOfferHandler L sv ctx fv (valid_body valid_ContractOffer c) s = consumerContractOfferHandler L sv ctx fv c s"
  by (cases b, simp_all add: valid_body_def DecodeValid_def providerContractRequestHandler_def)
    (cases c, simp_all add: valid_body_def DecodeValid_def consumerContractOfferHandler_def)

lemma valid_transfer_bodies:
  "providerTransferRequestHandler L sv ctx trace pid fresh (valid_body valid_TransferRequest b) t =
     providerTransferRequestHandler L sv ctx trace pid fresh b t"
  "providerTransferSuspensionHandler pv (valid_body valid_TransferSuspension c) = providerTransferSuspensionHandler pv c"
  by (cases b, simp_all add: valid_body_def DecodeValid_def providerTransferRequestHandler_def)
    (cases c, simp_all add: valid_body_def DecodeValid_def providerTransferSuspensionHandler_def)

fun wild_names :: "segment list \<Rightarrow> string list" where
  "wild_names [] = []"
| "wild_names (Lit l # ps) = wild_names ps"
| "wild_names (Wild x # ps) = x # wild_names ps"

lemma match_names: "match_segments ps ws = Some vs \<Longrightarrow> map fst vs = wild_names ps"
  by (induction ps ws arbitrary: vs rule: match_segments.induct) (auto split: if_splits)

text \<open>The consumer's suspension route has no \<open>providerPID\<close>, so the body is not looked at.\<close>

lemma consumer_suspension_values:
  assumes "ServeHTTP meth path = Some (ConsumerTransferSuspension, vs)"
  shows "consumerTransferSuspensionHandler (map_of vs) b = Failed (OtherFailure ''missing consumner PID'')"
proof -
  have "first_match m ws GetDSPRoutes = Some (ConsumerTransferSuspension, vs) \<Longrightarrow> map fst vs = [''consumerPID'']" for m ws
    by (drule first_match_Some) (auto simp: dispatch_simps simp del: match_segments.simps dest!: match_names sym[of "Some vs"] split: if_splits)
  moreover have "first_match m ws GetWellKnownRoutes \<noteq> Some (ConsumerTransferSuspension, vs)" for m ws
    using first_match_Some[of m ws GetWellKnownRoutes] by (auto simp: GetWellKnownRoutes_def HandleFunc_def match_route_def split: if_splits)
  ultimately have "map fst vs = [''consumerPID'']"
    using assms by (auto simp: ServeHTTP_def split: list.splits if_splits)
  then show ?thesis by (auto simp: consumerTransferSuspensionHandler_def PathValue_def map_of_eq_None_iff split: option.split dest: map_of_SomeD)
qed

section \<open>The message in a document\<close>

lemma read_kind: "read_as W k j = OK m \<Longrightarrow> kind_of m = k"
  by (cases k) (auto simp: outcome_simps)

text \<open>A route's message type: how it is selected from the messages, and its validation.\<close>

locale message_body =
  fixes K :: message_kind and sel :: "message \<Rightarrow> 't option" and valid :: "'t \<Rightarrow> bool"
  assumes sel_kind: "sel m = None \<longleftrightarrow> kind_of m \<noteq> K" and sel_valid: "sel m = Some t \<Longrightarrow> valid t = valid_message m"
begin

lemma valid_body: "valid_body valid (body_as W K sel doc) = sel m" if "read_as W k doc = OK m" "valid_message m"
proof (cases "read_as W K doc")
  case (OK m')
  note kind = read_kind[OF OK] read_kind[OF that(1)]
  show ?thesis
  proof (cases "valid_message m'")
    case True
    have "type_name K = type_name k" using valid_type[OF OK True] valid_type[OF that] by simp
    then have "m' = m" using OK that(1) type_name_inj by fastforce
    then show ?thesis using OK True sel_valid[of m] by (auto simp: body_as_def valid_body_def split: option.split)
  next
    case False
    then have "k \<noteq> K" using OK that by auto
    then have "sel m = None" using sel_kind kind(2) by simp
    moreover have "valid_body valid (sel m') = None" using False sel_valid[of m'] by (auto simp: valid_body_def split: option.split)
    ultimately show ?thesis using OK by (simp add: body_as_def)
  qed
next
  case (ERR e)
  then have "k \<noteq> K" using that by auto
  then have "sel m = None" using sel_kind read_kind[OF that(1)] by simp
  then show ?thesis using ERR by (simp add: body_as_def valid_body_def)
next
  case (PANIC p)
  then have "k \<noteq> K" using that by auto
  then have "sel m = None" using sel_kind read_kind[OF that(1)] by simp
  then show ?thesis using PANIC by (simp add: body_as_def valid_body_def)
qed

end

lemma as_message_def:
  "as_ContractRequest m = (case m of MContractRequest t \<Rightarrow> Some t | _ \<Rightarrow> None)"
  "as_ContractOffer m = (case m of MContractOffer t \<Rightarrow> Some t | _ \<Rightarrow> None)"
  "as_ContractAgreement m = (case m of MContractAgreement t \<Rightarrow> Some t | _ \<Rightarrow> None)"
  "as_ContractVerification m = (case m of MContractVerification t \<Rightarrow> Some t | _ \<Rightarrow> None)"
  "as_ContractEvent m = (case m of MContractEvent t \<Rightarrow> Some t | _ \<Rightarrow> None)"
  "as_ContractTermination m = (case m of MContractTermination t \<Rightarrow> Some t | _ \<Rightarrow> None)"
  "as_TransferRequest m = (case m of MTransferRequest t \<Rightarrow> Some t | _ \<Rightarrow> None)"
  "as_TransferStart m = (case m of MTransferStart t \<Rightarrow> Some t | _ \<Rightarrow> None)"
  "as_TransferSuspension m = (case m of MTransferSuspension t \<Rightarrow> Some t | _ \<Rightarrow> None)"
  "as_TransferCompletion m = (case m of MTransferCompletion t \<Rightarrow> Some t | _ \<Rightarrow> None)"
  "as_TransferTermination m = (case m of MTransferTermination t \<Rightarrow> Some t | _ \<Rightarrow> None)"
  by (cases m; simp)+

lemmas selects = as_message_def valid_message_def

interpretation crm: message_body KContractRequest as_ContractRequest valid_ContractRequest
  by unfold_locales (auto simp: selects split: message.splits)
interpretation com: message_body KContractOffer as_ContractOffer valid_ContractOffer
  by unfold_locales (auto simp: selects split: message.splits)
interpretation cam: message_body KContractAgreement as_ContractAgreement valid_ContractAgreement
  by unfold_locales (auto simp: selects split: message.splits)
interpretation cvm: message_body KContractVerification as_ContractVerification valid_ContractVerification
  by unfold_locales (auto simp: selects split: message.splits)
interpretation cem: message_body KContractEvent as_ContractEvent valid_ContractEvent
  by unfold_locales (auto simp: selects split: message.splits)
interpretation ctm: message_body KContractTermination as_ContractTermination valid_ContractTermination
  by unfold_locales (auto simp: selects split: message.splits)
interpretation trm: message_body KTransferRequest as_TransferRequest valid_TransferRequest
  by unfold_locales (auto simp: selects split: message.splits)
interpretation tsm: message_body KTransferStart as_TransferStart valid_TransferStart
  by unfold_locales (auto simp: selects split: message.splits)
interpretation tum: message_body KTransferSuspension as_TransferSuspension valid_TransferSuspension
  by unfold_locales (auto simp: selects split: message.splits)
interpretation tcm: message_body KTransferCompletion as_TransferCompletion valid_TransferCompletion
  by unfold_locales (auto simp: selects split: message.splits)
interpretation ttm: message_body KTransferTermination as_TransferTermination valid_TransferTermination
  by unfold_locales (auto simp: selects split: message.splits)

lemma contract_document_is_message:
  assumes "read_as W k doc = OK m" and "valid_message m"
  shows "serve_contract_document L W sv ctx fv meth path doc s = serve_contract L sv ctx fv meth path m s"
proof -
  note bodies = crm.valid_body[OF assms, symmetric] com.valid_body[OF assms, symmetric] cam.valid_body[OF assms, symmetric]
    cvm.valid_body[OF assms, symmetric] cem.valid_body[OF assms, symmetric] ctm.valid_body[OF assms, symmetric]
  show ?thesis
    unfolding serve_contract_document_def serve_contract_def Let_def providerContractSpecificRequestHandler_def
      providerContractEventHandler_def providerContractVerificationHandler_def consumerContractSpecificOfferHandler_def
      consumerContractAgreementHandler_def consumerContractEventHandler_def contractTerminationHandler_def
      bodies progress_valid valid_contract_bodies ..
qed

lemma transfer_document_is_message:
  assumes "read_as W k doc = OK m" and "valid_message m"
  shows "serve_transfer_document L W sv ctx trace pid fresh meth path doc s = serve_transfer L sv ctx trace pid fresh meth path m s"
proof -
  note bodies = trm.valid_body[OF assms, symmetric] tsm.valid_body[OF assms, symmetric] tum.valid_body[OF assms, symmetric]
    tcm.valid_body[OF assms, symmetric] ttm.valid_body[OF assms, symmetric]
  show ?thesis
    unfolding serve_transfer_document_def serve_transfer_def Let_def providerTransferStartHandler_def
      providerTransferCompletionHandler_def providerTransferTerminationHandler_def consumerTransferStartHandler_def
      consumerTransferCompletionHandler_def consumerTransferTerminationHandler_def
      bodies progress_transfer_valid valid_transfer_bodies
    by (auto simp: consumer_suspension_values split: option.split endpoint.split)
qed

section \<open>What is sent\<close>

text \<open>The context of every message that is sent is the protocol's, and what a negotiation sends of its own
  is its offer or an agreement made just now.\<close>

lemma contract_sent_fit:
  assumes "contract_Send L d sctx fresh now cn = (cn', OK (ApAdd e))" and "fit_offer W (offer_message (n_offer cn))"
    and "writable W now"
  shows "fit_message W (Body e) \<and> forget_message (Body e) = Body e"
  using assms
  by (cases "n_state cn") (auto simp: Initial_Send_def Requested_Send_def Offered_Send_def n_UnsetInitial_def
      sendContractRequest_def sendContractOffer_def sendContractAgreement_def sendContractEvent_def n_SetAgreement_def
      sendContractVerification_def fit_message_def fit_agreement_def forget_policy_id_def zero_policy_def n_modify_def
      send_simps split: if_splits)

lemma transfer_sent_fit:
  assumes "transfer_Send L d sctx (tr, cs) = (s', OK (ApAdd e))"
  shows "fit_message W (Body e) \<and> forget_message (Body e) = Body e"
proof -
  have sent: "\<lbrakk>sendTransferRequest L sctx t = OK (ApAdd e) \<or> sendTransferStart L sctx t = OK (ApAdd e)
      \<or> sendTransferCompletion L sctx t = OK (ApAdd e)\<rbrakk> \<Longrightarrow> fit_message W (Body e) \<and> forget_message (Body e) = Body e" for t
    by (auto simp: sendTransferRequest_def sendTransferStart_def sendTransferCompletion_def makeTransferRequestFunction_def
        makeRequestFunction_def outcome_simps fit_message_def)
  show ?thesis
    using assms sent
    by (cases "r_state tr") (auto simp: T_Requested_Send_def T_Started_Send_def outcome_simps)
qed

text \<open>An acknowledgement is read by the reconciler from the document the handler wrote.\<close>

definition read_ack :: "json option \<Rightarrow> ContractNegotiation option" where
  "read_ack body = (case body of
     None \<Rightarrow> None
   | Some doc \<Rightarrow> (case read_document ContractNegotiation_read doc of OK ack \<Rightarrow> Some ack | _ \<Rightarrow> None))"

lemma ack_read_back:
  assumes "resp = EncodeValid valid_ContractNegotiation 200 (GetContractNegotiation_message L c)"
  shows "read_ack (map_option ContractNegotiation_json (resp_body resp)) = resp_body resp"
  using answers_back(1)[of "GetContractNegotiation_message L c"] assms
  by (simp add: EncodeValid_def read_ack_def GetContractNegotiation_message_def)

lemma processMessage_answer:
  assumes "processMessage L sv ctx fv rl pid msg s = (s', Responded resp)"
  shows "\<exists>c. resp = EncodeValid valid_ContractNegotiation 200 (GetContractNegotiation_message L c)"
proof -
  have recv: "r = Inr af \<or> (\<exists>f. r = Inl f \<and> (\<forall>x. f \<noteq> Responded x))" if "recv_and_send L d ctx fv msg con = (c, r)" "r = Inr af \<or> (\<exists>f. r = Inl f)"
    for d con c r af
    using that by (auto simp: recv_and_send_def split: outcome.splits prod.splits if_splits)
  have store: "f \<noteq> Responded x" if "storeNegotiation L P c d = (d', Some f)" for P c d d' f x
    using that by (auto simp: storeNegotiation_def split: outcome.splits option.splits prod.splits if_splits)
  obtain opt where opt: "WithRolePID pid rl = OK opt"
    using assms by (cases "WithRolePID pid rl") (auto simp: processMessage_def Let_def)
  obtain d1 con where get: "GetContract L (sv_backend sv) [WithRW, opt] (s_db s) = (d1, OK con)"
    using assms opt by (cases "GetContract L (sv_backend sv) [WithRW, opt] (s_db s)"; cases "snd (GetContract L (sv_backend sv) [WithRW, opt] (s_db s))")
      (auto simp: processMessage_def)
  obtain c r where r: "recv_and_send L (sv_deps sv) ctx fv msg con = (c, r)" by force
  obtain af where af: "r = Inr af" using assms opt get r recv[OF r] by (cases r) (auto simp: processMessage_def)
  obtain d2 where st: "storeNegotiation L (sv_backend sv) c d1 = (d2, None)"
    using assms opt get r af store by (cases "storeNegotiation L (sv_backend sv) c d1"; cases "snd (storeNegotiation L (sv_backend sv) c d1)")
      (auto simp: processMessage_def dest: store)
  show ?thesis using assms opt get r af st by (auto simp: processMessage_def split: prod.splits outcome.splits)
qed

lemma intended_answer:
  "intended_handler L sv ctx fv cn msg s = (s', Responded resp) \<Longrightarrow>
     \<exists>c. resp = EncodeValid valid_ContractNegotiation 200 (GetContractNegotiation_message L c)"
proof -
  have store: "f \<noteq> Responded x" if "storeNegotiation L P c d = (d', Some f)" for P c d d' f x
    using that by (auto simp: storeNegotiation_def split: outcome.splits option.splits prod.splits if_splits)
  have "providerContractRequestHandler L sv ctx fv body s = (s', Responded resp) \<Longrightarrow> \<exists>rl pid m s1. processMessage L sv ctx fv rl pid m s1 = (s', Responded resp)" for body
    by (auto simp: providerContractRequestHandler_def split: outcome.splits option.splits prod.splits dest: store)
  moreover have "consumerContractOfferHandler L sv ctx fv body s = (s', Responded resp) \<Longrightarrow> \<exists>rl pid m s1. processMessage L sv ctx fv rl pid m s1 = (s', Responded resp)" for body
    by (auto simp: consumerContractOfferHandler_def split: outcome.splits option.splits prod.splits dest: store)
  ultimately show "intended_handler L sv ctx fv cn msg s = (s', Responded resp) \<Longrightarrow> ?thesis"
    by (auto split: cstate.splits message.splits intro: processMessage_answer)
qed

section \<open>Documents arrive\<close>

text \<open>C8: a document that is a valid message of some kind is served by every route of the connector exactly as
  that message: a route whose handler reads another type finds the document invalid, which it answers as
  it answers a body that does not decode. So what the other theorems say of messages holds of the
  documents that are exchanged.\<close>

theorem documents_are_messages:
  assumes "read_as W k doc = OK m" and "valid_message m"
  shows "serve_contract_document L W sv ctx fv meth path doc s = serve_contract L sv ctx fv meth path m s
    \<and> serve_transfer_document L W sv ctx trace pid fresh meth path doc t = serve_transfer L sv ctx trace pid fresh meth path m t"
  using contract_document_is_message[OF assms] transfer_document_is_message[OF assms] by blast

text \<open>C5: a message of a contract negotiation arrives when it is sent at its role's turn, knowing both PIDs (or as
  the opening message), to a peer whose callback address is where it serves the protocol: the API, or the API's
  \<open>/callback\<close> when the peer is the consumer. Then what is sent can be written as a document, which the peer
  routes to the handler for that message, which takes the peer's own PID from the path and reads the very
  message that was sent. What it answers is written, and read by the sender's reconciler, without change.
  A consumer that opens its negotiation by the control service's \<open>ContractRequest\<close> gives out another address, and
  the provider's offers and agreements do not arrive there (\<open>control_request_unreachable\<close>).\<close>

theorem sent_document_arrives:
  assumes "contract_Send L d sctx fresh now cn = (cn', OK (ApAdd e))" and "uuid_laws L" and "url_ok L (n_callback cn)"
    and "ExtractRequesterInfo ctx = OK ri" and "uPath (n_callback cn) = api_path (callback_base cn)"
    and "n_state cn \<noteq> C_INITIAL \<Longrightarrow> n_role cn = sender (n_state cn) \<and> knows_both cn"
    and "wire_laws W" and "fit_offer W (offer_message (n_offer cn))" and "writable W now"
  shows "\<exists>doc. message_json W (Body e) = OK doc
    \<and> serve_contract_document L W sv ctx fv (Method e) (uPath (URL e)) doc s = Some (intended_handler L sv ctx fv cn (Body e) s)
    \<and> (\<forall>s' resp. intended_handler L sv ctx fv cn (Body e) s = (s', Responded resp) \<longrightarrow>
         read_ack (map_option ContractNegotiation_json (resp_body resp)) = resp_body resp)"
proof -
  have fit: "fit_message W (Body e)" "forget_message (Body e) = Body e" using contract_sent_fit[OF assms(1,8,9)] by blast+
  obtain doc where doc: "message_json W (Body e) = OK doc" "read_as W (kind_of (Body e)) doc = OK (Body e)"
    using message_back[OF assms(7) fit(1)] fit(2) by auto
  have "valid_message (Body e)" using sent_entry[OF assms(1,3)] by blast
  then show ?thesis
    using doc(1) contract_document_is_message[OF doc(2), of L] message_reaches_handler[OF assms(1-6)]
    by (auto simp del: intended_handler.simps dest!: intended_answer intro: ack_read_back)
qed

text \<open>C6: every message of a transfer arrives, too: the request at the handler that opens the transfer, the start
  and the completion at the peer's own transfer, in its role and under its PID, as the very message that was
  sent, with the place of the data it carries.\<close>

theorem sent_transfer_document_arrives:
  assumes "transfer_Send L d sctx (tr, cs) = (s', OK (ApAdd e))" and "uuid_laws L" and "url_ok L (r_callback tr)"
    and "uPath (r_callback tr) = api_path (transfer_base tr)" and "r_role tr \<in> {DataspaceConsumer, DataspaceProvider}"
    and "wire_laws W"
  shows "\<exists>doc. message_json W (Body e) = OK doc
    \<and> serve_transfer_document L W sv ctx trace pid fresh (Method e) (uPath (URL e)) doc s =
        Some (intended_transfer_handler L sv ctx trace pid fresh tr (Body e) s)"
proof -
  have fit: "fit_message W (Body e)" "forget_message (Body e) = Body e" using transfer_sent_fit[OF assms(1)] by blast+
  obtain doc where doc: "message_json W (Body e) = OK doc" "read_as W (kind_of (Body e)) doc = OK (Body e)"
    using message_back[OF assms(6) fit(1)] fit(2) by auto
  have "valid_message (Body e)" using transfer_sent_entry[OF assms(1,3)] by blast
  then show ?thesis
    using doc(1) transfer_document_is_message[OF doc(2), of L] transfer_message_reaches_handler[OF assms(1-5)]
    by (auto simp del: intended_transfer_handler.simps)
qed

section \<open>Examples\<close>

text \<open>The verification of an agreement, written by a consumer: at the route for agreements it is refused.\<close>

definition verification_document :: json where
  "verification_document = JObject [
     (''@context'', Context_MarshalJSON GetDSPContext), (''@type'', JString ''dspace:ContractAgreementVerificationMessage''),
     (''dspace:providerPid'', JString (uuid_URN sample_lib 2)), (''dspace:consumerPid'', JString (uuid_URN sample_lib 3))]"

lemma read_verification: "read_as sample_wire KContractVerification verification_document = OK sample_verification"
  using context_back[OF wf_DSPContext]
  by (simp add: verification_document_def sample_verification_def read_document_def ContractVerification_read_def wire_simps)

lemma documents_are_messages_witness:
  "serve_contract_document sample_lib sample_wire sample_server sample_ctx sample_fresh ''POST''
       (api_path [''callback'', ''negotiations'', ''3'', ''agreement'']) verification_document agreed_sys =
     Some (progressContractState sample_lib sample_server sample_ctx sample_fresh DataspaceConsumer ''3''
       (decode_as MContractAgreement valid_ContractAgreement None) agreed_sys)"
proof -
  have "valid_message sample_verification"
    by (simp add: sample_verification_def valid_message_def valid_ContractVerification_def required_def)
  note served = conjunct1[OF documents_are_messages[OF read_verification this]]
  have three: "plain_seg ''3''" by (simp add: plain_seg_def)
  have "ServeHTTP ''POST'' (api_path [''callback'', ''negotiations'', ''3'', ''agreement'']) =
      Some (ConsumerContractAgreement, [(''consumerPID'', ''3'')])"
    by (subst ServeHTTP_api) (simp_all add: three dispatch_simps)
  then show ?thesis
    by (simp add: served serve_contract_def PathValue_def sample_verification_def consumerContractAgreementHandler_def)
qed

lemma sent_document_arrives_witness:
  "\<exists>(e :: ReconciliationEntry) t doc. Body e = MContractAgreement t \<and> message_json sample_wire (Body e) = OK doc \<and>
     serve_contract_document sample_lib sample_wire sample_server sample_ctx sample_fresh (Method e) (uPath (URL e)) doc agreed_sys =
       Some (processMessage sample_lib sample_server sample_ctx sample_fresh DataspaceConsumer 3 (Body e) agreed_sys)"
proof -
  obtain cn' e t where e: "contract_Send sample_lib sample_deps sample_ctx 7 0 (agreeing callback_url) = (cn', OK (ApAdd e))"
      "Body e = MContractAgreement t"
    using agreeing_sends[of callback_url] by (auto simp: callback_url_def)
  have ri: "ExtractRequesterInfo sample_ctx = OK sample_requester" by (simp add: sample_ctx_def)
  have fit: "fit_offer sample_wire (offer_message (n_offer (agreeing callback_url)))" by (simp add: fit_offer_def list_all_iff)
  note r = sent_document_arrives[OF e(1) sample_lib_laws _ ri _ _ sample_wire_laws fit, of sample_server sample_fresh agreed_sys]
  obtain doc where "message_json sample_wire (Body e) = OK doc"
    "serve_contract_document sample_lib sample_wire sample_server sample_ctx sample_fresh (Method e) (uPath (URL e)) doc agreed_sys =
      Some (processMessage sample_lib sample_server sample_ctx sample_fresh DataspaceConsumer 3 (Body e) agreed_sys)"
    using r e(2) by (auto simp: callback_url_def callback_base_def knows_both_def Routing_Facts.peer_pid_def)
  then show ?thesis using e(2) by blast
qed

text \<open>A consumer that ends a transfer it pulls.\<close>

definition pulling :: transfer_request where
  "pulling = sample_transfer DataspaceConsumer T_STARTED DirectionPull\<lparr>r_callback := api_url\<rparr>"

lemma pulling_sends:
  "\<exists>s' e t. transfer_Send sample_lib sample_deps sample_ctx (pulling, []) = (s', OK (ApAdd e)) \<and> Body e = MTransferCompletion t"
  by (simp add: pulling_def T_Started_Send_def unpublishTransfer_def sendTransferCompletion_def ValidateAndMarshal_def
      valid_TransferCompletion_def required_def makeTransferRequestFunction_def makeRequestFunction_def api_url_def)

lemma sent_transfer_document_arrives_witness:
  "\<exists>(e :: ReconciliationEntry) t doc. Body e = MTransferCompletion t \<and> message_json sample_wire (Body e) = OK doc \<and>
     serve_transfer_document sample_lib sample_wire sample_server sample_ctx zero_trace 8 9 (Method e) (uPath (URL e)) doc started_sys =
       Some (processTransferMessage sample_lib sample_server sample_ctx 9 DataspaceProvider 2 True (Body e) started_sys)"
proof -
  obtain s' e t where e: "transfer_Send sample_lib sample_deps sample_ctx (pulling, []) = (s', OK (ApAdd e))" "Body e = MTransferCompletion t"
    using pulling_sends by blast
  have at: "url_ok sample_lib (r_callback pulling)" "uPath (r_callback pulling) = api_path (transfer_base pulling)"
      "r_role pulling \<in> {DataspaceConsumer, DataspaceProvider}"
    by (simp_all add: pulling_def api_url_def transfer_base_def)
  obtain doc where "message_json sample_wire (Body e) = OK doc"
    "serve_transfer_document sample_lib sample_wire sample_server sample_ctx zero_trace 8 9 (Method e) (uPath (URL e)) doc started_sys =
      Some (intended_transfer_handler sample_lib sample_server sample_ctx zero_trace 8 9 pulling (Body e) started_sys)"
    using sent_transfer_document_arrives[OF e(1) sample_lib_laws at sample_wire_laws, of sample_server sample_ctx zero_trace 8 9 started_sys]
    by blast
  moreover have "intended_transfer_handler sample_lib sample_server sample_ctx zero_trace 8 9 pulling (Body e) started_sys =
      processTransferMessage sample_lib sample_server sample_ctx 9 DataspaceProvider 2 True (Body e) started_sys"
    using e(2) by (simp add: pulling_def)
  ultimately have "serve_transfer_document sample_lib sample_wire sample_server sample_ctx zero_trace 8 9 (Method e) (uPath (URL e)) doc
      started_sys = Some (processTransferMessage sample_lib sample_server sample_ctx 9 DataspaceProvider 2 True (Body e) started_sys)"
    "message_json sample_wire (Body e) = OK doc" by simp_all
  then show ?thesis using e(2) by blast
qed

end
