(* ===== verification/Wire_Catalog.thy ===== *)
theory Wire_Catalog
  imports Wire_Roundtrip Catalog_Facts
begin

text \<open>
  The catalogue as a JSON document: the structs of \<open>dsp/shared/catalog_types.go\<close> by their tags. A dataset has
  distributions, which have services, which have datasets, so they are written and read together. Every
  catalogue a connector answers is read by the other as it was written.
\<close>

section \<open>Resources\<close>

text \<open>A number of Go's type \<open>int\<close>.\<close>

definition Unmarshal_int :: "int \<Rightarrow> json \<Rightarrow> int outcome" where
  "Unmarshal_int old j = (case j of JNum s \<Rightarrow> ParseInt64 s | JNull \<Rightarrow> OK old | _ \<Rightarrow> bad_json ''cannot unmarshal into int'')"

definition omit_int :: "string \<Rightarrow> int \<Rightarrow> members" where
  "omit_int n i = (if i = 0 then [] else [(n, JNum (FormatInt i))])"

definition dcat_Reference_json :: "dcat_Reference \<Rightarrow> json" where
  "dcat_Reference_json r = JObject [(''@id'', JString (dref_ID r))]"

definition dcat_Reference_read :: "dcat_Reference \<Rightarrow> members \<Rightarrow> dcat_Reference outcome" where
  "dcat_Reference_read r ms = obind (read_string ''@id'' (dref_ID r) ms) (\<lambda>i. OK \<lparr>dref_ID = i\<rparr>)"

definition zero_dcat_reference :: dcat_Reference where
  "zero_dcat_reference = \<lparr>dref_ID = []\<rparr>"

definition Checksum_json :: "Checksum \<Rightarrow> json" where
  "Checksum_json c = JObject (omit_string ''spdx:algorithm'' (Algorithm c) @ omit_string ''spdx:checksumValue'' (cs_Value c))"

definition Checksum_read :: "Checksum \<Rightarrow> members \<Rightarrow> Checksum outcome" where
  "Checksum_read c ms =
     obind (read_string ''spdx:algorithm'' (Algorithm c) ms) (\<lambda>a.
     obind (read_string ''spdx:checksumValue'' (cs_Value c) ms) (\<lambda>v. OK \<lparr>Algorithm = a, cs_Value = v\<rparr>))"

definition zero_checksum :: Checksum where
  "zero_checksum = \<lparr>Algorithm = [], cs_Value = []\<rparr>"

abbreviation Unmarshal_multilanguage :: "Multilanguage list \<Rightarrow> json \<Rightarrow> Multilanguage list outcome" where
  "Unmarshal_multilanguage \<equiv> Unmarshal_slice (Unmarshal_struct Multilanguage_read) zero_multilanguage"

definition Resource_members :: "Resource \<Rightarrow> members" where
  "Resource_members r =
     [(''@id'', JString (res_ID r)), (''@type'', JString (res_Type r))]
     @ omit_slice ''dcat:keyword'' JString (Keyword r)
     @ omit_slice ''dcat:theme'' dcat_Reference_json (Theme r)
     @ omit_string ''dct:conformsTo'' (ConformsTo r)
     @ omit_string ''dct:creator'' (Creator r)
     @ omit_slice ''dct:description'' Multilanguage_json (res_Description r)
     @ omit_string ''dct:identifier'' (Identifier r)
     @ omit_string ''dct:issued'' (Issued r)
     @ omit_string ''dct:modified'' (Modified r)
     @ omit_string ''dct:title'' (Title r)"

definition Resource_read :: "Resource \<Rightarrow> members \<Rightarrow> Resource outcome" where
  "Resource_read r ms =
     obind (read_string ''@id'' (res_ID r) ms) (\<lambda>x0.
     obind (read_string ''@type'' (res_Type r) ms) (\<lambda>x1.
     obind (read_field (Unmarshal_slice Unmarshal_string []) ''dcat:keyword'' (Keyword r) ms) (\<lambda>x2.
     obind (read_field (Unmarshal_slice (Unmarshal_struct dcat_Reference_read) zero_dcat_reference) ''dcat:theme'' (Theme r) ms) (\<lambda>x3.
     obind (read_string ''dct:conformsTo'' (ConformsTo r) ms) (\<lambda>x4.
     obind (read_string ''dct:creator'' (Creator r) ms) (\<lambda>x5.
     obind (read_field Unmarshal_multilanguage ''dct:description'' (res_Description r) ms) (\<lambda>x6.
     obind (read_string ''dct:identifier'' (Identifier r) ms) (\<lambda>x7.
     obind (read_string ''dct:issued'' (Issued r) ms) (\<lambda>x8.
     obind (read_string ''dct:modified'' (Modified r) ms) (\<lambda>x9.
     obind (read_string ''dct:title'' (Title r) ms) (\<lambda>x10.
     OK \<lparr>res_ID = x0, res_Type = x1, Keyword = x2, Theme = x3, ConformsTo = x4, Creator = x5, res_Description = x6,
        Identifier = x7, Issued = x8, Modified = x9, Title = x10\<rparr>)))))))))))"

section \<open>Datasets\<close>

lemma omit_slice_cong [fundef_cong]:
  "n = n' \<Longrightarrow> xs = ys \<Longrightarrow> (\<And>x. x \<in> set ys \<Longrightarrow> f x = g x) \<Longrightarrow> omit_slice n f xs = omit_slice n' g ys"
  by (simp add: omit_slice_def cong: map_cong)

fun Dataset_members :: "wire_pkg \<Rightarrow> Dataset \<Rightarrow> members"
  and Distribution_members :: "wire_pkg \<Rightarrow> Distribution \<Rightarrow> members"
  and DataService_members :: "wire_pkg \<Rightarrow> DataService \<Rightarrow> members" where
  "Dataset_members W (Dataset r ps ds) =
     Resource_members r
     @ omit_slice ''odrl:hasPolicy'' (Offer_json W) ps
     @ omit_slice ''dcat:distribution'' (\<lambda>d. JObject (Distribution_members W d)) ds"
| "Distribution_members W (Distribution ty fmt title desc iss mdf ps svcs lic acc rig sz media compr pack chk) =
     omit_string ''@type'' ty
     @ omit_string ''dct:format'' fmt
     @ omit_string ''dct:title'' title
     @ omit_slice ''dct:description'' Multilanguage_json desc
     @ omit_string ''dct:issued'' iss
     @ omit_string ''dct:modified'' mdf
     @ omit_slice ''odrl:hasPolicy'' (Offer_json W) ps
     @ omit_slice ''dcat:accessService'' (\<lambda>s. JObject (DataService_members W s)) svcs
     @ omit_string ''dcterms:license'' lic
     @ omit_string ''dcterms:accessRights'' acc
     @ omit_string ''dcterms:rights'' rig
     @ omit_int ''dcat:byteSize'' sz
     @ omit_string ''dcat:mediaType'' media
     @ omit_string ''dcat:compressFormat'' compr
     @ omit_string ''dcat:packageFormat'' pack
     @ omit_pointer ''spdx:checksum'' Checksum_json chk"
| "DataService_members W (DataService r desc url ds) =
     Resource_members r
     @ omit_string ''dcat:endpointDescription'' desc
     @ omit_string ''dcat:endpointURL'' url
     @ omit_slice ''dcat:servesDataset'' (\<lambda>d. JObject (Dataset_members W d)) ds"

text \<open>Reading goes down the document: every member is smaller than the object it is in.\<close>

definition members_size :: "members \<Rightarrow> nat" where
  "members_size ms = size (JObject ms)"

lemma json_element: "x \<in> set js \<Longrightarrow> size x < size (JList js)"
  by (induction js) auto

lemma json_member: "(k, j) \<in> set ms \<Longrightarrow> size j < size (JObject ms)"
  by (induction ms) auto

lemma read_field_same:
  "(\<And>w k j. (k, j) \<in> set ms \<Longrightarrow> dec w j = dec' w j) \<Longrightarrow> read_field dec n v ms = read_field dec' n v ms"
proof (induction ms arbitrary: v)
  case (Cons m ms)
  have "read_field dec n w ms = read_field dec' n w ms" for w using Cons.prems by (intro Cons.IH) auto
  moreover have "dec v (snd m) = dec' v (snd m)" using Cons.prems[of "fst m" "snd m"] by simp
  ultimately show ?case by (cases m) simp
qed simp

lemma read_field_cong [fundef_cong]:
  "n = n' \<Longrightarrow> v = v' \<Longrightarrow> ms = ms' \<Longrightarrow> (\<And>w k j. (k, j) \<in> set ms' \<Longrightarrow> dec w j = dec' w j) \<Longrightarrow>
     read_field dec n v ms = read_field dec' n' v' ms'"
  using read_field_same[of ms' dec dec' n' v'] by simp

lemma omap_cong: "(\<And>x. x \<in> set xs \<Longrightarrow> f x = g x) \<Longrightarrow> omap f xs = omap g xs"
  by (induction xs) simp_all

lemma Unmarshal_slice_cong [fundef_cong]:
  "z = z' \<Longrightarrow> old = old' \<Longrightarrow> j = j' \<Longrightarrow> (\<And>js x. j' = JList js \<Longrightarrow> x \<in> set js \<Longrightarrow> dec z' x = dec' z' x) \<Longrightarrow>
     Unmarshal_slice dec z old j = Unmarshal_slice dec' z' old' j'"
  by (auto simp: Unmarshal_slice_def intro: omap_cong split: json.split)

lemma Unmarshal_struct_cong [fundef_cong]:
  "old = old' \<Longrightarrow> j = j' \<Longrightarrow> (\<And>ms. j' = JObject ms \<Longrightarrow> rd old' ms = rd' old' ms) \<Longrightarrow>
     Unmarshal_struct rd old j = Unmarshal_struct rd' old' j'"
  by (auto simp: Unmarshal_struct_def split: json.split)

definition zero_dataset :: Dataset where
  "zero_dataset = Dataset zero_resource [] []"

definition zero_distribution :: Distribution where
  "zero_distribution = Distribution [] [] [] [] [] [] [] [] [] [] [] 0 [] [] [] None"

definition zero_service :: DataService where
  "zero_service = DataService zero_resource [] [] []"

abbreviation Unmarshal_offers :: "wire_pkg \<Rightarrow> Offer list \<Rightarrow> json \<Rightarrow> Offer list outcome" where
  "Unmarshal_offers W \<equiv> Unmarshal_slice (Unmarshal_struct (Offer_read W)) zero_offer"

function (sequential) Dataset_read :: "wire_pkg \<Rightarrow> Dataset \<Rightarrow> members \<Rightarrow> Dataset outcome"
  and Distribution_read :: "wire_pkg \<Rightarrow> Distribution \<Rightarrow> members \<Rightarrow> Distribution outcome"
  and DataService_read :: "wire_pkg \<Rightarrow> DataService \<Rightarrow> members \<Rightarrow> DataService outcome" where
  "Dataset_read W d ms =
     obind (Resource_read (ds_Resource d) ms) (\<lambda>r.
     obind (read_field (Unmarshal_offers W) ''odrl:hasPolicy'' (HasPolicy d) ms) (\<lambda>ps.
     obind (read_field (Unmarshal_slice (Unmarshal_struct (Distribution_read W)) zero_distribution) ''dcat:distribution''
              (ds_Distribution d) ms) (\<lambda>ds.
     OK (Dataset r ps ds))))"
| "Distribution_read W d ms =
     obind (read_string ''@type'' (dist_Type d) ms) (\<lambda>ty.
     obind (read_string ''dct:format'' (dist_Format d) ms) (\<lambda>fmt.
     obind (read_string ''dct:title'' (dist_Title d) ms) (\<lambda>title.
     obind (read_field Unmarshal_multilanguage ''dct:description'' (dist_Description d) ms) (\<lambda>desc.
     obind (read_string ''dct:issued'' (dist_Issued d) ms) (\<lambda>iss.
     obind (read_string ''dct:modified'' (dist_Modified d) ms) (\<lambda>mdf.
     obind (read_field (Unmarshal_offers W) ''odrl:hasPolicy'' (dist_HasPolicy d) ms) (\<lambda>ps.
     obind (read_field (Unmarshal_slice (Unmarshal_struct (DataService_read W)) zero_service) ''dcat:accessService''
              (AccessService d) ms) (\<lambda>svcs.
     obind (read_string ''dcterms:license'' (License d) ms) (\<lambda>lic.
     obind (read_string ''dcterms:accessRights'' (AccessRights d) ms) (\<lambda>acc.
     obind (read_string ''dcterms:rights'' (Rights d) ms) (\<lambda>rig.
     obind (read_field Unmarshal_int ''dcat:byteSize'' (ByteSize d) ms) (\<lambda>sz.
     obind (read_string ''dcat:mediaType'' (MediaType d) ms) (\<lambda>media.
     obind (read_string ''dcat:compressFormat'' (CompressFormat d) ms) (\<lambda>compr.
     obind (read_string ''dcat:packageFormat'' (PackageFormat d) ms) (\<lambda>pack.
     obind (read_field (Unmarshal_pointer (Unmarshal_struct Checksum_read) zero_checksum) ''spdx:checksum''
              (dist_Checksum d) ms) (\<lambda>chk.
     OK (Distribution ty fmt title desc iss mdf ps svcs lic acc rig sz media compr pack chk)))))))))))))))))"
| "DataService_read W d ms =
     obind (Resource_read (svc_Resource d) ms) (\<lambda>r.
     obind (read_string ''dcat:endpointDescription'' (EndpointDescription d) ms) (\<lambda>desc.
     obind (read_string ''dcat:endpointURL'' (EndpointURL d) ms) (\<lambda>url.
     obind (read_field (Unmarshal_slice (Unmarshal_struct (Dataset_read W)) zero_dataset) ''dcat:servesDataset''
              (ServesDataset d) ms) (\<lambda>ds.
     OK (DataService r desc url ds)))))"
  by pat_completeness auto

termination
  by (relation "measure (\<lambda>x. case x of Inl (W, d, ms) \<Rightarrow> members_size ms
        | Inr (Inl (W, d, ms)) \<Rightarrow> members_size ms | Inr (Inr (W, d, ms)) \<Rightarrow> members_size ms)")
    (auto simp: members_size_def simp del: json.size dest!: json_member json_element)

declare Dataset_read.simps [simp del] Distribution_read.simps [simp del] DataService_read.simps [simp del]
  Dataset_members.simps [simp del] Distribution_members.simps [simp del] DataService_members.simps [simp del]

section \<open>What arrives\<close>

lemma catalog_names:
  "ToLower ''dcat:keyword'' = ''dcat:keyword''" "ToLower ''dcat:theme'' = ''dcat:theme''"
  "ToLower ''dct:conformsTo'' = ''dct:conformsto''" "ToLower ''dct:creator'' = ''dct:creator''"
  "ToLower ''dct:identifier'' = ''dct:identifier''" "ToLower ''dct:issued'' = ''dct:issued''"
  "ToLower ''dct:modified'' = ''dct:modified''" "ToLower ''dct:title'' = ''dct:title''"
  "ToLower ''odrl:hasPolicy'' = ''odrl:haspolicy''" "ToLower ''dcat:distribution'' = ''dcat:distribution''"
  "ToLower ''dcat:accessService'' = ''dcat:accessservice''" "ToLower ''dcterms:license'' = ''dcterms:license''"
  "ToLower ''dcterms:accessRights'' = ''dcterms:accessrights''" "ToLower ''dcterms:rights'' = ''dcterms:rights''"
  "ToLower ''dcat:byteSize'' = ''dcat:bytesize''" "ToLower ''dcat:mediaType'' = ''dcat:mediatype''"
  "ToLower ''dcat:compressFormat'' = ''dcat:compressformat''" "ToLower ''dcat:packageFormat'' = ''dcat:packageformat''"
  "ToLower ''spdx:checksum'' = ''spdx:checksum''" "ToLower ''spdx:algorithm'' = ''spdx:algorithm''"
  "ToLower ''spdx:checksumValue'' = ''spdx:checksumvalue''"
  "ToLower ''dcat:endpointDescription'' = ''dcat:endpointdescription''"
  "ToLower ''dcat:endpointURL'' = ''dcat:endpointurl''" "ToLower ''dcat:servesDataset'' = ''dcat:servesdataset''"
  "ToLower ''dcat:dataset'' = ''dcat:dataset''" "ToLower ''dcat:service'' = ''dcat:service''"
  "ToLower ''dspace:participantID'' = ''dspace:participantid''" "ToLower ''foaf:homepage'' = ''foaf:homepage''"
  "ToLower ''dspace:filter'' = ''dspace:filter''" "ToLower ''dspace:dataset'' = ''dspace:dataset''"
  by code_simp+

lemmas [wire_simps] = catalog_names

text \<open>Members that do not name a field leave it.\<close>

definition touches :: "string \<Rightarrow> members \<Rightarrow> bool" where
  "touches n ms \<longleftrightarrow> list_ex (\<lambda>m. same_key (fst m) n) ms"

lemma untouched: "\<not> touches n ms \<Longrightarrow> read_field dec n v ms = OK v"
  by (induction dec n v ms rule: read_field.induct) (auto simp: touches_def)

lemma touches_simps [simp]:
  "touches n (xs @ ys) \<longleftrightarrow> touches n xs \<or> touches n ys" "touches n ((k, j) # xs) \<longleftrightarrow> same_key k n \<or> touches n xs" "\<not> touches n []"
  "touches n (omit_string k s) \<longleftrightarrow> same_key k n \<and> s \<noteq> []" "touches n (omit_slice k enc zs) \<longleftrightarrow> same_key k n \<and> zs \<noteq> []"
  "touches n (slice_member W k enc zs) \<longleftrightarrow> same_key k n" "touches n (omit_pointer k enc' p) \<longleftrightarrow> same_key k n \<and> p \<noteq> None"
  "touches n (omit_int k i) \<longleftrightarrow> same_key k n \<and> i \<noteq> 0"
  by (auto simp: touches_def omit_string_def omit_slice_def slice_member_def omit_pointer_def omit_int_def split: option.split)

lemma ParseInt64_FormatInt: "- (2 ^ 63) \<le> i \<Longrightarrow> i < 2 ^ 63 \<Longrightarrow> ParseInt64 (FormatInt i) = OK i"
  using ParseInt64_FormatInt_nonneg[of i]
  by (cases "i < 0") (auto simp: ParseInt64_def FormatInt_def HasPrefix_def show_nat_digits Let_def)

lemma read_int_back:
  assumes "- (2 ^ 63) \<le> i" and "i < 2 ^ 63"
  shows "read_field Unmarshal_int n 0 (omit_int n i) = OK i"
  using assms ParseInt64_FormatInt[of i] by (simp add: omit_int_def Unmarshal_int_def)

interpretation dref: struct_codec dcat_Reference_json dcat_Reference_read zero_dcat_reference
  by unfold_locales (simp add: dcat_Reference_json_def dcat_Reference_read_def zero_dcat_reference_def wire_simps)

interpretation chk: struct_codec Checksum_json Checksum_read zero_checksum
  by unfold_locales (simp add: Checksum_json_def Checksum_read_def zero_checksum_def wire_simps)

lemma strings_back: "read_field (Unmarshal_slice Unmarshal_string []) n [] (omit_slice n JString ss) = OK ss"
  by (rule read_omit_slice) simp

definition resource_names :: "string list" where
  "resource_names = [''@id'', ''@type'', ''dcat:keyword'', ''dcat:theme'', ''dct:conformsTo'', ''dct:creator'', ''dct:description'',
     ''dct:identifier'', ''dct:issued'', ''dct:modified'', ''dct:title'']"

lemma resource_touches: "touches n (Resource_members r) \<Longrightarrow> \<exists>k\<in>set resource_names. same_key k n"
  by (auto simp: Resource_members_def resource_names_def)

lemma resource_back:
  assumes "\<forall>n\<in>set resource_names. \<not> touches n ms"
  shows "Resource_read zero_resource (Resource_members r @ ms) = OK r"
  using assms
  by (simp add: Resource_read_def Resource_members_def zero_resource_def resource_names_def wire_simps untouched
      strings_back dref.slice ml.slice)

lemma resource_others [wire_simps]:
  "ToLower n \<notin> ToLower ` set resource_names \<Longrightarrow> read_field dec n v (Resource_members r) = OK v"
  using resource_touches[of n r] by (intro untouched) (metis imageI same_key_def)

lemma offers_back:
  assumes "wire_laws W" and "list_all (\<lambda>f. fit_offer W (offer_message f)) ps"
  shows "read_field (Unmarshal_offers W) n [] (omit_slice n (Offer_json W) ps) = OK ps"
proof (rule read_omit_slice)
  fix f assume "f \<in> set ps"
  then have "fit_offer W (offer_message f)" using assms(2) by (simp add: list_all_iff)
  from offer_back[OF assms(1) this] show "Unmarshal_struct (Offer_read W) zero_offer (Offer_json W f) = OK f"
    by (auto simp: Offer_json_def Offer_read_def zero_offer_def Unmarshal_struct_def MessageOffer_json_def)
qed

fun fit_Dataset :: "wire_pkg \<Rightarrow> Dataset \<Rightarrow> bool" and fit_Distribution :: "wire_pkg \<Rightarrow> Distribution \<Rightarrow> bool"
  and fit_DataService :: "wire_pkg \<Rightarrow> DataService \<Rightarrow> bool" where
  "fit_Dataset W (Dataset r ps ds) = (list_all (\<lambda>f. fit_offer W (offer_message f)) ps \<and> list_all (fit_Distribution W) ds)"
| "fit_Distribution W (Distribution ty fmt title desc iss mdf ps svcs lic acc rig sz media compr pack chk) =
     (list_all (\<lambda>f. fit_offer W (offer_message f)) ps \<and> list_all (fit_DataService W) svcs \<and> - (2 ^ 63) \<le> sz \<and> sz < 2 ^ 63)"
| "fit_DataService W (DataService r desc url ds) = list_all (fit_Dataset W) ds"

lemma dataset_back:
  assumes "wire_laws W"
  shows "fit_Dataset W d \<Longrightarrow> Dataset_read W zero_dataset (Dataset_members W d) = OK d"
    and "fit_Distribution W dst \<Longrightarrow> Distribution_read W zero_distribution (Distribution_members W dst) = OK dst"
    and "fit_DataService W svc \<Longrightarrow> DataService_read W zero_service (DataService_members W svc) = OK svc"
proof (induction d and dst and svc)
  case (Dataset r ps ds)
  have "read_field (Unmarshal_slice (Unmarshal_struct (Distribution_read W)) zero_distribution) n []
      (omit_slice n (\<lambda>d. JObject (Distribution_members W d)) ds) = OK ds" for n
    using Dataset by (intro read_omit_slice) (simp add: Unmarshal_struct_def list_all_iff)
  then show ?case using Dataset.prems
    by (simp add: Dataset_read.simps Dataset_members.simps zero_dataset_def resource_back resource_names_def offers_back[OF assms]
        wire_simps)
next
  case (Distribution ty fmt title desc iss mdf ps svcs lic acc rig sz media compr pack chk)
  have "read_field (Unmarshal_slice (Unmarshal_struct (DataService_read W)) zero_service) n []
      (omit_slice n (\<lambda>d. JObject (DataService_members W d)) svcs) = OK svcs" for n
    using Distribution by (intro read_omit_slice) (simp add: Unmarshal_struct_def list_all_iff)
  then show ?case using Distribution.prems
    by (simp add: Distribution_read.simps Distribution_members.simps zero_distribution_def offers_back[OF assms]
        ml.slice chk.pointer read_int_back untouched wire_simps)
next
  case (DataService r desc url ds)
  have "read_field (Unmarshal_slice (Unmarshal_struct (Dataset_read W)) zero_dataset) n []
      (omit_slice n (\<lambda>d. JObject (Dataset_members W d)) ds) = OK ds" for n
    using DataService by (intro read_omit_slice) (simp add: Unmarshal_struct_def list_all_iff)
  then show ?case using DataService.prems
    by (simp add: DataService_read.simps DataService_members.simps zero_service_def resource_back resource_names_def wire_simps)
qed

section \<open>Catalogue messages\<close>

text \<open>The filter of a request is always made empty, and written as the empty list; what is read must be a list.\<close>

definition CatalogRequest_json :: "CatalogRequestMessage \<Rightarrow> json" where
  "CatalogRequest_json m = JObject [(''@context'', Context_MarshalJSON (catm_Context m)), (''@type'', JString (catm_Type m)),
     (''dspace:filter'', JList [])]"

definition CatalogRequest_read :: "wire_pkg \<Rightarrow> members \<Rightarrow> CatalogRequestMessage outcome" where
  "CatalogRequest_read W ms =
     obind (read_field Unmarshal_context ''@context'' zero_context ms) (\<lambda>x0.
     obind (read_string ''@type'' [] ms) (\<lambda>x1.
     obind (read_field (Unmarshal_slice (Unmarshal_any W) JNull) ''dspace:filter'' [] ms) (\<lambda>_.
     OK \<lparr>catm_Context = x0, catm_Type = x1\<rparr>)))"

definition DatasetRequest_json :: "DatasetRequestMessage \<Rightarrow> json" where
  "DatasetRequest_json m = JObject [(''@context'', Context_MarshalJSON (dsm_Context m)), (''@type'', JString (dsm_Type m)),
     (''dspace:dataset'', JString (dsm_Dataset m))]"

definition DatasetRequest_read :: "members \<Rightarrow> DatasetRequestMessage outcome" where
  "DatasetRequest_read ms =
     obind (read_field Unmarshal_context ''@context'' zero_context ms) (\<lambda>x0.
     obind (read_string ''@type'' [] ms) (\<lambda>x1.
     obind (read_string ''dspace:dataset'' [] ms) (\<lambda>x2. OK \<lparr>dsm_Context = x0, dsm_Type = x1, dsm_Dataset = x2\<rparr>)))"

text \<open>The catalogue is a dataset itself, embedded.\<close>

definition CatalogAcknowledgement_json :: "wire_pkg \<Rightarrow> CatalogAcknowledgement \<Rightarrow> json" where
  "CatalogAcknowledgement_json W m = JObject ((''@context'', Context_MarshalJSON (cack_Context m))
     # Dataset_members W (cack_Dataset m)
     @ slice_member W ''dcat:dataset'' (\<lambda>d. JObject (Dataset_members W d)) (Datasets m)
     @ slice_member W ''dcat:service'' (\<lambda>s. JObject (DataService_members W s)) (Service m)
     @ omit_string ''dspace:participantID'' (ParticipantID m)
     @ omit_string ''foaf:homepage'' (Homepage m))"

definition CatalogAcknowledgement_read :: "wire_pkg \<Rightarrow> members \<Rightarrow> CatalogAcknowledgement outcome" where
  "CatalogAcknowledgement_read W ms =
     obind (read_field Unmarshal_context ''@context'' zero_context ms) (\<lambda>x0.
     obind (Dataset_read W zero_dataset ms) (\<lambda>x1.
     obind (read_field (Unmarshal_slice (Unmarshal_struct (Dataset_read W)) zero_dataset) ''dcat:dataset'' [] ms) (\<lambda>x2.
     obind (read_field (Unmarshal_slice (Unmarshal_struct (DataService_read W)) zero_service) ''dcat:service'' [] ms) (\<lambda>x3.
     obind (read_string ''dspace:participantID'' [] ms) (\<lambda>x4.
     obind (read_string ''foaf:homepage'' [] ms) (\<lambda>x5.
     OK \<lparr>cack_Context = x0, cack_Dataset = x1, Datasets = x2, Service = x3, ParticipantID = x4, Homepage = x5\<rparr>))))))"

lemma catalog_requests_back:
  "wf_Context (catm_Context c) \<Longrightarrow> read_document (CatalogRequest_read W) (CatalogRequest_json c) = OK c"
  "wf_Context (dsm_Context d) \<Longrightarrow> read_document DatasetRequest_read (DatasetRequest_json d) = OK d"
  using context_back[of "catm_Context c"] context_back[of "dsm_Context d"]
  by (simp_all add: read_document_def CatalogRequest_json_def CatalogRequest_read_def DatasetRequest_json_def
      DatasetRequest_read_def Unmarshal_slice_def wire_simps)

text \<open>A dataset reads its own members among others that it does not name.\<close>

definition dataset_names :: "string list" where
  "dataset_names = resource_names @ [''odrl:hasPolicy'', ''dcat:distribution'']"

lemma dataset_touches: "touches n (Dataset_members W d) \<Longrightarrow> \<exists>k\<in>set dataset_names. same_key k n"
  using resource_touches[of n] by (cases d) (auto simp: Dataset_members.simps dataset_names_def)

lemma dataset_others:
  "ToLower n \<notin> ToLower ` set dataset_names \<Longrightarrow> read_field dec n v (Dataset_members W d) = OK v"
  using dataset_touches[of n W d] by (intro untouched) (metis imageI same_key_def)

lemma read_among:
  assumes "\<not> touches n xs" and "\<not> touches n ys"
  shows "read_field dec n v (xs @ ms @ ys) = read_field dec n v ms"
proof -
  have "obind r (\<lambda>w. read_field dec n w ys) = r" for r by (cases r) (simp_all add: untouched assms(2))
  then show ?thesis using assms(1) by (simp add: read_field_append untouched)
qed

lemma Dataset_read_among:
  assumes "\<forall>n\<in>set dataset_names. \<not> touches n xs" and "\<forall>n\<in>set dataset_names. \<not> touches n ys"
  shows "Dataset_read W d (xs @ ms @ ys) = Dataset_read W d ms"
  using assms by (simp add: Dataset_read.simps Resource_read_def dataset_names_def resource_names_def read_among)

definition fit_catalogue :: "wire_pkg \<Rightarrow> CatalogAcknowledgement \<Rightarrow> bool" where
  "fit_catalogue W m \<longleftrightarrow> wf_Context (cack_Context m) \<and> fit_Dataset W (cack_Dataset m) \<and> list_all (fit_Dataset W) (Datasets m)
     \<and> list_all (fit_DataService W) (Service m)"

lemma catalogue_back:
  assumes "wire_laws W" and "fit_catalogue W m"
  shows "read_document (CatalogAcknowledgement_read W) (CatalogAcknowledgement_json W m) = OK m"
proof -
  let ?ctx = "[(''@context'', Context_MarshalJSON (cack_Context m))]"
  let ?rest = "slice_member W ''dcat:dataset'' (\<lambda>d. JObject (Dataset_members W d)) (Datasets m)
     @ slice_member W ''dcat:service'' (\<lambda>s. JObject (DataService_members W s)) (Service m)
     @ omit_string ''dspace:participantID'' (ParticipantID m) @ omit_string ''foaf:homepage'' (Homepage m)"
  have "Dataset_read W zero_dataset (?ctx @ Dataset_members W (cack_Dataset m) @ ?rest) = OK (cack_Dataset m)"
    using dataset_back(1)[OF assms(1)] assms(2)
    by (subst Dataset_read_among) (simp_all add: dataset_names_def resource_names_def fit_catalogue_def wire_simps)
  moreover have "read_field (Unmarshal_slice (Unmarshal_struct (Dataset_read W)) zero_dataset) n []
      (slice_member W n (\<lambda>d. JObject (Dataset_members W d)) (Datasets m)) = OK (Datasets m)" for n
    using assms dataset_back(1)[OF assms(1)]
    by (intro read_slice_member wire_lawsD(1)) (simp_all add: Unmarshal_struct_def fit_catalogue_def list_all_iff)
  moreover have "read_field (Unmarshal_slice (Unmarshal_struct (DataService_read W)) zero_service) n []
      (slice_member W n (\<lambda>s. JObject (DataService_members W s)) (Service m)) = OK (Service m)" for n
    using assms dataset_back(3)[OF assms(1)]
    by (intro read_slice_member wire_lawsD(1)) (simp_all add: Unmarshal_struct_def fit_catalogue_def list_all_iff)
  moreover have "Unmarshal_context zero_context (Context_MarshalJSON (cack_Context m)) = OK (cack_Context m)"
    using assms(2) by (intro context_back) (simp add: fit_catalogue_def)
  ultimately show ?thesis
    by (simp add: read_document_def CatalogAcknowledgement_json_def CatalogAcknowledgement_read_def dataset_others
        dataset_names_def resource_names_def wire_simps)
qed

section \<open>Asking with documents\<close>

definition decoded :: "(members \<Rightarrow> 'r outcome) \<Rightarrow> json \<Rightarrow> 'r option" where
  "decoded rd doc = (case read_document rd doc of OK m \<Rightarrow> Some m | _ \<Rightarrow> None)"

definition write_answer :: "('r \<Rightarrow> json) \<Rightarrow> 'r peer_answer \<Rightarrow> json peer_answer" where
  "write_answer enc a = obind a (\<lambda>(code, body). OK (code, map_option enc body))"

definition read_answer :: "(members \<Rightarrow> 'r outcome) \<Rightarrow> json peer_answer \<Rightarrow> 'r peer_answer" where
  "read_answer rd a = obind a (\<lambda>(code, body). OK (code, Option.bind body (decoded rd)))"

definition serve_version_document :: "wire_pkg \<Rightarrow> url \<Rightarrow> json peer_answer" where
  "serve_version_document W u = write_answer (VersionResponse_json W) (serve_version u)"

definition serve_catalogue_document :: "'a uuid_pkg_scheme \<Rightarrow> wire_pkg \<Rightarrow> catalog_server \<Rightarrow> go_context \<Rightarrow> url \<Rightarrow> json
    \<Rightarrow> json peer_answer" where
  "serve_catalogue_document P W ch ctx u doc = (case ServeHTTP ''POST'' (wire_path u) of
     Some (CatalogRequest, vs) \<Rightarrow> write_answer (CatalogAcknowledgement_json W)
       (answer_of cate_status (catalogRequestHandler P ch ctx (decoded (CatalogRequest_read W) doc)))
   | _ \<Rightarrow> OK (404, None))"

definition serve_dataset_document :: "'a uuid_pkg_scheme \<Rightarrow> wire_pkg \<Rightarrow> catalog_server \<Rightarrow> go_context \<Rightarrow> url \<Rightarrow> json
    \<Rightarrow> json peer_answer" where
  "serve_dataset_document P W ch ctx u doc = (case ServeHTTP ''GET'' (wire_path u) of
     Some (CatalogDataset, vs) \<Rightarrow> write_answer (\<lambda>d. JObject (Dataset_members W d))
       (answer_of cate_status (datasetRequestHandler P ch ctx (PathValue (map_of vs) ''id'') (decoded DatasetRequest_read doc)))
   | _ \<Rightarrow> OK (404, None))"

text \<open>The control service writes its request and reads the answer.\<close>

definition ask :: "('b \<Rightarrow> json) \<Rightarrow> (members \<Rightarrow> 'r outcome) \<Rightarrow> (url \<Rightarrow> json \<Rightarrow> json peer_answer) \<Rightarrow> url \<Rightarrow> 'b \<Rightarrow> 'r peer_answer" where
  "ask enc rd serve u m = read_answer rd (serve u (enc m))"

lemma answer_back:
  assumes "\<And>code x. a = OK (code, Some x) \<Longrightarrow> read_document rd (enc x) = OK x"
  shows "read_answer rd (write_answer enc a) = a"
proof (cases a)
  case (OK r)
  then show ?thesis using assms by (cases r; cases "snd r") (auto simp: read_answer_def write_answer_def decoded_def)
qed (simp_all add: read_answer_def write_answer_def)

lemma answer_of_body: "answer_of code r = OK (st, Some x) \<Longrightarrow> \<exists>resp. r = Responded resp \<and> resp_body resp = Some x"
  by (cases r) auto

lemma version_asked: "wire_laws W \<Longrightarrow> read_answer VersionResponse_read (serve_version_document W u) = serve_version u"
  unfolding serve_version_document_def
  by (intro answer_back answers_back(3))
    (auto simp: serve_version_def dspaceVersionHandler_def ValidateAndMarshal_def version_response_def
      split: option.splits endpoint.splits if_splits)

definition int64 :: "int \<Rightarrow> bool" where
  "int64 i \<longleftrightarrow> - (2 ^ 63) \<le> i \<and> i < 2 ^ 63"

lemma service_fit [simp]: "fit_DataService W (getDataService ch)"
  by (simp add: getDataService_def)

lemma provider_dataset_fit: "int64 (rd_ByteSize ds) \<Longrightarrow> fit_Dataset W (processProviderDataset P T ds (getDataService ch))"
  by (simp add: processProviderDataset_def int64_def)

lemma handler_catalogue_fit:
  assumes "catalogRequestHandler P ch ctx body = Responded resp" and "resp_body resp = Some a"
    and "\<And>ri ds. ExtractRequesterInfo ctx = OK ri \<Longrightarrow> ca_catalogue ch ri = RpcOK ds \<Longrightarrow> list_all (\<lambda>d. int64 (rd_ByteSize d)) ds"
  shows "fit_catalogue W a"
  using assms
  by (auto simp: catalogRequestHandler_def EncodeValid_def fit_catalogue_def wf_DSPContext processProviderCatalogue_def list_all_iff
      provider_dataset_fit split: outcome.splits rpc_answer.splits if_splits)

lemma catalogue_asked:
  assumes "wire_laws W" and "wf_Context (catm_Context m)"
    and "\<And>ri ds. ExtractRequesterInfo ctx = OK ri \<Longrightarrow> ca_catalogue ch ri = RpcOK ds \<Longrightarrow> list_all (\<lambda>d. int64 (rd_ByteSize d)) ds"
  shows "ask CatalogRequest_json (CatalogAcknowledgement_read W) (serve_catalogue_document P W ch ctx) u m = serve_catalogue P ch ctx u m"
proof -
  have "read_answer (CatalogAcknowledgement_read W) (write_answer (CatalogAcknowledgement_json W)
      (answer_of cate_status (catalogRequestHandler P ch ctx (Some m)))) = answer_of cate_status (catalogRequestHandler P ch ctx (Some m))"
    using handler_catalogue_fit[OF _ _ assms(3)] by (intro answer_back catalogue_back[OF assms(1)]) (auto dest!: answer_of_body)
  moreover have "decoded (CatalogRequest_read W) (CatalogRequest_json m) = Some m"
    using catalog_requests_back(1)[OF assms(2)] by (simp add: decoded_def)
  ultimately show ?thesis
    by (simp add: ask_def serve_catalogue_document_def serve_catalogue_def read_answer_def split: option.split endpoint.split)
qed

lemma handler_dataset_fit:
  assumes "datasetRequestHandler P ch ctx i body = Responded resp" and "resp_body resp = Some a"
    and "\<And>ri ds. ExtractRequesterInfo ctx = OK ri \<Longrightarrow> ca_dataset ch i ri = RpcOK ds \<Longrightarrow> int64 (rd_ByteSize ds)"
  shows "fit_Dataset W a"
  using assms
  by (auto simp: datasetRequestHandler_def EncodeValid_def provider_dataset_fit split: outcome.splits rpc_answer.splits if_splits)

lemma dataset_asked:
  assumes "wire_laws W" and "wf_Context (dsm_Context m)"
    and "\<And>i ri ds. ExtractRequesterInfo ctx = OK ri \<Longrightarrow> ca_dataset ch i ri = RpcOK ds \<Longrightarrow> int64 (rd_ByteSize ds)"
  shows "ask DatasetRequest_json (Dataset_read W zero_dataset) (serve_dataset_document P W ch ctx) u m = serve_dataset P ch ctx u m"
proof -
  have "read_answer (Dataset_read W zero_dataset) (write_answer (\<lambda>d. JObject (Dataset_members W d))
      (answer_of cate_status (datasetRequestHandler P ch ctx i (Some m)))) = answer_of cate_status (datasetRequestHandler P ch ctx i (Some m))" for i
    using handler_dataset_fit[OF _ _ assms(3)] dataset_back(1)[OF assms(1)]
    by (intro answer_back) (fastforce simp: read_document_def dest!: answer_of_body)
  moreover have "decoded DatasetRequest_read (DatasetRequest_json m) = Some m"
    using catalog_requests_back(2)[OF assms(2)] by (simp add: decoded_def)
  ultimately show ?thesis
    by (simp add: ask_def serve_dataset_document_def serve_dataset_def read_answer_def split: option.split endpoint.split)
qed

text \<open>C24: asking a connector for its catalogue through the control service of another, with every request and
  answer written as a JSON document and read from it, gives exactly the datasets its provider service lists
  for the requester, in order, in the form \<open>as_listed\<close>: every description, keyword, size and checksum
  survives, but not the licence, the rights, the formats, the access methods and the parts of a second.
  Whatever error the provider service answers, the caller only sees that the provider is unavailable.\<close>

theorem catalogue_document_arrives:
  assumes "url_Parse L uri = Some u" and "uPath u = [] \<or> uPath u = ''/''"
    and "ct_version sv = (\<lambda>u. read_answer VersionResponse_read (serve_version_document W u))"
    and "ExtractRequesterInfo ctx = OK ri" and "rfc3339 T" and "ca_time ch = T" and "wire_laws W"
    and "\<And>ds. ca_catalogue ch ri = RpcOK ds \<Longrightarrow> list_all (\<lambda>d. listable P d \<and> int64 (rd_ByteSize d)) ds"
  shows "GetProviderCatalogue L sv T
      (ask CatalogRequest_json (CatalogAcknowledgement_read W) (serve_catalogue_document P W ch ctx)) uri =
    (case ca_catalogue ch ri of
       RpcOK ds \<Rightarrow> Reply (Some (map (as_listed P) ds))
     | RpcError c e \<Rightarrow> Status Code_Unavailable ''could not request'')"
proof -
  have version: "ct_version sv = serve_version" using assms(3) version_asked[OF assms(7)] by (simp add: fun_eq_iff)
  have sizes: "list_all (\<lambda>d. int64 (rd_ByteSize d)) ds" if "ExtractRequesterInfo ctx = OK ri'" "ca_catalogue ch ri' = RpcOK ds" for ri' ds
    using that assms(4) assms(8)[of ds] by (simp add: list_all_iff)
  have "GetProviderCatalogue L sv T (ask CatalogRequest_json (CatalogAcknowledgement_read W) (serve_catalogue_document P W ch ctx)) uri =
      GetProviderCatalogue L sv T (serve_catalogue P ch ctx) uri"
    using catalogue_asked[where P = P and m = "\<lparr>catm_Context = GetDSPContext, catm_Type = ''dspace:CatalogRequestMessage''\<rparr>",
        OF assms(7) _ sizes]
    by (simp add: GetProviderCatalogue_def encodeRequestDecode_def ValidateAndMarshal_def wf_DSPContext split: grpc_result.split option.split)
  moreover have "list_all (listable P) ds" if "ca_catalogue ch ri = RpcOK ds" for ds using assms(8)[OF that] by (simp add: list_all_iff)
  ultimately show ?thesis using catalogue_arrives[OF assms(1,2) version assms(4-6), of P] by simp
qed

text \<open>The same for one dataset.\<close>

lemma dataset_document_arrives:
  assumes "url_Parse L uri = Some u" and "uPath u = [] \<or> uPath u = ''/''"
    and "ct_version sv = (\<lambda>u. read_answer VersionResponse_read (serve_version_document W u))"
    and "ExtractRequesterInfo ctx = OK ri" and "rfc3339 T" and "ca_time ch = T" and "uuid_laws L" and "plain_seg i" and "wire_laws W"
    and "\<And>j ds. ca_dataset ch j ri = RpcOK ds \<Longrightarrow> listable L ds \<and> int64 (rd_ByteSize ds)"
  shows "GetProviderDataset L sv T
      (ask DatasetRequest_json (Dataset_read W zero_dataset) (serve_dataset_document L W ch ctx)) uri i =
    (case ca_dataset ch i ri of
       RpcOK ds \<Rightarrow> Reply (Some (uri, as_listed L ds))
     | RpcError c e \<Rightarrow> Status Code_Unavailable ''could not request'')"
proof -
  have version: "ct_version sv = serve_version" using assms(3) version_asked[OF assms(9)] by (simp add: fun_eq_iff)
  have sizes: "int64 (rd_ByteSize ds)" if "ExtractRequesterInfo ctx = OK ri'" "ca_dataset ch j ri' = RpcOK ds" for j ri' ds
    using that assms(4) assms(10)[of j ds] by simp
  have "GetProviderDataset L sv T (ask DatasetRequest_json (Dataset_read W zero_dataset) (serve_dataset_document L W ch ctx)) uri i =
      GetProviderDataset L sv T (serve_dataset L ch ctx) uri i"
    using dataset_asked[where P = L and m = "\<lparr>dsm_Context = GetDSPContext, dsm_Type = ''dspace:DatasetRequestMessage'',
        dsm_Dataset = IDToURN L i\<rparr>", OF assms(9) _ sizes]
    by (simp add: GetProviderDataset_def encodeRequestDecode_def ValidateAndMarshal_def wf_DSPContext split: grpc_result.split option.split)
  then show ?thesis using dataset_arrives[OF assms(1,2) version assms(4-8)] assms(10) by simp
qed

lemma catalogue_document_arrives_witness:
  "GetProviderCatalogue sample_lib
     (sample_control\<lparr>ct_version := \<lambda>u. read_answer VersionResponse_read (serve_version_document sample_wire u)\<rparr>) sample_time
     (ask CatalogRequest_json (CatalogAcknowledgement_read sample_wire)
       (serve_catalogue_document sample_lib sample_wire sample_catalog sample_ctx)) ''/'' =
   Reply (Some [as_listed sample_lib sample_dataset])"
proof -
  have "int64 (rd_ByteSize sample_dataset)" by (simp add: sample_dataset_def int64_def)
  then show ?thesis
    using catalogue_document_arrives[of sample_lib "''/''" "\<lparr>uPath = ''/'', uRest = []\<rparr>"
        "sample_control\<lparr>ct_version := \<lambda>u. read_answer VersionResponse_read (serve_version_document sample_wire u)\<rparr>"
        sample_wire sample_ctx sample_requester sample_time sample_catalog sample_lib] sample_listable
    by (simp add: sample_time_laws sample_catalog_def sample_ctx_def)
qed

end
