(* ===== verification/Spec2Isabelle.thy ===== *)
theory Spec2Isabelle
  imports Contract_Handlers_Facts Transfer_Handlers_Facts Reconciler_Facts Control_Facts Control_Transfer_Facts
    Catalog_Facts Auth_Forwarder Server_Facts Protocol_Runs Transfer_Protocol Reconciler_Workers Delivery Store_Types
    Migrations Server_Run Command Http_Chain Wire_Delivery Wire_Catalog
begin

text \<open>
  A model of RUN-DSP, a Go implementation of the dataspace protocol: two connectors negotiate a
  contract over a dataset and then transfer it. Each of them keeps negotiations and transfers in
  a SQLite database, answers the protocol's HTTP messages, is told by its own participant, over a
  control service, what to start, and sends its messages through a reconciler that retries them.

  Theories, in the order of the program:

    \<^item> \<open>Prelude\<close>, \<open>Go_Std\<close>: outcomes (value, error, panic), tables, and the parts of \<open>strings\<close>,
      \<open>strconv\<close> and \<open>path\<close> the code calls.
    \<^item> \<open>Identifiers\<close>: \<open>dsp/constants/roles.go\<close>, \<open>oid/oid.go\<close>, \<open>dsp/shared/id_helpers.go\<close>.
    \<^item> \<open>States\<close>: the two generated enumerations (\<open>states_enums.go\<close>, \<open>states_gob.go\<close>) and the tables
      \<open>validTransitions\<close> and \<open>validTransferTransitions\<close>; every form of a state can be read back, and
      paths of the tables only lead forward.
    \<^item> \<open>Jsonld\<close>, \<open>Odrl\<close>, \<open>Shared\<close>, \<open>Messages\<close>: contexts, policies, requester information, messages and
      their validation.
    \<^item> \<open>Wire\<close>, \<open>Wire_Facts\<close>, \<open>Wire_Roundtrip\<close>: the same structs as JSON documents, written and read by their
      tags (\<open>odrl/types.go\<close>, \<open>dsp/shared\<close>): every message is read back, a document is valid as one type of
      message only, and a column that holds an offer gives it back.
    \<^item> \<open>Negotiation\<close>, \<open>Transfer_Request\<close>: \<open>dsp/contract/negotiation.go\<close>, \<open>dsp/transfer/request.go\<close>,
      with their database rows; rows can be read back.
    \<^item> \<open>Contract_Machine\<close>: \<open>dsp/statemachine/contract_transitions.go\<close> and \<open>contract_messages.go\<close>: what
      each state accepts and sends, that this follows the tables, and that what one side sends the
      receive function of the other takes.
    \<^item> \<open>Transfer_Machine\<close>: the same for \<open>transfer_request_transitions.go\<close> and \<open>transfer_messages.go\<close>,
      with the calls to the provider service and the data addresses.
    \<^item> \<open>Store\<close>, \<open>Store_Facts\<close>, \<open>Store_Session\<close>: \<open>dsp/persistence/backends/sqlite\<close>: the savers over
      tables of rows, the lock column and its attempts, the invariant of the tables, and the locale
      of a store that the clients' proofs rest on.
    \<^item> \<open>Contract_Handlers\<close>, \<open>Transfer_Handlers\<close> and their \<open>Facts\<close>: \<open>dsp/contract_handlers.go\<close>,
      \<open>dsp/transfer_handlers.go\<close>, \<open>dsp/error_wrapper.go\<close>: what is answered, stored, queued and left
      locked.
    \<^item> \<open>Reconciler\<close>, \<open>Reconciler_Facts\<close>: \<open>dsp/statemachine/reconciler.go\<close>: queue, attempts, backoff,
      what an answered and what a failed message leaves behind. \<open>Reconciler_Workers\<close>: its goroutines as a
      step relation: every message is delivered, given up or still on its way, once each, and when they end.
    \<^item> \<open>Store_Types\<close>: typed rows: whatever the program does to the database, rows can be read, and reading
      them succeeds.
    \<^item> \<open>Control\<close>, \<open>Control_Facts\<close>: \<open>dsp/control/contracts.go\<close>, the methods for contracts: what they queue
      and store, and what becomes of a message that is queued twice. \<open>Control_Transfer\<close>,
      \<open>Control_Transfer_Facts\<close>: the transfer methods of \<open>dsp/control/control.go\<close>; their loops, which
      poll the storage until a state is reached, are partial functions, so that a wait that never
      returns is \<open>None\<close>, and it is shown when they return.
    \<^item> \<open>Catalog\<close>, \<open>Catalog_Facts\<close>: \<open>dsp/catalog_handlers.go\<close>, \<open>dsp/common_handlers.go\<close>,
      \<open>dsp/shared/catalog_types.go\<close> and the catalogue methods of the control service: what of a
      dataset arrives at the other participant. \<open>Wire_Catalog\<close>: its messages as JSON documents, which are
      read as they were written.
    \<^item> \<open>Auth_Forwarder\<close>: the gRPC interceptors, the signing round tripper and the middlewares of
      \<open>internal/authforwarder\<close>.
    \<^item> \<open>Routing\<close>, \<open>Routing_Facts\<close>: \<open>dsp/routing.go\<close> and where \<open>internal/server/command.go\<close> mounts it: no
      two routes overlap, and the URL of every contract message is routed to its handler; \<open>Transfer_Routing\<close>
      is the same for transfers. \<open>Wire_Delivery\<close>: the routes with the documents they are sent: what one
      connector writes is, at the handler of the other, the message it meant.
    \<^item> \<open>Protocol\<close>, \<open>Protocol_Facts\<close>, \<open>Protocol_Runs\<close>: two connectors as a step relation over the functions
      above, with calls of the control services, deliveries that are answered or not, and restarts that lose
      the queues: they stay in the same state or, after an unanswered delivery, one message apart, hold the
      same agreement, and come to one. A run to the end takes at most six deliveries and no call.
      \<open>Transfer_Protocol\<close>: the same for a transfer, which two deliveries start. \<open>Delivery\<close>: the reconciler of one database and the handler of another together take that
      step.
    \<^item> \<open>Server\<close>, \<open>Server_Facts\<close>: \<open>internal/server/command.go\<close>, \<open>internal/cfg\<close>: the settings with their flags
      and validation, the TLS credentials, and what \<open>Run\<close> opens, connects to and serves. \<open>Server_Run\<close>: how
      a running server ends, its goroutines as a step relation with the wait group.
    \<^item> \<open>Command\<close>: \<open>cmd/root/command.go\<close>, \<open>logging/logger.go\<close>: the program as a whole, from flags,
      environment and configuration file to the exit status.
    \<^item> \<open>Http_Chain\<close>: \<open>dsp/shared/http.go\<close>, \<open>dsp/metrics_middleware.go\<close> and, of the server, the stripped
      prefix and the middlewares: a request of one connector up to the routes of the other, and the identity
      it is served with, which is verified for the path that is left of its URL.
    \<^item> \<open>Migrations\<close>: the columns of the models, the initial migration and the run of the migrator.
    \<^item> \<open>Samples\<close>: concrete values for the witnesses.

  Conventions. A Go function that fails answers \<open>ERR\<close>, one that panics \<open>PANIC\<close>; methods that change
  their receiver or the database return it. Time, random numbers, fresh UUIDs, faults of the
  database and what others write meanwhile are arguments. The UUID and URL packages, time formats,
  gRPC metadata, the services of the participant and what a peer answers are parameters; what is
  documented of them stands in \<open>uuid_laws\<close>, \<open>rfc3339\<close>, \<open>metadata_laws\<close>, \<open>wire_laws\<close> and the like. Retries of a lock
  are bounded as in the code, and no other fuel is used: the reconciler is followed one tick, or one
  move of a goroutine, at a time.

  Not modelled: logging, tracing and the interceptors that count, which only observe; the coloured
  output; foreign keys of the schema; the generated mocks. JSON is modelled up to documents, as trees
  of values, not as text, and for strings that are UTF-8, the only ones \<open>encoding/json\<close> keeps; outside
  of the \<open>Wire\<close> theories a message arrives as the value that was sent, as \<open>Wire_Delivery\<close> and
  \<open>Wire_Catalog\<close> show it does. The parts of a struct that only hold a client of a library have no field.
\<close>

end
